(* ===== verification/Akabbo_Prelude.thy ===== *)
theory Akabbo_Prelude
  imports Main "HOL-Library.Char_ord" "HOL-Library.Multiset"
begin

text \<open>
  Shared vocabulary of the development: the TypeScript idioms the services use (nullish
  coalescing, truthiness of an optional string, decimal rendering of a bigint, the ISO form
  of a date, JSON snapshots), the relational operations on a table held as a list of rows
  (first match, guarded update, guarded delete, guarded sum) with the lemmas every component
  proof uses about them, and the named collections the proofs are driven by.
\<close>

section \<open>Collections\<close>

named_theorems prims \<open>definitions of the table primitives, unfolded by component proofs\<close>
named_theorems frames \<open>what a primitive leaves unchanged\<close>

section \<open>Names for the scalar types of the program\<close>

type_synonym uuid = string
type_synonym time = int  \<comment> \<open>a \<open>Date\<close>: milliseconds since the epoch\<close>
type_synonym money = int  \<comment> \<open>a \<open>bigint\<close> amount in minor units\<close>

section \<open>TypeScript idioms\<close>

text \<open>\<open>x ?? d\<close>, and the two tests on an optional argument: \<open>if (s)\<close> fails on a missing
  and on an empty string, \<open>if (b)\<close> on a missing and on a false flag.\<close>

fun nullish :: "'a option \<Rightarrow> 'a \<Rightarrow> 'a" where
  "nullish None d = d"
| "nullish (Some x) d = x"

fun nullish_opt :: "'a option \<Rightarrow> 'a option \<Rightarrow> 'a option" where
  "nullish_opt None d = d"
| "nullish_opt (Some x) d = Some x"

definition truthy_str :: "string option \<Rightarrow> bool" where
  "truthy_str s = (s \<noteq> None \<and> s \<noteq> Some '''')"

definition truthy_flag :: "bool option \<Rightarrow> bool" where
  "truthy_flag b = (b = Some True)"

lemma truthy_str_simps [simp]:
  "\<not> truthy_str None" "truthy_str (Some s) \<longleftrightarrow> s \<noteq> ''''"
  by (auto simp: truthy_str_def)

lemma truthy_str_Some: "truthy_str s \<Longrightarrow> \<exists>v. s = Some v \<and> v \<noteq> ''''"
  by (auto simp: truthy_str_def)

lemma truthy_flag_simps [simp]:
  "\<not> truthy_flag None" "truthy_flag (Some b) \<longleftrightarrow> b"
  by (auto simp: truthy_flag_def)

section \<open>Decimal strings\<close>

text \<open>\<open>BigInt.prototype.toString\<close> and its inverse on digit strings.\<close>

definition digit_char :: "nat \<Rightarrow> char" where
  "digit_char d = char_of (48 + d)"

definition char_digit :: "char \<Rightarrow> nat" where
  "char_digit c = of_char c - 48"

definition is_digit :: "char \<Rightarrow> bool" where
  "is_digit c = (48 \<le> (of_char c :: nat) \<and> (of_char c :: nat) \<le> 57)"

fun nat_to_dec :: "nat \<Rightarrow> string" where
  "nat_to_dec n = (if n < 10 then [digit_char n] else nat_to_dec (n div 10) @ [digit_char (n mod 10)])"

declare nat_to_dec.simps [simp del]

definition int_to_dec :: "int \<Rightarrow> string" where
  "int_to_dec i = (if i < 0 then CHR ''-'' # nat_to_dec (nat (- i)) else nat_to_dec (nat i))"

definition dec_to_nat :: "string \<Rightarrow> nat" where
  "dec_to_nat s = foldl (\<lambda>a c. 10 * a + char_digit c) 0 s"

lemma of_char_digit_char: "d < 10 \<Longrightarrow> (of_char (digit_char d) :: nat) = 48 + d"
  by (simp add: digit_char_def)

lemma is_digit_digit_char [simp]: "d < 10 \<Longrightarrow> is_digit (digit_char d)"
  by (simp add: is_digit_def of_char_digit_char)

lemma char_digit_digit_char [simp]: "d < 10 \<Longrightarrow> char_digit (digit_char d) = d"
  by (simp add: char_digit_def of_char_digit_char)

lemma nat_to_dec_nonempty [simp]: "nat_to_dec n \<noteq> []"
  by (subst nat_to_dec.simps) simp

lemma nat_to_dec_digits: "list_all is_digit (nat_to_dec n)"
proof (induction n rule: nat_to_dec.induct)
  case (1 n)
  then show ?case by (subst nat_to_dec.simps) simp
qed

lemma dec_to_nat_snoc: "dec_to_nat (s @ [c]) = 10 * dec_to_nat s + char_digit c"
  by (simp add: dec_to_nat_def)

lemma dec_to_nat_single: "dec_to_nat [c] = char_digit c"
  by (simp add: dec_to_nat_def)

lemma dec_to_nat_nat_to_dec [simp]: "dec_to_nat (nat_to_dec n) = n"
proof (induction n rule: nat_to_dec.induct)
  case (1 n)
  show ?case
  proof (cases "n < 10")
    case True
    then show ?thesis by (subst nat_to_dec.simps) (simp add: dec_to_nat_single)
  next
    case False
    with "1" have "dec_to_nat (nat_to_dec (n div 10)) = n div 10" by simp
    moreover have "10 * (n div 10) + n mod 10 = n" by presburger
    ultimately show ?thesis using False
      by (subst nat_to_dec.simps) (simp add: dec_to_nat_snoc)
  qed
qed

lemma nat_to_dec_inject [simp]: "nat_to_dec m = nat_to_dec n \<longleftrightarrow> m = n"
  by (metis dec_to_nat_nat_to_dec)

lemma minus_not_digit: "\<not> is_digit CHR ''-''"
  by (simp add: is_digit_def)

lemma minus_not_nat_to_dec: "CHR ''-'' # s \<noteq> nat_to_dec n"
proof
  assume "CHR ''-'' # s = nat_to_dec n"
  then have "list_all is_digit (CHR ''-'' # s)" by (metis nat_to_dec_digits)
  then show False using minus_not_digit by simp
qed

lemma int_to_dec_inject [simp]: "int_to_dec i = int_to_dec j \<longleftrightarrow> i = j"
  using minus_not_nat_to_dec by (auto simp: int_to_dec_def) metis+

section \<open>\<open>Date.prototype.toISOString\<close>\<close>

text \<open>The proleptic Gregorian date of a day number (days since 1970-01-01), and the
  rendering \<open>YYYY-MM-DDTHH:mm:ss.sssZ\<close>; years outside 0..9999 take a sign and six digits,
  as ECMAScript prescribes.\<close>

definition pad :: "nat \<Rightarrow> int \<Rightarrow> string" where
  "pad w n = (let s = nat_to_dec (nat n) in replicate (w - length s) CHR ''0'' @ s)"

definition civil_of_days :: "int \<Rightarrow> int \<times> int \<times> int" where
  "civil_of_days z0 =
     (let z = z0 + 719468;
          era = z div 146097;
          doe = z mod 146097;
          yoe = (doe - doe div 1460 + doe div 36524 - doe div 146096) div 365;
          doy = doe - (365 * yoe + yoe div 4 - yoe div 100);
          mp = (5 * doy + 2) div 153;
          d = doy - (153 * mp + 2) div 5 + 1;
          m = (if mp < 10 then mp + 3 else mp - 9);
          y = yoe + era * 400 + (if m \<le> 2 then 1 else 0)
      in (y, m, d))"

definition iso_year :: "int \<Rightarrow> string" where
  "iso_year y = (if 0 \<le> y \<and> y \<le> 9999 then pad 4 y
     else if y < 0 then CHR ''-'' # pad 6 (- y) else CHR ''+'' # pad 6 y)"

definition toISOString :: "time \<Rightarrow> string" where
  "toISOString t =
     (let days = t div 86400000; ms = t mod 86400000; (y, m, d) = civil_of_days days
      in iso_year y @ ''-'' @ pad 2 m @ ''-'' @ pad 2 d @ ''T''
         @ pad 2 (ms div 3600000) @ '':'' @ pad 2 (ms div 60000 mod 60) @ '':''
         @ pad 2 (ms div 1000 mod 60) @ ''.'' @ pad 3 (ms mod 1000) @ ''Z'')"

section \<open>JSON snapshots\<close>

text \<open>The values the services store in \<open>audit_event.old_value\<close>, \<open>new_value\<close> and
  \<open>outbox.payload\<close>. A property whose value is \<open>undefined\<close> is not serialised, so an object
  is built from optional values by \<open>json_obj\<close>.\<close>

datatype json =
    JNull | JBool bool | JInt int | JStr string | JArr "json list" | JObj "(string \<times> json) list"

definition json_obj :: "(string \<times> json option) list \<Rightarrow> json" where
  "json_obj kvs = JObj [(k, the v). (k, v) \<leftarrow> kvs, v \<noteq> None]"

definition jstr_or_null :: "string option \<Rightarrow> json" where
  "jstr_or_null s = (case s of None \<Rightarrow> JNull | Some v \<Rightarrow> JStr v)"

fun json_field :: "json \<Rightarrow> string \<Rightarrow> json option" where
  "json_field (JObj kvs) k = map_of kvs k"
| "json_field _ k = None"

lemma json_obj_simps [simp]:
  "json_obj [] = JObj []"
  "json_obj ((k, Some v) # kvs) = (case json_obj kvs of JObj r \<Rightarrow> JObj ((k, v) # r) | j \<Rightarrow> j)"
  "json_obj ((k, None) # kvs) = json_obj kvs"
  by (simp_all add: json_obj_def)

section \<open>Tables as lists of rows\<close>

text \<open>\<open>findFirst\<close> is \<open>List.find\<close>; the other statements of a query are these.\<close>

definition update_where :: "('r \<Rightarrow> bool) \<Rightarrow> ('r \<Rightarrow> 'r) \<Rightarrow> 'r list \<Rightarrow> 'r list" where
  "update_where P f rows = map (\<lambda>r. if P r then f r else r) rows"

definition delete_where :: "('r \<Rightarrow> bool) \<Rightarrow> 'r list \<Rightarrow> 'r list" where
  "delete_where P rows = filter (\<lambda>r. \<not> P r) rows"

definition sum_where :: "('r \<Rightarrow> bool) \<Rightarrow> ('r \<Rightarrow> int) \<Rightarrow> 'r list \<Rightarrow> int" where
  "sum_where P v rows = sum_list (map v (filter P rows))"

definition count_where :: "('r \<Rightarrow> bool) \<Rightarrow> 'r list \<Rightarrow> nat" where
  "count_where P rows = length (filter P rows)"

definition order_desc :: "('r \<Rightarrow> int) \<Rightarrow> 'r list \<Rightarrow> 'r list" where
  "order_desc k rows = sort_key (\<lambda>r. - k r) rows"

lemma find_SomeD: "List.find P xs = Some x \<Longrightarrow> x \<in> set xs \<and> P x"
  by (induction xs) (auto split: if_splits)

lemma find_Some_in: "List.find P xs = Some x \<Longrightarrow> x \<in> set xs"
  and find_Some_sat: "List.find P xs = Some x \<Longrightarrow> P x"
  by (auto dest: find_SomeD)

lemma find_None_all: "List.find P xs = None \<longleftrightarrow> (\<forall>x\<in>set xs. \<not> P x)"
  by (induction xs) auto

lemma find_append: "List.find P (xs @ ys) =
  (case List.find P xs of None \<Rightarrow> List.find P ys | Some x \<Rightarrow> Some x)"
  by (induction xs) auto

lemma find_filter: "List.find P (filter Q xs) = List.find (\<lambda>x. Q x \<and> P x) xs"
  by (induction xs) auto

lemma find_unique:
  assumes "distinct (map k xs)" "x \<in> set xs" "P x" "\<And>y. y \<in> set xs \<Longrightarrow> P y \<Longrightarrow> k y = k x"
  shows "List.find P xs = Some x"
proof (cases "List.find P xs")
  case None
  with assms show ?thesis by (auto simp: find_None_all)
next
  case (Some y)
  then have "y \<in> set xs" "P y" by (auto dest: find_SomeD)
  with assms have "k y = k x" by blast
  with assms(1,2) \<open>y \<in> set xs\<close> have "y = x" by (auto simp: distinct_map dest: inj_onD)
  with Some show ?thesis by simp
qed

lemma update_where_Nil [simp]: "update_where P f [] = []"
  and update_where_Cons [simp]:
    "update_where P f (r # rs) = (if P r then f r else r) # update_where P f rs"
  and update_where_append [simp]:
    "update_where P f (xs @ ys) = update_where P f xs @ update_where P f ys"
  and length_update_where [simp]: "length (update_where P f xs) = length xs"
  by (simp_all add: update_where_def)

lemma set_update_where: "set (update_where P f xs) = (\<lambda>r. if P r then f r else r) ` set xs"
  by (simp add: update_where_def)

lemma in_update_where:
  "x \<in> set (update_where P f xs) \<longleftrightarrow> (\<exists>r\<in>set xs. (P r \<and> x = f r) \<or> (\<not> P r \<and> x = r))"
  by (auto simp: set_update_where)

lemma map_update_where_same:
  "(\<And>r. k (f r) = k r) \<Longrightarrow> map k (update_where P f xs) = map k xs"
  by (simp add: update_where_def)

lemma update_where_none: "(\<And>r. r \<in> set xs \<Longrightarrow> \<not> P r) \<Longrightarrow> update_where P f xs = xs"
  by (induction xs) auto

lemma filter_update_where_same:
  "(\<And>r. r \<in> set xs \<Longrightarrow> Q (f r) = Q r) \<Longrightarrow>
   filter Q (update_where P f xs) = update_where P f (filter Q xs)"
  by (induction xs) auto

lemma filter_update_where_disjoint:
  "(\<And>r. r \<in> set xs \<Longrightarrow> P r \<Longrightarrow> \<not> Q r \<and> \<not> Q (f r)) \<Longrightarrow>
   filter Q (update_where P f xs) = filter Q xs"
  by (induction xs) auto

lemma filter_delete_where_disjoint:
  "(\<And>r. r \<in> set xs \<Longrightarrow> Q r \<Longrightarrow> \<not> P r) \<Longrightarrow> filter Q (delete_where P xs) = filter Q xs"
  by (induction xs) (auto simp: delete_where_def)

lemma set_delete_where [simp]: "set (delete_where P xs) = {x \<in> set xs. \<not> P x}"
  by (auto simp: delete_where_def)

lemma sum_where_Nil [simp]: "sum_where P v [] = 0"
  and sum_where_Cons [simp]: "sum_where P v (x # xs) = (if P x then v x else 0) + sum_where P v xs"
  and sum_where_append [simp]: "sum_where P v (xs @ ys) = sum_where P v xs + sum_where P v ys"
  by (simp_all add: sum_where_def)

lemma sum_where_filter [simp]: "sum_where P v (filter Q xs) = sum_where (\<lambda>x. Q x \<and> P x) v xs"
  by (induction xs) auto

lemma sum_where_cong:
  "xs = ys \<Longrightarrow> (\<And>x. x \<in> set ys \<Longrightarrow> P x = Q x) \<Longrightarrow>
   (\<And>x. x \<in> set ys \<Longrightarrow> Q x \<Longrightarrow> v x = w x) \<Longrightarrow> sum_where P v xs = sum_where Q w ys"
  by (induction ys arbitrary: xs) auto

lemma sum_where_none: "(\<And>x. x \<in> set xs \<Longrightarrow> \<not> P x) \<Longrightarrow> sum_where P v xs = 0"
  by (induction xs) auto

lemma sum_where_nonneg: "(\<And>x. x \<in> set xs \<Longrightarrow> P x \<Longrightarrow> 0 \<le> v x) \<Longrightarrow> 0 \<le> sum_where P v xs"
  by (induction xs) auto

lemma sum_where_mono:
  "(\<And>x. x \<in> set xs \<Longrightarrow> P x \<Longrightarrow> 0 \<le> v x) \<Longrightarrow> (\<And>x. x \<in> set xs \<Longrightarrow> Q x \<Longrightarrow> P x) \<Longrightarrow>
   sum_where Q v xs \<le> sum_where P v xs"
proof (induction xs)
  case Nil
  then show ?case by simp
next
  case (Cons a xs)
  then have "sum_where Q v xs \<le> sum_where P v xs" by simp
  moreover have "(if Q a then v a else 0) \<le> (if P a then v a else 0)"
    using Cons.prems by simp
  ultimately show ?case by simp
qed

lemma sum_where_update_same:
  "(\<And>r. r \<in> set xs \<Longrightarrow> P (f r) = P r) \<Longrightarrow> (\<And>r. r \<in> set xs \<Longrightarrow> v (f r) = v r) \<Longrightarrow>
   sum_where P v (update_where U f xs) = sum_where P v xs"
  by (induction xs) auto

lemma sum_where_update_other:
  "(\<And>r. r \<in> set xs \<Longrightarrow> U r \<Longrightarrow> \<not> P r \<and> \<not> P (f r)) \<Longrightarrow>
   sum_where P v (update_where U f xs) = sum_where P v xs"
  by (induction xs) auto

lemma update_where_cong:
  "(\<And>r. r \<in> set xs \<Longrightarrow> P r = Q r) \<Longrightarrow> update_where P f xs = update_where Q f xs"
  by (induction xs) auto

lemma update_where_id [simp]: "update_where P (\<lambda>r. r) xs = xs"
  by (induction xs) auto

text \<open>Replacing the value of the one row with a given key changes the sum by the difference.\<close>

lemma sum_where_replace:
  assumes "distinct (map k xs)" "x \<in> set xs" "k x = i" "P x"
    and "\<And>r. r \<in> set xs \<Longrightarrow> k r = i \<Longrightarrow> U r" "\<And>r. r \<in> set xs \<Longrightarrow> U r \<Longrightarrow> k r = i"
    and "\<And>r. P (f r) = P r" "v (f x) = n"
  shows "sum_where P v (update_where U f xs) = sum_where (\<lambda>r. P r \<and> k r \<noteq> i) v xs + n"
  using assms
proof (induction xs)
  case Nil
  then show ?case by simp
next
  case (Cons y ys)
  show ?case
  proof (cases "k y = i")
    case True
    with Cons.prems(1-3) have y: "y = x" by (auto simp: image_iff)
    have "i \<notin> k ` set ys" using Cons.prems(1) True by simp
    then have others: "\<And>r. r \<in> set ys \<Longrightarrow> k r \<noteq> i" by auto
    then have "\<And>r. r \<in> set ys \<Longrightarrow> \<not> U r" using Cons.prems(6) by auto
    then have "update_where U f ys = ys" by (rule update_where_none)
    moreover have "sum_where P v ys = sum_where (\<lambda>r. P r \<and> k r \<noteq> i) v ys"
      using others by (auto intro: sum_where_cong)
    ultimately show ?thesis using True Cons.prems(4-8) y by simp
  next
    case False
    with Cons.prems have "x \<in> set ys" by auto
    moreover have "distinct (map k ys)" using Cons.prems(1) by simp
    moreover have "\<And>r. r \<in> set ys \<Longrightarrow> k r = i \<Longrightarrow> U r" "\<And>r. r \<in> set ys \<Longrightarrow> U r \<Longrightarrow> k r = i"
      using Cons.prems(5,6) by auto
    ultimately have "sum_where P v (update_where U f ys) = sum_where (\<lambda>r. P r \<and> k r \<noteq> i) v ys + n"
      using Cons.IH Cons.prems(3,4,7,8) by blast
    moreover have "\<not> U y" using Cons.prems(6) False by auto
    ultimately show ?thesis using False by simp
  qed
qed

lemma count_where_append [simp]: "count_where P (xs @ ys) = count_where P xs + count_where P ys"
  and count_where_Nil [simp]: "count_where P [] = 0"
  and count_where_Cons [simp]: "count_where P (x # xs) = (if P x then 1 else 0) + count_where P xs"
  by (simp_all add: count_where_def)

lemma count_where_pos: "0 < count_where P xs \<longleftrightarrow> (\<exists>x\<in>set xs. P x)"
  by (induction xs) auto

lemma mset_order_desc [simp]: "mset (order_desc k xs) = mset xs"
  and set_order_desc [simp]: "set (order_desc k xs) = set xs"
  and length_order_desc [simp]: "length (order_desc k xs) = length xs"
  by (simp_all add: order_desc_def)

lemma order_desc_sorted: "sorted_wrt (\<lambda>a b. k a \<ge> k b) (order_desc k xs)"
proof -
  have "sorted (map (\<lambda>r. - k r) (order_desc k xs))"
    by (simp add: order_desc_def)
  then show ?thesis by (simp add: sorted_map)
qed

section \<open>Results\<close>

text \<open>A transaction body yields an error or a new store with a value; a service call yields a
  store in any case, since an operation may commit before it throws.\<close>

lemma sum_case_Inr_iff:
  "(case m of Inl e \<Rightarrow> Inl e | Inr x \<Rightarrow> f x) = Inr y \<longleftrightarrow> (\<exists>x. m = Inr x \<and> f x = Inr y)"
  by (cases m) auto

end
