(* ===== verification/Money.thy ===== *)
theory Money
  imports Complex_Main Akabbo_Prelude
begin

text \<open>
  Money and the derived state of a pledge: \<^verbatim>\<open>libs/ledger/src/money.ts\<close> (rendering a bigint,
  parsing an incoming amount) and \<^verbatim>\<open>libs/ledger/src/pledge-status.ts\<close> (status and
  outstanding amount, derived from the numbers alone). A JavaScript number is its exact
  rational value, or not finite; a bigint is an \<open>int\<close>.
\<close>

section \<open>money.ts\<close>

datatype js_value =
    JsBigint int
  | JsNumber rat
  | JsNonFinite  \<comment> \<open>NaN and the infinities\<close>
  | JsString string
  | JsOther  \<comment> \<open>undefined, null, booleans, objects\<close>

definition moneyToString :: "money \<Rightarrow> string" where
  "moneyToString value = int_to_dec value"

definition assertNonNegative :: "int \<Rightarrow> string + money" where
  "assertNonNegative v = (if v < 0 then Inl ''Amount must be non-negative'' else Inr v)"

definition number_isInteger :: "rat \<Rightarrow> bool" where
  "number_isInteger q = (of_int \<lfloor>q\<rfloor> = q)"

fun parseMoney :: "js_value \<Rightarrow> string + money" where
  "parseMoney (JsBigint i) = assertNonNegative i"
| "parseMoney (JsNumber q) =
     (if \<not> number_isInteger q then Inl ''Amount must be an integer number of minor units''
      else assertNonNegative \<lfloor>q\<rfloor>)"
| "parseMoney JsNonFinite = Inl ''Amount must be an integer number of minor units''"
| "parseMoney (JsString s) =
     (if s \<noteq> [] \<and> list_all is_digit s then assertNonNegative (int (dec_to_nat s))
      else Inl ''Amount must be a non-negative integer (minor units)'')"
| "parseMoney JsOther = Inl ''Amount must be a non-negative integer (minor units)''"

lemma parseMoney_nonneg: "parseMoney x = Inr v \<Longrightarrow> 0 \<le> v"
  by (cases x) (auto simp: assertNonNegative_def split: if_splits)

text \<open>An amount written by \<open>moneyToString\<close> and read back by \<open>parseMoney\<close> is the same amount
  when it is non-negative, and a negative amount is rejected: the decimal string is a faithful
  JSON form of a stored amount.\<close>

theorem money_roundtrip:
  "parseMoney (JsString (moneyToString v)) =
     (if 0 \<le> v then Inr v else Inl ''Amount must be a non-negative integer (minor units)'')"
  using nat_to_dec_digits minus_not_digit
  by (auto simp: moneyToString_def int_to_dec_def assertNonNegative_def)

lemma moneyToString_inject [simp]: "moneyToString a = moneyToString b \<longleftrightarrow> a = b"
  by (simp add: moneyToString_def)

section \<open>pledge-status.ts\<close>

datatype pledge_status = PLEDGED | PARTIALLY_FULFILLED | FULFILLED | CANCELLED

definition deriveStatus :: "money \<Rightarrow> money \<Rightarrow> bool \<Rightarrow> pledge_status" where
  "deriveStatus committedValue totalFulfilled cancelled =
     (if cancelled then CANCELLED
      else if totalFulfilled \<le> 0 then PLEDGED
      else if totalFulfilled \<ge> committedValue then FULFILLED
      else PARTIALLY_FULFILLED)"

definition outstanding :: "money \<Rightarrow> money \<Rightarrow> money" where
  "outstanding committedValue totalFulfilled =
     (let remaining = committedValue - totalFulfilled in if remaining > 0 then remaining else 0)"

lemma outstanding_max: "outstanding c t = max 0 (c - t)"
  by (simp add: outstanding_def Let_def)

lemma outstanding_nonneg [simp]: "0 \<le> outstanding c t"
  by (simp add: outstanding_max)

lemma deriveStatus_cancelled [simp]: "deriveStatus c t True = CANCELLED"
  by (simp add: deriveStatus_def)

lemma deriveStatus_eq_CANCELLED [simp]: "deriveStatus c t b = CANCELLED \<longleftrightarrow> b"
  by (simp add: deriveStatus_def)

lemma deriveStatus_zero [simp]: "deriveStatus c 0 False = PLEDGED"
  by (simp add: deriveStatus_def)

text \<open>Status and outstanding amount tell the same story: for a pledge that is not cancelled
  and on which something was received, FULFILLED is exactly "nothing outstanding", and
  PARTIALLY_FULFILLED is exactly "outstanding, but less than committed"; received plus
  outstanding always covers the commitment and exceeds it only by an over-payment.\<close>

theorem status_outstanding_agree:
  "(0 < t \<longrightarrow>
      (deriveStatus c t False = FULFILLED \<longleftrightarrow> outstanding c t = 0)
    \<and> (deriveStatus c t False = PARTIALLY_FULFILLED \<longleftrightarrow>
         0 < outstanding c t \<and> outstanding c t < c))
   \<and> t + outstanding c t = max c t"
  by (auto simp: deriveStatus_def outstanding_def Let_def)

theorem status_outstanding_agree_witness:
  "deriveStatus 500 200 False = PARTIALLY_FULFILLED \<and> outstanding 500 200 = 300"
  using status_outstanding_agree [of 200 500] by (simp add: deriveStatus_def outstanding_def)

end
