(* ===== verification/Access.thy ===== *)
theory Access
  imports Akabbo_Prelude
begin

text \<open>
  The two in-memory gates of \<^verbatim>\<open>libs/access\<close>: the permission matrix
  (\<^verbatim>\<open>permission.service.ts\<close> over the closed catalogue \<^verbatim>\<open>actions.ts\<close>) and the event-status gate
  (\<^verbatim>\<open>event-status.ts\<close>), with the actor and operation context of \<^verbatim>\<open>actor.ts\<close> and the exceptions
  the services throw. Roles are a linear order, strongest last, as the schema's comment on
  \<open>EventRole\<close> has it (OWNER strongest, VIEWER weakest).
\<close>

section \<open>Exceptions\<close>

datatype db_error =
    UniqueViolation  \<comment> \<open>Prisma P2002\<close>
  | ForeignKeyViolation  \<comment> \<open>Prisma P2003\<close>
  | RecordNotFound  \<comment> \<open>Prisma P2025\<close>
  | RlsViolation  \<comment> \<open>a row refused by a policy's WITH CHECK\<close>
  | TransactionAborted  \<comment> \<open>PostgreSQL 25P02: a statement after a failed one\<close>

datatype error =
    Forbidden string
  | NotFound string
  | Conflict string
  | BadRequest string
  | DuplicateSuspected uuid string string
  | PhoneAlreadyAttached uuid string string
  | Unauthorized string
  | Thrown string  \<comment> \<open>an error that is not an HTTP exception\<close>
  | Db db_error

section \<open>Roles, statuses, actions\<close>

datatype event_role = OWNER | CO_OWNER | COORDINATOR | FINANCE | VIEWER

datatype event_status = DRAFT | ACTIVE | PAUSED | CLOSED | ARCHIVED

datatype action =
    Event_read | Event_update | Member_manage
  | Person_write | Person_merge | Pledge_write | Pledge_cancel
  | Fulfillment_write | Fulfillment_correct
  | Ledger_read_funding | Ledger_read_amounts
  | Budget_read | Budget_write | Group_read | Group_write
  | Document_upload | Document_read
  | Public_configure | Announcement_read | Announcement_write
  | Payment_instruction_read | Payment_instruction_write
  | Sms_send | Sms_read

fun role_str :: "event_role \<Rightarrow> string" where
  "role_str OWNER = ''OWNER''"
| "role_str CO_OWNER = ''CO_OWNER''"
| "role_str COORDINATOR = ''COORDINATOR''"
| "role_str FINANCE = ''FINANCE''"
| "role_str VIEWER = ''VIEWER''"

fun action_str :: "action \<Rightarrow> string" where
  "action_str Event_read = ''event:read''"
| "action_str Event_update = ''event:update''"
| "action_str Member_manage = ''member:manage''"
| "action_str Person_write = ''person:write''"
| "action_str Person_merge = ''person:merge''"
| "action_str Pledge_write = ''pledge:write''"
| "action_str Pledge_cancel = ''pledge:cancel''"
| "action_str Fulfillment_write = ''fulfillment:write''"
| "action_str Fulfillment_correct = ''fulfillment:correct''"
| "action_str Ledger_read_funding = ''ledger:read_funding''"
| "action_str Ledger_read_amounts = ''ledger:read_amounts''"
| "action_str Budget_read = ''budget:read''"
| "action_str Budget_write = ''budget:write''"
| "action_str Group_read = ''group:read''"
| "action_str Group_write = ''group:write''"
| "action_str Document_upload = ''document:upload''"
| "action_str Document_read = ''document:read''"
| "action_str Public_configure = ''public:configure''"
| "action_str Announcement_read = ''announcement:read''"
| "action_str Announcement_write = ''announcement:write''"
| "action_str Payment_instruction_read = ''payment_instruction:read''"
| "action_str Payment_instruction_write = ''payment_instruction:write''"
| "action_str Sms_send = ''sms:send''"
| "action_str Sms_read = ''sms:read''"

text \<open>The order of strength of the roles.\<close>

fun role_rank :: "event_role \<Rightarrow> nat" where
  "role_rank OWNER = 4"
| "role_rank CO_OWNER = 3"
| "role_rank COORDINATOR = 2"
| "role_rank FINANCE = 1"
| "role_rank VIEWER = 0"

lemma role_rank_inject: "role_rank r = role_rank s \<Longrightarrow> r = s"
  by (cases r; cases s; simp)

instantiation event_role :: linorder
begin

definition less_eq_event_role :: "event_role \<Rightarrow> event_role \<Rightarrow> bool" where
  "less_eq_event_role r s = (role_rank r \<le> role_rank s)"

definition less_event_role :: "event_role \<Rightarrow> event_role \<Rightarrow> bool" where
  "less_event_role r s = (role_rank r < role_rank s)"

instance
  by standard (auto simp: less_eq_event_role_def less_event_role_def dest: role_rank_inject)

end

section \<open>permission.service.ts\<close>

definition FULL_LEDGER :: "action list" where
  "FULL_LEDGER =
     [Person_write, Person_merge, Pledge_write, Pledge_cancel, Fulfillment_write,
      Fulfillment_correct, Ledger_read_funding, Ledger_read_amounts, Budget_read,
      Budget_write, Group_read, Group_write, Document_upload, Document_read]"

definition PUBLISHING :: "action list" where
  "PUBLISHING =
     [Announcement_read, Announcement_write, Payment_instruction_read,
      Payment_instruction_write, Sms_send, Sms_read]"

fun MATRIX :: "event_role \<Rightarrow> action list" where
  "MATRIX OWNER =
     [Event_read, Event_update, Member_manage, Public_configure] @ FULL_LEDGER @ PUBLISHING"
| "MATRIX CO_OWNER =
     [Event_read, Event_update, Member_manage, Public_configure] @ FULL_LEDGER @ PUBLISHING"
| "MATRIX COORDINATOR = [Event_read, Event_update] @ FULL_LEDGER @ PUBLISHING"
| "MATRIX FINANCE = [Event_read] @ FULL_LEDGER"
| "MATRIX VIEWER = [Event_read, Ledger_read_funding, Budget_read, Group_read]"

definition can :: "event_role \<Rightarrow> action \<Rightarrow> bool" where
  "can role action = (action \<in> set (MATRIX role))"

definition perm_assert :: "event_role \<Rightarrow> action \<Rightarrow> error + unit" where
  "perm_assert role action =
     (if \<not> can role action
      then Inl (Forbidden (''Role '' @ role_str role @ '' may not perform '' @ action_str action))
      else Inr ())"

section \<open>event-status.ts\<close>

definition WRITABLE :: "event_status list" where
  "WRITABLE = [DRAFT, ACTIVE, PAUSED]"

definition isWritable :: "event_status \<Rightarrow> bool" where
  "isWritable status = (status \<in> set WRITABLE)"

fun status_lower :: "event_status \<Rightarrow> string" where
  "status_lower DRAFT = ''draft''"
| "status_lower ACTIVE = ''active''"
| "status_lower PAUSED = ''paused''"
| "status_lower CLOSED = ''closed''"
| "status_lower ARCHIVED = ''archived''"

definition assertEventWritable :: "event_status \<Rightarrow> error + unit" where
  "assertEventWritable status =
     (if \<not> isWritable status
      then Inl (Forbidden (''This event is '' @ status_lower status
                 @ '' and is read-only. Reopen it to make changes.''))
      else Inr ())"

section \<open>actor.ts\<close>

record actor =
  userId :: uuid
  phoneVerified :: bool

record event_context =
  ctx_eventId :: uuid
  ctx_role :: event_role
  ctx_status :: event_status

record operation_context =
  ctx_actor :: actor
  ctx_event :: event_context

abbreviation ctx_ev :: "operation_context \<Rightarrow> uuid" where
  "ctx_ev ctx \<equiv> ctx_eventId (ctx_event ctx)"

abbreviation ctx_user :: "operation_context \<Rightarrow> uuid" where
  "ctx_user ctx \<equiv> userId (ctx_actor ctx)"

section \<open>Facts about the gates\<close>

lemma perm_assert_Inr [simp]: "perm_assert r a = Inr u \<longleftrightarrow> can r a"
  by (auto simp: perm_assert_def)

lemma perm_assert_Inl: "\<not> can r a \<Longrightarrow> \<exists>m. perm_assert r a = Inl (Forbidden m)"
  by (simp add: perm_assert_def)

lemma perm_assert_can [simp]: "can r a \<Longrightarrow> perm_assert r a = Inr ()"
  by simp

lemma assertEventWritable_Inr [simp]: "assertEventWritable s = Inr u \<longleftrightarrow> isWritable s"
  by (auto simp: assertEventWritable_def)

lemma assertEventWritable_ok [simp]: "isWritable s \<Longrightarrow> assertEventWritable s = Inr ()"
  by simp

lemma isWritable_iff: "isWritable s \<longleftrightarrow> s \<noteq> CLOSED \<and> s \<noteq> ARCHIVED"
  by (cases s) (simp_all add: isWritable_def WRITABLE_def)

lemmas matrix_simps = can_def FULL_LEDGER_def PUBLISHING_def

text \<open>The permission matrix is monotone in the strength of the role, an owner may do every
  action of the closed catalogue, and the weakest role holds no write and no read of amounts:
  raising someone's role never takes a permission away.\<close>

theorem permission_monotone:
  "(r \<le> s \<and> can r a \<longrightarrow> can s a) \<and> can OWNER a
   \<and> (can VIEWER a \<longrightarrow> a \<in> {Event_read, Ledger_read_funding, Budget_read, Group_read})"
proof -
  have "can r a \<Longrightarrow> role_rank r \<le> role_rank s \<Longrightarrow> can s a"
    by (cases r; cases s; auto simp: matrix_simps)
  moreover have "can OWNER a" by (cases a) (simp_all add: matrix_simps)
  moreover have "can VIEWER a \<Longrightarrow> a \<in> {Event_read, Ledger_read_funding, Budget_read, Group_read}"
    by (simp add: matrix_simps)
  ultimately show ?thesis by (auto simp: less_eq_event_role_def)
qed

theorem permission_monotone_witness:
  "FINANCE \<le> COORDINATOR \<and> can FINANCE Pledge_write \<and> can COORDINATOR Pledge_write"
  using permission_monotone [of FINANCE COORDINATOR Pledge_write]
  by (simp add: less_eq_event_role_def matrix_simps)

end
