(* ===== verification/Schema.thy ===== *)
theory Schema
  imports Money Access
begin

text \<open>
  The relational state of \<^verbatim>\<open>prisma/schema.prisma\<close> as a record of tables (lists of rows in
  insertion order), the row-level-security policies of the migrations, and the statements the
  services issue through Prisma. A row id is drawn from \<open>uuid\<close>, an arbitrary sequence that
  stands for the database's \<open>uuid()\<close> default; the clock is an argument of the operations.
  Columns no modelled service reads (\<open>updatedAt\<close>, the raw text layer of an extraction) are left
  out.

\<close>

section \<open>Enumerations\<close>

datatype membership_status = M_INVITED | M_ACTIVE | M_REMOVED
datatype invitation_status = I_PENDING | I_ACCEPTED | I_EXPIRED | I_REVOKED
datatype pledge_type = CASH | ITEM | SERVICE
datatype fulfillment_kind = PAYMENT | DELIVERY
datatype payment_method = MTN | AIRTEL | M_CASH | BANK | OTHER | UNKNOWN
datatype verification_status = REPORTED | UNVERIFIED | VERIFIED
datatype provenance =
    human_typed | ai_from_chat | ai_from_document | ai_from_payment_sms
  | manual_correction | import_source | ai_suggested
datatype outbox_status = O_PENDING | O_PROCESSED | O_FAILED
datatype group_kind =
    FAMILY_SIDE | FAMILY | FRIENDS | WORKMATES | CHURCH | SCHOOL | VILLAGE
  | COMMITTEE | DIASPORA | CLAN | OTHER_GROUP
datatype plan_scope = EVENT_SCOPE | ACCOUNT_SCOPE
datatype grant_status = TRIALING | G_ACTIVE | PAST_DUE | G_EXPIRED | G_CANCELLED
datatype ledger_kind = GRANT | DEDUCT | RESERVE | COMMIT | REFUND
datatype sms_campaign_kind = REMINDER | ANNOUNCEMENT_SMS | THANK_YOU | CUSTOM_SMS
datatype sms_campaign_status = SC_QUEUED | SC_SENDING | SC_SENT | SC_PARTIAL | SC_FAILED
datatype sms_status = SMS_QUEUED | SMS_SENT | SMS_DELIVERED | SMS_FAILED
datatype file_kind =
    PROFILE_PHOTO | DOCUMENT_FILE | DOCUMENT_PHOTO | PAYMENT_EVIDENCE | CONTRIBUTION_EVIDENCE | EVENT_PHOTO
datatype document_status =
    DOC_UPLOADED | DOC_PROCESSING | DOC_PROCESSED | DOC_FAILED | DOC_REQUIRES_REVIEW | DOC_APPROVED
datatype extraction_kind = BUDGET_DOC | CONTRIBUTION_LIST | UNKNOWN_DOC
datatype chat_role = CR_user | CR_assistant
datatype knowledge_source_type =
    manual_entry | public_article | user_upload | akabbo_aggregate | admin_upload
datatype knowledge_reliability = K_LOW | K_MEDIUM | K_HIGH
datatype knowledge_extraction = K_manual | ai_extraction_reviewed | ai_extraction_live
datatype budget_tier = Tier_budget | Tier_mid | Tier_premium
datatype contributor_visibility = NAMES_AND_AMOUNTS | NAMES_ONLY | AGGREGATE_ONLY | CONTRIBUTORS_HIDDEN
datatype budget_visibility = BUDGET_PUBLIC | PARTIALLY_PUBLIC | BUDGET_HIDDEN
datatype announcement_status = AN_DRAFT | AN_PUBLISHED | AN_ARCHIVED
datatype confirmation_status = PC_PENDING | PC_CONFIRMED | PC_REJECTED | PC_EXPIRED
datatype usage_kind = Llm_call | Sms_usage | Doc_usage | Storage_usage
datatype invoice_status = INV_PENDING | INV_PAID | INV_FAILED | INV_CANCELLED

section \<open>Rows\<close>

record user_row =
  u_id :: uuid
  u_phone :: "string option"
  u_phoneVerified :: bool
  u_email :: "string option"
  u_emailVerified :: bool
  u_displayName :: "string option"
  u_createdAt :: time

record event_row =
  e_id :: uuid
  e_name :: string
  e_slug :: string
  e_status :: event_status
  e_ownerUserId :: uuid
  e_currency :: string
  e_targetAmount :: "money option"
  e_eventDate :: "time option"
  e_timezone :: string
  e_country :: string
  e_description :: "string option"
  e_isPublic :: bool
  e_publicAccessToken :: "string option"
  e_contributorVisibility :: contributor_visibility
  e_budgetVisibility :: budget_visibility
  e_showTarget :: bool
  e_showOutstanding :: bool
  e_publicRevision :: int
  e_createdAt :: time

record member_row =
  m_id :: uuid
  m_eventId :: uuid
  m_userId :: uuid
  m_role :: event_role
  m_status :: membership_status
  m_invitedById :: "uuid option"
  m_createdAt :: time

record invitation_row =
  i_id :: uuid
  i_eventId :: uuid
  i_token :: string
  i_role :: event_role
  i_status :: invitation_status
  i_invitedPhone :: "string option"
  i_invitedById :: uuid
  i_maxUses :: int
  i_uses :: int
  i_expiresAt :: time
  i_acceptedById :: "uuid option"
  i_acceptedAt :: "time option"
  i_createdAt :: time

record person_row =
  pe_id :: uuid
  pe_eventId :: uuid
  pe_displayName :: string
  pe_phone :: "string option"
  pe_userId :: "uuid option"
  pe_source :: provenance
  pe_createdById :: "uuid option"
  pe_createdAt :: time

record pledge_row =
  pl_id :: uuid
  pl_eventId :: uuid
  pl_personId :: uuid
  pl_type :: pledge_type
  pl_committedValue :: money
  pl_status :: pledge_status
  pl_targetBudgetItemId :: "uuid option"
  pl_description :: "string option"
  pl_quantity :: "int option"
  pl_unit :: "string option"
  pl_estimatedValue :: "money option"
  pl_isDirect :: bool
  pl_source :: provenance
  pl_createdById :: "uuid option"
  pl_createdAt :: time

record fulfillment_row =
  f_id :: uuid
  f_eventId :: uuid
  f_pledgeId :: uuid
  f_kind :: fulfillment_kind
  f_value :: money
  f_currency :: string
  f_method :: payment_method
  f_verificationStatus :: verification_status
  f_note :: "string option"
  f_occurredAt :: time
  f_idempotencyKey :: "string option"
  f_source :: provenance
  f_createdById :: "uuid option"
  f_createdAt :: time

record budget_row =
  b_id :: uuid
  b_eventId :: uuid
  b_name :: string
  b_createdAt :: time

record budget_item_row =
  bi_id :: uuid
  bi_eventId :: uuid
  bi_budgetId :: uuid
  bi_name :: string
  bi_targetValue :: money
  bi_isPublic :: bool
  bi_source :: provenance
  bi_confidence :: "rat option"
  bi_sourceDocumentId :: "uuid option"
  bi_createdById :: "uuid option"
  bi_version :: int
  bi_createdAt :: time

record allocation_row =
  a_id :: uuid
  a_eventId :: uuid
  a_fulfillmentId :: uuid
  a_budgetItemId :: uuid
  a_value :: money
  a_createdAt :: time

record audit_row =
  au_id :: uuid
  au_eventId :: uuid
  au_actorUserId :: "uuid option"
  au_action :: string
  au_resourceType :: string
  au_resourceId :: string
  au_source :: provenance
  au_oldValue :: json
  au_newValue :: json
  au_createdAt :: time

record outbox_row =
  ob_id :: uuid
  ob_eventId :: uuid
  ob_topic :: string
  ob_payload :: json
  ob_status :: outbox_status
  ob_idempotencyKey :: string
  ob_attempts :: int
  ob_createdAt :: time
  ob_processedAt :: "time option"

record group_row =
  gr_id :: uuid
  gr_eventId :: uuid
  gr_name :: string
  gr_kind :: group_kind
  gr_createdById :: "uuid option"
  gr_createdAt :: time

record person_group_row =
  pg_id :: uuid
  pg_eventId :: uuid
  pg_personId :: uuid
  pg_groupId :: uuid
  pg_role :: "string option"
  pg_createdAt :: time

record file_row =
  fo_id :: uuid
  fo_eventId :: uuid
  fo_kind :: file_kind
  fo_storageKey :: string
  fo_mimeType :: string
  fo_sizeBytes :: int
  fo_sha256 :: string
  fo_originalFilename :: "string option"
  fo_personId :: "uuid option"
  fo_uploadedById :: "uuid option"
  fo_createdAt :: time

record sms_campaign_row =
  smc_id :: uuid
  smc_eventId :: uuid
  smc_kind :: sms_campaign_kind
  smc_body :: string
  smc_status :: sms_campaign_status
  smc_recipientCount :: int
  smc_createdById :: "uuid option"
  smc_createdAt :: time

record sms_message_row =
  sm_id :: uuid
  sm_eventId :: uuid
  sm_campaignId :: "uuid option"
  sm_personId :: "uuid option"
  sm_toPhone :: string
  sm_body :: string
  sm_status :: sms_status
  sm_segments :: int
  sm_providerMessageId :: "string option"
  sm_reserveKey :: string
  sm_error :: "string option"
  sm_sentAt :: "time option"
  sm_createdAt :: time

record document_row =
  d_id :: uuid
  d_eventId :: uuid
  d_fileId :: uuid
  d_kind :: extraction_kind
  d_status :: document_status
  d_error :: "string option"
  d_attempts :: int
  d_uploadedById :: "uuid option"
  d_processedAt :: "time option"
  d_createdAt :: time

record extraction_row =
  x_id :: uuid
  x_eventId :: uuid
  x_documentId :: uuid
  x_kind :: extraction_kind
  x_structured :: json
  x_confidence :: "rat option"
  x_model :: "string option"
  x_itemCount :: int
  x_createdAt :: time

record announcement_row =
  an_id :: uuid
  an_eventId :: uuid
  an_body :: string
  an_status :: announcement_status
  an_source :: provenance
  an_createdById :: "uuid option"
  an_publishedAt :: "time option"
  an_createdAt :: time

record instruction_row =
  pi_id :: uuid
  pi_eventId :: uuid
  pi_method :: payment_method
  pi_label :: string
  pi_details :: string
  pi_displayOrder :: int
  pi_isPublic :: bool
  pi_createdById :: "uuid option"
  pi_createdAt :: time

record otp_row =
  otp_id :: uuid
  otp_phone :: "string option"
  otp_email :: "string option"
  otp_codeHash :: string
  otp_expiresAt :: time
  otp_consumedAt :: "time option"
  otp_attempts :: int
  otp_createdAt :: time

text \<open>A resolved action of the assistant as the confirmation payload stores it
  (\<^verbatim>\<open>libs/ai/src/tool-executor.service.ts\<close>); amounts are strings there.\<close>

datatype stored_action =
    SA_add_person string "string option" "bool option"
  | SA_record_pledge "uuid option" string string "pledge_type option" "string option" "string option" "uuid option"
  | SA_record_pledge_with_payment "uuid option" string string string "pledge_type option" "string option"
      "string option" "uuid option"
  | SA_record_payment uuid string string
  | SA_record_direct_contribution "uuid option" string string "string option" "pledge_type option"
      "string option" "uuid option"
  | SA_create_budget_item string string "uuid option"
  | SA_update_budget_item uuid string string
  | SA_remove_budget_item uuid string
  | SA_allocate_to_budget uuid uuid string string string
  | SA_correct_pledge uuid string string
  | SA_correct_payment uuid string string
  | SA_merge_people uuid uuid string string
  | SA_send_sms_reminders string
  | SA_invite_member event_role "string option" "string option"
  | SA_get_outstanding_pledge uuid string
  | SA_get_summary

record confirmation_row =
  pc_id :: uuid
  pc_eventId :: uuid
  pc_intent :: string
  pc_payload :: stored_action
  pc_confidence :: "rat option"
  pc_source :: provenance
  pc_status :: confirmation_status
  pc_prompt :: string
  pc_createdById :: "uuid option"
  pc_createdAt :: time
  pc_resolvedById :: "uuid option"
  pc_resolvedAt :: "time option"

record usage_row =
  ue_id :: uuid
  ue_eventId :: uuid
  ue_kind :: usage_kind
  ue_quantity :: int
  ue_costMicroUsd :: int
  ue_tokensIn :: "int option"
  ue_tokensOut :: "int option"
  ue_model :: "string option"
  ue_meta :: "json option"
  ue_createdAt :: time

record conversation_row =
  cv_id :: uuid
  cv_userId :: uuid
  cv_activeEventId :: "uuid option"
  cv_title :: "string option"
  cv_createdAt :: time
  cv_updatedAt :: time

record chat_message_row =
  cm_id :: uuid
  cm_conversationId :: uuid
  cm_role :: chat_role
  cm_content :: string
  cm_createdAt :: time

record knowledge_source_row =
  ks_id :: uuid
  ks_sourceType :: knowledge_source_type
  ks_name :: string
  ks_url :: "string option"
  ks_publishedAt :: "time option"
  ks_collectedAt :: time
  ks_reliability :: knowledge_reliability
  ks_licensingNote :: string
  ks_extractionMethod :: knowledge_extraction
  ks_storageKey :: "string option"
  ks_originalFilename :: "string option"
  ks_mimeType :: "string option"
  ks_createdAt :: time

record observation_row =
  kb_id :: uuid
  kb_sourceId :: uuid
  kb_eventType :: string
  kb_region :: "string option"
  kb_tier :: "budget_tier option"
  kb_category :: string
  kb_item :: "string option"
  kb_amountMin :: "money option"
  kb_amountMax :: "money option"
  kb_unit :: "string option"
  kb_commonlyForgotten :: bool
  kb_confidence :: rat
  kb_observedAt :: time
  kb_createdAt :: time

record billing_account_row =
  ba_id :: uuid
  ba_ownerUserId :: uuid
  ba_createdAt :: time

record plan_row =
  pn_id :: uuid
  pn_code :: string
  pn_name :: string
  pn_scope :: plan_scope
  pn_priceMinor :: money
  pn_currency :: string
  pn_maxContributors :: "int option"
  pn_includedSmsCredits :: int
  pn_includedAiCredits :: int
  pn_features :: "string list"
  pn_isSubscription :: bool

record grant_row =
  g_id :: uuid
  g_planId :: uuid
  g_eventId :: "uuid option"
  g_accountId :: "uuid option"
  g_status :: grant_status
  g_periodStart :: time
  g_periodEnd :: "time option"
  g_createdAt :: time

record credit_row =
  cr_id :: uuid
  cr_eventId :: "uuid option"
  cr_accountId :: "uuid option"
  cr_kind :: ledger_kind
  cr_amount :: int
  cr_idempotencyKey :: string
  cr_reference :: "string option"
  cr_createdAt :: time

record invoice_row =
  in_id :: uuid
  in_billingAccountId :: uuid
  in_planId :: "uuid option"
  in_eventId :: "uuid option"
  in_amountMinor :: money
  in_currency :: string
  in_status :: invoice_status
  in_reference :: string
  in_gatewayTransactionId :: "string option"
  in_stuckAlertSentAt :: "time option"
  in_createdAt :: time

section \<open>The database\<close>

record store =
  uuid :: "nat \<Rightarrow> uuid"
  drawn :: nat
  users :: "user_row list"
  events :: "event_row list"
  members :: "member_row list"
  invitations :: "invitation_row list"
  persons :: "person_row list"
  pledges :: "pledge_row list"
  fulfillments :: "fulfillment_row list"
  budgets :: "budget_row list"
  budget_items :: "budget_item_row list"
  allocations :: "allocation_row list"
  audits :: "audit_row list"
  outbox :: "outbox_row list"
  groups :: "group_row list"
  person_groups :: "person_group_row list"
  files :: "file_row list"
  sms_messages :: "sms_message_row list"
  documents :: "document_row list"
  billing_accounts :: "billing_account_row list"
  plans :: "plan_row list"
  grants :: "grant_row list"
  sms_ledger :: "credit_row list"
  ai_ledger :: "credit_row list"
  invoices :: "invoice_row list"
  sms_campaigns :: "sms_campaign_row list"
  extractions :: "extraction_row list"
  announcements :: "announcement_row list"
  instructions :: "instruction_row list"
  otp_challenges :: "otp_row list"
  confirmations :: "confirmation_row list"
  usage_events :: "usage_row list"
  conversations :: "conversation_row list"
  chat_messages :: "chat_message_row list"
  knowledge_sources :: "knowledge_source_row list"
  observations :: "observation_row list"

definition fresh_id :: "store \<Rightarrow> uuid" where
  "fresh_id st = uuid st (drawn st)"

definition draw :: "store \<Rightarrow> store" where
  "draw st = st\<lparr>drawn := Suc (drawn st)\<rparr>"

text \<open>A store with every table empty, whose ids are the strings of
  one or more letters \<open>x\<close>.\<close>

definition empty_store :: store where
  "empty_store = \<lparr>uuid = (\<lambda>n. replicate (Suc n) CHR ''x''), drawn = 0, users = [], events = [],
     members = [], invitations = [], persons = [], pledges = [], fulfillments = [], budgets = [],
     budget_items = [], allocations = [], audits = [], outbox = [], groups = [],
     person_groups = [], files = [], sms_messages = [], documents = [], billing_accounts = [],
     plans = [], grants = [], sms_ledger = [], ai_ledger = [], invoices = [],
     sms_campaigns = [], extractions = [], announcements = [], instructions = [], otp_challenges = [],
     confirmations = [], usage_events = [],
     conversations = [], chat_messages = [], knowledge_sources = [], observations = []\<rparr>"

text \<open>What an operation reads besides the store: the clock, and the plan catalogue the
  entitlement service memoised (\<open>None\<close> before its first use).\<close>

record env =
  now :: time
  plan_cache :: "plan_row list option"

section \<open>Sessions and row-level security\<close>

text \<open>
  The transaction-local settings the policies read, and whether a statement of the transaction
  has already failed: PostgreSQL refuses every further statement of an aborted transaction.
  Outside a transaction no setting is set, so a policy matches no row.
\<close>

record session =
  cur_event :: "uuid option"
  cur_user :: "uuid option"
  worker_mode :: bool
  aborted :: bool

definition no_session :: session where
  "no_session = \<lparr>cur_event = None, cur_user = None, worker_mode = False, aborted = False\<rparr>"

definition tenant_visible :: "session \<Rightarrow> uuid \<Rightarrow> bool" where
  "tenant_visible s eid = (cur_event s = Some eid)"

definition member_visible :: "session \<Rightarrow> member_row \<Rightarrow> bool" where
  "member_visible s r = (cur_event s = Some (m_eventId r) \<or> cur_user s = Some (m_userId r))"

definition outbox_visible :: "session \<Rightarrow> uuid \<Rightarrow> bool" where
  "outbox_visible s eid = (cur_event s = Some eid \<or> worker_mode s)"

section \<open>Statements on a tenant table\<close>

type_synonym 'a tx = "session \<Rightarrow> store \<Rightarrow> error + (store \<times> 'a)"

definition tbl_visible :: "('r \<Rightarrow> uuid) \<Rightarrow> session \<Rightarrow> 'r list \<Rightarrow> 'r list" where
  "tbl_visible ev s rows = filter (\<lambda>r. tenant_visible s (ev r)) rows"

definition tbl_create ::
  "(store \<Rightarrow> 'r list) \<Rightarrow> ('r list \<Rightarrow> store \<Rightarrow> store) \<Rightarrow> ('r \<Rightarrow> uuid) \<Rightarrow> (uuid \<Rightarrow> 'r) \<Rightarrow> 'r tx" where
  "tbl_create rows put ev mk s st =
     (let r = mk (fresh_id st) in
      if aborted s then Inl (Db TransactionAborted)
      else if \<not> tenant_visible s (ev r) then Inl (Db RlsViolation)
      else Inr (put (rows st @ [r]) (draw st), r))"

definition tbl_update ::
  "(store \<Rightarrow> 'r list) \<Rightarrow> ('r list \<Rightarrow> store \<Rightarrow> store) \<Rightarrow> ('r \<Rightarrow> uuid) \<Rightarrow> ('r \<Rightarrow> uuid) \<Rightarrow>
   uuid \<Rightarrow> ('r \<Rightarrow> 'r) \<Rightarrow> 'r tx" where
  "tbl_update rows put ev key i f s st =
     (if aborted s then Inl (Db TransactionAborted)
      else case List.find (\<lambda>r. key r = i) (tbl_visible ev s (rows st)) of
        None \<Rightarrow> Inl (Db RecordNotFound)
      | Some r \<Rightarrow>
          Inr (put (update_where (\<lambda>r. tenant_visible s (ev r) \<and> key r = i) f (rows st)) st, f r))"

definition tbl_update_many ::
  "(store \<Rightarrow> 'r list) \<Rightarrow> ('r list \<Rightarrow> store \<Rightarrow> store) \<Rightarrow> ('r \<Rightarrow> uuid) \<Rightarrow>
   ('r \<Rightarrow> bool) \<Rightarrow> ('r \<Rightarrow> 'r) \<Rightarrow> nat tx" where
  "tbl_update_many rows put ev P f s st =
     (if aborted s then Inl (Db TransactionAborted)
      else Inr (put (update_where (\<lambda>r. tenant_visible s (ev r) \<and> P r) f (rows st)) st,
                count_where P (tbl_visible ev s (rows st))))"

section \<open>Transactions\<close>

text \<open>\<open>prisma.$transaction\<close>: a body that throws leaves the store as it was.\<close>

type_synonym 'a svc = "store \<Rightarrow> store \<times> (error + 'a)"

definition transaction :: "session \<Rightarrow> 'a tx \<Rightarrow> 'a svc" where
  "transaction s body st = (case body s st of Inl e \<Rightarrow> (st, Inl e) | Inr (st', v) \<Rightarrow> (st', Inr v))"

definition setTenant :: "session \<Rightarrow> uuid \<Rightarrow> session" where
  "setTenant s eventId = s\<lparr>cur_event := Some eventId\<rparr>"

definition setCurrentUser :: "session \<Rightarrow> uuid \<Rightarrow> session" where
  "setCurrentUser s user = s\<lparr>cur_user := Some user\<rparr>"

definition runInEvent :: "uuid \<Rightarrow> 'a tx \<Rightarrow> 'a svc" where
  "runInEvent eventId body = transaction (setTenant no_session eventId) body"

definition runCreatingEvent ::
  "((session \<Rightarrow> uuid \<Rightarrow> session) \<Rightarrow> 'a tx) \<Rightarrow> 'a svc" where
  "runCreatingEvent body = transaction no_session (body setTenant)"

definition runAsUser :: "uuid \<Rightarrow> 'a tx \<Rightarrow> 'a svc" where
  "runAsUser user body = transaction (setCurrentUser no_session user) body"

definition runAsWorker :: "'a tx \<Rightarrow> 'a svc" where
  "runAsWorker body = transaction (no_session\<lparr>worker_mode := True\<rparr>) body"

text \<open>The two lines every mutating service method starts with, and the one every read starts
  with: the permission gate, then the event-status gate.\<close>

definition permitted :: "operation_context \<Rightarrow> action \<Rightarrow> 'a svc \<Rightarrow> 'a svc" where
  "permitted ctx a body st =
     (case perm_assert (ctx_role (ctx_event ctx)) a of
        Inl e \<Rightarrow> (st, Inl e)
      | Inr _ \<Rightarrow> body st)"

definition gated :: "operation_context \<Rightarrow> action \<Rightarrow> 'a svc \<Rightarrow> 'a svc" where
  "gated ctx a body =
     permitted ctx a
       (\<lambda>st. case assertEventWritable (ctx_status (ctx_event ctx)) of
          Inl e \<Rightarrow> (st, Inl e)
        | Inr _ \<Rightarrow> body st)"

end
