(* ===== verification/Tables.thy ===== *)
theory Tables
  imports Schema
begin

text \<open>
  The statements the ledger services issue, table by table, with the constraints the schema
  and the migrations put on them (unique keys, foreign keys, cascade rules; row-level security
  comes from the generic statements of Schema), the sequencing of statements in a transaction,
  and the two writers every mutation uses: \<^verbatim>\<open>audit.writer.ts\<close> and \<^verbatim>\<open>outbox.writer.ts\<close>.
  Constraint checks see every row, as PostgreSQL's do, whatever the policies hide. Foreign keys
  that a service has checked itself in the same transaction, or that are the caller's own
  event or user id, are not checked again.

  The locale \<open>tenant_table\<close> is the interface the services rely on: a table of rows with a
  tenant, that is one component of the store. Each table of the ledger is an instance.
\<close>

section \<open>Sequencing\<close>

definition await :: "'a tx \<Rightarrow> ('a \<Rightarrow> 'b tx) \<Rightarrow> 'b tx" where
  "await m k s st = (case m s st of Inl e \<Rightarrow> Inl e | Inr (st', x) \<Rightarrow> k x s st')"

definition ret :: "'a \<Rightarrow> 'a tx" where
  "ret x s st = Inr (st, x)"

definition throw :: "error \<Rightarrow> 'a tx" where
  "throw e s st = Inl e"

definition query :: "(session \<Rightarrow> store \<Rightarrow> 'a) \<Rightarrow> 'a tx" where
  "query f s st = (if aborted s then Inl (Db TransactionAborted) else Inr (st, f s st))"

lemma ret_simp [simp]: "ret x s st = Inr (st, x)"
  and throw_simp [simp]: "throw e s st = Inl e"
  by (simp_all add: ret_def throw_def)

lemma query_simp [simp]: "\<not> aborted s \<Longrightarrow> query f s st = Inr (st, f s st)"
  by (simp add: query_def)

lemma await_Inr_iff [simp]:
  "await m k s st = Inr (st', y) \<longleftrightarrow> (\<exists>st1 x. m s st = Inr (st1, x) \<and> k x s st1 = Inr (st', y))"
  by (auto simp: await_def split: sum.splits prod.splits)

lemma await_Inl: "m s st = Inl e \<Longrightarrow> await m k s st = Inl e"
  and await_Inr: "m s st = Inr (st1, x) \<Longrightarrow> await m k s st = k x s st1"
  by (simp_all add: await_def)

lemma await_query [simp]: "\<not> aborted s \<Longrightarrow> await (query f) k s st = k (f s st) s st"
  by (simp add: await_def)

lemma await_ret [simp]: "await (ret x) k = k x"
  by (simp add: await_def fun_eq_iff)

lemma await_throw [simp]: "await (throw e) k = throw e"
  by (simp add: await_def fun_eq_iff)

abbreviation in_event :: "uuid \<Rightarrow> session" where
  "in_event eid \<equiv> setTenant no_session eid"

lemma session_simps [simp]:
  "cur_event (setTenant s e) = Some e" "cur_user (setTenant s e) = cur_user s"
  "worker_mode (setTenant s e) = worker_mode s" "aborted (setTenant s e) = aborted s"
  "cur_event (setCurrentUser s u) = cur_event s" "cur_user (setCurrentUser s u) = Some u"
  "aborted (setCurrentUser s u) = aborted s"
  "cur_event no_session = None" "cur_user no_session = None"
  "\<not> worker_mode no_session" "\<not> aborted no_session"
  by (simp_all add: setTenant_def setCurrentUser_def no_session_def)

lemma tenant_visible_simps [simp]:
  "tenant_visible (setTenant s e) eid \<longleftrightarrow> eid = e" "\<not> tenant_visible no_session eid"
  by (auto simp: tenant_visible_def)

lemma draw_simps [simp]:
  "uuid (draw st) = uuid st" "drawn (draw st) = Suc (drawn st)" "users (draw st) = users st"
  "events (draw st) = events st" "members (draw st) = members st"
  "invitations (draw st) = invitations st" "persons (draw st) = persons st"
  "pledges (draw st) = pledges st" "fulfillments (draw st) = fulfillments st"
  "budgets (draw st) = budgets st" "budget_items (draw st) = budget_items st"
  "allocations (draw st) = allocations st" "audits (draw st) = audits st"
  "outbox (draw st) = outbox st" "groups (draw st) = groups st"
  "person_groups (draw st) = person_groups st" "files (draw st) = files st"
  "sms_messages (draw st) = sms_messages st" "documents (draw st) = documents st"
  "billing_accounts (draw st) = billing_accounts st" "plans (draw st) = plans st"
  "grants (draw st) = grants st" "sms_ledger (draw st) = sms_ledger st"
  "ai_ledger (draw st) = ai_ledger st" "invoices (draw st) = invoices st"
  "sms_campaigns (draw st) = sms_campaigns st" "extractions (draw st) = extractions st"
  "announcements (draw st) = announcements st" "instructions (draw st) = instructions st"
  "otp_challenges (draw st) = otp_challenges st" "confirmations (draw st) = confirmations st"
  "usage_events (draw st) = usage_events st" "conversations (draw st) = conversations st"
  "chat_messages (draw st) = chat_messages st" "knowledge_sources (draw st) = knowledge_sources st"
  "observations (draw st) = observations st"
  by (simp_all add: draw_def)

lemma transaction_Inr [simp]:
  "transaction s body st = (st', Inr v) \<longleftrightarrow> body s st = Inr (st', v)"
  by (auto simp: transaction_def split: sum.splits)

lemma transaction_Inl: "transaction s body st = (st', Inl e) \<longleftrightarrow> body s st = Inl e \<and> st' = st"
  by (auto simp: transaction_def split: sum.splits)

lemma gated_Inr [simp]:
  "gated ctx a body st = (st', Inr v) \<longleftrightarrow>
     can (ctx_role (ctx_event ctx)) a \<and> isWritable (ctx_status (ctx_event ctx)) \<and> body st = (st', Inr v)"
  by (auto simp: gated_def permitted_def perm_assert_def assertEventWritable_def)

lemma gated_Inl:
  "gated ctx a body st = (st', Inl e) \<Longrightarrow> (st' = st \<or> body st = (st', Inl e))"
  by (auto simp: gated_def permitted_def split: sum.splits)

lemma permitted_Inr [simp]:
  "permitted ctx a body st = (st', Inr v) \<longleftrightarrow>
     can (ctx_role (ctx_event ctx)) a \<and> body st = (st', Inr v)"
  by (auto simp: permitted_def perm_assert_def)

section \<open>The tables\<close>

abbreviation visible_persons :: "session \<Rightarrow> store \<Rightarrow> person_row list" where
  "visible_persons s st \<equiv> tbl_visible pe_eventId s (persons st)"
abbreviation visible_pledges :: "session \<Rightarrow> store \<Rightarrow> pledge_row list" where
  "visible_pledges s st \<equiv> tbl_visible pl_eventId s (pledges st)"
abbreviation visible_fulfillments :: "session \<Rightarrow> store \<Rightarrow> fulfillment_row list" where
  "visible_fulfillments s st \<equiv> tbl_visible f_eventId s (fulfillments st)"
abbreviation visible_budgets :: "session \<Rightarrow> store \<Rightarrow> budget_row list" where
  "visible_budgets s st \<equiv> tbl_visible b_eventId s (budgets st)"
abbreviation visible_budget_items :: "session \<Rightarrow> store \<Rightarrow> budget_item_row list" where
  "visible_budget_items s st \<equiv> tbl_visible bi_eventId s (budget_items st)"
abbreviation visible_allocations :: "session \<Rightarrow> store \<Rightarrow> allocation_row list" where
  "visible_allocations s st \<equiv> tbl_visible a_eventId s (allocations st)"
abbreviation visible_audits :: "session \<Rightarrow> store \<Rightarrow> audit_row list" where
  "visible_audits s st \<equiv> tbl_visible au_eventId s (audits st)"
abbreviation visible_groups :: "session \<Rightarrow> store \<Rightarrow> group_row list" where
  "visible_groups s st \<equiv> tbl_visible gr_eventId s (groups st)"
abbreviation visible_person_groups :: "session \<Rightarrow> store \<Rightarrow> person_group_row list" where
  "visible_person_groups s st \<equiv> tbl_visible pg_eventId s (person_groups st)"

definition visible_members :: "session \<Rightarrow> store \<Rightarrow> member_row list" where
  "visible_members s st = filter (member_visible s) (members st)"

abbreviation put_persons :: "person_row list \<Rightarrow> store \<Rightarrow> store" where
  "put_persons rs st \<equiv> st\<lparr>persons := rs\<rparr>"
abbreviation put_pledges :: "pledge_row list \<Rightarrow> store \<Rightarrow> store" where
  "put_pledges rs st \<equiv> st\<lparr>pledges := rs\<rparr>"
abbreviation put_fulfillments :: "fulfillment_row list \<Rightarrow> store \<Rightarrow> store" where
  "put_fulfillments rs st \<equiv> st\<lparr>fulfillments := rs\<rparr>"
abbreviation put_budgets :: "budget_row list \<Rightarrow> store \<Rightarrow> store" where
  "put_budgets rs st \<equiv> st\<lparr>budgets := rs\<rparr>"
abbreviation put_budget_items :: "budget_item_row list \<Rightarrow> store \<Rightarrow> store" where
  "put_budget_items rs st \<equiv> st\<lparr>budget_items := rs\<rparr>"
abbreviation put_allocations :: "allocation_row list \<Rightarrow> store \<Rightarrow> store" where
  "put_allocations rs st \<equiv> st\<lparr>allocations := rs\<rparr>"
abbreviation put_audits :: "audit_row list \<Rightarrow> store \<Rightarrow> store" where
  "put_audits rs st \<equiv> st\<lparr>audits := rs\<rparr>"
abbreviation put_groups :: "group_row list \<Rightarrow> store \<Rightarrow> store" where
  "put_groups rs st \<equiv> st\<lparr>groups := rs\<rparr>"
abbreviation put_person_groups :: "person_group_row list \<Rightarrow> store \<Rightarrow> store" where
  "put_person_groups rs st \<equiv> st\<lparr>person_groups := rs\<rparr>"
abbreviation put_files :: "file_row list \<Rightarrow> store \<Rightarrow> store" where
  "put_files rs st \<equiv> st\<lparr>files := rs\<rparr>"
abbreviation put_sms_campaigns :: "sms_campaign_row list \<Rightarrow> store \<Rightarrow> store" where
  "put_sms_campaigns rs st \<equiv> st\<lparr>sms_campaigns := rs\<rparr>"
abbreviation put_sms_messages :: "sms_message_row list \<Rightarrow> store \<Rightarrow> store" where
  "put_sms_messages rs st \<equiv> st\<lparr>sms_messages := rs\<rparr>"
abbreviation put_documents :: "document_row list \<Rightarrow> store \<Rightarrow> store" where
  "put_documents rs st \<equiv> st\<lparr>documents := rs\<rparr>"
abbreviation put_extractions :: "extraction_row list \<Rightarrow> store \<Rightarrow> store" where
  "put_extractions rs st \<equiv> st\<lparr>extractions := rs\<rparr>"
abbreviation put_announcements :: "announcement_row list \<Rightarrow> store \<Rightarrow> store" where
  "put_announcements rs st \<equiv> st\<lparr>announcements := rs\<rparr>"
abbreviation put_instructions :: "instruction_row list \<Rightarrow> store \<Rightarrow> store" where
  "put_instructions rs st \<equiv> st\<lparr>instructions := rs\<rparr>"
abbreviation put_confirmations :: "confirmation_row list \<Rightarrow> store \<Rightarrow> store" where
  "put_confirmations rs st \<equiv> st\<lparr>confirmations := rs\<rparr>"
abbreviation put_usage_events :: "usage_row list \<Rightarrow> store \<Rightarrow> store" where
  "put_usage_events rs st \<equiv> st\<lparr>usage_events := rs\<rparr>"
abbreviation put_members :: "member_row list \<Rightarrow> store \<Rightarrow> store" where
  "put_members rs st \<equiv> st\<lparr>members := rs\<rparr>"

text \<open>\<open>person\<close>: one row per claimed account and event.\<close>

definition person_claim_taken :: "person_row \<Rightarrow> store \<Rightarrow> bool" where
  "person_claim_taken r st =
     (pe_userId r \<noteq> None \<and>
      list_ex (\<lambda>q. pe_eventId q = pe_eventId r \<and> pe_userId q = pe_userId r \<and> pe_id q \<noteq> pe_id r)
        (persons st))"

definition person_create :: "(uuid \<Rightarrow> person_row) \<Rightarrow> person_row tx" where
  "person_create mk s st =
     (if person_claim_taken (mk (fresh_id st)) st then Inl (Db UniqueViolation)
      else tbl_create persons put_persons pe_eventId mk s st)"

definition person_update :: "uuid \<Rightarrow> (person_row \<Rightarrow> person_row) \<Rightarrow> person_row tx" where
  "person_update i f s st =
     (case List.find (\<lambda>r. pe_id r = i) (visible_persons s st) of
        Some r \<Rightarrow>
          (if person_claim_taken (f r) st then Inl (Db UniqueViolation)
           else tbl_update persons put_persons pe_eventId pe_id i f s st)
      | None \<Rightarrow> Inl (Db RecordNotFound))"

text \<open>Deleting a person is refused while a pledge refers to it, removes its group
  memberships, and clears the references of files and messages.\<close>

definition person_delete :: "uuid \<Rightarrow> unit tx" where
  "person_delete i s st =
     (if list_ex (\<lambda>p. pl_personId p = i) (pledges st) then Inl (Db ForeignKeyViolation)
      else if List.find (\<lambda>r. pe_id r = i) (visible_persons s st) = None then Inl (Db RecordNotFound)
      else Inr (st\<lparr>persons := delete_where (\<lambda>r. tenant_visible s (pe_eventId r) \<and> pe_id r = i) (persons st),
                 person_groups := delete_where (\<lambda>g. pg_personId g = i) (person_groups st),
                 files := update_where (\<lambda>f. fo_personId f = Some i) (\<lambda>f. f\<lparr>fo_personId := None\<rparr>) (files st),
                 sms_messages := update_where (\<lambda>m. sm_personId m = Some i)
                   (\<lambda>m. m\<lparr>sm_personId := None\<rparr>) (sms_messages st)\<rparr>, ()))"

text \<open>\<open>pledge\<close>: the target budget item, when given, must exist (in whatever event).\<close>

definition pledge_create :: "(uuid \<Rightarrow> pledge_row) \<Rightarrow> pledge_row tx" where
  "pledge_create mk s st =
     (case pl_targetBudgetItemId (mk (fresh_id st)) of
        Some b \<Rightarrow>
          (if list_ex (\<lambda>bi. bi_id bi = b) (budget_items st)
           then tbl_create pledges put_pledges pl_eventId mk s st
           else Inl (Db ForeignKeyViolation))
      | None \<Rightarrow> tbl_create pledges put_pledges pl_eventId mk s st)"

definition pledge_update :: "uuid \<Rightarrow> (pledge_row \<Rightarrow> pledge_row) \<Rightarrow> pledge_row tx" where
  "pledge_update = tbl_update pledges put_pledges pl_eventId pl_id"

text \<open>\<open>fulfillment\<close>: the idempotency key is unique within the event.\<close>

definition fulfillment_create :: "(uuid \<Rightarrow> fulfillment_row) \<Rightarrow> fulfillment_row tx" where
  "fulfillment_create mk s st =
     (let r = mk (fresh_id st) in
      if f_idempotencyKey r \<noteq> None \<and>
         list_ex (\<lambda>q. f_eventId q = f_eventId r \<and> f_idempotencyKey q = f_idempotencyKey r) (fulfillments st)
      then Inl (Db UniqueViolation)
      else tbl_create fulfillments put_fulfillments f_eventId mk s st)"

definition fulfillment_update :: "uuid \<Rightarrow> (fulfillment_row \<Rightarrow> fulfillment_row) \<Rightarrow> fulfillment_row tx" where
  "fulfillment_update = tbl_update fulfillments put_fulfillments f_eventId f_id"

definition budget_create :: "(uuid \<Rightarrow> budget_row) \<Rightarrow> budget_row tx" where
  "budget_create = tbl_create budgets put_budgets b_eventId"

definition budget_item_create :: "(uuid \<Rightarrow> budget_item_row) \<Rightarrow> budget_item_row tx" where
  "budget_item_create mk s st =
     (case bi_sourceDocumentId (mk (fresh_id st)) of
        Some d \<Rightarrow>
          (if list_ex (\<lambda>r. d_id r = d) (documents st)
           then tbl_create budget_items put_budget_items bi_eventId mk s st
           else Inl (Db ForeignKeyViolation))
      | None \<Rightarrow> tbl_create budget_items put_budget_items bi_eventId mk s st)"

definition budget_item_update :: "uuid \<Rightarrow> (budget_item_row \<Rightarrow> budget_item_row) \<Rightarrow> budget_item_row tx" where
  "budget_item_update = tbl_update budget_items put_budget_items bi_eventId bi_id"

text \<open>Deleting a budget item is refused while an allocation refers to it, and clears the
  target of every pledge earmarked for it.\<close>

definition budget_item_delete :: "uuid \<Rightarrow> unit tx" where
  "budget_item_delete i s st =
     (if list_ex (\<lambda>a. a_budgetItemId a = i) (allocations st) then Inl (Db ForeignKeyViolation)
      else if List.find (\<lambda>r. bi_id r = i) (visible_budget_items s st) = None then Inl (Db RecordNotFound)
      else Inr (st\<lparr>budget_items := delete_where (\<lambda>r. tenant_visible s (bi_eventId r) \<and> bi_id r = i) (budget_items st),
                 pledges := update_where (\<lambda>p. pl_targetBudgetItemId p = Some i)
                   (\<lambda>p. p\<lparr>pl_targetBudgetItemId := None\<rparr>) (pledges st)\<rparr>, ()))"

definition allocation_create :: "(uuid \<Rightarrow> allocation_row) \<Rightarrow> allocation_row tx" where
  "allocation_create = tbl_create allocations put_allocations a_eventId"

definition group_create :: "(uuid \<Rightarrow> group_row) \<Rightarrow> group_row tx" where
  "group_create = tbl_create groups put_groups gr_eventId"

definition person_group_create :: "(uuid \<Rightarrow> person_group_row) \<Rightarrow> person_group_row tx" where
  "person_group_create mk s st =
     (let r = mk (fresh_id st) in
      if list_ex (\<lambda>q. pg_personId q = pg_personId r \<and> pg_groupId q = pg_groupId r) (person_groups st)
      then Inl (Db UniqueViolation)
      else tbl_create person_groups put_person_groups pg_eventId mk s st)"

text \<open>\<open>event_member\<close>: rows are written under the event's setting only, one per event and
  user; an upsert updates the row of the unique key when it is visible.\<close>

definition member_upsert ::
  "uuid \<Rightarrow> uuid \<Rightarrow> (uuid \<Rightarrow> member_row) \<Rightarrow> (member_row \<Rightarrow> member_row) \<Rightarrow> member_row tx" where
  "member_upsert eid uid mk f s st =
     (case List.find (\<lambda>m. m_eventId m = eid \<and> m_userId m = uid) (visible_members s st) of
        Some m \<Rightarrow>
          (if \<not> tenant_visible s eid then Inl (Db RlsViolation)
           else Inr (st\<lparr>members := update_where (\<lambda>m. m_eventId m = eid \<and> m_userId m = uid) f (members st)\<rparr>, f m))
      | None \<Rightarrow>
          (if list_ex (\<lambda>m. m_eventId m = eid \<and> m_userId m = uid) (members st)
           then Inl (Db UniqueViolation)
           else tbl_create members put_members m_eventId mk s st))"

section \<open>audit.writer.ts\<close>

record audit_input =
  ai_eventId :: uuid
  ai_actorUserId :: "uuid option"
  ai_action :: string
  ai_resourceType :: string
  ai_resourceId :: string
  ai_source :: "provenance option"
  ai_oldValue :: "json option"
  ai_newValue :: "json option"

definition audit_write :: "time \<Rightarrow> audit_input \<Rightarrow> audit_row tx" where
  "audit_write t input =
     tbl_create audits put_audits au_eventId
       (\<lambda>i. \<lparr>au_id = i, au_eventId = ai_eventId input, au_actorUserId = ai_actorUserId input,
             au_action = ai_action input, au_resourceType = ai_resourceType input,
             au_resourceId = ai_resourceId input,
             au_source = nullish (ai_source input) human_typed,
             au_oldValue = nullish (ai_oldValue input) JNull,
             au_newValue = nullish (ai_newValue input) JNull,
             au_createdAt = t\<rparr>)"

section \<open>outbox.writer.ts\<close>

record outbox_input =
  oi_eventId :: uuid
  oi_topic :: string
  oi_payload :: json
  oi_idempotencyKey :: string

text \<open>The insert itself, and the writer that swallows its unique violation. A swallowed
  violation leaves the transaction aborted; the writer is the last statement of the only
  transaction that uses it, and its key is new there (\<open>outbox_key_fresh\<close> below).\<close>

definition outbox_create :: "(uuid \<Rightarrow> outbox_row) \<Rightarrow> outbox_row tx" where
  "outbox_create mk s st =
     (let r = mk (fresh_id st) in
      if aborted s then Inl (Db TransactionAborted)
      else if \<not> outbox_visible s (ob_eventId r) then Inl (Db RlsViolation)
      else if list_ex (\<lambda>q. ob_idempotencyKey q = ob_idempotencyKey r) (outbox st) then Inl (Db UniqueViolation)
      else Inr ((draw st)\<lparr>outbox := outbox st @ [r]\<rparr>, r))"

definition outbox_enqueue :: "time \<Rightarrow> outbox_input \<Rightarrow> unit tx" where
  "outbox_enqueue t input s st =
     (case outbox_create
        (\<lambda>i. \<lparr>ob_id = i, ob_eventId = oi_eventId input, ob_topic = oi_topic input,
              ob_payload = oi_payload input, ob_status = O_PENDING,
              ob_idempotencyKey = oi_idempotencyKey input, ob_attempts = 0,
              ob_createdAt = t, ob_processedAt = None\<rparr>) s st of
        Inr (st', _) \<Rightarrow> Inr (st', ())
      | Inl (Db UniqueViolation) \<Rightarrow> Inr (st, ())
      | Inl e \<Rightarrow> Inl e)"

section \<open>Calls outside a transaction\<close>

text \<open>Each call commits by itself: what an earlier one wrote stays when a later one throws.\<close>

definition and_then :: "'a svc \<Rightarrow> ('a \<Rightarrow> 'b svc) \<Rightarrow> 'b svc" where
  "and_then m k st = (case m st of (st', Inl e) \<Rightarrow> (st', Inl e) | (st', Inr x) \<Rightarrow> k x st')"

definition svc_ret :: "'a \<Rightarrow> 'a svc" where
  "svc_ret x st = (st, Inr x)"

definition svc_throw :: "error \<Rightarrow> 'a svc" where
  "svc_throw e st = (st, Inl e)"

definition svc_read :: "(store \<Rightarrow> 'a) \<Rightarrow> 'a svc" where
  "svc_read f st = (st, Inr (f st))"

lemma svc_simps [simp]:
  "svc_ret x st = (st, Inr x)" "svc_throw e st = (st, Inl e)" "svc_read f st = (st, Inr (f st))"
  by (simp_all add: svc_ret_def svc_throw_def svc_read_def)

lemma and_then_read [simp]: "and_then (svc_read f) k st = k (f st) st"
  and and_then_ret [simp]: "and_then (svc_ret x) k = k x"
  and and_then_throw [simp]: "and_then (svc_throw e) k st = (st, Inl e)"
  by (simp_all add: and_then_def fun_eq_iff)

lemma and_then_Inr:
  "and_then m k st = (st', Inr y) \<longleftrightarrow> (\<exists>st1 x. m st = (st1, Inr x) \<and> k x st1 = (st', Inr y))"
  by (auto simp: and_then_def split: prod.splits sum.splits)

lemma and_then_step: "m st = (st1, Inr x) \<Longrightarrow> and_then m k st = k x st1"
  by (simp add: and_then_def)

section \<open>Tables outside row-level security\<close>

text \<open>A unique column of a global table; an update by id of a row that exists.\<close>

definition global_update ::
  "(store \<Rightarrow> 'r list) \<Rightarrow> ('r list \<Rightarrow> store \<Rightarrow> store) \<Rightarrow> ('r \<Rightarrow> uuid) \<Rightarrow> uuid \<Rightarrow> ('r \<Rightarrow> 'r) \<Rightarrow> 'r svc" where
  "global_update rows put key i f st =
     (case List.find (\<lambda>r. key r = i) (rows st) of
        None \<Rightarrow> (st, Inl (Db RecordNotFound))
      | Some r \<Rightarrow> (put (update_where (\<lambda>r. key r = i) f (rows st)) st, Inr (f r)))"

definition global_create ::
  "(store \<Rightarrow> 'r list) \<Rightarrow> ('r list \<Rightarrow> store \<Rightarrow> store) \<Rightarrow> ('r \<Rightarrow> 'r \<Rightarrow> bool) \<Rightarrow> (uuid \<Rightarrow> 'r) \<Rightarrow> 'r svc" where
  "global_create rows put clash mk st =
     (let r = mk (fresh_id st) in
      if list_ex (clash r) (rows st) then (st, Inl (Db UniqueViolation))
      else (put (rows st @ [r]) (draw st), Inr r))"

text \<open>The same statements inside a transaction.\<close>

definition statement :: "'a svc \<Rightarrow> 'a tx" where
  "statement m s st =
     (if aborted s then Inl (Db TransactionAborted)
      else case m st of (st', Inr x) \<Rightarrow> Inr (st', x) | (st', Inl e) \<Rightarrow> Inl e)"

lemma statement_Inr:
  "statement m s st = Inr (st', x) \<longleftrightarrow> \<not> aborted s \<and> m st = (st', Inr x)"
  by (auto simp: statement_def split: prod.splits sum.splits)

abbreviation put_events :: "event_row list \<Rightarrow> store \<Rightarrow> store" where
  "put_events rs st \<equiv> st\<lparr>events := rs\<rparr>"
abbreviation put_invitations :: "invitation_row list \<Rightarrow> store \<Rightarrow> store" where
  "put_invitations rs st \<equiv> st\<lparr>invitations := rs\<rparr>"
abbreviation put_invoices :: "invoice_row list \<Rightarrow> store \<Rightarrow> store" where
  "put_invoices rs st \<equiv> st\<lparr>invoices := rs\<rparr>"
abbreviation put_grants :: "grant_row list \<Rightarrow> store \<Rightarrow> store" where
  "put_grants rs st \<equiv> st\<lparr>grants := rs\<rparr>"
abbreviation put_sms_ledger :: "credit_row list \<Rightarrow> store \<Rightarrow> store" where
  "put_sms_ledger rs st \<equiv> st\<lparr>sms_ledger := rs\<rparr>"
abbreviation put_ai_ledger :: "credit_row list \<Rightarrow> store \<Rightarrow> store" where
  "put_ai_ledger rs st \<equiv> st\<lparr>ai_ledger := rs\<rparr>"

definition event_create :: "(uuid \<Rightarrow> event_row) \<Rightarrow> event_row tx" where
  "event_create mk = statement (global_create events put_events (\<lambda>r q. e_slug q = e_slug r) mk)"

definition event_update :: "uuid \<Rightarrow> (event_row \<Rightarrow> event_row) \<Rightarrow> event_row svc" where
  "event_update = global_update events put_events e_id"

definition member_create :: "(uuid \<Rightarrow> member_row) \<Rightarrow> member_row tx" where
  "member_create mk s st =
     (let r = mk (fresh_id st) in
      if list_ex (\<lambda>m. m_eventId m = m_eventId r \<and> m_userId m = m_userId r) (members st)
      then Inl (Db UniqueViolation)
      else tbl_create members put_members m_eventId mk s st)"

definition invitation_create :: "(uuid \<Rightarrow> invitation_row) \<Rightarrow> invitation_row svc" where
  "invitation_create = global_create invitations put_invitations (\<lambda>r q. i_token q = i_token r)"

definition invitation_update :: "uuid \<Rightarrow> (invitation_row \<Rightarrow> invitation_row) \<Rightarrow> invitation_row svc" where
  "invitation_update = global_update invitations put_invitations i_id"

end
