(* ===== verification/Tenancy.thy ===== *)
theory Tenancy
  imports Tables
begin

text \<open>
  Relations between the store before and after a transaction body, proved statement by
  statement and composed along \<open>await\<close>: a body leaves every other event's rows alone, only
  appends to the audit history, and only moves the id supply forward. \<open>store_relation\<close> is the
  interface a relation has to meet, \<open>tenant_table\<close> and \<open>plain_table\<close> the ones a table has to.
\<close>

section \<open>Relations kept by a transaction body\<close>

definition keeps :: "session \<Rightarrow> (store \<Rightarrow> store \<Rightarrow> bool) \<Rightarrow> 'a tx \<Rightarrow> bool" where
  "keeps s R m = (\<forall>st st' x. m s st = Inr (st', x) \<longrightarrow> R st st')"

named_theorems keeps_intros \<open>rules that build \<open>keeps\<close> along the text of a body\<close>

lemma keepsI: "(\<And>st st' x. m s st = Inr (st', x) \<Longrightarrow> R st st') \<Longrightarrow> keeps s R m"
  by (simp add: keeps_def)

lemma keepsD: "keeps s R m \<Longrightarrow> m s st = Inr (st', x) \<Longrightarrow> R st st'"
  by (auto simp: keeps_def)

lemma keeps_if [keeps_intros]:
  "(b \<Longrightarrow> keeps s R m) \<Longrightarrow> (\<not> b \<Longrightarrow> keeps s R n) \<Longrightarrow> keeps s R (if b then m else n)"
  by simp

lemma keeps_option [keeps_intros]:
  "(x = None \<Longrightarrow> keeps s R m) \<Longrightarrow> (\<And>y. x = Some y \<Longrightarrow> keeps s R (f y)) \<Longrightarrow>
   keeps s R (case x of None \<Rightarrow> m | Some y \<Rightarrow> f y)"
  by (cases x) simp_all

lemma keeps_let [keeps_intros]: "keeps s R (f x) \<Longrightarrow> keeps s R (let y = x in f y)"
  by simp

locale store_relation =
  fixes R :: "store \<Rightarrow> store \<Rightarrow> bool"
  assumes rel_refl: "R st st"
    and rel_trans: "R a b \<Longrightarrow> R b c \<Longrightarrow> R a c"
begin

lemma keeps_ret: "keeps s R (ret x)"
  and keeps_throw: "keeps s R (throw e)"
  and keeps_query: "keeps s R (query f)"
  by (auto intro!: keepsI rel_refl simp: query_def split: if_splits)

lemma keeps_await: "keeps s R m \<Longrightarrow> (\<And>x. keeps s R (k x)) \<Longrightarrow> keeps s R (await m k)"
  unfolding keeps_def await_Inr_iff by (blast intro: rel_trans)

lemma transaction_related:
  "keeps s R body \<Longrightarrow> transaction s body st = (st', r) \<Longrightarrow> R st st'"
  by (cases r) (auto simp: transaction_Inl intro: rel_refl dest: keepsD)

lemma gated_related:
  "(\<And>st st' r. body st = (st', r) \<Longrightarrow> R st st') \<Longrightarrow> gated ctx a body st = (st', r) \<Longrightarrow> R st st'"
  by (auto simp: gated_def permitted_def intro: rel_refl split: sum.splits)

end

section \<open>What an event sees of the store\<close>

definition tenant_view :: "uuid \<Rightarrow> store \<Rightarrow>
   member_row list \<times> person_row list \<times> pledge_row list \<times> fulfillment_row list \<times> budget_row list \<times>
   budget_item_row list \<times> allocation_row list \<times> audit_row list \<times> outbox_row list \<times>
   group_row list \<times> person_group_row list \<times> file_row list \<times> sms_message_row list \<times>
   sms_campaign_row list \<times> document_row list \<times> extraction_row list \<times> announcement_row list \<times>
   instruction_row list \<times> confirmation_row list \<times> usage_row list" where
  "tenant_view e st =
     (filter (\<lambda>r. m_eventId r = e) (members st), filter (\<lambda>r. pe_eventId r = e) (persons st),
      filter (\<lambda>r. pl_eventId r = e) (pledges st), filter (\<lambda>r. f_eventId r = e) (fulfillments st),
      filter (\<lambda>r. b_eventId r = e) (budgets st), filter (\<lambda>r. bi_eventId r = e) (budget_items st),
      filter (\<lambda>r. a_eventId r = e) (allocations st), filter (\<lambda>r. au_eventId r = e) (audits st),
      filter (\<lambda>r. ob_eventId r = e) (outbox st), filter (\<lambda>r. gr_eventId r = e) (groups st),
      filter (\<lambda>r. pg_eventId r = e) (person_groups st), filter (\<lambda>r. fo_eventId r = e) (files st),
      filter (\<lambda>r. sm_eventId r = e) (sms_messages st), filter (\<lambda>r. smc_eventId r = e) (sms_campaigns st),
      filter (\<lambda>r. d_eventId r = e) (documents st), filter (\<lambda>r. x_eventId r = e) (extractions st),
      filter (\<lambda>r. an_eventId r = e) (announcements st), filter (\<lambda>r. pi_eventId r = e) (instructions st),
      filter (\<lambda>r. pc_eventId r = e) (confirmations st), filter (\<lambda>r. ue_eventId r = e) (usage_events st))"

text \<open>Every event but \<open>ev\<close> sees the same rows before and after.\<close>

definition others_same :: "uuid \<Rightarrow> store \<Rightarrow> store \<Rightarrow> bool" where
  "others_same ev a b = (\<forall>e. e \<noteq> ev \<longrightarrow> tenant_view e b = tenant_view e a)"

text \<open>The audit history grows at its end only, by rows of \<open>ev\<close> that name the actor.\<close>

definition audit_grows :: "uuid \<Rightarrow> uuid \<Rightarrow> store \<Rightarrow> store \<Rightarrow> bool" where
  "audit_grows ev user a b =
     (\<exists>new. audits b = audits a @ new \<and>
        list_all (\<lambda>r. au_eventId r = ev \<and> au_actorUserId r = Some user) new)"

definition supply_grows :: "store \<Rightarrow> store \<Rightarrow> bool" where
  "supply_grows a b = (uuid b = uuid a \<and> drawn a \<le> drawn b)"

interpretation others: store_relation "others_same ev" for ev
  by unfold_locales (auto simp: others_same_def)

interpretation history: store_relation "audit_grows ev user" for ev user
proof
  show "audit_grows ev user st st" for st
    by (simp add: audit_grows_def)
  show "audit_grows ev user a c" if ab: "audit_grows ev user a b" and bc: "audit_grows ev user b c" for a b c
  proof -
    obtain n1 where "audits b = audits a @ n1"
      "list_all (\<lambda>r. au_eventId r = ev \<and> au_actorUserId r = Some user) n1"
      using ab by (auto simp: audit_grows_def)
    moreover obtain n2 where "audits c = audits b @ n2"
      "list_all (\<lambda>r. au_eventId r = ev \<and> au_actorUserId r = Some user) n2"
      using bc by (auto simp: audit_grows_def)
    ultimately show ?thesis unfolding audit_grows_def by (intro exI [of _ "n1 @ n2"]) simp
  qed
qed

interpretation supplied: store_relation supply_grows
  by unfold_locales (auto simp: supply_grows_def)

lemmas keeps_basic [keeps_intros] =
  others.keeps_ret others.keeps_throw others.keeps_query others.keeps_await
  history.keeps_ret history.keeps_throw history.keeps_query history.keeps_await
  supplied.keeps_ret supplied.keeps_throw supplied.keeps_query supplied.keeps_await

section \<open>Tables\<close>

locale tenant_table =
  fixes rows :: "store \<Rightarrow> 'r list"
    and put :: "'r list \<Rightarrow> store \<Rightarrow> store"
    and ev :: "'r \<Rightarrow> uuid"
  assumes rows_put: "rows (put rs st) = rs"
    and rows_draw: "rows (draw st) = rows st"
    and put_view: "filter (\<lambda>r. ev r = e) rs = filter (\<lambda>r. ev r = e) (rows st) \<Longrightarrow>
           tenant_view e (put rs st) = tenant_view e st"
    and draw_view: "tenant_view e (draw st) = tenant_view e st"
    and put_uuid: "uuid (put rs st) = uuid st"
    and put_drawn: "drawn (put rs st) = drawn st"
begin

lemma create_rows:
  "tbl_create rows put ev mk s st = Inr (st', r) \<Longrightarrow>
     rows st' = rows st @ [r] \<and> r = mk (fresh_id st) \<and> tenant_visible s (ev r)"
  by (auto simp: tbl_create_def Let_def rows_put split: if_splits)

lemma create_others:
  "keeps (in_event e0) (others_same e0) (tbl_create rows put ev mk)"
proof (rule keepsI)
  fix st st' x assume "tbl_create rows put ev mk (in_event e0) st = Inr (st', x)"
  then have st': "st' = put (rows st @ [x]) (draw st)" and "ev x = e0"
    by (auto simp: tbl_create_def Let_def split: if_splits)
  then have "tenant_view e st' = tenant_view e (draw st)" if "e \<noteq> e0" for e
    unfolding st' using that by (intro put_view) (simp add: rows_draw)
  then show "others_same e0 st st'"
    by (simp add: others_same_def draw_view)
qed

lemma update_others:
  assumes "\<And>r. ev (f r) = ev r"
  shows "keeps (in_event e0) (others_same e0) (tbl_update rows put ev key i f)"
proof (rule keepsI)
  fix st st' x assume "tbl_update rows put ev key i f (in_event e0) st = Inr (st', x)"
  then have st': "st' = put (update_where (\<lambda>r. ev r = e0 \<and> key r = i) f (rows st)) st"
    by (auto simp: tbl_update_def split: if_splits option.splits)
  have "tenant_view e st' = tenant_view e st" if "e \<noteq> e0" for e
    unfolding st' using that assms by (intro put_view filter_update_where_disjoint) auto
  then show "others_same e0 st st'" by (simp add: others_same_def)
qed

lemma update_many_others:
  assumes "\<And>r. ev (f r) = ev r"
  shows "keeps (in_event e0) (others_same e0) (tbl_update_many rows put ev P f)"
proof (rule keepsI)
  fix st st' x assume "tbl_update_many rows put ev P f (in_event e0) st = Inr (st', x)"
  then have st': "st' = put (update_where (\<lambda>r. ev r = e0 \<and> P r) f (rows st)) st"
    by (auto simp: tbl_update_many_def split: if_splits)
  have "tenant_view e st' = tenant_view e st" if "e \<noteq> e0" for e
    unfolding st' using that assms by (intro put_view filter_update_where_disjoint) auto
  then show "others_same e0 st st'" by (simp add: others_same_def)
qed

lemma create_supply: "keeps s supply_grows (tbl_create rows put ev mk)"
  and update_supply: "keeps s supply_grows (tbl_update rows put ev key i f)"
  and update_many_supply: "keeps s supply_grows (tbl_update_many rows put ev P f)"
  by (auto intro!: keepsI simp: supply_grows_def tbl_create_def tbl_update_def tbl_update_many_def
        Let_def put_uuid put_drawn split: if_splits option.splits)

end

text \<open>A table other than the audit history.\<close>

locale plain_table = tenant_table +
  assumes put_audits: "audits (put rs st) = audits st"
begin

lemma create_history: "keeps s (audit_grows e u) (tbl_create rows put ev mk)"
  and update_history: "keeps s (audit_grows e u) (tbl_update rows put ev key i f)"
  and update_many_history: "keeps s (audit_grows e u) (tbl_update_many rows put ev P f)"
  by (auto intro!: keepsI simp: audit_grows_def tbl_create_def tbl_update_def tbl_update_many_def
        Let_def put_audits split: if_splits option.splits)

end

interpretation t_person: plain_table persons put_persons pe_eventId
  by unfold_locales (auto simp: tenant_view_def)
interpretation t_pledge: plain_table pledges put_pledges pl_eventId
  by unfold_locales (auto simp: tenant_view_def)
interpretation t_fulfillment: plain_table fulfillments put_fulfillments f_eventId
  by unfold_locales (auto simp: tenant_view_def)
interpretation t_budget: plain_table budgets put_budgets b_eventId
  by unfold_locales (auto simp: tenant_view_def)
interpretation t_budget_item: plain_table budget_items put_budget_items bi_eventId
  by unfold_locales (auto simp: tenant_view_def)
interpretation t_allocation: plain_table allocations put_allocations a_eventId
  by unfold_locales (auto simp: tenant_view_def)
interpretation t_group: plain_table groups put_groups gr_eventId
  by unfold_locales (auto simp: tenant_view_def)
interpretation t_person_group: plain_table person_groups put_person_groups pg_eventId
  by unfold_locales (auto simp: tenant_view_def)
interpretation t_file: plain_table files put_files fo_eventId
  by unfold_locales (auto simp: tenant_view_def)
interpretation t_member: plain_table members put_members m_eventId
  by unfold_locales (auto simp: tenant_view_def)
interpretation t_audit: tenant_table audits put_audits au_eventId
  by unfold_locales (auto simp: tenant_view_def)

interpretation t_campaign: tenant_table sms_campaigns put_sms_campaigns smc_eventId
  by unfold_locales (auto simp: tenant_view_def)

interpretation t_message: tenant_table sms_messages put_sms_messages sm_eventId
  by unfold_locales (auto simp: tenant_view_def)

interpretation t_document: tenant_table documents put_documents d_eventId
  by unfold_locales (auto simp: tenant_view_def)

interpretation t_extraction: tenant_table extractions put_extractions x_eventId
  by unfold_locales (auto simp: tenant_view_def)

interpretation t_announcement: tenant_table announcements put_announcements an_eventId
  by unfold_locales (auto simp: tenant_view_def)

interpretation t_instruction: tenant_table instructions put_instructions pi_eventId
  by unfold_locales (auto simp: tenant_view_def)

interpretation t_confirmation: tenant_table confirmations put_confirmations pc_eventId
  by unfold_locales (auto simp: tenant_view_def)

interpretation t_usage: tenant_table usage_events put_usage_events ue_eventId
  by unfold_locales (auto simp: tenant_view_def)

section \<open>The statements of the tables\<close>

text \<open>A statement guarded by a constraint check does what the bare one does, or fails.\<close>

lemma person_create_Inr:
  "person_create mk s st = Inr (st', r) \<Longrightarrow> tbl_create persons put_persons pe_eventId mk s st = Inr (st', r)"
  by (auto simp: person_create_def split: if_splits)

lemma person_update_Inr:
  "person_update i f s st = Inr (st', r) \<Longrightarrow> tbl_update persons put_persons pe_eventId pe_id i f s st = Inr (st', r)"
  by (auto simp: person_update_def split: if_splits option.splits)

lemma pledge_create_Inr:
  "pledge_create mk s st = Inr (st', r) \<Longrightarrow> tbl_create pledges put_pledges pl_eventId mk s st = Inr (st', r)"
  by (auto simp: pledge_create_def split: if_splits option.splits)

lemma fulfillment_create_Inr:
  "fulfillment_create mk s st = Inr (st', r) \<Longrightarrow>
     tbl_create fulfillments put_fulfillments f_eventId mk s st = Inr (st', r)"
  by (auto simp: fulfillment_create_def Let_def split: if_splits)

lemma budget_item_create_Inr:
  "budget_item_create mk s st = Inr (st', r) \<Longrightarrow>
     tbl_create budget_items put_budget_items bi_eventId mk s st = Inr (st', r)"
  by (auto simp: budget_item_create_def split: if_splits option.splits)

lemma person_group_create_Inr:
  "person_group_create mk s st = Inr (st', r) \<Longrightarrow>
     tbl_create person_groups put_person_groups pg_eventId mk s st = Inr (st', r)"
  by (auto simp: person_group_create_def Let_def split: if_splits)

lemma keeps_weaken:
  "keeps s R n \<Longrightarrow> (\<And>st st' r. m s st = Inr (st', r) \<Longrightarrow> n s st = Inr (st', r)) \<Longrightarrow> keeps s R m"
  by (auto simp: keeps_def)

lemma others_creates [keeps_intros]:
  "keeps (in_event e0) (others_same e0) (person_create mkpe)"
  "keeps (in_event e0) (others_same e0) (pledge_create mkpl)"
  "keeps (in_event e0) (others_same e0) (fulfillment_create mkf)"
  "keeps (in_event e0) (others_same e0) (budget_create mkb)"
  "keeps (in_event e0) (others_same e0) (budget_item_create mkbi)"
  "keeps (in_event e0) (others_same e0) (allocation_create mka)"
  "keeps (in_event e0) (others_same e0) (group_create mkg)"
  "keeps (in_event e0) (others_same e0) (person_group_create mkpg)"
  "keeps (in_event e0) (others_same e0) (audit_write t ai)"
  by (auto intro: keeps_weaken [OF t_person.create_others person_create_Inr]
      keeps_weaken [OF t_pledge.create_others pledge_create_Inr]
      keeps_weaken [OF t_fulfillment.create_others fulfillment_create_Inr]
      keeps_weaken [OF t_budget_item.create_others budget_item_create_Inr]
      keeps_weaken [OF t_person_group.create_others person_group_create_Inr]
      t_budget.create_others t_allocation.create_others t_group.create_others t_audit.create_others
      simp: budget_create_def allocation_create_def group_create_def audit_write_def)

lemma others_updates [keeps_intros]:
  "(\<And>r. pe_eventId (fpe r) = pe_eventId r) \<Longrightarrow> keeps (in_event e0) (others_same e0) (person_update i fpe)"
  "(\<And>r. pl_eventId (fpl r) = pl_eventId r) \<Longrightarrow> keeps (in_event e0) (others_same e0) (pledge_update i fpl)"
  "(\<And>r. f_eventId (ff r) = f_eventId r) \<Longrightarrow> keeps (in_event e0) (others_same e0) (fulfillment_update i ff)"
  "(\<And>r. bi_eventId (fbi r) = bi_eventId r) \<Longrightarrow> keeps (in_event e0) (others_same e0) (budget_item_update i fbi)"
  by (auto intro: keeps_weaken [OF t_person.update_others person_update_Inr]
      t_pledge.update_others t_fulfillment.update_others t_budget_item.update_others
      simp: pledge_update_def fulfillment_update_def budget_item_update_def)

lemma supply_creates [keeps_intros]:
  "keeps s supply_grows (person_create mkpe)" "keeps s supply_grows (pledge_create mkpl)"
  "keeps s supply_grows (fulfillment_create mkf)" "keeps s supply_grows (budget_create mkb)"
  "keeps s supply_grows (budget_item_create mkbi)" "keeps s supply_grows (allocation_create mka)"
  "keeps s supply_grows (group_create mkg)" "keeps s supply_grows (person_group_create mkpg)"
  "keeps s supply_grows (audit_write t ai)" "keeps s supply_grows (person_update i fpe)"
  "keeps s supply_grows (pledge_update i fpl)" "keeps s supply_grows (fulfillment_update i ff)"
  "keeps s supply_grows (budget_item_update i fbi)"
  by (auto intro: keeps_weaken [OF t_person.create_supply person_create_Inr]
      keeps_weaken [OF t_pledge.create_supply pledge_create_Inr]
      keeps_weaken [OF t_fulfillment.create_supply fulfillment_create_Inr]
      keeps_weaken [OF t_budget_item.create_supply budget_item_create_Inr]
      keeps_weaken [OF t_person_group.create_supply person_group_create_Inr]
      keeps_weaken [OF t_person.update_supply person_update_Inr]
      t_budget.create_supply t_allocation.create_supply t_group.create_supply t_audit.create_supply
      t_pledge.update_supply t_fulfillment.update_supply t_budget_item.update_supply
      simp: budget_create_def allocation_create_def group_create_def audit_write_def
        pledge_update_def fulfillment_update_def budget_item_update_def)

lemma history_statements [keeps_intros]:
  "keeps s (audit_grows e u) (person_create mkpe)" "keeps s (audit_grows e u) (pledge_create mkpl)"
  "keeps s (audit_grows e u) (fulfillment_create mkf)" "keeps s (audit_grows e u) (budget_create mkb)"
  "keeps s (audit_grows e u) (budget_item_create mkbi)" "keeps s (audit_grows e u) (allocation_create mka)"
  "keeps s (audit_grows e u) (group_create mkg)" "keeps s (audit_grows e u) (person_group_create mkpg)"
  "keeps s (audit_grows e u) (person_update i fpe)"
  "keeps s (audit_grows e u) (pledge_update i fpl)" "keeps s (audit_grows e u) (fulfillment_update i ff)"
  "keeps s (audit_grows e u) (budget_item_update i fbi)"
  by (auto intro: keeps_weaken [OF t_person.create_history person_create_Inr]
      keeps_weaken [OF t_pledge.create_history pledge_create_Inr]
      keeps_weaken [OF t_fulfillment.create_history fulfillment_create_Inr]
      keeps_weaken [OF t_budget_item.create_history budget_item_create_Inr]
      keeps_weaken [OF t_person_group.create_history person_group_create_Inr]
      keeps_weaken [OF t_person.update_history person_update_Inr]
      t_budget.create_history t_allocation.create_history t_group.create_history
      t_pledge.update_history t_fulfillment.update_history t_budget_item.update_history
      simp: budget_create_def allocation_create_def group_create_def
        pledge_update_def fulfillment_update_def budget_item_update_def)

lemma history_audit [keeps_intros]:
  "ai_eventId ai = e \<Longrightarrow> ai_actorUserId ai = Some u \<Longrightarrow> keeps s (audit_grows e u) (audit_write t ai)"
  by (auto intro!: keepsI simp: audit_grows_def audit_write_def tbl_create_def Let_def split: if_splits)

lemma outbox_enqueue_keeps [keeps_intros]:
  "oi_eventId oi = e0 \<Longrightarrow> keeps (in_event e0) (others_same e0) (outbox_enqueue t oi)"
  "keeps s (audit_grows e u) (outbox_enqueue t oi)"
  "keeps s supply_grows (outbox_enqueue t oi)"
  by (auto intro!: keepsI simp: outbox_enqueue_def outbox_create_def Let_def others_same_def
        audit_grows_def supply_grows_def tenant_view_def
      split: if_splits sum.splits error.splits db_error.splits)

lemma deletes_keep [keeps_intros]:
  "keeps s (audit_grows e u) (person_delete i)" "keeps s (audit_grows e u) (budget_item_delete i)"
  "keeps s supply_grows (person_delete i)" "keeps s supply_grows (budget_item_delete i)"
  by (auto intro!: keepsI simp: person_delete_def budget_item_delete_def audit_grows_def supply_grows_def
      split: if_splits)

lemma member_upsert_keeps [keeps_intros]:
  "(\<And>i. m_eventId (mk i) = e0) \<Longrightarrow> (\<And>r. m_eventId (f r) = m_eventId r) \<Longrightarrow>
     keeps (in_event e0) (others_same e0) (member_upsert e0 v mk f)"
  "keeps s (audit_grows e u) (member_upsert e0 v mk f)"
  "keeps s supply_grows (member_upsert e0 v mk f)"
proof -
  assume mk: "\<And>i. m_eventId (mk i) = e0" and f: "\<And>r. m_eventId (f r) = m_eventId r"
  show "keeps (in_event e0) (others_same e0) (member_upsert e0 v mk f)"
  proof (rule keepsI)
    fix st st' x assume "member_upsert e0 v mk f (in_event e0) st = Inr (st', x)"
    then have "st' = st\<lparr>members := update_where (\<lambda>m. m_eventId m = e0 \<and> m_userId m = v) f (members st)\<rparr>
       \<or> tbl_create members put_members m_eventId mk (in_event e0) st = Inr (st', x)"
      by (auto simp: member_upsert_def split: if_splits option.splits)
    then show "others_same e0 st st'"
    proof
      assume "st' = st\<lparr>members := update_where (\<lambda>m. m_eventId m = e0 \<and> m_userId m = v) f (members st)\<rparr>"
      then show ?thesis using f
        by (auto simp: others_same_def tenant_view_def intro!: filter_update_where_disjoint)
    next
      assume "tbl_create members put_members m_eventId mk (in_event e0) st = Inr (st', x)"
      then show ?thesis by (rule keepsD [OF t_member.create_others])
    qed
  qed
next
  show "keeps s (audit_grows e u) (member_upsert e0 v mk f)"
    by (auto intro!: keepsI intro: keepsD [OF t_member.create_history]
      simp: member_upsert_def audit_grows_def split: if_splits option.splits)
      (auto dest: keepsD [OF t_member.create_history] simp: audit_grows_def)
  show "keeps s supply_grows (member_upsert e0 v mk f)"
    by (auto intro!: keepsI simp: member_upsert_def supply_grows_def split: if_splits option.splits)
      (auto dest!: keepsD [OF t_member.create_supply] simp: supply_grows_def)
qed

end
