(* ===== verification/Plan_Catalog.thy ===== *)
theory Plan_Catalog
  imports Schema
begin

text \<open>
  The plan catalogue of \<^verbatim>\<open>libs/config/src/plan-catalog.config.ts\<close>: prices, caps, bundled
  credits and features of each plan, and the pricing rule its header states.
\<close>

record plan_config =
  pc_code :: string
  pc_name :: string
  pc_scope :: plan_scope
  pc_priceMinor :: money
  pc_currency :: string
  pc_maxContributors :: "int option"
  pc_includedSmsCredits :: int
  pc_includedAiCredits :: int
  pc_features :: "string list"
  pc_isSubscription :: bool

definition plan_FREE :: plan_config where
  "plan_FREE = \<lparr>pc_code = ''FREE'', pc_name = ''Free Trial'', pc_scope = EVENT_SCOPE,
     pc_priceMinor = 0, pc_currency = ''UGX'', pc_maxContributors = Some 15,
     pc_includedSmsCredits = 10, pc_includedAiCredits = 15,
     pc_features = [''basic_analytics''], pc_isSubscription = False\<rparr>"

definition plan_STARTER :: plan_config where
  "plan_STARTER = \<lparr>pc_code = ''STARTER'', pc_name = ''Starter Pack'', pc_scope = EVENT_SCOPE,
     pc_priceMinor = 10000, pc_currency = ''UGX'', pc_maxContributors = Some 100,
     pc_includedSmsCredits = 100, pc_includedAiCredits = 500,
     pc_features = [''unwatermarked_reports'', ''seats_3''], pc_isSubscription = False\<rparr>"

definition plan_STANDARD :: plan_config where
  "plan_STANDARD = \<lparr>pc_code = ''STANDARD'', pc_name = ''Standard Pack'', pc_scope = EVENT_SCOPE,
     pc_priceMinor = 30000, pc_currency = ''UGX'', pc_maxContributors = Some 300,
     pc_includedSmsCredits = 300, pc_includedAiCredits = 1500,
     pc_features = [''unwatermarked_reports'', ''seats_10'', ''custom_branding''],
     pc_isSubscription = False\<rparr>"

definition plan_PREMIUM :: plan_config where
  "plan_PREMIUM = \<lparr>pc_code = ''PREMIUM'', pc_name = ''Premium Pack'', pc_scope = EVENT_SCOPE,
     pc_priceMinor = 60000, pc_currency = ''UGX'', pc_maxContributors = Some 1000,
     pc_includedSmsCredits = 600, pc_includedAiCredits = 5000,
     pc_features = [''unwatermarked_reports'', ''unlimited_seats'', ''custom_branding'', ''priority_support''],
     pc_isSubscription = False\<rparr>"

definition plan_ORGANIZER_PRO :: plan_config where
  "plan_ORGANIZER_PRO = \<lparr>pc_code = ''ORGANIZER_PRO'', pc_name = ''Organizer Pro Subscription'',
     pc_scope = ACCOUNT_SCOPE, pc_priceMinor = 30000, pc_currency = ''UGX'',
     pc_maxContributors = Some 500, pc_includedSmsCredits = 300, pc_includedAiCredits = 3000,
     pc_features = [''unwatermarked_reports'', ''seats_5''], pc_isSubscription = True\<rparr>"

definition plan_BUSINESS :: plan_config where
  "plan_BUSINESS = \<lparr>pc_code = ''BUSINESS'', pc_name = ''Business Subscription'',
     pc_scope = ACCOUNT_SCOPE, pc_priceMinor = 120000, pc_currency = ''UGX'',
     pc_maxContributors = None, pc_includedSmsCredits = 1000, pc_includedAiCredits = 10000,
     pc_features = [''unwatermarked_reports'', ''unlimited_seats'', ''custom_branding'', ''dedicated_account_manager''],
     pc_isSubscription = True\<rparr>"

definition plan_SMS_TOP_UP_100 :: plan_config where
  "plan_SMS_TOP_UP_100 = \<lparr>pc_code = ''SMS_TOP_UP_100'',
     pc_name = ''SMS Top-Up '' @ [CHR 0xE2, CHR 0x80, CHR 0x94] @ '' 100 messages'',
     pc_scope = EVENT_SCOPE, pc_priceMinor = 6000, pc_currency = ''UGX'',
     pc_maxContributors = None, pc_includedSmsCredits = 100, pc_includedAiCredits = 0,
     pc_features = [], pc_isSubscription = False\<rparr>"

definition plan_SMS_TOP_UP_300 :: plan_config where
  "plan_SMS_TOP_UP_300 = \<lparr>pc_code = ''SMS_TOP_UP_300'',
     pc_name = ''SMS Top-Up '' @ [CHR 0xE2, CHR 0x80, CHR 0x94] @ '' 300 messages'',
     pc_scope = EVENT_SCOPE, pc_priceMinor = 16000, pc_currency = ''UGX'',
     pc_maxContributors = None, pc_includedSmsCredits = 300, pc_includedAiCredits = 0,
     pc_features = [], pc_isSubscription = False\<rparr>"

text \<open>\<open>Object.values(PLAN_CATALOG)\<close> in the order of the source, and the lookup by code.\<close>

definition PLAN_CATALOG :: "plan_config list" where
  "PLAN_CATALOG = [plan_FREE, plan_STARTER, plan_STANDARD, plan_PREMIUM, plan_ORGANIZER_PRO,
     plan_BUSINESS, plan_SMS_TOP_UP_100, plan_SMS_TOP_UP_300]"

definition catalog_lookup :: "string \<Rightarrow> plan_config option" where
  "catalog_lookup code = List.find (\<lambda>p. pc_code p = code) PLAN_CATALOG"

lemmas catalog_defs = PLAN_CATALOG_def plan_FREE_def plan_STARTER_def plan_STANDARD_def
  plan_PREMIUM_def plan_ORGANIZER_PRO_def plan_BUSINESS_def plan_SMS_TOP_UP_100_def
  plan_SMS_TOP_UP_300_def

lemma catalog_codes_distinct: "distinct (map pc_code PLAN_CATALOG)"
  by (simp add: catalog_defs)

lemma catalog_lookup_code: "catalog_lookup c = Some p \<Longrightarrow> pc_code p = c"
  by (auto simp: catalog_lookup_def dest: find_SomeD)

lemma catalog_FREE [simp]: "catalog_lookup ''FREE'' = Some plan_FREE"
  by (simp add: catalog_lookup_def catalog_defs)

text \<open>The pricing rule of the catalogue's header, at UGX 35 an SMS: for every paid plan that
  is not an SMS top-up the bundled messages cost at most 35 percent of the price, even when all
  are used, and each top-up pack keeps a gross margin of at least 34 percent.\<close>

theorem sms_pricing_rule:
  "list_all (\<lambda>p. pc_priceMinor p = 0
      \<or> (if pc_code p = ''SMS_TOP_UP_100'' \<or> pc_code p = ''SMS_TOP_UP_300''
         then 100 * (35 * pc_includedSmsCredits p) \<le> 66 * pc_priceMinor p
         else 100 * (35 * pc_includedSmsCredits p) \<le> 35 * pc_priceMinor p)) PLAN_CATALOG
   \<and> pc_priceMinor plan_FREE = 0"
  by (simp add: catalog_defs)

end
