(* ===== verification/Entitlement.thy ===== *)
theory Entitlement
  imports Tables Plan_Catalog
begin

text \<open>
  The second gate: \<^verbatim>\<open>libs/access/src/entitlement.service.ts\<close>. \<open>resolve\<close> computes the effective
  plan, seats and credit balances of a scope from the live grants and the append-only credit
  ledgers; \<open>check\<close> answers whether an action fits. The memoised plan catalogue is the
  \<open>plan_cache\<close> of the environment: the rows read at the first use, when there was one.
  The tables of billing are not under row-level security.
\<close>

section \<open>Seats\<close>

definition is_seat_feature :: "string \<Rightarrow> bool" where
  "is_seat_feature f = (take 6 f = ''seats_'' \<and> drop 6 f \<noteq> [] \<and> list_all is_digit (drop 6 f))"

definition seatsFromFeatures :: "string list \<Rightarrow> int option" where
  "seatsFromFeatures features =
     (if ''unlimited_seats'' \<in> set features then None
      else case List.find is_seat_feature features of
        Some f \<Rightarrow> Some (int (dec_to_nat (drop 6 f)))
      | None \<Rightarrow> Some 1)"

section \<open>Scopes and decisions\<close>

record scope =
  sc_eventId :: "uuid option"
  sc_accountId :: "uuid option"

datatype entitlement_action =
  Add_contributor | Add_member | Create_pledge | Record_fulfillment | Send_sms | Use_ai

record decision =
  allowed :: bool
  dreason :: "string option"
  dmessage :: "string option"

definition allow :: decision where
  "allow = \<lparr>allowed = True, dreason = None, dmessage = None\<rparr>"

definition deny :: "string \<Rightarrow> string \<Rightarrow> decision" where
  "deny r m = \<lparr>allowed = False, dreason = Some r, dmessage = Some m\<rparr>"

record resolved =
  r_planCode :: string
  r_status :: grant_status
  r_maxContributors :: "int option"
  r_currentContributors :: int
  r_maxSeats :: "int option"
  r_currentSeats :: int
  r_features :: "string list"
  r_smsBalance :: int
  r_aiBalance :: int
  r_maxAiCredits :: int

text \<open>The columns of a plan the service selects.\<close>

record plan_limits =
  lim_code :: string
  lim_maxContributors :: "int option"
  lim_includedSmsCredits :: int
  lim_includedAiCredits :: int
  lim_features :: "string list"

section \<open>Lookups\<close>

definition findAccountId :: "uuid \<Rightarrow> store \<Rightarrow> uuid option" where
  "findAccountId user st =
     map_option ba_id (List.find (\<lambda>b. ba_ownerUserId b = user) (sort_key ba_createdAt (billing_accounts st)))"

definition owningAccountId :: "uuid \<Rightarrow> store \<Rightarrow> uuid option" where
  "owningAccountId eid st =
     (case List.find (\<lambda>e. e_id e = eid) (events st) of
        None \<Rightarrow> None
      | Some e \<Rightarrow> findAccountId (e_ownerUserId e) st)"

definition plan_limits_of :: "plan_row \<Rightarrow> plan_limits" where
  "plan_limits_of p = \<lparr>lim_code = pn_code p, lim_maxContributors = pn_maxContributors p,
     lim_includedSmsCredits = pn_includedSmsCredits p,
     lim_includedAiCredits = pn_includedAiCredits p, lim_features = pn_features p\<rparr>"

definition config_limits :: "plan_config \<Rightarrow> plan_limits" where
  "config_limits c = \<lparr>lim_code = pc_code c, lim_maxContributors = pc_maxContributors c,
     lim_includedSmsCredits = pc_includedSmsCredits c,
     lim_includedAiCredits = pc_includedAiCredits c, lim_features = pc_features c\<rparr>"

definition ent_plan :: "env \<Rightarrow> string \<Rightarrow> store \<Rightarrow> plan_limits" where
  "ent_plan env code st =
     (let cache = nullish (plan_cache env) (plans st);
          found = List.find (\<lambda>r. pn_code r = code) cache;
          config = nullish (catalog_lookup code) plan_FREE
      in nullish (map_option plan_limits_of found) (config_limits config))"

definition countContributors :: "uuid \<Rightarrow> store \<Rightarrow> int" where
  "countContributors eid st = int (length (visible_persons (in_event eid) st))"

definition countSeats :: "env \<Rightarrow> uuid \<Rightarrow> store \<Rightarrow> int" where
  "countSeats env eid st =
     (let active = count_where (\<lambda>m. m_status m = M_ACTIVE) (visible_members (in_event eid) st);
          pending = count_where (\<lambda>i. i_eventId i = eid \<and> i_status i = I_PENDING \<and> i_expiresAt i > now env)
                      (invitations st)
      in int (active + pending))"

text \<open>A ledger or grant row belongs to the scope by its event or by the pooled account.\<close>

definition scope_match :: "scope \<Rightarrow> uuid option \<Rightarrow> uuid option \<Rightarrow> uuid option \<Rightarrow> bool" where
  "scope_match sc accountId row_event row_account =
     ((truthy_str (sc_eventId sc) \<and> row_event = sc_eventId sc)
      \<or> (truthy_str accountId \<and> row_account = accountId))"

definition activeGrant :: "scope \<Rightarrow> uuid option \<Rightarrow> store \<Rightarrow> (string \<times> grant_status) option" where
  "activeGrant sc accountId st =
     (if \<not> truthy_str (sc_eventId sc) \<and> \<not> truthy_str accountId then None
      else
        let joined = [(g, p). g \<leftarrow> grants st, p \<leftarrow> plans st, pn_id p = g_planId g];
            live = filter (\<lambda>(g, p). g_status g \<in> {TRIALING, G_ACTIVE}
                     \<and> scope_match sc accountId (g_eventId g) (g_accountId g)) joined
        in case order_desc (\<lambda>(g, p). pn_priceMinor p) live of
             [] \<Rightarrow> None
           | (g, p) # _ \<Rightarrow> Some (pn_code p, g_status g))"

definition ledger_sum :: "scope \<Rightarrow> uuid option \<Rightarrow> credit_row list \<Rightarrow> int" where
  "ledger_sum sc accountId rows =
     sum_where (\<lambda>r. scope_match sc accountId (cr_eventId r) (cr_accountId r)) cr_amount rows"

definition ent_smsBalance :: "scope \<Rightarrow> uuid option \<Rightarrow> store \<Rightarrow> int" where
  "ent_smsBalance sc accountId st = ledger_sum sc accountId (sms_ledger st)"

definition ent_aiBalance :: "scope \<Rightarrow> uuid option \<Rightarrow> store \<Rightarrow> int" where
  "ent_aiBalance sc accountId st = ledger_sum sc accountId (ai_ledger st)"

text \<open>Which account a scope draws on: the event's owner when there is an event, whatever
  account the caller put in the scope.\<close>

definition resolved_account :: "scope \<Rightarrow> store \<Rightarrow> uuid option" where
  "resolved_account sc st =
     (case sc_eventId sc of
        Some e \<Rightarrow> (if e \<noteq> '''' then owningAccountId e st else sc_accountId sc)
      | None \<Rightarrow> sc_accountId sc)"

definition ent_resolve :: "env \<Rightarrow> scope \<Rightarrow> store \<Rightarrow> resolved" where
  "ent_resolve env sc st =
     (let accountId = resolved_account sc st;
          grant = activeGrant sc accountId st;
          plan = (case grant of Some (code, _) \<Rightarrow> ent_plan env code st | None \<Rightarrow> ent_plan env ''FREE'' st)
      in \<lparr>r_planCode = lim_code plan,
          r_status = nullish (map_option snd grant) TRIALING,
          r_maxContributors = lim_maxContributors plan,
          r_currentContributors =
            (case sc_eventId sc of Some e \<Rightarrow> (if e \<noteq> '''' then countContributors e st else 0) | None \<Rightarrow> 0),
          r_maxSeats = seatsFromFeatures (lim_features plan),
          r_currentSeats =
            (case sc_eventId sc of Some e \<Rightarrow> (if e \<noteq> '''' then countSeats env e st else 0) | None \<Rightarrow> 0),
          r_features = lim_features plan,
          r_smsBalance = ent_smsBalance sc accountId st,
          r_aiBalance = ent_aiBalance sc accountId st,
          r_maxAiCredits = lim_includedAiCredits plan\<rparr>)"

section \<open>The gate\<close>

definition em_dash :: string where
  "em_dash = [CHR 0xE2, CHR 0x80, CHR 0x94]"

definition ent_check :: "env \<Rightarrow> scope \<Rightarrow> entitlement_action \<Rightarrow> int \<Rightarrow> store \<Rightarrow> decision" where
  "ent_check env sc action quantity st =
     (if action = Create_pledge \<or> action = Record_fulfillment then allow
      else
        let ent = ent_resolve env sc st in
        case action of
          Use_ai \<Rightarrow>
            (if r_aiBalance ent < quantity
             then deny ''ai_credits'' (''Chat feature locked '' @ em_dash @ '' 0 AI credits remaining. Purchase an AI Top-Up or upgrade your plan to continue using conversational features.'')
             else allow)
        | Add_contributor \<Rightarrow>
            (case r_maxContributors ent of
               None \<Rightarrow> allow
             | Some cap \<Rightarrow>
                 let current = (case sc_eventId sc of
                       Some e \<Rightarrow> (if e \<noteq> '''' then countContributors e st else 0) | None \<Rightarrow> 0) in
                 if current + quantity > cap
                 then deny ''contributor_limit''
                   (''Your '' @ r_planCode ent @ '' plan allows '' @ int_to_dec cap @ '' contributors. Upgrade to add more.'')
                 else allow)
        | Add_member \<Rightarrow>
            (case r_maxSeats ent of
               None \<Rightarrow> allow
             | Some cap \<Rightarrow>
                 let used = (case sc_eventId sc of
                       Some e \<Rightarrow> (if e \<noteq> '''' then countSeats env e st else 0) | None \<Rightarrow> 0) in
                 if used + quantity > cap
                 then deny ''seat_limit''
                   (''Your '' @ r_planCode ent @ '' plan includes '' @ int_to_dec cap @ '' team seat''
                    @ (if cap = 1 then '''' else ''s'') @ ''. Upgrade to add more people to the team.'')
                 else allow)
        | Send_sms \<Rightarrow>
            (if r_smsBalance ent < quantity
             then deny ''sms_credits'' (''You're out of SMS credits '' @ em_dash @ '' top up to send more.'')
             else allow)
        | _ \<Rightarrow> allow)"

text \<open>\<open>ent.message ?? ent.reason ?? 'Not entitled'\<close>.\<close>

definition denial_text :: "decision \<Rightarrow> string" where
  "denial_text d = nullish (nullish_opt (dmessage d) (dreason d)) ''Not entitled''"

definition event_scope :: "uuid \<Rightarrow> scope" where
  "event_scope e = \<lparr>sc_eventId = Some e, sc_accountId = None\<rparr>"

lemma allow_simps [simp]: "allowed allow" "\<not> allowed (deny r m)"
  by (simp_all add: allow_def deny_def)

lemma check_pledge_allowed [simp]:
  "allowed (ent_check env sc Create_pledge q st)" "allowed (ent_check env sc Record_fulfillment q st)"
  by (simp_all add: ent_check_def)

lemma order_desc_hd_max:
  "order_desc k xs = y # ys \<Longrightarrow> x \<in> set xs \<Longrightarrow> k x \<le> k y"
proof -
  assume eq: "order_desc k xs = y # ys" and "x \<in> set xs"
  then have "x \<in> set (y # ys)" by (metis set_order_desc)
  moreover have "sorted_wrt (\<lambda>a b. k a \<ge> k b) (y # ys)"
    using order_desc_sorted [of k xs] eq by simp
  ultimately show "k x \<le> k y" by auto
qed

end
