(* ===== verification/Persons.thy ===== *)
theory Persons
  imports Tenancy Entitlement
begin

text \<open>
  Contributors: \<^verbatim>\<open>libs/ledger/src/person.service.ts\<close>. Each operation is the whole service
  method: its gates, its transaction, every row it writes and the view it returns.
\<close>

section \<open>Inputs and views\<close>

record create_person_input =
  cp_displayName :: string
  cp_phone :: "string option"
  cp_confirmSharedPhone :: "bool option"
  cp_source :: "provenance option"

record person_view =
  pv_id :: uuid
  pv_displayName :: string
  pv_phone :: "string option"
  pv_source :: provenance
  pv_userId :: "uuid option"

definition person_view_of :: "person_row \<Rightarrow> person_view" where
  "person_view_of p = \<lparr>pv_id = pe_id p, pv_displayName = pe_displayName p, pv_phone = pe_phone p,
     pv_source = pe_source p, pv_userId = pe_userId p\<rparr>"

definition find_person :: "uuid \<Rightarrow> session \<Rightarrow> store \<Rightarrow> person_row option" where
  "find_person i s st = List.find (\<lambda>p. pe_id p = i) (visible_persons s st)"

section \<open>Operations\<close>

definition assertPhoneNotAttachedElsewhere ::
  "string \<Rightarrow> bool option \<Rightarrow> uuid option \<Rightarrow> unit tx" where
  "assertPhoneNotAttachedElsewhere phone confirmSharedPhone excludePersonId =
     (if truthy_flag confirmSharedPhone then ret ()
      else await (query (\<lambda>s st. List.find
             (\<lambda>p. pe_phone p = Some phone \<and> (truthy_str excludePersonId \<longrightarrow> Some (pe_id p) \<noteq> excludePersonId))
             (sort_key pe_createdAt (visible_persons s st))))
        (\<lambda>existing. case existing of
            Some p \<Rightarrow> throw (PhoneAlreadyAttached (pe_id p) (pe_displayName p) phone)
          | None \<Rightarrow> ret ()))"

definition createPerson_tx :: "env \<Rightarrow> operation_context \<Rightarrow> create_person_input \<Rightarrow> person_view tx" where
  "createPerson_tx env ctx input =
     await (if truthy_str (cp_phone input)
            then assertPhoneNotAttachedElsewhere (nullish (cp_phone input) '''') (cp_confirmSharedPhone input) None
            else ret ())
     (\<lambda>_. let source = nullish (cp_source input) human_typed in
      await (person_create (\<lambda>i. \<lparr>pe_id = i, pe_eventId = ctx_ev ctx, pe_displayName = cp_displayName input,
               pe_phone = cp_phone input, pe_userId = None, pe_source = source,
               pe_createdById = Some (ctx_user ctx), pe_createdAt = now env\<rparr>))
      (\<lambda>person.
      await (audit_write (now env)
              \<lparr>ai_eventId = ctx_ev ctx, ai_actorUserId = Some (ctx_user ctx), ai_action = ''person:create'',
               ai_resourceType = ''person'', ai_resourceId = pe_id person, ai_source = Some source,
               ai_oldValue = None,
               ai_newValue = Some (JObj [(''displayName'', JStr (pe_displayName person))])\<rparr>)
      (\<lambda>_. ret (person_view_of person))))"

definition createPerson :: "env \<Rightarrow> operation_context \<Rightarrow> create_person_input \<Rightarrow> person_view svc" where
  "createPerson env ctx input =
     gated ctx Person_write (\<lambda>st.
       let ent = ent_check env (event_scope (ctx_ev ctx)) Add_contributor 1 st in
       if \<not> allowed ent then (st, Inl (Forbidden (denial_text ent)))
       else runInEvent (ctx_ev ctx) (createPerson_tx env ctx input) st)"

definition updateContact_tx ::
  "env \<Rightarrow> operation_context \<Rightarrow> uuid \<Rightarrow> string \<Rightarrow> bool option \<Rightarrow> person_view tx" where
  "updateContact_tx env ctx personId phone confirmSharedPhone =
     await (query (find_person personId)) (\<lambda>found. case found of
       None \<Rightarrow> throw (NotFound ''Person not found in this event'')
     | Some before \<Rightarrow>
        await (if Some phone \<noteq> pe_phone before
               then assertPhoneNotAttachedElsewhere phone confirmSharedPhone (Some personId)
               else ret ())
        (\<lambda>_. await (person_update personId (\<lambda>p. p\<lparr>pe_phone := Some phone\<rparr>))
        (\<lambda>updated.
        await (audit_write (now env)
                \<lparr>ai_eventId = ctx_ev ctx, ai_actorUserId = Some (ctx_user ctx),
                 ai_action = ''person:update_contact'', ai_resourceType = ''person'',
                 ai_resourceId = personId, ai_source = Some human_typed,
                 ai_oldValue = Some (JObj [(''phone'', jstr_or_null (pe_phone before))]),
                 ai_newValue = Some (JObj [(''phone'', JStr phone)])\<rparr>)
        (\<lambda>_. ret (person_view_of updated)))))"

definition updateContact ::
  "env \<Rightarrow> operation_context \<Rightarrow> uuid \<Rightarrow> string \<Rightarrow> bool option \<Rightarrow> person_view svc" where
  "updateContact env ctx personId phone confirmSharedPhone =
     gated ctx Person_write
       (runInEvent (ctx_ev ctx) (updateContact_tx env ctx personId phone confirmSharedPhone))"

definition listPeople :: "operation_context \<Rightarrow> person_view list svc" where
  "listPeople ctx =
     permitted ctx Ledger_read_amounts
       (runInEvent (ctx_ev ctx)
          (query (\<lambda>s st. map person_view_of (sort_key pe_createdAt (visible_persons s st)))))"

text \<open>The unique violation of the update is reported as a conflict; any other database error is
  rethrown.\<close>

definition conflict_on_unique :: "string \<Rightarrow> 'a tx \<Rightarrow> 'a tx" where
  "conflict_on_unique msg m s st =
     (case m s st of
        Inl (Db UniqueViolation) \<Rightarrow> Inl (Conflict msg)
      | r \<Rightarrow> r)"

definition user_exists :: "uuid \<Rightarrow> session \<Rightarrow> store \<Rightarrow> bool" where
  "user_exists u s st = list_ex (\<lambda>r. u_id r = u) (users st)"

definition linkPersonToUser_tx :: "env \<Rightarrow> operation_context \<Rightarrow> uuid \<Rightarrow> uuid \<Rightarrow> person_view tx" where
  "linkPersonToUser_tx env ctx personId user =
     await (query (find_person personId)) (\<lambda>found. case found of
       None \<Rightarrow> throw (NotFound ''Person not found in this event'')
     | Some person \<Rightarrow>
        if truthy_str (pe_userId person) \<and> pe_userId person \<noteq> Some user
        then throw (Conflict ''This person is already linked to another account'')
        else
          conflict_on_unique ''That account is already linked to a different person in this event''
            (await (query (user_exists user)) (\<lambda>exists.
             await (if exists then person_update personId (\<lambda>p. p\<lparr>pe_userId := Some user\<rparr>)
                    else throw (Db ForeignKeyViolation))
             (\<lambda>updated.
             await (if pe_userId person \<noteq> Some user
                    then await (audit_write (now env)
                           \<lparr>ai_eventId = ctx_ev ctx, ai_actorUserId = Some (ctx_user ctx),
                            ai_action = ''person:link_user'', ai_resourceType = ''person'',
                            ai_resourceId = personId, ai_source = None,
                            ai_oldValue = Some (JObj [(''userId'', jstr_or_null (pe_userId person))]),
                            ai_newValue = Some (JObj [(''userId'', JStr user)])\<rparr>) (\<lambda>_. ret ())
                    else ret ())
             (\<lambda>_. ret (person_view_of updated))))))"

definition linkPersonToUser :: "env \<Rightarrow> operation_context \<Rightarrow> uuid \<Rightarrow> uuid \<Rightarrow> person_view svc" where
  "linkPersonToUser env ctx personId user =
     gated ctx Person_write (runInEvent (ctx_ev ctx) (linkPersonToUser_tx env ctx personId user))"

text \<open>Merging re-parents the source's pledges and files, moves its account to a target that
  has none, records the merge and deletes the source row.\<close>

definition pledges_reparent :: "uuid \<Rightarrow> uuid \<Rightarrow> nat tx" where
  "pledges_reparent src tgt =
     tbl_update_many pledges put_pledges pl_eventId (\<lambda>p. pl_personId p = src) (\<lambda>p. p\<lparr>pl_personId := tgt\<rparr>)"

definition files_reparent :: "uuid \<Rightarrow> uuid \<Rightarrow> nat tx" where
  "files_reparent src tgt =
     tbl_update_many files put_files fo_eventId (\<lambda>f. fo_personId f = Some src) (\<lambda>f. f\<lparr>fo_personId := Some tgt\<rparr>)"

definition mergePeople_tx :: "env \<Rightarrow> operation_context \<Rightarrow> uuid \<Rightarrow> uuid \<Rightarrow> (uuid \<times> int) tx" where
  "mergePeople_tx env ctx sourceId targetId =
     await (query (find_person sourceId)) (\<lambda>source0.
     await (query (find_person targetId)) (\<lambda>target0.
     case source0 of None \<Rightarrow> throw (NotFound ''Person not found in this event'')
     | Some source \<Rightarrow>
     (case target0 of None \<Rightarrow> throw (NotFound ''Person not found in this event'')
     | Some target \<Rightarrow>
      if truthy_str (pe_userId source) \<and> truthy_str (pe_userId target) \<and> pe_userId source \<noteq> pe_userId target
      then throw (Conflict (''Both records are linked to different accounts '' @ em_dash @ '' resolve that before merging''))
      else
       await (if truthy_str (pe_userId source)
              then await (person_update sourceId (\<lambda>p. p\<lparr>pe_userId := None\<rparr>)) (\<lambda>_. ret ())
              else ret ()) (\<lambda>_.
       await (pledges_reparent sourceId targetId) (\<lambda>moved.
       await (files_reparent sourceId targetId) (\<lambda>_.
       await (if \<not> truthy_str (pe_userId target) \<and> truthy_str (pe_userId source)
              then await (person_update targetId (\<lambda>p. p\<lparr>pe_userId := pe_userId source\<rparr>)) (\<lambda>_. ret ())
              else ret ()) (\<lambda>_.
       await (audit_write (now env)
               \<lparr>ai_eventId = ctx_ev ctx, ai_actorUserId = Some (ctx_user ctx),
                ai_action = ''person:merge'', ai_resourceType = ''person'', ai_resourceId = targetId,
                ai_source = Some manual_correction,
                ai_oldValue = Some (JObj [(''mergedFrom'', JStr sourceId), (''mergedName'', JStr (pe_displayName source))]),
                ai_newValue = Some (JObj [(''canonical'', JStr targetId), (''movedPledges'', JInt (int moved))])\<rparr>) (\<lambda>_.
       await (person_delete sourceId) (\<lambda>_.
       ret (targetId, int moved))))))))))"

definition mergePeople :: "env \<Rightarrow> operation_context \<Rightarrow> uuid \<Rightarrow> uuid \<Rightarrow> (uuid \<times> int) svc" where
  "mergePeople env ctx sourceId targetId =
     gated ctx Person_merge (\<lambda>st.
       if sourceId = targetId then (st, Inl (Conflict ''Cannot merge a person into themselves''))
       else runInEvent (ctx_ev ctx) (mergePeople_tx env ctx sourceId targetId) st)"

end
