(* ===== verification/Pledge_Service.thy ===== *)
theory Pledge_Service
  imports Tenancy Entitlement Persons
begin

text \<open>
  Pledges: \<^verbatim>\<open>libs/ledger/src/pledge.service.ts\<close>. A pledge's status is derived from its
  committed value and the sum of its fulfillments, never set by hand, except by cancelling.
\<close>

section \<open>Inputs and views\<close>

record create_pledge_input =
  cpl_personId :: uuid
  cpl_committedValue :: money
  cpl_type :: "pledge_type option"
  cpl_targetBudgetItemId :: "uuid option"
  cpl_description :: "string option"
  cpl_quantity :: "int option"
  cpl_unit :: "string option"
  cpl_estimatedValue :: "money option"
  cpl_source :: "provenance option"

record pledge_view =
  plv_id :: uuid
  plv_personId :: uuid
  plv_type :: pledge_type
  plv_committedValue :: string
  plv_status :: pledge_status
  plv_source :: provenance

record pledge_split_view =
  sv_id :: uuid
  sv_value :: string
  sv_kind :: fulfillment_kind
  sv_method :: payment_method
  sv_verificationStatus :: verification_status
  sv_note :: "string option"
  sv_occurredAt :: time

record pledge_with_splits_view =
  pws_view :: pledge_view
  pws_personName :: string
  pws_personPhone :: "string option"
  pws_outstanding :: string
  pws_fulfillments :: "pledge_split_view list"
  pws_description :: "string option"
  pws_quantity :: "int option"
  pws_unit :: "string option"
  pws_estimatedValue :: "string option"
  pws_targetBudgetItemId :: "uuid option"
  pws_targetBudgetItemName :: "string option"

definition pledge_toView :: "pledge_row \<Rightarrow> pledge_view" where
  "pledge_toView p = \<lparr>plv_id = pl_id p, plv_personId = pl_personId p, plv_type = pl_type p,
     plv_committedValue = moneyToString (pl_committedValue p), plv_status = pl_status p,
     plv_source = pl_source p\<rparr>"

fun type_str :: "pledge_type \<Rightarrow> string" where
  "type_str CASH = ''CASH''"
| "type_str ITEM = ''ITEM''"
| "type_str SERVICE = ''SERVICE''"

fun pledge_status_str :: "pledge_status \<Rightarrow> string" where
  "pledge_status_str PLEDGED = ''PLEDGED''"
| "pledge_status_str PARTIALLY_FULFILLED = ''PARTIALLY_FULFILLED''"
| "pledge_status_str FULFILLED = ''FULFILLED''"
| "pledge_status_str CANCELLED = ''CANCELLED''"

section \<open>Queries\<close>

definition find_pledge :: "uuid \<Rightarrow> session \<Rightarrow> store \<Rightarrow> pledge_row option" where
  "find_pledge i s st = List.find (\<lambda>p. pl_id p = i) (visible_pledges s st)"

text \<open>The authoritative sum of the fulfillments of a pledge.\<close>

definition sumFulfillments :: "uuid \<Rightarrow> session \<Rightarrow> store \<Rightarrow> money" where
  "sumFulfillments pledgeId s st =
     sum_where (\<lambda>f. f_pledgeId f = pledgeId) f_value (visible_fulfillments s st)"

section \<open>Operations\<close>

definition createPledge_tx :: "env \<Rightarrow> operation_context \<Rightarrow> create_pledge_input \<Rightarrow> pledge_view tx" where
  "createPledge_tx env ctx input =
     await (query (find_person (cpl_personId input))) (\<lambda>person. case person of
       None \<Rightarrow> throw (NotFound ''Person not found in this event'')
     | Some _ \<Rightarrow>
        let source = nullish (cpl_source input) human_typed in
        await (pledge_create (\<lambda>i. \<lparr>pl_id = i, pl_eventId = ctx_ev ctx, pl_personId = cpl_personId input,
                 pl_type = nullish (cpl_type input) CASH, pl_committedValue = cpl_committedValue input,
                 pl_status = PLEDGED, pl_targetBudgetItemId = cpl_targetBudgetItemId input,
                 pl_description = cpl_description input, pl_quantity = cpl_quantity input,
                 pl_unit = cpl_unit input, pl_estimatedValue = cpl_estimatedValue input,
                 pl_isDirect = False, pl_source = source, pl_createdById = Some (ctx_user ctx),
                 pl_createdAt = now env\<rparr>))
        (\<lambda>pledge.
        await (audit_write (now env)
                \<lparr>ai_eventId = ctx_ev ctx, ai_actorUserId = Some (ctx_user ctx),
                 ai_action = ''pledge:create'', ai_resourceType = ''pledge'', ai_resourceId = pl_id pledge,
                 ai_source = Some source, ai_oldValue = None,
                 ai_newValue = Some (JObj [(''personId'', JStr (pl_personId pledge)),
                    (''committedValue'', JStr (moneyToString (pl_committedValue pledge))),
                    (''type'', JStr (type_str (pl_type pledge)))])\<rparr>)
        (\<lambda>_. ret (pledge_toView pledge))))"

definition createPledge :: "env \<Rightarrow> operation_context \<Rightarrow> create_pledge_input \<Rightarrow> pledge_view svc" where
  "createPledge env ctx input =
     gated ctx Pledge_write (\<lambda>st.
       let ent = ent_check env (event_scope (ctx_ev ctx)) Create_pledge 1 st in
       if \<not> allowed ent then (st, Inl (Forbidden (denial_text ent)))
       else runInEvent (ctx_ev ctx) (createPledge_tx env ctx input) st)"

definition correctCommittedValue_tx :: "env \<Rightarrow> operation_context \<Rightarrow> uuid \<Rightarrow> money \<Rightarrow> pledge_view tx" where
  "correctCommittedValue_tx env ctx pledgeId newValue =
     await (query (find_pledge pledgeId)) (\<lambda>found. case found of
       None \<Rightarrow> throw (NotFound ''Pledge not found in this event'')
     | Some current \<Rightarrow>
        await (query (sumFulfillments pledgeId)) (\<lambda>totalFulfilled.
        let status = deriveStatus newValue totalFulfilled (pl_status current = CANCELLED) in
        await (pledge_update pledgeId (\<lambda>p. p\<lparr>pl_committedValue := newValue, pl_status := status\<rparr>))
        (\<lambda>updated.
        await (audit_write (now env)
                \<lparr>ai_eventId = ctx_ev ctx, ai_actorUserId = Some (ctx_user ctx),
                 ai_action = ''pledge:correct'', ai_resourceType = ''pledge'', ai_resourceId = pledgeId,
                 ai_source = Some manual_correction,
                 ai_oldValue = Some (JObj [(''committedValue'', JStr (moneyToString (pl_committedValue current)))]),
                 ai_newValue = Some (JObj [(''committedValue'', JStr (moneyToString newValue))])\<rparr>)
        (\<lambda>_. ret (pledge_toView updated)))))"

definition correctCommittedValue :: "env \<Rightarrow> operation_context \<Rightarrow> uuid \<Rightarrow> money \<Rightarrow> pledge_view svc" where
  "correctCommittedValue env ctx pledgeId newValue =
     gated ctx Fulfillment_correct
       (runInEvent (ctx_ev ctx) (correctCommittedValue_tx env ctx pledgeId newValue))"

definition cancelPledge_tx :: "env \<Rightarrow> operation_context \<Rightarrow> uuid \<Rightarrow> pledge_view tx" where
  "cancelPledge_tx env ctx pledgeId =
     await (query (find_pledge pledgeId)) (\<lambda>found. case found of
       None \<Rightarrow> throw (NotFound ''Pledge not found in this event'')
     | Some current \<Rightarrow>
        await (pledge_update pledgeId (\<lambda>p. p\<lparr>pl_status := CANCELLED\<rparr>)) (\<lambda>updated.
        await (audit_write (now env)
                \<lparr>ai_eventId = ctx_ev ctx, ai_actorUserId = Some (ctx_user ctx),
                 ai_action = ''pledge:cancel'', ai_resourceType = ''pledge'', ai_resourceId = pledgeId,
                 ai_source = None,
                 ai_oldValue = Some (JObj [(''status'', JStr (pledge_status_str (pl_status current)))]),
                 ai_newValue = Some (JObj [(''status'', JStr (pledge_status_str CANCELLED))])\<rparr>)
        (\<lambda>_. ret (pledge_toView updated))))"

definition cancelPledge :: "env \<Rightarrow> operation_context \<Rightarrow> uuid \<Rightarrow> pledge_view svc" where
  "cancelPledge env ctx pledgeId =
     gated ctx Pledge_cancel (runInEvent (ctx_ev ctx) (cancelPledge_tx env ctx pledgeId))"

section \<open>The edit panel's list\<close>

definition split_view_of :: "fulfillment_row \<Rightarrow> pledge_split_view" where
  "split_view_of f = \<lparr>sv_id = f_id f, sv_value = moneyToString (f_value f), sv_kind = f_kind f,
     sv_method = f_method f, sv_verificationStatus = f_verificationStatus f, sv_note = f_note f,
     sv_occurredAt = f_occurredAt f\<rparr>"

text \<open>The relations of a pledge: its person (a required foreign key, so the row exists), its
  fulfillments in the order they occurred, its budget line when it has one.\<close>

definition pledge_with_splits :: "session \<Rightarrow> store \<Rightarrow> pledge_row \<Rightarrow> person_row \<Rightarrow> pledge_with_splits_view" where
  "pledge_with_splits s st p person =
     (let fs = sort_key f_occurredAt (filter (\<lambda>f. f_pledgeId f = pl_id p) (visible_fulfillments s st));
          totalFulfilled = foldl (\<lambda>sum f. sum + f_value f) 0 fs
      in \<lparr>pws_view = pledge_toView p, pws_personName = pe_displayName person,
          pws_personPhone = pe_phone person,
          pws_outstanding = moneyToString (outstanding (pl_committedValue p) totalFulfilled),
          pws_fulfillments = map split_view_of fs,
          pws_description = pl_description p, pws_quantity = pl_quantity p, pws_unit = pl_unit p,
          pws_estimatedValue = map_option moneyToString (pl_estimatedValue p),
          pws_targetBudgetItemId = pl_targetBudgetItemId p,
          pws_targetBudgetItemName =
            (case pl_targetBudgetItemId p of None \<Rightarrow> None
             | Some b \<Rightarrow> map_option bi_name (List.find (\<lambda>i. bi_id i = b) (visible_budget_items s st)))\<rparr>)"

definition listPledges :: "operation_context \<Rightarrow> uuid option \<Rightarrow> pledge_with_splits_view list svc" where
  "listPledges ctx personId =
     permitted ctx Ledger_read_amounts
       (runInEvent (ctx_ev ctx) (query (\<lambda>s st.
          [pledge_with_splits s st p person.
             p \<leftarrow> order_desc pl_createdAt
                   (filter (\<lambda>p. truthy_str personId \<longrightarrow> Some (pl_personId p) = personId) (visible_pledges s st)),
             person \<leftarrow> filter (\<lambda>q. pe_id q = pl_personId p) (visible_persons s st)])))"

end
