(* ===== verification/Fulfillment_Service.thy ===== *)
theory Fulfillment_Service
  imports Pledge_Service
begin

text \<open>
  Payments and deliveries: \<^verbatim>\<open>libs/ledger/src/fulfillment.service.ts\<close>. Recording one writes the
  fulfillment, recomputes the pledge's status from the authoritative sum, audits and enqueues
  the confirmation, in one transaction.
\<close>

section \<open>Inputs and views\<close>

definition DUPLICATE_WINDOW_MS :: int where
  "DUPLICATE_WINDOW_MS = 10 * 60 * 1000"

record record_fulfillment_input =
  rf_pledgeId :: uuid
  rf_value :: money
  rf_kind :: "fulfillment_kind option"
  rf_method :: "payment_method option"
  rf_currency :: "string option"
  rf_note :: "string option"
  rf_occurredAt :: "time option"
  rf_idempotencyKey :: "string option"
  rf_confirmDuplicate :: "bool option"
  rf_source :: "provenance option"

record direct_contribution_input =
  dc_personId :: "uuid option"
  dc_displayName :: "string option"
  dc_phone :: "string option"
  dc_value :: money
  dc_kind :: "fulfillment_kind option"
  dc_method :: "payment_method option"
  dc_note :: "string option"
  dc_type :: "pledge_type option"
  dc_description :: "string option"
  dc_targetBudgetItemId :: "uuid option"
  dc_idempotencyKey :: "string option"
  dc_source :: "provenance option"

record pledge_with_payment_input =
  pp_personId :: uuid
  pp_committedValue :: money
  pp_receivedNow :: "money option"
  pp_type :: "pledge_type option"
  pp_description :: "string option"
  pp_targetBudgetItemId :: "uuid option"
  pp_method :: "payment_method option"
  pp_note :: "string option"
  pp_idempotencyKey :: "string option"
  pp_source :: "provenance option"

record fulfillment_view =
  fv_id :: uuid
  fv_pledgeId :: uuid
  fv_value :: string
  fv_kind :: fulfillment_kind
  fv_method :: payment_method
  fv_verificationStatus :: verification_status
  fv_pledgeStatus :: pledge_status
  fv_outstanding :: string
  fv_idempotentReplay :: "bool option"

fun method_str :: "payment_method \<Rightarrow> string" where
  "method_str MTN = ''MTN''"
| "method_str AIRTEL = ''AIRTEL''"
| "method_str M_CASH = ''CASH''"
| "method_str BANK = ''BANK''"
| "method_str OTHER = ''OTHER''"
| "method_str UNKNOWN = ''UNKNOWN''"

fun verification_str :: "verification_status \<Rightarrow> string" where
  "verification_str REPORTED = ''REPORTED''"
| "verification_str UNVERIFIED = ''UNVERIFIED''"
| "verification_str VERIFIED = ''VERIFIED''"

definition fulfillment_view_of :: "fulfillment_row \<Rightarrow> pledge_status \<Rightarrow> money \<Rightarrow> fulfillment_view" where
  "fulfillment_view_of f status remaining = \<lparr>fv_id = f_id f, fv_pledgeId = f_pledgeId f,
     fv_value = moneyToString (f_value f), fv_kind = f_kind f, fv_method = f_method f,
     fv_verificationStatus = f_verificationStatus f, fv_pledgeStatus = status,
     fv_outstanding = moneyToString remaining, fv_idempotentReplay = None\<rparr>"

section \<open>Internals\<close>

text \<open>The record a key was already used for, as it stands now. The pledge of a fulfillment is
  a required relation, so the row is there.\<close>

definition findByIdempotencyKey :: "string option \<Rightarrow> fulfillment_view option tx" where
  "findByIdempotencyKey key =
     (if \<not> truthy_str key then ret None
      else query (\<lambda>s st.
        case List.find (\<lambda>f. f_idempotencyKey f = key) (visible_fulfillments s st) of
          None \<Rightarrow> None
        | Some existing \<Rightarrow>
           map_option (\<lambda>pledge.
             (fulfillment_view_of existing (pl_status pledge)
               (outstanding (pl_committedValue pledge) (sumFulfillments (f_pledgeId existing) s st)))
             \<lparr>fv_idempotentReplay := Some True\<rparr>)
             (find_pledge (f_pledgeId existing) s st)))"

definition assertNotDuplicate :: "env \<Rightarrow> uuid \<Rightarrow> money \<Rightarrow> unit tx" where
  "assertNotDuplicate env pledgeId value =
     (let since = now env - DUPLICATE_WINDOW_MS in
      await (query (\<lambda>s st. List.find
          (\<lambda>f. f_pledgeId f = pledgeId \<and> f_value f = value \<and> f_createdAt f \<ge> since)
          (order_desc f_createdAt (visible_fulfillments s st))))
      (\<lambda>similar. case similar of
          Some f \<Rightarrow> throw (DuplicateSuspected (f_id f) (moneyToString (f_value f)) (toISOString (f_createdAt f)))
        | None \<Rightarrow> ret ()))"

definition sumExcluding :: "uuid \<Rightarrow> uuid option \<Rightarrow> session \<Rightarrow> store \<Rightarrow> money" where
  "sumExcluding pledgeId excludeFulfillmentId s st =
     sum_where (\<lambda>f. f_pledgeId f = pledgeId \<and>
        (truthy_str excludeFulfillmentId \<longrightarrow> Some (f_id f) \<noteq> excludeFulfillmentId))
       f_value (visible_fulfillments s st)"

definition overpay_message :: "money \<Rightarrow> money \<Rightarrow> string" where
  "overpay_message committedValue existing =
     ''This pledge is already fully accounted for beyond that: only ''
       @ moneyToString (outstanding committedValue existing)
       @ '' remains outstanding (committed '' @ moneyToString committedValue
       @ '', already recorded '' @ moneyToString existing
       @ ''). Correct the pledge amount first if it should be higher.''"

definition assertWithinCommitted :: "uuid \<Rightarrow> money \<Rightarrow> money \<Rightarrow> uuid option \<Rightarrow> unit tx" where
  "assertWithinCommitted pledgeId committedValue additionalValue excludeFulfillmentId =
     await (query (sumExcluding pledgeId excludeFulfillmentId)) (\<lambda>existing.
       let projected = existing + additionalValue in
       if projected > committedValue then throw (Forbidden (overpay_message committedValue existing))
       else ret ())"

record write_fulfillment_input =
  wf_pledgeId :: uuid
  wf_committedValue :: money
  wf_value :: money
  wf_kind :: "fulfillment_kind option"
  wf_method :: "payment_method option"
  wf_currency :: "string option"
  wf_note :: "string option"
  wf_occurredAt :: "time option"
  wf_idempotencyKey :: "string option"
  wf_source :: "provenance option"

definition writeFulfillment ::
  "env \<Rightarrow> operation_context \<Rightarrow> write_fulfillment_input \<Rightarrow> fulfillment_view tx" where
  "writeFulfillment env ctx input =
     (let source = nullish (wf_source input) human_typed in
      await (fulfillment_create (\<lambda>i. \<lparr>f_id = i, f_eventId = ctx_ev ctx, f_pledgeId = wf_pledgeId input,
               f_kind = nullish (wf_kind input) PAYMENT, f_value = wf_value input,
               f_currency = nullish (wf_currency input) ''UGX'',
               f_method = nullish (wf_method input) UNKNOWN, f_verificationStatus = REPORTED,
               f_note = wf_note input, f_occurredAt = nullish (wf_occurredAt input) (now env),
               f_idempotencyKey = wf_idempotencyKey input, f_source = source,
               f_createdById = Some (ctx_user ctx), f_createdAt = now env\<rparr>)) (\<lambda>fulfillment.
      await (query (sumFulfillments (wf_pledgeId input))) (\<lambda>totalFulfilled.
      let status = deriveStatus (wf_committedValue input) totalFulfilled False;
          remaining = outstanding (wf_committedValue input) totalFulfilled in
      await (pledge_update (wf_pledgeId input) (\<lambda>p. p\<lparr>pl_status := status\<rparr>)) (\<lambda>_.
      await (audit_write (now env)
              \<lparr>ai_eventId = ctx_ev ctx, ai_actorUserId = Some (ctx_user ctx),
               ai_action = ''fulfillment:create'', ai_resourceType = ''fulfillment'',
               ai_resourceId = f_id fulfillment, ai_source = Some source, ai_oldValue = None,
               ai_newValue = Some (JObj [(''pledgeId'', JStr (f_pledgeId fulfillment)),
                  (''value'', JStr (moneyToString (f_value fulfillment))),
                  (''method'', JStr (method_str (f_method fulfillment))),
                  (''verificationStatus'', JStr (verification_str (f_verificationStatus fulfillment))),
                  (''pledgeStatus'', JStr (pledge_status_str status))])\<rparr>) (\<lambda>_.
      await (outbox_enqueue (now env)
              \<lparr>oi_eventId = ctx_ev ctx, oi_topic = ''contribution.recorded'',
               oi_payload = JObj [(''fulfillmentId'', JStr (f_id fulfillment)),
                  (''pledgeId'', JStr (f_pledgeId fulfillment)),
                  (''value'', JStr (moneyToString (f_value fulfillment)))],
               oi_idempotencyKey = ''fulfillment:'' @ f_id fulfillment\<rparr>) (\<lambda>_.
      ret (fulfillment_view_of fulfillment status remaining)))))))"

section \<open>Operations\<close>

definition recordFulfillment_tx ::
  "env \<Rightarrow> operation_context \<Rightarrow> record_fulfillment_input \<Rightarrow> fulfillment_view tx" where
  "recordFulfillment_tx env ctx input =
     await (findByIdempotencyKey (rf_idempotencyKey input)) (\<lambda>replay. case replay of
       Some v \<Rightarrow> ret v
     | None \<Rightarrow>
        await (query (find_pledge (rf_pledgeId input))) (\<lambda>found. case found of
          None \<Rightarrow> throw (NotFound ''Pledge not found in this event'')
        | Some pledge \<Rightarrow>
           if pl_status pledge = CANCELLED then throw (Forbidden ''Cannot fulfill a cancelled pledge'')
           else
             await (if \<not> truthy_flag (rf_confirmDuplicate input)
                    then assertNotDuplicate env (rf_pledgeId input) (rf_value input) else ret ()) (\<lambda>_.
             await (assertWithinCommitted (rf_pledgeId input) (pl_committedValue pledge) (rf_value input) None) (\<lambda>_.
             writeFulfillment env ctx
               \<lparr>wf_pledgeId = rf_pledgeId input, wf_committedValue = pl_committedValue pledge,
                wf_value = rf_value input, wf_kind = rf_kind input, wf_method = rf_method input,
                wf_currency = rf_currency input, wf_note = rf_note input,
                wf_occurredAt = rf_occurredAt input, wf_idempotencyKey = rf_idempotencyKey input,
                wf_source = rf_source input\<rparr>))))"

definition recordFulfillment ::
  "env \<Rightarrow> operation_context \<Rightarrow> record_fulfillment_input \<Rightarrow> fulfillment_view svc" where
  "recordFulfillment env ctx input =
     gated ctx Fulfillment_write (\<lambda>st.
       let ent = ent_check env (event_scope (ctx_ev ctx)) Record_fulfillment 1 st in
       if \<not> allowed ent then (st, Inl (Forbidden (denial_text ent)))
       else runInEvent (ctx_ev ctx) (recordFulfillment_tx env ctx input) st)"

text \<open>The person a direct contribution is for: found when its id is given, created from the
  display name otherwise.\<close>

definition direct_person :: "env \<Rightarrow> operation_context \<Rightarrow> direct_contribution_input \<Rightarrow> uuid tx" where
  "direct_person env ctx input =
     (let source = nullish (dc_source input) human_typed in
      if \<not> truthy_str (dc_personId input) then
        (if \<not> truthy_str (dc_displayName input) then throw (NotFound ''Person or displayName required'')
         else
           let displayName = nullish (dc_displayName input) '''' in
           await (person_create (\<lambda>i. \<lparr>pe_id = i, pe_eventId = ctx_ev ctx, pe_displayName = displayName,
                    pe_phone = dc_phone input, pe_userId = None, pe_source = source,
                    pe_createdById = Some (ctx_user ctx), pe_createdAt = now env\<rparr>)) (\<lambda>p.
           await (audit_write (now env)
                   \<lparr>ai_eventId = ctx_ev ctx, ai_actorUserId = Some (ctx_user ctx),
                    ai_action = ''person:create'', ai_resourceType = ''person'', ai_resourceId = pe_id p,
                    ai_source = Some source, ai_oldValue = None,
                    ai_newValue = Some (JObj [(''displayName'', JStr displayName)])\<rparr>) (\<lambda>_.
           ret (pe_id p))))
      else
        let personId = nullish (dc_personId input) '''' in
        await (query (find_person personId)) (\<lambda>person. case person of
          None \<Rightarrow> throw (NotFound ''Person not found in this event'')
        | Some _ \<Rightarrow> ret personId))"

definition recordDirectContribution_tx ::
  "env \<Rightarrow> operation_context \<Rightarrow> direct_contribution_input \<Rightarrow> fulfillment_view tx" where
  "recordDirectContribution_tx env ctx input =
     await (findByIdempotencyKey (dc_idempotencyKey input)) (\<lambda>replay. case replay of
       Some v \<Rightarrow> ret v
     | None \<Rightarrow>
        let source = nullish (dc_source input) human_typed in
        await (direct_person env ctx input) (\<lambda>personId.
        await (pledge_create (\<lambda>i. \<lparr>pl_id = i, pl_eventId = ctx_ev ctx, pl_personId = personId,
                 pl_type = nullish (dc_type input) CASH, pl_committedValue = dc_value input,
                 pl_status = PLEDGED, pl_targetBudgetItemId = dc_targetBudgetItemId input,
                 pl_description = dc_description input, pl_quantity = None, pl_unit = None,
                 pl_estimatedValue = None, pl_isDirect = True, pl_source = source,
                 pl_createdById = Some (ctx_user ctx), pl_createdAt = now env\<rparr>)) (\<lambda>pledge.
        await (audit_write (now env)
                \<lparr>ai_eventId = ctx_ev ctx, ai_actorUserId = Some (ctx_user ctx),
                 ai_action = ''pledge:create_direct'', ai_resourceType = ''pledge'',
                 ai_resourceId = pl_id pledge, ai_source = Some source, ai_oldValue = None,
                 ai_newValue = Some (json_obj [(''personId'', map_option JStr (dc_personId input)),
                    (''committedValue'', Some (JStr (moneyToString (dc_value input)))),
                    (''isDirect'', Some (JBool True))])\<rparr>) (\<lambda>_.
        writeFulfillment env ctx
          \<lparr>wf_pledgeId = pl_id pledge, wf_committedValue = pl_committedValue pledge,
           wf_value = dc_value input, wf_kind = dc_kind input, wf_method = dc_method input,
           wf_currency = None, wf_note = dc_note input, wf_occurredAt = None,
           wf_idempotencyKey = dc_idempotencyKey input, wf_source = Some source\<rparr>))))"

definition recordDirectContribution ::
  "env \<Rightarrow> operation_context \<Rightarrow> direct_contribution_input \<Rightarrow> fulfillment_view svc" where
  "recordDirectContribution env ctx input =
     gated ctx Fulfillment_write (\<lambda>st.
       let ent = ent_check env (event_scope (ctx_ev ctx)) Record_fulfillment 1 st in
       if \<not> allowed ent then (st, Inl (Forbidden (denial_text ent)))
       else runInEvent (ctx_ev ctx) (recordDirectContribution_tx env ctx input) st)"

definition recordPledgeWithPayment_tx ::
  "env \<Rightarrow> operation_context \<Rightarrow> pledge_with_payment_input \<Rightarrow> fulfillment_view tx" where
  "recordPledgeWithPayment_tx env ctx input =
     await (query (find_person (pp_personId input))) (\<lambda>person. case person of
       None \<Rightarrow> throw (NotFound ''Person not found in this event'')
     | Some _ \<Rightarrow>
        let receivedNow = nullish (pp_receivedNow input) 0 in
        if receivedNow > pp_committedValue input then
          throw (Forbidden (''Received amount ('' @ moneyToString receivedNow
                   @ '') can't exceed the pledge itself ('' @ moneyToString (pp_committedValue input) @ '').''))
        else
          let source = nullish (pp_source input) human_typed in
          await (pledge_create (\<lambda>i. \<lparr>pl_id = i, pl_eventId = ctx_ev ctx, pl_personId = pp_personId input,
                   pl_type = nullish (pp_type input) CASH, pl_committedValue = pp_committedValue input,
                   pl_status = PLEDGED, pl_targetBudgetItemId = pp_targetBudgetItemId input,
                   pl_description = pp_description input, pl_quantity = None, pl_unit = None,
                   pl_estimatedValue = None, pl_isDirect = False, pl_source = source,
                   pl_createdById = Some (ctx_user ctx), pl_createdAt = now env\<rparr>)) (\<lambda>pledge.
          await (audit_write (now env)
                  \<lparr>ai_eventId = ctx_ev ctx, ai_actorUserId = Some (ctx_user ctx),
                   ai_action = ''pledge:create'', ai_resourceType = ''pledge'',
                   ai_resourceId = pl_id pledge, ai_source = Some source, ai_oldValue = None,
                   ai_newValue = Some (JObj [(''personId'', JStr (pp_personId input)),
                      (''committedValue'', JStr (moneyToString (pl_committedValue pledge)))])\<rparr>) (\<lambda>_.
          if receivedNow \<le> 0 then
            ret \<lparr>fv_id = pl_id pledge, fv_pledgeId = pl_id pledge, fv_value = ''0'', fv_kind = PAYMENT,
                 fv_method = UNKNOWN, fv_verificationStatus = REPORTED, fv_pledgeStatus = PLEDGED,
                 fv_outstanding = moneyToString (pl_committedValue pledge), fv_idempotentReplay = None\<rparr>
          else
            writeFulfillment env ctx
              \<lparr>wf_pledgeId = pl_id pledge, wf_committedValue = pl_committedValue pledge,
               wf_value = receivedNow, wf_kind = None, wf_method = pp_method input,
               wf_currency = None, wf_note = pp_note input, wf_occurredAt = None,
               wf_idempotencyKey = pp_idempotencyKey input, wf_source = Some source\<rparr>)))"

definition recordPledgeWithPayment ::
  "env \<Rightarrow> operation_context \<Rightarrow> pledge_with_payment_input \<Rightarrow> fulfillment_view svc" where
  "recordPledgeWithPayment env ctx input =
     gated ctx Pledge_write (\<lambda>st.
       let pledgeEnt = ent_check env (event_scope (ctx_ev ctx)) Create_pledge 1 st in
       if \<not> allowed pledgeEnt then (st, Inl (Forbidden (denial_text pledgeEnt)))
       else runInEvent (ctx_ev ctx) (recordPledgeWithPayment_tx env ctx input) st)"

definition correctValue_tx :: "env \<Rightarrow> operation_context \<Rightarrow> uuid \<Rightarrow> money \<Rightarrow> fulfillment_view tx" where
  "correctValue_tx env ctx fulfillmentId newValue =
     await (query (\<lambda>s st. List.find (\<lambda>f. f_id f = fulfillmentId) (visible_fulfillments s st))) (\<lambda>found.
     case found of
       None \<Rightarrow> throw (NotFound ''Payment not found in this event'')
     | Some current \<Rightarrow>
        await (query (find_pledge (f_pledgeId current))) (\<lambda>pledgeBefore.
        await (case pledgeBefore of
                 Some p \<Rightarrow> assertWithinCommitted (f_pledgeId current) (pl_committedValue p) newValue (Some fulfillmentId)
               | None \<Rightarrow> ret ()) (\<lambda>_.
        await (fulfillment_update fulfillmentId (\<lambda>f. f\<lparr>f_value := newValue\<rparr>)) (\<lambda>updated.
        await (query (find_pledge (f_pledgeId current))) (\<lambda>pledge.
        await (query (sumFulfillments (f_pledgeId current))) (\<lambda>totalFulfilled.
        let committed = nullish (map_option pl_committedValue pledge) 0;
            status = deriveStatus committed totalFulfilled (map_option pl_status pledge = Some CANCELLED) in
        await (pledge_update (f_pledgeId current) (\<lambda>p. p\<lparr>pl_status := status\<rparr>)) (\<lambda>_.
        await (audit_write (now env)
                \<lparr>ai_eventId = ctx_ev ctx, ai_actorUserId = Some (ctx_user ctx),
                 ai_action = ''fulfillment:correct'', ai_resourceType = ''fulfillment'',
                 ai_resourceId = fulfillmentId, ai_source = Some manual_correction,
                 ai_oldValue = Some (JObj [(''value'', JStr (moneyToString (f_value current)))]),
                 ai_newValue = Some (JObj [(''value'', JStr (moneyToString newValue)),
                    (''pledgeStatus'', JStr (pledge_status_str status))])\<rparr>) (\<lambda>_.
        ret (fulfillment_view_of updated status (outstanding committed totalFulfilled))))))))))"

definition correctValue :: "env \<Rightarrow> operation_context \<Rightarrow> uuid \<Rightarrow> money \<Rightarrow> fulfillment_view svc" where
  "correctValue env ctx fulfillmentId newValue =
     gated ctx Fulfillment_correct
       (runInEvent (ctx_ev ctx) (correctValue_tx env ctx fulfillmentId newValue))"

end
