(* ===== verification/Ledger_Effects.thy ===== *)
theory Ledger_Effects
  imports Fulfillment_Service
begin

text \<open>
  What each pledge and payment operation does to the money tables, as one equation per
  operation, and the invariant those equations keep: ids are drawn from the supply and
  distinct, every fulfillment belongs to a pledge of its own event, and every pledge's status
  is the one its numbers derive.
\<close>

section \<open>The received amount and the invariant\<close>

definition received :: "store \<Rightarrow> uuid \<Rightarrow> money" where
  "received st i = sum_where (\<lambda>f. f_pledgeId f = i) f_value (fulfillments st)"

definition known_id :: "store \<Rightarrow> uuid \<Rightarrow> bool" where
  "known_id st i = (\<exists>n < drawn st. i = uuid st n)"

definition id_supply :: "store \<Rightarrow> bool" where
  "id_supply st \<longleftrightarrow> inj (uuid st) \<and> (\<forall>n. uuid st n \<noteq> '''')"

definition wf_ledger :: "store \<Rightarrow> bool" where
  "wf_ledger st \<longleftrightarrow>
     id_supply st
     \<and> distinct (map pl_id (pledges st)) \<and> distinct (map f_id (fulfillments st))
     \<and> (\<forall>p\<in>set (pledges st). known_id st (pl_id p))
     \<and> (\<forall>f\<in>set (fulfillments st). known_id st (f_id f) \<and>
          (\<exists>p\<in>set (pledges st). pl_id p = f_pledgeId f \<and> pl_eventId p = f_eventId f))"

definition status_derived :: "store \<Rightarrow> bool" where
  "status_derived st \<longleftrightarrow>
     (\<forall>p\<in>set (pledges st). pl_status p =
        deriveStatus (pl_committedValue p) (received st (pl_id p)) (pl_status p = CANCELLED))"

definition ledger_inv :: "store \<Rightarrow> bool" where
  "ledger_inv st \<longleftrightarrow> wf_ledger st \<and> status_derived st"

definition within_committed :: "store \<Rightarrow> bool" where
  "within_committed st \<longleftrightarrow>
     (\<forall>p\<in>set (pledges st). received st (pl_id p) \<le> pl_committedValue p)"

lemma ledger_invD:
  assumes "ledger_inv st"
  shows "id_supply st" "distinct (map pl_id (pledges st))" "distinct (map f_id (fulfillments st))"
    "\<And>p. p \<in> set (pledges st) \<Longrightarrow> known_id st (pl_id p)"
    "\<And>f. f \<in> set (fulfillments st) \<Longrightarrow> known_id st (f_id f)"
    "\<And>f. f \<in> set (fulfillments st) \<Longrightarrow>
        \<exists>p\<in>set (pledges st). pl_id p = f_pledgeId f \<and> pl_eventId p = f_eventId f"
    "\<And>p. p \<in> set (pledges st) \<Longrightarrow> pl_status p =
        deriveStatus (pl_committedValue p) (received st (pl_id p)) (pl_status p = CANCELLED)"
  using assms by (auto simp: ledger_inv_def wf_ledger_def status_derived_def)

lemma fresh_not_known: "id_supply st \<Longrightarrow> \<not> known_id st (fresh_id st)"
  by (auto simp: id_supply_def known_id_def fresh_id_def dest: injD)

lemma known_id_mono: "known_id st i \<Longrightarrow> supply_grows st st' \<Longrightarrow> known_id st' i"
  unfolding known_id_def supply_grows_def using order_less_le_trans by metis

lemma known_id_nonempty: "id_supply st \<Longrightarrow> known_id st i \<Longrightarrow> i \<noteq> ''''"
  by (auto simp: id_supply_def known_id_def)

lemma known_id_fresh: "uuid st' = uuid st \<Longrightarrow> drawn st < drawn st' \<Longrightarrow> known_id st' (fresh_id st)"
  by (auto simp: known_id_def fresh_id_def)

text \<open>A pledge of the ledger is determined by its id; what is received on it is what its own
  event sees.\<close>

lemma pledge_unique:
  "ledger_inv st \<Longrightarrow> p \<in> set (pledges st) \<Longrightarrow> q \<in> set (pledges st) \<Longrightarrow> pl_id p = pl_id q \<Longrightarrow> p = q"
  by (auto dest!: ledger_invD(2) simp: distinct_map dest: inj_onD)

lemma fulfillment_unique:
  "ledger_inv st \<Longrightarrow> f \<in> set (fulfillments st) \<Longrightarrow> g \<in> set (fulfillments st) \<Longrightarrow> f_id f = f_id g \<Longrightarrow> f = g"
  by (auto dest!: ledger_invD(3) simp: distinct_map dest: inj_onD)

lemma fulfillment_event:
  "ledger_inv st \<Longrightarrow> p \<in> set (pledges st) \<Longrightarrow> f \<in> set (fulfillments st) \<Longrightarrow> f_pledgeId f = pl_id p \<Longrightarrow>
   f_eventId f = pl_eventId p"
  using ledger_invD(6) pledge_unique by metis

lemma sumFulfillments_received:
  assumes "ledger_inv st" "p \<in> set (pledges st)" "pl_eventId p = ev"
  shows "sumFulfillments (pl_id p) (in_event ev) st = received st (pl_id p)"
proof -
  have "\<And>f. f \<in> set (fulfillments st) \<Longrightarrow> f_pledgeId f = pl_id p \<Longrightarrow> f_eventId f = ev"
    using assms fulfillment_event by blast
  then show ?thesis
    by (auto simp: sumFulfillments_def received_def tbl_visible_def intro!: sum_where_cong)
qed

lemma find_pledge_Some:
  "find_pledge i (in_event ev) st = Some p \<Longrightarrow> p \<in> set (pledges st) \<and> pl_id p = i \<and> pl_eventId p = ev"
  by (auto simp: find_pledge_def tbl_visible_def dest: find_SomeD)

lemma received_none:
  "ledger_inv st \<Longrightarrow> (\<And>p. p \<in> set (pledges st) \<Longrightarrow> pl_id p \<noteq> i) \<Longrightarrow> received st i = 0"
  using ledger_invD(6) by (fastforce simp: received_def intro!: sum_where_none)

lemma received_fresh: "ledger_inv st \<Longrightarrow> received st (fresh_id st) = 0"
  using ledger_invD(1,4) fresh_not_known by (intro received_none) (auto, metis)

section \<open>Frame: statements that do not touch the money tables\<close>

definition money_same :: "store \<Rightarrow> store \<Rightarrow> bool" where
  "money_same a b \<longleftrightarrow> supply_grows a b \<and> pledges b = pledges a \<and> fulfillments b = fulfillments a"

interpretation untouched: store_relation money_same
  by unfold_locales (auto simp: money_same_def supply_grows_def)

lemmas money_basic [keeps_intros] =
  untouched.keeps_ret untouched.keeps_throw untouched.keeps_query untouched.keeps_await

lemma money_statements [keeps_intros]:
  "keeps s money_same (person_create mkpe)" "keeps s money_same (person_update i fpe)"
  "keeps s money_same (budget_create mkb)" "keeps s money_same (budget_item_create mkbi)"
  "keeps s money_same (budget_item_update i fbi)" "keeps s money_same (allocation_create mka)"
  "keeps s money_same (group_create mkg)" "keeps s money_same (person_group_create mkpg)"
  "keeps s money_same (audit_write t ai)" "keeps s money_same (outbox_enqueue t oi)"
  "keeps s money_same (member_upsert e v mkm fm)" "keeps s money_same (person_delete i)"
  by (auto intro!: keepsI simp: money_same_def supply_grows_def person_create_def person_update_def
      budget_create_def budget_item_create_def budget_item_update_def allocation_create_def
      group_create_def person_group_create_def audit_write_def outbox_enqueue_def outbox_create_def
      member_upsert_def person_delete_def tbl_create_def tbl_update_def Let_def
      split: if_splits option.splits sum.splits error.splits db_error.splits)

lemma money_same_received: "money_same a b \<Longrightarrow> received b i = received a i"
  by (simp add: money_same_def received_def)

lemma money_same_inv: "money_same a b \<Longrightarrow> ledger_inv a \<Longrightarrow> ledger_inv b"
  using known_id_mono
  by (fastforce simp: money_same_def ledger_inv_def wf_ledger_def status_derived_def received_def supply_grows_def
      id_supply_def)

lemma money_same_within: "money_same a b \<Longrightarrow> within_committed a \<Longrightarrow> within_committed b"
  by (simp add: money_same_def within_committed_def received_def)

section \<open>The three ways an operation changes the money tables\<close>

text \<open>A new pledge, with nothing received.\<close>

definition adds_pledge :: "pledge_row \<Rightarrow> store \<Rightarrow> store \<Rightarrow> bool" where
  "adds_pledge p st st' \<longleftrightarrow>
     uuid st' = uuid st \<and> drawn st < drawn st' \<and> pl_id p = fresh_id st \<and> pl_status p = PLEDGED
     \<and> pledges st' = pledges st @ [p] \<and> fulfillments st' = fulfillments st"

lemma adds_pledge_received: "adds_pledge p st st' \<Longrightarrow> received st' i = received st i"
  by (simp add: adds_pledge_def received_def)

lemma adds_pledge_supply: "adds_pledge p st st' \<Longrightarrow> supply_grows st st'"
  by (simp add: adds_pledge_def supply_grows_def)

lemma adds_pledge_inv:
  assumes "ledger_inv st" "adds_pledge p st st'"
  shows "ledger_inv st'"
proof -
  note inv = ledger_invD [OF assms(1)]
  have fresh: "pl_id p \<notin> pl_id ` set (pledges st)"
  proof
    assume "pl_id p \<in> pl_id ` set (pledges st)"
    then have "known_id st (pl_id p)" using inv(4) by auto
    then show False using inv(1) assms(2) fresh_not_known by (auto simp: adds_pledge_def)
  qed
  have rec: "received st' i = received st i" for i
    using assms(2) by (rule adds_pledge_received)
  have known: "known_id st i \<Longrightarrow> known_id st' i" for i
    using assms(2) adds_pledge_supply known_id_mono by blast
  have "known_id st' (pl_id p)"
    using assms(2) known_id_fresh by (auto simp: adds_pledge_def)
  then have "wf_ledger st'"
    using inv fresh known assms(2) unfolding wf_ledger_def adds_pledge_def
    by (simp add: id_supply_def)
  moreover have "received st (pl_id p) = 0"
    using received_fresh assms by (simp add: adds_pledge_def)
  then have "status_derived st'"
    using inv(7) assms(2) rec by (auto simp: status_derived_def adds_pledge_def)
  ultimately show ?thesis by (simp add: ledger_inv_def)
qed

lemma adds_pledge_within:
  assumes "ledger_inv st" "within_committed st" "adds_pledge p st st'" "0 \<le> pl_committedValue p"
  shows "within_committed st'"
proof -
  have "received st (pl_id p) = 0"
    using received_fresh assms(1,3) by (simp add: adds_pledge_def)
  then show ?thesis
    using assms(2-4) adds_pledge_received [OF assms(3)] by (auto simp: within_committed_def adds_pledge_def)
qed

text \<open>The one pledge with id \<open>i\<close> of event \<open>ev\<close> becomes \<open>g\<close> of itself, and the fulfillments
  change at most what is received on it.\<close>

definition revises_pledge ::
  "uuid \<Rightarrow> pledge_row \<Rightarrow> (pledge_row \<Rightarrow> pledge_row) \<Rightarrow> store \<Rightarrow> store \<Rightarrow> bool" where
  "revises_pledge ev p g st st' \<longleftrightarrow>
     supply_grows st st' \<and> p \<in> set (pledges st) \<and> pl_eventId p = ev
     \<and> (\<forall>q. pl_id (g q) = pl_id q \<and> pl_eventId (g q) = pl_eventId q)
     \<and> pledges st' = update_where (\<lambda>q. pl_eventId q = ev \<and> pl_id q = pl_id p) g (pledges st)
     \<and> distinct (map f_id (fulfillments st'))
     \<and> (\<forall>f\<in>set (fulfillments st'). known_id st' (f_id f) \<and>
          (\<exists>q\<in>set (pledges st). pl_id q = f_pledgeId f \<and> pl_eventId q = f_eventId f))
     \<and> (\<forall>j. j \<noteq> pl_id p \<longrightarrow> received st' j = received st j)"

lemma revised_rows:
  assumes "ledger_inv st" "revises_pledge ev p g st st'" "q \<in> set (pledges st')"
  shows "q = g p \<or> (q \<in> set (pledges st) \<and> pl_id q \<noteq> pl_id p)"
  using assms pledge_unique [OF assms(1)] by (auto simp: revises_pledge_def in_update_where)

lemma revised_in: "revises_pledge ev p g st st' \<Longrightarrow> g p \<in> set (pledges st')"
  by (auto simp: revises_pledge_def in_update_where)

lemma revises_pledge_inv:
  assumes "ledger_inv st" "revises_pledge ev p g st st'"
    and "pl_status (g p) = deriveStatus (pl_committedValue (g p)) (received st' (pl_id p)) (pl_status (g p) = CANCELLED)"
  shows "ledger_inv st'"
proof -
  note inv = ledger_invD [OF assms(1)]
  note rev = assms(2) [unfolded revises_pledge_def]
  have ids: "map pl_id (pledges st') = map pl_id (pledges st)"
    using rev by (simp add: map_update_where_same)
  have refers: "\<exists>q'\<in>set (pledges st'). pl_id q' = pl_id q \<and> pl_eventId q' = pl_eventId q"
    if "q \<in> set (pledges st)" for q
  proof (cases "pl_eventId q = ev \<and> pl_id q = pl_id p")
    case True
    then have "g q \<in> set (pledges st')" using that rev by (auto simp: in_update_where)
    then show ?thesis using rev by metis
  next
    case False
    then have "q \<in> set (pledges st')" using that rev by (auto simp: in_update_where)
    then show ?thesis by metis
  qed
  have known: "known_id st i \<Longrightarrow> known_id st' i" for i
    using rev known_id_mono by blast
  have "known_id st' (pl_id q)" if "q \<in> set (pledges st')" for q
  proof -
    have "pl_id q \<in> pl_id ` set (pledges st)" using that ids by (metis image_eqI list.set_map)
    then show ?thesis using inv(4) known by auto
  qed
  moreover have "uuid st' = uuid st" using rev by (simp add: supply_grows_def)
  moreover have "\<exists>q'\<in>set (pledges st'). pl_id q' = f_pledgeId f \<and> pl_eventId q' = f_eventId f"
    if "f \<in> set (fulfillments st')" for f
  proof -
    obtain q where "q \<in> set (pledges st)" "pl_id q = f_pledgeId f" "pl_eventId q = f_eventId f"
      using rev \<open>f \<in> set (fulfillments st')\<close> by blast
    then show ?thesis using refers by metis
  qed
  ultimately have "wf_ledger st'"
    using inv(1,2) ids rev unfolding wf_ledger_def by (simp add: id_supply_def)
  moreover have "status_derived st'"
    unfolding status_derived_def
  proof
    fix q assume "q \<in> set (pledges st')"
    from revised_rows [OF assms(1,2) this]
    show "pl_status q = deriveStatus (pl_committedValue q) (received st' (pl_id q)) (pl_status q = CANCELLED)"
    proof
      assume "q = g p"
      then show ?thesis using assms(3) rev by simp
    next
      assume "q \<in> set (pledges st) \<and> pl_id q \<noteq> pl_id p"
      then show ?thesis using inv(7) rev by simp
    qed
  qed
  ultimately show ?thesis by (simp add: ledger_inv_def)
qed

lemma revises_pledge_within:
  assumes "ledger_inv st" "within_committed st" "revises_pledge ev p g st st'"
    and "received st' (pl_id p) \<le> pl_committedValue (g p)"
  shows "within_committed st'"
  unfolding within_committed_def
proof
  fix q assume "q \<in> set (pledges st')"
  from revised_rows [OF assms(1,3) this] show "received st' (pl_id q) \<le> pl_committedValue q"
    using assms(2-4) by (auto simp: within_committed_def revises_pledge_def)
qed

lemma revises_then_same:
  "revises_pledge ev p g st st1 \<Longrightarrow> money_same st1 st2 \<Longrightarrow> revises_pledge ev p g st st2"
  using known_id_mono
  by (fastforce simp: revises_pledge_def money_same_def received_def supply_grows_def)

lemma adds_then_same: "adds_pledge p st st1 \<Longrightarrow> money_same st1 st2 \<Longrightarrow> adds_pledge p st st2"
  by (auto simp: adds_pledge_def money_same_def supply_grows_def)

text \<open>Pledges keep their ids, events, numbers and statuses; only other columns change.\<close>

definition relabels :: "store \<Rightarrow> store \<Rightarrow> bool" where
  "relabels st st' \<longleftrightarrow>
     supply_grows st st' \<and> fulfillments st' = fulfillments st
     \<and> map (\<lambda>p. (pl_id p, pl_eventId p, pl_committedValue p, pl_status p)) (pledges st') =
       map (\<lambda>p. (pl_id p, pl_eventId p, pl_committedValue p, pl_status p)) (pledges st)"

interpretation relabelled: store_relation relabels
  by unfold_locales (auto simp: relabels_def supply_grows_def)

lemmas relabels_basic [keeps_intros] =
  relabelled.keeps_ret relabelled.keeps_throw relabelled.keeps_query relabelled.keeps_await

lemma money_same_relabels: "money_same a b \<Longrightarrow> relabels a b"
  by (simp add: money_same_def relabels_def)

lemma keeps_money_relabels: "keeps s money_same m \<Longrightarrow> keeps s relabels m"
  by (auto simp: keeps_def intro: money_same_relabels)

end
