(* ===== verification/Payment_Effects.thy ===== *)
theory Payment_Effects
  imports Ledger_Effects
begin

text \<open>
  The operations of \<^verbatim>\<open>pledge.service.ts\<close> and \<^verbatim>\<open>fulfillment.service.ts\<close> in the terms of
  Ledger_Effects: recording a payment appends one fulfillment and re-derives one status, a
  correction replaces one number, cancelling changes one status. The invariants and the
  functional properties of the services follow from these equations.
\<close>

section \<open>Recording one payment\<close>

definition pays :: "uuid \<Rightarrow> pledge_row \<Rightarrow> fulfillment_row \<Rightarrow> store \<Rightarrow> store \<Rightarrow> bool" where
  "pays ev p f st st' \<longleftrightarrow>
     revises_pledge ev p
       (\<lambda>q. q\<lparr>pl_status := deriveStatus (pl_committedValue p) (received st (pl_id p) + f_value f) False\<rparr>)
       st st'
     \<and> fulfillments st' = fulfillments st @ [f] \<and> f_pledgeId f = pl_id p \<and> f_eventId f = ev"

lemma pays_received:
  "pays ev p f st st' \<Longrightarrow> received st' (pl_id p) = received st (pl_id p) + f_value f"
  by (simp add: pays_def received_def)

lemma pays_inv: "ledger_inv st \<Longrightarrow> pays ev p f st st' \<Longrightarrow> ledger_inv st'"
proof -
  assume inv: "ledger_inv st" and pays: "pays ev p f st st'"
  show "ledger_inv st'"
    by (rule revises_pledge_inv [OF inv])
       (use pays in \<open>auto simp: pays_def pays_received [OF pays]\<close>)
qed

lemma pays_within:
  "ledger_inv st \<Longrightarrow> within_committed st \<Longrightarrow> pays ev p f st st' \<Longrightarrow>
   received st (pl_id p) + f_value f \<le> pl_committedValue p \<Longrightarrow> within_committed st'"
  using pays_received by (fastforce simp: pays_def intro: revises_pledge_within)

text \<open>The insert of the fulfillment followed by the update of the status.\<close>

lemma insert_and_derive:
  assumes inv: "ledger_inv st" and p: "p \<in> set (pledges st)" "pl_eventId p = ev"
    and f: "f_id f = fresh_id st" "f_eventId f = ev" "f_pledgeId f = pl_id p"
    and st1: "st1 = (draw st)\<lparr>fulfillments := fulfillments st @ [f]\<rparr>"
    and s: "status = deriveStatus (pl_committedValue p) (received st (pl_id p) + f_value f) False"
    and st2: "st2 = st1\<lparr>pledges := update_where (\<lambda>q. pl_eventId q = ev \<and> pl_id q = pl_id p)
                 (\<lambda>q. q\<lparr>pl_status := status\<rparr>) (pledges st1)\<rparr>"
  shows "pays ev p f st st2"
proof -
  note inv' = ledger_invD [OF inv]
  have grows: "supply_grows st st2" by (simp add: st1 st2 supply_grows_def)
  then have known: "known_id st i \<Longrightarrow> known_id st2 i" for i by (rule known_id_mono [rotated])
  have "known_id st2 (f_id f)" using f(1) by (simp add: known_id_fresh st1 st2)
  moreover have "f_id f \<notin> f_id ` set (fulfillments st)"
    using inv'(5) fresh_not_known [OF inv'(1)] f(1) by (metis imageE)
  moreover have fs: "fulfillments st2 = fulfillments st @ [f]" by (simp add: st1 st2)
  moreover have "received st2 j = received st j" if "j \<noteq> pl_id p" for j
    using that fs f(3) by (simp add: received_def)
  ultimately have "revises_pledge ev p (\<lambda>q. q\<lparr>pl_status := status\<rparr>) st st2"
    unfolding revises_pledge_def using inv'(3,5,6) grows p f known by (auto simp: st1 st2)
  then show ?thesis using f fs by (simp add: pays_def s)
qed

lemma writeFulfillment_pays:
  assumes inv: "ledger_inv st" and p: "p \<in> set (pledges st)" "pl_eventId p = ctx_ev ctx"
    and input: "wf_pledgeId input = pl_id p" "wf_committedValue input = pl_committedValue p"
    and run: "writeFulfillment env ctx input (in_event (ctx_ev ctx)) st = Inr (st', v)"
  shows "\<exists>f. pays (ctx_ev ctx) p f st st' \<and> f_value f = wf_value input
      \<and> f_idempotencyKey f = wf_idempotencyKey input \<and> f_createdAt f = now env
      \<and> v = fulfillment_view_of f
              (deriveStatus (pl_committedValue p) (received st (pl_id p) + wf_value input) False)
              (outstanding (pl_committedValue p) (received st (pl_id p) + wf_value input))"
proof -
  let ?s = "in_event (ctx_ev ctx)"
  let ?total = "received st (pl_id p) + wf_value input"
  let ?status = "deriveStatus (pl_committedValue p) ?total False"
  obtain st1 f st2 q st3 a where
    create: "fulfillment_create (\<lambda>i. \<lparr>f_id = i, f_eventId = ctx_ev ctx, f_pledgeId = wf_pledgeId input,
               f_kind = nullish (wf_kind input) PAYMENT, f_value = wf_value input,
               f_currency = nullish (wf_currency input) ''UGX'',
               f_method = nullish (wf_method input) UNKNOWN, f_verificationStatus = REPORTED,
               f_note = wf_note input, f_occurredAt = nullish (wf_occurredAt input) (now env),
               f_idempotencyKey = wf_idempotencyKey input, f_source = nullish (wf_source input) human_typed,
               f_createdById = Some (ctx_user ctx), f_createdAt = now env\<rparr>) ?s st = Inr (st1, f)"
    and update: "pledge_update (wf_pledgeId input) (\<lambda>p. p\<lparr>pl_status := deriveStatus (wf_committedValue input)
               (sumFulfillments (wf_pledgeId input) ?s st1) False\<rparr>) ?s st1 = Inr (st2, q)"
    and rest: "money_same st2 st3" "money_same st3 st'"
    and v: "v = fulfillment_view_of f (deriveStatus (wf_committedValue input)
               (sumFulfillments (wf_pledgeId input) ?s st1) False)
               (outstanding (wf_committedValue input) (sumFulfillments (wf_pledgeId input) ?s st1))"
    using run unfolding writeFulfillment_def Let_def
    by (auto dest!: keepsD [OF money_statements(9)] keepsD [OF money_statements(10)])
  have f: "st1 = (draw st)\<lparr>fulfillments := fulfillments st @ [f]\<rparr>" "f_id f = fresh_id st"
    "f_eventId f = ctx_ev ctx" "f_pledgeId f = pl_id p" "f_value f = wf_value input"
    "f_idempotencyKey f = wf_idempotencyKey input" "f_createdAt f = now env"
    using create input by (auto dest!: fulfillment_create_Inr simp: tbl_create_def Let_def split: if_splits)
  have "sumFulfillments (pl_id p) ?s st1 = sumFulfillments (pl_id p) ?s st + wf_value input"
    using f by (simp add: sumFulfillments_def tbl_visible_def)
  then have total: "sumFulfillments (pl_id p) ?s st1 = ?total"
    using sumFulfillments_received [OF inv p] by simp
  have "pays (ctx_ev ctx) p f st st2"
    using insert_and_derive [OF inv p f(2-4,1) refl refl] update input total f(5)
    by (auto simp: pledge_update_def tbl_update_def split: if_splits option.splits)
  then have "pays (ctx_ev ctx) p f st st'"
    using rest untouched.rel_trans [OF rest] revises_then_same by (auto simp: pays_def money_same_def)
  then show ?thesis using f v total input by auto
qed

section \<open>The operations of the services\<close>

lemma pledge_update_rows:
  "pledge_update i g (in_event ev) st = Inr (st', q) \<Longrightarrow>
     st' = st\<lparr>pledges := update_where (\<lambda>p. pl_eventId p = ev \<and> pl_id p = i) g (pledges st)\<rparr>
     \<and> (\<exists>p\<in>set (pledges st). pl_id p = i \<and> pl_eventId p = ev \<and> q = g p)"
  by (auto simp: pledge_update_def tbl_update_def tbl_visible_def find_filter dest!: find_SomeD
      split: if_splits option.splits)

lemma pledge_create_rows:
  "pledge_create mk s st = Inr (st', p) \<Longrightarrow>
     p = mk (fresh_id st) \<and> st' = (draw st)\<lparr>pledges := pledges st @ [p]\<rparr>"
  by (auto dest!: pledge_create_Inr simp: tbl_create_def Let_def split: if_splits)

text \<open>An update of one pledge that leaves the fulfillments alone.\<close>

lemma update_revises:
  assumes inv: "ledger_inv st" and p: "p \<in> set (pledges st)" "pl_eventId p = ev"
    and g: "\<And>q. pl_id (g q) = pl_id q \<and> pl_eventId (g q) = pl_eventId q"
    and st1: "st1 = st\<lparr>pledges := update_where (\<lambda>q. pl_eventId q = ev \<and> pl_id q = pl_id p) g (pledges st)\<rparr>"
    and same: "money_same st1 st'"
  shows "revises_pledge ev p g st st'" "fulfillments st' = fulfillments st" "received st' = received st"
proof -
  note inv' = ledger_invD [OF inv]
  have "revises_pledge ev p g st st1"
    unfolding revises_pledge_def using inv'(3,5,6) p g
    by (auto simp: st1 supply_grows_def received_def known_id_def)
  then show "revises_pledge ev p g st st'" using same by (rule revises_then_same)
  show "fulfillments st' = fulfillments st" using same by (simp add: money_same_def st1)
  then show "received st' = received st" by (simp add: received_def fun_eq_iff)
qed

lemma creation_adds:
  assumes "pledge_create mk s st = Inr (st1, p)" "\<And>i. pl_id (mk i) = i \<and> pl_status (mk i) = PLEDGED"
    and "money_same st1 st'"
  shows "adds_pledge p st st'"
proof -
  have "adds_pledge p st st1"
    using pledge_create_rows [OF assms(1)] assms(2) by (auto simp: adds_pledge_def)
  then show ?thesis using assms(3) by (rule adds_then_same)
qed

lemma createPledge_adds:
  assumes "createPledge_tx env ctx input (in_event (ctx_ev ctx)) st = Inr (st', v)"
  shows "\<exists>p. adds_pledge p st st' \<and> pl_committedValue p = cpl_committedValue input
           \<and> pl_eventId p = ctx_ev ctx \<and> pl_personId p = cpl_personId input \<and> v = pledge_toView p"
  using assms unfolding createPledge_tx_def Let_def
  apply (clarsimp split: option.splits)
  subgoal for person st1 p a
    by (rule exI [of _ p]) (auto dest!: keepsD [OF money_statements(9)] dest: pledge_create_rows
        intro: creation_adds)
  done

lemma found_update_revises:
  assumes inv: "ledger_inv st" and found: "find_pledge i (in_event ev) st = Some p"
    and upd: "pledge_update i g (in_event ev) st = Inr (st1, q)"
    and g: "\<And>q. pl_id (g q) = pl_id q \<and> pl_eventId (g q) = pl_eventId q"
    and same: "money_same st1 st'"
  shows "q = g p" "revises_pledge ev p g st st'" "fulfillments st' = fulfillments st"
    "received st' = received st" "pl_id p = i"
proof -
  have p: "p \<in> set (pledges st)" "pl_id p = i" "pl_eventId p = ev"
    using find_pledge_Some [OF found] by auto
  have rows: "st1 = st\<lparr>pledges := update_where (\<lambda>q. pl_eventId q = ev \<and> pl_id q = pl_id p) g (pledges st)\<rparr>"
    using pledge_update_rows [OF upd] p by simp
  show "q = g p" using pledge_update_rows [OF upd] p pledge_unique [OF inv] by blast
  show "revises_pledge ev p g st st'" "fulfillments st' = fulfillments st" "received st' = received st"
    using update_revises [OF inv p(1,3) g rows same] by auto
  show "pl_id p = i" by (rule p)
qed

lemma correctCommittedValue_revises:
  assumes inv: "ledger_inv st"
    and run: "correctCommittedValue_tx env ctx i n (in_event (ctx_ev ctx)) st = Inr (st', v)"
  shows "\<exists>p g. revises_pledge (ctx_ev ctx) p g st st' \<and> pl_id p = i \<and> received st' = received st
      \<and> fulfillments st' = fulfillments st
      \<and> g p = p\<lparr>pl_committedValue := n, pl_status := deriveStatus n (received st i) (pl_status p = CANCELLED)\<rparr>
      \<and> v = pledge_toView (g p)"
proof -
  let ?s = "in_event (ctx_ev ctx)"
  obtain p st1 q where found: "find_pledge i ?s st = Some p"
    and upd: "pledge_update i (\<lambda>q. q\<lparr>pl_committedValue := n, pl_status :=
        deriveStatus n (sumFulfillments i ?s st) (pl_status p = CANCELLED)\<rparr>) ?s st = Inr (st1, q)"
    and same: "money_same st1 st'" and v: "v = pledge_toView q"
    using run unfolding correctCommittedValue_tx_def Let_def
    by (auto split: option.splits dest!: keepsD [OF money_statements(9)])
  note eff = found_update_revises [OF inv found upd _ same]
  have "sumFulfillments i ?s st = received st i"
    using sumFulfillments_received [OF inv] find_pledge_Some [OF found] by auto
  then show ?thesis using eff v by (intro exI conjI) (assumption | simp)+
qed

lemma cancelPledge_revises:
  assumes inv: "ledger_inv st"
    and run: "cancelPledge_tx env ctx i (in_event (ctx_ev ctx)) st = Inr (st', v)"
  shows "\<exists>p g. revises_pledge (ctx_ev ctx) p g st st' \<and> pl_id p = i \<and> received st' = received st
      \<and> fulfillments st' = fulfillments st \<and> g p = p\<lparr>pl_status := CANCELLED\<rparr> \<and> v = pledge_toView (g p)"
proof -
  obtain p st1 q where found: "find_pledge i (in_event (ctx_ev ctx)) st = Some p"
    and upd: "pledge_update i (\<lambda>q. q\<lparr>pl_status := CANCELLED\<rparr>) (in_event (ctx_ev ctx)) st = Inr (st1, q)"
    and same: "money_same st1 st'" and v: "v = pledge_toView q"
    using run unfolding cancelPledge_tx_def
    by (auto split: option.splits dest!: keepsD [OF money_statements(9)])
  note eff = found_update_revises [OF inv found upd _ same]
  show ?thesis using eff v by (intro exI conjI) (assumption | simp)+
qed

section \<open>Payments\<close>

lemma throw_Inr [simp]: "throw e s st = Inr x \<longleftrightarrow> False"
  by simp

lemma findByIdempotencyKey_Inr:
  "findByIdempotencyKey key s st = Inr (st1, r) \<Longrightarrow> st1 = st"
  by (auto simp: findByIdempotencyKey_def query_def split: if_splits)

lemma assertNotDuplicate_Inr: "assertNotDuplicate env i v s st = Inr (st1, u) \<Longrightarrow> st1 = st"
  by (auto simp: assertNotDuplicate_def Let_def query_def split: if_splits option.splits)

lemma assertWithinCommitted_Inr:
  "assertWithinCommitted i c v ex s st = Inr (st1, u) \<Longrightarrow> st1 = st \<and> sumExcluding i ex s st + v \<le> c"
  by (auto simp: assertWithinCommitted_def Let_def query_def split: if_splits)

lemma sumExcluding_None [simp]: "sumExcluding i None s st = sumFulfillments i s st"
  by (simp add: sumExcluding_def sumFulfillments_def)

text \<open>A payment that was accepted is a replay that changes nothing, or one new fulfillment on a
  pledge that is not cancelled and stays within its commitment.\<close>

lemma recordFulfillment_pays:
  assumes inv: "ledger_inv st"
    and run: "recordFulfillment_tx env ctx input (in_event (ctx_ev ctx)) st = Inr (st', v)"
  shows "(findByIdempotencyKey (rf_idempotencyKey input) (in_event (ctx_ev ctx)) st = Inr (st, Some v) \<and> st' = st)
    \<or> (\<exists>p f. p \<in> set (pledges st) \<and> pl_id p = rf_pledgeId input \<and> pl_status p \<noteq> CANCELLED
         \<and> pays (ctx_ev ctx) p f st st' \<and> f_value f = rf_value input
         \<and> f_idempotencyKey f = rf_idempotencyKey input
         \<and> received st (pl_id p) + rf_value input \<le> pl_committedValue p
         \<and> v = fulfillment_view_of f
              (deriveStatus (pl_committedValue p) (received st (pl_id p) + rf_value input) False)
              (outstanding (pl_committedValue p) (received st (pl_id p) + rf_value input)))"
proof -
  let ?s = "in_event (ctx_ev ctx)"
  obtain r where r: "findByIdempotencyKey (rf_idempotencyKey input) ?s st = Inr (st, r)"
    using run findByIdempotencyKey_Inr unfolding recordFulfillment_tx_def await_Inr_iff by blast
  show ?thesis
  proof (cases r)
    case (Some w)
    then show ?thesis using run r by (auto simp: recordFulfillment_tx_def await_def)
  next
    case None
    obtain p where found: "find_pledge (rf_pledgeId input) ?s st = Some p"
      using run r None by (auto simp: recordFulfillment_tx_def await_def split: option.splits)
    then have p: "p \<in> set (pledges st)" "pl_id p = rf_pledgeId input" "pl_eventId p = ctx_ev ctx"
      using find_pledge_Some by auto
    let ?w = "\<lparr>wf_pledgeId = rf_pledgeId input, wf_committedValue = pl_committedValue p,
        wf_value = rf_value input, wf_kind = rf_kind input, wf_method = rf_method input,
        wf_currency = rf_currency input, wf_note = rf_note input,
        wf_occurredAt = rf_occurredAt input, wf_idempotencyKey = rf_idempotencyKey input,
        wf_source = rf_source input\<rparr>"
    obtain st1 u st2 u2 where steps: "pl_status p \<noteq> CANCELLED"
      "(if \<not> truthy_flag (rf_confirmDuplicate input)
        then assertNotDuplicate env (rf_pledgeId input) (rf_value input) else ret ()) ?s st = Inr (st1, u)"
      "assertWithinCommitted (rf_pledgeId input) (pl_committedValue p) (rf_value input) None ?s st1 = Inr (st2, u2)"
      "writeFulfillment env ctx ?w ?s st2 = Inr (st', v)"
      using run r [unfolded None] found unfolding recordFulfillment_tx_def
      by (fastforce split: if_splits)
    then have same: "st1 = st" "st2 = st"
      by (auto dest: assertNotDuplicate_Inr assertWithinCommitted_Inr split: if_splits)
    have "received st (pl_id p) + rf_value input \<le> pl_committedValue p"
      using assertWithinCommitted_Inr [OF steps(3)] same p sumFulfillments_received [OF inv p(1,3)] by simp
    moreover obtain f where "pays (ctx_ev ctx) p f st st'" "f_value f = rf_value input"
      "f_idempotencyKey f = rf_idempotencyKey input"
      "v = fulfillment_view_of f
          (deriveStatus (pl_committedValue p) (received st (pl_id p) + rf_value input) False)
          (outstanding (pl_committedValue p) (received st (pl_id p) + rf_value input))"
      using writeFulfillment_pays [OF inv p(1,3) _ _ steps(4) [unfolded same]] p(2) by auto
    ultimately show ?thesis using p(1,2) steps(1) by blast
  qed
qed

lemma direct_person_money:
  "direct_person env ctx input s st = Inr (st', i) \<Longrightarrow> money_same st st'"
proof -
  have "keeps s money_same (direct_person env ctx input)"
    unfolding direct_person_def Let_def by (intro keeps_intros)
  then show "direct_person env ctx input s st = Inr (st', i) \<Longrightarrow> money_same st st'"
    by (rule keepsD)
qed

text \<open>A new pledge followed by a payment on it.\<close>

definition adds_paid_pledge ::
  "uuid \<Rightarrow> pledge_row \<Rightarrow> fulfillment_row \<Rightarrow> store \<Rightarrow> store \<Rightarrow> bool" where
  "adds_paid_pledge ev p f st st' \<longleftrightarrow>
     (\<exists>st1. adds_pledge p st st1 \<and> pays ev p f st1 st') \<and> pl_eventId p = ev"

lemma received_new: "ledger_inv st \<Longrightarrow> adds_pledge p st st1 \<Longrightarrow> received st1 (pl_id p) = 0"
  using received_fresh adds_pledge_received by (metis adds_pledge_def)

lemma adds_paid_inv: "ledger_inv st \<Longrightarrow> adds_paid_pledge ev p f st st' \<Longrightarrow> ledger_inv st'"
  unfolding adds_paid_pledge_def by (blast intro: adds_pledge_inv pays_inv)

lemma adds_paid_within:
  assumes "ledger_inv st" "within_committed st" "adds_paid_pledge ev p f st st'"
    and "0 \<le> pl_committedValue p" "f_value f \<le> pl_committedValue p"
  shows "within_committed st'"
proof -
  obtain st1 where st1: "adds_pledge p st st1" "pays ev p f st1 st'"
    using assms(3) by (auto simp: adds_paid_pledge_def)
  moreover have "ledger_inv st1" "within_committed st1"
    using assms(1,2,4) st1(1) adds_pledge_inv adds_pledge_within by blast+
  ultimately show ?thesis
    using assms(5) received_new [OF assms(1) st1(1)] pays_within [of st1] by simp
qed

lemma create_and_pay:
  assumes inv: "ledger_inv st"
    and mk: "\<And>i. pl_id (mk i) = i \<and> pl_status (mk i) = PLEDGED \<and> pl_eventId (mk i) = ctx_ev ctx"
    and w: "wf_pledgeId w = pl_id p" "wf_committedValue w = pl_committedValue p"
    and create: "pledge_create mk (in_event (ctx_ev ctx)) st = Inr (st1, p)"
    and audit: "money_same st1 st2"
    and written: "writeFulfillment env ctx w (in_event (ctx_ev ctx)) st2 = Inr (st', v)"
  shows "p = mk (fresh_id st)
       \<and> (\<exists>f. adds_paid_pledge (ctx_ev ctx) p f st st' \<and> f_value f = wf_value w
         \<and> f_idempotencyKey f = wf_idempotencyKey w
         \<and> v = fulfillment_view_of f (deriveStatus (pl_committedValue p) (f_value f) False)
                 (outstanding (pl_committedValue p) (f_value f)))"
proof -
  have adds: "adds_pledge p st st2" using creation_adds [OF create _ audit] mk by blast
  have p: "p = mk (fresh_id st)" using pledge_create_rows [OF create] by blast
  then have ev: "pl_eventId p = ctx_ev ctx" using mk by simp
  have "p \<in> set (pledges st2)" using adds by (simp add: adds_pledge_def)
  from writeFulfillment_pays [OF adds_pledge_inv [OF inv adds] this ev _ _ written] w
  obtain f where "pays (ctx_ev ctx) p f st2 st'" "f_value f = wf_value w"
    "f_idempotencyKey f = wf_idempotencyKey w"
    "v = fulfillment_view_of f (deriveStatus (pl_committedValue p) (f_value f) False)
                 (outstanding (pl_committedValue p) (f_value f))"
    using received_new [OF inv adds] by auto
  then show ?thesis using p ev adds by (auto simp: adds_paid_pledge_def)
qed

lemma recordDirectContribution_pays:
  assumes inv: "ledger_inv st"
    and run: "recordDirectContribution_tx env ctx input (in_event (ctx_ev ctx)) st = Inr (st', v)"
  shows "(findByIdempotencyKey (dc_idempotencyKey input) (in_event (ctx_ev ctx)) st = Inr (st, Some v) \<and> st' = st)
    \<or> (\<exists>st0 p f. money_same st st0 \<and> adds_paid_pledge (ctx_ev ctx) p f st0 st'
         \<and> pl_committedValue p = dc_value input \<and> pl_isDirect p
         \<and> f_value f = dc_value input \<and> f_idempotencyKey f = dc_idempotencyKey input
         \<and> v = fulfillment_view_of f (deriveStatus (dc_value input) (dc_value input) False) 0)"
proof -
  let ?s = "in_event (ctx_ev ctx)"
  obtain r where r: "findByIdempotencyKey (dc_idempotencyKey input) ?s st = Inr (st, r)"
    using run findByIdempotencyKey_Inr unfolding recordDirectContribution_tx_def await_Inr_iff by blast
  show ?thesis
  proof (cases r)
    case (Some w)
    then show ?thesis using run r by (auto simp: recordDirectContribution_tx_def await_def)
  next
    case None
    let ?source = "nullish (dc_source input) human_typed"
    let ?mk = "\<lambda>personId i. \<lparr>pl_id = i, pl_eventId = ctx_ev ctx, pl_personId = personId,
                 pl_type = nullish (dc_type input) CASH, pl_committedValue = dc_value input,
                 pl_status = PLEDGED, pl_targetBudgetItemId = dc_targetBudgetItemId input,
                 pl_description = dc_description input, pl_quantity = None, pl_unit = None,
                 pl_estimatedValue = None, pl_isDirect = True, pl_source = ?source,
                 pl_createdById = Some (ctx_user ctx), pl_createdAt = now env\<rparr>"
    let ?w = "\<lambda>pledge. \<lparr>wf_pledgeId = pl_id pledge, wf_committedValue = pl_committedValue pledge,
           wf_value = dc_value input, wf_kind = dc_kind input, wf_method = dc_method input,
           wf_currency = None, wf_note = dc_note input, wf_occurredAt = None,
           wf_idempotencyKey = dc_idempotencyKey input, wf_source = Some ?source\<rparr>"
    from run r [unfolded None] obtain st0 i st1 p st2 where
      person: "direct_person env ctx input ?s st = Inr (st0, i)"
      and create: "pledge_create (?mk i) ?s st0 = Inr (st1, p)"
      and audited: "money_same st1 st2"
      and written: "writeFulfillment env ctx (?w p) ?s st2 = Inr (st', v)"
      unfolding recordDirectContribution_tx_def Let_def
      by (fastforce dest: keepsD [OF money_statements(9)])
    have same: "money_same st st0" using person by (rule direct_person_money)
    have "p = ?mk i (fresh_id st0) \<and> (\<exists>f. adds_paid_pledge (ctx_ev ctx) p f st0 st' \<and> f_value f = wf_value (?w p)
         \<and> f_idempotencyKey f = wf_idempotencyKey (?w p)
         \<and> v = fulfillment_view_of f (deriveStatus (pl_committedValue p) (f_value f) False)
                 (outstanding (pl_committedValue p) (f_value f)))"
      by (rule create_and_pay [OF money_same_inv [OF same inv] _ _ _ create audited written]) simp_all
    then obtain f where "p = ?mk i (fresh_id st0)" "adds_paid_pledge (ctx_ev ctx) p f st0 st'"
      "f_value f = dc_value input" "f_idempotencyKey f = dc_idempotencyKey input"
      "v = fulfillment_view_of f (deriveStatus (dc_value input) (dc_value input) False) 0"
      by (auto simp: outstanding_def)
    then show ?thesis using same by force
  qed
qed

lemma recordPledgeWithPayment_pays:
  assumes inv: "ledger_inv st"
    and run: "recordPledgeWithPayment_tx env ctx input (in_event (ctx_ev ctx)) st = Inr (st', v)"
  defines "paid \<equiv> nullish (pp_receivedNow input) 0"
  shows "paid \<le> pp_committedValue input \<and>
    (\<exists>p. pl_committedValue p = pp_committedValue input \<and> pl_personId p = pp_personId input
       \<and> \<not> pl_isDirect p \<and> pl_eventId p = ctx_ev ctx
       \<and> (if paid \<le> 0 then adds_pledge p st st'
          else \<exists>f. adds_paid_pledge (ctx_ev ctx) p f st st' \<and> f_value f = paid
             \<and> f_idempotencyKey f = pp_idempotencyKey input
             \<and> v = fulfillment_view_of f (deriveStatus (pp_committedValue input) paid False)
                     (outstanding (pp_committedValue input) paid)))"
proof -
  let ?s = "in_event (ctx_ev ctx)"
  let ?source = "nullish (pp_source input) human_typed"
  let ?mk = "\<lambda>i. \<lparr>pl_id = i, pl_eventId = ctx_ev ctx, pl_personId = pp_personId input,
                 pl_type = nullish (pp_type input) CASH, pl_committedValue = pp_committedValue input,
                 pl_status = PLEDGED, pl_targetBudgetItemId = pp_targetBudgetItemId input,
                 pl_description = pp_description input, pl_quantity = None, pl_unit = None,
                 pl_estimatedValue = None, pl_isDirect = False, pl_source = ?source,
                 pl_createdById = Some (ctx_user ctx), pl_createdAt = now env\<rparr>"
  let ?w = "\<lambda>pledge. \<lparr>wf_pledgeId = pl_id pledge, wf_committedValue = pl_committedValue pledge,
               wf_value = paid, wf_kind = None, wf_method = pp_method input,
               wf_currency = None, wf_note = pp_note input, wf_occurredAt = None,
               wf_idempotencyKey = pp_idempotencyKey input, wf_source = Some ?source\<rparr>"
  from run obtain st1 p st2 where le: "paid \<le> pp_committedValue input"
    and create: "pledge_create ?mk ?s st = Inr (st1, p)" and audited: "money_same st1 st2"
    and tail: "if paid \<le> 0 then st' = st2 else writeFulfillment env ctx (?w p) ?s st2 = Inr (st', v)"
    unfolding recordPledgeWithPayment_tx_def Let_def paid_def
    by (fastforce dest: keepsD [OF money_statements(9)] split: option.splits if_splits)
  have p: "pl_committedValue p = pp_committedValue input" "pl_personId p = pp_personId input"
    "\<not> pl_isDirect p" "pl_eventId p = ctx_ev ctx"
    using pledge_create_rows [OF create] by auto
  show ?thesis
  proof (cases "paid \<le> 0")
    case True
    then have "adds_pledge p st st'" using creation_adds [OF create _ audited] tail by simp
    then show ?thesis using le True p by (intro conjI exI [of _ p]) simp_all
  next
    case False
    then have written: "writeFulfillment env ctx (?w p) ?s st2 = Inr (st', v)" using tail by simp
    have "\<exists>f. adds_paid_pledge (ctx_ev ctx) p f st st' \<and> f_value f = wf_value (?w p)
         \<and> f_idempotencyKey f = wf_idempotencyKey (?w p)
         \<and> v = fulfillment_view_of f (deriveStatus (pl_committedValue p) (f_value f) False)
                 (outstanding (pl_committedValue p) (f_value f))"
      by (rule create_and_pay [OF inv _ _ _ create audited written, THEN conjunct2]) simp_all
    then show ?thesis using le False p by (intro conjI exI [of _ p]) auto
  qed
qed

text \<open>Replacing the value of one payment, seen from its pledge.\<close>

lemma replace_value:
  assumes inv: "ledger_inv st" and f: "f \<in> set (fulfillments st)" "f_id f = i"
    and p: "p \<in> set (pledges st)" "pl_id p = f_pledgeId f" "pl_eventId p = ev"
    and fs: "fs = update_where (\<lambda>h. f_eventId h = ev \<and> f_id h = i) (\<lambda>h. h\<lparr>f_value := n\<rparr>) (fulfillments st)"
  shows "sumExcluding (pl_id p) (Some i) (in_event ev) st = received st (pl_id p) - f_value f"
    and "received (st\<lparr>fulfillments := fs\<rparr>) (pl_id p) = received st (pl_id p) - f_value f + n"
    and "fs = update_where (\<lambda>h. f_id h = i) (\<lambda>h. h\<lparr>f_value := n\<rparr>) (fulfillments st)"
    and "\<And>j. j \<noteq> pl_id p \<Longrightarrow> received (st\<lparr>fulfillments := fs\<rparr>) j = received st j"
proof -
  note inv' = ledger_invD [OF inv]
  let ?P = "\<lambda>h. f_pledgeId h = pl_id p" and ?U = "\<lambda>h. f_eventId h = ev \<and> f_id h = i"
  have one: "h = f" if "h \<in> set (fulfillments st)" "f_id h = i" for h
    using fulfillment_unique [OF inv that(1) f(1)] that(2) f(2) by simp
  have ev: "f_eventId h = ev" if "h \<in> set (fulfillments st)" "?P h" for h
    using fulfillment_event [OF inv p(1) that] p(3) by simp
  have U: "h \<in> set (fulfillments st) \<Longrightarrow> f_id h = i \<Longrightarrow> ?U h" for h
    using one ev f(1) p(2) by auto
  have "i \<noteq> ''''" using known_id_nonempty [OF inv'(1) inv'(5)] f by auto
  then have excl: "sumExcluding (pl_id p) (Some i) (in_event ev) st
      = sum_where (\<lambda>h. ?P h \<and> f_id h \<noteq> i) f_value (fulfillments st)"
    using ev by (auto simp: sumExcluding_def tbl_visible_def intro!: sum_where_cong)
  have whole: "received st (pl_id p) = sum_where (\<lambda>h. ?P h \<and> f_id h \<noteq> i) f_value (fulfillments st) + f_value f"
    unfolding received_def
    by (subst sum_where_replace [OF inv'(3) f, of ?P ?U "\<lambda>h. h" f_value "f_value f", unfolded update_where_id])
       (use U p(2) [symmetric] in blast)+
  have "sum_where ?P f_value fs = sum_where (\<lambda>h. ?P h \<and> f_id h \<noteq> i) f_value (fulfillments st) + n"
    unfolding fs by (intro sum_where_replace [OF inv'(3) f]) (use U p(2) in simp_all)
  then show "received (st\<lparr>fulfillments := fs\<rparr>) (pl_id p) = received st (pl_id p) - f_value f + n"
    using whole by (simp add: received_def)
  show "sumExcluding (pl_id p) (Some i) (in_event ev) st = received st (pl_id p) - f_value f"
    using whole excl by simp
  show "fs = update_where (\<lambda>h. f_id h = i) (\<lambda>h. h\<lparr>f_value := n\<rparr>) (fulfillments st)"
    unfolding fs by (intro update_where_cong) (use U in blast)
  show "received (st\<lparr>fulfillments := fs\<rparr>) j = received st j" if "j \<noteq> pl_id p" for j
    using that one p(2) unfolding received_def fs by (auto intro!: sum_where_update_other)
qed

lemma revises_value:
  assumes inv: "ledger_inv st" and f: "f \<in> set (fulfillments st)" "f_id f = i"
    and p: "p \<in> set (pledges st)" "pl_id p = f_pledgeId f" "pl_eventId p = ev"
    and st1: "st1 = st\<lparr>fulfillments := update_where (\<lambda>h. f_eventId h = ev \<and> f_id h = i)
                          (\<lambda>h. h\<lparr>f_value := n\<rparr>) (fulfillments st)\<rparr>"
    and st2: "st2 = st1\<lparr>pledges := update_where (\<lambda>q. pl_eventId q = ev \<and> pl_id q = pl_id p) g (pledges st1)\<rparr>"
    and g: "\<And>q. pl_id (g q) = pl_id q \<and> pl_eventId (g q) = pl_eventId q"
  shows "revises_pledge ev p g st st2"
proof -
  note inv' = ledger_invD [OF inv]
  have fs: "fulfillments st2 = fulfillments st1" by (simp add: st2)
  have rec: "received st2 j = received st1 j" for j by (simp add: received_def fs)
  have grows: "supply_grows st st2" by (simp add: supply_grows_def st1 st2)
  have "map f_id (fulfillments st2) = map f_id (fulfillments st)"
    unfolding fs st1 by (simp add: map_update_where_same)
  moreover have "known_id st2 (f_id h) \<and>
      (\<exists>q\<in>set (pledges st). pl_id q = f_pledgeId h \<and> pl_eventId q = f_eventId h)"
    if "h \<in> set (fulfillments st2)" for h
    using that inv'(5,6) known_id_mono [OF _ grows] unfolding fs st1 by (auto simp: in_update_where)
  moreover have "received st2 j = received st j" if "j \<noteq> pl_id p" for j
    unfolding rec st1 using that by (intro replace_value(4) [OF inv f p refl])
  ultimately show ?thesis
    unfolding revises_pledge_def using grows p g inv'(3) by (simp add: st1 st2)
qed

lemma correctValue_revises:
  assumes inv: "ledger_inv st"
    and run: "correctValue_tx env ctx i n (in_event (ctx_ev ctx)) st = Inr (st', v)"
  shows "\<exists>f p g. f \<in> set (fulfillments st) \<and> f_id f = i \<and> f_pledgeId f = pl_id p
      \<and> revises_pledge (ctx_ev ctx) p g st st'
      \<and> fulfillments st' = update_where (\<lambda>h. f_id h = i) (\<lambda>h. h\<lparr>f_value := n\<rparr>) (fulfillments st)
      \<and> received st' (pl_id p) = received st (pl_id p) - f_value f + n
      \<and> received st' (pl_id p) \<le> pl_committedValue p
      \<and> g p = p\<lparr>pl_status := deriveStatus (pl_committedValue p) (received st' (pl_id p)) (pl_status p = CANCELLED)\<rparr>"
proof -
  let ?s = "in_event (ctx_ev ctx)"
  let ?st1 = "st\<lparr>fulfillments := update_where (\<lambda>h. f_eventId h = ctx_ev ctx \<and> f_id h = i)
                   (\<lambda>h. h\<lparr>f_value := n\<rparr>) (fulfillments st)\<rparr>"
  note inv' = ledger_invD [OF inv]
  obtain f where found: "List.find (\<lambda>f. f_id f = i) (visible_fulfillments ?s st) = Some f"
    using run by (auto simp: correctValue_tx_def split: option.splits)
  then have f: "f \<in> set (fulfillments st)" "f_id f = i" "f_eventId f = ctx_ev ctx"
    by (auto simp: tbl_visible_def dest: find_SomeD)
  then obtain p where p: "p \<in> set (pledges st)" "pl_id p = f_pledgeId f" "pl_eventId p = ctx_ev ctx"
    using inv'(6) [of f] by auto
  have find_p: "find_pledge (f_pledgeId f) ?s st = Some p"
    unfolding find_pledge_def using p inv'(2)
    by (intro find_unique [of pl_id]) (auto simp: tbl_visible_def distinct_map_filter)
  then have find_p1: "find_pledge (f_pledgeId f) ?s ?st1 = Some p"
    by (simp add: find_pledge_def tbl_visible_def)
  obtain st2 st3 q where within: "sumExcluding (f_pledgeId f) (Some i) ?s st + n \<le> pl_committedValue p"
    and upd: "pledge_update (f_pledgeId f) (\<lambda>q. q\<lparr>pl_status := deriveStatus (pl_committedValue p)
        (sumFulfillments (f_pledgeId f) ?s ?st1) (pl_status p = CANCELLED)\<rparr>) ?s ?st1 = Inr (st2, q)"
    and audited: "money_same st2 st'"
    using run found find_p find_p1 unfolding correctValue_tx_def
    by (auto simp: Let_def fulfillment_update_def tbl_update_def dest!: assertWithinCommitted_Inr
        keepsD [OF money_statements(9)])
  note replaced = replace_value [OF inv f(1,2) p refl]
  let ?rec = "received st (pl_id p) - f_value f + n"
  have "h \<in> set (fulfillments st) \<Longrightarrow> f_pledgeId h = pl_id p \<Longrightarrow> f_eventId h = ctx_ev ctx" for h
    using fulfillment_event [OF inv p(1)] p(3) by simp
  then have "sumFulfillments (pl_id p) ?s ?st1 = received ?st1 (pl_id p)"
    unfolding sumFulfillments_def received_def tbl_visible_def sum_where_filter
    by (intro sum_where_cong) (auto simp: in_update_where)
  then have total: "sumFulfillments (pl_id p) ?s ?st1 = ?rec" using replaced(2) by simp
  let ?g = "\<lambda>q. q\<lparr>pl_status := deriveStatus (pl_committedValue p) ?rec (pl_status p = CANCELLED)\<rparr>"
  have st2: "st2 = ?st1\<lparr>pledges := update_where (\<lambda>q. pl_eventId q = ctx_ev ctx \<and> pl_id q = pl_id p) ?g (pledges ?st1)\<rparr>"
    using pledge_update_rows [OF upd] p(2) total by simp
  have "revises_pledge (ctx_ev ctx) p ?g st st2"
    by (rule revises_value [OF inv f(1,2) p refl st2]) simp
  then have revises: "revises_pledge (ctx_ev ctx) p ?g st st'" using audited by (rule revises_then_same)
  have fs: "fulfillments st' = fulfillments ?st1" using audited st2 by (simp add: money_same_def)
  then have rec: "received st' (pl_id p) = ?rec" using replaced(2) by (simp add: received_def)
  have le: "?rec \<le> pl_committedValue p" using within replaced(1) p(2) by simp
  have "fulfillments st' = update_where (\<lambda>h. f_id h = i) (\<lambda>h. h\<lparr>f_value := n\<rparr>) (fulfillments st)"
    using replaced(3) fs by simp
  then show ?thesis using f p(2) revises rec le
    by (intro exI [of _ f] exI [of _ p] exI [of _ ?g]) simp
qed

end
