(* ===== verification/Budget_Service.thy ===== *)
theory Budget_Service
  imports Fulfillment_Service
begin

text \<open>
  Budget lines and earmarks: \<^verbatim>\<open>libs/ledger/src/budget.service.ts\<close> and
  \<^verbatim>\<open>libs/ledger/src/allocation.service.ts\<close>. Edits of a line are versioned; a line with money
  allocated to it cannot be removed.
\<close>

section \<open>Inputs and views\<close>

record budget_item_input =
  bin_name :: string
  bin_targetValue :: money
  bin_source :: "provenance option"
  bin_confidence :: "rat option"
  bin_sourceDocumentId :: "uuid option"

record budget_item_update_input =
  bup_name :: "string option"
  bup_targetValue :: "money option"
  bup_isPublic :: "bool option"
  bup_expectedVersion :: "int option"

record budget_item_view =
  biv_id :: uuid
  biv_name :: string
  biv_targetValue :: string
  biv_source :: provenance
  biv_sourceDocumentId :: "uuid option"
  biv_version :: int

record allocation_view =
  av_id :: uuid
  av_fulfillmentId :: uuid
  av_budgetItemId :: uuid
  av_value :: string

definition budget_toView :: "budget_item_row \<Rightarrow> budget_item_view" where
  "budget_toView i = \<lparr>biv_id = bi_id i, biv_name = bi_name i,
     biv_targetValue = moneyToString (bi_targetValue i), biv_source = bi_source i,
     biv_sourceDocumentId = bi_sourceDocumentId i, biv_version = bi_version i\<rparr>"

definition find_budget_item :: "uuid \<Rightarrow> session \<Rightarrow> store \<Rightarrow> budget_item_row option" where
  "find_budget_item i s st = List.find (\<lambda>r. bi_id r = i) (visible_budget_items s st)"

definition budget_snapshot :: "budget_item_row \<Rightarrow> json" where
  "budget_snapshot i = JObj [(''name'', JStr (bi_name i)),
     (''targetValue'', JStr (moneyToString (bi_targetValue i)))]"

section \<open>Operations\<close>

text \<open>The default name of a budget row is the schema's.\<close>

definition ensureBudget :: "env \<Rightarrow> uuid \<Rightarrow> uuid tx" where
  "ensureBudget env eid =
     await (query (\<lambda>s st. List.find (\<lambda>b. b_eventId b = eid) (visible_budgets s st))) (\<lambda>existing.
     case existing of
       Some b \<Rightarrow> ret (b_id b)
     | None \<Rightarrow>
        await (budget_create (\<lambda>i. \<lparr>b_id = i, b_eventId = eid, b_name = ''Main budget'', b_createdAt = now env\<rparr>))
          (\<lambda>created. ret (b_id created)))"

definition addItem_tx :: "env \<Rightarrow> operation_context \<Rightarrow> budget_item_input \<Rightarrow> budget_item_view tx" where
  "addItem_tx env ctx input =
     await (ensureBudget env (ctx_ev ctx)) (\<lambda>budgetId.
     let source = nullish (bin_source input) human_typed in
     await (budget_item_create (\<lambda>i. \<lparr>bi_id = i, bi_eventId = ctx_ev ctx, bi_budgetId = budgetId,
              bi_name = bin_name input, bi_targetValue = bin_targetValue input, bi_isPublic = True,
              bi_source = source, bi_confidence = bin_confidence input,
              bi_sourceDocumentId = bin_sourceDocumentId input,
              bi_createdById = Some (ctx_user ctx), bi_version = 1, bi_createdAt = now env\<rparr>)) (\<lambda>item.
     await (audit_write (now env)
             \<lparr>ai_eventId = ctx_ev ctx, ai_actorUserId = Some (ctx_user ctx),
              ai_action = ''budget_item:create'', ai_resourceType = ''budget_item'',
              ai_resourceId = bi_id item, ai_source = Some source, ai_oldValue = None,
              ai_newValue = Some (budget_snapshot item)\<rparr>) (\<lambda>_.
     ret (budget_toView item))))"

definition addItem :: "env \<Rightarrow> operation_context \<Rightarrow> budget_item_input \<Rightarrow> budget_item_view svc" where
  "addItem env ctx input = gated ctx Budget_write (runInEvent (ctx_ev ctx) (addItem_tx env ctx input))"

definition updateItem_tx ::
  "env \<Rightarrow> operation_context \<Rightarrow> uuid \<Rightarrow> budget_item_update_input \<Rightarrow> budget_item_view tx" where
  "updateItem_tx env ctx itemId input =
     await (query (find_budget_item itemId)) (\<lambda>found. case found of
       None \<Rightarrow> throw (NotFound ''Budget item not found in this event'')
     | Some current \<Rightarrow>
        if bup_expectedVersion input \<noteq> None \<and> bup_expectedVersion input \<noteq> Some (bi_version current)
        then throw (Conflict (''The budget changed since you loaded it '' @ em_dash @ '' reload and try again''))
        else
          await (budget_item_update itemId (\<lambda>r. r\<lparr>bi_name := nullish (bup_name input) (bi_name current),
                   bi_targetValue := nullish (bup_targetValue input) (bi_targetValue current),
                   bi_isPublic := nullish (bup_isPublic input) (bi_isPublic r),
                   bi_version := bi_version r + 1\<rparr>)) (\<lambda>updated.
          await (audit_write (now env)
                  \<lparr>ai_eventId = ctx_ev ctx, ai_actorUserId = Some (ctx_user ctx),
                   ai_action = ''budget_item:update'', ai_resourceType = ''budget_item'',
                   ai_resourceId = itemId, ai_source = Some manual_correction,
                   ai_oldValue = Some (budget_snapshot current),
                   ai_newValue = Some (budget_snapshot updated)\<rparr>) (\<lambda>_.
          ret (budget_toView updated))))"

definition updateItem ::
  "env \<Rightarrow> operation_context \<Rightarrow> uuid \<Rightarrow> budget_item_update_input \<Rightarrow> budget_item_view svc" where
  "updateItem env ctx itemId input =
     gated ctx Budget_write (runInEvent (ctx_ev ctx) (updateItem_tx env ctx itemId input))"

definition removeItem_tx :: "env \<Rightarrow> operation_context \<Rightarrow> uuid \<Rightarrow> (uuid \<times> string) tx" where
  "removeItem_tx env ctx itemId =
     await (query (find_budget_item itemId)) (\<lambda>found. case found of
       None \<Rightarrow> throw (NotFound ''Budget item not found in this event'')
     | Some item \<Rightarrow>
        await (query (\<lambda>s st. count_where (\<lambda>a. a_budgetItemId a = itemId) (visible_allocations s st))) (\<lambda>allocated.
        if allocated > 0 then
          throw (Conflict ([CHR 0x22] @ bi_name item @ [CHR 0x22] @ '' has money allocated to it '' @ em_dash
                   @ '' reallocate before removing it''))
        else
          await (budget_item_delete itemId) (\<lambda>_.
          await (audit_write (now env)
                  \<lparr>ai_eventId = ctx_ev ctx, ai_actorUserId = Some (ctx_user ctx),
                   ai_action = ''budget_item:delete'', ai_resourceType = ''budget_item'',
                   ai_resourceId = itemId, ai_source = Some manual_correction,
                   ai_oldValue = Some (budget_snapshot item), ai_newValue = None\<rparr>) (\<lambda>_.
          ret (bi_id item, bi_name item)))))"

definition removeItem :: "env \<Rightarrow> operation_context \<Rightarrow> uuid \<Rightarrow> (uuid \<times> string) svc" where
  "removeItem env ctx itemId =
     gated ctx Budget_write (runInEvent (ctx_ev ctx) (removeItem_tx env ctx itemId))"

definition listItems :: "operation_context \<Rightarrow> budget_item_view list svc" where
  "listItems ctx =
     permitted ctx Budget_read
       (runInEvent (ctx_ev ctx)
          (query (\<lambda>s st. map budget_toView (sort_key bi_createdAt (visible_budget_items s st)))))"

section \<open>allocation.service.ts\<close>

definition allocate_tx ::
  "env \<Rightarrow> operation_context \<Rightarrow> uuid \<Rightarrow> uuid \<Rightarrow> money \<Rightarrow> allocation_view tx" where
  "allocate_tx env ctx fulfillmentId budgetItemId value =
     await (query (\<lambda>s st. List.find (\<lambda>f. f_id f = fulfillmentId) (visible_fulfillments s st))) (\<lambda>fulfillment.
     case fulfillment of
       None \<Rightarrow> throw (NotFound ''Fulfillment not found in this event'')
     | Some _ \<Rightarrow>
     await (query (find_budget_item budgetItemId)) (\<lambda>item. case item of
       None \<Rightarrow> throw (NotFound ''Budget item not found in this event'')
     | Some _ \<Rightarrow>
     await (allocation_create (\<lambda>i. \<lparr>a_id = i, a_eventId = ctx_ev ctx, a_fulfillmentId = fulfillmentId,
              a_budgetItemId = budgetItemId, a_value = value, a_createdAt = now env\<rparr>)) (\<lambda>allocation.
     await (audit_write (now env)
             \<lparr>ai_eventId = ctx_ev ctx, ai_actorUserId = Some (ctx_user ctx),
              ai_action = ''allocation:create'', ai_resourceType = ''allocation'',
              ai_resourceId = a_id allocation, ai_source = None, ai_oldValue = None,
              ai_newValue = Some (JObj [(''fulfillmentId'', JStr fulfillmentId),
                 (''budgetItemId'', JStr budgetItemId), (''value'', JStr (moneyToString value))])\<rparr>) (\<lambda>_.
     ret \<lparr>av_id = a_id allocation, av_fulfillmentId = a_fulfillmentId allocation,
          av_budgetItemId = a_budgetItemId allocation, av_value = moneyToString (a_value allocation)\<rparr>))))"

definition allocate ::
  "env \<Rightarrow> operation_context \<Rightarrow> uuid \<Rightarrow> uuid \<Rightarrow> money \<Rightarrow> allocation_view svc" where
  "allocate env ctx fulfillmentId budgetItemId value =
     gated ctx Budget_write
       (runInEvent (ctx_ev ctx) (allocate_tx env ctx fulfillmentId budgetItemId value))"

end
