(* ===== verification/Group_Service.thy ===== *)
theory Group_Service
  imports Fulfillment_Service
begin

text \<open>
  Contributor groups: \<^verbatim>\<open>libs/ledger/src/group.service.ts\<close>. A person belongs to a group at most
  once; contribution totals are rolled up per group.
\<close>

section \<open>Views\<close>

record group_view =
  gv_id :: uuid
  gv_name :: string
  gv_kind :: group_kind
  gv_memberCount :: int

record group_contribution =
  gc_groupId :: uuid
  gc_name :: string
  gc_kind :: group_kind
  gc_memberCount :: int
  gc_committed :: string
  gc_received :: string
  gc_outstanding :: string

fun group_kind_str :: "group_kind \<Rightarrow> string" where
  "group_kind_str FAMILY_SIDE = ''FAMILY_SIDE''"
| "group_kind_str FAMILY = ''FAMILY''"
| "group_kind_str FRIENDS = ''FRIENDS''"
| "group_kind_str WORKMATES = ''WORKMATES''"
| "group_kind_str CHURCH = ''CHURCH''"
| "group_kind_str SCHOOL = ''SCHOOL''"
| "group_kind_str VILLAGE = ''VILLAGE''"
| "group_kind_str COMMITTEE = ''COMMITTEE''"
| "group_kind_str DIASPORA = ''DIASPORA''"
| "group_kind_str CLAN = ''CLAN''"
| "group_kind_str OTHER_GROUP = ''OTHER''"

section \<open>Operations\<close>

definition createGroup_tx ::
  "env \<Rightarrow> operation_context \<Rightarrow> string \<Rightarrow> group_kind option \<Rightarrow> group_view tx" where
  "createGroup_tx env ctx name kind0 =
     (let kind = nullish kind0 OTHER_GROUP in
      await (group_create (\<lambda>i. \<lparr>gr_id = i, gr_eventId = ctx_ev ctx, gr_name = name, gr_kind = kind,
               gr_createdById = Some (ctx_user ctx), gr_createdAt = now env\<rparr>)) (\<lambda>group.
      await (audit_write (now env)
              \<lparr>ai_eventId = ctx_ev ctx, ai_actorUserId = Some (ctx_user ctx),
               ai_action = ''group:create'', ai_resourceType = ''contributor_group'',
               ai_resourceId = gr_id group, ai_source = None, ai_oldValue = None,
               ai_newValue = Some (JObj [(''name'', JStr name), (''kind'', JStr (group_kind_str kind))])\<rparr>) (\<lambda>_.
      ret \<lparr>gv_id = gr_id group, gv_name = gr_name group, gv_kind = gr_kind group, gv_memberCount = 0\<rparr>)))"

definition createGroup ::
  "env \<Rightarrow> operation_context \<Rightarrow> string \<Rightarrow> group_kind option \<Rightarrow> group_view svc" where
  "createGroup env ctx name kind =
     gated ctx Group_write (runInEvent (ctx_ev ctx) (createGroup_tx env ctx name kind))"

text \<open>The insert under \<open>try\<close>: a unique violation is swallowed, but the transaction it was
  raised in is aborted for every later statement; any other error is rethrown.\<close>

definition after_swallowed_unique :: "'a tx \<Rightarrow> 'b tx \<Rightarrow> 'b tx" where
  "after_swallowed_unique m k s st =
     (case m s st of
        Inr (st', _) \<Rightarrow> k s st'
      | Inl (Db UniqueViolation) \<Rightarrow> k (s\<lparr>aborted := True\<rparr>) st
      | Inl e \<Rightarrow> Inl e)"

definition assignPerson_tx ::
  "env \<Rightarrow> operation_context \<Rightarrow> uuid \<Rightarrow> uuid \<Rightarrow> string option \<Rightarrow> (uuid \<times> uuid) tx" where
  "assignPerson_tx env ctx personId groupId role =
     await (query (find_person personId)) (\<lambda>person.
     await (query (\<lambda>s st. List.find (\<lambda>g. gr_id g = groupId) (visible_groups s st))) (\<lambda>group.
     case person of None \<Rightarrow> throw (NotFound ''Person not found in this event'')
     | Some _ \<Rightarrow>
     (case group of None \<Rightarrow> throw (NotFound ''Group not found in this event'')
     | Some _ \<Rightarrow>
       after_swallowed_unique
         (person_group_create (\<lambda>i. \<lparr>pg_id = i, pg_eventId = ctx_ev ctx, pg_personId = personId,
             pg_groupId = groupId, pg_role = role, pg_createdAt = now env\<rparr>))
         (await (audit_write (now env)
                  \<lparr>ai_eventId = ctx_ev ctx, ai_actorUserId = Some (ctx_user ctx),
                   ai_action = ''group:assign'', ai_resourceType = ''person_group'',
                   ai_resourceId = personId, ai_source = None, ai_oldValue = None,
                   ai_newValue = Some (JObj [(''personId'', JStr personId), (''groupId'', JStr groupId),
                      (''role'', jstr_or_null role)])\<rparr>)
           (\<lambda>_. ret (personId, groupId))))))"

definition assignPerson ::
  "env \<Rightarrow> operation_context \<Rightarrow> uuid \<Rightarrow> uuid \<Rightarrow> string option \<Rightarrow> (uuid \<times> uuid) svc" where
  "assignPerson env ctx personId groupId role =
     gated ctx Group_write (runInEvent (ctx_ev ctx) (assignPerson_tx env ctx personId groupId role))"

definition group_size :: "uuid \<Rightarrow> session \<Rightarrow> store \<Rightarrow> int" where
  "group_size gid s st = int (count_where (\<lambda>m. pg_groupId m = gid) (visible_person_groups s st))"

definition listGroups :: "operation_context \<Rightarrow> group_view list svc" where
  "listGroups ctx =
     permitted ctx Group_read
       (runInEvent (ctx_ev ctx) (query (\<lambda>s st.
          map (\<lambda>g. \<lparr>gv_id = gr_id g, gv_name = gr_name g, gv_kind = gr_kind g,
                    gv_memberCount = group_size (gr_id g) s st\<rparr>)
            (sort_key gr_createdAt (visible_groups s st)))))"

text \<open>The two correlated subqueries of the roll-up, as the joins they are.\<close>

definition group_committed :: "uuid \<Rightarrow> session \<Rightarrow> store \<Rightarrow> money" where
  "group_committed gid s st =
     sum_list [pl_committedValue p. p \<leftarrow> visible_pledges s st, m \<leftarrow> visible_person_groups s st,
        pg_personId m = pl_personId p, pg_groupId m = gid \<and> pl_status p \<noteq> CANCELLED]"

definition group_received :: "uuid \<Rightarrow> session \<Rightarrow> store \<Rightarrow> money" where
  "group_received gid s st =
     sum_list [f_value f. f \<leftarrow> visible_fulfillments s st, p \<leftarrow> visible_pledges s st,
        f_pledgeId f = pl_id p, m \<leftarrow> visible_person_groups s st,
        pg_personId m = pl_personId p, pg_groupId m = gid \<and> pl_status p \<noteq> CANCELLED]"

definition groupContributions :: "operation_context \<Rightarrow> group_contribution list svc" where
  "groupContributions ctx =
     permitted ctx Ledger_read_amounts
       (runInEvent (ctx_ev ctx) (query (\<lambda>s st.
          map (\<lambda>g. let committed = group_committed (gr_id g) s st;
                       received = group_received (gr_id g) s st;
                       outstanding = (if committed > received then committed - received else 0)
                   in \<lparr>gc_groupId = gr_id g, gc_name = gr_name g, gc_kind = gr_kind g,
                       gc_memberCount = group_size (gr_id g) s st,
                       gc_committed = moneyToString committed, gc_received = moneyToString received,
                       gc_outstanding = moneyToString outstanding\<rparr>)
            (order_desc (\<lambda>g. group_received (gr_id g) s st) (visible_groups s st)))))"

end
