(* ===== verification/Js_Strings.thy ===== *)
theory Js_Strings
  imports Akabbo_Prelude
begin

text \<open>
  The string operations of the language that several components use, on the ASCII characters a
  \<open>string\<close> of the model holds: case folding, trimming, \<open>String.prototype.replace\<close> with the
  replacement patterns of ECMAScript, and joining.
\<close>

definition is_blank :: "char \<Rightarrow> bool" where
  "is_blank c = ((9 \<le> (of_char c :: nat) \<and> (of_char c :: nat) \<le> 13) \<or> (of_char c :: nat) = 32)"

definition js_trim :: "string \<Rightarrow> string" where
  "js_trim s = rev (dropWhile is_blank (rev (dropWhile is_blank s)))"

definition char_lower :: "char \<Rightarrow> char" where
  "char_lower c = (let n = (of_char c :: nat) in if 65 \<le> n \<and> n \<le> 90 then char_of (n + 32) else c)"

definition ascii_lower :: "string \<Rightarrow> string" where
  "ascii_lower = map char_lower"

text \<open>\<open>GetSubstitution\<close> for a pattern without groups: \<open>$$\<close> is a dollar sign, \<open>$&\<close> the match,
  and a dollar sign with a backquote or a quote what precedes or follows the match.\<close>

fun substitution :: "string \<Rightarrow> string \<Rightarrow> string \<Rightarrow> string \<Rightarrow> string" where
  "substitution matched before after [] = []"
| "substitution matched before after [c] = [c]"
| "substitution matched before after (c # d # cs) =
     (if c = CHR ''$'' \<and> d = CHR ''$'' then c # substitution matched before after cs
      else if c = CHR ''$'' \<and> d = CHR ''&'' then matched @ substitution matched before after cs
      else if c = CHR ''$'' \<and> d = CHR 0x60 then before @ substitution matched before after cs
      else if c = CHR ''$'' \<and> d = CHR 0x27 then after @ substitution matched before after cs
      else c # substitution matched before after (d # cs))"

lemma substitution_plain: "CHR ''$'' \<notin> set r \<Longrightarrow> substitution matched before after r = r"
  by (induction matched before after r rule: substitution.induct) auto

fun join :: "string \<Rightarrow> string list \<Rightarrow> string" where
  "join sep [] = []"
| "join sep [x] = x"
| "join sep (x # y # ys) = x @ sep @ join sep (y # ys)"

end
