(* ===== verification/Event_Service.thy ===== *)
theory Event_Service
  imports Fulfillment_Service Js_Strings
begin

text \<open>
  The event lifecycle: \<^verbatim>\<open>libs/ledger/src/event.service.ts\<close>. The Unicode functions
  \<open>toLowerCase\<close> and \<open>normalize('NFKD')\<close> and the random suffix of a slug are arguments. Events
  are not under row-level security; an update and its audit entry are two calls.
\<close>

section \<open>Slugs\<close>

definition slug_char :: "char \<Rightarrow> bool" where
  "slug_char c = (is_digit c \<or> (97 \<le> (of_char c :: nat) \<and> (of_char c :: nat) \<le> 122))"

text \<open>\<open>replace(/[^a-z0-9]+/g, '-')\<close>; the flag says the previous character was replaced.\<close>

fun dash_runs :: "bool \<Rightarrow> string \<Rightarrow> string" where
  "dash_runs in_run [] = []"
| "dash_runs in_run (c # cs) =
     (if slug_char c then c # dash_runs False cs
      else if in_run then dash_runs True cs else CHR ''-'' # dash_runs True cs)"

definition trim_dashes :: "string \<Rightarrow> string" where
  "trim_dashes s = rev (dropWhile (\<lambda>c. c = CHR ''-'') (rev (dropWhile (\<lambda>c. c = CHR ''-'') s)))"

definition makeSlug :: "(string \<Rightarrow> string) \<Rightarrow> (string \<Rightarrow> string) \<Rightarrow> string \<Rightarrow> string \<Rightarrow> string" where
  "makeSlug toLowerCase normalizeNFKD suffix name =
     (let base = take 60 (trim_dashes (dash_runs False (normalizeNFKD (toLowerCase name))))
      in (if base = '''' then ''event'' else base) @ ''-'' @ suffix)"

section \<open>Inputs and views\<close>

record create_event_input =
  ce_name :: string
  ce_currency :: "string option"
  ce_targetAmount :: "money option"
  ce_eventDate :: "time option"
  ce_timezone :: "string option"
  ce_country :: "string option"

record update_event_input =
  ue_name :: "string option"
  ue_targetAmount :: "money option"
  ue_eventDate :: "time option"

record event_summary =
  es_id :: uuid
  es_name :: string
  es_slug :: string
  es_status :: event_status
  es_currency :: string
  es_targetAmount :: "string option"
  es_eventDate :: "string option"
  es_timezone :: string
  es_country :: string
  es_ownerUserId :: uuid

definition toSummary :: "event_row \<Rightarrow> event_summary" where
  "toSummary e = \<lparr>es_id = e_id e, es_name = e_name e, es_slug = e_slug e, es_status = e_status e,
     es_currency = e_currency e, es_targetAmount = map_option moneyToString (e_targetAmount e),
     es_eventDate = map_option toISOString (e_eventDate e), es_timezone = e_timezone e,
     es_country = e_country e, es_ownerUserId = e_ownerUserId e\<rparr>"

text \<open>\<open>targetAmount ? moneyToString(targetAmount) : null\<close>: a target of zero is written as null.\<close>

definition target_json :: "money option \<Rightarrow> json" where
  "target_json t = (case t of Some v \<Rightarrow> (if v \<noteq> 0 then JStr (moneyToString v) else JNull) | None \<Rightarrow> JNull)"

fun status_str :: "event_status \<Rightarrow> string" where
  "status_str DRAFT = ''DRAFT''"
| "status_str ACTIVE = ''ACTIVE''"
| "status_str PAUSED = ''PAUSED''"
| "status_str CLOSED = ''CLOSED''"
| "status_str ARCHIVED = ''ARCHIVED''"

definition find_event :: "uuid \<Rightarrow> store \<Rightarrow> event_row option" where
  "find_event i st = List.find (\<lambda>e. e_id e = i) (events st)"

section \<open>The plan's ceiling on active events\<close>

text \<open>The best live subscription grant of an account the user owns decides; \<open>None\<close> is no
  ceiling.\<close>

definition maxActiveEvents :: "uuid \<Rightarrow> store \<Rightarrow> int option" where
  "maxActiveEvents user st =
     (let live = [p. g \<leftarrow> grants st, b \<leftarrow> billing_accounts st, p \<leftarrow> plans st,
                     Some (ba_id b) = g_accountId g \<and> ba_ownerUserId b = user
                     \<and> g_status g \<in> {TRIALING, G_ACTIVE}
                     \<and> pn_id p = g_planId g \<and> pn_isSubscription p]
      in case order_desc pn_priceMinor live of
           [] \<Rightarrow> Some 1
         | p # _ \<Rightarrow> (if pn_code p = ''BUSINESS'' then None else Some 5))"

definition active_events :: "uuid \<Rightarrow> store \<Rightarrow> nat" where
  "active_events user st =
     count_where (\<lambda>e. e_ownerUserId e = user \<and> e_status e \<in> {DRAFT, ACTIVE, PAUSED}) (events st)"

definition assertCanCreateEvent :: "uuid \<Rightarrow> store \<Rightarrow> error + unit" where
  "assertCanCreateEvent user st =
     (case maxActiveEvents user st of
        None \<Rightarrow> Inr ()
      | Some cap \<Rightarrow>
         (if int (active_events user st) \<ge> cap
          then Inl (Forbidden (if cap = 1
            then ''Your free plan covers 1 active event. Close it, upgrade it to a paid pack, or subscribe to run another.''
            else ''Your plan covers '' @ int_to_dec cap @ '' active events. Close one or upgrade to run more.''))
          else Inr ()))"

section \<open>Operations\<close>

definition createEvent_tx ::
  "env \<Rightarrow> actor \<Rightarrow> string \<Rightarrow> create_event_input \<Rightarrow> (session \<Rightarrow> uuid \<Rightarrow> session) \<Rightarrow> event_summary tx" where
  "createEvent_tx env actor slug input set_tenant =
     await (event_create (\<lambda>i. \<lparr>e_id = i, e_name = ce_name input, e_slug = slug, e_status = ACTIVE,
              e_ownerUserId = userId actor, e_currency = nullish (ce_currency input) ''UGX'',
              e_targetAmount = ce_targetAmount input, e_eventDate = ce_eventDate input,
              e_timezone = nullish (ce_timezone input) ''Africa/Kampala'',
              e_country = nullish (ce_country input) ''UG'', e_description = None, e_isPublic = True,
              e_publicAccessToken = None, e_contributorVisibility = NAMES_AND_AMOUNTS,
              e_budgetVisibility = BUDGET_PUBLIC, e_showTarget = True, e_showOutstanding = True,
              e_publicRevision = 1, e_createdAt = now env\<rparr>)) (\<lambda>event s.
     (await (member_create (\<lambda>i. \<lparr>m_id = i, m_eventId = e_id event, m_userId = userId actor,
              m_role = OWNER, m_status = M_ACTIVE, m_invitedById = None, m_createdAt = now env\<rparr>)) (\<lambda>_.
      await (audit_write (now env)
              \<lparr>ai_eventId = e_id event, ai_actorUserId = Some (userId actor),
               ai_action = ''event:create'', ai_resourceType = ''event'', ai_resourceId = e_id event,
               ai_source = None, ai_oldValue = None,
               ai_newValue = Some (JObj [(''name'', JStr (e_name event)),
                  (''currency'', JStr (e_currency event)),
                  (''targetAmount'', target_json (e_targetAmount event))])\<rparr>) (\<lambda>_.
      ret (toSummary event)))) (set_tenant s (e_id event)))"

definition createEvent ::
  "(string \<Rightarrow> string) \<Rightarrow> (string \<Rightarrow> string) \<Rightarrow> string \<Rightarrow> env \<Rightarrow> actor \<Rightarrow> create_event_input \<Rightarrow>
   event_summary svc" where
  "createEvent toLowerCase normalizeNFKD suffix env actor input st =
     (case assertCanCreateEvent (userId actor) st of
        Inl e \<Rightarrow> (st, Inl e)
      | Inr _ \<Rightarrow>
         runCreatingEvent
           (createEvent_tx env actor (makeSlug toLowerCase normalizeNFKD suffix (ce_name input)) input) st)"

definition getEvent :: "operation_context \<Rightarrow> event_summary svc" where
  "getEvent ctx = permitted ctx Event_read (\<lambda>st.
     case find_event (ctx_ev ctx) st of
       None \<Rightarrow> (st, Inl (NotFound ''Event not found''))
     | Some event \<Rightarrow> (st, Inr (toSummary event)))"

definition event_snapshot :: "event_row \<Rightarrow> json" where
  "event_snapshot e = JObj [(''name'', JStr (e_name e)), (''targetAmount'', target_json (e_targetAmount e)),
     (''eventDate'', jstr_or_null (map_option toISOString (e_eventDate e)))]"

definition updateEvent :: "env \<Rightarrow> operation_context \<Rightarrow> update_event_input \<Rightarrow> event_summary svc" where
  "updateEvent env ctx input =
     gated ctx Event_update (and_then (svc_read (find_event (ctx_ev ctx))) (\<lambda>found. case found of
       None \<Rightarrow> svc_throw (NotFound ''Event not found'')
     | Some before \<Rightarrow>
        and_then (event_update (ctx_ev ctx) (\<lambda>e. e\<lparr>
            e_name := nullish (ue_name input) (e_name e),
            e_targetAmount := nullish_opt (ue_targetAmount input) (e_targetAmount e),
            e_eventDate := nullish_opt (ue_eventDate input) (e_eventDate e)\<rparr>)) (\<lambda>updated.
        and_then (runInEvent (ctx_ev ctx) (audit_write (now env)
            \<lparr>ai_eventId = ctx_ev ctx, ai_actorUserId = Some (ctx_user ctx),
             ai_action = ''event:update'', ai_resourceType = ''event'', ai_resourceId = ctx_ev ctx,
             ai_source = None, ai_oldValue = Some (event_snapshot before),
             ai_newValue = Some (event_snapshot updated)\<rparr>)) (\<lambda>_.
        svc_ret (toSummary updated)))))"

definition setStatus :: "env \<Rightarrow> operation_context \<Rightarrow> event_status \<Rightarrow> event_summary svc" where
  "setStatus env ctx status =
     permitted ctx Event_update (and_then (svc_read (find_event (ctx_ev ctx))) (\<lambda>found. case found of
       None \<Rightarrow> svc_throw (NotFound ''Event not found'')
     | Some before \<Rightarrow>
        and_then (event_update (ctx_ev ctx) (\<lambda>e. e\<lparr>e_status := status\<rparr>)) (\<lambda>updated.
        and_then (runInEvent (ctx_ev ctx) (audit_write (now env)
            \<lparr>ai_eventId = ctx_ev ctx, ai_actorUserId = Some (ctx_user ctx),
             ai_action = ''event:set_status'', ai_resourceType = ''event'', ai_resourceId = ctx_ev ctx,
             ai_source = None, ai_oldValue = Some (JObj [(''status'', JStr (status_str (e_status before)))]),
             ai_newValue = Some (JObj [(''status'', JStr (status_str status))])\<rparr>)) (\<lambda>_.
        svc_ret (toSummary updated)))))"

text \<open>The event of a membership is a required relation; the user's own memberships are visible
  across events under the user setting.\<close>

definition listMyEvents :: "actor \<Rightarrow> event_summary list svc" where
  "listMyEvents actor =
     runAsUser (userId actor) (query (\<lambda>s st.
       [toSummary e.
          m \<leftarrow> order_desc m_createdAt
                (filter (\<lambda>m. m_userId m = userId actor \<and> m_status m = M_ACTIVE) (visible_members s st)),
          e \<leftarrow> filter (\<lambda>e. e_id e = m_eventId m) (events st)]))"

section \<open>Slugs are URL-safe\<close>

lemma dash_runs_chars: "c \<in> set (dash_runs b s) \<Longrightarrow> slug_char c \<or> c = CHR ''-''"
  by (induction b s rule: dash_runs.induct) (auto split: if_splits)

lemma trim_dashes_subset: "set (trim_dashes s) \<subseteq> set s"
proof
  fix x assume "x \<in> set (trim_dashes s)"
  then have "x \<in> set (dropWhile (\<lambda>c. c = CHR ''-'') (rev (dropWhile (\<lambda>c. c = CHR ''-'') s)))"
    by (simp add: trim_dashes_def)
  then have "x \<in> set (rev (dropWhile (\<lambda>c. c = CHR ''-'') s))" by (rule set_dropWhileD)
  then show "x \<in> set s" by (auto dest: set_dropWhileD)
qed

lemma rev_dropWhile_rev: "\<exists>n. rev (dropWhile P (rev xs)) = take n xs"
  by (auto simp: dropWhile_eq_drop rev_drop)

lemma trim_dashes_hd: "trim_dashes s \<noteq> [] \<Longrightarrow> hd (trim_dashes s) \<noteq> CHR ''-''"
proof -
  let ?d = "dropWhile (\<lambda>c. c = CHR ''-'') s"
  assume ne: "trim_dashes s \<noteq> []"
  obtain n where n: "trim_dashes s = take n ?d"
    unfolding trim_dashes_def using rev_dropWhile_rev by blast
  then have "0 < n" using ne by (cases n) auto
  then have "hd (trim_dashes s) = hd ?d" using n by (simp add: hd_take)
  moreover have "?d \<noteq> []" using ne n take_Nil by metis
  ultimately show ?thesis using hd_dropWhile [of "\<lambda>c. c = CHR ''-''" s] by simp
qed

text \<open>A slug is URL-safe whatever the name and whatever the Unicode functions return: it
  consists of lower-case letters, digits and dashes, starts with a letter or digit, ends with
  the random suffix, and is at most 61 characters longer than it.\<close>

theorem slug_url_safe:
  assumes "list_all slug_char suffix"
  shows "let slug = makeSlug lower nfkd suffix name in
     list_all (\<lambda>c. slug_char c \<or> c = CHR ''-'') slug \<and> slug_char (hd slug)
     \<and> length slug \<le> length suffix + 61 \<and> drop (length slug - length suffix) slug = suffix"
proof -
  let ?base = "take 60 (trim_dashes (dash_runs False (nfkd (lower name))))"
  have base: "\<forall>c\<in>set ?base. slug_char c \<or> c = CHR ''-''"
    using trim_dashes_subset dash_runs_chars by (meson in_set_takeD subsetD)
  moreover have "slug_char (hd ?base)" if "?base \<noteq> []"
  proof -
    have "hd ?base \<noteq> CHR ''-''"
      using that trim_dashes_hd [of "dash_runs False (nfkd (lower name))"] by (simp add: hd_take)
    then show ?thesis using that base hd_in_set by blast
  qed
  moreover have "list_all slug_char ''event''" by (simp add: slug_char_def)
  ultimately show ?thesis using assms
    by (auto simp: makeSlug_def Let_def list_all_iff)
qed

end
