(* ===== verification/Membership_Service.thy ===== *)
theory Membership_Service
  imports Event_Service
begin

text \<open>
  Roles and invitations: \<^verbatim>\<open>libs/ledger/src/membership.service.ts\<close> and
  \<^verbatim>\<open>libs/ledger/src/invitation.service.ts\<close>. \<open>resolveContext\<close> is how a request obtains the
  context every other operation is gated by. The token of an invitation is drawn at random: it
  is an argument.
\<close>

section \<open>membership.service.ts\<close>

definition find_user :: "uuid \<Rightarrow> store \<Rightarrow> user_row option" where
  "find_user i st = List.find (\<lambda>u. u_id u = i) (users st)"

definition resolveContext :: "actor \<Rightarrow> uuid \<Rightarrow> event_context option svc" where
  "resolveContext actor eid =
     and_then (svc_read (find_event eid)) (\<lambda>found. case found of
       None \<Rightarrow> svc_ret None
     | Some event \<Rightarrow>
        runInEvent eid (query (\<lambda>s st.
          map_option (\<lambda>m. \<lparr>ctx_eventId = eid, ctx_role = m_role m, ctx_status = e_status event\<rparr>)
            (List.find (\<lambda>m. m_eventId m = eid \<and> m_userId m = userId actor \<and> m_status m = M_ACTIVE)
              (visible_members s st)))))"

definition requireContext :: "actor \<Rightarrow> uuid \<Rightarrow> event_context svc" where
  "requireContext actor eid =
     and_then (resolveContext actor eid) (\<lambda>ctx. case ctx of
       None \<Rightarrow> svc_throw (Forbidden ''Not a member of this event'')
     | Some c \<Rightarrow> svc_ret c)"

definition find_member :: "uuid \<Rightarrow> uuid \<Rightarrow> session \<Rightarrow> store \<Rightarrow> member_row option" where
  "find_member eid user s st =
     List.find (\<lambda>m. m_eventId m = eid \<and> m_userId m = user) (visible_members s st)"

definition addMember_tx ::
  "env \<Rightarrow> operation_context \<Rightarrow> uuid \<Rightarrow> event_role \<Rightarrow> (uuid \<times> event_role) tx" where
  "addMember_tx env ctx target role =
     await (query (find_member (ctx_ev ctx) target)) (\<lambda>existing.
     await (member_upsert (ctx_ev ctx) target
              (\<lambda>i. \<lparr>m_id = i, m_eventId = ctx_ev ctx, m_userId = target, m_role = role,
                    m_status = M_ACTIVE, m_invitedById = Some (ctx_user ctx), m_createdAt = now env\<rparr>)
              (\<lambda>m. m\<lparr>m_role := role, m_status := M_ACTIVE\<rparr>)) (\<lambda>member.
     await (audit_write (now env)
             \<lparr>ai_eventId = ctx_ev ctx, ai_actorUserId = Some (ctx_user ctx),
              ai_action = (if existing \<noteq> None then ''member:rerole'' else ''member:add''),
              ai_resourceType = ''event_member'', ai_resourceId = target, ai_source = None,
              ai_oldValue = Some (case existing of
                 Some m \<Rightarrow> JObj [(''role'', JStr (role_str (m_role m)))] | None \<Rightarrow> JNull),
              ai_newValue = Some (JObj [(''role'', JStr (role_str role))])\<rparr>) (\<lambda>_.
     ret (m_userId member, m_role member))))"

definition addMember ::
  "env \<Rightarrow> operation_context \<Rightarrow> uuid \<Rightarrow> event_role \<Rightarrow> (uuid \<times> event_role) svc" where
  "addMember env ctx target role =
     gated ctx Member_manage (\<lambda>st.
       case find_user target st of
         None \<Rightarrow> (st, Inl (NotFound ''User not found''))
       | Some _ \<Rightarrow> runInEvent (ctx_ev ctx) (addMember_tx env ctx target role) st)"

definition updateRole ::
  "env \<Rightarrow> operation_context \<Rightarrow> uuid \<Rightarrow> event_role \<Rightarrow> (uuid \<times> event_role) svc" where
  "updateRole env ctx target role = addMember env ctx target role"

record member_list_view =
  mv_id :: uuid
  mv_userId :: uuid
  mv_role :: event_role
  mv_invitedAt :: string
  mv_phone :: "string option"
  mv_email :: "string option"

definition listMembers :: "operation_context \<Rightarrow> member_list_view list svc" where
  "listMembers ctx =
     permitted ctx Event_read (runInEvent (ctx_ev ctx) (query (\<lambda>s st.
       [\<lparr>mv_id = m_id m, mv_userId = m_userId m, mv_role = m_role m,
         mv_invitedAt = toISOString (m_createdAt m), mv_phone = u_phone u, mv_email = u_email u\<rparr>.
          m \<leftarrow> sort_key m_createdAt (filter (\<lambda>m. m_eventId m = ctx_ev ctx \<and> m_status m = M_ACTIVE)
                (visible_members s st)),
          u \<leftarrow> filter (\<lambda>u. u_id u = m_userId m) (users st)])))"

section \<open>invitation.service.ts\<close>

record create_invitation_input =
  cin_role :: event_role
  cin_invitedPhone :: "string option"
  cin_maxUses :: "int option"
  cin_ttlSeconds :: "int option"

record invitation_view =
  iv_id :: uuid
  iv_token :: string
  iv_role :: event_role
  iv_status :: invitation_status
  iv_expiresAt :: string

record public_invitation_view =
  piv_eventName :: string
  piv_role :: event_role
  piv_status :: invitation_status
  piv_valid :: bool
  piv_invitedPhone :: "string option"

definition DEFAULT_TTL_SECONDS :: int where
  "DEFAULT_TTL_SECONDS = 7 * 24 * 60 * 60"

definition invitation_view_of :: "invitation_row \<Rightarrow> invitation_view" where
  "invitation_view_of i = \<lparr>iv_id = i_id i, iv_token = i_token i, iv_role = i_role i,
     iv_status = i_status i, iv_expiresAt = toISOString (i_expiresAt i)\<rparr>"

definition find_invitation :: "string \<Rightarrow> store \<Rightarrow> invitation_row option" where
  "find_invitation token st = List.find (\<lambda>i. i_token i = token) (invitations st)"

text \<open>The guard against inviting an active member. Its two lookups run outside any transaction,
  so the membership is read under no tenant setting.\<close>

definition already_member :: "uuid \<Rightarrow> string option \<Rightarrow> store \<Rightarrow> (string \<times> event_role) option" where
  "already_member eid invitedPhone st =
     (if \<not> truthy_str invitedPhone then None
      else case List.find (\<lambda>u. u_phone u = invitedPhone) (users st) of
        None \<Rightarrow> None
      | Some existingUser \<Rightarrow>
         (case find_member eid (u_id existingUser) no_session st of
            None \<Rightarrow> None
          | Some m \<Rightarrow> (if m_status m = M_ACTIVE then Some (nullish invitedPhone '''', m_role m) else None)))"

definition createInvitation ::
  "string \<Rightarrow> env \<Rightarrow> operation_context \<Rightarrow> create_invitation_input \<Rightarrow> invitation_view svc" where
  "createInvitation token env ctx input =
     gated ctx Member_manage (\<lambda>st.
       case already_member (ctx_ev ctx) (cin_invitedPhone input) st of
         Some (phone, role) \<Rightarrow>
           (st, Inl (BadRequest (''User with phone number '' @ phone
                 @ '' is already a member of this event with role '' @ role_str role @ ''.'')))
       | None \<Rightarrow>
           let seat = ent_check env (event_scope (ctx_ev ctx)) Add_member 1 st in
           if \<not> allowed seat then (st, Inl (Forbidden (nullish (dmessage seat) ''Team seat limit reached'')))
           else
             let ttl = nullish (cin_ttlSeconds input) DEFAULT_TTL_SECONDS in
             and_then (invitation_create (\<lambda>i. \<lparr>i_id = i, i_eventId = ctx_ev ctx, i_token = token,
                 i_role = cin_role input, i_status = I_PENDING, i_invitedPhone = cin_invitedPhone input,
                 i_invitedById = ctx_user ctx, i_maxUses = nullish (cin_maxUses input) 1, i_uses = 0,
                 i_expiresAt = now env + ttl * 1000, i_acceptedById = None, i_acceptedAt = None,
                 i_createdAt = now env\<rparr>)) (\<lambda>invitation.
             svc_ret (invitation_view_of invitation)) st)"

text \<open>The event of an invitation is a required relation.\<close>

definition getByToken :: "env \<Rightarrow> string \<Rightarrow> store \<Rightarrow> error + public_invitation_view" where
  "getByToken env token st =
     (case find_invitation token st of
        None \<Rightarrow> Inl (NotFound ''Invitation not found'')
      | Some invite \<Rightarrow>
         (case find_event (i_eventId invite) st of
            None \<Rightarrow> Inl (Db RecordNotFound)
          | Some event \<Rightarrow>
             Inr \<lparr>piv_eventName = e_name event, piv_role = i_role invite, piv_status = i_status invite,
                  piv_valid = (i_status invite = I_PENDING \<and> i_expiresAt invite > now env),
                  piv_invitedPhone = i_invitedPhone invite\<rparr>))"

text \<open>The transaction of an acceptance works with the invitation row as it was read before it.
  \<open>admit_tx\<close> is its part for someone who is not an active member.\<close>

definition admit_tx :: "env \<Rightarrow> actor \<Rightarrow> invitation_row \<Rightarrow> (uuid \<times> event_role \<times> bool) tx" where
  "admit_tx env actor invite =
     (if i_uses invite \<ge> i_maxUses invite then throw (Forbidden ''This invitation has already been used'')
      else
        await (member_upsert (i_eventId invite) (userId actor)
                 (\<lambda>i. \<lparr>m_id = i, m_eventId = i_eventId invite, m_userId = userId actor, m_role = i_role invite,
                       m_status = M_ACTIVE, m_invitedById = Some (i_invitedById invite), m_createdAt = now env\<rparr>)
                 (\<lambda>m. m\<lparr>m_role := i_role invite, m_status := M_ACTIVE, m_invitedById := Some (i_invitedById invite)\<rparr>))
        (\<lambda>member. let uses = i_uses invite + 1 in
        await (statement (invitation_update (i_id invite) (\<lambda>i. i\<lparr>i_uses := uses,
                 i_status := (if uses \<ge> i_maxUses invite then I_ACCEPTED else I_PENDING),
                 i_acceptedById := Some (userId actor), i_acceptedAt := Some (now env)\<rparr>))) (\<lambda>_.
        await (audit_write (now env)
                \<lparr>ai_eventId = i_eventId invite, ai_actorUserId = Some (userId actor),
                 ai_action = ''member:accept_invitation'', ai_resourceType = ''event_member'',
                 ai_resourceId = userId actor, ai_source = None, ai_oldValue = None,
                 ai_newValue = Some (JObj [(''role'', JStr (role_str (m_role member))),
                    (''invitationId'', JStr (i_id invite))])\<rparr>) (\<lambda>_.
        ret (i_eventId invite, m_role member, False)))))"

definition acceptInvitation_tx ::
  "env \<Rightarrow> actor \<Rightarrow> invitation_row \<Rightarrow> (uuid \<times> event_role \<times> bool) tx" where
  "acceptInvitation_tx env actor invite =
     await (query (find_member (i_eventId invite) (userId actor))) (\<lambda>existing. case existing of
       Some m \<Rightarrow> (if m_status m = M_ACTIVE then ret (i_eventId invite, m_role m, True) else admit_tx env actor invite)
     | None \<Rightarrow> admit_tx env actor invite)"

definition acceptInvitation :: "env \<Rightarrow> actor \<Rightarrow> string \<Rightarrow> (uuid \<times> event_role \<times> bool) svc" where
  "acceptInvitation env actor token =
     and_then (svc_read (find_invitation token)) (\<lambda>found. case found of
       None \<Rightarrow> svc_throw (NotFound ''Invitation not found'')
     | Some invite \<Rightarrow>
        if i_status invite = I_REVOKED then svc_throw (Forbidden ''This invitation has been revoked'')
        else if i_status invite = I_EXPIRED \<or> i_expiresAt invite \<le> now env then
          and_then (if i_status invite \<noteq> I_EXPIRED
                    then and_then (invitation_update (i_id invite) (\<lambda>i. i\<lparr>i_status := I_EXPIRED\<rparr>)) (\<lambda>_. svc_ret ())
                    else svc_ret ()) (\<lambda>_.
          svc_throw (Forbidden ''This invitation has expired''))
        else runInEvent (i_eventId invite) (acceptInvitation_tx env actor invite))"

definition revokeInvitation :: "operation_context \<Rightarrow> uuid \<Rightarrow> unit svc" where
  "revokeInvitation ctx invitationId =
     permitted ctx Member_manage (\<lambda>st.
       case List.find (\<lambda>i. i_id i = invitationId \<and> i_eventId i = ctx_ev ctx) (invitations st) of
         None \<Rightarrow> (st, Inl (NotFound ''Invitation not found''))
       | Some invite \<Rightarrow>
          and_then (invitation_update (i_id invite) (\<lambda>i. i\<lparr>i_status := I_REVOKED\<rparr>)) (\<lambda>_. svc_ret ()) st)"

definition listInvitations :: "operation_context \<Rightarrow> invitation_view list svc" where
  "listInvitations ctx =
     permitted ctx Member_manage (svc_read (\<lambda>st.
       map invitation_view_of
         (order_desc i_createdAt (filter (\<lambda>i. i_eventId i = ctx_ev ctx) (invitations st)))))"

end
