(* ===== verification/Operations.thy ===== *)
theory Operations
  imports Payment_Effects Budget_Service Group_Service Membership_Service
begin

text \<open>
  The contract every mutating method of the ledger shares, as two interfaces. \<open>gated_op\<close>: the
  permission gate, the status gate, an optional entitlement check, then one transaction in the
  event's tenant, whose body only appends audit rows of that event and actor. \<open>tenant_op\<close>: in
  addition, no row of another event changes. Each service method is an instance; the
  consequences (a refused call changes nothing, a closed event is frozen, history is append
  only, tenants are isolated) are proved once.
\<close>

section \<open>Rules for the remaining statements\<close>

lemma keeps_prod [keeps_intros]:
  "(\<And>a b. x = (a, b) \<Longrightarrow> keeps s R (f a b)) \<Longrightarrow> keeps s R (case x of (a, b) \<Rightarrow> f a b)"
  by (cases x) simp

lemma keeps_conflict [keeps_intros]: "keeps s R m \<Longrightarrow> keeps s R (conflict_on_unique msg m)"
  by (auto simp: keeps_def conflict_on_unique_def split: sum.splits error.splits db_error.splits)

lemma keeps_aborted_audit [keeps_intros]:
  "keeps (s\<lparr>aborted := True\<rparr>) R (await (audit_write t ai) k)"
  by (auto simp: keeps_def audit_write_def tbl_create_def Let_def)

context store_relation
begin

lemma keeps_swallowed:
  "keeps s R m \<Longrightarrow> keeps s R k \<Longrightarrow> keeps (s\<lparr>aborted := True\<rparr>) R k \<Longrightarrow> keeps s R (after_swallowed_unique m k)"
  unfolding keeps_def after_swallowed_unique_def
  by (auto split: sum.splits error.splits db_error.splits) (blast intro: rel_trans)

end

lemmas keeps_swallowed [keeps_intros] =
  others.keeps_swallowed history.keeps_swallowed supplied.keeps_swallowed untouched.keeps_swallowed
  relabelled.keeps_swallowed

lemma keeps_reparent [keeps_intros]:
  "keeps s (audit_grows e u) (pledges_reparent i j)" "keeps s supply_grows (pledges_reparent i j)"
  "keeps s (audit_grows e u) (files_reparent i j)" "keeps s supply_grows (files_reparent i j)"
  by (simp_all add: pledges_reparent_def files_reparent_def t_pledge.update_many_history
      t_pledge.update_many_supply t_file.update_many_history t_file.update_many_supply)

section \<open>The interfaces\<close>

locale gated_op =
  fixes run :: "env \<Rightarrow> operation_context \<Rightarrow> 'i \<Rightarrow> 'v svc"
    and act :: action
    and check :: "env \<Rightarrow> operation_context \<Rightarrow> 'i \<Rightarrow> store \<Rightarrow> error option"
    and body :: "env \<Rightarrow> operation_context \<Rightarrow> 'i \<Rightarrow> 'v tx"
  assumes run_shape: "run env ctx i = gated ctx act (\<lambda>st. case check env ctx i st of
            Some e \<Rightarrow> (st, Inl e) | None \<Rightarrow> runInEvent (ctx_ev ctx) (body env ctx i) st)"
    and body_history: "keeps (in_event (ctx_ev ctx)) (audit_grows (ctx_ev ctx) (ctx_user ctx)) (body env ctx i)"
    and body_supply: "keeps (in_event (ctx_ev ctx)) supply_grows (body env ctx i)"
begin

lemma succeeded:
  "run env ctx i st = (st', Inr v) \<longleftrightarrow>
     can (ctx_role (ctx_event ctx)) act \<and> isWritable (ctx_status (ctx_event ctx))
     \<and> check env ctx i st = None \<and> body env ctx i (in_event (ctx_ev ctx)) st = Inr (st', v)"
  by (auto simp: run_shape runInEvent_def split: option.splits)

lemma refused_unchanged: "run env ctx i st = (st', Inl e) \<Longrightarrow> st' = st"
  by (auto simp: run_shape gated_def permitted_def runInEvent_def transaction_Inl
      split: sum.splits option.splits)

lemma denied:
  "\<not> can (ctx_role (ctx_event ctx)) act \<Longrightarrow> \<exists>m. run env ctx i st = (st, Inl (Forbidden m))"
  by (simp add: run_shape gated_def permitted_def perm_assert_def)

lemma frozen:
  "\<not> isWritable (ctx_status (ctx_event ctx)) \<Longrightarrow> \<exists>m. run env ctx i st = (st, Inl (Forbidden m))"
  by (simp add: run_shape gated_def permitted_def perm_assert_def assertEventWritable_def)

lemma related:
  assumes "store_relation R" "keeps (in_event (ctx_ev ctx)) R (body env ctx i)"
    and "run env ctx i st = (st', r)"
  shows "R st st'"
proof (cases r)
  case (Inl e)
  then have "st' = st" using assms(3) refused_unchanged by simp
  then show ?thesis using store_relation.rel_refl [OF assms(1)] by simp
next
  case (Inr v)
  then have "body env ctx i (in_event (ctx_ev ctx)) st = Inr (st', v)" using assms(3) succeeded by simp
  then show ?thesis by (rule keepsD [OF assms(2)])
qed

lemma history_grows:
  "run env ctx i st = (st', r) \<Longrightarrow> audit_grows (ctx_ev ctx) (ctx_user ctx) st st'"
  using related [OF history.store_relation_axioms body_history] by blast

lemma supply_used: "run env ctx i st = (st', r) \<Longrightarrow> supply_grows st st'"
  using related [OF supplied.store_relation_axioms body_supply] by blast

end

locale tenant_op = gated_op +
  assumes body_isolated: "keeps (in_event (ctx_ev ctx)) (others_same (ctx_ev ctx)) (body env ctx i)"
begin

lemma isolated: "run env ctx i st = (st', r) \<Longrightarrow> others_same (ctx_ev ctx) st st'"
  using related [OF others.store_relation_axioms body_isolated] by blast

end

section \<open>The services as instances\<close>

definition no_check :: "env \<Rightarrow> operation_context \<Rightarrow> 'i \<Rightarrow> store \<Rightarrow> error option" where
  "no_check env ctx i st = None"

definition plan_check ::
  "entitlement_action \<Rightarrow> env \<Rightarrow> operation_context \<Rightarrow> 'i \<Rightarrow> store \<Rightarrow> error option" where
  "plan_check a env ctx i st =
     (let ent = ent_check env (event_scope (ctx_ev ctx)) a 1 st in
      if \<not> allowed ent then Some (Forbidden (denial_text ent)) else None)"

lemma plain_shape:
  "gated ctx act body = gated ctx act (\<lambda>st. case no_check env ctx i st of Some e \<Rightarrow> (st, Inl e) | None \<Rightarrow> body st)"
  by (simp add: no_check_def)

lemma planned_shape:
  "gated ctx act (\<lambda>st. let ent = ent_check env (event_scope (ctx_ev ctx)) a 1 st in
       if \<not> allowed ent then (st, Inl (Forbidden (denial_text ent))) else body st) =
   gated ctx act (\<lambda>st. case plan_check a env ctx i st of Some e \<Rightarrow> (st, Inl e) | None \<Rightarrow> body st)"
  by (rule arg_cong [of _ _ "gated ctx act"]) (auto simp: plan_check_def Let_def fun_eq_iff)

lemmas payment_defs = writeFulfillment_def findByIdempotencyKey_def assertNotDuplicate_def
  assertWithinCommitted_def direct_person_def Let_def

text \<open>The checks of a merge and of adding a member.\<close>

definition merge_check :: "env \<Rightarrow> operation_context \<Rightarrow> uuid \<times> uuid \<Rightarrow> store \<Rightarrow> error option" where
  "merge_check env ctx i st =
     (if fst i = snd i then Some (Conflict ''Cannot merge a person into themselves'') else None)"

definition member_check :: "env \<Rightarrow> operation_context \<Rightarrow> uuid \<times> event_role \<Rightarrow> store \<Rightarrow> error option" where
  "member_check env ctx i st =
     (case find_user (fst i) st of None \<Rightarrow> Some (NotFound ''User not found'') | Some _ \<Rightarrow> None)"

lemma mergePeople_shape:
  "mergePeople env ctx i j = gated ctx Person_merge (\<lambda>st. case merge_check env ctx (i, j) st of
     Some e \<Rightarrow> (st, Inl e) | None \<Rightarrow> runInEvent (ctx_ev ctx) (mergePeople_tx env ctx i j) st)"
  unfolding mergePeople_def by (rule arg_cong [of _ _ "gated ctx Person_merge"]) (auto simp: merge_check_def fun_eq_iff)

lemma addMember_shape:
  "addMember env ctx u r = gated ctx Member_manage (\<lambda>st. case member_check env ctx (u, r) st of
     Some e \<Rightarrow> (st, Inl e) | None \<Rightarrow> runInEvent (ctx_ev ctx) (addMember_tx env ctx u r) st)"
  unfolding addMember_def
  by (rule arg_cong [of _ _ "gated ctx Member_manage"]) (auto simp: member_check_def fun_eq_iff split: option.splits)

interpretation op_createPerson: tenant_op createPerson Person_write "plan_check Add_contributor" createPerson_tx
proof (unfold_locales, goal_cases)
  case 1 show ?case unfolding createPerson_def by (rule planned_shape)
qed (unfold createPerson_tx_def assertPhoneNotAttachedElsewhere_def Let_def, (intro keeps_intros; simp)+)

interpretation op_updateContact: tenant_op "(\<lambda>env ctx (i, phone, c). updateContact env ctx i phone c)" Person_write no_check "(\<lambda>env ctx (i, phone, c). updateContact_tx env ctx i phone c)"
proof (unfold_locales, goal_cases)
  case (1 env ctx i) show ?case
    by (simp add: updateContact_def no_check_def split: prod.splits)
qed (unfold updateContact_tx_def assertPhoneNotAttachedElsewhere_def, (intro keeps_intros; simp)+)

interpretation op_linkPersonToUser: tenant_op "(\<lambda>env ctx (i, u). linkPersonToUser env ctx i u)" Person_write no_check "(\<lambda>env ctx (i, u). linkPersonToUser_tx env ctx i u)"
proof (unfold_locales, goal_cases)
  case (1 env ctx i) show ?case
    by (simp add: linkPersonToUser_def no_check_def split: prod.splits)
qed (unfold linkPersonToUser_tx_def, (intro keeps_intros; simp)+)

interpretation op_mergePeople: gated_op "(\<lambda>env ctx (i, j). mergePeople env ctx i j)" Person_merge merge_check "(\<lambda>env ctx (i, j). mergePeople_tx env ctx i j)"
proof (unfold_locales, goal_cases)
  case (1 env ctx i) show ?case
    by (simp add: mergePeople_shape split: prod.splits)
qed (unfold mergePeople_tx_def, (intro keeps_intros; simp)+)

interpretation op_createPledge: tenant_op createPledge Pledge_write "plan_check Create_pledge" createPledge_tx
proof (unfold_locales, goal_cases)
  case 1 show ?case unfolding createPledge_def by (rule planned_shape)
qed (unfold createPledge_tx_def Let_def, (intro keeps_intros; simp)+)

interpretation op_correctCommittedValue: tenant_op "(\<lambda>env ctx (i, n). correctCommittedValue env ctx i n)" Fulfillment_correct no_check "(\<lambda>env ctx (i, n). correctCommittedValue_tx env ctx i n)"
proof (unfold_locales, goal_cases)
  case (1 env ctx i) show ?case
    by (simp add: correctCommittedValue_def no_check_def split: prod.splits)
qed (unfold correctCommittedValue_tx_def Let_def, (intro keeps_intros; simp)+)

interpretation op_cancelPledge: tenant_op cancelPledge Pledge_cancel no_check cancelPledge_tx
proof (unfold_locales, goal_cases)
  case 1 show ?case unfolding cancelPledge_def by (rule plain_shape)
qed (unfold cancelPledge_tx_def, (intro keeps_intros; simp)+)

interpretation op_recordFulfillment: tenant_op recordFulfillment Fulfillment_write "plan_check Record_fulfillment" recordFulfillment_tx
proof (unfold_locales, goal_cases)
  case 1 show ?case unfolding recordFulfillment_def by (rule planned_shape)
qed (unfold recordFulfillment_tx_def payment_defs, (intro keeps_intros; simp)+)

interpretation op_recordDirectContribution: tenant_op recordDirectContribution Fulfillment_write "plan_check Record_fulfillment" recordDirectContribution_tx
proof (unfold_locales, goal_cases)
  case 1 show ?case unfolding recordDirectContribution_def by (rule planned_shape)
qed (unfold recordDirectContribution_tx_def payment_defs, (intro keeps_intros; simp)+)

interpretation op_recordPledgeWithPayment: tenant_op recordPledgeWithPayment Pledge_write "plan_check Create_pledge" recordPledgeWithPayment_tx
proof (unfold_locales, goal_cases)
  case 1 show ?case unfolding recordPledgeWithPayment_def by (rule planned_shape)
qed (unfold recordPledgeWithPayment_tx_def payment_defs, (intro keeps_intros; simp)+)

interpretation op_correctValue: tenant_op "(\<lambda>env ctx (i, n). correctValue env ctx i n)" Fulfillment_correct no_check "(\<lambda>env ctx (i, n). correctValue_tx env ctx i n)"
proof (unfold_locales, goal_cases)
  case (1 env ctx i) show ?case
    by (simp add: correctValue_def no_check_def split: prod.splits)
qed (unfold correctValue_tx_def payment_defs, (intro keeps_intros; simp)+)

interpretation op_addItem: tenant_op addItem Budget_write no_check addItem_tx
proof (unfold_locales, goal_cases)
  case 1 show ?case unfolding addItem_def by (rule plain_shape)
qed (unfold addItem_tx_def ensureBudget_def Let_def, (intro keeps_intros; simp)+)

interpretation op_updateItem: tenant_op "(\<lambda>env ctx (i, u). updateItem env ctx i u)" Budget_write no_check "(\<lambda>env ctx (i, u). updateItem_tx env ctx i u)"
proof (unfold_locales, goal_cases)
  case (1 env ctx i) show ?case
    by (simp add: updateItem_def no_check_def split: prod.splits)
qed (unfold updateItem_tx_def, (intro keeps_intros; simp)+)

interpretation op_removeItem: gated_op removeItem Budget_write no_check removeItem_tx
proof (unfold_locales, goal_cases)
  case 1 show ?case unfolding removeItem_def by (rule plain_shape)
qed (unfold removeItem_tx_def, (intro keeps_intros; simp)+)

interpretation op_allocate: tenant_op "(\<lambda>env ctx (f, i, v). allocate env ctx f i v)" Budget_write no_check "(\<lambda>env ctx (f, i, v). allocate_tx env ctx f i v)"
proof (unfold_locales, goal_cases)
  case (1 env ctx i) show ?case
    by (simp add: allocate_def no_check_def split: prod.splits)
qed (unfold allocate_tx_def, (intro keeps_intros; simp)+)

interpretation op_createGroup: tenant_op "(\<lambda>env ctx (n, k). createGroup env ctx n k)" Group_write no_check "(\<lambda>env ctx (n, k). createGroup_tx env ctx n k)"
proof (unfold_locales, goal_cases)
  case (1 env ctx i) show ?case
    by (simp add: createGroup_def no_check_def split: prod.splits)
qed (unfold createGroup_tx_def Let_def, (intro keeps_intros; simp)+)

interpretation op_assignPerson: tenant_op "(\<lambda>env ctx (i, g, r). assignPerson env ctx i g r)" Group_write no_check "(\<lambda>env ctx (i, g, r). assignPerson_tx env ctx i g r)"
proof (unfold_locales, goal_cases)
  case (1 env ctx i) show ?case
    by (simp add: assignPerson_def no_check_def split: prod.splits)
qed (unfold assignPerson_tx_def, (intro keeps_intros; simp)+)

interpretation op_addMember: tenant_op "(\<lambda>env ctx (u, r). addMember env ctx u r)" Member_manage member_check "(\<lambda>env ctx (u, r). addMember_tx env ctx u r)"
proof (unfold_locales, goal_cases)
  case (1 env ctx i) show ?case
    by (simp add: addMember_shape split: prod.splits)
qed (unfold addMember_tx_def, (intro keeps_intros; simp)+)

end
