(* ===== verification/Ledger_System.thy ===== *)
theory Ledger_System
  imports Operations
begin

text \<open>
  The ledger as a transition system: \<open>command\<close> has one constructor per mutating method of the
  ledger services, \<open>exec\<close> runs one, \<open>reachable\<close> is what any sequence of them, in any order, by
  any members with any roles, can lead to. The invariants of Ledger_Effects hold in every
  reachable store.
\<close>

section \<open>Calls and relations\<close>

definition svc_keeps :: "(store \<Rightarrow> store \<Rightarrow> bool) \<Rightarrow> 'a svc \<Rightarrow> bool" where
  "svc_keeps R m = (\<forall>st st' r. m st = (st', r) \<longrightarrow> R st st')"

named_theorems svc_intros \<open>rules that build \<open>svc_keeps\<close> along the text of a method\<close>

lemma svc_keepsI: "(\<And>st st' r. m st = (st', r) \<Longrightarrow> R st st') \<Longrightarrow> svc_keeps R m"
  by (simp add: svc_keeps_def)

lemma svc_keepsD: "svc_keeps R m \<Longrightarrow> m st = (st', r) \<Longrightarrow> R st st'"
  by (simp add: svc_keeps_def)

lemma svc_keeps_option [svc_intros]:
  "(x = None \<Longrightarrow> svc_keeps R m) \<Longrightarrow> (\<And>y. x = Some y \<Longrightarrow> svc_keeps R (f y)) \<Longrightarrow>
   svc_keeps R (case x of None \<Rightarrow> m | Some y \<Rightarrow> f y)"
  by (cases x) simp_all

lemma svc_keeps_if [svc_intros]:
  "(b \<Longrightarrow> svc_keeps R m) \<Longrightarrow> (\<not> b \<Longrightarrow> svc_keeps R n) \<Longrightarrow> svc_keeps R (if b then m else n)"
  by simp

context store_relation
begin

lemma svc_basic: "svc_keeps R (svc_ret x)" "svc_keeps R (svc_throw e)" "svc_keeps R (svc_read f)"
  by (auto intro!: svc_keepsI rel_refl)

lemma svc_and_then:
  assumes "svc_keeps R m" "\<And>x. svc_keeps R (k x)"
  shows "svc_keeps R (and_then m k)"
proof (rule svc_keepsI)
  fix st st' r assume run: "and_then m k st = (st', r)"
  obtain st1 y where m: "m st = (st1, y)" by fastforce
  then have "R st st1" by (rule svc_keepsD [OF assms(1)])
  moreover have "R st1 st'"
    using run m svc_keepsD [OF assms(2)] rel_refl by (auto simp: and_then_def split: sum.splits)
  ultimately show "R st st'" by (rule rel_trans)
qed

lemma svc_transaction: "keeps s R body \<Longrightarrow> svc_keeps R (transaction s body)"
  by (rule svc_keepsI) (rule transaction_related)

lemma svc_runInEvent: "keeps (in_event e) R body \<Longrightarrow> svc_keeps R (runInEvent e body)"
  unfolding runInEvent_def by (rule svc_transaction)

lemma svc_permitted: "svc_keeps R body \<Longrightarrow> svc_keeps R (permitted ctx a body)"
  by (auto simp: svc_keeps_def permitted_def intro: rel_refl split: sum.splits)

lemma svc_gated: "svc_keeps R body \<Longrightarrow> svc_keeps R (gated ctx a body)"
  by (auto simp: svc_keeps_def gated_def permitted_def intro: rel_refl split: sum.splits)

lemma svc_checked:
  "svc_keeps R m \<Longrightarrow> svc_keeps R (\<lambda>st. case f st of Inl e \<Rightarrow> (st, Inl e) | Inr x \<Rightarrow> m st)"
  "(\<And>x. svc_keeps R (n x)) \<Longrightarrow> svc_keeps R (\<lambda>st. case g st of None \<Rightarrow> (st, Inl e) | Some x \<Rightarrow> n x st)"
  by (auto simp: svc_keeps_def intro: rel_refl split: sum.splits option.splits)

lemmas svc_rules = svc_basic svc_and_then svc_runInEvent svc_permitted svc_gated svc_checked

end

lemmas svc_all [svc_intros] = untouched.svc_rules supplied.svc_rules history.svc_rules

section \<open>Commands\<close>

datatype command =
    Create_person create_person_input
  | Update_contact uuid string "bool option"
  | Link_person uuid uuid
  | Merge_people uuid uuid
  | Create_pledge_for create_pledge_input
  | Correct_committed uuid money
  | Cancel_pledge uuid
  | Record_payment record_fulfillment_input
  | Record_direct direct_contribution_input
  | Record_pledge_with_payment pledge_with_payment_input
  | Correct_payment uuid money
  | Add_item budget_item_input
  | Update_item uuid budget_item_update_input
  | Remove_item uuid
  | Allocate uuid uuid money
  | Create_group string "group_kind option"
  | Assign_person uuid uuid "string option"
  | Add_member_as uuid event_role
  | Create_event "string \<Rightarrow> string" "string \<Rightarrow> string" string create_event_input
  | Update_event update_event_input
  | Set_status event_status
  | Create_invitation string create_invitation_input
  | Accept_invitation string
  | Revoke_invitation uuid

definition outcome :: "store \<times> (error + 'a) \<Rightarrow> store \<times> error option" where
  "outcome r = (fst r, case snd r of Inl e \<Rightarrow> Some e | Inr _ \<Rightarrow> None)"

text \<open>A command run by an actor with a context; the commands that create an event or accept an
  invitation use the actor only.\<close>

fun exec :: "env \<Rightarrow> operation_context \<Rightarrow> command \<Rightarrow> store \<Rightarrow> store \<times> error option" where
  "exec env ctx (Create_person i) st = outcome (createPerson env ctx i st)"
| "exec env ctx (Update_contact i p c) st = outcome (updateContact env ctx i p c st)"
| "exec env ctx (Link_person i u) st = outcome (linkPersonToUser env ctx i u st)"
| "exec env ctx (Merge_people i j) st = outcome (mergePeople env ctx i j st)"
| "exec env ctx (Create_pledge_for i) st = outcome (createPledge env ctx i st)"
| "exec env ctx (Correct_committed i n) st = outcome (correctCommittedValue env ctx i n st)"
| "exec env ctx (Cancel_pledge i) st = outcome (cancelPledge env ctx i st)"
| "exec env ctx (Record_payment i) st = outcome (recordFulfillment env ctx i st)"
| "exec env ctx (Record_direct i) st = outcome (recordDirectContribution env ctx i st)"
| "exec env ctx (Record_pledge_with_payment i) st = outcome (recordPledgeWithPayment env ctx i st)"
| "exec env ctx (Correct_payment i n) st = outcome (correctValue env ctx i n st)"
| "exec env ctx (Add_item i) st = outcome (addItem env ctx i st)"
| "exec env ctx (Update_item i u) st = outcome (updateItem env ctx i u st)"
| "exec env ctx (Remove_item i) st = outcome (removeItem env ctx i st)"
| "exec env ctx (Allocate f i v) st = outcome (allocate env ctx f i v st)"
| "exec env ctx (Create_group n k) st = outcome (createGroup env ctx n k st)"
| "exec env ctx (Assign_person i g r) st = outcome (assignPerson env ctx i g r st)"
| "exec env ctx (Add_member_as u r) st = outcome (addMember env ctx u r st)"
| "exec env ctx (Create_event lower nfkd rnd i) st = outcome (createEvent lower nfkd rnd env (ctx_actor ctx) i st)"
| "exec env ctx (Update_event i) st = outcome (updateEvent env ctx i st)"
| "exec env ctx (Set_status s) st = outcome (setStatus env ctx s st)"
| "exec env ctx (Create_invitation token i) st = outcome (createInvitation token env ctx i st)"
| "exec env ctx (Accept_invitation token) st = outcome (acceptInvitation env (ctx_actor ctx) token st)"
| "exec env ctx (Revoke_invitation i) st = outcome (revokeInvitation ctx i st)"

text \<open>Amounts reach the services through \<open>parseMoney\<close>, which only returns non-negative ones.\<close>

fun command_ok :: "command \<Rightarrow> bool" where
  "command_ok (Create_pledge_for i) \<longleftrightarrow> 0 \<le> cpl_committedValue i"
| "command_ok (Correct_committed i n) \<longleftrightarrow> 0 \<le> n"
| "command_ok (Record_payment i) \<longleftrightarrow> 0 \<le> rf_value i"
| "command_ok (Record_direct i) \<longleftrightarrow> 0 \<le> dc_value i"
| "command_ok (Record_pledge_with_payment i) \<longleftrightarrow> 0 \<le> pp_committedValue i \<and> 0 \<le> nullish (pp_receivedNow i) 0"
| "command_ok (Correct_payment i n) \<longleftrightarrow> 0 \<le> n"
| "command_ok (Allocate f i v) \<longleftrightarrow> 0 \<le> v"
| "command_ok _ \<longleftrightarrow> True"

inductive reachable :: "(command \<Rightarrow> bool) \<Rightarrow> store \<Rightarrow> store \<Rightarrow> bool" for allow_cmd st0 where
  start: "reachable allow_cmd st0 st0"
| step: "reachable allow_cmd st0 st \<Longrightarrow> command_ok cmd \<Longrightarrow> allow_cmd cmd \<Longrightarrow>
    exec env ctx cmd st = (st', r) \<Longrightarrow> reachable allow_cmd st0 st'"

text \<open>A relation every command respects holds between the start and every reachable store.\<close>

context store_relation
begin

lemma reachable_related:
  "reachable P st0 st \<Longrightarrow>
   (\<And>env ctx cmd st st' r. command_ok cmd \<Longrightarrow> P cmd \<Longrightarrow> exec env ctx cmd st = (st', r) \<Longrightarrow> R st st') \<Longrightarrow>
   R st0 st"
  by (induction rule: reachable.induct) (blast intro: rel_refl rel_trans)+

end

section \<open>Invariants kept by the bodies\<close>

definition preserves :: "(store \<Rightarrow> bool) \<Rightarrow> store \<Rightarrow> store \<Rightarrow> bool" where
  "preserves I a b = (I a \<longrightarrow> I b)"

interpretation kept: store_relation "preserves I" for I
  by unfold_locales (auto simp: preserves_def)

text \<open>The ledger invariant, alone and with the bound on what a pledge has received.\<close>

definition bounded_inv :: "store \<Rightarrow> bool" where
  "bounded_inv st = (ledger_inv st \<and> within_committed st)"

definition money_inv :: "bool \<Rightarrow> store \<Rightarrow> bool" where
  "money_inv bounded st = (ledger_inv st \<and> (bounded \<longrightarrow> within_committed st))"

lemma money_same_preserves: "money_same a b \<Longrightarrow> preserves (money_inv w) a b"
  using money_same_inv money_same_within by (auto simp: preserves_def money_inv_def)

lemma keeps_money_preserves: "keeps s money_same m \<Longrightarrow> keeps s (preserves (money_inv w)) m"
  by (auto simp: keeps_def intro: money_same_preserves)

lemma keeps_statement [keeps_intros]: "svc_keeps R m \<Longrightarrow> keeps s R (statement m)"
  by (auto simp: keeps_def svc_keeps_def statement_Inr)

lemma global_money [svc_intros]:
  "svc_keeps money_same (event_update i fe)" "svc_keeps money_same (invitation_update i fi)"
  "svc_keeps money_same (invitation_create mki)"
  by (auto intro!: svc_keepsI simp: event_update_def invitation_update_def invitation_create_def
      global_update_def global_create_def money_same_def supply_grows_def Let_def
      split: option.splits if_splits)

lemma event_money [keeps_intros]:
  "keeps s money_same (event_create mke)" "keeps s money_same (member_create mkm)"
  by (auto intro!: keepsI simp: event_create_def statement_Inr global_create_def member_create_def
      tbl_create_def money_same_def supply_grows_def Let_def split: if_splits)

lemma untouched_bodies:
  "keeps s money_same (createPerson_tx env ctx cp)"
  "keeps s money_same (updateContact_tx env ctx i ph c)"
  "keeps s money_same (linkPersonToUser_tx env ctx i u)"
  "keeps s money_same (addItem_tx env ctx bin)"
  "keeps s money_same (updateItem_tx env ctx i bup)"
  "keeps s money_same (allocate_tx env ctx f i n)"
  "keeps s money_same (createGroup_tx env ctx nm k)"
  "keeps s money_same (assignPerson_tx env ctx i g rl)"
  "keeps s money_same (addMember_tx env ctx u r)"
  "keeps s money_same (admit_tx env ac invite)"
  unfolding createPerson_tx_def updateContact_tx_def assertPhoneNotAttachedElsewhere_def
    linkPersonToUser_tx_def addItem_tx_def ensureBudget_def updateItem_tx_def allocate_tx_def
    createGroup_tx_def assignPerson_tx_def addMember_tx_def admit_tx_def Let_def
  by ((intro keeps_intros svc_intros)?; simp add: keeps_statement svc_intros)+

lemma relabels_rows:
  assumes "relabels a b" "q \<in> set (pledges b)"
  shows "\<exists>p\<in>set (pledges a). pl_id p = pl_id q \<and> pl_eventId p = pl_eventId q
           \<and> pl_committedValue p = pl_committedValue q \<and> pl_status p = pl_status q"
proof -
  let ?k = "\<lambda>p. (pl_id p, pl_eventId p, pl_committedValue p, pl_status p)"
  have "?k q \<in> set (map ?k (pledges b))" using assms(2) by simp
  then have "?k q \<in> set (map ?k (pledges a))" using assms(1) by (simp only: relabels_def)
  then show ?thesis by auto
qed

lemma relabels_sym_rows:
  "relabels a b \<Longrightarrow> p \<in> set (pledges a) \<Longrightarrow>
   \<exists>q\<in>set (pledges b). pl_id q = pl_id p \<and> pl_eventId q = pl_eventId p"
proof -
  let ?k = "\<lambda>p. (pl_id p, pl_eventId p, pl_committedValue p, pl_status p)"
  assume rel: "relabels a b" and p: "p \<in> set (pledges a)"
  then have "?k p \<in> set (map ?k (pledges b))" by (simp add: relabels_def)
  then show ?thesis by auto
qed

lemma relabels_preserves:
  assumes rel: "relabels a b"
  shows "preserves (money_inv w) a b"
  unfolding preserves_def money_inv_def
proof (intro impI conjI; elim conjE)
  assume inv: "ledger_inv a"
  note inv' = ledger_invD [OF inv]
  have fs: "fulfillments b = fulfillments a" and grows: "supply_grows a b"
    using rel by (simp_all add: relabels_def)
  have rec: "received b i = received a i" for i by (simp add: received_def fs)
  have ids: "map pl_id (pledges b) = map pl_id (pledges a)"
    using rel [unfolded relabels_def, THEN conjunct2, THEN conjunct2, THEN arg_cong, of "map fst"]
    by (simp add: comp_def)
  have known: "known_id a i \<Longrightarrow> known_id b i" for i using grows by (rule known_id_mono [rotated])
  show "ledger_inv b"
    unfolding ledger_inv_def wf_ledger_def status_derived_def fs rec
  proof (intro conjI ballI)
    show "id_supply b" using inv'(1) grows by (simp add: id_supply_def supply_grows_def)
    show "distinct (map pl_id (pledges b))" "distinct (map f_id (fulfillments a))"
      using inv'(2,3) ids by simp_all
    show "known_id b (pl_id p)" if "p \<in> set (pledges b)" for p
      using relabels_rows [OF rel that] inv'(4) known by metis
    show "known_id b (f_id f)" if "f \<in> set (fulfillments a)" for f using inv'(5) that known by simp
    show "\<exists>p\<in>set (pledges b). pl_id p = f_pledgeId f \<and> pl_eventId p = f_eventId f"
      if "f \<in> set (fulfillments a)" for f
      using inv'(6) [OF that] relabels_sym_rows [OF rel] by metis
    show "pl_status p = deriveStatus (pl_committedValue p) (received a (pl_id p)) (pl_status p = CANCELLED)"
      if "p \<in> set (pledges b)" for p
      using relabels_rows [OF rel that] inv'(7) by metis
  qed
  assume w: "w \<longrightarrow> within_committed a" "w"
  then show "within_committed b"
    using relabels_rows [OF rel] by (metis (no_types) rec within_committed_def)
qed

lemma reparent_relabels [keeps_intros]:
  "keeps s relabels (pledges_reparent i j)" "keeps s relabels (files_reparent i j)"
  "keeps s relabels (budget_item_delete i)"
  by (auto intro!: keepsI simp: pledges_reparent_def files_reparent_def tbl_update_many_def
      budget_item_delete_def relabels_def supply_grows_def update_where_def split: if_splits)

lemma relabelling_bodies:
  "keeps s relabels (mergePeople_tx env ctx i j)" "keeps s relabels (removeItem_tx env ctx i)"
  unfolding mergePeople_tx_def removeItem_tx_def
  by (intro keeps_intros keeps_money_relabels; simp)+

lemma keeps_relabels_preserves: "keeps s relabels m \<Longrightarrow> keeps s (preserves (money_inv w)) m"
  by (auto simp: keeps_def intro: relabels_preserves)

section \<open>The bodies that move money\<close>

lemma preserves_if_inv:
  "(money_inv w a \<Longrightarrow> ledger_inv b) \<Longrightarrow> (ledger_inv a \<Longrightarrow> within_committed a \<Longrightarrow> w \<Longrightarrow> within_committed b) \<Longrightarrow>
   preserves (money_inv w) a b"
  by (auto simp: preserves_def money_inv_def)

lemma createPledge_preserves:
  assumes "0 \<le> cpl_committedValue input"
  shows "keeps (in_event (ctx_ev ctx)) (preserves (money_inv w)) (createPledge_tx env ctx input)"
proof (rule keepsI)
  fix st st' v assume "createPledge_tx env ctx input (in_event (ctx_ev ctx)) st = Inr (st', v)"
  then obtain p where "adds_pledge p st st'" "0 \<le> pl_committedValue p"
    using createPledge_adds assms by metis
  then show "preserves (money_inv w) st st'"
    using adds_pledge_inv adds_pledge_within by (intro preserves_if_inv) (auto simp: money_inv_def)
qed

lemma cancelPledge_preserves:
  "keeps (in_event (ctx_ev ctx)) (preserves (money_inv w)) (cancelPledge_tx env ctx i)"
proof (rule keepsI)
  fix st st' v assume run: "cancelPledge_tx env ctx i (in_event (ctx_ev ctx)) st = Inr (st', v)"
  show "preserves (money_inv w) st st'"
  proof (cases "ledger_inv st")
    case True
    from cancelPledge_revises [OF this run] obtain p g where p: "revises_pledge (ctx_ev ctx) p g st st'"
      "received st' = received st" "g p = p\<lparr>pl_status := CANCELLED\<rparr>" by blast
    have "p \<in> set (pledges st)" using p(1) by (simp add: revises_pledge_def)
    then show ?thesis
      using True p revises_pledge_inv [OF True p(1)] revises_pledge_within [OF True _ p(1)]
      by (intro preserves_if_inv) (auto simp: within_committed_def)
  qed (simp add: preserves_def money_inv_def)
qed

lemma correctCommitted_preserves:
  "keeps (in_event (ctx_ev ctx)) (preserves (money_inv False)) (correctCommittedValue_tx env ctx i n)"
proof (rule keepsI)
  fix st st' v assume run: "correctCommittedValue_tx env ctx i n (in_event (ctx_ev ctx)) st = Inr (st', v)"
  show "preserves (money_inv False) st st'"
  proof (cases "ledger_inv st")
    case True
    from correctCommittedValue_revises [OF this run] obtain p g where p: "revises_pledge (ctx_ev ctx) p g st st'"
      "pl_id p = i" "received st' = received st"
      "g p = p\<lparr>pl_committedValue := n, pl_status := deriveStatus n (received st i) (pl_status p = CANCELLED)\<rparr>"
      by blast
    show ?thesis
      using revises_pledge_inv [OF True p(1)] p by (intro preserves_if_inv) auto
  qed (simp add: preserves_def money_inv_def)
qed

lemma pays_preserves:
  "pays ev p f st st' \<Longrightarrow> received st (pl_id p) + f_value f \<le> pl_committedValue p \<Longrightarrow>
   preserves (money_inv w) st st'"
  using pays_inv pays_within by (intro preserves_if_inv) (auto simp: money_inv_def)

lemma adds_paid_preserves:
  "adds_paid_pledge ev p f st st' \<Longrightarrow> 0 \<le> pl_committedValue p \<Longrightarrow> f_value f \<le> pl_committedValue p \<Longrightarrow>
   preserves (money_inv w) st st'"
  using adds_paid_inv adds_paid_within by (intro preserves_if_inv) (auto simp: money_inv_def)

lemma recordFulfillment_preserves:
  "keeps (in_event (ctx_ev ctx)) (preserves (money_inv w)) (recordFulfillment_tx env ctx input)"
proof (rule keepsI)
  fix st st' v assume run: "recordFulfillment_tx env ctx input (in_event (ctx_ev ctx)) st = Inr (st', v)"
  show "preserves (money_inv w) st st'"
  proof (cases "ledger_inv st")
    case True
    from recordFulfillment_pays [OF this run] show ?thesis
      by (elim disjE exE conjE) (simp add: kept.rel_refl, rule pays_preserves, assumption, simp)
  qed (simp add: preserves_def money_inv_def)
qed

lemma recordDirect_preserves:
  assumes "0 \<le> dc_value input"
  shows "keeps (in_event (ctx_ev ctx)) (preserves (money_inv w)) (recordDirectContribution_tx env ctx input)"
proof (rule keepsI)
  fix st st' v assume run: "recordDirectContribution_tx env ctx input (in_event (ctx_ev ctx)) st = Inr (st', v)"
  show "preserves (money_inv w) st st'"
  proof (cases "ledger_inv st")
    case True
    from recordDirectContribution_pays [OF this run] show ?thesis
    proof (elim disjE exE conjE)
      fix st0 p f assume "money_same st st0" "adds_paid_pledge (ctx_ev ctx) p f st0 st'"
        "pl_committedValue p = dc_value input" "f_value f = dc_value input"
      then show ?thesis
        using assms money_same_preserves adds_paid_preserves kept.rel_trans by (metis order_refl)
    qed (simp add: kept.rel_refl)
  qed (simp add: preserves_def money_inv_def)
qed

lemma recordPledgeWithPayment_preserves:
  assumes "0 \<le> pp_committedValue input"
  shows "keeps (in_event (ctx_ev ctx)) (preserves (money_inv w)) (recordPledgeWithPayment_tx env ctx input)"
proof (rule keepsI)
  fix st st' v assume run: "recordPledgeWithPayment_tx env ctx input (in_event (ctx_ev ctx)) st = Inr (st', v)"
  show "preserves (money_inv w) st st'"
  proof (cases "ledger_inv st")
    case True
    from recordPledgeWithPayment_pays [OF this run] obtain p where
      p: "pl_committedValue p = pp_committedValue input" and
      eff: "adds_pledge p st st' \<or>
        (\<exists>f. adds_paid_pledge (ctx_ev ctx) p f st st' \<and> f_value f \<le> pl_committedValue p)"
      by (elim conjE exE, split if_splits) (blast, fastforce)
    show ?thesis
      using eff adds_paid_preserves adds_pledge_inv adds_pledge_within assms p
      by (elim disjE exE conjE) (auto intro!: preserves_if_inv simp: money_inv_def)
  qed (simp add: preserves_def money_inv_def)
qed

lemma correctValue_preserves:
  "keeps (in_event (ctx_ev ctx)) (preserves (money_inv w)) (correctValue_tx env ctx i n)"
proof (rule keepsI)
  fix st st' v assume run: "correctValue_tx env ctx i n (in_event (ctx_ev ctx)) st = Inr (st', v)"
  show "preserves (money_inv w) st st'"
  proof (cases "ledger_inv st")
    case True
    from correctValue_revises [OF this run] obtain p g where p: "revises_pledge (ctx_ev ctx) p g st st'"
      "received st' (pl_id p) \<le> pl_committedValue p"
      "g p = p\<lparr>pl_status := deriveStatus (pl_committedValue p) (received st' (pl_id p)) (pl_status p = CANCELLED)\<rparr>"
      by blast
    show ?thesis
      using revises_pledge_inv [OF True p(1)] revises_pledge_within [OF True _ p(1)] p
      by (intro preserves_if_inv) auto
  qed (simp add: preserves_def money_inv_def)
qed

section \<open>The whole system\<close>

lemma createEvent_money: "svc_keeps money_same (createEvent lower nfkd rnd env ac i)"
  unfolding createEvent_def runCreatingEvent_def createEvent_tx_def
  apply (rule svc_intros)
  apply (rule untouched.svc_transaction)
  apply (rule untouched.keeps_await)
   apply (rule event_money)
  apply (rule keepsI)
  apply (erule keepsD [rotated])
  by (intro keeps_intros event_money)

text \<open>A call that reads the store to choose what to do.\<close>

lemma svc_pointwise: "(\<And>st. \<exists>m. svc_keeps R m \<and> body st = m st) \<Longrightarrow> svc_keeps R body"
  by (auto simp: svc_keeps_def) metis

lemma createInvitation_money: "svc_keeps money_same (createInvitation token env ctx ci)"
  unfolding createInvitation_def
proof (intro untouched.svc_gated svc_pointwise, goal_cases)
  case (1 st)
  let ?new = "and_then (invitation_create (\<lambda>i. \<lparr>i_id = i, i_eventId = ctx_ev ctx, i_token = token,
      i_role = cin_role ci, i_status = I_PENDING, i_invitedPhone = cin_invitedPhone ci,
      i_invitedById = ctx_user ctx, i_maxUses = nullish (cin_maxUses ci) 1, i_uses = 0,
      i_expiresAt = now env + nullish (cin_ttlSeconds ci) DEFAULT_TTL_SECONDS * 1000, i_acceptedById = None,
      i_acceptedAt = None, i_createdAt = now env\<rparr>)) (\<lambda>invitation. svc_ret (invitation_view_of invitation))"
  have "svc_keeps money_same ?new" by (intro svc_intros)
  moreover have "svc_keeps money_same (svc_throw e)" for e by (intro svc_intros)
  ultimately show ?case
    by (cases "already_member (ctx_ev ctx) (cin_invitedPhone ci) st";
        cases "allowed (ent_check env (event_scope (ctx_ev ctx)) Add_member 1 st)")
       (auto simp: Let_def simp flip: svc_simps(2))
qed

lemma acceptInvitation_money: "svc_keeps money_same (acceptInvitation env ac token)"
  unfolding acceptInvitation_def acceptInvitation_tx_def
  by (intro svc_intros keeps_intros untouched_bodies)

lemma other_calls_money:
  "svc_keeps money_same (updateEvent env ctx ui)" "svc_keeps money_same (setStatus env ctx s)"
  "svc_keeps money_same (revokeInvitation ctx i)"
  unfolding updateEvent_def setStatus_def revokeInvitation_def
  by (intro svc_intros keeps_intros)+

context gated_op
begin

lemma svc_related:
  "store_relation R \<Longrightarrow> keeps (in_event (ctx_ev ctx)) R (body env ctx i) \<Longrightarrow> svc_keeps R (run env ctx i)"
  by (rule svc_keepsI) (rule related)

end

lemma outcome_keeps: "svc_keeps R m \<Longrightarrow> outcome (m st) = (st', r) \<Longrightarrow> R st st'"
  by (cases "m st") (auto simp: outcome_def dest: svc_keepsD)

fun corrects_commitment :: "command \<Rightarrow> bool" where
  "corrects_commitment (Correct_committed i n) = True"
| "corrects_commitment _ = False"

text \<open>
  A relation on stores that the frame steps respect and the seven money-moving bodies respect is
  respected by every command. \<open>legal\<close> leaves out the commands that break it.
\<close>

locale money_relation = store_relation R for R :: "store \<Rightarrow> store \<Rightarrow> bool" +
  fixes legal :: "command \<Rightarrow> bool"
  assumes same: "money_same a b \<Longrightarrow> R a b"
    and relabelled: "relabels a b \<Longrightarrow> R a b"
    and creates: "0 \<le> cpl_committedValue cpl \<Longrightarrow> keeps (in_event (ctx_ev ctx)) R (createPledge_tx env ctx cpl)"
    and cancels: "keeps (in_event (ctx_ev ctx)) R (cancelPledge_tx env ctx i)"
    and recommits: "legal (Correct_committed i n) \<Longrightarrow> 0 \<le> n \<Longrightarrow>
      keeps (in_event (ctx_ev ctx)) R (correctCommittedValue_tx env ctx i n)"
    and pays: "keeps (in_event (ctx_ev ctx)) R (recordFulfillment_tx env ctx rf)"
    and pays_direct: "0 \<le> dc_value dc \<Longrightarrow> keeps (in_event (ctx_ev ctx)) R (recordDirectContribution_tx env ctx dc)"
    and creates_paid: "0 \<le> pp_committedValue pp \<Longrightarrow>
      keeps (in_event (ctx_ev ctx)) R (recordPledgeWithPayment_tx env ctx pp)"
    and revalues: "keeps (in_event (ctx_ev ctx)) R (correctValue_tx env ctx i n)"
begin

lemma keeps_same: "keeps s money_same m \<Longrightarrow> keeps s R m"
  and keeps_relabelled: "keeps s relabels m \<Longrightarrow> keeps s R m"
  and svc_same: "svc_keeps money_same c \<Longrightarrow> svc_keeps R c"
  by (auto simp: keeps_def svc_keeps_def intro: same relabelled)

lemmas related = store_relation_axioms

lemma frame_calls:
  "svc_keeps R (createPerson env ctx cp)" "svc_keeps R (updateContact env ctx i ph c)"
  "svc_keeps R (linkPersonToUser env ctx i u)" "svc_keeps R (addItem env ctx bin)"
  "svc_keeps R (updateItem env ctx i bup)" "svc_keeps R (allocate env ctx f i n)"
  "svc_keeps R (createGroup env ctx nm k)" "svc_keeps R (assignPerson env ctx i g rl)"
  "svc_keeps R (addMember env ctx u rol)"
  using untouched_bodies [THEN keeps_same]
    op_createPerson.svc_related [OF related, of ctx env cp]
    op_updateContact.svc_related [OF related, of ctx env "(i, ph, c)"]
    op_linkPersonToUser.svc_related [OF related, of ctx env "(i, u)"]
    op_addItem.svc_related [OF related, of ctx env bin]
    op_updateItem.svc_related [OF related, of ctx env "(i, bup)"]
    op_allocate.svc_related [OF related, of ctx env "(f, i, n)"]
    op_createGroup.svc_related [OF related, of ctx env "(nm, k)"]
    op_assignPerson.svc_related [OF related, of ctx env "(i, g, rl)"]
    op_addMember.svc_related [OF related, of ctx env "(u, rol)"]
  by simp_all

lemma moving_calls:
  "svc_keeps R (mergePeople env ctx i j)" "svc_keeps R (removeItem env ctx i)"
  "0 \<le> cpl_committedValue cpl \<Longrightarrow> svc_keeps R (createPledge env ctx cpl)"
  "legal (Correct_committed i n) \<Longrightarrow> 0 \<le> n \<Longrightarrow> svc_keeps R (correctCommittedValue env ctx i n)"
  "svc_keeps R (cancelPledge env ctx i)" "svc_keeps R (recordFulfillment env ctx rf)"
  "0 \<le> dc_value dc \<Longrightarrow> svc_keeps R (recordDirectContribution env ctx dc)"
  "0 \<le> pp_committedValue pp \<Longrightarrow> svc_keeps R (recordPledgeWithPayment env ctx pp)"
  "svc_keeps R (correctValue env ctx i n)"
  using relabelling_bodies [THEN keeps_relabelled] recommits revalues
    op_mergePeople.svc_related [OF related, of ctx env "(i, j)"]
    op_removeItem.svc_related [OF related, of ctx env i]
    op_createPledge.svc_related [OF related creates]
    op_correctCommittedValue.svc_related [OF related, of ctx env "(i, n)"]
    op_cancelPledge.svc_related [OF related cancels]
    op_recordFulfillment.svc_related [OF related pays]
    op_recordDirectContribution.svc_related [OF related pays_direct]
    op_recordPledgeWithPayment.svc_related [OF related creates_paid]
    op_correctValue.svc_related [OF related, of ctx env "(i, n)"]
  by simp_all

lemmas ungated_calls =
  createEvent_money [THEN svc_same] other_calls_money [THEN svc_same]
  createInvitation_money [THEN svc_same] acceptInvitation_money [THEN svc_same]

lemma exec_related:
  "command_ok cmd \<Longrightarrow> legal cmd \<Longrightarrow> exec env ctx cmd st = (st', r) \<Longrightarrow> R st st'"
  by (cases cmd)
     (auto elim!: outcome_keeps [rotated] intro: frame_calls moving_calls ungated_calls)

lemma reachable_legal:
  "reachable P st0 st \<Longrightarrow> (\<And>cmd. P cmd \<Longrightarrow> legal cmd) \<Longrightarrow> R st0 st"
  by (erule reachable_related) (blast intro: exec_related)

end

interpretation sound: money_relation "preserves (money_inv False)" "\<lambda>cmd. True"
  by unfold_locales
     (simp_all add: money_same_preserves relabels_preserves createPledge_preserves cancelPledge_preserves
        correctCommitted_preserves recordFulfillment_preserves recordDirect_preserves
        recordPledgeWithPayment_preserves correctValue_preserves)

interpretation paid: money_relation "preserves (money_inv True)" "\<lambda>cmd. \<not> corrects_commitment cmd"
  by unfold_locales
     (simp_all add: money_same_preserves relabels_preserves createPledge_preserves cancelPledge_preserves
        recordFulfillment_preserves recordDirect_preserves
        recordPledgeWithPayment_preserves correctValue_preserves)

lemma reachable_money:
  assumes "reachable P st0 st" "money_inv w st0" "\<And>cmd. w \<Longrightarrow> P cmd \<Longrightarrow> \<not> corrects_commitment cmd"
  shows "money_inv w st"
proof (cases w)
  case True
  then show ?thesis using paid.reachable_legal [OF assms(1)] assms(2,3) by (simp add: preserves_def)
next
  case False
  then show ?thesis using sound.reachable_legal [OF assms(1)] assms(2) by (simp add: preserves_def)
qed

end
