(* ===== verification/Demo_Data.thy ===== *)
theory Demo_Data
  imports Fulfillment_Service
begin

text \<open>
  A small event with an owner and two contributors, and the contexts its members act in: the
  concrete data the theorems are instantiated with.
\<close>

definition demo_user :: "uuid \<Rightarrow> string \<Rightarrow> user_row" where
  "demo_user i phone = \<lparr>u_id = i, u_phone = Some phone, u_phoneVerified = True, u_email = None,
     u_emailVerified = False, u_displayName = None, u_createdAt = 0\<rparr>"

definition demo_event :: event_row where
  "demo_event = \<lparr>e_id = ''E1'', e_name = ''Wedding'', e_slug = ''wedding-0a1b2c3d'', e_status = ACTIVE,
     e_ownerUserId = ''U1'', e_currency = ''UGX'', e_targetAmount = Some 1000, e_eventDate = None,
     e_timezone = ''Africa/Kampala'', e_country = ''UG'', e_description = None, e_isPublic = True,
     e_publicAccessToken = None, e_contributorVisibility = NAMES_AND_AMOUNTS,
     e_budgetVisibility = BUDGET_PUBLIC, e_showTarget = True, e_showOutstanding = True,
     e_publicRevision = 1, e_createdAt = 0\<rparr>"

definition demo_member :: "uuid \<Rightarrow> uuid \<Rightarrow> event_role \<Rightarrow> member_row" where
  "demo_member i user role = \<lparr>m_id = i, m_eventId = ''E1'', m_userId = user, m_role = role,
     m_status = M_ACTIVE, m_invitedById = None, m_createdAt = 0\<rparr>"

definition demo_person :: "uuid \<Rightarrow> string \<Rightarrow> person_row" where
  "demo_person i name = \<lparr>pe_id = i, pe_eventId = ''E1'', pe_displayName = name, pe_phone = None,
     pe_userId = None, pe_source = human_typed, pe_createdById = Some ''U1'', pe_createdAt = 0\<rparr>"

definition demo_store :: store where
  "demo_store = empty_store\<lparr>users := [demo_user ''U1'' ''0700'', demo_user ''U2'' ''0701''],
     events := [demo_event], members := [demo_member ''M1'' ''U1'' OWNER],
     persons := [demo_person ''P1'' ''Alice'', demo_person ''P2'' ''Brian'']\<rparr>"

definition demo_env :: env where
  "demo_env = \<lparr>now = 1000000000, plan_cache = None\<rparr>"

definition demo_ctx :: "uuid \<Rightarrow> event_role \<Rightarrow> event_status \<Rightarrow> operation_context" where
  "demo_ctx user role status = \<lparr>ctx_actor = \<lparr>userId = user, phoneVerified = True\<rparr>,
     ctx_event = \<lparr>ctx_eventId = ''E1'', ctx_role = role, ctx_status = status\<rparr>\<rparr>"

definition owner_ctx :: operation_context where
  "owner_ctx = demo_ctx ''U1'' OWNER ACTIVE"

definition demo_pledge_input :: "uuid \<Rightarrow> money \<Rightarrow> create_pledge_input" where
  "demo_pledge_input person n = \<lparr>cpl_personId = person, cpl_committedValue = n, cpl_type = None,
     cpl_targetBudgetItemId = None, cpl_description = None, cpl_quantity = None, cpl_unit = None,
     cpl_estimatedValue = None, cpl_source = None\<rparr>"

definition demo_payment :: "uuid \<Rightarrow> money \<Rightarrow> string option \<Rightarrow> record_fulfillment_input" where
  "demo_payment pledge n key = \<lparr>rf_pledgeId = pledge, rf_value = n, rf_kind = None, rf_method = Some MTN,
     rf_currency = None, rf_note = None, rf_occurredAt = None, rf_idempotencyKey = key,
     rf_confirmDuplicate = None, rf_source = None\<rparr>"

text \<open>The store after Alice pledged 500, and after 200 of it were received. The pledge has the
  first id drawn, the payment the third (the audit entry of the pledge has the second).\<close>

definition demo_pledged :: store where
  "demo_pledged = fst (createPledge demo_env owner_ctx (demo_pledge_input ''P1'' 500) demo_store)"

definition demo_paid :: store where
  "demo_paid = fst (recordFulfillment demo_env owner_ctx (demo_payment ''x'' 200 (Some ''k1'')) demo_pledged)"

lemmas demo_defs = demo_paid_def demo_pledged_def demo_store_def empty_store_def demo_user_def demo_event_def
  demo_member_def demo_person_def demo_env_def owner_ctx_def demo_ctx_def demo_pledge_input_def demo_payment_def

lemma demo_paid_pledges:
  "map (\<lambda>p. (pl_id p, pl_committedValue p, pl_status p)) (pledges demo_paid) = [(''x'', 500, PARTIALLY_FULFILLED)]"
  by code_simp

lemma demo_paid_fulfillments:
  "map (\<lambda>f. (f_id f, f_pledgeId f, f_value f, f_idempotencyKey f)) (fulfillments demo_paid) =
     [(''xxx'', ''x'', 200, Some ''k1'')]"
  by code_simp

end
