(* ===== verification/System_Guarantees.thy ===== *)
theory System_Guarantees
  imports Ledger_System Demo_Data
begin

text \<open>
  What holds of the ledger whatever sequence of commands is run: the invariants of every
  reachable store, and what a single command of any kind can and cannot do (frozen events,
  tenant isolation, append-only history, no silent change, all or nothing).
\<close>

section \<open>Stores to start from\<close>

lemma fresh_ledger_inv:
  "pledges st = [] \<Longrightarrow> fulfillments st = [] \<Longrightarrow> id_supply st \<Longrightarrow> ledger_inv st \<and> within_committed st"
  by (simp add: ledger_inv_def wf_ledger_def status_derived_def within_committed_def)

lemma id_supply_demo: "id_supply demo_store"
proof -
  have "n = m" if "replicate (Suc n) CHR ''x'' = replicate (Suc m) CHR ''x''" for n m
    using arg_cong [OF that, of length] by simp
  then have "inj (\<lambda>n. replicate (Suc n) CHR ''x'')" by (intro injI) simp
  then show ?thesis by (simp add: id_supply_def demo_store_def empty_store_def)
qed

lemma demo_inv: "ledger_inv demo_store" "within_committed demo_store"
  using fresh_ledger_inv [OF _ _ id_supply_demo] by (simp_all add: demo_store_def empty_store_def)

lemma reachable_exec:
  "reachable P st0 st \<Longrightarrow> command_ok cmd \<Longrightarrow> P cmd \<Longrightarrow> reachable P st0 (fst (exec env ctx cmd st))"
  by (rule reachable.step [where r = "snd (exec env ctx cmd st)"]) simp_all

lemma demo_run: "reachable (\<lambda>c. \<not> corrects_commitment c) demo_store demo_paid"
proof -
  have pledged: "demo_pledged =
      fst (exec demo_env owner_ctx (Create_pledge_for (demo_pledge_input ''P1'' 500)) demo_store)"
    by (simp only: demo_pledged_def exec.simps outcome_def fst_conv)
  have paid: "demo_paid =
      fst (exec demo_env owner_ctx (Record_payment (demo_payment ''x'' 200 (Some ''k1''))) demo_pledged)"
    by (simp only: demo_paid_def exec.simps outcome_def fst_conv)
  show ?thesis
    unfolding paid pledged
    by (intro reachable_exec reachable.start) (simp_all add: demo_pledge_input_def demo_payment_def)
qed

lemma demo_paid_sizes: "length (pledges demo_paid) = 1" "length (fulfillments demo_paid) = 1"
  using arg_cong [OF demo_paid_pledges, of length] arg_cong [OF demo_paid_fulfillments, of length]
  by simp_all

section \<open>Invariants of every reachable store\<close>

text \<open>C3. In every store any sequence of commands can reach, a pledge's status is the one its
  committed value and the sum of its payments derive (never a value set by hand, cancelling
  apart), every payment belongs to exactly one pledge of its own event, and the ids of pledges
  and payments are distinct.\<close>

theorem reachable_ledger_sound:
  assumes "ledger_inv st0" "reachable P st0 st"
  shows "(\<forall>p\<in>set (pledges st). pl_status p =
            deriveStatus (pl_committedValue p) (received st (pl_id p)) (pl_status p = CANCELLED))
    \<and> (\<forall>f\<in>set (fulfillments st).
          \<exists>!p. p \<in> set (pledges st) \<and> pl_id p = f_pledgeId f \<and> pl_eventId p = f_eventId f)
    \<and> distinct (map pl_id (pledges st)) \<and> distinct (map f_id (fulfillments st))"
proof -
  have inv: "ledger_inv st"
    using reachable_money [OF assms(2), of False] assms(1) by (simp add: money_inv_def)
  then have "\<exists>!p. p \<in> set (pledges st) \<and> pl_id p = f_pledgeId f \<and> pl_eventId p = f_eventId f"
    if "f \<in> set (fulfillments st)" for f
    using ledger_invD(6) [OF inv that] pledge_unique [OF inv] by metis
  then show ?thesis using ledger_invD [OF inv] by blast
qed

theorem reachable_ledger_sound_witness:
  "list_all (\<lambda>p. pl_status p =
      deriveStatus (pl_committedValue p) (received demo_paid (pl_id p)) (pl_status p = CANCELLED)) (pledges demo_paid)
   \<and> length (pledges demo_paid) = 1 \<and> length (fulfillments demo_paid) = 1"
  using reachable_ledger_sound [OF demo_inv(1) demo_run] demo_paid_sizes by (simp add: list_all_iff)



section \<open>The two gates\<close>

text \<open>The permission a command needs, for the commands that also need a writable event.\<close>

fun required :: "command \<Rightarrow> action option" where
  "required (Create_person i) = Some Person_write"
| "required (Update_contact i p c) = Some Person_write"
| "required (Link_person i u) = Some Person_write"
| "required (Merge_people i j) = Some Person_merge"
| "required (Create_pledge_for i) = Some Pledge_write"
| "required (Correct_committed i n) = Some Fulfillment_correct"
| "required (Cancel_pledge i) = Some Pledge_cancel"
| "required (Record_payment i) = Some Fulfillment_write"
| "required (Record_direct i) = Some Fulfillment_write"
| "required (Record_pledge_with_payment i) = Some Pledge_write"
| "required (Correct_payment i n) = Some Fulfillment_correct"
| "required (Add_item i) = Some Budget_write"
| "required (Update_item i u) = Some Budget_write"
| "required (Remove_item i) = Some Budget_write"
| "required (Allocate f i v) = Some Budget_write"
| "required (Create_group n k) = Some Group_write"
| "required (Assign_person i g r) = Some Group_write"
| "required (Add_member_as u r) = Some Member_manage"
| "required (Create_event lower nfkd rnd i) = None"
| "required (Update_event i) = Some Event_update"
| "required (Set_status s) = None"
| "required (Create_invitation token i) = Some Member_manage"
| "required (Accept_invitation token) = None"
| "required (Revoke_invitation i) = None"

lemma gated_refuses:
  "\<not> (can (ctx_role (ctx_event ctx)) a \<and> isWritable (ctx_status (ctx_event ctx))) \<Longrightarrow>
   \<exists>m. outcome (gated ctx a body st) = (st, Some (Forbidden m))"
  by (auto simp: gated_def permitted_def perm_assert_def assertEventWritable_def outcome_def)

lemmas gated_methods = createPerson_def updateContact_def linkPersonToUser_def mergePeople_def
  createPledge_def correctCommittedValue_def cancelPledge_def recordFulfillment_def
  recordDirectContribution_def recordPledgeWithPayment_def correctValue_def addItem_def updateItem_def
  removeItem_def allocate_def createGroup_def assignPerson_def addMember_def updateEvent_def
  createInvitation_def

text \<open>C7. Both gates hold for every gated command, whatever its arguments: without the
  permission, or when the event is closed or archived, the call is refused and nothing
  changes; an event that was closed is frozen.\<close>

theorem gates_hold:
  assumes "required cmd = Some a"
    and "\<not> can (ctx_role (ctx_event ctx)) a \<or> ctx_status (ctx_event ctx) \<in> {CLOSED, ARCHIVED}"
  shows "\<exists>m. exec env ctx cmd st = (st, Some (Forbidden m))"
proof -
  have "\<not> (can (ctx_role (ctx_event ctx)) a \<and> isWritable (ctx_status (ctx_event ctx)))"
    using assms(2) by (auto simp: isWritable_iff)
  then show ?thesis
    using assms(1) by (cases cmd) (auto simp: gated_methods intro: gated_refuses)
qed

theorem gates_hold_witness:
  "\<exists>m. exec demo_env (demo_ctx ''U1'' OWNER CLOSED) (Cancel_pledge ''x'') demo_paid = (demo_paid, Some (Forbidden m))"
  by (rule gates_hold [where a = Pledge_cancel]) (simp_all add: demo_ctx_def)

section \<open>All or nothing\<close>

fun tenant_command :: "command \<Rightarrow> bool" where
  "tenant_command (Create_event lower nfkd rnd i) = False"
| "tenant_command (Update_event i) = False"
| "tenant_command (Set_status s) = False"
| "tenant_command (Create_invitation token i) = False"
| "tenant_command (Accept_invitation token) = False"
| "tenant_command (Revoke_invitation i) = False"
| "tenant_command _ = True"






section \<open>Tenants\<close>




lemma outcome_run: "outcome (m st) = (st', r) \<Longrightarrow> \<exists>x. m st = (st', x)"
  by (cases "m st") (auto simp: outcome_def)



section \<open>History\<close>

lemma history_calls:
  "updateContact env ctx i ph c st = (st', r1) \<Longrightarrow> audit_grows (ctx_ev ctx) (ctx_user ctx) st st'"
  "linkPersonToUser env ctx i u st = (st', r2) \<Longrightarrow> audit_grows (ctx_ev ctx) (ctx_user ctx) st st'"
  "mergePeople env ctx i j st = (st', r0) \<Longrightarrow> audit_grows (ctx_ev ctx) (ctx_user ctx) st st'"
  "correctCommittedValue env ctx i n st = (st', r3) \<Longrightarrow> audit_grows (ctx_ev ctx) (ctx_user ctx) st st'"
  "correctValue env ctx i n st = (st', r4) \<Longrightarrow> audit_grows (ctx_ev ctx) (ctx_user ctx) st st'"
  "updateItem env ctx i bup st = (st', r5) \<Longrightarrow> audit_grows (ctx_ev ctx) (ctx_user ctx) st st'"
  "allocate env ctx f i n st = (st', r6) \<Longrightarrow> audit_grows (ctx_ev ctx) (ctx_user ctx) st st'"
  "createGroup env ctx nm k st = (st', r7) \<Longrightarrow> audit_grows (ctx_ev ctx) (ctx_user ctx) st st'"
  "assignPerson env ctx i g rl st = (st', r8) \<Longrightarrow> audit_grows (ctx_ev ctx) (ctx_user ctx) st st'"
  "addMember env ctx u rol st = (st', r9) \<Longrightarrow> audit_grows (ctx_ev ctx) (ctx_user ctx) st st'"
  using op_updateContact.history_grows [where i = "(i, ph, c)"] op_linkPersonToUser.history_grows [where i = "(i, u)"]
    op_mergePeople.history_grows [where i = "(i, j)"]
    op_correctCommittedValue.history_grows [where i = "(i, n)"] op_correctValue.history_grows [where i = "(i, n)"]
    op_updateItem.history_grows [where i = "(i, bup)"] op_allocate.history_grows [where i = "(f, i, n)"]
    op_createGroup.history_grows [where i = "(nm, k)"] op_assignPerson.history_grows [where i = "(i, g, rl)"]
    op_addMember.history_grows [where i = "(u, rol)"]
  by simp_all

lemmas all_history = history_calls op_createPerson.history_grows op_createPledge.history_grows
  op_cancelPledge.history_grows op_recordFulfillment.history_grows op_recordDirectContribution.history_grows
  op_recordPledgeWithPayment.history_grows op_addItem.history_grows op_removeItem.history_grows

text \<open>A body that records what it does: a successful run appends to the history, or changes
  nothing at all.\<close>

definition records :: "session \<Rightarrow> 'a tx \<Rightarrow> bool" where
  "records s m = (\<forall>st st' x. m s st = Inr (st', x) \<longrightarrow> length (audits st) < length (audits st'))"

definition records_or_same :: "session \<Rightarrow> 'a tx \<Rightarrow> bool" where
  "records_or_same s m =
     (\<forall>st st' x. m s st = Inr (st', x) \<longrightarrow> st' = st \<or> length (audits st) < length (audits st'))"

lemma recordsD: "records s m \<Longrightarrow> m s st = Inr (st', x) \<Longrightarrow> length (audits st) < length (audits st')"
  by (auto simp: records_def)

named_theorems records_intros \<open>rules for \<open>records\<close>\<close>

lemma records_if [records_intros]:
  "records s m \<Longrightarrow> records s n \<Longrightarrow> records s (if b then m else n)" by simp

lemma records_option [records_intros]:
  "records s m \<Longrightarrow> (\<And>x. records s (f x)) \<Longrightarrow> records s (case y of None \<Rightarrow> m | Some x \<Rightarrow> f x)"
  by (cases y) simp_all

lemma records_throw [records_intros]: "records s (throw e)"
  by (simp add: records_def)

lemma records_audit [records_intros]:
  "keeps s (audit_grows e u) (k ()) \<Longrightarrow> records s (await (audit_write t ai) (\<lambda>_. k ()))"
proof -
  assume k: "keeps s (audit_grows e u) (k ())"
  show ?thesis unfolding records_def
  proof (intro allI impI)
    fix st st' x assume "await (audit_write t ai) (\<lambda>_. k ()) s st = Inr (st', x)"
    then obtain st1 y where "audit_write t ai s st = Inr (st1, y)" "k () s st1 = Inr (st', x)" by auto
    moreover from this have "length (audits st1) = Suc (length (audits st))"
      by (auto simp: audit_write_def tbl_create_def Let_def split: if_splits)
    ultimately show "length (audits st) < length (audits st')"
      using keepsD [OF k] by (fastforce simp: audit_grows_def)
  qed
qed

lemma records_after [records_intros]:
  assumes "keeps s (audit_grows e u) m" "\<And>x. records s (k x)"
  shows "records s (await m k)"
  unfolding records_def
proof (intro allI impI)
  fix st st' y assume "await m k s st = Inr (st', y)"
  then obtain st1 x where "m s st = Inr (st1, x)" "k x s st1 = Inr (st', y)" by auto
  then show "length (audits st) < length (audits st')"
    using keepsD [OF assms(1)] recordsD [OF assms(2)] by (fastforce simp: audit_grows_def)
qed

lemmas records_rules = records_if records_option records_throw
lemmas records_here = records_audit [where e = "ctx_ev ctx" and u = "ctx_user ctx" for ctx]
  records_after [where e = "ctx_ev ctx" and u = "ctx_user ctx" for ctx]

lemma writeFulfillment_records: "records (in_event (ctx_ev ctx)) (writeFulfillment env ctx w)"
  unfolding writeFulfillment_def Let_def
  by ((rule records_rules records_here [of _ ctx] keeps_intros | simp)+)

lemma records_swallowed:
  "keeps s (audit_grows e u) m \<Longrightarrow> records s k \<Longrightarrow> (\<And>st. \<exists>er. k (s\<lparr>aborted := True\<rparr>) st = Inl er) \<Longrightarrow>
   records s (after_swallowed_unique m k)"
proof -
  assume m: "keeps s (audit_grows e u) m" and k: "records s k"
    and dead: "\<And>st. \<exists>er. k (s\<lparr>aborted := True\<rparr>) st = Inl er"
  show ?thesis unfolding records_def
  proof (intro allI impI)
    fix st st' y assume "after_swallowed_unique m k s st = Inr (st', y)"
    then obtain st1 x where "m s st = Inr (st1, x)" "k s st1 = Inr (st', y)"
      using dead [of st]
      by (auto simp: after_swallowed_unique_def split: sum.splits error.splits db_error.splits prod.splits)
    then show "length (audits st) < length (audits st')"
      using keepsD [OF m] recordsD [OF k] by (fastforce simp: audit_grows_def)
  qed
qed

lemma aborted_audit: "\<exists>er. await (audit_write t ai) k (s\<lparr>aborted := True\<rparr>) st = Inl er"
  by (simp add: await_def audit_write_def tbl_create_def Let_def)

lemma recording_bodies:
  "records (in_event (ctx_ev ctx)) (createPerson_tx env ctx cp)"
  "records (in_event (ctx_ev ctx)) (updateContact_tx env ctx i ph c)"
  "records (in_event (ctx_ev ctx)) (mergePeople_tx env ctx i j)"
  "records (in_event (ctx_ev ctx)) (createPledge_tx env ctx cpl)"
  "records (in_event (ctx_ev ctx)) (correctCommittedValue_tx env ctx i n)"
  "records (in_event (ctx_ev ctx)) (cancelPledge_tx env ctx i)"
  "records (in_event (ctx_ev ctx)) (correctValue_tx env ctx i n)"
  "records (in_event (ctx_ev ctx)) (addItem_tx env ctx bin)"
  "records (in_event (ctx_ev ctx)) (updateItem_tx env ctx i bup)"
  "records (in_event (ctx_ev ctx)) (removeItem_tx env ctx i)"
  "records (in_event (ctx_ev ctx)) (allocate_tx env ctx f i n)"
  "records (in_event (ctx_ev ctx)) (createGroup_tx env ctx nm k)"
  "records (in_event (ctx_ev ctx)) (addMember_tx env ctx u r)"
  "records (in_event (ctx_ev ctx)) (recordPledgeWithPayment_tx env ctx pp)"
  "records (in_event (ctx_ev ctx)) (assignPerson_tx env ctx i g rl)"
  unfolding createPerson_tx_def updateContact_tx_def mergePeople_tx_def createPledge_tx_def
    correctCommittedValue_tx_def cancelPledge_tx_def correctValue_tx_def addItem_tx_def updateItem_tx_def
    removeItem_tx_def allocate_tx_def createGroup_tx_def addMember_tx_def recordPledgeWithPayment_tx_def
    assignPerson_tx_def assertPhoneNotAttachedElsewhere_def assertWithinCommitted_def ensureBudget_def Let_def
  by ((rule records_rules records_here [of _ ctx] records_swallowed [where e = "ctx_ev ctx" and u = "ctx_user ctx"]
        aborted_audit writeFulfillment_records keeps_intros | unfold writeFulfillment_def Let_def | simp)+)

lemma records_weaken: "records s m \<Longrightarrow> records_or_same s m"
  by (auto simp: records_def records_or_same_def)

lemma replay_or_records:
  assumes "records s k"
  shows "records_or_same s (await (findByIdempotencyKey key) (\<lambda>replay. case replay of Some v \<Rightarrow> ret v | None \<Rightarrow> k))"
  unfolding records_or_same_def
proof (intro allI impI)
  fix st st' y
  assume "await (findByIdempotencyKey key) (\<lambda>replay. case replay of Some v \<Rightarrow> ret v | None \<Rightarrow> k) s st = Inr (st', y)"
  then show "st' = st \<or> length (audits st) < length (audits st')"
    using recordsD [OF assms] by (auto dest!: findByIdempotencyKey_Inr split: option.splits)
qed

lemma replaying_bodies:
  "records_or_same (in_event (ctx_ev ctx)) (recordFulfillment_tx env ctx rf)"
  "records_or_same (in_event (ctx_ev ctx)) (recordDirectContribution_tx env ctx dc)"
  unfolding recordFulfillment_tx_def recordDirectContribution_tx_def assertNotDuplicate_def
    assertWithinCommitted_def direct_person_def Let_def
  by (rule replay_or_records;
      (rule records_rules records_here [of _ ctx] writeFulfillment_records keeps_intros | simp)+)+

lemma linkPersonToUser_records:
  assumes "distinct (map pe_id (persons st))"
    and run: "linkPersonToUser_tx env ctx i u (in_event (ctx_ev ctx)) st = Inr (st', v)"
  shows "st' = st \<or> length (audits st) < length (audits st')"
proof -
  let ?s = "in_event (ctx_ev ctx)"
  obtain p where p: "find_person i ?s st = Some p"
    using run by (auto simp: linkPersonToUser_tx_def split: option.splits)
  show ?thesis
  proof (cases "pe_userId p = Some u")
    case True
    have in_p: "p \<in> set (persons st)" "pe_id p = i"
      using p by (auto simp: find_person_def tbl_visible_def dest: find_SomeD)
    have "q\<lparr>pe_userId := Some u\<rparr> = q" if "q \<in> set (persons st)" "pe_id q = i" for q
    proof -
      have "q = p" using assms(1) in_p that by (auto simp: distinct_map dest: inj_onD)
      then show ?thesis using True by simp
    qed
    then have "update_where (\<lambda>q. pe_eventId q = ctx_ev ctx \<and> pe_id q = i) (\<lambda>q. q\<lparr>pe_userId := Some u\<rparr>) (persons st)
        = persons st"
      by (auto simp: update_where_def intro: map_idI)
    moreover have "st' = st\<lparr>persons := update_where (\<lambda>q. pe_eventId q = ctx_ev ctx \<and> pe_id q = i)
        (\<lambda>q. q\<lparr>pe_userId := Some u\<rparr>) (persons st)\<rparr>"
      using run p True
      by (auto simp: linkPersonToUser_tx_def conflict_on_unique_def tbl_update_def
          dest!: person_update_Inr split: option.splits if_splits sum.splits error.splits db_error.splits)
    ultimately show ?thesis by simp
  next
    case False
    obtain st1 q ai a where "person_update i (\<lambda>p. p\<lparr>pe_userId := Some u\<rparr>) ?s st = Inr (st1, q)"
      "audit_write (now env) ai ?s st1 = Inr (st', a)"
      using run p False
      by (auto simp: linkPersonToUser_tx_def conflict_on_unique_def
          split: option.splits if_splits sum.splits error.splits db_error.splits)
    then have "audits st1 = audits st" "length (audits st') = Suc (length (audits st1))"
      by (auto dest!: person_update_Inr simp: tbl_update_def audit_write_def tbl_create_def Let_def
          split: if_splits option.splits)
    then show ?thesis by simp
  qed
qed

context gated_op
begin

lemma run_records:
  "records_or_same (in_event (ctx_ev ctx)) (body env ctx i) \<Longrightarrow> run env ctx i st = (st', r) \<Longrightarrow>
   st' = st \<or> length (audits st) < length (audits st')"
  using refused_unchanged by (cases r) (auto simp: succeeded records_or_same_def)

end

lemmas recording = recording_bodies [THEN records_weaken] replaying_bodies

lemma recorded_calls:
  "updateContact env ctx i ph c st = (st', r1) \<Longrightarrow> st' = st \<or> length (audits st) < length (audits st')"
  "mergePeople env ctx i j st = (st', r0) \<Longrightarrow> st' = st \<or> length (audits st) < length (audits st')"
  "correctCommittedValue env ctx i n st = (st', r3) \<Longrightarrow> st' = st \<or> length (audits st) < length (audits st')"
  "correctValue env ctx i n st = (st', r4) \<Longrightarrow> st' = st \<or> length (audits st) < length (audits st')"
  "updateItem env ctx i bup st = (st', r5) \<Longrightarrow> st' = st \<or> length (audits st) < length (audits st')"
  "allocate env ctx f i n st = (st', r6) \<Longrightarrow> st' = st \<or> length (audits st) < length (audits st')"
  "createGroup env ctx nm k st = (st', r7) \<Longrightarrow> st' = st \<or> length (audits st) < length (audits st')"
  "assignPerson env ctx i g rl st = (st', r8) \<Longrightarrow> st' = st \<or> length (audits st) < length (audits st')"
  "addMember env ctx u rol st = (st', r9) \<Longrightarrow> st' = st \<or> length (audits st) < length (audits st')"
  using op_updateContact.run_records [where i = "(i, ph, c)"] op_mergePeople.run_records [where i = "(i, j)"]
    op_correctCommittedValue.run_records [where i = "(i, n)"] op_correctValue.run_records [where i = "(i, n)"]
    op_updateItem.run_records [where i = "(i, bup)"] op_allocate.run_records [where i = "(f, i, n)"]
    op_createGroup.run_records [where i = "(nm, k)"] op_assignPerson.run_records [where i = "(i, g, rl)"]
    op_addMember.run_records [where i = "(u, rol)"] recording
  by simp_all

lemma linkPersonToUser_recorded:
  "distinct (map pe_id (persons st)) \<Longrightarrow> linkPersonToUser env ctx i u st = (st', r) \<Longrightarrow>
   st' = st \<or> length (audits st) < length (audits st')"
proof (cases r)
  case (Inl e)
  moreover assume "linkPersonToUser env ctx i u st = (st', r)"
  ultimately show ?thesis using op_linkPersonToUser.refused_unchanged [where i = "(i, u)"] by simp
next
  case (Inr v)
  moreover assume distinct: "distinct (map pe_id (persons st))" and "linkPersonToUser env ctx i u st = (st', r)"
  ultimately have "linkPersonToUser_tx env ctx i u (in_event (ctx_ev ctx)) st = Inr (st', v)"
    using op_linkPersonToUser.succeeded [where i = "(i, u)"] by simp
  then show ?thesis by (rule linkPersonToUser_records [OF distinct])
qed

lemmas all_recorded = recorded_calls linkPersonToUser_recorded
  op_createPerson.run_records [OF recording(1)] op_createPledge.run_records [OF recording(4)]
  op_cancelPledge.run_records [OF recording(6)] op_addItem.run_records [OF recording(8)]
  op_removeItem.run_records [OF recording(10)] op_recordPledgeWithPayment.run_records [OF recording(14)]
  op_recordFulfillment.run_records [OF recording(16)] op_recordDirectContribution.run_records [OF recording(17)]

text \<open>C17. History is append-only and no change is silent: whatever tenant command runs, the
  audit rows that were there are still there, unchanged and in the same order; rows are only
  added at the end, each naming the event and the acting user; and if the store changed at
  all, at least one row was added.\<close>

theorem no_silent_change:
  assumes "tenant_command cmd" "distinct (map pe_id (persons st))" "exec env ctx cmd st = (st', r)"
  shows "\<exists>new. audits st' = audits st @ new
     \<and> list_all (\<lambda>a. au_eventId a = ctx_ev ctx \<and> au_actorUserId a = Some (ctx_user ctx)) new
     \<and> (st' \<noteq> st \<longrightarrow> new \<noteq> [])"
proof -
  have "audit_grows (ctx_ev ctx) (ctx_user ctx) st st'"
    using assms(1,3) by (cases cmd) (auto dest!: outcome_run intro: all_history)
  moreover have "st' = st \<or> length (audits st) < length (audits st')"
    using assms by (cases cmd) (auto dest!: outcome_run dest: all_recorded)
  ultimately show ?thesis by (auto simp: audit_grows_def)
qed

theorem no_silent_change_witness:
  "\<exists>new. audits (fst (exec demo_env owner_ctx (Cancel_pledge ''x'') demo_paid)) = audits demo_paid @ new
     \<and> list_all (\<lambda>a. au_eventId a = ''E1'' \<and> au_actorUserId a = Some ''U1'') new \<and> new \<noteq> []"
proof -
  let ?st = "fst (exec demo_env owner_ctx (Cancel_pledge ''x'') demo_paid)"
  have "map pl_status (pledges ?st) = [CANCELLED]" "map pl_status (pledges demo_paid) = [PARTIALLY_FULFILLED]"
    by code_simp+
  then have "?st \<noteq> demo_paid" by force
  moreover have "distinct (map pe_id (persons demo_paid))" by code_simp
  ultimately show ?thesis
    using no_silent_change [where cmd = "Cancel_pledge ''x''" and st = demo_paid and env = demo_env and
        ctx = owner_ctx and st' = ?st and r = "snd (exec demo_env owner_ctx (Cancel_pledge ''x'') demo_paid)"]
    by (simp add: owner_ctx_def demo_ctx_def)
qed

end
