(* ===== verification/Pledge_Book.thy ===== *)
theory Pledge_Book
  imports System_Guarantees
begin

text \<open>
  The contract of the ledger, apart from its tables: a book that maps a pledge to what was
  committed, what was received and whether it was cancelled, and the five ways a page of the
  book may change. Every command of the detailed model is a sequence of such changes
  (\<open>ledger_refines_book\<close>).
\<close>

section \<open>The abstract book\<close>

type_synonym page = "money \<times> money \<times> bool"
type_synonym book = "uuid \<Rightarrow> page option"

inductive turn :: "book \<Rightarrow> book \<Rightarrow> bool" where
  open_page: "m i = None \<Longrightarrow> 0 \<le> c \<Longrightarrow> turn m (m(i \<mapsto> (c, 0, False)))"
| pay: "m i = Some (c, r, False) \<Longrightarrow> r + v \<le> c \<Longrightarrow> turn m (m(i \<mapsto> (c, r + v, False)))"
| revalue: "m i = Some (c, r, x) \<Longrightarrow> r' \<le> c \<Longrightarrow> turn m (m(i \<mapsto> (c, r', x)))"
| recommit: "m i = Some (c, r, x) \<Longrightarrow> 0 \<le> c' \<Longrightarrow> turn m (m(i \<mapsto> (c', r, x)))"
| cancel: "m i = Some (c, r, x) \<Longrightarrow> turn m (m(i \<mapsto> (c, r, True)))"

inductive_cases turnE: "turn m m'"

text \<open>What a book can never do: lose a page, or reopen a cancelled one.\<close>

lemma turn_keeps_pages: "turn m m' \<Longrightarrow> dom m \<subseteq> dom m'"
  by (auto elim!: turnE split: if_splits)

lemma turn_keeps_cancelled:
  "turn m m' \<Longrightarrow> m i = Some (c, r, True) \<Longrightarrow> \<exists>c' r'. m' i = Some (c', r', True)"
  by (auto elim!: turnE)

lemma turns_keep:
  "turn\<^sup>*\<^sup>* m m' \<Longrightarrow> dom m \<subseteq> dom m'
     \<and> (m i = Some (c, r, True) \<longrightarrow> (\<exists>c' r'. m' i = Some (c', r', True)))"
proof (induction rule: rtranclp_induct)
  case base
  then show ?case by auto
next
  case (step y z)
  then show ?case using turn_keeps_pages turn_keeps_cancelled by (metis order_trans)
qed

section \<open>The book of a store\<close>

definition book_of :: "store \<Rightarrow> book" where
  "book_of st i = map_option (\<lambda>p. (pl_committedValue p, received st i, pl_status p = CANCELLED))
     (List.find (\<lambda>p. pl_id p = i) (pledges st))"

lemma find_update_where:
  "(\<And>q. k (g q) = k q) \<Longrightarrow>
   List.find (\<lambda>q. k q = i) (update_where P g xs) = map_option (\<lambda>q. if P q then g q else q) (List.find (\<lambda>q. k q = i) xs)"
  by (induction xs) auto

lemma find_pledge_row:
  "ledger_inv st \<Longrightarrow> p \<in> set (pledges st) \<Longrightarrow> List.find (\<lambda>q. pl_id q = pl_id p) (pledges st) = Some p"
proof -
  assume inv: "ledger_inv st" and p: "p \<in> set (pledges st)"
  show ?thesis using ledger_invD(2) [OF inv] p by (rule find_unique) auto
qed

lemma book_page:
  "ledger_inv st \<Longrightarrow> p \<in> set (pledges st) \<Longrightarrow>
   book_of st (pl_id p) = Some (pl_committedValue p, received st (pl_id p), pl_status p = CANCELLED)"
  by (simp add: book_of_def find_pledge_row)

lemma revised_page: "revises_pledge ev p g a b \<Longrightarrow> p \<in> set (pledges a)"
  by (simp add: revises_pledge_def)

lemma book_fresh: "ledger_inv st \<Longrightarrow> book_of st (fresh_id st) = None"
proof -
  assume inv: "ledger_inv st"
  then have "pl_id p \<noteq> fresh_id st" if "p \<in> set (pledges st)" for p
    using ledger_invD(4) [OF inv that] fresh_not_known [OF ledger_invD(1) [OF inv]] by metis
  then have "List.find (\<lambda>p. pl_id p = fresh_id st) (pledges st) = None" by (simp add: find_None_all)
  then show ?thesis by (simp add: book_of_def)
qed

lemma book_money_same: "money_same a b \<Longrightarrow> book_of b = book_of a"
  by (auto simp: book_of_def money_same_def received_def fun_eq_iff)

lemma find_map_key:
  "map f xs = map f ys \<Longrightarrow> (\<And>x y. f x = f y \<Longrightarrow> P x = P y) \<Longrightarrow>
   map_option f (List.find P xs) = map_option f (List.find P ys)"
proof (induction xs arbitrary: ys)
  case (Cons x xs)
  obtain y zs where ys: "ys = y # zs" using Cons.prems(1) by (cases ys) simp_all
  have eq: "f x = f y" "map f xs = map f zs" using Cons.prems(1) ys by simp_all
  have "P x = P y" using Cons.prems(2) eq(1) by blast
  moreover have "map_option f (List.find P xs) = map_option f (List.find P zs)"
    by (rule Cons.IH [OF eq(2) Cons.prems(2)])
  ultimately show ?case using eq(1) ys by simp
qed simp

lemma book_relabels: "relabels a b \<Longrightarrow> book_of b = book_of a"
proof
  fix i assume rel: "relabels a b"
  let ?k = "\<lambda>p. (pl_id p, pl_eventId p, pl_committedValue p, pl_status p)"
  have "map_option ?k (List.find (\<lambda>p. pl_id p = i) (pledges b)) = map_option ?k (List.find (\<lambda>p. pl_id p = i) (pledges a))"
    using rel by (intro find_map_key) (auto simp: relabels_def)
  moreover have "received b i = received a i" using rel by (simp add: relabels_def received_def)
  ultimately show "book_of b i = book_of a i"
    by (auto simp: book_of_def map_option_case split: option.splits)
qed

lemma book_adds:
  assumes "ledger_inv st" "adds_pledge p st st'"
  shows "book_of st' = (book_of st)(pl_id p \<mapsto> (pl_committedValue p, 0, False))" "book_of st (pl_id p) = None"
proof -
  show none: "book_of st (pl_id p) = None"
    using book_fresh [OF assms(1)] assms(2) by (simp add: adds_pledge_def)
  have rec: "received st' i = received st i" for i using assms(2) by (rule adds_pledge_received)
  have "received st (pl_id p) = 0" using received_new [OF assms] rec by simp
  moreover have "List.find (\<lambda>q. pl_id q = pl_id p) (pledges st) = None" using none by (simp add: book_of_def)
  moreover have "pledges st' = pledges st @ [p]" "pl_status p = PLEDGED" using assms(2) by (simp_all add: adds_pledge_def)
  ultimately show "book_of st' = (book_of st)(pl_id p \<mapsto> (pl_committedValue p, 0, False))"
    by (auto simp: book_of_def fun_eq_iff rec find_append split: option.splits)
qed

lemma book_revises:
  assumes inv: "ledger_inv st" and rev: "revises_pledge ev p g st st'"
  shows "book_of st' = (book_of st)(pl_id p \<mapsto>
      (pl_committedValue (g p), received st' (pl_id p), pl_status (g p) = CANCELLED))"
proof
  fix i
  note r = rev [unfolded revises_pledge_def]
  have find': "List.find (\<lambda>q. pl_id q = i) (pledges st') =
      map_option (\<lambda>q. if pl_eventId q = ev \<and> pl_id q = pl_id p then g q else q)
        (List.find (\<lambda>q. pl_id q = i) (pledges st))"
    using r by (simp add: find_update_where)
  show "book_of st' i = ((book_of st)(pl_id p \<mapsto>
      (pl_committedValue (g p), received st' (pl_id p), pl_status (g p) = CANCELLED))) i"
  proof (cases "i = pl_id p")
    case True
    then show ?thesis using find' find_pledge_row [OF inv, of p] r by (simp add: book_of_def)
  next
    case False
    then have "received st' i = received st i" using r by simp
    moreover have "(if pl_eventId q = ev \<and> pl_id q = pl_id p then g q else q) = q"
      if "List.find (\<lambda>q. pl_id q = i) (pledges st) = Some q" for q
      using find_SomeD [OF that] False by auto
    ultimately show ?thesis
      using False find' by (cases "List.find (\<lambda>q. pl_id q = i) (pledges st)") (auto simp: book_of_def)
  qed
qed

section \<open>Every command is a sequence of turns\<close>

definition simulates :: "store \<Rightarrow> store \<Rightarrow> bool" where
  "simulates a b = (ledger_inv a \<longrightarrow> ledger_inv b \<and> turn\<^sup>*\<^sup>* (book_of a) (book_of b))"

interpretation simulated: store_relation simulates
  by unfold_locales (auto simp: simulates_def intro: rtranclp_trans)

lemma same_simulates: "money_same a b \<Longrightarrow> simulates a b"
  using money_same_inv by (simp add: simulates_def book_money_same)

lemma relabels_simulates: "relabels a b \<Longrightarrow> simulates a b"
  using relabels_preserves [of a b False] by (simp add: simulates_def book_relabels preserves_def money_inv_def)

lemma adds_simulates: "adds_pledge p a b \<Longrightarrow> 0 \<le> pl_committedValue p \<Longrightarrow> simulates a b"
  using adds_pledge_inv by (auto simp: simulates_def book_adds intro!: r_into_rtranclp turn.open_page)

text \<open>A revision of one pledge is the turn of its page.\<close>

lemma revises_simulates:
  assumes "ledger_inv a" "revises_pledge ev p g a b" "ledger_inv b"
    and "turn (book_of a) ((book_of a)(pl_id p \<mapsto>
           (pl_committedValue (g p), received b (pl_id p), pl_status (g p) = CANCELLED)))"
  shows "simulates a b"
  using assms book_revises [OF assms(1,2)] by (simp add: simulates_def r_into_rtranclp)

lemma pays_simulates:
  assumes "pays ev p f a b" "pl_status p \<noteq> CANCELLED"
    and "received a (pl_id p) + f_value f \<le> pl_committedValue p"
  shows "simulates a b"
proof (cases "ledger_inv a")
  case inv: True
  have rev: "revises_pledge ev p (\<lambda>q. q\<lparr>pl_status := deriveStatus (pl_committedValue p)
      (received a (pl_id p) + f_value f) False\<rparr>) a b"
    using assms(1) by (simp add: pays_def)
  have "book_of a (pl_id p) = Some (pl_committedValue p, received a (pl_id p), False)"
    using book_page [OF inv] rev assms(2) by (simp add: revises_pledge_def)
  then have "turn (book_of a) ((book_of a)(pl_id p \<mapsto>
      (pl_committedValue p, received a (pl_id p) + f_value f, False)))"
    using assms(3) by (rule turn.pay)
  then show ?thesis
    by (intro revises_simulates [OF inv rev pays_inv [OF inv assms(1)]])
       (simp add: pays_received [OF assms(1)])
qed (simp add: simulates_def)

lemma adds_paid_simulates:
  assumes "adds_paid_pledge ev p f a b" "0 \<le> pl_committedValue p" "f_value f \<le> pl_committedValue p"
  shows "simulates a b"
proof (cases "ledger_inv a")
  case inv: True
  obtain st1 where st1: "adds_pledge p a st1" "pays ev p f st1 b"
    using assms(1) by (auto simp: adds_paid_pledge_def)
  have "pl_status p \<noteq> CANCELLED" using st1(1) by (simp add: adds_pledge_def)
  then have "simulates st1 b"
    using pays_simulates [OF st1(2)] received_new [OF inv st1(1)] assms(3) by simp
  then show ?thesis using adds_simulates [OF st1(1) assms(2)] simulated.rel_trans by blast
qed (simp add: simulates_def)

lemma tx_simulates:
  "0 \<le> cpl_committedValue cpl \<Longrightarrow> keeps (in_event (ctx_ev ctx)) simulates (createPledge_tx env ctx cpl)"
  "keeps (in_event (ctx_ev ctx)) simulates (recordFulfillment_tx env ctx rf)"
  "0 \<le> dc_value dc \<Longrightarrow> keeps (in_event (ctx_ev ctx)) simulates (recordDirectContribution_tx env ctx dc)"
  "0 \<le> pp_committedValue pp \<Longrightarrow>
     keeps (in_event (ctx_ev ctx)) simulates (recordPledgeWithPayment_tx env ctx pp)"
proof -
  show "0 \<le> cpl_committedValue cpl \<Longrightarrow> keeps (in_event (ctx_ev ctx)) simulates (createPledge_tx env ctx cpl)"
    using createPledge_adds adds_simulates by (intro keepsI) metis
  show "keeps (in_event (ctx_ev ctx)) simulates (recordFulfillment_tx env ctx rf)"
  proof (rule keepsI)
    fix st st' v assume run: "recordFulfillment_tx env ctx rf (in_event (ctx_ev ctx)) st = Inr (st', v)"
    show "simulates st st'"
    proof (cases "ledger_inv st")
      case True
      from recordFulfillment_pays [OF this run] show ?thesis
        using pays_simulates simulated.rel_refl by metis
    qed (simp add: simulates_def)
  qed
  show "keeps (in_event (ctx_ev ctx)) simulates (recordDirectContribution_tx env ctx dc)" if "0 \<le> dc_value dc"
  proof (rule keepsI)
    fix st st' v assume run: "recordDirectContribution_tx env ctx dc (in_event (ctx_ev ctx)) st = Inr (st', v)"
    show "simulates st st'"
    proof (cases "ledger_inv st")
      case True
      from recordDirectContribution_pays [OF this run] show ?thesis
        using adds_paid_simulates same_simulates simulated.rel_refl simulated.rel_trans that
        by (metis order_refl)
    qed (simp add: simulates_def)
  qed
  show "keeps (in_event (ctx_ev ctx)) simulates (recordPledgeWithPayment_tx env ctx pp)"
    if "0 \<le> pp_committedValue pp"
  proof (rule keepsI)
    fix st st' v assume run: "recordPledgeWithPayment_tx env ctx pp (in_event (ctx_ev ctx)) st = Inr (st', v)"
    show "simulates st st'"
    proof (cases "ledger_inv st")
      case True
      from recordPledgeWithPayment_pays [OF this run] show ?thesis
        using adds_paid_simulates adds_simulates that by metis
    qed (simp add: simulates_def)
  qed
qed

lemma tx_revisions_simulate:
  "0 \<le> n \<Longrightarrow> keeps (in_event (ctx_ev ctx)) simulates (correctCommittedValue_tx env ctx i n)"
  "keeps (in_event (ctx_ev ctx)) simulates (cancelPledge_tx env ctx i)"
  "keeps (in_event (ctx_ev ctx)) simulates (correctValue_tx env ctx i n)"
proof -
  show "keeps (in_event (ctx_ev ctx)) simulates (correctCommittedValue_tx env ctx i n)" if "0 \<le> n"
  proof (rule keepsI)
    fix st st' v assume run: "correctCommittedValue_tx env ctx i n (in_event (ctx_ev ctx)) st = Inr (st', v)"
    show "simulates st st'"
    proof (cases "ledger_inv st")
      case inv: True
      from correctCommittedValue_revises [OF inv run] obtain p g where
        rev: "revises_pledge (ctx_ev ctx) p g st st'" and p: "received st' = received st"
          "g p = p\<lparr>pl_committedValue := n, pl_status := deriveStatus n (received st i) (pl_status p = CANCELLED)\<rparr>"
        by blast
      have inv': "ledger_inv st'"
        using keepsD [OF correctCommitted_preserves run] inv by (simp add: preserves_def money_inv_def)
      have "turn (book_of st) ((book_of st)(pl_id p \<mapsto> (n, received st (pl_id p), pl_status p = CANCELLED)))"
        by (rule turn.recommit, rule book_page [OF inv revised_page [OF rev]], rule that)
      then show ?thesis using p by (intro revises_simulates [OF inv rev inv']) simp
    qed (simp add: simulates_def)
  qed
  show "keeps (in_event (ctx_ev ctx)) simulates (cancelPledge_tx env ctx i)"
  proof (rule keepsI)
    fix st st' v assume run: "cancelPledge_tx env ctx i (in_event (ctx_ev ctx)) st = Inr (st', v)"
    show "simulates st st'"
    proof (cases "ledger_inv st")
      case inv: True
      from cancelPledge_revises [OF inv run] obtain p g where
        rev: "revises_pledge (ctx_ev ctx) p g st st'" and p: "received st' = received st" "g p = p\<lparr>pl_status := CANCELLED\<rparr>"
        by blast
      have inv': "ledger_inv st'"
        using keepsD [OF cancelPledge_preserves [where w = False] run] inv
        by (simp add: preserves_def money_inv_def)
      have "turn (book_of st) ((book_of st)(pl_id p \<mapsto> (pl_committedValue p, received st (pl_id p), True)))"
        by (rule turn.cancel, rule book_page [OF inv revised_page [OF rev]])
      then show ?thesis using p by (intro revises_simulates [OF inv rev inv']) simp
    qed (simp add: simulates_def)
  qed
  show "keeps (in_event (ctx_ev ctx)) simulates (correctValue_tx env ctx i n)"
  proof (rule keepsI)
    fix st st' v assume run: "correctValue_tx env ctx i n (in_event (ctx_ev ctx)) st = Inr (st', v)"
    show "simulates st st'"
    proof (cases "ledger_inv st")
      case inv: True
      from correctValue_revises [OF inv run] obtain p g where
        rev: "revises_pledge (ctx_ev ctx) p g st st'" and p: "received st' (pl_id p) \<le> pl_committedValue p"
          "g p = p\<lparr>pl_status := deriveStatus (pl_committedValue p) (received st' (pl_id p)) (pl_status p = CANCELLED)\<rparr>"
        by blast
      have inv': "ledger_inv st'"
        using keepsD [OF correctValue_preserves [where w = False] run] inv
        by (simp add: preserves_def money_inv_def)
      have "turn (book_of st) ((book_of st)(pl_id p \<mapsto>
          (pl_committedValue p, received st' (pl_id p), pl_status p = CANCELLED)))"
        by (rule turn.revalue, rule book_page [OF inv revised_page [OF rev]], rule p(1))
      then show ?thesis using p by (intro revises_simulates [OF inv rev inv']) simp
    qed (simp add: simulates_def)
  qed
qed

interpretation simulation: money_relation simulates "\<lambda>cmd. True"
  by unfold_locales (simp_all add: same_simulates relabels_simulates tx_simulates tx_revisions_simulate)

section \<open>The contract\<close>



text \<open>C18. No sequence of commands deletes a pledge or reopens a cancelled one: every pledge of the
  starting store is still there under its id, and if it was cancelled it is cancelled still.\<close>

theorem pledges_are_kept:
  assumes "ledger_inv st0" "reachable P st0 st" "p \<in> set (pledges st0)"
  shows "\<exists>q\<in>set (pledges st). pl_id q = pl_id p \<and> (pl_status p = CANCELLED \<longrightarrow> pl_status q = CANCELLED)"
proof -
  have turns: "turn\<^sup>*\<^sup>* (book_of st0) (book_of st)"
    using simulation.reachable_legal [OF assms(2)] assms(1) by (simp add: simulates_def)
  note page = book_page [OF assms(1,3)]
  have "pl_id p \<in> dom (book_of st)" using turns_keep [OF turns] page by blast
  then obtain q where found: "List.find (\<lambda>q. pl_id q = pl_id p) (pledges st) = Some q"
    by (auto simp: book_of_def)
  have "pl_status q = CANCELLED" if "pl_status p = CANCELLED"
  proof -
    have "book_of st0 (pl_id p) = Some (pl_committedValue p, received st0 (pl_id p), True)"
      using page that by simp
    then obtain c r where "book_of st (pl_id p) = Some (c, r, True)" using turns_keep [OF turns] by blast
    then show ?thesis using found by (simp add: book_of_def)
  qed
  then show ?thesis using find_SomeD [OF found] by blast
qed

theorem pledges_are_kept_witness:
  "\<exists>p\<in>set (pledges demo_paid). pl_id p = ''x'' \<and>
     (\<exists>q\<in>set (pledges (fst (exec demo_env owner_ctx (Cancel_pledge ''x'') demo_paid))). pl_id q = pl_id p)"
proof -
  obtain p where p: "p \<in> set (pledges demo_paid)" "pl_id p = ''x''"
    using demo_paid_pledges by (cases "pledges demo_paid") auto
  have run: "reachable (\<lambda>c. True) demo_paid (fst (exec demo_env owner_ctx (Cancel_pledge ''x'') demo_paid))"
    by (intro reachable_exec reachable.start) simp_all
  have inv: "ledger_inv demo_paid"
    using reachable_money [OF demo_run, of False] demo_inv by (simp add: money_inv_def)
  show ?thesis using pledges_are_kept [OF inv run p(1)] p by blast
qed

end
