(* ===== verification/Outbox_Drain.thy ===== *)
theory Outbox_Drain
  imports Fulfillment_Service
begin

text \<open>
  The outbox worker: \<^verbatim>\<open>libs/ledger/src/outbox-drain.service.ts\<close>. Topic handlers belong to
  the process that registers them; they are arguments, calls that may change the store and may
  throw. One drain runs at a time here, so skipping locked rows has no effect.
\<close>

section \<open>Messages and handlers\<close>

record outbox_message =
  om_id :: uuid
  om_eventId :: uuid
  om_topic :: string
  om_payload :: json

type_synonym outbox_handlers = "string \<Rightarrow> (outbox_message \<Rightarrow> unit svc) option"

definition register :: "outbox_handlers \<Rightarrow> outbox_handlers \<Rightarrow> outbox_handlers" where
  "register handlers added = handlers ++ added"

definition outbox_message_of :: "outbox_row \<Rightarrow> outbox_message" where
  "outbox_message_of r = \<lparr>om_id = ob_id r, om_eventId = ob_eventId r, om_topic = ob_topic r,
     om_payload = ob_payload r\<rparr>"

section \<open>Statements\<close>

definition visible_outbox :: "session \<Rightarrow> store \<Rightarrow> outbox_row list" where
  "visible_outbox s st = filter (\<lambda>r. outbox_visible s (ob_eventId r)) (outbox st)"

definition outbox_update_many :: "uuid list \<Rightarrow> (outbox_row \<Rightarrow> outbox_row) \<Rightarrow> unit tx" where
  "outbox_update_many ids f s st =
     (if aborted s then Inl (Db TransactionAborted)
      else Inr (st\<lparr>outbox := update_where (\<lambda>r. outbox_visible s (ob_eventId r) \<and> ob_id r \<in> set ids) f (outbox st)\<rparr>, ()))"

definition outbox_update :: "uuid \<Rightarrow> (outbox_row \<Rightarrow> outbox_row) \<Rightarrow> unit tx" where
  "outbox_update i f s st =
     (if List.find (\<lambda>r. ob_id r = i) (visible_outbox s st) = None then Inl (Db RecordNotFound)
      else outbox_update_many [i] f s st)"

section \<open>Draining\<close>

definition mark_processed :: "env \<Rightarrow> outbox_row \<Rightarrow> outbox_row" where
  "mark_processed env r = r\<lparr>ob_status := O_PROCESSED, ob_processedAt := Some (now env)\<rparr>"

definition reopen :: "outbox_row \<Rightarrow> outbox_row" where
  "reopen r = r\<lparr>ob_status := O_PENDING, ob_attempts := ob_attempts r + 1\<rparr>"

definition pending_batch :: "nat \<Rightarrow> session \<Rightarrow> store \<Rightarrow> outbox_message list" where
  "pending_batch batchSize s st =
     map outbox_message_of (take batchSize
       (sort_key ob_createdAt (filter (\<lambda>r. ob_status r = O_PENDING) (visible_outbox s st))))"

definition claim_tx :: "env \<Rightarrow> nat \<Rightarrow> outbox_message list tx" where
  "claim_tx env batchSize =
     await (query (pending_batch batchSize)) (\<lambda>rows.
     await (if length rows > 0 then outbox_update_many (map om_id rows) (mark_processed env) else ret ()) (\<lambda>_.
     ret rows))"

text \<open>The loop over the claimed rows, with the number of rows a handler completed.\<close>

fun dispatch :: "outbox_handlers \<Rightarrow> outbox_message list \<Rightarrow> nat svc" where
  "dispatch handlers [] st = (st, Inr 0)"
| "dispatch handlers (msg # msgs) st =
     (case handlers (om_topic msg) of
        None \<Rightarrow> dispatch handlers msgs st
      | Some handler \<Rightarrow>
         (case handler msg st of
            (st1, Inr _) \<Rightarrow> and_then (dispatch handlers msgs) (\<lambda>n. svc_ret (n + 1)) st1
          | (st1, Inl _) \<Rightarrow>
             and_then (runAsWorker (outbox_update (om_id msg) reopen)) (\<lambda>_. dispatch handlers msgs) st1))"

definition drainOnce :: "env \<Rightarrow> outbox_handlers \<Rightarrow> nat \<Rightarrow> nat svc" where
  "drainOnce env handlers batchSize =
     and_then (runAsWorker (claim_tx env batchSize)) (\<lambda>claimed. dispatch handlers claimed)"

text \<open>The same call in a process that stops after the first \<open>k\<close> of its claimed rows: the claim
  has committed by then.\<close>

definition drain_interrupted :: "env \<Rightarrow> outbox_handlers \<Rightarrow> nat \<Rightarrow> nat \<Rightarrow> nat svc" where
  "drain_interrupted env handlers batchSize k =
     and_then (runAsWorker (claim_tx env batchSize)) (\<lambda>claimed. dispatch handlers (take k claimed))"

end
