(* ===== verification/Ledger_Query.thy ===== *)
theory Ledger_Query
  imports Budget_Service Event_Service
begin

text \<open>
  The read side: \<^verbatim>\<open>libs/ledger/src/ledger-query.service.ts\<close>. Sums are the SQL aggregates over
  the rows the event's session sees. A JavaScript number is its exact value, rounded by \<open>fl\<close>
  (the rounding of the arithmetic, an argument) after every operation.
\<close>

section \<open>Percentage covered\<close>

definition js_round :: "rat \<Rightarrow> int" where
  "js_round x = \<lfloor>x + 1 / 2\<rfloor>"

definition percentCovered :: "(rat \<Rightarrow> rat) \<Rightarrow> money \<Rightarrow> money option \<Rightarrow> rat option" where
  "percentCovered fl received target =
     (case target of
        None \<Rightarrow> None
      | Some t \<Rightarrow>
         (if t \<le> 0 then None
          else Some (fl (of_int (js_round (fl (fl (fl (of_int received) / fl (of_int t)) * 1000))) / 10))))"

section \<open>Views\<close>

record pledge_outstanding =
  po_pledgeId :: uuid
  po_committedValue :: string
  po_totalFulfilled :: string
  po_outstanding :: string
  po_status :: pledge_status

record event_totals =
  et_totalCommitted :: string
  et_totalFulfilled :: string
  et_totalOutstanding :: string
  et_pledgeCount :: int

record top_contributor =
  tc_personId :: uuid
  tc_displayName :: string
  tc_committed :: string
  tc_received :: string
  tc_outstanding :: string

record linked_pledge =
  lp_personName :: string
  lp_type :: pledge_type
  lp_description :: "string option"
  lp_committedValue :: string
  lp_status :: pledge_status

record funder =
  fu_displayName :: string
  fu_value :: string
  fu_occurredAt :: string

datatype budget_item_funders =
    Funders_not_found
  | Funders_ambiguous "string list"
  | Funders_resolved string string string "funder list" "linked_pledge list"
      \<comment> \<open>itemName, target, covered, funders, linkedPledges\<close>

record budget_gap =
  bg_budgetItemId :: uuid
  bg_name :: string
  bg_gap :: string

record event_report =
  er_target :: "string option"
  er_percentCovered :: "rat option"
  er_totalCommitted :: string
  er_totalReceived :: string
  er_totalOutstanding :: string
  er_peopleCount :: int
  er_contributorCount :: int
  er_outstandingContributorCount :: int
  er_budgetTotal :: string
  er_budgetAllocated :: string
  er_budgetUnfunded :: string
  er_biggestGap :: "budget_gap option"
  er_topContributors :: "top_contributor list"

record funding_summary =
  fs_percentCovered :: "rat option"
  fs_hasTarget :: bool

record audit_entry =
  ae_action :: string
  ae_resourceType :: string
  ae_resourceId :: string
  ae_source :: provenance
  ae_oldValue :: json
  ae_newValue :: json
  ae_actorUserId :: "uuid option"
  ae_createdAt :: string

section \<open>Pledge and event totals\<close>

definition getPledgeOutstanding :: "operation_context \<Rightarrow> uuid \<Rightarrow> pledge_outstanding svc" where
  "getPledgeOutstanding ctx pledgeId =
     permitted ctx Ledger_read_amounts (runInEvent (ctx_ev ctx)
       (await (query (find_pledge pledgeId)) (\<lambda>found. case found of
          None \<Rightarrow> throw (NotFound ''Pledge not found in this event'')
        | Some pledge \<Rightarrow>
           await (query (sumFulfillments pledgeId)) (\<lambda>totalFulfilled.
           ret \<lparr>po_pledgeId = pl_id pledge, po_committedValue = moneyToString (pl_committedValue pledge),
                po_totalFulfilled = moneyToString totalFulfilled,
                po_outstanding = moneyToString (outstanding (pl_committedValue pledge) totalFulfilled),
                po_status = pl_status pledge\<rparr>))))"

definition committed_total :: "session \<Rightarrow> store \<Rightarrow> money" where
  "committed_total s st = sum_where (\<lambda>p. pl_status p \<noteq> CANCELLED) pl_committedValue (visible_pledges s st)"

definition received_total :: "session \<Rightarrow> store \<Rightarrow> money" where
  "received_total s st = sum_where (\<lambda>f. True) f_value (visible_fulfillments s st)"

definition getEventTotals :: "operation_context \<Rightarrow> event_totals svc" where
  "getEventTotals ctx =
     permitted ctx Ledger_read_amounts (runInEvent (ctx_ev ctx) (query (\<lambda>s st.
       let totalCommitted = committed_total s st; totalFulfilled = received_total s st
       in \<lparr>et_totalCommitted = moneyToString totalCommitted,
           et_totalFulfilled = moneyToString totalFulfilled,
           et_totalOutstanding = moneyToString (outstanding totalCommitted totalFulfilled),
           et_pledgeCount = int (count_where (\<lambda>p. pl_status p \<noteq> CANCELLED) (visible_pledges s st))\<rparr>)))"

section \<open>The event report\<close>

definition person_committed :: "uuid \<Rightarrow> session \<Rightarrow> store \<Rightarrow> money" where
  "person_committed i s st =
     sum_where (\<lambda>p. pl_personId p = i \<and> pl_status p \<noteq> CANCELLED) pl_committedValue (visible_pledges s st)"

definition person_received :: "uuid \<Rightarrow> session \<Rightarrow> store \<Rightarrow> money" where
  "person_received i s st =
     sum_list [f_value f. f \<leftarrow> visible_fulfillments s st, p \<leftarrow> visible_pledges s st,
        f_pledgeId f = pl_id p \<and> pl_personId p = i \<and> pl_status p \<noteq> CANCELLED]"

text \<open>A row of the per-person roll-up: the person, committed and received.\<close>

definition balances :: "session \<Rightarrow> store \<Rightarrow> (person_row \<times> money \<times> money) list" where
  "balances s st =
     map (\<lambda>p. (p, person_committed (pe_id p) s st, person_received (pe_id p) s st)) (visible_persons s st)"

definition top_contributors :: "nat \<Rightarrow> session \<Rightarrow> store \<Rightarrow> top_contributor list" where
  "top_contributors topN s st =
     map (\<lambda>(p, committed, received).
         \<lparr>tc_personId = pe_id p, tc_displayName = pe_displayName p,
          tc_committed = moneyToString committed, tc_received = moneyToString received,
          tc_outstanding = moneyToString (outstanding committed received)\<rparr>)
       (take topN (order_desc (\<lambda>(_, _, received). received) (balances s st)))"

definition item_gap :: "session \<Rightarrow> store \<Rightarrow> budget_item_row \<Rightarrow> money" where
  "item_gap s st b =
     bi_targetValue b - sum_where (\<lambda>a. a_budgetItemId a = bi_id b) a_value (visible_allocations s st)"

definition biggest_gap :: "session \<Rightarrow> store \<Rightarrow> budget_gap option" where
  "biggest_gap s st =
     (case take 1 (order_desc (item_gap s st) (visible_budget_items s st)) of
        [] \<Rightarrow> None
      | b # _ \<Rightarrow>
         (if item_gap s st b > 0
          then Some \<lparr>bg_budgetItemId = bi_id b, bg_name = bi_name b, bg_gap = moneyToString (item_gap s st b)\<rparr>
          else None))"

definition event_target :: "uuid \<Rightarrow> store \<Rightarrow> money option" where
  "event_target eid st = (case find_event eid st of None \<Rightarrow> None | Some e \<Rightarrow> e_targetAmount e)"

definition getEventReport :: "(rat \<Rightarrow> rat) \<Rightarrow> operation_context \<Rightarrow> nat \<Rightarrow> event_report svc" where
  "getEventReport fl ctx topN =
     permitted ctx Ledger_read_amounts (and_then (svc_read (event_target (ctx_ev ctx))) (\<lambda>target.
       runInEvent (ctx_ev ctx) (query (\<lambda>s st.
         let totalCommitted = committed_total s st;
             totalReceived = received_total s st;
             rows = balances s st;
             budgetTotal = sum_where (\<lambda>b. True) bi_targetValue (visible_budget_items s st);
             budgetAllocated = sum_where (\<lambda>a. True) a_value (visible_allocations s st)
         in \<lparr>er_target = map_option moneyToString target,
             er_percentCovered = percentCovered fl totalReceived target,
             er_totalCommitted = moneyToString totalCommitted,
             er_totalReceived = moneyToString totalReceived,
             er_totalOutstanding = moneyToString (outstanding totalCommitted totalReceived),
             er_peopleCount = int (length (visible_persons s st)),
             er_contributorCount = int (count_where (\<lambda>(_, committed, _). committed > 0) rows),
             er_outstandingContributorCount =
               int (count_where (\<lambda>(_, committed, received). outstanding committed received > 0) rows),
             er_budgetTotal = moneyToString budgetTotal,
             er_budgetAllocated = moneyToString budgetAllocated,
             er_budgetUnfunded = moneyToString (outstanding budgetTotal budgetAllocated),
             er_biggestGap = biggest_gap s st,
             er_topContributors = top_contributors topN s st\<rparr>))))"

section \<open>Funders of a budget line\<close>

text \<open>\<open>lower\<close> is the database's function.\<close>

definition fundersForItem :: "uuid \<Rightarrow> string \<Rightarrow> money \<Rightarrow> session \<Rightarrow> store \<Rightarrow> budget_item_funders" where
  "fundersForItem itemId itemName target s st =
     (let funders = sort_key (\<lambda>(_, _, occurredAt). occurredAt)
            [(pe_displayName p, a_value a, f_occurredAt f).
               a \<leftarrow> visible_allocations s st, f \<leftarrow> visible_fulfillments s st, a_fulfillmentId a = f_id f,
               pl \<leftarrow> visible_pledges s st, f_pledgeId f = pl_id pl,
               p \<leftarrow> visible_persons s st, pl_personId pl = pe_id p, a_budgetItemId a = itemId];
          covered = foldl (\<lambda>sum (_, v, _). sum + v) 0 funders;
          linked = [(pl, p). pl \<leftarrow> sort_key pl_createdAt
                        (filter (\<lambda>pl. pl_targetBudgetItemId pl = Some itemId) (visible_pledges s st)),
                      p \<leftarrow> filter (\<lambda>p. pe_id p = pl_personId pl) (visible_persons s st)]
      in Funders_resolved itemName (moneyToString target) (moneyToString covered)
           (map (\<lambda>(n, v, t). \<lparr>fu_displayName = n, fu_value = moneyToString v, fu_occurredAt = toISOString t\<rparr>) funders)
           (map (\<lambda>(pl, p). \<lparr>lp_personName = pe_displayName p, lp_type = pl_type pl,
                  lp_description = pl_description pl,
                  lp_committedValue = moneyToString (pl_committedValue pl), lp_status = pl_status pl\<rparr>) linked))"

definition getBudgetItemFunders ::
  "(string \<Rightarrow> string) \<Rightarrow> operation_context \<Rightarrow> string \<Rightarrow> budget_item_funders svc" where
  "getBudgetItemFunders lower ctx itemName =
     permitted ctx Budget_read (runInEvent (ctx_ev ctx) (query (\<lambda>s st.
       case filter (\<lambda>b. lower (bi_name b) = lower (js_trim itemName)) (visible_budget_items s st) of
         [] \<Rightarrow> Funders_not_found
       | [b] \<Rightarrow> fundersForItem (bi_id b) (bi_name b) (bi_targetValue b) s st
       | items \<Rightarrow> Funders_ambiguous (map bi_name items))))"

definition getBudgetItemFundersById :: "operation_context \<Rightarrow> uuid \<Rightarrow> budget_item_funders svc" where
  "getBudgetItemFundersById ctx itemId =
     permitted ctx Budget_read (runInEvent (ctx_ev ctx) (query (\<lambda>s st.
       case find_budget_item itemId s st of
         None \<Rightarrow> Funders_not_found
       | Some b \<Rightarrow> fundersForItem (bi_id b) (bi_name b) (bi_targetValue b) s st)))"

section \<open>The redacted summary and the audit trail\<close>

definition getFundingSummary :: "(rat \<Rightarrow> rat) \<Rightarrow> operation_context \<Rightarrow> funding_summary svc" where
  "getFundingSummary fl ctx =
     permitted ctx Ledger_read_funding (and_then (svc_read (event_target (ctx_ev ctx))) (\<lambda>target.
       and_then (runInEvent (ctx_ev ctx) (query received_total)) (\<lambda>received.
       svc_ret \<lparr>fs_percentCovered = percentCovered fl received target, fs_hasTarget = (target \<noteq> None)\<rparr>)))"

definition audit_entry_of :: "audit_row \<Rightarrow> audit_entry" where
  "audit_entry_of r = \<lparr>ae_action = au_action r, ae_resourceType = au_resourceType r,
     ae_resourceId = au_resourceId r, ae_source = au_source r, ae_oldValue = au_oldValue r,
     ae_newValue = au_newValue r, ae_actorUserId = au_actorUserId r,
     ae_createdAt = toISOString (au_createdAt r)\<rparr>"

definition getAuditTrail :: "operation_context \<Rightarrow> string \<Rightarrow> string \<Rightarrow> audit_entry list svc" where
  "getAuditTrail ctx resourceType resourceId =
     permitted ctx Ledger_read_amounts (runInEvent (ctx_ev ctx) (query (\<lambda>s st.
       map audit_entry_of (sort_key au_createdAt
         (filter (\<lambda>a. au_resourceType a = resourceType \<and> au_resourceId a = resourceId)
           (visible_audits s st))))))"

end
