(* ===== verification/Report_Service.thy ===== *)
theory Report_Service
  imports Ledger_Query Group_Service
begin

text \<open>
  The report engine: \<^verbatim>\<open>libs/ledger/src/report.service.ts\<close>. Reports are live queries whose
  filters are written into a URL. Case-insensitive matching in the database, the collation of
  \<open>localeCompare\<close>, number printing and the rounding of a bigint converted to a number are
  arguments, collected in \<open>report_lib\<close>. A query without an order returns the rows in
  insertion order.
\<close>

record report_lib =
  rl_contains :: "string \<Rightarrow> string \<Rightarrow> bool"  \<comment> \<open>column contains term, insensitive\<close>
  rl_localeCompare :: "string \<Rightarrow> string \<Rightarrow> int"
  rl_number :: "rat \<Rightarrow> rat"  \<comment> \<open>rounding of \<open>Number(bigint)\<close>\<close>
  rl_numberString :: "rat \<Rightarrow> string"

section \<open>Filters and results\<close>

datatype report_type = R_CONTRIBUTORS | R_PLEDGES | R_OUTSTANDING | R_BUDGET | R_PAYMENTS
datatype contributor_status = St_all | St_unpaid | St_partial | St_complete | St_outstanding
datatype presentation_tier = INLINE_CHAT | MEDIUM_PREVIEW | LARGE_REPORT
datatype sort_field = By_amount | By_name
datatype sort_direction = Asc | Desc

record report_filters =
  rf_reportType :: report_type
  rf_status :: "contributor_status option"
  rf_groupName :: "string option"
  rf_minAmount :: "rat option"
  rf_maxAmount :: "rat option"
  rf_searchTerm :: "string option"
  rf_sortField :: "sort_field option"
  rf_sortDirection :: "sort_direction option"
  rf_limit :: "int option"

definition MAX_LIMIT :: int where
  "MAX_LIMIT = 10000"

record preview_row =
  pr_name :: string
  pr_group :: "string option"
  pr_amount :: string
  pr_outstanding :: "string option"
  pr_status :: string
  pr_inKind :: "string list option"

record report_ref =
  rr_reportType :: report_type
  rr_label :: string
  rr_filterUrl :: string
  rr_totalRecords :: int
  rr_totalAmount :: string
  rr_currency :: string

record report_result =
  rres_tier :: presentation_tier
  rres_reportRef :: report_ref
  rres_preview :: "preview_row list"
  rres_ambiguousGroup :: "(string \<times> (uuid \<times> string) list) option"

fun contributor_status_str :: "contributor_status \<Rightarrow> string" where
  "contributor_status_str St_all = ''all''"
| "contributor_status_str St_unpaid = ''unpaid''"
| "contributor_status_str St_partial = ''partial''"
| "contributor_status_str St_complete = ''complete''"
| "contributor_status_str St_outstanding = ''outstanding''"

fun reportTypeToPath :: "report_type \<Rightarrow> string" where
  "reportTypeToPath R_CONTRIBUTORS = ''contributors''"
| "reportTypeToPath R_OUTSTANDING = ''contributors''"
| "reportTypeToPath R_PLEDGES = ''contributors''"
| "reportTypeToPath R_BUDGET = ''budget''"
| "reportTypeToPath R_PAYMENTS = ''payments''"

fun reportTypeLabel :: "report_type \<Rightarrow> string" where
  "reportTypeLabel R_CONTRIBUTORS = ''contributors''"
| "reportTypeLabel R_OUTSTANDING = ''contributors with outstanding balances''"
| "reportTypeLabel R_PLEDGES = ''pledge records''"
| "reportTypeLabel R_BUDGET = ''budget items''"
| "reportTypeLabel R_PAYMENTS = ''payments''"

section \<open>Arrays, URLs and numbers of the language\<close>

text \<open>A stable sort by a comparator, and \<open>slice\<close> with its negative indices.\<close>

fun js_insert :: "('a \<Rightarrow> 'a \<Rightarrow> int) \<Rightarrow> 'a \<Rightarrow> 'a list \<Rightarrow> 'a list" where
  "js_insert cmp x [] = [x]"
| "js_insert cmp x (y # ys) = (if cmp x y \<le> 0 then x # y # ys else y # js_insert cmp x ys)"

definition js_sort :: "('a \<Rightarrow> 'a \<Rightarrow> int) \<Rightarrow> 'a list \<Rightarrow> 'a list" where
  "js_sort cmp xs = foldr (js_insert cmp) xs []"

definition slice_index :: "int \<Rightarrow> int \<Rightarrow> nat" where
  "slice_index n i = nat (if i < 0 then max (n + i) 0 else min i n)"

definition js_slice :: "int \<Rightarrow> int \<Rightarrow> 'a list \<Rightarrow> 'a list" where
  "js_slice a b xs =
     (let n = int (length xs) in take (slice_index n b - slice_index n a) (drop (slice_index n a) xs))"

text \<open>The serialisation of \<open>URLSearchParams\<close>, over the bytes of a string.\<close>

definition hex_digit :: "nat \<Rightarrow> char" where
  "hex_digit d = (if d < 10 then char_of (48 + d) else char_of (55 + d))"

definition url_encode_char :: "char \<Rightarrow> string" where
  "url_encode_char c =
     (let n = (of_char c :: nat) in
      if is_digit c \<or> (65 \<le> n \<and> n \<le> 90) \<or> (97 \<le> n \<and> n \<le> 122) \<or> c \<in> set ''*-._'' then [c]
      else if c = CHR '' '' then ''+''
      else [CHR ''%'', hex_digit (n div 16), hex_digit (n mod 16)])"

definition url_encode :: "string \<Rightarrow> string" where
  "url_encode s = concat (map url_encode_char s)"

fun intersperse :: "string \<Rightarrow> string list \<Rightarrow> string" where
  "intersperse sep [] = ''''"
| "intersperse sep [x] = x"
| "intersperse sep (x # y # zs) = x @ sep @ intersperse sep (y # zs)"

definition url_params :: "(string \<times> string) list \<Rightarrow> string" where
  "url_params kvs = intersperse ''&'' (map (\<lambda>(k, v). url_encode k @ ''='' @ url_encode v) kvs)"

text \<open>The truth value of an optional number: present and not zero.\<close>

definition truthy_num :: "rat option \<Rightarrow> bool" where
  "truthy_num x = (x \<noteq> None \<and> x \<noteq> Some 0)"

section \<open>Group names\<close>

datatype group_resolution = Group_ok uuid string | Group_unclear "(uuid \<times> string) list"

definition resolveGroupName :: "report_lib \<Rightarrow> string \<Rightarrow> session \<Rightarrow> store \<Rightarrow> group_resolution" where
  "resolveGroupName lib groupName s st =
     (case map (\<lambda>g. (gr_id g, gr_name g))
             (filter (\<lambda>g. rl_contains lib (gr_name g) groupName) (visible_groups s st)) of
        [(i, n)] \<Rightarrow> Group_ok i n
      | matches \<Rightarrow> Group_unclear matches)"

section \<open>The contributor query\<close>

record contributor_row =
  cr_personId :: uuid
  cr_displayName :: string
  cr_groupName :: "string option"
  cr_committed :: money
  cr_received :: money
  cr_inKind :: "string list"

text \<open>The relations of a person: their pledges that are not cancelled, the fulfillments of a
  pledge, and the name of the first group they belong to.\<close>

definition person_pledges :: "person_row \<Rightarrow> session \<Rightarrow> store \<Rightarrow> pledge_row list" where
  "person_pledges p s st =
     filter (\<lambda>pl. pl_personId pl = pe_id p \<and> pl_status pl \<noteq> CANCELLED) (visible_pledges s st)"

definition first_group :: "person_row \<Rightarrow> session \<Rightarrow> store \<Rightarrow> string option" where
  "first_group p s st =
     (case filter (\<lambda>m. pg_personId m = pe_id p) (visible_person_groups s st) of
        [] \<Rightarrow> None
      | m # _ \<Rightarrow> map_option gr_name (List.find (\<lambda>g. gr_id g = pg_groupId m) (visible_groups s st)))"

definition contributor_of :: "session \<Rightarrow> store \<Rightarrow> person_row \<Rightarrow> contributor_row" where
  "contributor_of s st p =
     (let pls = person_pledges p s st in
      \<lparr>cr_personId = pe_id p, cr_displayName = pe_displayName p, cr_groupName = first_group p s st,
       cr_committed = foldl (\<lambda>acc pl. acc + pl_committedValue pl) 0 pls,
       cr_received = foldl (\<lambda>acc pl. foldl (\<lambda>acc f. acc + f_value f) acc
          (filter (\<lambda>f. f_pledgeId f = pl_id pl) (visible_fulfillments s st))) 0 pls,
       cr_inKind = [the (pl_description pl). pl \<leftarrow> pls, pl_type pl \<noteq> CASH \<and> truthy_str (pl_description pl)]\<rparr>)"

fun status_matches :: "contributor_status \<Rightarrow> contributor_row \<Rightarrow> bool" where
  "status_matches St_unpaid r = (cr_committed r > 0 \<and> cr_received r = 0)"
| "status_matches St_partial r = (cr_received r > 0 \<and> cr_received r < cr_committed r)"
| "status_matches St_complete r = (cr_committed r > 0 \<and> cr_received r \<ge> cr_committed r)"
| "status_matches St_outstanding r = (outstanding (cr_committed r) (cr_received r) > 0)"
| "status_matches St_all r = (cr_committed r > 0 \<or> cr_received r > 0)"

definition amount_matches :: "report_lib \<Rightarrow> report_filters \<Rightarrow> contributor_row \<Rightarrow> bool" where
  "amount_matches lib filters r =
     (let received = rl_number lib (of_int (cr_received r)) in
      if truthy_num (rf_minAmount filters) \<and> received < the (rf_minAmount filters) then False
      else if truthy_num (rf_maxAmount filters) \<and> received > the (rf_maxAmount filters) then False
      else True)"

text \<open>The comparator of the sort, as the source writes it.\<close>

definition contributor_cmp :: "report_lib \<Rightarrow> report_filters \<Rightarrow> contributor_row \<Rightarrow> contributor_row \<Rightarrow> int" where
  "contributor_cmp lib filters a b =
     (let sortDir = (if rf_sortDirection filters = Some Asc then 1 else -1) in
      if rf_sortField filters = Some By_name
      then sortDir * rl_localeCompare lib (cr_displayName a) (cr_displayName b)
      else (if cr_received a < cr_received b then 1 else if cr_received a > cr_received b then -1 else 0) * sortDir)"

definition queryContributors ::
  "report_lib \<Rightarrow> report_filters \<Rightarrow> uuid option \<Rightarrow> session \<Rightarrow> store \<Rightarrow> contributor_row list" where
  "queryContributors lib filters resolvedGroupId s st =
     (let people = filter (\<lambda>p.
            (truthy_str (rf_searchTerm filters) \<longrightarrow>
               rl_contains lib (pe_displayName p) (the (rf_searchTerm filters)))
            \<and> (truthy_str resolvedGroupId \<longrightarrow>
               list_ex (\<lambda>m. pg_personId m = pe_id p \<and> Some (pg_groupId m) = resolvedGroupId)
                 (visible_person_groups s st))) (visible_persons s st);
          rows = map (contributor_of s st) people;
          filtered = filter (status_matches (nullish (rf_status filters) St_all)) rows;
          withAmounts = filter (amount_matches lib filters) filtered
      in js_sort (contributor_cmp lib filters) withAmounts)"

definition row_status :: "contributor_row \<Rightarrow> string" where
  "row_status r =
     (if cr_committed r = 0 then ''no_pledge''
      else if cr_received r \<ge> cr_committed r then ''complete''
      else if cr_received r > 0 then ''partial'' else ''unpaid'')"

definition owed_str :: "contributor_row \<Rightarrow> string option" where
  "owed_str r = (let owed = outstanding (cr_committed r) (cr_received r) in
     if owed > 0 then Some (moneyToString owed) else None)"

section \<open>generateReport\<close>

definition report_limit :: "report_filters \<Rightarrow> int" where
  "report_limit input = min (max (nullish (rf_limit input) MAX_LIMIT) 1) MAX_LIMIT"

text \<open>The rows of a report: how many, their total amount, and the preview.\<close>

definition contributors_section ::
  "report_lib \<Rightarrow> report_filters \<Rightarrow> uuid option \<Rightarrow> session \<Rightarrow> store \<Rightarrow> int \<times> money \<times> preview_row list" where
  "contributors_section lib input resolvedGroupId s st =
     (let rows = queryContributors lib input resolvedGroupId s st in
      (int (length rows), foldl (\<lambda>acc r. acc + cr_received r) 0 rows,
       map (\<lambda>r. \<lparr>pr_name = cr_displayName r, pr_group = cr_groupName r,
                 pr_amount = moneyToString (cr_received r), pr_outstanding = owed_str r,
                 pr_status = row_status r,
                 pr_inKind = (if length (cr_inKind r) > 0 then Some (cr_inKind r) else None)\<rparr>)
         (js_slice 0 (report_limit input) rows)))"

definition budget_section ::
  "report_filters \<Rightarrow> session \<Rightarrow> store \<Rightarrow> int \<times> money \<times> preview_row list" where
  "budget_section input s st =
     (let items = visible_budget_items s st in
      (int (length items), foldl (\<lambda>acc i. acc + bi_targetValue i) 0 items,
       map (\<lambda>i. let allocated = foldl (\<lambda>acc a. acc + a_value a) 0
                      (filter (\<lambda>a. a_budgetItemId a = bi_id i) (visible_allocations s st))
                in \<lparr>pr_name = bi_name i, pr_group = None, pr_amount = moneyToString (bi_targetValue i),
                    pr_outstanding = (if allocated < bi_targetValue i
                        then Some (moneyToString (bi_targetValue i - allocated)) else None),
                    pr_status = (if allocated \<ge> bi_targetValue i \<and> bi_targetValue i > 0
                        then ''complete'' else ''partial''),
                    pr_inKind = None\<rparr>)
         (js_slice 0 (report_limit input) items)))"

definition payments_section ::
  "report_filters \<Rightarrow> session \<Rightarrow> store \<Rightarrow> int \<times> money \<times> preview_row list" where
  "payments_section input s st =
     (let fulfillments = [(f, p).
            f \<leftarrow> take (nat MAX_LIMIT) (order_desc f_occurredAt (visible_fulfillments s st)),
            pl \<leftarrow> filter (\<lambda>pl. pl_id pl = f_pledgeId f) (visible_pledges s st),
            p \<leftarrow> filter (\<lambda>p. pe_id p = pl_personId pl) (visible_persons s st)]
      in (int (length fulfillments), foldl (\<lambda>acc (f, _). acc + f_value f) 0 fulfillments,
          map (\<lambda>(f, p). \<lparr>pr_name = pe_displayName p, pr_group = None, pr_amount = moneyToString (f_value f),
                 pr_outstanding = None, pr_status = ''complete'', pr_inKind = None\<rparr>)
            (js_slice 0 (report_limit input) fulfillments)))"

definition report_section ::
  "report_lib \<Rightarrow> report_filters \<Rightarrow> uuid option \<Rightarrow> session \<Rightarrow> store \<Rightarrow> int \<times> money \<times> preview_row list" where
  "report_section lib input resolvedGroupId s st =
     (if rf_reportType input \<in> {R_CONTRIBUTORS, R_OUTSTANDING, R_PLEDGES}
      then contributors_section lib input resolvedGroupId s st
      else if rf_reportType input = R_BUDGET then budget_section input s st
      else payments_section input s st)"

definition report_tier :: "int \<Rightarrow> presentation_tier" where
  "report_tier totalRecords =
     (if totalRecords > 30 then LARGE_REPORT else if totalRecords > 5 then MEDIUM_PREVIEW else INLINE_CHAT)"

definition status_filtered :: "report_filters \<Rightarrow> contributor_status option" where
  "status_filtered input =
     (case rf_status input of None \<Rightarrow> None | Some s \<Rightarrow> if s = St_all then None else Some s)"

definition filter_url :: "report_lib \<Rightarrow> uuid \<Rightarrow> report_filters \<Rightarrow> uuid option \<Rightarrow> string" where
  "filter_url lib eid input resolvedGroupId =
     (let qs = url_params (concat
            [case status_filtered input of Some s \<Rightarrow> [(''status'', contributor_status_str s)] | None \<Rightarrow> [],
             if truthy_str resolvedGroupId then [(''groupId'', the resolvedGroupId)] else [],
             if truthy_num (rf_minAmount input) then [(''minAmount'', rl_numberString lib (the (rf_minAmount input)))] else [],
             if truthy_num (rf_maxAmount input) then [(''maxAmount'', rl_numberString lib (the (rf_maxAmount input)))] else [],
             if truthy_str (rf_searchTerm input) then [(''search'', the (rf_searchTerm input))] else [],
             case rf_sortField input of Some By_amount \<Rightarrow> [(''sort'', ''amount'')]
               | Some By_name \<Rightarrow> [(''sort'', ''name'')] | None \<Rightarrow> [],
             case rf_sortDirection input of Some Asc \<Rightarrow> [(''dir'', ''asc'')]
               | Some Desc \<Rightarrow> [(''dir'', ''desc'')] | None \<Rightarrow> []])
      in ''/events/'' @ eid @ ''/report/'' @ reportTypeToPath (rf_reportType input)
         @ (if qs \<noteq> '''' then ''?'' @ qs else ''''))"

definition report_label :: "report_filters \<Rightarrow> int \<Rightarrow> string option \<Rightarrow> string" where
  "report_label input totalRecords resolvedGroupName =
     (let statusLabel = (case status_filtered input of
            Some s \<Rightarrow> '' '' @ em_dash @ '' '' @ contributor_status_str s @ '' only'' | None \<Rightarrow> '''');
          groupLabel = (if truthy_str resolvedGroupName then '' ('' @ the resolvedGroupName @ '')'' else '''')
      in int_to_dec totalRecords @ '' '' @ reportTypeLabel (rf_reportType input) @ groupLabel @ statusLabel)"

definition generateReport :: "report_lib \<Rightarrow> operation_context \<Rightarrow> report_filters \<Rightarrow> report_result svc" where
  "generateReport lib ctx input =
     permitted ctx Event_read (and_then
       (runInEvent (ctx_ev ctx) (query (\<lambda>s st.
          let resolution = (if truthy_str (rf_groupName input)
                then Some (resolveGroupName lib (the (rf_groupName input)) s st) else None);
              groupId = (case resolution of Some (Group_ok i _) \<Rightarrow> Some i | _ \<Rightarrow> None);
              groupName = (case resolution of Some (Group_ok _ n) \<Rightarrow> Some n | _ \<Rightarrow> None);
              ambiguous = (case resolution of
                 Some (Group_unclear cs) \<Rightarrow> Some (the (rf_groupName input), cs) | _ \<Rightarrow> None)
          in (groupId, groupName, ambiguous, report_section lib input groupId s st))))
       (\<lambda>(groupId, groupName, ambiguous, totalRecords, totalAmount, preview).
          svc_ret \<lparr>rres_tier = report_tier totalRecords,
            rres_reportRef = \<lparr>rr_reportType = rf_reportType input,
               rr_label = report_label input totalRecords groupName,
               rr_filterUrl = filter_url lib (ctx_ev ctx) input groupId,
               rr_totalRecords = totalRecords, rr_totalAmount = moneyToString totalAmount,
               rr_currency = ''UGX''\<rparr>,
            rres_preview = preview, rres_ambiguousGroup = ambiguous\<rparr>))"

section \<open>Pages and CSV\<close>

record page_row =
  pgr_personId :: uuid
  pgr_name :: string
  pgr_group :: "string option"
  pgr_amount :: string
  pgr_outstanding :: "string option"
  pgr_status :: string

record contributor_page =
  cpg_totalRecords :: int
  cpg_totalAmount :: string
  cpg_currency :: string
  cpg_page :: int
  cpg_pageSize :: int
  cpg_totalPages :: int
  cpg_rows :: "page_row list"

definition page_row_of :: "contributor_row \<Rightarrow> page_row" where
  "page_row_of r = \<lparr>pgr_personId = cr_personId r, pgr_name = cr_displayName r, pgr_group = cr_groupName r,
     pgr_amount = moneyToString (cr_received r), pgr_outstanding = owed_str r, pgr_status = row_status r\<rparr>"

text \<open>The division of \<open>Math.ceil(totalRecords / pageSize)\<close>, for the page sizes that are not
  zero.\<close>

definition getPaginatedContributors ::
  "report_lib \<Rightarrow> operation_context \<Rightarrow> report_filters \<Rightarrow> int \<Rightarrow> int \<Rightarrow> string option \<Rightarrow> contributor_page svc" where
  "getPaginatedContributors lib ctx filters page pageSize search =
     permitted ctx Event_read (runInEvent (ctx_ev ctx) (query (\<lambda>s st.
       let resolvedGroupId = (if truthy_str (rf_groupName filters)
             then (case resolveGroupName lib (the (rf_groupName filters)) s st of
                     Group_ok i _ \<Rightarrow> Some i | Group_unclear _ \<Rightarrow> None) else None);
           effectiveFilters = (if truthy_str search then filters\<lparr>rf_searchTerm := search\<rparr> else filters);
           rows = queryContributors lib effectiveFilters resolvedGroupId s st;
           totalRecords = int (length rows);
           start = (page - 1) * pageSize
       in \<lparr>cpg_totalRecords = totalRecords,
           cpg_totalAmount = moneyToString (foldl (\<lambda>acc r. acc + cr_received r) 0 rows),
           cpg_currency = ''UGX'', cpg_page = page, cpg_pageSize = pageSize,
           cpg_totalPages = max 1 (- ((- totalRecords) div pageSize)),
           cpg_rows = map page_row_of (js_slice start (start + pageSize) rows)\<rparr>)))"

definition csv_quote :: "string \<Rightarrow> string" where
  "csv_quote s = [CHR 0x22] @ concat (map (\<lambda>c. if c = CHR 0x22 then [c, c] else [c]) s) @ [CHR 0x22]"

definition csv_line :: "page_row \<Rightarrow> string" where
  "csv_line r = intersperse '','' [csv_quote (pgr_name r), csv_quote (nullish (pgr_group r) ''''),
     csv_quote (pgr_amount r), csv_quote (nullish (pgr_outstanding r) ''''), csv_quote (pgr_status r)]"

definition exportCsv :: "report_lib \<Rightarrow> operation_context \<Rightarrow> report_filters \<Rightarrow> string svc" where
  "exportCsv lib ctx filters =
     and_then (getPaginatedContributors lib ctx filters 1 5000 None) (\<lambda>data.
       svc_ret (intersperse [CHR 0x0A] (''Name,Group,Amount,Outstanding,Status'' # map csv_line (cpg_rows data))))"

end
