(* ===== verification/Admin_Users.thy ===== *)
theory Admin_Users
  imports Entitlement
begin

text \<open>
  Admin reporting: \<^verbatim>\<open>libs/access/src/admin-users.service.ts\<close>. Every row is resolved by the
  entitlement service, and nothing is written.
\<close>

record admin_user_row =
  aur_id :: uuid
  aur_phone :: "string option"
  aur_phoneVerified :: bool
  aur_email :: "string option"
  aur_emailVerified :: bool
  aur_displayName :: "string option"
  aur_createdAt :: string
  aur_planCode :: string
  aur_planStatus :: grant_status
  aur_aiBalance :: int
  aur_smsBalance :: int
  aur_ownedEventCount :: int

record admin_users_summary =
  aus_totalUsers :: int
  aus_onFreeTrial :: int
  aus_onPaidPlan :: int
  aus_byPlan :: "string \<Rightarrow> int option"

definition admin_row :: "env \<Rightarrow> store \<Rightarrow> user_row \<Rightarrow> admin_user_row" where
  "admin_row env st u =
     (let accountId = findAccountId (u_id u) st;
          ent = ent_resolve env (if truthy_str accountId
                  then \<lparr>sc_eventId = None, sc_accountId = accountId\<rparr>
                  else \<lparr>sc_eventId = None, sc_accountId = None\<rparr>) st
      in \<lparr>aur_id = u_id u, aur_phone = u_phone u, aur_phoneVerified = u_phoneVerified u,
          aur_email = u_email u, aur_emailVerified = u_emailVerified u,
          aur_displayName = u_displayName u, aur_createdAt = toISOString (u_createdAt u),
          aur_planCode = r_planCode ent, aur_planStatus = r_status ent,
          aur_aiBalance = r_aiBalance ent, aur_smsBalance = r_smsBalance ent,
          aur_ownedEventCount = int (count_where (\<lambda>e. e_ownerUserId e = u_id u) (events st))\<rparr>)"

definition listUsers :: "env \<Rightarrow> nat \<Rightarrow> store \<Rightarrow> admin_user_row list" where
  "listUsers env limit st = map (admin_row env st) (take limit (order_desc u_createdAt (users st)))"

definition count_plan :: "(string \<Rightarrow> int option) \<Rightarrow> admin_user_row \<Rightarrow> (string \<Rightarrow> int option)" where
  "count_plan byPlan r = byPlan(aur_planCode r \<mapsto> nullish (byPlan (aur_planCode r)) 0 + 1)"

definition users_summary :: "env \<Rightarrow> store \<Rightarrow> admin_users_summary" where
  "users_summary env st =
     (let rows = listUsers env 1000 st in
      \<lparr>aus_totalUsers = int (length rows),
       aus_onFreeTrial = int (count_where (\<lambda>r. aur_planStatus r = TRIALING) rows),
       aus_onPaidPlan = int (count_where (\<lambda>r. aur_planStatus r = G_ACTIVE) rows),
       aus_byPlan = foldl count_plan Map.empty rows\<rparr>)"

lemma count_plan_fold:
  "foldl count_plan m rows c =
     (if \<exists>r\<in>set rows. aur_planCode r = c
      then Some (nullish (m c) 0 + int (count_where (\<lambda>r. aur_planCode r = c) rows)) else m c)"
  by (induction rows arbitrary: m) (auto simp: count_plan_def count_where_def)

text \<open>The summary is consistent: a plan is counted when some listed user is on it, with
  exactly the number of those users, and trial and paid users together never exceed the users
  listed.\<close>

theorem summary_consistent:
  "let rows = listUsers env 1000 st; s = users_summary env st in
     aus_byPlan s c = (if count_where (\<lambda>r. aur_planCode r = c) rows = 0 then None
                       else Some (int (count_where (\<lambda>r. aur_planCode r = c) rows)))
   \<and> aus_onFreeTrial s + aus_onPaidPlan s \<le> aus_totalUsers s
   \<and> aus_totalUsers s = int (min 1000 (length (users st)))"
proof -
  let ?rs = "listUsers env 1000 st"
  let ?n = "\<lambda>P. count_where P ?rs"
  have "count_where (\<lambda>r. aur_planStatus r = TRIALING) rs + count_where (\<lambda>r. aur_planStatus r = G_ACTIVE) rs
      \<le> length rs" for rs
    by (induction rs) auto
  then have "int (?n (\<lambda>r. aur_planStatus r = TRIALING)) + int (?n (\<lambda>r. aur_planStatus r = G_ACTIVE))
      \<le> int (length ?rs)"
    by (metis of_nat_add of_nat_le_iff)
  moreover have "length ?rs = min 1000 (length (users st))"
    by (simp add: listUsers_def)
  moreover have "(\<exists>r\<in>set ?rs. aur_planCode r = c) \<longleftrightarrow> 0 < ?n (\<lambda>r. aur_planCode r = c)"
    by (simp add: count_where_pos)
  ultimately show ?thesis
    unfolding users_summary_def Let_def count_plan_fold by simp
qed

end
