(* ===== verification/Billing.thy ===== *)
theory Billing
  imports Entitlement
begin

text \<open>
  The write side of billing: \<^verbatim>\<open>libs/billing/src/billing.service.ts\<close>. The payment provider and
  the random reference of an invoice are arguments. The tables of billing are not under
  row-level security; each call commits by itself except where the source opens a transaction.
  The append-only SMS and AI credit ledgers share one interface, \<open>credit_ledger\<close>.
\<close>

section \<open>Statements on the billing tables\<close>

abbreviation put_billing_accounts :: "billing_account_row list \<Rightarrow> store \<Rightarrow> store" where
  "put_billing_accounts rs st \<equiv> st\<lparr>billing_accounts := rs\<rparr>"

definition billing_account_create :: "(uuid \<Rightarrow> billing_account_row) \<Rightarrow> billing_account_row svc" where
  "billing_account_create mk st =
     (if \<not> list_ex (\<lambda>u. u_id u = ba_ownerUserId (mk (fresh_id st))) (users st)
      then (st, Inl (Db ForeignKeyViolation))
      else global_create billing_accounts put_billing_accounts (\<lambda>_ _. False) mk st)"

text \<open>A grant refers to an existing event or account; at most one grant per event.\<close>

definition grant_refs_ok :: "grant_row \<Rightarrow> store \<Rightarrow> bool" where
  "grant_refs_ok g st =
     ((\<forall>e. g_eventId g = Some e \<longrightarrow> list_ex (\<lambda>r. e_id r = e) (events st))
      \<and> (\<forall>a. g_accountId g = Some a \<longrightarrow> list_ex (\<lambda>r. ba_id r = a) (billing_accounts st)))"

lemma grant_refs_ok_code [code]:
  "grant_refs_ok g st =
     ((case g_eventId g of None \<Rightarrow> True | Some e \<Rightarrow> list_ex (\<lambda>r. e_id r = e) (events st))
      \<and> (case g_accountId g of None \<Rightarrow> True | Some a \<Rightarrow> list_ex (\<lambda>r. ba_id r = a) (billing_accounts st)))"
  by (auto simp: grant_refs_ok_def split: option.splits)

definition grant_create :: "(uuid \<Rightarrow> grant_row) \<Rightarrow> grant_row svc" where
  "grant_create mk st =
     (if \<not> grant_refs_ok (mk (fresh_id st)) st then (st, Inl (Db ForeignKeyViolation))
      else global_create grants put_grants
        (\<lambda>g q. g_eventId g \<noteq> None \<and> g_eventId q = g_eventId g) mk st)"

definition grant_upsert_event ::
  "uuid \<Rightarrow> (uuid \<Rightarrow> grant_row) \<Rightarrow> (grant_row \<Rightarrow> grant_row) \<Rightarrow> grant_row svc" where
  "grant_upsert_event eid mk f st =
     (case List.find (\<lambda>g. g_eventId g = Some eid) (grants st) of
        Some g \<Rightarrow> (st\<lparr>grants := update_where (\<lambda>g. g_eventId g = Some eid) f (grants st)\<rparr>, Inr (f g))
      | None \<Rightarrow> grant_create mk st)"

definition invoice_create :: "(uuid \<Rightarrow> invoice_row) \<Rightarrow> invoice_row svc" where
  "invoice_create = global_create invoices put_invoices (\<lambda>r q. in_reference q = in_reference r)"

text \<open>The gateway's transaction id is unique among invoices.\<close>

definition invoice_update :: "uuid \<Rightarrow> (invoice_row \<Rightarrow> invoice_row) \<Rightarrow> invoice_row svc" where
  "invoice_update i f st =
     (case List.find (\<lambda>r. in_id r = i) (invoices st) of
        None \<Rightarrow> (st, Inl (Db RecordNotFound))
      | Some r \<Rightarrow>
         (if in_gatewayTransactionId (f r) \<noteq> None \<and>
             list_ex (\<lambda>q. in_id q \<noteq> i \<and> in_gatewayTransactionId q = in_gatewayTransactionId (f r)) (invoices st)
          then (st, Inl (Db UniqueViolation))
          else global_update invoices put_invoices in_id i f st))"

definition credit_create ::
  "(store \<Rightarrow> credit_row list) \<Rightarrow> (credit_row list \<Rightarrow> store \<Rightarrow> store) \<Rightarrow> (uuid \<Rightarrow> credit_row) \<Rightarrow> credit_row svc" where
  "credit_create rows put = global_create rows put (\<lambda>r q. cr_idempotencyKey q = cr_idempotencyKey r)"

section \<open>The plan catalogue\<close>

definition plan_update_of :: "plan_config \<Rightarrow> plan_row \<Rightarrow> plan_row" where
  "plan_update_of c p = p\<lparr>pn_name := pc_name c, pn_scope := pc_scope c, pn_priceMinor := pc_priceMinor c,
     pn_currency := pc_currency c, pn_maxContributors := pc_maxContributors c,
     pn_includedSmsCredits := pc_includedSmsCredits c, pn_includedAiCredits := pc_includedAiCredits c,
     pn_features := pc_features c, pn_isSubscription := pc_isSubscription c\<rparr>"

definition plan_row_of :: "plan_config \<Rightarrow> uuid \<Rightarrow> plan_row" where
  "plan_row_of c i = \<lparr>pn_id = i, pn_code = pc_code c, pn_name = pc_name c, pn_scope = pc_scope c,
     pn_priceMinor = pc_priceMinor c, pn_currency = pc_currency c,
     pn_maxContributors = pc_maxContributors c, pn_includedSmsCredits = pc_includedSmsCredits c,
     pn_includedAiCredits = pc_includedAiCredits c, pn_features = pc_features c,
     pn_isSubscription = pc_isSubscription c\<rparr>"

definition plan_upsert :: "plan_config \<Rightarrow> store \<Rightarrow> store" where
  "plan_upsert c st =
     (if list_ex (\<lambda>p. pn_code p = pc_code c) (plans st)
      then st\<lparr>plans := update_where (\<lambda>p. pn_code p = pc_code c) (plan_update_of c) (plans st)\<rparr>
      else (draw st)\<lparr>plans := plans st @ [plan_row_of c (fresh_id st)]\<rparr>)"

definition syncPlanCatalog :: "store \<Rightarrow> store" where
  "syncPlanCatalog st = foldl (\<lambda>s c. plan_upsert c s) st PLAN_CATALOG"

definition billing_plan :: "string \<Rightarrow> plan_row svc" where
  "billing_plan code =
     and_then (svc_read (\<lambda>st. List.find (\<lambda>p. pn_code p = code) (plans st))) (\<lambda>found. case found of
       None \<Rightarrow> svc_throw (BadRequest (''Unknown plan: '' @ code))
     | Some plan \<Rightarrow> svc_ret plan)"

definition billing_planById :: "uuid \<Rightarrow> plan_row svc" where
  "billing_planById i =
     and_then (svc_read (\<lambda>st. List.find (\<lambda>p. pn_id p = i) (plans st))) (\<lambda>found. case found of
       None \<Rightarrow> svc_throw (Db RecordNotFound)
     | Some plan \<Rightarrow> svc_ret plan)"

section \<open>The credit ledgers\<close>

text \<open>\<open>scope.accountId ?? (scope.eventId ? owningAccountId(scope.eventId) : null)\<close>.\<close>

definition append_account :: "scope \<Rightarrow> store \<Rightarrow> uuid option" where
  "append_account sc st =
     nullish_opt (sc_accountId sc)
       (if truthy_str (sc_eventId sc) then owningAccountId (the (sc_eventId sc)) st else None)"

definition credit_append ::
  "(store \<Rightarrow> credit_row list) \<Rightarrow> (credit_row list \<Rightarrow> store \<Rightarrow> store) \<Rightarrow> env \<Rightarrow> scope \<Rightarrow> ledger_kind \<Rightarrow> int \<Rightarrow>
   string \<Rightarrow> string option \<Rightarrow> unit svc" where
  "credit_append rows put env sc kind amount key reference st =
     (case credit_create rows put (\<lambda>i. \<lparr>cr_id = i, cr_eventId = sc_eventId sc,
             cr_accountId = append_account sc st, cr_kind = kind, cr_amount = amount,
             cr_idempotencyKey = key, cr_reference = reference, cr_createdAt = now env\<rparr>) st of
        (st', Inr _) \<Rightarrow> (st', Inr ())
      | (st', Inl (Db UniqueViolation)) \<Rightarrow> (st', Inr ())
      | (st', Inl e) \<Rightarrow> (st', Inl e))"

definition append_sms :: "env \<Rightarrow> scope \<Rightarrow> ledger_kind \<Rightarrow> int \<Rightarrow> string \<Rightarrow> string option \<Rightarrow> unit svc" where
  "append_sms = credit_append sms_ledger put_sms_ledger"

definition appendAi :: "env \<Rightarrow> scope \<Rightarrow> ledger_kind \<Rightarrow> int \<Rightarrow> string \<Rightarrow> string option \<Rightarrow> unit svc" where
  "appendAi = credit_append ai_ledger put_ai_ledger"

definition grantCredits :: "env \<Rightarrow> scope \<Rightarrow> int \<Rightarrow> string \<Rightarrow> string option \<Rightarrow> unit svc" where
  "grantCredits env sc amount key reference = append_sms env sc GRANT amount key reference"

definition balance :: "env \<Rightarrow> scope \<Rightarrow> store \<Rightarrow> int" where
  "balance env sc st = r_smsBalance (ent_resolve env sc st)"

definition reserve :: "env \<Rightarrow> scope \<Rightarrow> int \<Rightarrow> string \<Rightarrow> (bool \<times> int) svc" where
  "reserve env sc cnt key =
     and_then (svc_read (balance env sc)) (\<lambda>bal.
       if bal < cnt then svc_ret (False, bal)
       else and_then (append_sms env sc RESERVE (- cnt) key None) (\<lambda>_. svc_ret (True, bal - cnt)))"

definition commit :: "env \<Rightarrow> scope \<Rightarrow> string \<Rightarrow> unit svc" where
  "commit env sc reserveKey = append_sms env sc COMMIT 0 (''commit:'' @ reserveKey) (Some reserveKey)"

definition refund :: "env \<Rightarrow> scope \<Rightarrow> int \<Rightarrow> string \<Rightarrow> unit svc" where
  "refund env sc cnt reserveKey = append_sms env sc REFUND cnt (''refund:'' @ reserveKey) (Some reserveKey)"

definition grantAiCredits :: "env \<Rightarrow> scope \<Rightarrow> int \<Rightarrow> string \<Rightarrow> string option \<Rightarrow> unit svc" where
  "grantAiCredits env sc amount key reference = appendAi env sc GRANT amount key reference"

definition deductAiCredit :: "env \<Rightarrow> scope \<Rightarrow> string \<Rightarrow> string option \<Rightarrow> unit svc" where
  "deductAiCredit env sc key reference = appendAi env sc DEDUCT (- 1) key reference"

definition aiBalance :: "env \<Rightarrow> scope \<Rightarrow> store \<Rightarrow> int" where
  "aiBalance env sc st = r_aiBalance (ent_resolve env sc st)"

definition reserveAiCredit :: "env \<Rightarrow> scope \<Rightarrow> string \<Rightarrow> int \<Rightarrow> (bool \<times> int) svc" where
  "reserveAiCredit env sc key cnt =
     and_then (svc_read (aiBalance env sc)) (\<lambda>bal.
       if bal < cnt then svc_ret (False, bal)
       else and_then (appendAi env sc RESERVE (- cnt) key None) (\<lambda>_. svc_ret (True, bal - cnt)))"

definition commitAiCredit :: "env \<Rightarrow> scope \<Rightarrow> string \<Rightarrow> unit svc" where
  "commitAiCredit env sc reserveKey = appendAi env sc COMMIT 0 (''commit:'' @ reserveKey) (Some reserveKey)"

definition refundAiCredit :: "env \<Rightarrow> scope \<Rightarrow> string \<Rightarrow> int \<Rightarrow> unit svc" where
  "refundAiCredit env sc reserveKey cnt =
     appendAi env sc REFUND cnt (''refund:'' @ reserveKey) (Some reserveKey)"

section \<open>Accounts and trials\<close>

definition ensureBillingAccount :: "env \<Rightarrow> uuid \<Rightarrow> uuid svc" where
  "ensureBillingAccount env user =
     and_then (svc_read (findAccountId user)) (\<lambda>existing. case existing of
       Some i \<Rightarrow> svc_ret i
     | None \<Rightarrow>
        and_then (billing_account_create (\<lambda>i. \<lparr>ba_id = i, ba_ownerUserId = user, ba_createdAt = now env\<rparr>))
          (\<lambda>b. svc_ret (ba_id b)))"

definition new_grant :: "env \<Rightarrow> uuid \<Rightarrow> uuid option \<Rightarrow> uuid option \<Rightarrow> grant_status \<Rightarrow> time option \<Rightarrow> uuid \<Rightarrow> grant_row" where
  "new_grant env planId eid accountId status periodEnd i =
     \<lparr>g_id = i, g_planId = planId, g_eventId = eid, g_accountId = accountId, g_status = status,
      g_periodStart = now env, g_periodEnd = periodEnd, g_createdAt = now env\<rparr>"

definition account_scope :: "uuid \<Rightarrow> scope" where
  "account_scope a = \<lparr>sc_eventId = None, sc_accountId = Some a\<rparr>"

definition startFreeTrial :: "env \<Rightarrow> uuid \<Rightarrow> unit svc" where
  "startFreeTrial env eid =
     and_then (billing_plan ''FREE'') (\<lambda>free.
     and_then (grant_upsert_event eid (new_grant env (pn_id free) (Some eid) None TRIALING None) (\<lambda>g. g)) (\<lambda>_.
     and_then (grantCredits env (event_scope eid) (pn_includedSmsCredits free)
        (''trial-sms:'' @ eid) (Some ''free trial SMS allowance'')) (\<lambda>_.
     grantAiCredits env (event_scope eid) (pn_includedAiCredits free)
        (''trial-ai:'' @ eid) (Some ''free trial AI allowance''))))"

definition startAccountTrial :: "env \<Rightarrow> uuid \<Rightarrow> unit svc" where
  "startAccountTrial env accountId =
     and_then (billing_plan ''FREE'') (\<lambda>free.
     and_then (svc_read (\<lambda>st. List.find (\<lambda>g. g_accountId g = Some accountId \<and> g_planId g = pn_id free) (grants st)))
       (\<lambda>existing.
     and_then (case existing of
         Some _ \<Rightarrow> svc_ret ()
       | None \<Rightarrow> and_then (grant_create (new_grant env (pn_id free) None (Some accountId) TRIALING None))
                   (\<lambda>_. svc_ret ())) (\<lambda>_.
     and_then (grantCredits env (account_scope accountId) (pn_includedSmsCredits free)
        (''trial-sms:account:'' @ accountId) (Some ''free trial SMS allowance (account)'')) (\<lambda>_.
     grantAiCredits env (account_scope accountId) (pn_includedAiCredits free)
        (''trial-ai:account:'' @ accountId) (Some ''free trial AI allowance (account)'')))))"

section \<open>Charges\<close>

datatype channel = Mobile_money | Card

record charge_request =
  crq_billingAccountId :: uuid
  crq_amount :: int
  crq_currency :: string
  crq_reference :: string
  crq_channel :: channel
  crq_phone :: string
  crq_description :: string

datatype charge_status = Charge_pending | Charge_succeeded | Charge_failed

record charge_result =
  chr_providerChargeId :: string
  chr_authorizationUrl :: "string option"
  chr_status :: charge_status
  chr_message :: "string option"

text \<open>The provider answers or throws.\<close>

type_synonym payment_provider = "charge_request \<Rightarrow> error + charge_result"

definition charge ::
  "payment_provider \<Rightarrow> string \<Rightarrow> env \<Rightarrow> uuid \<Rightarrow> plan_row \<Rightarrow> string \<Rightarrow> channel \<Rightarrow> uuid option \<Rightarrow>
   (uuid \<times> string \<times> charge_result) svc" where
  "charge provider randomHex env user plan phone chan eid =
     and_then (ensureBillingAccount env user) (\<lambda>account.
     let reference = ''inv_'' @ randomHex in
     and_then (invoice_create (\<lambda>i. \<lparr>in_id = i, in_billingAccountId = account, in_planId = Some (pn_id plan),
         in_eventId = eid, in_amountMinor = pn_priceMinor plan, in_currency = pn_currency plan,
         in_status = INV_PENDING, in_reference = reference, in_gatewayTransactionId = None,
         in_stuckAlertSentAt = None, in_createdAt = now env\<rparr>)) (\<lambda>invoice.
     case provider \<lparr>crq_billingAccountId = account, crq_amount = pn_priceMinor plan,
            crq_currency = pn_currency plan, crq_reference = reference, crq_channel = chan,
            crq_phone = phone, crq_description = ''Akabbo '' @ pn_name plan\<rparr> of
       Inl e \<Rightarrow> svc_throw e
     | Inr result \<Rightarrow>
        (if chr_status result = Charge_failed then
           svc_throw (BadRequest (if truthy_str (chr_message result) then the (chr_message result)
             else ''Payment collection could not be initiated at this time. Please check your phone number and try again.''))
         else svc_ret (in_id invoice, reference, result))))"

definition purchaseEventPack ::
  "payment_provider \<Rightarrow> string \<Rightarrow> env \<Rightarrow> uuid \<Rightarrow> uuid \<Rightarrow> string \<Rightarrow> string \<Rightarrow> channel option \<Rightarrow>
   (uuid \<times> string \<times> charge_result) svc" where
  "purchaseEventPack provider randomHex env user eid planCode phone chan =
     and_then (billing_plan planCode) (\<lambda>plan.
       if pn_scope plan \<noteq> EVENT_SCOPE then svc_throw (BadRequest (planCode @ '' is not an event pack''))
       else charge provider randomHex env user plan phone (nullish chan Mobile_money) (Some eid))"

definition subscribe ::
  "payment_provider \<Rightarrow> string \<Rightarrow> env \<Rightarrow> uuid \<Rightarrow> string \<Rightarrow> string \<Rightarrow> channel option \<Rightarrow>
   (uuid \<times> string \<times> charge_result) svc" where
  "subscribe provider randomHex env user planCode phone chan =
     and_then (billing_plan planCode) (\<lambda>plan.
       if pn_scope plan \<noteq> ACCOUNT_SCOPE then svc_throw (BadRequest (planCode @ '' is not a subscription''))
       else charge provider randomHex env user plan phone (nullish chan Mobile_money) None)"

section \<open>Webhooks\<close>

datatype webhook_status = Webhook_succeeded | Webhook_failed

record webhook_event =
  we_gatewayTransactionId :: string
  we_reference :: string
  we_status :: webhook_status
  we_amount :: int
  we_currency :: string

definition find_invoice :: "string \<Rightarrow> store \<Rightarrow> invoice_row option" where
  "find_invoice reference st = List.find (\<lambda>i. in_reference i = reference) (invoices st)"

text \<open>The credits a paid plan includes, on the event of the invoice or on its account.\<close>

definition grant_included ::
  "(store \<Rightarrow> credit_row list) \<Rightarrow> (credit_row list \<Rightarrow> store \<Rightarrow> store) \<Rightarrow> env \<Rightarrow> invoice_row \<Rightarrow> int \<Rightarrow> string \<Rightarrow>
   string \<Rightarrow> unit tx" where
  "grant_included rows put env invoice amount key reference =
     (if amount > 0 then
        await (statement (credit_create rows put (\<lambda>i. \<lparr>cr_id = i, cr_eventId = in_eventId invoice,
            cr_accountId = (if truthy_str (in_eventId invoice) then None else Some (in_billingAccountId invoice)),
            cr_kind = GRANT, cr_amount = amount, cr_idempotencyKey = key,
            cr_reference = Some reference, cr_createdAt = now env\<rparr>))) (\<lambda>_. ret ())
      else ret ())"

definition activate_grant :: "env \<Rightarrow> invoice_row \<Rightarrow> plan_row \<Rightarrow> unit tx" where
  "activate_grant env invoice plan =
     (let periodEnd = (if pn_isSubscription plan then Some (now env + 30 * 24 * 60 * 60 * 1000) else None) in
      if truthy_str (in_eventId invoice) then
        await (statement (grant_upsert_event (the (in_eventId invoice))
            (new_grant env (pn_id plan) (in_eventId invoice) None G_ACTIVE periodEnd)
            (\<lambda>g. g\<lparr>g_planId := pn_id plan, g_status := G_ACTIVE, g_periodStart := now env,
                  g_periodEnd := periodEnd\<rparr>))) (\<lambda>_. ret ())
      else
        await (statement (grant_create
            (new_grant env (pn_id plan) None (Some (in_billingAccountId invoice)) G_ACTIVE periodEnd))) (\<lambda>_. ret ()))"

definition apply_paid_tx :: "env \<Rightarrow> webhook_event \<Rightarrow> invoice_row \<Rightarrow> plan_row option \<Rightarrow> unit tx" where
  "apply_paid_tx env evt invoice plan0 =
     await (statement (invoice_update (in_id invoice) (\<lambda>i. i\<lparr>in_status := INV_PAID,
              in_gatewayTransactionId := Some (we_gatewayTransactionId evt)\<rparr>))) (\<lambda>_.
     case plan0 of
       None \<Rightarrow> ret ()
     | Some plan \<Rightarrow>
        await (activate_grant env invoice plan) (\<lambda>_.
        await (grant_included sms_ledger put_sms_ledger env invoice (pn_includedSmsCredits plan)
                 (''invoice-sms:'' @ in_id invoice) (we_reference evt)) (\<lambda>_.
        grant_included ai_ledger put_ai_ledger env invoice (pn_includedAiCredits plan)
          (''invoice-ai:'' @ in_id invoice) (we_reference evt))))"

definition applyPaymentWebhook :: "env \<Rightarrow> webhook_event \<Rightarrow> bool svc" where
  "applyPaymentWebhook env evt =
     and_then (svc_read (find_invoice (we_reference evt))) (\<lambda>found. case found of
       None \<Rightarrow> svc_ret False
     | Some invoice \<Rightarrow>
        if in_status invoice = INV_PAID then svc_ret False
        else if we_status evt = Webhook_failed then
          and_then (invoice_update (in_id invoice) (\<lambda>i. i\<lparr>in_status := INV_FAILED,
              in_gatewayTransactionId := Some (we_gatewayTransactionId evt)\<rparr>)) (\<lambda>_. svc_ret False)
        else
          and_then (if truthy_str (in_planId invoice)
                    then and_then (billing_planById (the (in_planId invoice))) (\<lambda>p. svc_ret (Some p))
                    else svc_ret None) (\<lambda>plan.
          and_then (transaction no_session (apply_paid_tx env evt invoice plan)) (\<lambda>_. svc_ret True)))"

section \<open>Reconciliation and alerts\<close>

definition listInvoices :: "invoice_status option \<Rightarrow> store \<Rightarrow> invoice_row list" where
  "listInvoices status st =
     take 200 (order_desc in_createdAt
       (filter (\<lambda>i. case status of None \<Rightarrow> True | Some s \<Rightarrow> in_status i = s) (invoices st)))"

definition reconcileInvoice :: "env \<Rightarrow> uuid \<Rightarrow> string \<Rightarrow> bool svc" where
  "reconcileInvoice env invoiceId gatewayTransactionId =
     and_then (svc_read (\<lambda>st. List.find (\<lambda>i. in_id i = invoiceId) (invoices st))) (\<lambda>found. case found of
       None \<Rightarrow> svc_throw (BadRequest ''Invoice not found'')
     | Some invoice \<Rightarrow>
        if in_status invoice = INV_PAID then svc_throw (BadRequest ''Invoice is already marked PAID'')
        else applyPaymentWebhook env \<lparr>we_gatewayTransactionId = gatewayTransactionId,
               we_reference = in_reference invoice, we_status = Webhook_succeeded,
               we_amount = in_amountMinor invoice, we_currency = in_currency invoice\<rparr>)"

definition findStuckPendingInvoices :: "env \<Rightarrow> int \<Rightarrow> store \<Rightarrow> invoice_row list" where
  "findStuckPendingInvoices env thresholdMinutes st =
     sort_key in_createdAt (filter (\<lambda>i. in_status i = INV_PENDING \<and> in_stuckAlertSentAt i = None
        \<and> in_createdAt i < now env - thresholdMinutes * 60 * 1000) (invoices st))"

definition markStuckAlertSent :: "env \<Rightarrow> uuid list \<Rightarrow> store \<Rightarrow> store" where
  "markStuckAlertSent env ids st =
     (if length ids = 0 then st
      else st\<lparr>invoices := update_where (\<lambda>i. in_id i \<in> set ids)
                (\<lambda>i. i\<lparr>in_stuckAlertSentAt := Some (now env)\<rparr>) (invoices st)\<rparr>)"

end
