(* ===== verification/Credit_Ledgers.thy ===== *)
theory Credit_Ledgers
  imports Billing Demo_Data
begin

text \<open>
  The two credit ledgers of billing. \<open>credit_ledger\<close> is the interface of the table behind a
  ledger (SMS or AI): what a lookup returns after a write. \<open>credit_account\<close> is the interface of
  the operations on it: what each does to the balance of a scope, and that a key is used once.
  Both are interpreted on the two ledgers of the model.
\<close>

section \<open>Balances\<close>

text \<open>A scope the code can charge: it names an event or an account.\<close>

definition usable_scope :: "scope \<Rightarrow> bool" where
  "usable_scope sc \<longleftrightarrow> truthy_str (sc_eventId sc) \<or> truthy_str (sc_accountId sc)"

definition available :: "(store \<Rightarrow> credit_row list) \<Rightarrow> scope \<Rightarrow> store \<Rightarrow> int" where
  "available rows sc st = ledger_sum sc (resolved_account sc st) (rows st)"

definition used_keys :: "(store \<Rightarrow> credit_row list) \<Rightarrow> store \<Rightarrow> string set" where
  "used_keys rows st = cr_idempotencyKey ` set (rows st)"

lemma balance_available: "balance env sc st = available sms_ledger sc st"
  by (simp add: balance_def ent_resolve_def available_def ent_smsBalance_def Let_def)

lemma aiBalance_available: "aiBalance env sc st = available ai_ledger sc st"
  by (simp add: aiBalance_def ent_resolve_def available_def ent_aiBalance_def Let_def)

lemma appended_counts:
  "usable_scope sc \<Longrightarrow> scope_match sc (resolved_account sc st) (sc_eventId sc) (append_account sc st)"
  by (cases "sc_eventId sc"; cases "sc_accountId sc")
     (auto simp: usable_scope_def scope_match_def resolved_account_def append_account_def)

section \<open>The table behind a ledger\<close>

locale credit_ledger =
  fixes rows :: "store \<Rightarrow> credit_row list" and put :: "credit_row list \<Rightarrow> store \<Rightarrow> store"
  assumes rows_put: "rows (put rs st) = rs"
    and rows_draw: "rows (draw st) = rows st"
    and events_put: "events (put rs st) = events st"
    and accounts_put: "billing_accounts (put rs st) = billing_accounts st"
begin

lemma same_account: "resolved_account sc (put rs (draw st)) = resolved_account sc st"
  by (simp add: resolved_account_def owningAccountId_def findAccountId_def events_put accounts_put draw_def
      split: option.splits)

lemma append_replay:
  "key \<in> used_keys rows st \<Longrightarrow> credit_append rows put env sc kind n key ref st = (st, Inr ())"
  by (auto simp: credit_append_def credit_create_def global_create_def used_keys_def list_ex_iff Let_def)

lemma append_new:
  "key \<notin> used_keys rows st \<Longrightarrow> credit_append rows put env sc kind n key ref st =
     (put (rows st @ [\<lparr>cr_id = fresh_id st, cr_eventId = sc_eventId sc, cr_accountId = append_account sc st,
        cr_kind = kind, cr_amount = n, cr_idempotencyKey = key, cr_reference = ref, cr_createdAt = now env\<rparr>])
        (draw st), Inr ())"
  by (auto simp: credit_append_def credit_create_def global_create_def used_keys_def list_ex_iff Let_def)

lemma append_returns: "snd (credit_append rows put env sc kind n key ref st) = Inr ()"
  by (cases "key \<in> used_keys rows st") (simp_all add: append_replay append_new)

lemma after_append [simp]:
  "and_then (credit_append rows put env sc kind n key ref) k st =
     k () (fst (credit_append rows put env sc kind n key ref st))"
  using append_returns [of env sc kind n key ref st]
  by (cases "credit_append rows put env sc kind n key ref st") (simp add: and_then_def)

lemma append_keys:
  "used_keys rows (fst (credit_append rows put env sc kind n key ref st)) = insert key (used_keys rows st)"
  by (cases "key \<in> used_keys rows st") (auto simp: append_replay append_new used_keys_def rows_put)

lemma append_available:
  assumes "usable_scope sc"
  shows "available rows sc (fst (credit_append rows put env sc kind n key ref st)) =
     available rows sc st + (if key \<in> used_keys rows st then 0 else n)"
proof (cases "key \<in> used_keys rows st")
  case False
  then show ?thesis
    using appended_counts [OF assms, of st]
    by (simp add: append_new available_def same_account rows_put ledger_sum_def)
qed (simp add: append_replay)

end

interpretation sms: credit_ledger sms_ledger put_sms_ledger
  by unfold_locales (simp_all add: draw_def)

interpretation ai: credit_ledger ai_ledger put_ai_ledger
  by unfold_locales (simp_all add: draw_def)

lemmas sms_operations = grantCredits_def reserve_def commit_def refund_def append_sms_def
lemmas ai_operations = grantAiCredits_def reserveAiCredit_def commitAiCredit_def refundAiCredit_def
  deductAiCredit_def appendAi_def

section \<open>The operations on a ledger\<close>

datatype credit_op =
    Grant_op int string
  | Reserve_op int string
  | Commit_op string
  | Refund_op int string

fun sms_step :: "env \<Rightarrow> scope \<Rightarrow> credit_op \<Rightarrow> store \<Rightarrow> store" where
  "sms_step env sc (Grant_op n key) st = fst (grantCredits env sc n key None st)"
| "sms_step env sc (Reserve_op n key) st = fst (reserve env sc n key st)"
| "sms_step env sc (Commit_op key) st = fst (commit env sc key st)"
| "sms_step env sc (Refund_op n key) st = fst (refund env sc n key st)"

fun ai_step :: "env \<Rightarrow> scope \<Rightarrow> credit_op \<Rightarrow> store \<Rightarrow> store" where
  "ai_step env sc (Grant_op n key) st = fst (grantAiCredits env sc n key None st)"
| "ai_step env sc (Reserve_op n key) st = fst (reserveAiCredit env sc key n st)"
| "ai_step env sc (Commit_op key) st = fst (commitAiCredit env sc key st)"
| "ai_step env sc (Refund_op n key) st = fst (refundAiCredit env sc key n st)"

text \<open>The key an operation writes under, and what it adds to a balance of \<open>b\<close>.\<close>

fun op_key :: "credit_op \<Rightarrow> string" where
  "op_key (Grant_op n key) = key"
| "op_key (Reserve_op n key) = key"
| "op_key (Commit_op key) = ''commit:'' @ key"
| "op_key (Refund_op n key) = ''refund:'' @ key"

fun op_adds :: "credit_op \<Rightarrow> int \<Rightarrow> int" where
  "op_adds (Grant_op n key) b = n"
| "op_adds (Reserve_op n key) b = (if b < n then 0 else - n)"
| "op_adds (Commit_op key) b = 0"
| "op_adds (Refund_op n key) b = n"

fun op_sane :: "credit_op \<Rightarrow> bool" where
  "op_sane (Grant_op n key) = (0 \<le> n)"
| "op_sane (Refund_op n key) = (0 \<le> n)"
| "op_sane _ = True"

locale credit_account =
  fixes step :: "env \<Rightarrow> scope \<Rightarrow> credit_op \<Rightarrow> store \<Rightarrow> store"
    and bal :: "scope \<Rightarrow> store \<Rightarrow> int"
    and keys :: "store \<Rightarrow> string set"
  assumes replay: "op_key c \<in> keys st \<Longrightarrow> step env sc c st = st"
    and recorded: "step env sc c st = st \<or> op_key c \<in> keys (step env sc c st)"
    and kept: "keys st \<subseteq> keys (step env sc c st)"
    and charge: "usable_scope sc \<Longrightarrow> op_key c \<notin> keys st \<Longrightarrow>
      bal sc (step env sc c st) = bal sc st + op_adds c (bal sc st)"
begin

lemma solvent_step: "usable_scope sc \<Longrightarrow> op_sane c \<Longrightarrow> 0 \<le> bal sc st \<Longrightarrow> 0 \<le> bal sc (step env sc c st)"
  by (cases "op_key c \<in> keys st"; cases c) (simp_all add: replay charge)

lemma solvent:
  "usable_scope sc \<Longrightarrow> list_all op_sane (map snd ops) \<Longrightarrow> 0 \<le> bal sc st \<Longrightarrow>
   0 \<le> bal sc (foldl (\<lambda>s (env, c). step env sc c s) st ops)"
  by (induction ops arbitrary: st) (simp_all add: solvent_step split_beta)

lemma keys_last: "k \<in> keys st \<Longrightarrow> k \<in> keys (foldl (\<lambda>s (env, sc, c). step env sc c s) st ops)"
  using kept by (induction ops arbitrary: st) (simp_all add: split_beta subset_iff)

lemma charged_once:
  assumes "step env sc c st \<noteq> st" "op_key c' = op_key c"
  shows "step env' sc' c' (foldl (\<lambda>s (env, sc, c). step env sc c s) (step env sc c st) ops) =
         foldl (\<lambda>s (env, sc, c). step env sc c s) (step env sc c st) ops"
proof (rule replay)
  have "op_key c \<in> keys (step env sc c st)" using recorded assms(1) by blast
  then show "op_key c' \<in> keys (foldl (\<lambda>s (env, sc, c). step env sc c s) (step env sc c st) ops)"
    using keys_last assms(2) by simp
qed

end

interpretation sms_account: credit_account sms_step "available sms_ledger" "used_keys sms_ledger"
proof
  fix c st env sc assume "op_key c \<in> used_keys sms_ledger st"
  then show "sms_step env sc c st = st" by (cases c) (simp_all add: sms_operations sms.append_replay)
next
  fix env sc c st
  show "sms_step env sc c st = st \<or> op_key c \<in> used_keys sms_ledger (sms_step env sc c st)"
    "used_keys sms_ledger st \<subseteq> used_keys sms_ledger (sms_step env sc c st)"
    by (cases c; auto simp: sms_operations sms.append_keys)+
next
  fix sc c st env assume "usable_scope sc" "op_key c \<notin> used_keys sms_ledger st"
  then show "available sms_ledger sc (sms_step env sc c st) =
      available sms_ledger sc st + op_adds c (available sms_ledger sc st)"
    by (cases c) (simp_all add: sms_operations sms.append_available balance_available)
qed

interpretation ai_account: credit_account ai_step "available ai_ledger" "used_keys ai_ledger"
proof
  fix c st env sc assume "op_key c \<in> used_keys ai_ledger st"
  then show "ai_step env sc c st = st" by (cases c) (simp_all add: ai_operations ai.append_replay)
next
  fix env sc c st
  show "ai_step env sc c st = st \<or> op_key c \<in> used_keys ai_ledger (ai_step env sc c st)"
    "used_keys ai_ledger st \<subseteq> used_keys ai_ledger (ai_step env sc c st)"
    by (cases c; auto simp: ai_operations ai.append_keys)+
next
  fix sc c st env assume "usable_scope sc" "op_key c \<notin> used_keys ai_ledger st"
  then show "available ai_ledger sc (ai_step env sc c st) =
      available ai_ledger sc st + op_adds c (available ai_ledger sc st)"
    by (cases c) (simp_all add: ai_operations ai.append_available aiBalance_available)
qed

section \<open>Properties\<close>

definition demo_scope :: scope where
  "demo_scope = event_scope ''E1''"

definition demo_credited :: store where
  "demo_credited = fst (grantAiCredits demo_env demo_scope 5 ''g2'' None
     (fst (grantCredits demo_env demo_scope 5 ''g1'' None demo_store)))"

lemma demo_scope_usable: "usable_scope demo_scope"
  by (simp add: usable_scope_def demo_scope_def event_scope_def)

text \<open>A reservation is exact, for SMS and for AI credits: it is granted if and only if the
  balance of the scope covers it; a refused one changes nothing; a granted one under a key
  that was not used lowers the balance by exactly the amount reserved, down to the balance
  it answers, which is never negative; one under a used key charges nothing again.\<close>

theorem reserve_exact:
  assumes "usable_scope sc" "0 \<le> n"
  shows "(\<exists>st'. reserve env sc n key st = (st', Inr (n \<le> balance env sc st,
             if n \<le> balance env sc st then balance env sc st - n else balance env sc st))
           \<and> (if n \<le> balance env sc st \<and> key \<notin> used_keys sms_ledger st
              then balance env sc st' = balance env sc st - n \<and> 0 \<le> balance env sc st' else st' = st))
       \<and> (\<exists>st'. reserveAiCredit env sc key n st = (st', Inr (n \<le> aiBalance env sc st,
             if n \<le> aiBalance env sc st then aiBalance env sc st - n else aiBalance env sc st))
           \<and> (if n \<le> aiBalance env sc st \<and> key \<notin> used_keys ai_ledger st
              then aiBalance env sc st' = aiBalance env sc st - n \<and> 0 \<le> aiBalance env sc st' else st' = st))"
    (is "?sms \<and> ?ai")
proof
  show ?sms
    by (auto simp: reserve_def append_sms_def balance_available sms.append_available [OF assms(1)] sms.append_replay)
  show ?ai
    by (auto simp: reserveAiCredit_def appendAi_def aiBalance_available ai.append_available [OF assms(1)] ai.append_replay)
qed

text \<open>C19. Credits are never overdrawn: starting from a balance that is not negative, any sequence
  of grants, reservations, commits and refunds on a scope, with whatever keys and at whatever
  times, leaves a balance that is not negative, for SMS and for AI credits.\<close>

theorem credits_never_overdrawn:
  assumes "usable_scope sc" "list_all op_sane (map snd ops)"
    and "0 \<le> balance env sc st" "0 \<le> aiBalance env sc st"
  shows "0 \<le> balance env sc (foldl (\<lambda>s (env, c). sms_step env sc c s) st ops)
       \<and> 0 \<le> aiBalance env sc (foldl (\<lambda>s (env, c). ai_step env sc c s) st ops)"
  using sms_account.solvent [OF assms(1,2)] ai_account.solvent [OF assms(1,2)] assms(3,4)
  by (simp add: balance_available aiBalance_available)

theorem credits_never_overdrawn_witness:
  "0 \<le> balance demo_env demo_scope (foldl (\<lambda>s (env, c). sms_step env demo_scope c s) demo_credited
     [(demo_env, Reserve_op 4 ''r1''), (demo_env, Reserve_op 4 ''r2''), (demo_env, Refund_op 4 ''r1'')])"
proof -
  have "balance demo_env demo_scope demo_credited = 5" "aiBalance demo_env demo_scope demo_credited = 5"
    by code_simp+
  then show ?thesis
    using credits_never_overdrawn [OF demo_scope_usable, of "[(demo_env, Reserve_op 4 ''r1''),
      (demo_env, Reserve_op 4 ''r2''), (demo_env, Refund_op 4 ''r1'')]" demo_env demo_credited] by simp
qed

text \<open>Every key is charged once: after a credit operation took effect, no operation under the
  same key, for whatever scope and amount and after whatever other operations, changes the
  ledger again, for SMS and for AI credits.\<close>

theorem credit_key_charged_once:
  assumes "op_key c' = op_key c"
  shows "(sms_step env sc c st \<noteq> st \<longrightarrow>
      (let later = foldl (\<lambda>s (env, sc, c). sms_step env sc c s) (sms_step env sc c st) ops
       in sms_step env' sc' c' later = later))
    \<and> (ai_step env sc c st \<noteq> st \<longrightarrow>
      (let later = foldl (\<lambda>s (env, sc, c). ai_step env sc c s) (ai_step env sc c st) ops
       in ai_step env' sc' c' later = later))"
  using sms_account.charged_once [OF _ assms] ai_account.charged_once [OF _ assms] by (simp add: Let_def)

section \<open>Two callers at once\<close>

text \<open>A reservation is a read followed by an insert; nothing holds the balance in between.\<close>

definition reserve_decide :: "int \<Rightarrow> int \<Rightarrow> bool" where
  "reserve_decide bal cnt = (\<not> bal < cnt)"

definition reserve_insert :: "env \<Rightarrow> scope \<Rightarrow> int \<Rightarrow> string \<Rightarrow> int \<Rightarrow> (bool \<times> int) svc" where
  "reserve_insert env sc cnt key bal =
     (if \<not> reserve_decide bal cnt then svc_ret (False, bal)
      else and_then (append_sms env sc RESERVE (- cnt) key None) (\<lambda>_. svc_ret (True, bal - cnt)))"

lemma reserve_two_steps: "reserve env sc cnt key st = reserve_insert env sc cnt key (balance env sc st) st"
  by (simp add: reserve_def reserve_insert_def reserve_decide_def)

text \<open>C20. Two reservations whose reads both come before either insert are both granted whenever
  each alone fits: the balance ends lower by the sum, below zero when the two together exceed
  it. Reserving before the turn narrows the window it was written to close; it does not close
  it.\<close>

theorem reserve_race_overdraws:
  assumes "usable_scope sc" "n \<le> balance env sc st" "m \<le> balance env sc st"
    and "k1 \<noteq> k2" "k1 \<notin> used_keys sms_ledger st" "k2 \<notin> used_keys sms_ledger st"
  shows "let bal = balance env sc st;
             (st1, r1) = reserve_insert env sc n k1 bal st;
             (st2, r2) = reserve_insert env sc m k2 bal st1
         in r1 = Inr (True, bal - n) \<and> r2 = Inr (True, bal - m) \<and> balance env sc st2 = bal - n - m"
  using assms(2-)
  by (simp add: reserve_insert_def reserve_decide_def append_sms_def balance_available
      sms.append_available [OF assms(1)] sms.append_keys)

theorem reserve_race_overdraws_witness:
  "\<exists>st2. balance demo_env demo_scope demo_credited = 5 \<and> balance demo_env demo_scope st2 = - 3"
proof -
  have facts: "balance demo_env demo_scope demo_credited = 5"
    "map cr_idempotencyKey (sms_ledger demo_credited) = [''g1'']" by code_simp+
  then have "''r1'' \<notin> used_keys sms_ledger demo_credited" "''r2'' \<notin> used_keys sms_ledger demo_credited"
    by (auto simp: used_keys_def simp flip: set_map)
  then show ?thesis
    using reserve_race_overdraws [OF demo_scope_usable, of 4 demo_env demo_credited 4 "''r1''" "''r2''"] facts(1)
    by (auto simp: Let_def split: prod.splits)
qed

end
