(* ===== verification/Sms_Service.thy ===== *)
theory Sms_Service
  imports Credit_Ledgers Js_Strings
begin

text \<open>
  Text messages: \<^verbatim>\<open>libs/comms/src/sms.service.ts\<close>. A blast reserves one credit per message,
  stops at the first refusal and queues a campaign; the worker sends it through the provider
  (an argument) and commits or refunds each credit. The billing calls run on their own
  connection inside the transaction of the campaign, so a transaction that fails undoes the
  messages and keeps the credit entries: \<open>keeping_credits\<close>.
\<close>

section \<open>Types\<close>

record recipient =
  rc_person_id :: uuid
  rc_display_name :: string
  rc_phone :: string

record send_result =
  sr_campaignId :: uuid
  sr_queued :: nat
  sr_skipped :: nat

record reminder_preview =
  rp_recipientCount :: nat
  rp_estimatedCredits :: nat
  rp_smsBalance :: int
  rp_affordable :: int

record sms_send_request =
  sq_to :: string
  sq_body :: string
  sq_idempotencyKey :: string

datatype sms_delivery_status = Sms_queued | Sms_sent | Sms_delivered | Sms_failed

record sms_send_result =
  sv_providerMessageId :: string
  sv_status :: sms_delivery_status
  sv_segments :: int
  sv_error :: "string option"

text \<open>\<open>sendBulk\<close> answers or throws.\<close>

type_synonym sms_provider = "sms_send_request list \<Rightarrow> error + sms_send_result list"

section \<open>Statements\<close>

abbreviation visible_messages :: "session \<Rightarrow> store \<Rightarrow> sms_message_row list" where
  "visible_messages s st \<equiv> tbl_visible sm_eventId s (sms_messages st)"
abbreviation visible_campaigns :: "session \<Rightarrow> store \<Rightarrow> sms_campaign_row list" where
  "visible_campaigns s st \<equiv> tbl_visible smc_eventId s (sms_campaigns st)"

definition sms_campaign_create :: "(uuid \<Rightarrow> sms_campaign_row) \<Rightarrow> sms_campaign_row tx" where
  "sms_campaign_create = tbl_create sms_campaigns put_sms_campaigns smc_eventId"

definition sms_campaign_update :: "uuid \<Rightarrow> (sms_campaign_row \<Rightarrow> sms_campaign_row) \<Rightarrow> sms_campaign_row tx" where
  "sms_campaign_update = tbl_update sms_campaigns put_sms_campaigns smc_eventId smc_id"

definition sms_message_update :: "uuid \<Rightarrow> (sms_message_row \<Rightarrow> sms_message_row) \<Rightarrow> sms_message_row tx" where
  "sms_message_update = tbl_update sms_messages put_sms_messages sm_eventId sm_id"

text \<open>A message is created under the id the service drew.\<close>

definition sms_message_create :: "sms_message_row \<Rightarrow> unit tx" where
  "sms_message_create r s st =
     (if aborted s then Inl (Db TransactionAborted)
      else if \<not> tenant_visible s (sm_eventId r) then Inl (Db RlsViolation)
      else Inr (put_sms_messages (sms_messages st @ [r]) st, ()))"

text \<open>\<open>randomUUID()\<close>.\<close>

definition randomUUID :: "uuid svc" where
  "randomUUID st = (draw st, Inr (fresh_id st))"

text \<open>A transaction whose statements are interleaved with billing calls: each statement sees the
  store the previous one left; a failure undoes what the transaction wrote, not the credits.\<close>

definition keeping_credits :: "'a svc \<Rightarrow> 'a svc" where
  "keeping_credits body st =
     (case body st of
        (st', Inl e) \<Rightarrow>
          (st\<lparr>drawn := drawn st', sms_ledger := sms_ledger st', ai_ledger := ai_ledger st'\<rparr>, Inl e)
      | (st', Inr x) \<Rightarrow> (st', Inr x))"

abbreviation in_tenant :: "uuid \<Rightarrow> 'a tx \<Rightarrow> 'a svc" where
  "in_tenant e \<equiv> transaction (in_event e)"

section \<open>Recipients\<close>

text \<open>\<open>ORDER BY display_name\<close>: \<open>collation\<close> is the sort key the database's collation gives a name.\<close>

definition recipients_where ::
  "(string \<Rightarrow> 'k::linorder) \<Rightarrow> (person_row \<Rightarrow> bool) \<Rightarrow> session \<Rightarrow> store \<Rightarrow> recipient list" where
  "recipients_where collation P s st =
     sort_key (collation \<circ> rc_display_name)
       [\<lparr>rc_person_id = pe_id p, rc_display_name = pe_displayName p, rc_phone = the (pe_phone p)\<rparr>.
          p \<leftarrow> visible_persons s st, pe_phone p \<noteq> None \<and> P p]"

definition owed_by :: "session \<Rightarrow> store \<Rightarrow> uuid \<Rightarrow> money" where
  "owed_by s st person =
     sum_where (\<lambda>pl. pl_personId pl = person \<and> pl_status pl \<noteq> CANCELLED) pl_committedValue (visible_pledges s st)"

definition paid_by :: "session \<Rightarrow> store \<Rightarrow> uuid \<Rightarrow> money" where
  "paid_by s st person =
     sum_list [f_value f. f \<leftarrow> visible_fulfillments s st, pl \<leftarrow> visible_pledges s st,
       f_pledgeId f = pl_id pl \<and> pl_personId pl = person \<and> pl_status pl \<noteq> CANCELLED]"

definition unpaidWithPhone :: "(string \<Rightarrow> 'k::linorder) \<Rightarrow> recipient list tx" where
  "unpaidWithPhone collation =
     query (\<lambda>s st. recipients_where collation (\<lambda>p. owed_by s st (pe_id p) > paid_by s st (pe_id p)) s st)"

definition allWithPhone :: "(string \<Rightarrow> 'k::linorder) \<Rightarrow> recipient list tx" where
  "allWithPhone collation = query (recipients_where collation (\<lambda>p. True))"

definition specificWithPhone :: "(string \<Rightarrow> 'k::linorder) \<Rightarrow> uuid list \<Rightarrow> recipient list tx" where
  "specificWithPhone collation personIds = query (recipients_where collation (\<lambda>p. pe_id p \<in> set personIds))"

definition selected :: "(string \<Rightarrow> 'k::linorder) \<Rightarrow> uuid list option \<Rightarrow> recipient list tx \<Rightarrow> recipient list tx" where
  "selected collation personIds usual =
     (case personIds of
        Some ids \<Rightarrow> (if length ids > 0 then specificWithPhone collation ids else usual)
      | None \<Rightarrow> usual)"

section \<open>Sending\<close>

text \<open>\<open>template.replace\<close> of every \<open>{name}\<close>, in whatever case, by the display name, which acts as
  a replacement pattern. \<open>before\<close> is the part of the template already read.\<close>

definition name_tag :: "string \<Rightarrow> bool" where
  "name_tag s = (ascii_lower (take 6 s) = ''{name}'')"

fun personalise_at :: "string \<Rightarrow> string \<Rightarrow> string \<Rightarrow> string" where
  "personalise_at name before [] = []"
| "personalise_at name before (c # cs) =
     (if name_tag (c # cs) then
        substitution (take 6 (c # cs)) before (drop 5 cs) name
          @ personalise_at name (before @ take 6 (c # cs)) (drop 5 cs)
      else c # personalise_at name (before @ [c]) cs)"

definition personalise :: "string \<Rightarrow> string \<Rightarrow> string" where
  "personalise template name = personalise_at name '''' template"

definition queued_message :: "env \<Rightarrow> uuid \<Rightarrow> uuid \<Rightarrow> string \<Rightarrow> recipient \<Rightarrow> uuid \<Rightarrow> sms_message_row" where
  "queued_message env eventId campaignId body r i =
     \<lparr>sm_id = i, sm_eventId = eventId, sm_campaignId = Some campaignId, sm_personId = Some (rc_person_id r),
      sm_toPhone = rc_phone r, sm_body = personalise body (rc_display_name r), sm_status = SMS_QUEUED,
      sm_segments = 1, sm_providerMessageId = None, sm_reserveKey = ''sms:'' @ i, sm_error = None,
      sm_sentAt = None, sm_createdAt = now env\<rparr>"

text \<open>The loop over the recipients, with the number of messages queued.\<close>

fun queue_messages :: "env \<Rightarrow> uuid \<Rightarrow> uuid \<Rightarrow> string \<Rightarrow> recipient list \<Rightarrow> nat svc" where
  "queue_messages env eventId campaignId body [] = svc_ret 0"
| "queue_messages env eventId campaignId body (r # rs) =
     and_then randomUUID (\<lambda>i.
     and_then (reserve env (event_scope eventId) 1 (''sms:'' @ i)) (\<lambda>(ok, _).
       if \<not> ok then svc_ret 0
       else
         and_then (in_tenant eventId (sms_message_create (queued_message env eventId campaignId body r i))) (\<lambda>_.
         and_then (queue_messages env eventId campaignId body rs) (\<lambda>queued. svc_ret (queued + 1)))))"

definition new_campaign :: "env \<Rightarrow> operation_context \<Rightarrow> sms_campaign_kind \<Rightarrow> string \<Rightarrow> uuid \<Rightarrow> sms_campaign_row" where
  "new_campaign env ctx kind body i = \<lparr>smc_id = i, smc_eventId = ctx_ev ctx, smc_kind = kind,
     smc_body = body, smc_status = SC_QUEUED, smc_recipientCount = 0,
     smc_createdById = Some (ctx_user ctx), smc_createdAt = now env\<rparr>"

definition sms_dispatch ::
  "env \<Rightarrow> operation_context \<Rightarrow> sms_campaign_kind \<Rightarrow> string \<Rightarrow> recipient list tx \<Rightarrow> send_result svc" where
  "sms_dispatch env ctx kind body resolve =
     gated ctx Sms_send (let eventId = ctx_ev ctx in
     and_then (runInEvent eventId resolve) (\<lambda>recipients.
     keeping_credits (
       and_then (in_tenant eventId (sms_campaign_create (new_campaign env ctx kind body))) (\<lambda>campaign.
       and_then (queue_messages env eventId (smc_id campaign) body recipients) (\<lambda>queued.
       and_then (in_tenant eventId (sms_campaign_update (smc_id campaign) (\<lambda>c. c\<lparr>smc_recipientCount := int queued,
           smc_status := (if queued > 0 then SC_SENDING else SC_FAILED)\<rparr>))) (\<lambda>_.
       and_then (if queued > 0 then
           in_tenant eventId (outbox_enqueue (now env) \<lparr>oi_eventId = eventId, oi_topic = ''sms.campaign'',
             oi_payload = JObj [(''campaignId'', JStr (smc_id campaign))],
             oi_idempotencyKey = ''sms-campaign:'' @ smc_id campaign\<rparr>)
         else svc_ret ()) (\<lambda>_.
       svc_ret \<lparr>sr_campaignId = smc_id campaign, sr_queued = queued,
         sr_skipped = length recipients - queued\<rparr>)))))))"

definition sendReminders ::
  "(string \<Rightarrow> 'k::linorder) \<Rightarrow> env \<Rightarrow> operation_context \<Rightarrow> string \<Rightarrow> uuid list option \<Rightarrow> send_result svc" where
  "sendReminders collation env ctx body personIds =
     sms_dispatch env ctx REMINDER body (selected collation personIds (unpaidWithPhone collation))"

definition sendAnnouncement ::
  "(string \<Rightarrow> 'k::linorder) \<Rightarrow> env \<Rightarrow> operation_context \<Rightarrow> string \<Rightarrow> uuid list option \<Rightarrow> send_result svc" where
  "sendAnnouncement collation env ctx body personIds =
     sms_dispatch env ctx ANNOUNCEMENT_SMS body (selected collation personIds (allWithPhone collation))"

definition previewReminders ::
  "(string \<Rightarrow> 'k::linorder) \<Rightarrow> env \<Rightarrow> operation_context \<Rightarrow> uuid list option \<Rightarrow> reminder_preview svc" where
  "previewReminders collation env ctx personIds =
     permitted ctx Sms_read
      (and_then (runInEvent (ctx_ev ctx) (selected collation personIds (unpaidWithPhone collation))) (\<lambda>recipients.
       and_then (svc_read (balance env (event_scope (ctx_ev ctx)))) (\<lambda>smsBalance.
       svc_ret \<lparr>rp_recipientCount = length recipients, rp_estimatedCredits = length recipients,
         rp_smsBalance = smsBalance, rp_affordable = min (int (length recipients)) smsBalance\<rparr>)))"

section \<open>The worker\<close>

definition pending_messages :: "uuid \<Rightarrow> session \<Rightarrow> store \<Rightarrow> sms_message_row list" where
  "pending_messages campaignId s st =
     filter (\<lambda>m. sm_campaignId m = Some campaignId \<and> sm_status m = SMS_QUEUED) (visible_messages s st)"

definition send_request :: "sms_message_row \<Rightarrow> sms_send_request" where
  "send_request m = \<lparr>sq_to = sm_toPhone m, sq_body = sm_body m, sq_idempotencyKey = sm_id m\<rparr>"

definition delivered_ok :: "sms_send_result option \<Rightarrow> bool" where
  "delivered_ok res = (case res of Some r \<Rightarrow> sv_status r \<noteq> Sms_failed | None \<Rightarrow> False)"

definition mark_sent :: "env \<Rightarrow> sms_send_result \<Rightarrow> sms_message_row \<Rightarrow> sms_message_row" where
  "mark_sent env res m = m\<lparr>sm_status := SMS_SENT, sm_segments := sv_segments res,
     sm_providerMessageId := (if sv_providerMessageId res = '''' then None else Some (sv_providerMessageId res)),
     sm_sentAt := Some (now env)\<rparr>"

definition mark_failed :: "sms_send_result option \<Rightarrow> sms_message_row \<Rightarrow> sms_message_row" where
  "mark_failed res m = m\<lparr>sm_status := SMS_FAILED,
     sm_error := Some (case res of Some r \<Rightarrow> nullish (sv_error r) ''provider rejected'' | None \<Rightarrow> ''provider rejected'')\<rparr>"

text \<open>The loop over the pending messages and the answers, which may be fewer; it counts the
  messages sent and failed.\<close>

fun settle_messages ::
  "env \<Rightarrow> uuid \<Rightarrow> sms_message_row list \<Rightarrow> sms_send_result list \<Rightarrow> (nat \<times> nat) svc" where
  "settle_messages env eventId [] results = svc_ret (0, 0)"
| "settle_messages env eventId (m # ms) results =
     (let res = (case results of [] \<Rightarrow> None | r # _ \<Rightarrow> Some r) in
      if delivered_ok res then
        and_then (in_tenant eventId (sms_message_update (sm_id m) (mark_sent env (the res)))) (\<lambda>_.
        and_then (commit env (event_scope eventId) (sm_reserveKey m)) (\<lambda>_.
        and_then (settle_messages env eventId ms (tl results)) (\<lambda>(sent, failed). svc_ret (sent + 1, failed))))
      else
        and_then (in_tenant eventId (sms_message_update (sm_id m) (mark_failed res))) (\<lambda>_.
        and_then (refund env (event_scope eventId) 1 (sm_reserveKey m)) (\<lambda>_.
        and_then (settle_messages env eventId ms (tl results)) (\<lambda>(sent, failed). svc_ret (sent, failed + 1)))))"

definition processCampaign :: "sms_provider \<Rightarrow> env \<Rightarrow> uuid \<Rightarrow> uuid \<Rightarrow> unit svc" where
  "processCampaign provider env eventId campaignId =
     and_then (runInEvent eventId (query (pending_messages campaignId))) (\<lambda>pending.
       if length pending = 0 then svc_ret ()
       else case provider (map send_request pending) of
         Inl e \<Rightarrow> svc_throw e
       | Inr results \<Rightarrow>
          keeping_credits (
            and_then (settle_messages env eventId pending results) (\<lambda>(sent, failed).
            and_then (in_tenant eventId (sms_campaign_update campaignId (\<lambda>c. c\<lparr>smc_status :=
                (if failed = 0 then SC_SENT else if sent = 0 then SC_FAILED else SC_PARTIAL)\<rparr>))) (\<lambda>_.
            svc_ret ()))))"

section \<open>Delivery tracking\<close>

definition listCampaigns :: "operation_context \<Rightarrow> sms_campaign_row list svc" where
  "listCampaigns ctx =
     permitted ctx Sms_read (runInEvent (ctx_ev ctx) (query (\<lambda>s st. order_desc smc_createdAt (visible_campaigns s st))))"

record delivery_report =
  dl_sent :: "string list"
  dl_failed :: "string list"
  dl_pending :: "string list"

definition message_name :: "session \<Rightarrow> store \<Rightarrow> sms_message_row \<Rightarrow> string" where
  "message_name s st m =
     nullish (map_option pe_displayName (List.find (\<lambda>p. Some (pe_id p) = sm_personId m) (visible_persons s st)))
       (sm_toPhone m)"

definition delivery :: "operation_context \<Rightarrow> uuid option \<Rightarrow> delivery_report svc" where
  "delivery ctx campaignId =
     permitted ctx Sms_read (runInEvent (ctx_ev ctx) (query (\<lambda>s st.
       let rows = filter (\<lambda>m. truthy_str campaignId \<longrightarrow> sm_campaignId m = campaignId) (visible_messages s st)
       in \<lparr>dl_sent = map (message_name s st) (filter (\<lambda>m. sm_status m = SMS_SENT) rows),
           dl_failed = map (message_name s st) (filter (\<lambda>m. sm_status m = SMS_FAILED) rows),
           dl_pending = map (message_name s st) (filter (\<lambda>m. sm_status m = SMS_QUEUED) rows)\<rparr>)))"

definition getCampaign :: "operation_context \<Rightarrow> uuid \<Rightarrow> sms_campaign_row svc" where
  "getCampaign ctx campaignId =
     permitted ctx Sms_read
      (and_then (runInEvent (ctx_ev ctx) (query (\<lambda>s st. List.find (\<lambda>c. smc_id c = campaignId) (visible_campaigns s st))))
        (\<lambda>campaign. case campaign of
           None \<Rightarrow> svc_throw (NotFound ''Campaign not found in this event'')
         | Some c \<Rightarrow> svc_ret c))"

end
