(* ===== verification/Sms_Settlement.thy ===== *)
theory Sms_Settlement
  imports Sms_Service Ledger_Effects
begin

text \<open>
  What blasts and their processing do to messages and credits: every message that was not
  refused holds one credit of its event, and only a message that failed gives it back.
\<close>

section \<open>The invariant\<close>

abbreviation sms_balance :: "uuid \<Rightarrow> store \<Rightarrow> int" where
  "sms_balance e st \<equiv> available sms_ledger (event_scope e) st"

definition charged :: "uuid \<Rightarrow> store \<Rightarrow> nat" where
  "charged e st = count_where (\<lambda>m. sm_eventId m = e \<and> sm_status m \<noteq> SMS_FAILED) (sms_messages st)"

definition campaign_ids :: "store \<Rightarrow> (uuid \<times> uuid) set" where
  "campaign_ids st = (\<lambda>k. (smc_id k, smc_eventId k)) ` set (sms_campaigns st)"

definition message_ok :: "store \<Rightarrow> sms_message_row \<Rightarrow> bool" where
  "message_ok st m \<longleftrightarrow> known_id st (sm_id m) \<and> sm_reserveKey m = ''sms:'' @ sm_id m
     \<and> (sm_status m = SMS_QUEUED \<longrightarrow> (\<forall>p\<in>{''commit:'', ''refund:''}. p @ sm_reserveKey m \<notin> used_keys sms_ledger st))
     \<and> (\<forall>c. sm_campaignId m = Some c \<longrightarrow> (c, sm_eventId m) \<in> campaign_ids st)"

definition sms_wf :: "store \<Rightarrow> bool" where
  "sms_wf st \<longleftrightarrow> id_supply st \<and> distinct (map sm_id (sms_messages st))
     \<and> (\<forall>m\<in>set (sms_messages st). message_ok st m)
     \<and> (\<forall>n\<ge>drawn st. \<forall>p\<in>{'''', ''commit:'', ''refund:''}. p @ ''sms:'' @ uuid st n \<notin> used_keys sms_ledger st)"

lemma sms_wfD:
  assumes "sms_wf st"
  shows "id_supply st" "distinct (map sm_id (sms_messages st))"
    and "m \<in> set (sms_messages st) \<Longrightarrow> message_ok st m"
    and "''sms:'' @ fresh_id st \<notin> used_keys sms_ledger st"
  using assms by (auto simp: sms_wf_def fresh_id_def)

lemma available_frame:
  "events st' = events st \<Longrightarrow> billing_accounts st' = billing_accounts st \<Longrightarrow> sms_ledger st' = sms_ledger st \<Longrightarrow>
   available sms_ledger sc st' = available sms_ledger sc st"
  by (simp add: available_def resolved_account_def owningAccountId_def findAccountId_def split: option.splits)

lemma known_id_draws: "known_id st i \<Longrightarrow> uuid st' = uuid st \<Longrightarrow> drawn st \<le> drawn st' \<Longrightarrow> known_id st' i"
  unfolding known_id_def by (metis order_less_le_trans)

lemma sms_wf_frame:
  assumes "sms_wf st" "uuid st' = uuid st" "drawn st \<le> drawn st'" "sms_messages st' = sms_messages st"
    "sms_ledger st' = sms_ledger st" "campaign_ids st \<subseteq> campaign_ids st'"
  shows "sms_wf st'"
proof -
  have "message_ok st' m" if "message_ok st m" for m
    using that assms known_id_draws [OF _ assms(2,3)]
    by (auto simp: message_ok_def used_keys_def)
  then show ?thesis
    using assms by (auto simp: sms_wf_def id_supply_def used_keys_def)
qed

lemma event_scope_usable: "e \<noteq> '''' \<Longrightarrow> usable_scope (event_scope e)"
  by (simp add: usable_scope_def event_scope_def)

lemma in_tenant_create:
  "in_tenant e (sms_message_create r) st =
     (if sm_eventId r = e then (put_sms_messages (sms_messages st @ [r]) st, Inr ()) else (st, Inl (Db RlsViolation)))"
  by (simp add: transaction_def sms_message_create_def)

section \<open>Queueing\<close>

text \<open>The store after one more message was reserved and queued.\<close>

definition queue_one :: "env \<Rightarrow> uuid \<Rightarrow> uuid \<Rightarrow> string \<Rightarrow> recipient \<Rightarrow> store \<Rightarrow> store" where
  "queue_one env e c body r st =
     (let st1 = fst (reserve env (event_scope e) 1 (''sms:'' @ fresh_id st) (draw st))
      in put_sms_messages (sms_messages st1 @ [queued_message env e c body r (fresh_id st)]) st1)"

lemma queue_messages_Cons:
  assumes "sms_wf st" "e \<noteq> ''''"
  shows "queue_messages env e c body (r # rs) st =
    (if 1 \<le> sms_balance e st
     then and_then (queue_messages env e c body rs) (\<lambda>q. svc_ret (q + 1)) (queue_one env e c body r st)
     else (draw st, Inr 0))"
proof -
  let ?key = "''sms:'' @ fresh_id st"
  let ?res = "reserve env (event_scope e) 1 ?key (draw st)"
  have same: "balance env (event_scope e) (draw st) = sms_balance e st"
    unfolding balance_available by (rule available_frame) simp_all
  have granted: "and_then (reserve env (event_scope e) 1 ?key) k (draw st) = k (True, sms_balance e st - 1) (fst ?res)"
    if "1 \<le> sms_balance e st" for k :: "bool \<times> int \<Rightarrow> nat svc"
  proof -
    have "?res = (fst ?res, Inr (True, sms_balance e st - 1))"
      using that by (simp add: reserve_def same append_sms_def)
    then show ?thesis by (rule and_then_step)
  qed
  have refused: "and_then (reserve env (event_scope e) 1 ?key) k (draw st) = k (False, sms_balance e st) (draw st)"
    if "\<not> 1 \<le> sms_balance e st" for k :: "bool \<times> int \<Rightarrow> nat svc"
    using that by (intro and_then_step) (simp add: reserve_def same)
  have drawn_id: "and_then randomUUID k st = k (fresh_id st) (draw st)" for k :: "uuid \<Rightarrow> nat svc"
    by (simp add: and_then_def randomUUID_def)
  have insert: "and_then (in_tenant e (sms_message_create (queued_message env e c body r (fresh_id st)))) k (fst ?res) =
      k () (queue_one env e c body r st)" for k :: "unit \<Rightarrow> nat svc"
    by (simp add: and_then_def in_tenant_create queue_one_def Let_def queued_message_def)
  show ?thesis
  proof (cases "1 \<le> sms_balance e st")
    case True
    then show ?thesis by (simp add: drawn_id granted [OF True] insert del: append_Cons)
  next
    case False
    then show ?thesis by (simp add: drawn_id refused [OF False] del: append_Cons)
  qed
qed

lemma queue_one_rows:
  fixes env :: env and c :: uuid and body :: string and r :: recipient
  assumes "sms_wf st" "e \<noteq> ''''" "1 \<le> sms_balance e st"
  defines "st1 \<equiv> queue_one env e c body r st"
  shows "sms_messages st1 = sms_messages st @ [queued_message env e c body r (fresh_id st)]"
    and "sms_balance e st1 = sms_balance e st - 1"
    and "used_keys sms_ledger st1 = insert (''sms:'' @ fresh_id st) (used_keys sms_ledger st)"
    and "sms_campaigns st1 = sms_campaigns st" "uuid st1 = uuid st" "drawn st < drawn st1"
    and "events st1 = events st" "billing_accounts st1 = billing_accounts st" "outbox st1 = outbox st"
proof -
  have same: "balance env (event_scope e) (draw st) = sms_balance e st"
    unfolding balance_available by (rule available_frame) simp_all
  have keys: "''sms:'' @ fresh_id st \<notin> used_keys sms_ledger (draw st)" "used_keys sms_ledger (draw st) = used_keys sms_ledger st"
    using sms_wfD(4) [OF assms(1)] by (simp_all add: used_keys_def)
  have st1: "st1 = put_sms_messages (sms_messages st @ [queued_message env e c body r (fresh_id st)])
     (fst (append_sms env (event_scope e) RESERVE (- 1) (''sms:'' @ fresh_id st) None (draw st)))"
    using assms(3) sms.append_new [OF keys(1)]
    by (simp add: st1_def queue_one_def reserve_def same append_sms_def)
  have append: "fst (append_sms env (event_scope e) RESERVE (- 1) (''sms:'' @ fresh_id st) None (draw st)) =
     put_sms_ledger (sms_ledger st @ [\<lparr>cr_id = fresh_id (draw st), cr_eventId = Some e,
        cr_accountId = append_account (event_scope e) (draw st), cr_kind = RESERVE, cr_amount = - 1,
        cr_idempotencyKey = ''sms:'' @ fresh_id st, cr_reference = None, cr_createdAt = now env\<rparr>]) (draw (draw st))"
    using sms.append_new [OF keys(1)] by (simp add: append_sms_def event_scope_def)
  show "sms_messages st1 = sms_messages st @ [queued_message env e c body r (fresh_id st)]"
    "sms_campaigns st1 = sms_campaigns st" "uuid st1 = uuid st" "drawn st < drawn st1"
    "events st1 = events st" "billing_accounts st1 = billing_accounts st" "outbox st1 = outbox st"
    unfolding st1 append by simp_all
  show "used_keys sms_ledger st1 = insert (''sms:'' @ fresh_id st) (used_keys sms_ledger st)"
    unfolding st1 append by (simp add: used_keys_def)
  have "sms_balance e st1 = sms_balance e (fst (append_sms env (event_scope e) RESERVE (- 1) (''sms:'' @ fresh_id st) None (draw st)))"
    unfolding st1 by (rule available_frame) simp_all
  also have "\<dots> = sms_balance e (draw st) - 1"
    using keys(1) by (simp add: append_sms_def sms.append_available [OF event_scope_usable [OF assms(2)]])
  finally show "sms_balance e st1 = sms_balance e st - 1"
    using same by (simp add: balance_available)
qed

lemma queue_one_wf:
  assumes "sms_wf st" "e \<noteq> ''''" "1 \<le> sms_balance e st" "(c, e) \<in> campaign_ids st"
  shows "sms_wf (queue_one env e c body r st)"
proof -
  let ?st = "queue_one env e c body r st"
  note rows = queue_one_rows [OF assms(1-3), where env = env and c = c and body = body and r = r]
  have inj: "inj (uuid st)" using sms_wfD(1) [OF assms(1)] by (simp add: id_supply_def)
  have other: "uuid st n \<noteq> fresh_id st" if "drawn ?st \<le> n" for n
    using inj that rows(6) by (auto simp: fresh_id_def dest: injD)
  have fresh: "\<not> known_id st (fresh_id st)"
    by (rule fresh_not_known [OF sms_wfD(1) [OF assms(1)]])
  have old: "message_ok ?st m" if "m \<in> set (sms_messages st)" for m
  proof -
    have "message_ok st m" using sms_wfD(3) [OF assms(1) that] .
    then show ?thesis
      using rows(3,4) known_id_draws [OF _ rows(5) less_imp_le [OF rows(6)]]
      by (auto simp: message_ok_def campaign_ids_def)
  qed
  have new: "message_ok ?st (queued_message env e c body r (fresh_id st))"
    using assms(1,4) rows(3-6) known_id_fresh [OF rows(5,6)]
    by (auto simp: message_ok_def queued_message_def sms_wf_def fresh_id_def campaign_ids_def)
  have "fresh_id st \<notin> sm_id ` set (sms_messages st)"
    using sms_wfD(3) [OF assms(1)] fresh by (auto simp: message_ok_def)
  then have "distinct (map sm_id (sms_messages ?st))"
    using sms_wfD(2) [OF assms(1)] by (auto simp: rows(1) queued_message_def)
  then show ?thesis
    using assms(1) old new rows other
    by (auto simp: sms_wf_def id_supply_def)
qed

lemma queue_messages_rows:
  assumes "sms_wf st" "e \<noteq> ''''" "(c, e) \<in> campaign_ids st"
  shows "\<exists>st' ids. queue_messages env e c body rs st = (st', Inr (min (length rs) (nat (sms_balance e st))))
     \<and> length ids = min (length rs) (nat (sms_balance e st))
     \<and> sms_messages st' = sms_messages st @ map2 (queued_message env e c body) (take (length ids) rs) ids
     \<and> sms_balance e st' = sms_balance e st - int (length ids)
     \<and> sms_wf st' \<and> sms_campaigns st' = sms_campaigns st \<and> uuid st' = uuid st \<and> drawn st \<le> drawn st'
     \<and> events st' = events st \<and> billing_accounts st' = billing_accounts st \<and> outbox st' = outbox st"
  using assms
proof (induction rs arbitrary: st)
  case Nil
  then show ?case by simp
next
  case (Cons r rs)
  show ?case
  proof (cases "1 \<le> sms_balance e st")
    case False
    have frame: "sms_balance e (draw st) = sms_balance e st" by (rule available_frame) simp_all
    have "sms_wf (draw st)" by (rule sms_wf_frame [OF Cons.prems(1)]) (simp_all add: campaign_ids_def)
    then show ?thesis
      using False frame queue_messages_Cons [OF Cons.prems(1,2)] by simp
  next
    case True
    let ?st = "queue_one env e c body r st"
    note rows = queue_one_rows [OF Cons.prems(1,2) True, where env = env and c = c and body = body and r = r]
    have "sms_wf ?st" by (rule queue_one_wf [OF Cons.prems(1,2) True Cons.prems(3)])
    moreover have "(c, e) \<in> campaign_ids ?st" using Cons.prems(3) rows(4) by (simp add: campaign_ids_def)
    ultimately obtain st' ids where step:
      "queue_messages env e c body rs ?st = (st', Inr (min (length rs) (nat (sms_balance e st - 1))))"
      "length ids = min (length rs) (nat (sms_balance e st - 1))"
      "sms_messages st' = sms_messages ?st @ map2 (queued_message env e c body) (take (length ids) rs) ids"
      "sms_balance e st' = sms_balance e ?st - int (length ids)"
      "sms_wf st'" "sms_campaigns st' = sms_campaigns st" "uuid st' = uuid st" "drawn ?st \<le> drawn st'"
      "events st' = events st" "billing_accounts st' = billing_accounts st" "outbox st' = outbox st"
      using Cons.IH [OF _ Cons.prems(2), of ?st] rows by auto
    have total: "min (length (r # rs)) (nat (sms_balance e st)) = Suc (length ids)"
      using Suc_nat_eq_nat_zadd1 [of "sms_balance e st - 1"] True step(2) by simp
    have "queue_messages env e c body (r # rs) st = (st', Inr (Suc (length ids)))"
      using True step(1,2) queue_messages_Cons [OF Cons.prems(1,2)] by (simp add: and_then_def)
    moreover have "sms_messages st' = sms_messages st @
        map2 (queued_message env e c body) (take (Suc (length ids)) (r # rs)) (fresh_id st # ids)"
      using step(3) rows(1) by simp
    ultimately show ?thesis
      unfolding total using step rows
      by (intro exI [of _ st'] exI [of _ "fresh_id st # ids"]) auto
  qed
qed

section \<open>Settling\<close>

definition settled_row :: "env \<Rightarrow> sms_send_result option \<Rightarrow> sms_message_row \<Rightarrow> sms_message_row" where
  "settled_row env res = (if delivered_ok res then mark_sent env (the res) else mark_failed res)"

definition settle_one :: "env \<Rightarrow> uuid \<Rightarrow> sms_send_result option \<Rightarrow> sms_message_row \<Rightarrow> store \<Rightarrow> store" where
  "settle_one env e res m st =
     (let st1 = put_sms_messages (update_where (\<lambda>r. sm_eventId r = e \<and> sm_id r = sm_id m)
                  (settled_row env res) (sms_messages st)) st
      in fst (if delivered_ok res then commit env (event_scope e) (sm_reserveKey m) st1
              else refund env (event_scope e) 1 (sm_reserveKey m) st1))"

lemma settled_row_fields [simp]:
  "sm_id (settled_row env res r) = sm_id r" "sm_eventId (settled_row env res r) = sm_eventId r"
  "sm_reserveKey (settled_row env res r) = sm_reserveKey r" "sm_campaignId (settled_row env res r) = sm_campaignId r"
  "sm_status (settled_row env res r) = (if delivered_ok res then SMS_SENT else SMS_FAILED)"
  by (simp_all add: settled_row_def mark_sent_def mark_failed_def)

lemma message_update_known:
  assumes "m \<in> set (sms_messages st)" "sm_eventId m = e"
  shows "\<exists>x. in_tenant e (sms_message_update (sm_id m) f) st =
    (put_sms_messages (update_where (\<lambda>r. sm_eventId r = e \<and> sm_id r = sm_id m) f (sms_messages st)) st, Inr x)"
proof (cases "List.find (\<lambda>r. sm_id r = sm_id m) (tbl_visible sm_eventId (in_event e) (sms_messages st))")
  case None
  then show ?thesis using assms by (auto simp: find_None_all tbl_visible_def)
next
  case (Some r)
  then show ?thesis by (simp add: transaction_def sms_message_update_def tbl_update_def)
qed

lemma settle_messages_Cons:
  fixes results :: "sms_send_result list"
  assumes "m \<in> set (sms_messages st)" "sm_eventId m = e"
  defines "res \<equiv> case results of [] \<Rightarrow> None | r # _ \<Rightarrow> Some r"
  shows "settle_messages env e (m # ms) results st =
    and_then (settle_messages env e ms (tl results))
      (\<lambda>(sent, failed). svc_ret (if delivered_ok res then (sent + 1, failed) else (sent, failed + 1)))
      (settle_one env e res m st)"
proof -
  obtain x where step: "in_tenant e (sms_message_update (sm_id m) (settled_row env res)) st =
    (put_sms_messages (update_where (\<lambda>r. sm_eventId r = e \<and> sm_id r = sm_id m) (settled_row env res) (sms_messages st)) st, Inr x)"
    using message_update_known [OF assms(1,2)] by blast
  have first: "and_then (in_tenant e (sms_message_update (sm_id m) (settled_row env res))) k st =
     k x (put_sms_messages (update_where (\<lambda>r. sm_eventId r = e \<and> sm_id r = sm_id m) (settled_row env res) (sms_messages st)) st)"
    for k :: "sms_message_row \<Rightarrow> (nat \<times> nat) svc"
    using step by (simp add: and_then_def del: transaction_Inr)
  show ?thesis
    using first
    by (cases "delivered_ok res")
       (simp_all add: res_def [symmetric] settled_row_def settle_one_def commit_def refund_def append_sms_def
          sms.after_append Let_def)
qed

lemma settle_one_rows:
  fixes env :: env and res :: "sms_send_result option"
  assumes "sms_wf st" "e \<noteq> ''''" "m \<in> set (sms_messages st)" "sm_status m = SMS_QUEUED"
  defines "st1 \<equiv> settle_one env e res m st"
  shows "sms_messages st1 = update_where (\<lambda>r. sm_eventId r = e \<and> sm_id r = sm_id m) (settled_row env res) (sms_messages st)"
    and "sms_balance e st1 = sms_balance e st + (if delivered_ok res then 0 else 1)"
    and "used_keys sms_ledger st1 =
      insert ((if delivered_ok res then ''commit:'' else ''refund:'') @ sm_reserveKey m) (used_keys sms_ledger st)"
    and "sms_campaigns st1 = sms_campaigns st" "uuid st1 = uuid st" "drawn st < drawn st1"
    and "events st1 = events st" "billing_accounts st1 = billing_accounts st"
proof -
  let ?put = "put_sms_messages (update_where (\<lambda>r. sm_eventId r = e \<and> sm_id r = sm_id m) (settled_row env res) (sms_messages st)) st"
  let ?key = "(if delivered_ok res then ''commit:'' else ''refund:'') @ sm_reserveKey m"
  have "?key \<notin> used_keys sms_ledger st"
    using sms_wfD(3) [OF assms(1,3)] assms(4) by (auto simp: message_ok_def)
  then have key: "?key \<notin> used_keys sms_ledger ?put" by (simp add: used_keys_def)
  have st1: "st1 = fst (credit_append sms_ledger put_sms_ledger env (event_scope e)
      (if delivered_ok res then COMMIT else REFUND) (if delivered_ok res then 0 else 1) ?key (Some (sm_reserveKey m)) ?put)"
    by (simp add: st1_def settle_one_def commit_def refund_def append_sms_def)
  show "sms_messages st1 = update_where (\<lambda>r. sm_eventId r = e \<and> sm_id r = sm_id m) (settled_row env res) (sms_messages st)"
    "sms_campaigns st1 = sms_campaigns st" "uuid st1 = uuid st" "drawn st < drawn st1"
    "events st1 = events st" "billing_accounts st1 = billing_accounts st"
    unfolding st1 sms.append_new [OF key] by simp_all
  show "used_keys sms_ledger st1 = insert ?key (used_keys sms_ledger st)"
    unfolding st1 sms.append_keys by (simp add: used_keys_def)
  have "sms_balance e st1 = sms_balance e ?put + (if delivered_ok res then 0 else 1)"
    unfolding st1 sms.append_available [OF event_scope_usable [OF assms(2)]] using key by simp
  moreover have "sms_balance e ?put = sms_balance e st" by (rule available_frame) simp_all
  ultimately show "sms_balance e st1 = sms_balance e st + (if delivered_ok res then 0 else 1)" by simp
qed

lemma count_where_drop:
  assumes "distinct (map k xs)" "x \<in> set xs" "P x" "\<And>r. r \<in> set xs \<Longrightarrow> U r \<longleftrightarrow> k r = k x"
  shows "count_where P (update_where U f xs) + (if P (f x) then 0 else 1) = count_where P xs"
  using assms
proof (induction xs)
  case (Cons a xs)
  have other: "k r \<noteq> k a" if "r \<in> set xs" for r
    using Cons.prems(1) that by (metis distinct.simps(2) image_eqI list.set_map list.simps(9))
  show ?case
  proof (cases "a = x")
    case True
    have "update_where U f xs = xs"
    proof (rule update_where_none)
      fix r assume "r \<in> set xs"
      then show "\<not> U r" using other Cons.prems(4) True by simp
    qed
    then show ?thesis using True Cons.prems(3,4) by simp
  next
    case False
    then have "x \<in> set xs" using Cons.prems(2) by simp
    then have "\<not> U a" using other Cons.prems(4) by force
    then show ?thesis
      using False Cons.IH [OF _ \<open>x \<in> set xs\<close> Cons.prems(3)] Cons.prems(1,4) by simp
  qed
qed simp

lemma settle_one_wf:
  assumes "sms_wf st" "e \<noteq> ''''" "m \<in> set (sms_messages st)" "sm_status m = SMS_QUEUED" "sm_eventId m = e"
  shows "sms_wf (settle_one env e res m st)"
proof -
  let ?st = "settle_one env e res m st"
  note rows = settle_one_rows [OF assms(1-4), where env = env and res = res]
  have inj: "inj (uuid st)" using sms_wfD(1) [OF assms(1)] by (simp add: id_supply_def)
  have m: "message_ok st m" by (rule sms_wfD(3) [OF assms(1,3)])
  then obtain k where k: "k < drawn st" "sm_id m = uuid st k" by (auto simp: message_ok_def known_id_def)
  have unknown: "uuid st n \<noteq> sm_id m" if "drawn ?st \<le> n" for n
    using that k rows(6) inj by (auto dest: injD)
  have key: "sm_reserveKey r = ''sms:'' @ sm_id r" if "r \<in> set (sms_messages st)" for r
    using sms_wfD(3) [OF assms(1) that] by (simp add: message_ok_def)
  have ok: "message_ok ?st r'" if r': "r' \<in> set (sms_messages ?st)" for r'
  proof -
    obtain r where r: "r \<in> set (sms_messages st)"
      "r' = r \<and> \<not> (sm_eventId r = e \<and> sm_id r = sm_id m) \<or> r' = settled_row env res r \<and> sm_id r = sm_id m"
      using r' unfolding rows(1) in_update_where by blast
    have "message_ok st r" by (rule sms_wfD(3) [OF assms(1) r(1)])
    moreover have "sm_id r = sm_id m \<longrightarrow> r = m"
      using sms_wfD(2) [OF assms(1)] r(1) assms(3) by (auto simp: distinct_map dest: inj_onD)
    ultimately show ?thesis
      using r(2) assms(5) rows(3,4) key [OF r(1)] key [OF assms(3)] known_id_draws [OF _ rows(5) less_imp_le [OF rows(6)]]
      by (auto simp: message_ok_def campaign_ids_def split: if_splits)
  qed
  have "map sm_id (sms_messages ?st) = map sm_id (sms_messages st)"
    by (simp add: rows(1) map_update_where_same)
  then show ?thesis
    using assms(1) ok rows(3,5,6) unknown key [OF assms(3)]
    by (auto simp: sms_wf_def id_supply_def)
qed

lemma settle_one_charged:
  assumes "sms_wf st" "e \<noteq> ''''" "m \<in> set (sms_messages st)" "sm_status m = SMS_QUEUED" "sm_eventId m = e"
  shows "charged e (settle_one env e res m st) + (if delivered_ok res then 0 else 1) = charged e st"
proof -
  have eq: "r = m" if "r \<in> set (sms_messages st)" "sm_id r = sm_id m" for r
    using sms_wfD(2) [OF assms(1)] that assms(3) by (auto simp: distinct_map dest: inj_onD)
  have "count_where (\<lambda>m. sm_eventId m = e \<and> sm_status m \<noteq> SMS_FAILED)
      (update_where (\<lambda>r. sm_eventId r = e \<and> sm_id r = sm_id m) (settled_row env res) (sms_messages st))
      + (if sm_eventId (settled_row env res m) = e \<and> sm_status (settled_row env res m) \<noteq> SMS_FAILED then 0 else 1) =
      count_where (\<lambda>m. sm_eventId m = e \<and> sm_status m \<noteq> SMS_FAILED) (sms_messages st)"
    using assms(4,5) eq
    by (intro count_where_drop [where k = sm_id, OF sms_wfD(2) [OF assms(1)] assms(3)]) auto
  then show ?thesis
    using assms(5) by (simp add: charged_def settle_one_rows(1) [OF assms(1-4)] split: if_splits)
qed

text \<open>The loop: what it returns counts the messages, its refunds are the failed ones, and of the
  messages it was given none is queued.\<close>

lemma settle_messages_effect:
  assumes "sms_wf st" "e \<noteq> ''''" "distinct (map sm_id ms)"
    and "\<And>m. m \<in> set ms \<Longrightarrow> m \<in> set (sms_messages st) \<and> sm_status m = SMS_QUEUED \<and> sm_eventId m = e"
  shows "\<exists>st' sent failed. settle_messages env e ms results st = (st', Inr (sent, failed))
     \<and> sent + failed = length ms \<and> sms_wf st' \<and> charged e st' + failed = charged e st
     \<and> sms_balance e st' = sms_balance e st + int failed \<and> sms_campaigns st' = sms_campaigns st
     \<and> map sm_id (sms_messages st') = map sm_id (sms_messages st)
     \<and> (\<forall>m\<in>set (sms_messages st'). (m \<in> set (sms_messages st) \<and> sm_id m \<notin> sm_id ` set ms)
          \<or> (sm_id m \<in> sm_id ` set ms \<and> sm_status m \<noteq> SMS_QUEUED))"
  using assms
proof (induction ms arbitrary: st results)
  case Nil
  then show ?case by simp
next
  case (Cons m ms)
  let ?res = "case results of [] \<Rightarrow> None | r # _ \<Rightarrow> Some r"
  let ?st = "settle_one env e ?res m st"
  have m: "m \<in> set (sms_messages st)" "sm_status m = SMS_QUEUED" "sm_eventId m = e"
    using Cons.prems(4) by simp_all
  note rows = settle_one_rows [OF Cons.prems(1,2) m(1,2), where env = env and res = ?res]
  have wf: "sms_wf ?st" by (rule settle_one_wf [OF Cons.prems(1,2) m])
  have rest: "r \<in> set (sms_messages ?st) \<and> sm_status r = SMS_QUEUED \<and> sm_eventId r = e" if "r \<in> set ms" for r
  proof -
    have "sm_id r \<noteq> sm_id m" using Cons.prems(3) that by (auto simp: image_iff)
    then show ?thesis using Cons.prems(4) [of r] that by (auto simp: rows(1) in_update_where)
  qed
  obtain st' sent failed where step: "settle_messages env e ms (tl results) ?st = (st', Inr (sent, failed))"
     "sent + failed = length ms" "sms_wf st'" "charged e st' + failed = charged e ?st"
     "sms_balance e st' = sms_balance e ?st + int failed" "sms_campaigns st' = sms_campaigns ?st"
     "map sm_id (sms_messages st') = map sm_id (sms_messages ?st)"
     "\<forall>r\<in>set (sms_messages st'). (r \<in> set (sms_messages ?st) \<and> sm_id r \<notin> sm_id ` set ms)
          \<or> (sm_id r \<in> sm_id ` set ms \<and> sm_status r \<noteq> SMS_QUEUED)"
    using Cons.IH [OF wf Cons.prems(2) _ rest, where results = "tl results"] Cons.prems(3) by auto
  have ids: "map sm_id (sms_messages ?st) = map sm_id (sms_messages st)"
    by (simp add: rows(1) map_update_where_same)
  have whole: "settle_messages env e (m # ms) results st =
      (st', Inr (if delivered_ok ?res then (sent + 1, failed) else (sent, failed + 1)))"
    unfolding settle_messages_Cons [OF m(1,3)] using step(1) by (simp add: and_then_def)
  have spread: "(r \<in> set (sms_messages st) \<and> sm_id r \<notin> sm_id ` set (m # ms))
          \<or> (sm_id r \<in> sm_id ` set (m # ms) \<and> sm_status r \<noteq> SMS_QUEUED)" if r: "r \<in> set (sms_messages st')" for r
  proof (cases "sm_id r \<in> sm_id ` set ms")
    case True
    then show ?thesis using step(8) r by auto
  next
    case False
    then have "r \<in> set (sms_messages ?st)" using step(8) r by blast
    then obtain a where a: "a \<in> set (sms_messages st)"
      "(sm_eventId a = e \<and> sm_id a = sm_id m) \<and> r = settled_row env ?res a
       \<or> \<not> (sm_eventId a = e \<and> sm_id a = sm_id m) \<and> r = a"
      unfolding rows(1) in_update_where by blast
    have "a = m" if "sm_id a = sm_id m"
      using sms_wfD(2) [OF Cons.prems(1)] that a(1) m(1) by (auto simp: distinct_map dest: inj_onD)
    then show ?thesis using a m(3) False by (cases "sm_id a = sm_id m") auto
  qed
  show ?case
    using whole step(2-7) rows(2,4) ids spread settle_one_charged [OF Cons.prems(1,2) m, of env ?res]
    by (cases "delivered_ok ?res") auto
qed

section \<open>The two operations\<close>

lemma campaign_update_known:
  assumes "(c, e) \<in> campaign_ids st"
  shows "\<exists>x. in_tenant e (sms_campaign_update c f) st =
    (put_sms_campaigns (update_where (\<lambda>k. smc_eventId k = e \<and> smc_id k = c) f (sms_campaigns st)) st, Inr x)"
proof (cases "List.find (\<lambda>k. smc_id k = c) (tbl_visible smc_eventId (in_event e) (sms_campaigns st))")
  case None
  then show ?thesis using assms by (auto simp: find_None_all tbl_visible_def campaign_ids_def)
next
  case (Some k)
  then show ?thesis by (simp add: transaction_def sms_campaign_update_def tbl_update_def)
qed

lemma enqueue_returns:
  assumes "oi_eventId oi = e"
  obtains st' where "in_tenant e (outbox_enqueue t oi) st = (st', Inr ())"
    "st' = st \<or> (\<exists>r. st' = (draw st)\<lparr>outbox := outbox st @ [r]\<rparr>)"
    "list_ex (\<lambda>r. ob_idempotencyKey r = oi_idempotencyKey oi) (outbox st')"
proof (cases "list_ex (\<lambda>r. ob_idempotencyKey r = oi_idempotencyKey oi) (outbox st)")
  case True
  then show ?thesis using assms
    by (intro that [of st]) (simp_all add: transaction_def outbox_enqueue_def outbox_create_def outbox_visible_def Let_def)
next
  case False
  let ?row = "\<lparr>ob_id = fresh_id st, ob_eventId = oi_eventId oi, ob_topic = oi_topic oi, ob_payload = oi_payload oi,
     ob_status = O_PENDING, ob_idempotencyKey = oi_idempotencyKey oi, ob_attempts = 0, ob_createdAt = t,
     ob_processedAt = None\<rparr>"
  have "in_tenant e (outbox_enqueue t oi) st = ((draw st)\<lparr>outbox := outbox st @ [?row]\<rparr>, Inr ())"
    using False assms
    by (simp add: transaction_def outbox_enqueue_def outbox_create_def outbox_visible_def Let_def)
  then show ?thesis by (rule that) auto
qed

lemma campaign_ids_update:
  "(\<And>k. smc_id (f k) = smc_id k \<and> smc_eventId (f k) = smc_eventId k) \<Longrightarrow>
   campaign_ids (put_sms_campaigns (update_where P f (sms_campaigns st)) st) = campaign_ids st"
  using map_update_where_same [of "\<lambda>k. (smc_id k, smc_eventId k)" f P "sms_campaigns st"]
  by (simp add: campaign_ids_def flip: set_map)

lemma new_campaign_fields [simp]:
  "smc_id (new_campaign env ctx kind body i) = i" "smc_eventId (new_campaign env ctx kind body i) = ctx_ev ctx"
  by (simp_all add: new_campaign_def)

lemma dispatch_effect:
  assumes "sms_wf st" "e \<noteq> ''''" "ctx_ev ctx = e" "resolve (in_event e) st = Inr (st, rs)"
    and "can (ctx_role (ctx_event ctx)) Sms_send" "isWritable (ctx_status (ctx_event ctx))"
  defines "n \<equiv> min (length rs) (nat (sms_balance e st))"
  shows "\<exists>st' ids. sms_dispatch env ctx kind body resolve st =
       (st', Inr \<lparr>sr_campaignId = fresh_id st, sr_queued = n, sr_skipped = length rs - n\<rparr>)
     \<and> length ids = n
     \<and> sms_messages st' = sms_messages st @ map2 (queued_message env e (fresh_id st) body) (take n rs) ids
     \<and> sms_balance e st' = sms_balance e st - int n \<and> sms_wf st'
     \<and> (n > 0 \<longrightarrow> list_ex (\<lambda>r. ob_idempotencyKey r = ''sms-campaign:'' @ fresh_id st) (outbox st'))"
proof -
  let ?c = "fresh_id st"
  let ?st1 = "put_sms_campaigns (sms_campaigns st @ [new_campaign env ctx kind body ?c]) (draw st)"
  let ?upd = "\<lambda>c. c\<lparr>smc_recipientCount := int n, smc_status := (if n > 0 then SC_SENDING else SC_FAILED)\<rparr>"
  let ?put = "\<lambda>s. put_sms_campaigns (update_where (\<lambda>k. smc_eventId k = e \<and> smc_id k = ?c) ?upd (sms_campaigns s)) s"
  let ?oi = "\<lparr>oi_eventId = e, oi_topic = ''sms.campaign'', oi_payload = JObj [(''campaignId'', JStr ?c)],
             oi_idempotencyKey = ''sms-campaign:'' @ ?c\<rparr>"
  have create: "in_tenant e (sms_campaign_create (new_campaign env ctx kind body)) st =
      (?st1, Inr (new_campaign env ctx kind body ?c))"
    using assms(3) by (simp add: transaction_def sms_campaign_create_def tbl_create_def new_campaign_def Let_def)
  have wf1: "sms_wf ?st1"
    by (rule sms_wf_frame [OF assms(1)]) (auto simp: campaign_ids_def)
  have known: "(?c, e) \<in> campaign_ids ?st1"
    using assms(3) by (simp add: campaign_ids_def new_campaign_def)
  have bal1: "sms_balance e ?st1 = sms_balance e st" by (rule available_frame) simp_all
  obtain st2 ids where q: "queue_messages env e ?c body rs ?st1 = (st2, Inr n)" "length ids = n"
    "sms_messages st2 = sms_messages st @ map2 (queued_message env e ?c body) (take n rs) ids"
    "sms_balance e st2 = sms_balance e st - int n" "sms_wf st2" "sms_campaigns st2 = sms_campaigns ?st1"
    using queue_messages_rows [OF wf1 assms(2) known, of env body rs] unfolding bal1 n_def by auto
  have known2: "(?c, e) \<in> campaign_ids st2" using known q(6) by (simp add: campaign_ids_def)
  obtain x where upd: "in_tenant e (sms_campaign_update ?c ?upd) st2 = (?put st2, Inr x)"
    using campaign_update_known [OF known2] by blast
  have wf3: "sms_wf (?put st2)"
    by (rule sms_wf_frame [OF q(5)]) (simp_all add: campaign_ids_update)
  have bal3: "sms_balance e (?put st2) = sms_balance e st2" by (rule available_frame) simp_all
  obtain st4 where enq: "in_tenant e (outbox_enqueue (now env) ?oi) (?put st2) = (st4, Inr ())"
    "st4 = ?put st2 \<or> (\<exists>r. st4 = (draw (?put st2))\<lparr>outbox := outbox (?put st2) @ [r]\<rparr>)"
    "list_ex (\<lambda>r. ob_idempotencyKey r = ''sms-campaign:'' @ ?c) (outbox st4)"
    by (rule enqueue_returns [of ?oi e "now env" "?put st2"]) auto
  have wf4: "sms_wf st4"
    by (rule sms_wf_frame [OF wf3]) (use enq(2) in \<open>auto simp: campaign_ids_def\<close>)
  have bal4: "sms_balance e st4 = sms_balance e st2"
    unfolding bal3 [symmetric] by (rule available_frame) (use enq(2) in auto)
  have msgs4: "sms_messages st4 = sms_messages st2" using enq(2) by auto
  have "sms_dispatch env ctx kind body resolve st =
     ((if n > 0 then st4 else ?put st2),
      Inr \<lparr>sr_campaignId = ?c, sr_queued = n, sr_skipped = length rs - n\<rparr>)"
    using assms(3-6) create q(1) upd enq(1)
    by (cases "n > 0") (simp_all add: sms_dispatch_def gated_def permitted_def runInEvent_def keeping_credits_def and_then_def
        Let_def transaction_def [of _ resolve] del: transaction_Inr)
  moreover have "\<exists>s. s = (if n > 0 then st4 else ?put st2) \<and> sms_messages s = sms_messages st2
     \<and> sms_balance e s = sms_balance e st2 \<and> sms_wf s
     \<and> (n > 0 \<longrightarrow> list_ex (\<lambda>r. ob_idempotencyKey r = ''sms-campaign:'' @ ?c) (outbox s))"
    using wf3 wf4 bal3 bal4 msgs4 enq(3) by (cases "n > 0") simp_all
  ultimately show ?thesis using q(2-4) by auto
qed

lemma process_effect:
  assumes "sms_wf st" "e \<noteq> ''''"
  shows "\<exists>st' res failed. processCampaign provider env e c st = (st', res)
     \<and> sms_wf st' \<and> charged e st' + failed = charged e st \<and> sms_balance e st' = sms_balance e st + int failed
     \<and> map sm_id (sms_messages st') = map sm_id (sms_messages st)
     \<and> (res = Inr () \<longrightarrow> pending_messages c (in_event e) st' = [])
     \<and> ((\<exists>rs. provider (map send_request (pending_messages c (in_event e) st)) = Inr rs) \<longrightarrow> res = Inr ())"
proof -
  let ?pending = "pending_messages c (in_event e) st"
  let ?reply = "provider (map send_request ?pending)"
  have read: "and_then (in_tenant e (query (pending_messages c))) k st = k ?pending st"
    for k :: "sms_message_row list \<Rightarrow> unit svc"
    by (simp add: and_then_def transaction_def)
  consider (none) "?pending = []" | (throws) err where "?pending \<noteq> []" "?reply = Inl err"
    | (answers) results where "?pending \<noteq> []" "?reply = Inr results"
    by (metis sum.exhaust)
  then show ?thesis
  proof cases
    case none
    then show ?thesis using assms by (auto simp: processCampaign_def runInEvent_def read)
  next
    case throws
    then show ?thesis using assms by (auto simp: processCampaign_def runInEvent_def read)
  next
    case answers
    let ?mark = "\<lambda>sent failed c. c\<lparr>smc_status := (if failed = (0::nat) then SC_SENT else if sent = (0::nat) then SC_FAILED else SC_PARTIAL)\<rparr>"
    have "distinct (map sm_id ?pending)"
      using sms_wfD(2) [OF assms(1)] by (simp add: pending_messages_def tbl_visible_def distinct_map_filter)
    moreover have each: "m \<in> set (sms_messages st) \<and> sm_status m = SMS_QUEUED \<and> sm_eventId m = e \<and> sm_campaignId m = Some c"
      if "m \<in> set ?pending" for m
      using that by (auto simp: pending_messages_def tbl_visible_def)
    ultimately obtain st1 sent failed where
      loop: "settle_messages env e ?pending results st = (st1, Inr (sent, failed))"
      and facts: "sms_wf st1" "charged e st1 + failed = charged e st"
        "sms_balance e st1 = sms_balance e st + int failed" "sms_campaigns st1 = sms_campaigns st"
        "map sm_id (sms_messages st1) = map sm_id (sms_messages st)"
      and rows: "\<And>m. m \<in> set (sms_messages st1) \<Longrightarrow> (m \<in> set (sms_messages st) \<and> sm_id m \<notin> sm_id ` set ?pending)
          \<or> (sm_id m \<in> sm_id ` set ?pending \<and> sm_status m \<noteq> SMS_QUEUED)"
      using settle_messages_effect [OF assms, of ?pending env results] by blast
    obtain m where m: "m \<in> set ?pending" using answers(1) by (meson list.set_sel(1))
    then have "(c, e) \<in> campaign_ids st"
      using each sms_wfD(3) [OF assms(1), of m] by (auto simp: message_ok_def)
    then have "(c, e) \<in> campaign_ids st1" using facts(4) by (simp add: campaign_ids_def)
    then obtain x where upd: "in_tenant e (sms_campaign_update c (?mark sent failed)) st1 =
       (put_sms_campaigns (update_where (\<lambda>k. smc_eventId k = e \<and> smc_id k = c) (?mark sent failed) (sms_campaigns st1)) st1, Inr x)"
      using campaign_update_known by blast
    let ?st = "put_sms_campaigns (update_where (\<lambda>k. smc_eventId k = e \<and> smc_id k = c) (?mark sent failed) (sms_campaigns st1)) st1"
    have run: "processCampaign provider env e c st = (?st, Inr ())"
      using answers loop upd
      by (simp add: processCampaign_def runInEvent_def read keeping_credits_def and_then_def [where m = "settle_messages _ _ _ _"]
          and_then_def [where m = "in_tenant _ (sms_campaign_update _ _)"] del: transaction_Inr)
    have wf: "sms_wf ?st" by (rule sms_wf_frame [OF facts(1)]) (simp_all add: campaign_ids_update)
    have bal: "sms_balance e ?st = sms_balance e st1" by (rule available_frame) simp_all
    have "pending_messages c (in_event e) ?st = []"
      using rows by (fastforce simp: pending_messages_def tbl_visible_def filter_empty_conv)
    then show ?thesis
      unfolding run using wf bal facts by (auto simp: charged_def)
  qed
qed

section \<open>Any sequence of blasts and deliveries\<close>

datatype sms_command =
    Remind operation_context string "uuid list option"
  | Announce operation_context string "uuid list option"
  | Process sms_provider uuid uuid

fun sms_exec :: "(string \<Rightarrow> 'k::linorder) \<Rightarrow> env \<Rightarrow> sms_command \<Rightarrow> store \<Rightarrow> store" where
  "sms_exec collation env (Remind ctx body ids) st = fst (sendReminders collation env ctx body ids st)"
| "sms_exec collation env (Announce ctx body ids) st = fst (sendAnnouncement collation env ctx body ids st)"
| "sms_exec collation env (Process provider e c) st = fst (processCampaign provider env e c st)"

fun sms_event :: "sms_command \<Rightarrow> uuid" where
  "sms_event (Remind ctx body ids) = ctx_ev ctx"
| "sms_event (Announce ctx body ids) = ctx_ev ctx"
| "sms_event (Process provider e c) = e"

lemma selected_reads:
  "\<exists>rs. selected collation ids (unpaidWithPhone collation) (in_event e) st = Inr (st, rs)"
  "\<exists>rs. selected collation ids (allWithPhone collation) (in_event e) st = Inr (st, rs)"
  by (auto simp: selected_def unpaidWithPhone_def allWithPhone_def specificWithPhone_def split: option.splits)

definition conserves :: "uuid \<Rightarrow> store \<Rightarrow> store \<Rightarrow> bool" where
  "conserves e st st' \<longleftrightarrow> sms_wf st' \<and> sms_balance e st' + int (charged e st') = sms_balance e st + int (charged e st)
     \<and> (0 \<le> sms_balance e st \<longrightarrow> 0 \<le> sms_balance e st')"

lemma charged_append: "sms_messages st' = sms_messages st @ ms \<Longrightarrow>
   charged e st' = charged e st + count_where (\<lambda>m. sm_eventId m = e \<and> sm_status m \<noteq> SMS_FAILED) ms"
  by (simp add: charged_def)

lemma charged_queued:
  "length rs = length ids \<Longrightarrow>
   count_where (\<lambda>m. sm_eventId m = e \<and> sm_status m \<noteq> SMS_FAILED) (map2 (queued_message env e c body) rs ids) = length ids"
  by (induction rs ids rule: list_induct2) (simp_all add: queued_message_def)

lemma dispatch_conserves:
  assumes "sms_wf st" "e \<noteq> ''''" "ctx_ev ctx = e" "\<exists>rs. resolve (in_event e) st = Inr (st, rs)"
  shows "conserves e st (fst (sms_dispatch env ctx kind body resolve st))"
proof (cases "can (ctx_role (ctx_event ctx)) Sms_send \<and> isWritable (ctx_status (ctx_event ctx))")
  case False
  then have "fst (sms_dispatch env ctx kind body resolve st) = st"
    by (auto simp: sms_dispatch_def gated_def permitted_def perm_assert_def assertEventWritable_def)
  then show ?thesis using assms(1) by (simp add: conserves_def)
next
  case True
  obtain rs where rs: "resolve (in_event e) st = Inr (st, rs)" using assms(4) by blast
  let ?n = "min (length rs) (nat (sms_balance e st))"
  obtain st' ids where step: "sms_dispatch env ctx kind body resolve st =
       (st', Inr \<lparr>sr_campaignId = fresh_id st, sr_queued = ?n, sr_skipped = length rs - ?n\<rparr>)" "length ids = ?n"
     "sms_messages st' = sms_messages st @ map2 (queued_message env e (fresh_id st) body) (take ?n rs) ids"
     "sms_balance e st' = sms_balance e st - int ?n" "sms_wf st'"
    using dispatch_effect [where env = env and kind = kind and body = body and resolve = resolve,
      OF assms(1-3) rs conjunct1 [OF True] conjunct2 [OF True]] by blast
  have "charged e st' = charged e st + ?n"
    using charged_append [OF step(3)] charged_queued [of "take ?n rs" ids] step(2) by simp
  then show ?thesis using step by (auto simp: conserves_def)
qed

lemma sms_exec_conserves:
  assumes "sms_wf st" "e \<noteq> ''''" "sms_event c = e"
  shows "conserves e st (sms_exec collation env c st)"
proof (cases c)
  case (Process provider e' cid)
  then show ?thesis
    using assms process_effect [OF assms(1,2), of provider env cid] by (auto simp: conserves_def)
qed (use assms in \<open>auto simp: sendReminders_def sendAnnouncement_def intro!: dispatch_conserves selected_reads\<close>)

section \<open>Properties\<close>

definition demo_texting :: store where
  "demo_texting = demo_credited\<lparr>persons := map (\<lambda>p. p\<lparr>pe_phone := Some ''0772''\<rparr>) (persons demo_credited)\<rparr>"


lemma demo_texting_wf: "sms_wf demo_texting"
proof -
  have "uuid demo_texting = uuid demo_store" "sms_messages demo_texting = []"
    by (simp_all add: demo_texting_def demo_credited_def demo_store_def empty_store_def grantCredits_def grantAiCredits_def
        append_sms_def appendAi_def credit_append_def credit_create_def global_create_def draw_def Let_def)
  moreover have "map cr_idempotencyKey (sms_ledger demo_texting) = [''g1'']" by code_simp
  then have "used_keys sms_ledger demo_texting = {''g1''}"
    by (simp add: used_keys_def flip: set_map)
  moreover have "id_supply demo_store"
    by (auto simp: id_supply_def demo_store_def empty_store_def intro!: injI dest: arg_cong [where f = length])
  ultimately show ?thesis by (simp add: sms_wf_def id_supply_def)
qed

text \<open>A blast queues exactly what can be paid: a permitted call in a writable event queues a
  message for the first recipients, in their order, up to the credit balance, with the text
  personalised for each; it reports how many were queued and skipped, lowers the balance by
  exactly one credit per queued message, and leaves an outbox row for the worker if it
  queued any.\<close>

theorem blast_exact:
  assumes "sms_wf st" "ctx_ev ctx \<noteq> ''''" "resolve (in_event (ctx_ev ctx)) st = Inr (st, rs)"
    and "can (ctx_role (ctx_event ctx)) Sms_send" "isWritable (ctx_status (ctx_event ctx))"
    and "n = min (length rs) (nat (balance env (event_scope (ctx_ev ctx)) st))"
  shows "\<exists>st' ids c. sms_dispatch env ctx kind body resolve st =
       (st', Inr \<lparr>sr_campaignId = c, sr_queued = n, sr_skipped = length rs - n\<rparr>)
     \<and> length ids = n
     \<and> sms_messages st' = sms_messages st @ map2 (queued_message env (ctx_ev ctx) c body) (take n rs) ids
     \<and> balance env (event_scope (ctx_ev ctx)) st' = balance env (event_scope (ctx_ev ctx)) st - int n
     \<and> (n = 0 \<or> list_ex (\<lambda>r. ob_idempotencyKey r = ''sms-campaign:'' @ c) (outbox st'))"
  using dispatch_effect [where env = env and kind = kind and body = body and resolve = resolve,
      OF assms(1,2) refl assms(3-5)] assms(6)
  unfolding balance_available by blast

text \<open>Every queued message is settled: when the provider answers, however many answers it
  gives, processing a campaign leaves none of its messages queued, gives back exactly one
  credit for each message that failed and none for one that was sent, and processing the
  campaign again, with whatever provider, changes nothing.\<close>

theorem processing_settles:
  assumes "sms_wf st" "e \<noteq> ''''"
    and "provider (map send_request (pending_messages c (in_event e) st)) = Inr results"
  shows "\<exists>st' failed. processCampaign provider env e c st = (st', Inr ())
     \<and> pending_messages c (in_event e) st' = []
     \<and> map sm_id (sms_messages st') = map sm_id (sms_messages st)
     \<and> charged e st' + failed = charged e st
     \<and> balance env (event_scope e) st' = balance env (event_scope e) st + int failed
     \<and> processCampaign provider' env' e c st' = (st', Inr ())"
proof -
  obtain st' failed where step: "processCampaign provider env e c st = (st', Inr ())"
    "charged e st' + failed = charged e st" "sms_balance e st' = sms_balance e st + int failed"
    "map sm_id (sms_messages st') = map sm_id (sms_messages st)" "pending_messages c (in_event e) st' = []"
    using process_effect [OF assms(1,2), of provider env c] assms(3) by auto
  have "processCampaign provider' env' e c st' = (st', Inr ())"
    using step(5) by (simp add: processCampaign_def runInEvent_def and_then_def transaction_def)
  then show ?thesis using step by (auto simp: balance_available)
qed

definition demo_blast :: store where
  "demo_blast = sms_exec length demo_env (Announce owner_ctx ''Hi {name}'' None) demo_texting"

lemma demo_blast_wf: "sms_wf demo_blast"
proof -
  have "sms_event (Announce owner_ctx ''Hi {name}'' None) = ''E1''" by code_simp
  then show ?thesis
    unfolding demo_blast_def using sms_exec_conserves [OF demo_texting_wf, of "''E1''" "Announce owner_ctx ''Hi {name}'' None" length]
    by (simp add: conserves_def del: sms_exec.simps)
qed



end
