(* ===== verification/Identity.thy ===== *)
theory Identity
  imports Sms_Service "HOL-Library.Word"
begin

text \<open>
  Who is calling: \<^verbatim>\<open>libs/identity/src/\<close>. One-time codes by phone or mail, accounts, and session
  tokens. The key derivation function, the random bytes and the token library are arguments;
  a token is opaque, so its type is a parameter. Messages leave through a provider whose
  answer is not awaited: an operation returns what it hands over.
\<close>

section \<open>otp.util.ts\<close>

type_synonym bytes = "8 word list"

definition hex_digit :: "nat \<Rightarrow> char" where
  "hex_digit n = (if n < 10 then digit_char n else char_of (87 + n))"

definition hex_value :: "char \<Rightarrow> nat option" where
  "hex_value c = (let n = (of_char c :: nat) in
     if 48 \<le> n \<and> n \<le> 57 then Some (n - 48)
     else if 97 \<le> n \<and> n \<le> 102 then Some (n - 87)
     else if 65 \<le> n \<and> n \<le> 70 then Some (n - 55) else None)"

text \<open>\<open>Buffer.toString('hex')\<close> and \<open>Buffer.from(s, 'hex')\<close>, which stops at the first pair that is
  not hexadecimal.\<close>

fun to_hex :: "bytes \<Rightarrow> string" where
  "to_hex [] = []"
| "to_hex (b # bs) = hex_digit (unat b div 16) # hex_digit (unat b mod 16) # to_hex bs"

fun from_hex :: "string \<Rightarrow> bytes" where
  "from_hex (c # d # cs) =
     (case (hex_value c, hex_value d) of
        (Some h, Some l) \<Rightarrow> of_nat (16 * h + l) # from_hex cs
      | _ \<Rightarrow> [])"
| "from_hex _ = []"

fun split_on :: "char \<Rightarrow> string \<Rightarrow> string list" where
  "split_on sep [] = [[]]"
| "split_on sep (c # cs) =
     (if c = sep then [] # split_on sep cs
      else (case split_on sep cs of [] \<Rightarrow> [[c]] | w # ws \<Rightarrow> (c # w) # ws))"

type_synonym kdf = "string \<Rightarrow> bytes \<Rightarrow> nat \<Rightarrow> bytes"

text \<open>The six digits drawn, and the salt drawn.\<close>

definition generateOtp :: "nat list \<Rightarrow> string" where
  "generateOtp draws = concat (map nat_to_dec (take 6 draws))"

definition hashOtp :: "kdf \<Rightarrow> bytes \<Rightarrow> string \<Rightarrow> string" where
  "hashOtp scrypt salt code = to_hex salt @ '':'' @ to_hex (scrypt code salt 32)"

definition otp_matches :: "kdf \<Rightarrow> string \<Rightarrow> string \<Rightarrow> bool" where
  "otp_matches scrypt code stored =
     (case split_on CHR '':'' stored of
        saltHex # derivedHex # _ \<Rightarrow>
          (if saltHex = '''' \<or> derivedHex = '''' then False
           else let salt = from_hex saltHex; expected = from_hex derivedHex;
                    actual = scrypt code salt (length expected)
                in length actual = length expected \<and> actual = expected)
      | _ \<Rightarrow> False)"

section \<open>user.service.ts\<close>

abbreviation put_users :: "user_row list \<Rightarrow> store \<Rightarrow> store" where
  "put_users rs st \<equiv> st\<lparr>users := rs\<rparr>"
abbreviation put_otp_challenges :: "otp_row list \<Rightarrow> store \<Rightarrow> store" where
  "put_otp_challenges rs st \<equiv> st\<lparr>otp_challenges := rs\<rparr>"

text \<open>Phone and email are unique columns; rows without one do not clash.\<close>

definition user_clash :: "user_row \<Rightarrow> user_row \<Rightarrow> bool" where
  "user_clash r q = ((u_phone r \<noteq> None \<and> u_phone q = u_phone r) \<or> (u_email r \<noteq> None \<and> u_email q = u_email r))"

definition user_create :: "(uuid \<Rightarrow> user_row) \<Rightarrow> user_row svc" where
  "user_create = global_create users put_users user_clash"

definition user_update :: "uuid \<Rightarrow> (user_row \<Rightarrow> user_row) \<Rightarrow> user_row svc" where
  "user_update = global_update users put_users u_id"

definition new_user :: "env \<Rightarrow> string option \<Rightarrow> string option \<Rightarrow> uuid \<Rightarrow> user_row" where
  "new_user env phone email i = \<lparr>u_id = i, u_phone = phone, u_phoneVerified = False, u_email = email,
     u_emailVerified = False, u_displayName = None, u_createdAt = now env\<rparr>"

text \<open>Create, or on the unique violation read the row that is there.\<close>

definition create_or_find :: "env \<Rightarrow> string option \<Rightarrow> string option \<Rightarrow> (user_row \<Rightarrow> bool) \<Rightarrow> (user_row \<times> bool) svc" where
  "create_or_find env phone email P st =
     (case user_create (new_user env phone email) st of
        (st', Inr u) \<Rightarrow> (st', Inr (u, True))
      | (st', Inl (Db UniqueViolation)) \<Rightarrow>
         (case List.find P (users st') of
            None \<Rightarrow> (st', Inl (Db RecordNotFound))
          | Some u \<Rightarrow> (st', Inr (u, False)))
      | (st', Inl e) \<Rightarrow> (st', Inl e))"

definition findOrCreateByPhone :: "env \<Rightarrow> string \<Rightarrow> (user_row \<times> bool) svc" where
  "findOrCreateByPhone env phone = create_or_find env (Some phone) None (\<lambda>u. u_phone u = Some phone)"

definition findOrCreateByEmail :: "env \<Rightarrow> string \<Rightarrow> (user_row \<times> bool) svc" where
  "findOrCreateByEmail env email = create_or_find env None (Some email) (\<lambda>u. u_email u = Some email)"

definition markPhoneVerified :: "uuid \<Rightarrow> unit svc" where
  "markPhoneVerified i = and_then (user_update i (\<lambda>u. u\<lparr>u_phoneVerified := True\<rparr>)) (\<lambda>_. svc_ret ())"

definition markEmailVerified :: "uuid \<Rightarrow> unit svc" where
  "markEmailVerified i = and_then (user_update i (\<lambda>u. u\<lparr>u_emailVerified := True\<rparr>)) (\<lambda>_. svc_ret ())"

definition getById :: "uuid \<Rightarrow> store \<Rightarrow> user_row option" where
  "getById i st = List.find (\<lambda>u. u_id u = i) (users st)"

section \<open>Tokens\<close>

record auth_config =
  OTP_TTL_SECONDS :: int
  OTP_MAX_ATTEMPTS :: int
  OTP_COOLDOWN_SECONDS :: int
  AUTH_EXPOSE_OTP :: bool
  JWT_SECRET :: string
  JWT_TTL_SECONDS :: int
  JWT_REFRESH_TTL_SECONDS :: int

record jwt_payload =
  sub :: uuid
  pv :: bool
  token_type :: "string option"

text \<open>The token library: signing a payload at a time for a number of seconds, and verifying.\<close>

record 'tok jwt =
  jwt_sign :: "jwt_payload \<Rightarrow> string \<Rightarrow> int \<Rightarrow> time \<Rightarrow> 'tok"
  jwt_verify :: "'tok \<Rightarrow> string \<Rightarrow> time \<Rightarrow> jwt_payload option"

record 'tok auth_session =
  as_userId :: uuid
  as_accessToken :: 'tok
  as_refreshToken :: 'tok
  as_expiresAt :: time
  as_isNewUser :: bool

definition issueSession :: "'tok jwt \<Rightarrow> auth_config \<Rightarrow> env \<Rightarrow> uuid \<Rightarrow> bool \<Rightarrow> bool \<Rightarrow> 'tok auth_session" where
  "issueSession lib cfg env user verified isNewUser =
     (let ttl = JWT_TTL_SECONDS cfg; refreshTtl = JWT_REFRESH_TTL_SECONDS cfg; secret = JWT_SECRET cfg
      in \<lparr>as_userId = user,
          as_accessToken = jwt_sign lib \<lparr>sub = user, pv = verified, token_type = Some ''access''\<rparr> secret ttl (now env),
          as_refreshToken = jwt_sign lib \<lparr>sub = user, pv = verified, token_type = Some ''refresh''\<rparr> secret refreshTtl (now env),
          as_expiresAt = now env + ttl * 1000,
          as_isNewUser = isNewUser\<rparr>)"

definition refreshToken :: "'tok jwt \<Rightarrow> auth_config \<Rightarrow> env \<Rightarrow> 'tok \<Rightarrow> 'tok auth_session svc" where
  "refreshToken lib cfg env token =
     (case jwt_verify lib token (JWT_SECRET cfg) (now env) of
        None \<Rightarrow> svc_throw (Unauthorized ''Invalid or expired refresh token'')
      | Some payload \<Rightarrow>
         if token_type payload \<noteq> Some ''refresh'' then svc_throw (Unauthorized ''Invalid token type for refresh'')
         else and_then (svc_read (getById (sub payload))) (\<lambda>user. case user of
             None \<Rightarrow> svc_throw (Unauthorized ''User not found'')
           | Some u \<Rightarrow> svc_ret (issueSession lib cfg env (u_id u) (u_phoneVerified u) False)))"

definition verifyAccessToken :: "'tok jwt \<Rightarrow> auth_config \<Rightarrow> env \<Rightarrow> 'tok \<Rightarrow> actor option" where
  "verifyAccessToken lib cfg env token =
     (case jwt_verify lib token (JWT_SECRET cfg) (now env) of
        None \<Rightarrow> None
      | Some payload \<Rightarrow>
         if truthy_str (token_type payload) \<and> token_type payload \<noteq> Some ''access'' then None
         else Some \<lparr>userId = sub payload, phoneVerified = pv payload\<rparr>)"

section \<open>Challenges\<close>

text \<open>The channel of a challenge: the column it is filed under.\<close>

datatype otp_channel = By_phone | By_email

fun channel_id :: "otp_channel \<Rightarrow> otp_row \<Rightarrow> string option" where
  "channel_id By_phone c = otp_phone c"
| "channel_id By_email c = otp_email c"

definition otp_create :: "(uuid \<Rightarrow> otp_row) \<Rightarrow> otp_row svc" where
  "otp_create = global_create otp_challenges put_otp_challenges (\<lambda>_ _. False)"

definition otp_update :: "uuid \<Rightarrow> (otp_row \<Rightarrow> otp_row) \<Rightarrow> otp_row svc" where
  "otp_update = global_update otp_challenges put_otp_challenges otp_id"

text \<open>The dash is one character of three bytes.\<close>

definition cooldown_message :: string where
  "cooldown_message = ''A verification code was already sent '' @ [CHR 0xE2, CHR 0x80, CHR 0x94]
     @ '' please wait a moment before requesting another.''"

definition assertCooldownElapsed :: "auth_config \<Rightarrow> env \<Rightarrow> otp_channel \<Rightarrow> string \<Rightarrow> unit svc" where
  "assertCooldownElapsed cfg env channel identifier =
     (let cooldown = OTP_COOLDOWN_SECONDS cfg in
      if cooldown \<le> 0 then svc_ret ()
      else and_then (svc_read (\<lambda>st. case order_desc otp_createdAt (filter
             (\<lambda>c. channel_id channel c = Some identifier \<and> otp_consumedAt c = None) (otp_challenges st)) of
               [] \<Rightarrow> None | c # _ \<Rightarrow> Some c)) (\<lambda>last. case last of
         Some c \<Rightarrow>
           (if now env - otp_createdAt c < cooldown * 1000
            then svc_throw (BadRequest cooldown_message)
            else svc_ret ())
       | None \<Rightarrow> svc_ret ()))"

record start_otp_result =
  so_challengeId :: uuid
  so_expiresInSeconds :: int
  so_devCode :: "string option"

record email_request =
  em_to :: string
  em_subject :: string
  em_body :: string
  em_idempotencyKey :: string

definition otp_body :: "string \<Rightarrow> string" where
  "otp_body code = ''Your Akabbo verification code is: '' @ code @ ''. Valid for 5 minutes.''"

definition new_challenge :: "auth_config \<Rightarrow> env \<Rightarrow> string option \<Rightarrow> string option \<Rightarrow> string \<Rightarrow> uuid \<Rightarrow> otp_row" where
  "new_challenge cfg env phone email hash i =
     \<lparr>otp_id = i, otp_phone = phone, otp_email = email, otp_codeHash = hash,
      otp_expiresAt = now env + OTP_TTL_SECONDS cfg * 1000, otp_consumedAt = None, otp_attempts = 0,
      otp_createdAt = now env\<rparr>"

definition start_result :: "auth_config \<Rightarrow> string \<Rightarrow> otp_row \<Rightarrow> start_otp_result" where
  "start_result cfg code challenge = \<lparr>so_challengeId = otp_id challenge, so_expiresInSeconds = OTP_TTL_SECONDS cfg,
     so_devCode = (if AUTH_EXPOSE_OTP cfg then Some code else None)\<rparr>"

definition startOtp ::
  "kdf \<Rightarrow> auth_config \<Rightarrow> bool \<Rightarrow> env \<Rightarrow> nat list \<Rightarrow> bytes \<Rightarrow> string \<Rightarrow> (start_otp_result \<times> sms_send_request option) svc" where
  "startOtp scrypt cfg has_sms env draws salt phone =
     and_then (assertCooldownElapsed cfg env By_phone phone) (\<lambda>_.
     let code = generateOtp draws in
     and_then (otp_create (new_challenge cfg env (Some phone) None (hashOtp scrypt salt code))) (\<lambda>challenge.
     svc_ret (start_result cfg code challenge,
       (if has_sms then Some \<lparr>sq_to = phone, sq_body = otp_body code, sq_idempotencyKey = ''otp:'' @ otp_id challenge\<rparr>
        else None))))"

definition startEmailOtp ::
  "kdf \<Rightarrow> auth_config \<Rightarrow> bool \<Rightarrow> env \<Rightarrow> nat list \<Rightarrow> bytes \<Rightarrow> string \<Rightarrow> (start_otp_result \<times> email_request option) svc" where
  "startEmailOtp scrypt cfg has_email env draws salt email =
     and_then (assertCooldownElapsed cfg env By_email email) (\<lambda>_.
     let code = generateOtp draws in
     and_then (otp_create (new_challenge cfg env None (Some email) (hashOtp scrypt salt code))) (\<lambda>challenge.
     svc_ret (start_result cfg code challenge,
       (if has_email then Some \<lparr>em_to = email, em_subject = ''Your Akabbo verification code'',
            em_body = otp_body code, em_idempotencyKey = ''otp:'' @ otp_id challenge\<rparr>
        else None))))"

record verify_otp_request =
  vo_challengeId :: uuid
  vo_code :: string

text \<open>The checks both channels make, in their order; the answer is the identifier whose
  possession the code proves.\<close>

definition redeem :: "kdf \<Rightarrow> auth_config \<Rightarrow> env \<Rightarrow> otp_channel \<Rightarrow> verify_otp_request \<Rightarrow> string svc" where
  "redeem scrypt cfg env channel request =
     and_then (svc_read (\<lambda>st. List.find (\<lambda>c. otp_id c = vo_challengeId request) (otp_challenges st))) (\<lambda>found.
     case found of
       None \<Rightarrow> svc_throw (BadRequest ''Invalid or expired challenge'')
     | Some c \<Rightarrow>
        if \<not> truthy_str (channel_id channel c) then svc_throw (BadRequest ''Invalid or expired challenge'')
        else if otp_consumedAt c \<noteq> None then svc_throw (BadRequest ''Challenge already used'')
        else if otp_expiresAt c < now env then svc_throw (BadRequest ''Challenge expired'')
        else if otp_attempts c \<ge> OTP_MAX_ATTEMPTS cfg then svc_throw (BadRequest ''Too many attempts'')
        else if \<not> otp_matches scrypt (vo_code request) (otp_codeHash c) then
          and_then (otp_update (otp_id c) (\<lambda>c. c\<lparr>otp_attempts := otp_attempts c + 1\<rparr>)) (\<lambda>_.
          svc_throw (Unauthorized ''Incorrect code''))
        else
          and_then (otp_update (otp_id c) (\<lambda>c. c\<lparr>otp_consumedAt := Some (now env)\<rparr>)) (\<lambda>_.
          svc_ret (the (channel_id channel c))))"

definition verifyOtp ::
  "kdf \<Rightarrow> 'tok jwt \<Rightarrow> auth_config \<Rightarrow> env \<Rightarrow> verify_otp_request \<Rightarrow> 'tok auth_session svc" where
  "verifyOtp scrypt lib cfg env request =
     and_then (redeem scrypt cfg env By_phone request) (\<lambda>phone.
     and_then (findOrCreateByPhone env phone) (\<lambda>(user, isNew).
     and_then (if \<not> u_phoneVerified user then markPhoneVerified (u_id user) else svc_ret ()) (\<lambda>_.
     svc_ret (issueSession lib cfg env (u_id user) True isNew))))"

definition verifyEmailOtp ::
  "kdf \<Rightarrow> 'tok jwt \<Rightarrow> auth_config \<Rightarrow> env \<Rightarrow> verify_otp_request \<Rightarrow> 'tok auth_session svc" where
  "verifyEmailOtp scrypt lib cfg env request =
     and_then (redeem scrypt cfg env By_email request) (\<lambda>email.
     and_then (findOrCreateByEmail env email) (\<lambda>(user, isNew).
     and_then (if \<not> u_emailVerified user then markEmailVerified (u_id user) else svc_ret ()) (\<lambda>_.
     svc_ret (issueSession lib cfg env (u_id user) (u_phoneVerified user) isNew))))"

end
