(* ===== verification/Sessions.thy ===== *)
theory Sessions
  imports Identity
begin

text \<open>
  What the authentication operations guarantee: a stored code answers only to itself, a
  challenge gives at most one session and evaluates a bounded number of guesses whatever the
  order of calls, and the two kinds of token are not interchangeable.
\<close>

section \<open>Stored codes\<close>

lemma hex_value_digit: "n < 16 \<Longrightarrow> hex_value (hex_digit n) = Some n"
  by (auto simp: hex_value_def hex_digit_def digit_char_def Let_def)

lemma hex_digit_colon: "n < 16 \<Longrightarrow> hex_digit n \<noteq> CHR '':''"
proof -
  have "hex_value CHR '':'' = None" by code_simp
  then show "n < 16 \<Longrightarrow> hex_digit n \<noteq> CHR '':''" using hex_value_digit by force
qed

lemma unat_byte: "unat (b :: 8 word) < 256"
proof -
  have "(unsigned b :: nat) < 2 ^ LENGTH(8)" by (rule unsigned_less)
  then show ?thesis by simp
qed

lemma byte_halves [simp]: "unat (b :: 8 word) div 16 < 16" "unat b mod 16 < 16"
  using unat_byte [of b] by auto

lemma from_to_hex [simp]: "from_hex (to_hex bs) = bs"
proof (induction bs)
  case (Cons b bs)
  have "(of_nat (16 * (unat b div 16) + unat b mod 16) :: 8 word) = b"
    by (simp only: mult_div_mod_eq) simp
  then show ?case using Cons by (simp add: hex_value_digit del: of_nat_add of_nat_mult)
qed simp

lemma colon_notin_hex: "CHR '':'' \<notin> set (to_hex bs)"
  by (induction bs) (auto simp: hex_digit_colon dest: sym)

lemma split_on_plain: "sep \<notin> set s \<Longrightarrow> split_on sep s = [s]"
  by (induction s) auto

lemma split_on_two: "sep \<notin> set s \<Longrightarrow> split_on sep (s @ sep # t) = s # split_on sep t"
  by (induction s) auto

lemma to_hex_empty [simp]: "to_hex bs = [] \<longleftrightarrow> bs = []"
  by (cases bs) auto

text \<open>A stored code answers to the guesses that derive the same key and to no other: the
  stored text is read back as the salt and key it was written from, so if the derivation
  separates two codes under the salt, the wrong one is refused and the right one accepted.\<close>

theorem stored_code_roundtrip:
  assumes "salt \<noteq> []" "length (scrypt code salt 32) = 32" "length (scrypt guess salt 32) = 32"
  shows "otp_matches scrypt guess (hashOtp scrypt salt code) \<longleftrightarrow> scrypt guess salt 32 = scrypt code salt 32"
proof -
  let ?key = "scrypt code salt 32"
  have "split_on CHR '':'' (hashOtp scrypt salt code) = [to_hex salt, to_hex ?key]"
    by (simp add: hashOtp_def split_on_two split_on_plain colon_notin_hex)
  moreover have "?key \<noteq> []" using assms(2) by auto
  ultimately show ?thesis using assms by (simp add: otp_matches_def)
qed

definition demo_kdf :: kdf where
  "demo_kdf code salt n = take n (map (of_nat \<circ> of_char) code @ salt @ replicate n 0)"

section \<open>Redeeming a challenge\<close>

definition find_challenge :: "uuid \<Rightarrow> store \<Rightarrow> otp_row option" where
  "find_challenge i st = List.find (\<lambda>c. otp_id c = i) (otp_challenges st)"

definition redeemable :: "kdf \<Rightarrow> auth_config \<Rightarrow> env \<Rightarrow> otp_channel \<Rightarrow> string \<Rightarrow> otp_row \<Rightarrow> bool" where
  "redeemable scrypt cfg env channel code c \<longleftrightarrow>
     truthy_str (channel_id channel c) \<and> otp_consumedAt c = None \<and> now env \<le> otp_expiresAt c
     \<and> otp_attempts c < OTP_MAX_ATTEMPTS cfg \<and> otp_matches scrypt code (otp_codeHash c)"

definition consume :: "env \<Rightarrow> otp_row \<Rightarrow> otp_row" where
  "consume env c = c\<lparr>otp_consumedAt := Some (now env)\<rparr>"

definition missed :: "otp_row \<Rightarrow> otp_row" where
  "missed c = c\<lparr>otp_attempts := otp_attempts c + 1\<rparr>"

definition challenge_put :: "uuid \<Rightarrow> (otp_row \<Rightarrow> otp_row) \<Rightarrow> store \<Rightarrow> store" where
  "challenge_put i f st = put_otp_challenges (update_where (\<lambda>c. otp_id c = i) f (otp_challenges st)) st"

lemma find_challenge_id: "find_challenge i st = Some c \<Longrightarrow> otp_id c = i"
  by (auto simp: find_challenge_def dest: find_SomeD)

lemma otp_update_known:
  "find_challenge i st = Some c \<Longrightarrow> otp_update i f st = (challenge_put i f st, Inr (f c))"
  by (simp add: otp_update_def global_update_def find_challenge_def challenge_put_def)

lemma redeem_cases:
  obtains (refused) e where "redeem scrypt cfg env channel r st = (st, Inl e)" "e \<noteq> Unauthorized ''Incorrect code''"
      "\<And>c. find_challenge (vo_challengeId r) st = Some c \<Longrightarrow> \<not> redeemable scrypt cfg env channel (vo_code r) c"
  | (missed) c where "find_challenge (vo_challengeId r) st = Some c" "otp_consumedAt c = None"
      "otp_attempts c < OTP_MAX_ATTEMPTS cfg" "\<not> redeemable scrypt cfg env channel (vo_code r) c"
      "redeem scrypt cfg env channel r st = (challenge_put (vo_challengeId r) missed st, Inl (Unauthorized ''Incorrect code''))"
  | (consumed) c who where "find_challenge (vo_challengeId r) st = Some c"
      "redeemable scrypt cfg env channel (vo_code r) c" "channel_id channel c = Some who"
      "redeem scrypt cfg env channel r st = (challenge_put (vo_challengeId r) (consume env) st, Inr who)"
proof (cases "find_challenge (vo_challengeId r) st")
  case None
  then show ?thesis
    by (intro refused [of "BadRequest ''Invalid or expired challenge''"]) (simp_all add: redeem_def find_challenge_def)
next
  case (Some c)
  note upd = otp_update_known [OF Some]
  have i: "otp_id c = vo_challengeId r" by (rule find_challenge_id [OF Some])
  have run: "redeem scrypt cfg env channel r st =
      (if \<not> truthy_str (channel_id channel c) then (st, Inl (BadRequest ''Invalid or expired challenge''))
       else if otp_consumedAt c \<noteq> None then (st, Inl (BadRequest ''Challenge already used''))
       else if otp_expiresAt c < now env then (st, Inl (BadRequest ''Challenge expired''))
       else if otp_attempts c \<ge> OTP_MAX_ATTEMPTS cfg then (st, Inl (BadRequest ''Too many attempts''))
       else if \<not> otp_matches scrypt (vo_code r) (otp_codeHash c)
         then (challenge_put (vo_challengeId r) missed st, Inl (Unauthorized ''Incorrect code''))
       else (challenge_put (vo_challengeId r) (consume env) st, Inr (the (channel_id channel c))))"
    using Some upd i
    by (auto simp: redeem_def find_challenge_def and_then_def missed_def [abs_def] consume_def [abs_def])
  consider (ok) "redeemable scrypt cfg env channel (vo_code r) c"
    | (wrong) "truthy_str (channel_id channel c)" "otp_consumedAt c = None" "\<not> otp_expiresAt c < now env"
        "otp_attempts c < OTP_MAX_ATTEMPTS cfg" "\<not> otp_matches scrypt (vo_code r) (otp_codeHash c)"
    | (no) "\<not> truthy_str (channel_id channel c) \<or> otp_consumedAt c \<noteq> None \<or> otp_expiresAt c < now env
        \<or> otp_attempts c \<ge> OTP_MAX_ATTEMPTS cfg"
    unfolding redeemable_def using not_less by blast
  then show ?thesis
  proof cases
    case ok
    then obtain who where "channel_id channel c = Some who"
      by (auto simp: redeemable_def truthy_str_def)
    then show ?thesis using consumed [OF Some ok] run ok by (auto simp: redeemable_def)
  next
    case wrong
    then show ?thesis using missed [OF Some] run by (auto simp: redeemable_def)
  next
    case no
    then have "\<exists>m. redeem scrypt cfg env channel r st = (st, Inl (BadRequest m))" using run by auto
    then show ?thesis using refused Some no by (auto simp: redeemable_def)
  qed
qed

lemma redeem_others: "fst (redeem scrypt cfg env channel r st) = st
    \<or> (\<exists>f. (\<forall>c. otp_id (f c) = otp_id c) \<and> fst (redeem scrypt cfg env channel r st) = challenge_put (vo_challengeId r) f st)"
  by (rule redeem_cases [of scrypt cfg env channel r st])
     (auto intro: exI [of _ missed] exI [of _ "consume env"] simp: missed_def consume_def)

section \<open>Accounts\<close>

lemma create_or_find_challenges:
  "otp_challenges (fst (create_or_find env phone email P st)) = otp_challenges st"
  by (auto simp: create_or_find_def user_create_def global_create_def Let_def split: option.splits)

lemma user_update_challenges: "otp_challenges (fst (user_update i f st)) = otp_challenges st"
  by (auto simp: user_update_def global_update_def split: option.splits)

lemma mark_verified:
  assumes "u \<in> set (users st)" "u_id u = i"
  shows "markPhoneVerified i st = (put_users (update_where (\<lambda>r. u_id r = i) (\<lambda>u. u\<lparr>u_phoneVerified := True\<rparr>) (users st)) st, Inr ())"
    "markEmailVerified i st = (put_users (update_where (\<lambda>r. u_id r = i) (\<lambda>u. u\<lparr>u_emailVerified := True\<rparr>) (users st)) st, Inr ())"
  using assms by (auto simp: markPhoneVerified_def markEmailVerified_def user_update_def global_update_def and_then_def
      find_None_all split: option.splits)

text \<open>Creating or finding always answers a row of the table with the phone or address asked for.\<close>

lemma create_or_find_row:
  assumes "\<And>q. user_clash (new_user env phone email (fresh_id st)) q \<longleftrightarrow> P q" "P (new_user env phone email (fresh_id st))"
  shows "\<exists>u. create_or_find env phone email P st =
      ((if list_ex P (users st) then st else put_users (users st @ [u]) (draw st)), Inr (u, \<not> list_ex P (users st)))
     \<and> P u \<and> u \<in> set (users (if list_ex P (users st) then st else put_users (users st @ [u]) (draw st)))"
proof -
  have clash: "user_clash (new_user env phone email (fresh_id st)) = P" using assms(1) by (simp add: fun_eq_iff)
  show ?thesis
  proof (cases "list_ex P (users st)")
    case True
    then obtain u where "List.find P (users st) = Some u"
      by (cases "List.find P (users st)") (auto simp: find_None_all list_ex_iff)
    then show ?thesis
      using True find_SomeD [of P "users st" u]
      by (auto simp: create_or_find_def user_create_def global_create_def Let_def clash)
  next
    case False
    then show ?thesis
      using assms(2) by (auto simp: create_or_find_def user_create_def global_create_def Let_def clash)
  qed
qed

lemma findOrCreateByPhone_row:
  obtains st' u isNew where "findOrCreateByPhone env phone st = (st', Inr (u, isNew))" "u_phone u = Some phone"
    "u \<in> set (users st')" "otp_challenges st' = otp_challenges st"
proof -
  have "\<exists>st' u isNew. findOrCreateByPhone env phone st = (st', Inr (u, isNew)) \<and> u_phone u = Some phone \<and> u \<in> set (users st')"
    using create_or_find_row [of env "Some phone" None st "\<lambda>u. u_phone u = Some phone"]
    by (auto simp: findOrCreateByPhone_def user_clash_def new_user_def)
  then show thesis
    using that create_or_find_challenges [of env "Some phone" None "\<lambda>u. u_phone u = Some phone" st]
    by (auto simp: findOrCreateByPhone_def)
qed

lemma findOrCreateByEmail_row:
  obtains st' u isNew where "findOrCreateByEmail env email st = (st', Inr (u, isNew))" "u_email u = Some email"
    "u \<in> set (users st')" "otp_challenges st' = otp_challenges st"
proof -
  have "\<exists>st' u isNew. findOrCreateByEmail env email st = (st', Inr (u, isNew)) \<and> u_email u = Some email \<and> u \<in> set (users st')"
    using create_or_find_row [of env None "Some email" st "\<lambda>u. u_email u = Some email"]
    by (auto simp: findOrCreateByEmail_def user_clash_def new_user_def)
  then show thesis
    using that create_or_find_challenges [of env None "Some email" "\<lambda>u. u_email u = Some email" st]
    by (auto simp: findOrCreateByEmail_def)
qed

text \<open>After a redeemed challenge the rest of a verification always answers a session, of an
  account with the proved phone or address, marked verified.\<close>

lemma verifyOtp_steps:
  shows "redeem scrypt cfg env By_phone r st = (st1, Inl e) \<Longrightarrow> verifyOtp scrypt lib cfg env r st = (st1, Inl e)"
    and "redeem scrypt cfg env By_phone r st = (st1, Inr phone) \<Longrightarrow>
      \<exists>st' s. verifyOtp scrypt lib cfg env r st = (st', Inr s) \<and> otp_challenges st' = otp_challenges st1
        \<and> (\<exists>u\<in>set (users st'). u_id u = as_userId s \<and> u_phone u = Some phone \<and> u_phoneVerified u)"
proof -
  show "redeem scrypt cfg env By_phone r st = (st1, Inl e) \<Longrightarrow> verifyOtp scrypt lib cfg env r st = (st1, Inl e)"
    by (simp add: verifyOtp_def and_then_def)
  assume redeem: "redeem scrypt cfg env By_phone r st = (st1, Inr phone)"
  obtain st2 u isNew where u: "findOrCreateByPhone env phone st1 = (st2, Inr (u, isNew))" "u_phone u = Some phone"
    "u \<in> set (users st2)" "otp_challenges st2 = otp_challenges st1"
    by (rule findOrCreateByPhone_row)
  let ?st = "if u_phoneVerified u then st2
     else put_users (update_where (\<lambda>r. u_id r = u_id u) (\<lambda>u. u\<lparr>u_phoneVerified := True\<rparr>) (users st2)) st2"
  have "verifyOtp scrypt lib cfg env r st = (?st, Inr (issueSession lib cfg env (u_id u) True isNew))"
    using redeem u(1) mark_verified(1) [OF u(3) refl] by (simp add: verifyOtp_def and_then_def)
  moreover have "\<exists>v\<in>set (users ?st). u_id v = u_id u \<and> u_phone v = Some phone \<and> u_phoneVerified v"
  proof (cases "u_phoneVerified u")
    case False
    then show ?thesis using u(2,3) by (intro bexI [of _ "u\<lparr>u_phoneVerified := True\<rparr>"]) (auto simp: in_update_where)
  qed (use u in auto)
  ultimately show "\<exists>st' s. verifyOtp scrypt lib cfg env r st = (st', Inr s) \<and> otp_challenges st' = otp_challenges st1
      \<and> (\<exists>u\<in>set (users st'). u_id u = as_userId s \<and> u_phone u = Some phone \<and> u_phoneVerified u)"
    using u(4) by (intro exI [of _ ?st] exI [of _ "issueSession lib cfg env (u_id u) True isNew"])
      (simp add: issueSession_def Let_def)
qed

lemma verifyEmailOtp_steps:
  shows "redeem scrypt cfg env By_email r st = (st1, Inl e) \<Longrightarrow> verifyEmailOtp scrypt lib cfg env r st = (st1, Inl e)"
    and "redeem scrypt cfg env By_email r st = (st1, Inr email) \<Longrightarrow>
      \<exists>st' s. verifyEmailOtp scrypt lib cfg env r st = (st', Inr s) \<and> otp_challenges st' = otp_challenges st1
        \<and> (\<exists>u\<in>set (users st'). u_id u = as_userId s \<and> u_email u = Some email \<and> u_emailVerified u)"
proof -
  show "redeem scrypt cfg env By_email r st = (st1, Inl e) \<Longrightarrow> verifyEmailOtp scrypt lib cfg env r st = (st1, Inl e)"
    by (simp add: verifyEmailOtp_def and_then_def)
  assume redeem: "redeem scrypt cfg env By_email r st = (st1, Inr email)"
  obtain st2 u isNew where u: "findOrCreateByEmail env email st1 = (st2, Inr (u, isNew))" "u_email u = Some email"
    "u \<in> set (users st2)" "otp_challenges st2 = otp_challenges st1"
    by (rule findOrCreateByEmail_row)
  let ?st = "if u_emailVerified u then st2
     else put_users (update_where (\<lambda>r. u_id r = u_id u) (\<lambda>u. u\<lparr>u_emailVerified := True\<rparr>) (users st2)) st2"
  have "verifyEmailOtp scrypt lib cfg env r st = (?st, Inr (issueSession lib cfg env (u_id u) (u_phoneVerified u) isNew))"
    using redeem u(1) mark_verified(2) [OF u(3) refl] by (simp add: verifyEmailOtp_def and_then_def)
  moreover have "\<exists>v\<in>set (users ?st). u_id v = u_id u \<and> u_email v = Some email \<and> u_emailVerified v"
  proof (cases "u_emailVerified u")
    case False
    then show ?thesis using u(2,3) by (intro bexI [of _ "u\<lparr>u_emailVerified := True\<rparr>"]) (auto simp: in_update_where)
  qed (use u in auto)
  ultimately show "\<exists>st' s. verifyEmailOtp scrypt lib cfg env r st = (st', Inr s) \<and> otp_challenges st' = otp_challenges st1
      \<and> (\<exists>u\<in>set (users st'). u_id u = as_userId s \<and> u_email u = Some email \<and> u_emailVerified u)"
    using u(4) by (intro exI [of _ ?st] exI [of _ "issueSession lib cfg env (u_id u) (u_phoneVerified u) isNew"])
      (simp add: issueSession_def Let_def)
qed

section \<open>Sequences of calls\<close>

datatype auth_command =
    Start_phone "nat list" bytes string
  | Start_email "nat list" bytes string
  | Verify_phone verify_otp_request
  | Verify_email verify_otp_request

text \<open>What a command changes, and for a verification of challenge \<open>i\<close> what it found out.\<close>

datatype outcome = Session_given | Wrong_code | Not_evaluated

definition verdict :: "uuid \<Rightarrow> uuid \<Rightarrow> error + 'a \<Rightarrow> outcome" where
  "verdict i asked r = (if asked \<noteq> i then Not_evaluated
     else case r of Inr _ \<Rightarrow> Session_given
       | Inl e \<Rightarrow> if e = Unauthorized ''Incorrect code'' then Wrong_code else Not_evaluated)"

fun auth_step :: "kdf \<Rightarrow> 'tok jwt \<Rightarrow> auth_config \<Rightarrow> uuid \<Rightarrow> env \<Rightarrow> auth_command \<Rightarrow> store \<Rightarrow> store \<times> outcome" where
  "auth_step scrypt lib cfg i env (Start_phone draws salt phone) st =
     (fst (startOtp scrypt cfg True env draws salt phone st), Not_evaluated)"
| "auth_step scrypt lib cfg i env (Start_email draws salt email) st =
     (fst (startEmailOtp scrypt cfg True env draws salt email st), Not_evaluated)"
| "auth_step scrypt lib cfg i env (Verify_phone r) st =
     (case verifyOtp scrypt lib cfg env r st of (st', res) \<Rightarrow> (st', verdict i (vo_challengeId r) res))"
| "auth_step scrypt lib cfg i env (Verify_email r) st =
     (case verifyEmailOtp scrypt lib cfg env r st of (st', res) \<Rightarrow> (st', verdict i (vo_challengeId r) res))"

fun auth_run :: "kdf \<Rightarrow> 'tok jwt \<Rightarrow> auth_config \<Rightarrow> uuid \<Rightarrow> (env \<times> auth_command) list \<Rightarrow> store \<Rightarrow> outcome list" where
  "auth_run scrypt lib cfg i [] st = []"
| "auth_run scrypt lib cfg i ((env, c) # cs) st =
     (case auth_step scrypt lib cfg i env c st of (st', o') \<Rightarrow> o' # auth_run scrypt lib cfg i cs st')"

text \<open>The guesses a challenge still has: none once it was used.\<close>

definition guesses_left :: "auth_config \<Rightarrow> uuid \<Rightarrow> store \<Rightarrow> nat" where
  "guesses_left cfg i st =
     (case find_challenge i st of
        None \<Rightarrow> 0
      | Some c \<Rightarrow> if otp_consumedAt c \<noteq> None then 0 else nat (OTP_MAX_ATTEMPTS cfg - otp_attempts c))"

lemma find_after_put:
  "(\<And>c. otp_id (f c) = otp_id c) \<Longrightarrow>
   find_challenge i (challenge_put j f st) = (if i = j then map_option f (find_challenge i st) else find_challenge i st)"
proof -
  assume id: "\<And>c. otp_id (f c) = otp_id c"
  have "List.find (\<lambda>c. otp_id c = i) (update_where (\<lambda>c. otp_id c = j) f cs) =
      (if i = j then map_option f (List.find (\<lambda>c. otp_id c = i) cs) else List.find (\<lambda>c. otp_id c = i) cs)" for cs
    using id by (induction cs) auto
  then show ?thesis by (simp add: find_challenge_def challenge_put_def)
qed

lemma find_challenge_cong: "otp_challenges st' = otp_challenges st \<Longrightarrow> find_challenge i st' = find_challenge i st"
  by (simp add: find_challenge_def)

lemma guesses_cong: "otp_challenges st' = otp_challenges st \<Longrightarrow> guesses_left cfg i st' = guesses_left cfg i st"
  by (simp add: guesses_left_def find_challenge_def)

lemma missed_id [simp]: "otp_id (missed c) = otp_id c" "otp_consumedAt (missed c) = otp_consumedAt c"
    "otp_attempts (missed c) = otp_attempts c + 1"
  and consume_id [simp]: "otp_id (consume env c) = otp_id c" "otp_consumedAt (consume env c) = Some (now env)"
  by (simp_all add: missed_def consume_def)

definition outcome_cost :: "outcome \<Rightarrow> nat" where
  "outcome_cost v = (if v = Not_evaluated then 0 else 1)"

text \<open>One verification costs what it evaluates, and a session uses the challenge up.\<close>

lemma redeem_budget:
  fixes cfg :: auth_config and i :: uuid
  assumes "redeem scrypt cfg env channel r st = (st', res)"
  defines "v \<equiv> verdict i (vo_challengeId r) res"
  shows "guesses_left cfg i st' + outcome_cost v \<le> guesses_left cfg i st"
    and "v = Session_given \<Longrightarrow> guesses_left cfg i st' = 0"
proof -
  have "guesses_left cfg i st' + outcome_cost v \<le> guesses_left cfg i st
      \<and> (v = Session_given \<longrightarrow> guesses_left cfg i st' = 0)"
  proof (rule redeem_cases [of scrypt cfg env channel r st])
    fix e assume "redeem scrypt cfg env channel r st = (st, Inl e)" "e \<noteq> Unauthorized ''Incorrect code''"
    then have "st' = st" "res = Inl e" using assms(1) by simp_all
    then show ?thesis using \<open>e \<noteq> _\<close> by (simp add: v_def verdict_def outcome_cost_def)
  next
    fix c assume c: "find_challenge (vo_challengeId r) st = Some c" "otp_consumedAt c = None"
      "otp_attempts c < OTP_MAX_ATTEMPTS cfg"
      "redeem scrypt cfg env channel r st = (challenge_put (vo_challengeId r) missed st, Inl (Unauthorized ''Incorrect code''))"
    then have "st' = challenge_put (vo_challengeId r) missed st" "res = Inl (Unauthorized ''Incorrect code'')"
      using assms(1) by simp_all
    then show ?thesis using c(1-3)
      by (cases "i = vo_challengeId r") (auto simp: v_def verdict_def outcome_cost_def guesses_left_def find_after_put)
  next
    fix c who assume c: "find_challenge (vo_challengeId r) st = Some c" "redeemable scrypt cfg env channel (vo_code r) c"
      "redeem scrypt cfg env channel r st = (challenge_put (vo_challengeId r) (consume env) st, Inr who)"
    then have "st' = challenge_put (vo_challengeId r) (consume env) st" "res = Inr who"
      using assms(1) by simp_all
    then show ?thesis using c(1,2)
      by (cases "i = vo_challengeId r")
         (auto simp: v_def verdict_def outcome_cost_def guesses_left_def find_after_put redeemable_def)
  qed
  then show "guesses_left cfg i st' + outcome_cost v \<le> guesses_left cfg i st"
    "v = Session_given \<Longrightarrow> guesses_left cfg i st' = 0" by auto
qed

lemma start_budget:
  assumes "find_challenge i st \<noteq> None"
  shows "find_challenge i (fst (startOtp scrypt cfg b env draws salt phone st)) = find_challenge i st"
    "find_challenge i (fst (startEmailOtp scrypt cfg b env draws salt email st)) = find_challenge i st"
proof -
  have create: "find_challenge i (fst (otp_create mk st)) = find_challenge i st" for mk
    using assms by (auto simp: otp_create_def global_create_def Let_def find_challenge_def find_append list_ex_iff)
  show "find_challenge i (fst (startOtp scrypt cfg b env draws salt phone st)) = find_challenge i st"
    "find_challenge i (fst (startEmailOtp scrypt cfg b env draws salt email st)) = find_challenge i st"
    using create
    by (auto simp: startOtp_def startEmailOtp_def assertCooldownElapsed_def and_then_def Let_def
        otp_create_def global_create_def list_ex_iff split: list.splits option.splits)
qed

lemma auth_step_budget:
  fixes cfg :: auth_config
  assumes "find_challenge i st \<noteq> None" "auth_step scrypt lib cfg i env c st = (st', v)"
  shows "guesses_left cfg i st' + outcome_cost v \<le> guesses_left cfg i st
     \<and> (v = Session_given \<longrightarrow> guesses_left cfg i st' = 0) \<and> find_challenge i st' \<noteq> None"
proof -
  have found: "find_challenge i (fst (redeem scrypt cfg env channel r st)) \<noteq> None" for channel r
  proof (rule disjE [OF redeem_others [of scrypt cfg env channel r st]])
    assume "\<exists>f. (\<forall>c. otp_id (f c) = otp_id c) \<and> fst (redeem scrypt cfg env channel r st) = challenge_put (vo_challengeId r) f st"
    then obtain f where "\<And>c. otp_id (f c) = otp_id c"
      "fst (redeem scrypt cfg env channel r st) = challenge_put (vo_challengeId r) f st" by blast
    then show ?thesis using assms(1) by (cases "i = vo_challengeId r") (auto simp: find_after_put)
  qed (use assms(1) in simp)
  show ?thesis
  proof (cases c)
    case (Verify_phone r)
    obtain st1 res where redeem: "redeem scrypt cfg env By_phone r st = (st1, res)" by fastforce
    then have "otp_challenges st' = otp_challenges st1 \<and> v = verdict i (vo_challengeId r) res"
      using assms(2) verifyOtp_steps [of scrypt cfg env r st st1 _ lib] Verify_phone
      by (cases res) (fastforce simp: verdict_def)+
    then show ?thesis
      using redeem_budget [OF redeem, of i] found [of By_phone r] redeem guesses_cong [of st' st1] find_challenge_cong [of st' st1]
      by auto
  next
    case (Verify_email r)
    obtain st1 res where redeem: "redeem scrypt cfg env By_email r st = (st1, res)" by fastforce
    then have "otp_challenges st' = otp_challenges st1 \<and> v = verdict i (vo_challengeId r) res"
      using assms(2) verifyEmailOtp_steps [of scrypt cfg env r st st1 _ lib] Verify_email
      by (cases res) (fastforce simp: verdict_def)+
    then show ?thesis
      using redeem_budget [OF redeem, of i] found [of By_email r] redeem guesses_cong [of st' st1] find_challenge_cong [of st' st1]
      by auto
  qed (use assms start_budget [OF assms(1)] in \<open>auto simp: outcome_cost_def guesses_left_def\<close>)
qed

lemma spent_run:
  assumes "find_challenge i st \<noteq> None" "guesses_left cfg i st = 0"
  shows "filter (\<lambda>v. v \<noteq> Not_evaluated) (auth_run scrypt lib cfg i cs st) = []"
  using assms
proof (induction cs arbitrary: st)
  case (Cons c cs)
  obtain env d where c: "c = (env, d)" by fastforce
  obtain st' v where step: "auth_step scrypt lib cfg i env d st = (st', v)" by fastforce
  show ?case
    using auth_step_budget [OF Cons.prems(1) step] Cons.IH [of st'] Cons.prems c step
    by (auto simp: outcome_cost_def split: if_splits)
qed simp

lemma bounded_run:
  assumes "find_challenge i st \<noteq> None"
  shows "count_list (auth_run scrypt lib cfg i cs st) Session_given \<le> 1
     \<and> length (filter (\<lambda>v. v \<noteq> Not_evaluated) (auth_run scrypt lib cfg i cs st)) \<le> guesses_left cfg i st"
  using assms
proof (induction cs arbitrary: st)
  case (Cons c cs)
  obtain env d where c: "c = (env, d)" by fastforce
  obtain st' v where step: "auth_step scrypt lib cfg i env d st = (st', v)" by fastforce
  note facts = auth_step_budget [OF Cons.prems step]
  have "count_list (auth_run scrypt lib cfg i cs st') Session_given = 0" if "v = Session_given"
  proof -
    have "filter (\<lambda>v. v \<noteq> Not_evaluated) (auth_run scrypt lib cfg i cs st') = []"
      using facts that by (intro spent_run) auto
    then show ?thesis by (auto simp: count_list_0_iff filter_empty_conv)
  qed
  then show ?case
    using facts Cons.IH [of st'] c step by (auto simp: outcome_cost_def split: if_splits)
qed simp

section \<open>Properties\<close>

text \<open>A session is given exactly when the code is right in time: verifying a phone code
  answers a session if the challenge exists, was issued to a phone, is unused, unexpired, has
  guesses left, and the code matches its hash, and fails without touching an account
  otherwise. The session is of an account with that phone, now verified, and the challenge
  is used.\<close>

theorem otp_verification_exact:
  "case find_challenge (vo_challengeId r) st of
     None \<Rightarrow> verifyOtp scrypt lib cfg env r st = (st, Inl (BadRequest ''Invalid or expired challenge''))
   | Some c \<Rightarrow>
       if redeemable scrypt cfg env By_phone (vo_code r) c
       then \<exists>st' s. verifyOtp scrypt lib cfg env r st = (st', Inr s)
          \<and> find_challenge (vo_challengeId r) st' = Some (consume env c)
          \<and> (\<exists>u\<in>set (users st'). u_id u = as_userId s \<and> u_phone u = otp_phone c \<and> u_phoneVerified u)
       else \<exists>st' e. verifyOtp scrypt lib cfg env r st = (st', Inl e) \<and> users st' = users st"
proof (cases "find_challenge (vo_challengeId r) st")
  case None
  then show ?thesis by (simp add: verifyOtp_def and_then_def redeem_def find_challenge_def)
next
  case (Some c)
  show ?thesis
  proof (rule redeem_cases [of scrypt cfg env By_phone r st])
    fix e assume "redeem scrypt cfg env By_phone r st = (st, Inl e)"
      and "\<And>c. find_challenge (vo_challengeId r) st = Some c \<Longrightarrow> \<not> redeemable scrypt cfg env By_phone (vo_code r) c"
    then show ?thesis using Some verifyOtp_steps(1) [of scrypt cfg env r st st e lib] by auto
  next
    fix d assume "find_challenge (vo_challengeId r) st = Some d" "\<not> redeemable scrypt cfg env By_phone (vo_code r) d"
      and "redeem scrypt cfg env By_phone r st = (challenge_put (vo_challengeId r) missed st, Inl (Unauthorized ''Incorrect code''))"
    then show ?thesis using Some verifyOtp_steps(1) [of scrypt cfg env r st _ _ lib] by (auto simp: challenge_put_def)
  next
    fix d who assume d: "find_challenge (vo_challengeId r) st = Some d"
      "redeemable scrypt cfg env By_phone (vo_code r) d" "channel_id By_phone d = Some who"
      "redeem scrypt cfg env By_phone r st = (challenge_put (vo_challengeId r) (consume env) st, Inr who)"
    then obtain st' s where "verifyOtp scrypt lib cfg env r st = (st', Inr s)"
      "otp_challenges st' = otp_challenges (challenge_put (vo_challengeId r) (consume env) st)"
      "\<exists>u\<in>set (users st'). u_id u = as_userId s \<and> u_phone u = Some who \<and> u_phoneVerified u"
      using verifyOtp_steps(2) [OF d(4), of lib] by blast
    moreover have "find_challenge (vo_challengeId r) st' = Some (consume env d)"
      unfolding find_challenge_cong [OF calculation(2)] using d(1) by (simp add: find_after_put)
    ultimately show ?thesis using Some d(1-3) by auto
  qed
qed

text \<open>C6. A challenge cannot be guessed: over any sequence of code requests and verifications, by
  phone and mail, in any order and at any times, a challenge gives at most one session, and
  no more of the codes tried on it are looked at than the configured attempts allow.\<close>

theorem otp_guesses_bounded:
  assumes "find_challenge i st = Some c" "0 \<le> otp_attempts c"
  shows "count_list (auth_run scrypt lib cfg i cs st) Session_given \<le> 1
    \<and> length (filter (\<lambda>v. v \<noteq> Not_evaluated) (auth_run scrypt lib cfg i cs st)) \<le> nat (OTP_MAX_ATTEMPTS cfg)"
proof -
  have "guesses_left cfg i st \<le> nat (OTP_MAX_ATTEMPTS cfg)"
    using assms by (simp add: guesses_left_def nat_mono)
  then show ?thesis
    using bounded_run [of i st scrypt lib cfg cs] assms(1) by simp
qed

definition demo_cfg :: auth_config where
  "demo_cfg = \<lparr>OTP_TTL_SECONDS = 300, OTP_MAX_ATTEMPTS = 2, OTP_COOLDOWN_SECONDS = 30, AUTH_EXPOSE_OTP = False,
     JWT_SECRET = ''a-long-enough-secret'', JWT_TTL_SECONDS = 3600, JWT_REFRESH_TTL_SECONDS = 2592000\<rparr>"

text \<open>A token library whose tokens are the signed data.\<close>

definition demo_jwt :: "(jwt_payload \<times> string \<times> int) jwt" where
  "demo_jwt = \<lparr>jwt_sign = (\<lambda>p s n t. (p, s, t div 1000 + n)),
     jwt_verify = (\<lambda>(p, s, e) s' t. if s' = s \<and> t div 1000 < e then Some p else None)\<rparr>"

definition demo_challenged :: store where
  "demo_challenged = fst (startOtp demo_kdf demo_cfg True demo_env [1, 2, 3, 4, 5, 6] [1, 255] ''0700'' demo_store)"

definition demo_guess :: "string \<Rightarrow> env \<times> auth_command" where
  "demo_guess code = (demo_env, Verify_phone \<lparr>vo_challengeId = ''x'', vo_code = code\<rparr>)"

theorem otp_guesses_bounded_witness:
  "auth_run demo_kdf demo_jwt demo_cfg ''x'' [demo_guess ''000000'', demo_guess ''123456'', demo_guess ''123456''] demo_challenged
     = [Wrong_code, Session_given, Not_evaluated]
   \<and> count_list (auth_run demo_kdf demo_jwt demo_cfg ''x''
        [demo_guess ''000000'', demo_guess ''123456'', demo_guess ''123456''] demo_challenged) Session_given \<le> 1"
proof -
  have run: "auth_run demo_kdf demo_jwt demo_cfg ''x'' [demo_guess ''000000'', demo_guess ''123456'', demo_guess ''123456''] demo_challenged
     = [Wrong_code, Session_given, Not_evaluated]" by code_simp
  have "map_option otp_attempts (find_challenge ''x'' demo_challenged) = Some 0" by code_simp
  then obtain c where "find_challenge ''x'' demo_challenged = Some c" "0 \<le> otp_attempts c" by auto
  from otp_guesses_bounded [OF this, of demo_kdf demo_jwt demo_cfg "[demo_guess ''000000'', demo_guess ''123456'', demo_guess ''123456'']"]
  show ?thesis using run by blast
qed

definition jwt_laws :: "'tok jwt \<Rightarrow> bool" where
  "jwt_laws lib \<longleftrightarrow> (\<forall>p s n t t'. jwt_verify lib (jwt_sign lib p s n t) s t' =
      (if t' div 1000 < t div 1000 + n then Some p else None))"

text \<open>C21. The two kinds of token are not interchangeable: with a token library that answers the
  payload of a signed token until it expires, the access token of a session identifies its
  user exactly until it expires and never renews a session, and the refresh token never
  identifies a caller and renews exactly until it expires, for an account that still
  exists, with that account's verification as it is at that time.\<close>

theorem tokens_separated:
  fixes lib :: "'tok jwt" and session :: "'tok auth_session"
  assumes "jwt_laws lib" "session = issueSession lib cfg env user verified isNew"
  shows "verifyAccessToken lib cfg later (as_accessToken session) =
      (if now later div 1000 < now env div 1000 + JWT_TTL_SECONDS cfg
       then Some \<lparr>userId = user, phoneVerified = verified\<rparr> else None)
    \<and> verifyAccessToken lib cfg later (as_refreshToken session) = None
    \<and> (\<exists>m. refreshToken lib cfg later (as_accessToken session) st = (st, Inl (Unauthorized m)))
    \<and> refreshToken lib cfg later (as_refreshToken session) st =
       (st, if now later div 1000 < now env div 1000 + JWT_REFRESH_TTL_SECONDS cfg
            then case getById user st of
                None \<Rightarrow> Inl (Unauthorized ''User not found'')
              | Some u \<Rightarrow> Inr (issueSession lib cfg later user (u_phoneVerified u) False)
            else Inl (Unauthorized ''Invalid or expired refresh token''))"
proof -
  have found: "u_id u = user" if "getById user st = Some u" for u
    using that by (auto simp: getById_def dest: find_SomeD)
  show ?thesis
    using assms found
    by (auto simp: jwt_laws_def issueSession_def verifyAccessToken_def refreshToken_def Let_def split: option.splits)
qed

theorem tokens_separated_witness:
  "let s = issueSession demo_jwt demo_cfg demo_env ''U1'' True False
   in verifyAccessToken demo_jwt demo_cfg demo_env (as_accessToken s) = Some \<lparr>userId = ''U1'', phoneVerified = True\<rparr>
    \<and> verifyAccessToken demo_jwt demo_cfg demo_env (as_refreshToken s) = None"
proof -
  have "jwt_laws demo_jwt" by (simp add: jwt_laws_def demo_jwt_def)
  then show ?thesis
    using tokens_separated [of demo_jwt _ demo_cfg demo_env "''U1''" True False demo_env]
    by (simp add: demo_cfg_def Let_def)
qed

end
