(* ===== verification/Transparency.thy ===== *)
theory Transparency
  imports Ledger_Query Js_Strings
begin

text \<open>
  The public page of an event: \<^verbatim>\<open>libs/transparency/src/\<close>. Organisers configure what is shown,
  publish announcements and payment instructions; a visitor with the link, and no account,
  reads one projection. The random access token is an argument.
\<close>

section \<open>Statements\<close>

abbreviation visible_announcements :: "session \<Rightarrow> store \<Rightarrow> announcement_row list" where
  "visible_announcements s st \<equiv> tbl_visible an_eventId s (announcements st)"
abbreviation visible_instructions :: "session \<Rightarrow> store \<Rightarrow> instruction_row list" where
  "visible_instructions s st \<equiv> tbl_visible pi_eventId s (instructions st)"

definition announcement_create :: "(uuid \<Rightarrow> announcement_row) \<Rightarrow> announcement_row tx" where
  "announcement_create = tbl_create announcements put_announcements an_eventId"

definition announcement_update :: "uuid \<Rightarrow> (announcement_row \<Rightarrow> announcement_row) \<Rightarrow> announcement_row tx" where
  "announcement_update = tbl_update announcements put_announcements an_eventId an_id"

definition instruction_create :: "(uuid \<Rightarrow> instruction_row) \<Rightarrow> instruction_row tx" where
  "instruction_create = tbl_create instructions put_instructions pi_eventId"

definition instruction_update :: "uuid \<Rightarrow> (instruction_row \<Rightarrow> instruction_row) \<Rightarrow> instruction_row tx" where
  "instruction_update = tbl_update instructions put_instructions pi_eventId pi_id"

definition instruction_delete :: "uuid \<Rightarrow> unit tx" where
  "instruction_delete i s st =
     (if aborted s then Inl (Db TransactionAborted)
      else if List.find (\<lambda>r. pi_id r = i) (visible_instructions s st) = None then Inl (Db RecordNotFound)
      else Inr (put_instructions (delete_where (\<lambda>r. tenant_visible s (pi_eventId r) \<and> pi_id r = i) (instructions st)) st, ()))"

definition bumpRevision :: "uuid \<Rightarrow> unit tx" where
  "bumpRevision eventId =
     await (statement (event_update eventId (\<lambda>e. e\<lparr>e_publicRevision := e_publicRevision e + 1\<rparr>))) (\<lambda>_. ret ())"

section \<open>announcement.service.ts\<close>

record announcement_view =
  anv_id :: uuid
  anv_body :: string
  anv_status :: announcement_status
  anv_source :: provenance
  anv_publishedAt :: "string option"
  anv_createdAt :: string

fun announcement_status_str :: "announcement_status \<Rightarrow> string" where
  "announcement_status_str AN_DRAFT = ''DRAFT''"
| "announcement_status_str AN_PUBLISHED = ''PUBLISHED''"
| "announcement_status_str AN_ARCHIVED = ''ARCHIVED''"

definition announcement_toView :: "announcement_row \<Rightarrow> announcement_view" where
  "announcement_toView a = \<lparr>anv_id = an_id a, anv_body = an_body a, anv_status = an_status a,
     anv_source = an_source a, anv_publishedAt = map_option toISOString (an_publishedAt a),
     anv_createdAt = toISOString (an_createdAt a)\<rparr>"

definition announcement_create_tx ::
  "env \<Rightarrow> operation_context \<Rightarrow> string \<Rightarrow> provenance \<Rightarrow> announcement_view tx" where
  "announcement_create_tx env ctx body source =
     await (announcement_create (\<lambda>i. \<lparr>an_id = i, an_eventId = ctx_ev ctx, an_body = body, an_status = AN_DRAFT,
         an_source = source, an_createdById = Some (ctx_user ctx), an_publishedAt = None, an_createdAt = now env\<rparr>)) (\<lambda>a.
     await (audit_write (now env) \<lparr>ai_eventId = ctx_ev ctx, ai_actorUserId = Some (ctx_user ctx),
         ai_action = ''announcement:create'', ai_resourceType = ''event_announcement'', ai_resourceId = an_id a,
         ai_source = Some source, ai_oldValue = None, ai_newValue = Some (JObj [(''body'', JStr body)])\<rparr>) (\<lambda>_.
     ret (announcement_toView a)))"

definition announcement_create_op ::
  "env \<Rightarrow> operation_context \<Rightarrow> string \<Rightarrow> provenance option \<Rightarrow> announcement_view svc" where
  "announcement_create_op env ctx body source =
     permitted ctx Announcement_write
       (runInEvent (ctx_ev ctx) (announcement_create_tx env ctx body (nullish source human_typed)))"

definition transition_tx ::
  "env \<Rightarrow> operation_context \<Rightarrow> uuid \<Rightarrow> announcement_status \<Rightarrow> string \<Rightarrow> announcement_view tx" where
  "transition_tx env ctx i status action =
     await (query (\<lambda>s st. List.find (\<lambda>a. an_id a = i) (visible_announcements s st))) (\<lambda>current. case current of
       None \<Rightarrow> throw (NotFound ''Announcement not found in this event'')
     | Some c \<Rightarrow>
        await (announcement_update i (\<lambda>a. a\<lparr>an_status := status,
            an_publishedAt := (if status = AN_PUBLISHED then Some (now env) else an_publishedAt a)\<rparr>)) (\<lambda>a.
        await (bumpRevision (ctx_ev ctx)) (\<lambda>_.
        await (audit_write (now env) \<lparr>ai_eventId = ctx_ev ctx, ai_actorUserId = Some (ctx_user ctx),
            ai_action = action, ai_resourceType = ''event_announcement'', ai_resourceId = i, ai_source = None,
            ai_oldValue = Some (JObj [(''status'', JStr (announcement_status_str (an_status c)))]),
            ai_newValue = Some (JObj [(''status'', JStr (announcement_status_str status))])\<rparr>) (\<lambda>_.
        ret (announcement_toView a)))))"

definition announcement_transition ::
  "env \<Rightarrow> operation_context \<Rightarrow> uuid \<Rightarrow> announcement_status \<Rightarrow> string \<Rightarrow> announcement_view svc" where
  "announcement_transition env ctx i status action =
     permitted ctx Announcement_write (runInEvent (ctx_ev ctx) (transition_tx env ctx i status action))"

definition announcement_publish :: "env \<Rightarrow> operation_context \<Rightarrow> uuid \<Rightarrow> announcement_view svc" where
  "announcement_publish env ctx i = announcement_transition env ctx i AN_PUBLISHED ''announcement:publish''"

definition announcement_archive :: "env \<Rightarrow> operation_context \<Rightarrow> uuid \<Rightarrow> announcement_view svc" where
  "announcement_archive env ctx i = announcement_transition env ctx i AN_ARCHIVED ''announcement:archive''"

definition announcement_list :: "operation_context \<Rightarrow> announcement_view list svc" where
  "announcement_list ctx =
     permitted ctx Announcement_read (runInEvent (ctx_ev ctx)
       (query (\<lambda>s st. map announcement_toView (order_desc an_createdAt (visible_announcements s st)))))"

section \<open>payment-instruction.service.ts\<close>

record instruction_view =
  piv_id :: uuid
  piv_method :: payment_method
  piv_label :: string
  piv_details :: string
  piv_displayOrder :: int
  piv_isPublic :: bool

record instruction_input =
  pin_method :: payment_method
  pin_label :: string
  pin_details :: string
  pin_displayOrder :: "int option"
  pin_isPublic :: "bool option"

record instruction_patch =
  pip_method :: "payment_method option"
  pip_label :: "string option"
  pip_details :: "string option"
  pip_displayOrder :: "int option"
  pip_isPublic :: "bool option"

definition instruction_toView :: "instruction_row \<Rightarrow> instruction_view" where
  "instruction_toView r = \<lparr>piv_id = pi_id r, piv_method = pi_method r, piv_label = pi_label r,
     piv_details = pi_details r, piv_displayOrder = pi_displayOrder r, piv_isPublic = pi_isPublic r\<rparr>"

definition instruction_create_tx :: "env \<Rightarrow> operation_context \<Rightarrow> instruction_input \<Rightarrow> instruction_view tx" where
  "instruction_create_tx env ctx input =
     await (instruction_create (\<lambda>i. \<lparr>pi_id = i, pi_eventId = ctx_ev ctx, pi_method = pin_method input,
         pi_label = pin_label input, pi_details = pin_details input,
         pi_displayOrder = nullish (pin_displayOrder input) 0, pi_isPublic = nullish (pin_isPublic input) True,
         pi_createdById = Some (ctx_user ctx), pi_createdAt = now env\<rparr>)) (\<lambda>row.
     await (bumpRevision (ctx_ev ctx)) (\<lambda>_.
     await (audit_write (now env) \<lparr>ai_eventId = ctx_ev ctx, ai_actorUserId = Some (ctx_user ctx),
         ai_action = ''payment_instruction:create'', ai_resourceType = ''payment_instruction'',
         ai_resourceId = pi_id row, ai_source = None, ai_oldValue = None,
         ai_newValue = Some (JObj [(''method'', JStr (method_str (pin_method input))), (''label'', JStr (pin_label input))])\<rparr>) (\<lambda>_.
     ret (instruction_toView row))))"

definition instruction_create_op :: "env \<Rightarrow> operation_context \<Rightarrow> instruction_input \<Rightarrow> instruction_view svc" where
  "instruction_create_op env ctx input =
     permitted ctx Payment_instruction_write (runInEvent (ctx_ev ctx) (instruction_create_tx env ctx input))"

definition find_instruction :: "uuid \<Rightarrow> instruction_row option tx" where
  "find_instruction i = query (\<lambda>s st. List.find (\<lambda>r. pi_id r = i) (visible_instructions s st))"

definition instruction_update_tx :: "env \<Rightarrow> operation_context \<Rightarrow> uuid \<Rightarrow> instruction_patch \<Rightarrow> instruction_view tx" where
  "instruction_update_tx env ctx i input =
     await (find_instruction i) (\<lambda>current. case current of
       None \<Rightarrow> throw (NotFound ''Payment instruction not found in this event'')
     | Some _ \<Rightarrow>
        await (instruction_update i (\<lambda>r. r\<lparr>pi_method := nullish (pip_method input) (pi_method r),
            pi_label := nullish (pip_label input) (pi_label r), pi_details := nullish (pip_details input) (pi_details r),
            pi_displayOrder := nullish (pip_displayOrder input) (pi_displayOrder r),
            pi_isPublic := nullish (pip_isPublic input) (pi_isPublic r)\<rparr>)) (\<lambda>row.
        await (bumpRevision (ctx_ev ctx)) (\<lambda>_.
        await (audit_write (now env) \<lparr>ai_eventId = ctx_ev ctx, ai_actorUserId = Some (ctx_user ctx),
            ai_action = ''payment_instruction:update'', ai_resourceType = ''payment_instruction'',
            ai_resourceId = i, ai_source = None, ai_oldValue = None,
            ai_newValue = Some (JObj [(''method'', JStr (method_str (pi_method row))), (''label'', JStr (pi_label row)),
              (''isPublic'', JBool (pi_isPublic row))])\<rparr>) (\<lambda>_.
        ret (instruction_toView row)))))"

definition instruction_update_op :: "env \<Rightarrow> operation_context \<Rightarrow> uuid \<Rightarrow> instruction_patch \<Rightarrow> instruction_view svc" where
  "instruction_update_op env ctx i input =
     permitted ctx Payment_instruction_write (runInEvent (ctx_ev ctx) (instruction_update_tx env ctx i input))"

definition instruction_remove_tx :: "env \<Rightarrow> operation_context \<Rightarrow> uuid \<Rightarrow> uuid tx" where
  "instruction_remove_tx env ctx i =
     await (find_instruction i) (\<lambda>current. case current of
       None \<Rightarrow> throw (NotFound ''Payment instruction not found in this event'')
     | Some _ \<Rightarrow>
        await (instruction_delete i) (\<lambda>_.
        await (bumpRevision (ctx_ev ctx)) (\<lambda>_.
        await (audit_write (now env) \<lparr>ai_eventId = ctx_ev ctx, ai_actorUserId = Some (ctx_user ctx),
            ai_action = ''payment_instruction:delete'', ai_resourceType = ''payment_instruction'',
            ai_resourceId = i, ai_source = None, ai_oldValue = Some (JObj [(''id'', JStr i)]), ai_newValue = None\<rparr>) (\<lambda>_.
        ret i))))"

definition instruction_remove :: "env \<Rightarrow> operation_context \<Rightarrow> uuid \<Rightarrow> uuid svc" where
  "instruction_remove env ctx i =
     permitted ctx Payment_instruction_write (runInEvent (ctx_ev ctx) (instruction_remove_tx env ctx i))"

definition instructions_ordered :: "instruction_row list \<Rightarrow> instruction_row list" where
  "instructions_ordered rows = sort_key pi_displayOrder (sort_key pi_createdAt rows)"

definition instruction_list :: "operation_context \<Rightarrow> instruction_view list svc" where
  "instruction_list ctx =
     permitted ctx Payment_instruction_read (runInEvent (ctx_ev ctx)
       (query (\<lambda>s st. map instruction_toView (instructions_ordered (visible_instructions s st)))))"

section \<open>public-settings.service.ts\<close>

record public_settings_view =
  psv_slug :: string
  psv_isPublic :: bool
  psv_accessToken :: "string option"
  psv_contributorVisibility :: contributor_visibility
  psv_budgetVisibility :: budget_visibility
  psv_showTarget :: bool
  psv_showOutstanding :: bool
  psv_description :: "string option"
  psv_revision :: int

text \<open>\<open>description\<close> distinguishes an absent property from \<open>null\<close>.\<close>

record update_public_settings_input =
  ups_isPublic :: "bool option"
  ups_contributorVisibility :: "contributor_visibility option"
  ups_budgetVisibility :: "budget_visibility option"
  ups_showTarget :: "bool option"
  ups_showOutstanding :: "bool option"
  ups_description :: "string option option"

fun contributor_visibility_str :: "contributor_visibility \<Rightarrow> string" where
  "contributor_visibility_str NAMES_AND_AMOUNTS = ''NAMES_AND_AMOUNTS''"
| "contributor_visibility_str NAMES_ONLY = ''NAMES_ONLY''"
| "contributor_visibility_str AGGREGATE_ONLY = ''AGGREGATE_ONLY''"
| "contributor_visibility_str CONTRIBUTORS_HIDDEN = ''HIDDEN''"

fun budget_visibility_str :: "budget_visibility \<Rightarrow> string" where
  "budget_visibility_str BUDGET_PUBLIC = ''PUBLIC''"
| "budget_visibility_str PARTIALLY_PUBLIC = ''PARTIALLY_PUBLIC''"
| "budget_visibility_str BUDGET_HIDDEN = ''HIDDEN''"

definition settings_toView :: "event_row \<Rightarrow> public_settings_view" where
  "settings_toView e = \<lparr>psv_slug = e_slug e, psv_isPublic = e_isPublic e, psv_accessToken = e_publicAccessToken e,
     psv_contributorVisibility = e_contributorVisibility e, psv_budgetVisibility = e_budgetVisibility e,
     psv_showTarget = e_showTarget e, psv_showOutstanding = e_showOutstanding e,
     psv_description = e_description e, psv_revision = e_publicRevision e\<rparr>"

definition settings_json :: "event_row \<Rightarrow> json" where
  "settings_json e = JObj [(''isPublic'', JBool (e_isPublic e)),
     (''contributorVisibility'', JStr (contributor_visibility_str (e_contributorVisibility e))),
     (''budgetVisibility'', JStr (budget_visibility_str (e_budgetVisibility e))),
     (''showTarget'', JBool (e_showTarget e)), (''showOutstanding'', JBool (e_showOutstanding e))]"

definition getSettings :: "operation_context \<Rightarrow> public_settings_view svc" where
  "getSettings ctx =
     permitted ctx Public_configure
      (and_then (svc_read (\<lambda>st. List.find (\<lambda>e. e_id e = ctx_ev ctx) (events st))) (\<lambda>found. case found of
         None \<Rightarrow> svc_throw (Db RecordNotFound)
       | Some e \<Rightarrow> svc_ret (settings_toView e)))"

definition apply_settings :: "update_public_settings_input \<Rightarrow> event_row \<Rightarrow> event_row \<Rightarrow> event_row" where
  "apply_settings input before e = e\<lparr>
     e_isPublic := nullish (ups_isPublic input) (e_isPublic before),
     e_contributorVisibility := nullish (ups_contributorVisibility input) (e_contributorVisibility before),
     e_budgetVisibility := nullish (ups_budgetVisibility input) (e_budgetVisibility before),
     e_showTarget := nullish (ups_showTarget input) (e_showTarget before),
     e_showOutstanding := nullish (ups_showOutstanding input) (e_showOutstanding before),
     e_description := nullish (ups_description input) (e_description before),
     e_publicRevision := e_publicRevision e + 1\<rparr>"

definition updateSettings_tx ::
  "env \<Rightarrow> operation_context \<Rightarrow> update_public_settings_input \<Rightarrow> public_settings_view tx" where
  "updateSettings_tx env ctx input =
     await (query (\<lambda>s st. List.find (\<lambda>e. e_id e = ctx_ev ctx) (events st))) (\<lambda>found. case found of
       None \<Rightarrow> throw (Db RecordNotFound)
     | Some before \<Rightarrow>
        await (statement (event_update (ctx_ev ctx) (apply_settings input before))) (\<lambda>updated.
        await (audit_write (now env) \<lparr>ai_eventId = ctx_ev ctx, ai_actorUserId = Some (ctx_user ctx),
            ai_action = ''public:configure'', ai_resourceType = ''event'', ai_resourceId = ctx_ev ctx,
            ai_source = None, ai_oldValue = Some (settings_json before), ai_newValue = Some (settings_json updated)\<rparr>) (\<lambda>_.
        ret (settings_toView updated))))"

definition updateSettings ::
  "env \<Rightarrow> operation_context \<Rightarrow> update_public_settings_input \<Rightarrow> public_settings_view svc" where
  "updateSettings env ctx input =
     permitted ctx Public_configure (runInEvent (ctx_ev ctx) (updateSettings_tx env ctx input))"

definition setToken_tx :: "env \<Rightarrow> operation_context \<Rightarrow> string option \<Rightarrow> string \<Rightarrow> public_settings_view tx" where
  "setToken_tx env ctx token action =
     await (statement (event_update (ctx_ev ctx)
         (\<lambda>e. e\<lparr>e_publicAccessToken := token, e_publicRevision := e_publicRevision e + 1\<rparr>))) (\<lambda>updated.
     await (audit_write (now env) \<lparr>ai_eventId = ctx_ev ctx, ai_actorUserId = Some (ctx_user ctx),
         ai_action = action, ai_resourceType = ''event'', ai_resourceId = ctx_ev ctx, ai_source = None,
         ai_oldValue = None, ai_newValue = Some (JObj [(''hasToken'', JBool (token \<noteq> None))])\<rparr>) (\<lambda>_.
     ret (settings_toView updated)))"

definition rotateAccessToken :: "env \<Rightarrow> string \<Rightarrow> operation_context \<Rightarrow> public_settings_view svc" where
  "rotateAccessToken env randomToken ctx =
     permitted ctx Public_configure
       (runInEvent (ctx_ev ctx) (setToken_tx env ctx (Some randomToken) ''public:token_rotate''))"

definition clearAccessToken :: "env \<Rightarrow> operation_context \<Rightarrow> public_settings_view svc" where
  "clearAccessToken env ctx =
     permitted ctx Public_configure (runInEvent (ctx_ev ctx) (setToken_tx env ctx None ''public:token_clear''))"

end
