(* ===== verification/Public_View.thy ===== *)
theory Public_View
  imports Transparency Sms_Service
begin

text \<open>
  The public projection of an event: \<^verbatim>\<open>libs/transparency/src/public-view.service.ts\<close>, the one
  place where data leaves for visitors without an account. A JavaScript number is its exact
  value rounded by \<open>fl\<close>, as in the ledger queries.
\<close>

section \<open>Views\<close>

datatype contributor_status = FULLY_PAID | PARTIALLY_PAID | PLEDGED
datatype budget_item_status = FUNDED | PARTIALLY_FUNDED | UNFUNDED

record public_payment =
  ppy_value :: string
  ppy_kind :: fulfillment_kind
  ppy_occurredAt :: string

record public_pledge =
  ppl_type :: pledge_type
  ppl_committedValue :: string
  ppl_description :: "string option"
  ppl_status :: contributor_status
  ppl_outstanding :: "string option"
  ppl_payments :: "public_payment list"

record public_contributor =
  pct_displayName :: string
  pct_committed :: "string option"
  pct_received :: "string option"
  pct_outstanding :: "string option"
  pct_status :: "contributor_status option"
  pct_pledges :: "public_pledge list option"

record public_budget_item =
  pbi_name :: string
  pbi_target :: string
  pbi_covered :: string
  pbi_remaining :: string
  pbi_status :: budget_item_status

record public_budget =
  pbu_total :: string
  pbu_covered :: string
  pbu_remaining :: string
  pbu_items :: "public_budget_item list"

record public_activity =
  pac_displayName :: string
  pac_value :: string
  pac_occurredAt :: string

record public_visibility =
  pvi_contributors :: contributor_visibility
  pvi_budget :: budget_visibility
  pvi_showTarget :: bool
  pvi_showOutstanding :: bool

record public_event_view =
  pev_slug :: string
  pev_name :: string
  pev_description :: "string option"
  pev_eventDate :: "string option"
  pev_status :: event_status
  pev_currency :: string
  pev_target :: "string option"
  pev_totalPledged :: string
  pev_totalReceived :: string
  pev_totalOutstanding :: "string option"
  pev_remaining :: "string option"
  pev_percentCovered :: "rat option"
  pev_contributorCount :: "nat option"
  pev_budget :: "public_budget option"
  pev_contributors :: "public_contributor list option"
  pev_recentActivity :: "public_activity list option"
  pev_announcements :: "(string \<times> string) list"
  pev_paymentInstructions :: "(payment_method \<times> string \<times> string) list"
  pev_revision :: int
  pev_visibility :: public_visibility

section \<open>Helpers\<close>

definition public_percentCovered :: "(rat \<Rightarrow> rat) \<Rightarrow> money \<Rightarrow> money option \<Rightarrow> rat option" where
  "public_percentCovered fl received target =
     (case target of
        None \<Rightarrow> None
      | Some t \<Rightarrow>
         (if t \<le> 0 then None
          else Some (fl (of_int (js_round (fl (fl (fl (of_int received) / fl (of_int t)) * 1000))) / 10))))"

definition contributorStatus :: "money \<Rightarrow> money \<Rightarrow> contributor_status" where
  "contributorStatus committed rcvd =
     (if rcvd \<ge> committed then FULLY_PAID else if rcvd > 0 then PARTIALLY_PAID else PLEDGED)"

definition RECENT_ACTIVITY_LIMIT :: nat where
  "RECENT_ACTIVITY_LIMIT = 10"

definition TOP_CONTRIBUTORS_LIMIT :: nat where
  "TOP_CONTRIBUTORS_LIMIT = 100"

section \<open>The entry gate\<close>

definition is_hex :: "char \<Rightarrow> bool" where
  "is_hex c = (let n = (of_char c :: nat) in (48 \<le> n \<and> n \<le> 57) \<or> (97 \<le> n \<and> n \<le> 102) \<or> (65 \<le> n \<and> n \<le> 70))"

text \<open>The regular expression of a UUID: dashes at four places, hexadecimal digits elsewhere.\<close>

definition is_uuid :: "string \<Rightarrow> bool" where
  "is_uuid s = (length s = 36 \<and>
     list_all (\<lambda>i. if i \<in> {8, 13, 18, 23} then s ! i = CHR ''-'' else is_hex (s ! i)) [0..<36])"

definition starts_with :: "string \<Rightarrow> string \<Rightarrow> bool" where
  "starts_with prefix s = (take (length prefix) s = prefix)"

text \<open>A UUID is compared in its lower-case form, the one the database stores.\<close>

definition entry_event :: "string \<Rightarrow> store \<Rightarrow> event_row option" where
  "entry_event slugOrId st =
     (let found = List.find (\<lambda>e. if is_uuid slugOrId then e_id e = ascii_lower slugOrId else e_slug e = slugOrId) (events st)
      in if found = None \<and> \<not> is_uuid slugOrId
         then List.find (\<lambda>e. True)
                (order_desc e_createdAt (filter (\<lambda>e. starts_with slugOrId (e_slug e) \<and> e_isPublic e) (events st)))
         else found)"

definition public_not_found :: error where
  "public_not_found = NotFound ''No public event found for this link''"

definition public_token_required :: error where
  "public_token_required = Forbidden ''This event link requires a valid access token''"

definition resolve_public :: "string \<Rightarrow> string option \<Rightarrow> event_row svc" where
  "resolve_public slugOrId token =
     and_then (svc_read (entry_event slugOrId)) (\<lambda>found. case found of
       None \<Rightarrow> svc_throw public_not_found
     | Some e \<Rightarrow>
        if \<not> e_isPublic e then svc_throw public_not_found
        else if e_publicAccessToken e \<noteq> None \<and> token \<noteq> e_publicAccessToken e then svc_throw public_token_required
        else svc_ret e)"

section \<open>The sections of the page\<close>

text \<open>The rows of the per-person query.\<close>

record person_rollup =
  ro_id :: uuid
  ro_display_name :: string
  ro_committed :: money
  ro_received :: money

definition people_rollup :: "session \<Rightarrow> store \<Rightarrow> person_rollup list" where
  "people_rollup s st =
     map (\<lambda>p. \<lparr>ro_id = pe_id p, ro_display_name = pe_displayName p,
            ro_committed = owed_by s st (pe_id p), ro_received = paid_by s st (pe_id p)\<rparr>) (visible_persons s st)"

definition payments_of :: "session \<Rightarrow> store \<Rightarrow> uuid \<Rightarrow> fulfillment_row list" where
  "payments_of s st pledge = sort_key f_occurredAt (filter (\<lambda>f. f_pledgeId f = pledge) (visible_fulfillments s st))"

definition pledge_entry :: "bool \<Rightarrow> session \<Rightarrow> store \<Rightarrow> pledge_row \<Rightarrow> public_pledge" where
  "pledge_entry showOutstanding s st p =
     (let fs = payments_of s st (pl_id p);
          totalFulfilled = foldl (\<lambda>sum f. sum + f_value f) 0 fs
      in \<lparr>ppl_type = pl_type p, ppl_committedValue = moneyToString (pl_committedValue p),
          ppl_description = pl_description p, ppl_status = contributorStatus (pl_committedValue p) totalFulfilled,
          ppl_outstanding = (if showOutstanding
             then Some (moneyToString (outstanding (pl_committedValue p) totalFulfilled)) else None),
          ppl_payments = map (\<lambda>f. \<lparr>ppy_value = moneyToString (f_value f), ppy_kind = f_kind f,
             ppy_occurredAt = toISOString (f_occurredAt f)\<rparr>) fs\<rparr>)"

text \<open>The map from persons to their pledges, in the order the pledges were made.\<close>

definition buildPledgeBreakdown ::
  "uuid list \<Rightarrow> bool \<Rightarrow> session \<Rightarrow> store \<Rightarrow> uuid \<Rightarrow> public_pledge list" where
  "buildPledgeBreakdown personIds showOutstanding s st person =
     map (pledge_entry showOutstanding s st)
       (filter (\<lambda>p. pl_personId p = person)
         (sort_key pl_createdAt
           (filter (\<lambda>p. pl_personId p \<in> set personIds \<and> pl_status p \<noteq> CANCELLED) (visible_pledges s st))))"

definition buildContributors ::
  "person_rollup list \<Rightarrow> contributor_visibility \<Rightarrow> bool \<Rightarrow> session \<Rightarrow> store \<Rightarrow> public_contributor list option" where
  "buildContributors people vis showOutstanding s st =
     (if vis = AGGREGATE_ONLY \<or> vis = CONTRIBUTORS_HIDDEN then None
      else
        let rows = take TOP_CONTRIBUTORS_LIMIT (order_desc ro_received (filter (\<lambda>r. ro_committed r > 0) people)) in
        if vis = NAMES_ONLY then
          Some (map (\<lambda>r. \<lparr>pct_displayName = ro_display_name r, pct_committed = None, pct_received = None,
             pct_outstanding = None, pct_status = None, pct_pledges = None\<rparr>) rows)
        else
          let pledgesByPerson = buildPledgeBreakdown (map ro_id rows) showOutstanding s st in
          Some (map (\<lambda>r. \<lparr>pct_displayName = ro_display_name r,
             pct_committed = Some (moneyToString (ro_committed r)),
             pct_received = Some (moneyToString (ro_received r)),
             pct_outstanding = (if showOutstanding
               then Some (moneyToString (outstanding (ro_committed r) (ro_received r))) else None),
             pct_status = Some (contributorStatus (ro_committed r) (ro_received r)),
             pct_pledges = Some (pledgesByPerson (ro_id r))\<rparr>) rows))"

definition buildRecentActivity :: "session \<Rightarrow> store \<Rightarrow> public_activity list" where
  "buildRecentActivity s st =
     map (\<lambda>(name, f). \<lparr>pac_displayName = name, pac_value = moneyToString (f_value f),
            pac_occurredAt = toISOString (f_occurredAt f)\<rparr>)
       (take RECENT_ACTIVITY_LIMIT (order_desc (\<lambda>(name, f). f_occurredAt f)
         [(pe_displayName pr, f). f \<leftarrow> visible_fulfillments s st, pl \<leftarrow> visible_pledges s st, f_pledgeId f = pl_id pl,
            pr \<leftarrow> visible_persons s st, pl_personId pl = pe_id pr \<and> pl_status pl \<noteq> CANCELLED]))"

definition budget_line :: "money \<Rightarrow> money \<Rightarrow> string \<Rightarrow> public_budget_item" where
  "budget_line target covered name = \<lparr>pbi_name = name, pbi_target = moneyToString target,
     pbi_covered = moneyToString covered, pbi_remaining = moneyToString (outstanding target covered),
     pbi_status = (if covered \<ge> target \<and> target > 0 then FUNDED
                   else if covered > 0 then PARTIALLY_FUNDED else UNFUNDED)\<rparr>"

definition buildBudget :: "budget_visibility \<Rightarrow> session \<Rightarrow> store \<Rightarrow> public_budget option" where
  "buildBudget vis s st =
     (if vis = BUDGET_HIDDEN then None
      else
        let onlyPublic = (vis = PARTIALLY_PUBLIC);
            rows = map (\<lambda>bi. (bi_name bi, bi_targetValue bi,
                       sum_where (\<lambda>a. a_budgetItemId a = bi_id bi) a_value (visible_allocations s st)))
                     (sort_key bi_createdAt
                       (filter (\<lambda>bi. onlyPublic \<longrightarrow> bi_isPublic bi) (visible_budget_items s st)));
            total = foldl (\<lambda>t (name, target, covered). t + target) 0 rows;
            coveredTotal = foldl (\<lambda>t (name, target, covered). t + covered) 0 rows
        in Some \<lparr>pbu_total = moneyToString total, pbu_covered = moneyToString coveredTotal,
             pbu_remaining = moneyToString (outstanding total coveredTotal),
             pbu_items = map (\<lambda>(name, target, covered). budget_line target covered name) rows\<rparr>)"

text \<open>\<open>ORDER BY published_at DESC\<close> puts rows without a date first.\<close>

definition published :: "session \<Rightarrow> store \<Rightarrow> (string \<times> string) list" where
  "published s st =
     (let rows = filter (\<lambda>a. an_status a = AN_PUBLISHED) (visible_announcements s st);
          ordered = filter (\<lambda>a. an_publishedAt a = None) rows
            @ order_desc (\<lambda>a. the (an_publishedAt a)) (filter (\<lambda>a. an_publishedAt a \<noteq> None) rows)
      in map (\<lambda>a. (an_body a, toISOString (nullish (an_publishedAt a) 0))) ordered)"

definition public_instructions :: "session \<Rightarrow> store \<Rightarrow> (payment_method \<times> string \<times> string) list" where
  "public_instructions s st =
     map (\<lambda>p. (pi_method p, pi_label p, pi_details p))
       (instructions_ordered (filter pi_isPublic (visible_instructions s st)))"

section \<open>The projection\<close>

definition project :: "(rat \<Rightarrow> rat) \<Rightarrow> event_row \<Rightarrow> session \<Rightarrow> store \<Rightarrow> public_event_view" where
  "project fl e s st =
     (let totalPledged = sum_where (\<lambda>p. pl_status p \<noteq> CANCELLED) pl_committedValue (visible_pledges s st);
          totalReceived = sum_where (\<lambda>f. True) f_value (visible_fulfillments s st);
          target = e_targetAmount e;
          remaining = map_option (\<lambda>t. outstanding t totalReceived) target;
          people = people_rollup s st;
          vis = e_contributorVisibility e
      in \<lparr>pev_slug = e_slug e, pev_name = e_name e, pev_description = e_description e,
          pev_eventDate = map_option toISOString (e_eventDate e), pev_status = e_status e,
          pev_currency = e_currency e,
          pev_target = (if e_showTarget e then map_option moneyToString target else None),
          pev_totalPledged = moneyToString totalPledged,
          pev_totalReceived = moneyToString totalReceived,
          pev_totalOutstanding = (if e_showOutstanding e
             then Some (moneyToString (outstanding totalPledged totalReceived)) else None),
          pev_remaining = (if e_showTarget e then map_option moneyToString remaining else None),
          pev_percentCovered = (if e_showTarget e then public_percentCovered fl totalReceived target else None),
          pev_contributorCount = (if vis \<noteq> CONTRIBUTORS_HIDDEN
             then Some (length (filter (\<lambda>r. ro_committed r > 0) people)) else None),
          pev_budget = buildBudget (e_budgetVisibility e) s st,
          pev_contributors = buildContributors people vis (e_showOutstanding e) s st,
          pev_recentActivity = (if vis = NAMES_AND_AMOUNTS then Some (buildRecentActivity s st) else None),
          pev_announcements = published s st,
          pev_paymentInstructions = public_instructions s st,
          pev_revision = e_publicRevision e,
          pev_visibility = \<lparr>pvi_contributors = vis, pvi_budget = e_budgetVisibility e,
             pvi_showTarget = e_showTarget e, pvi_showOutstanding = e_showOutstanding e\<rparr>\<rparr>)"

definition getPublicEventView :: "(rat \<Rightarrow> rat) \<Rightarrow> string \<Rightarrow> string option \<Rightarrow> public_event_view svc" where
  "getPublicEventView fl slug token =
     and_then (resolve_public slug token) (\<lambda>e. runInEvent (e_id e) (query (project fl e)))"

section \<open>The gate\<close>

lemma public_view_read:
  "getPublicEventView fl slug token st = (st,
     case entry_event slug st of
       None \<Rightarrow> Inl public_not_found
     | Some e \<Rightarrow>
        if \<not> e_isPublic e then Inl public_not_found
        else if e_publicAccessToken e \<noteq> None \<and> token \<noteq> e_publicAccessToken e then Inl public_token_required
        else Inr (project fl e (in_event (e_id e)) st))"
  by (auto simp: getPublicEventView_def resolve_public_def and_then_def runInEvent_def transaction_def
      split: option.splits)

end
