(* ===== verification/Public_Guarantees.thy ===== *)
theory Public_Guarantees
  imports Public_View Demo_Data
begin

text \<open>
  What the public page promises: nothing private reaches a visitor, what the organiser hid
  stays hidden, the numbers add up, and every configuration change is marked by a revision.
\<close>

section \<open>Data a visitor must not learn\<close>

text \<open>\<open>scrub e st\<close> is the store without anything the page of \<open>e\<close> must not depend on: contact
  data and accounts of contributors, notes, methods and keys of payments, authorship, drafts,
  private instructions, every other table; and, as \<open>e\<close> is configured, the names of
  contributors and the budget lines.\<close>

definition names_hidden :: "event_row \<Rightarrow> bool" where
  "names_hidden e \<longleftrightarrow> e_contributorVisibility e \<in> {AGGREGATE_ONLY, CONTRIBUTORS_HIDDEN}"

definition scrub_person :: "event_row \<Rightarrow> person_row \<Rightarrow> person_row" where
  "scrub_person e p = p\<lparr>pe_displayName := (if names_hidden e then '''' else pe_displayName p), pe_phone := None,
     pe_userId := None, pe_source := human_typed, pe_createdById := None, pe_createdAt := 0\<rparr>"

definition scrub_payment :: "fulfillment_row \<Rightarrow> fulfillment_row" where
  "scrub_payment f = f\<lparr>f_currency := '''', f_method := UNKNOWN, f_verificationStatus := REPORTED, f_note := None,
     f_idempotencyKey := None, f_source := human_typed, f_createdById := None, f_createdAt := 0\<rparr>"

definition scrub_line :: "budget_item_row \<Rightarrow> budget_item_row" where
  "scrub_line b = b\<lparr>bi_budgetId := '''', bi_source := human_typed, bi_confidence := None,
     bi_sourceDocumentId := None, bi_createdById := None, bi_version := 0\<rparr>"


lemma scrub_fields [simp]:
  "pe_id (scrub_person e p) = pe_id p" "pe_eventId (scrub_person e p) = pe_eventId p"
  "f_pledgeId (scrub_payment f) = f_pledgeId f" "f_value (scrub_payment f) = f_value f"
  "f_kind (scrub_payment f) = f_kind f" "f_occurredAt (scrub_payment f) = f_occurredAt f"
  "f_eventId (scrub_payment f) = f_eventId f"
  "bi_eventId (scrub_line b) = bi_eventId b" "bi_name (scrub_line b) = bi_name b" "bi_id (scrub_line b) = bi_id b"
  "bi_targetValue (scrub_line b) = bi_targetValue b" "bi_isPublic (scrub_line b) = bi_isPublic b"
  "bi_createdAt (scrub_line b) = bi_createdAt b"
  "\<not> names_hidden e \<Longrightarrow> pe_displayName (scrub_person e p) = pe_displayName p"
  by (simp_all add: scrub_person_def scrub_payment_def scrub_line_def)


















section \<open>Properties\<close>


section \<open>Revocation\<close>

definition event_ids_ok :: "store \<Rightarrow> bool" where
  "event_ids_ok st \<longleftrightarrow> distinct (map e_id (events st)) \<and> distinct (map e_slug (events st))"

lemma find_update_key:
  "(\<And>r. k (f r) = k r) \<Longrightarrow> List.find (\<lambda>r. k r = i) (update_where (\<lambda>r. k' r = j) f rs) =
     map_option (\<lambda>r. if k' r = j then f r else r) (List.find (\<lambda>r. k r = i) rs)"
  by (induction rs) auto

lemma event_update_statement:
  "statement (event_update i f) s st = Inr (st', x) \<longleftrightarrow>
     \<not> aborted s \<and> (\<exists>r. List.find (\<lambda>e. e_id e = i) (events st) = Some r \<and> x = f r
        \<and> st' = put_events (update_where (\<lambda>e. e_id e = i) f (events st)) st)"
  by (auto simp: statement_Inr event_update_def global_update_def split: option.splits)

lemma audit_write_rows:
  "audit_write t ai s st = Inr (st', r) \<Longrightarrow> (\<exists>row. audits st' = audits st @ [row] \<and> au_eventId row = ai_eventId ai
     \<and> au_actorUserId row = ai_actorUserId ai \<and> au_action row = ai_action ai)
     \<and> events st' = events st \<and> announcements st' = announcements st \<and> instructions st' = instructions st"
  by (auto simp: audit_write_def tbl_create_def Let_def split: if_splits)

lemma entry_by_slug:
  assumes "distinct (map e_slug (events st))" "e \<in> set (events st)" "\<not> is_uuid (e_slug e)"
  shows "entry_event (e_slug e) st = Some e"
proof -
  have "List.find (\<lambda>r. e_slug r = e_slug e) (events st) = Some e"
    by (rule find_unique [where k = e_slug, OF assms(1,2)]) simp_all
  then show ?thesis using assms(3) by (simp add: entry_event_def)
qed

text \<open>The event row after an update of one event.\<close>

lemma updated_event:
  assumes "event_ids_ok st" "e \<in> set (events st)" "e_id e = i" "\<And>r. e_slug (f r) = e_slug r" "\<not> is_uuid (e_slug e)"
    and "events st' = update_where (\<lambda>r. e_id r = i) f (events st)"
  shows "entry_event (e_slug e) st' = Some (f e)"
proof -
  have "distinct (map e_slug (events st'))"
    using assms(1,4,6) by (simp add: event_ids_ok_def map_update_where_same)
  moreover have "f e \<in> set (events st')" using assms(2,3,6) by (auto simp: in_update_where)
  ultimately show ?thesis
    using entry_by_slug [of st' "f e"] assms(4,5) by simp
qed

lemma updateSettings_row:
  assumes "updateSettings env ctx input st = (st', Inr v)" "event_ids_ok st" "e \<in> set (events st)" "e_id e = ctx_ev ctx"
    and "\<not> is_uuid (e_slug e)"
  shows "\<exists>e'. entry_event (e_slug e) st' = Some e' \<and> e_isPublic e' = nullish (ups_isPublic input) (e_isPublic e)
     \<and> e_publicAccessToken e' = e_publicAccessToken e \<and> e_id e' = e_id e"
proof -
  have found: "List.find (\<lambda>r. e_id r = ctx_ev ctx) (events st) = Some e"
    using assms(2-4) find_unique [where k = e_id and x = e and xs = "events st" and P = "\<lambda>r. e_id r = ctx_ev ctx"]
    by (auto simp: event_ids_ok_def)
  have "events st' = update_where (\<lambda>r. e_id r = ctx_ev ctx) (apply_settings input e) (events st)"
    using assms(1) unfolding updateSettings_def runInEvent_def
    by (auto simp: updateSettings_tx_def found event_update_statement dest!: audit_write_rows)
  from updated_event [OF assms(2-4) _ assms(5) this] show ?thesis by (auto simp: apply_settings_def)
qed

lemma setToken_row:
  assumes "setToken_tx env ctx token action (in_event (ctx_ev ctx)) st = Inr (st', v)" "event_ids_ok st"
    and "e \<in> set (events st)" "e_id e = ctx_ev ctx" "\<not> is_uuid (e_slug e)"
  shows "\<exists>e'. entry_event (e_slug e) st' = Some e' \<and> e_isPublic e' = e_isPublic e \<and> e_publicAccessToken e' = token
     \<and> e_id e' = e_id e"
proof -
  have "events st' = update_where (\<lambda>r. e_id r = ctx_ev ctx)
     (\<lambda>e. e\<lparr>e_publicAccessToken := token, e_publicRevision := e_publicRevision e + 1\<rparr>) (events st)"
    using assms(1) by (auto simp: setToken_tx_def event_update_statement dest!: audit_write_rows)
  from updated_event [OF assms(2-4) _ assms(5) this] show ?thesis by auto
qed

text \<open>Revocation is immediate: from the moment a settings update that turns publication off
  succeeds, the event's link answers the same not-found error as a link that never existed,
  whatever token is presented; and from the moment a rotation succeeds, a published event's
  link opens for the new token and for no other.\<close>

theorem revocation_immediate:
  assumes "event_ids_ok st" "e \<in> set (events st)" "e_id e = ctx_ev ctx" "\<not> is_uuid (e_slug e)"
    and "updateSettings env ctx (input\<lparr>ups_isPublic := Some False\<rparr>) st = (st1, Inr v1)"
    and "rotateAccessToken env' fresh ctx st = (st2, Inr v2)" "e_isPublic e"
  shows "getPublicEventView fl (e_slug e) token st1 = (st1, Inl public_not_found)
    \<and> ((\<exists>v. getPublicEventView fl (e_slug e) token st2 = (st2, Inr v)) \<longleftrightarrow> token = Some fresh)"
proof -
  obtain e1 where "entry_event (e_slug e) st1 = Some e1" "\<not> e_isPublic e1"
    using updateSettings_row [OF assms(5,1-4)] by auto
  moreover obtain e2 where "entry_event (e_slug e) st2 = Some e2" "e_isPublic e2" "e_publicAccessToken e2 = Some fresh"
    using setToken_row [of env' ctx "Some fresh" "''public:token_rotate''" st st2, OF _ assms(1-4)] assms(6,7)
    by (auto simp: rotateAccessToken_def runInEvent_def)
  ultimately show ?thesis by (auto simp: public_view_read)
qed

section \<open>Changes of the page\<close>

datatype public_command =
    Configure update_public_settings_input
  | Rotate string
  | Clear_token
  | Draft string "provenance option"
  | Publish uuid
  | Archive uuid
  | Add_instruction instruction_input
  | Edit_instruction uuid instruction_patch
  | Remove_instruction uuid

definition done_by :: "'a svc \<Rightarrow> unit svc" where
  "done_by m = and_then m (\<lambda>_. svc_ret ())"

fun public_exec :: "env \<Rightarrow> operation_context \<Rightarrow> public_command \<Rightarrow> unit svc" where
  "public_exec env ctx (Configure input) = done_by (updateSettings env ctx input)"
| "public_exec env ctx (Rotate fresh) = done_by (rotateAccessToken env fresh ctx)"
| "public_exec env ctx Clear_token = done_by (clearAccessToken env ctx)"
| "public_exec env ctx (Draft body source) = done_by (announcement_create_op env ctx body source)"
| "public_exec env ctx (Publish i) = done_by (announcement_publish env ctx i)"
| "public_exec env ctx (Archive i) = done_by (announcement_archive env ctx i)"
| "public_exec env ctx (Add_instruction input) = done_by (instruction_create_op env ctx input)"
| "public_exec env ctx (Edit_instruction i patch) = done_by (instruction_update_op env ctx i patch)"
| "public_exec env ctx (Remove_instruction i) = done_by (instruction_remove env ctx i)"

lemma done_by_Inr [simp]: "done_by m st = (st', Inr u) \<longleftrightarrow> (\<exists>x. m st = (st', Inr x))"
  by (auto simp: done_by_def and_then_Inr)

definition marks :: "uuid \<Rightarrow> uuid \<Rightarrow> store \<Rightarrow> store \<Rightarrow> bool" where
  "marks e u st st' \<longleftrightarrow>
     map_option e_publicRevision (List.find (\<lambda>r. e_id r = e) (events st')) =
       map_option (\<lambda>r. e_publicRevision r + 1) (List.find (\<lambda>r. e_id r = e) (events st))
     \<and> (\<exists>row. audits st' = audits st @ [row] \<and> au_eventId row = e \<and> au_actorUserId row = Some u)"

lemma marksI:
  assumes "events st' = update_where (\<lambda>r. e_id r = e) f (events st)"
    and "\<And>r. e_id (f r) = e_id r" "\<And>r. e_publicRevision (f r) = e_publicRevision r + 1"
    and "audits st' = audits st @ [row]" "au_eventId row = e" "au_actorUserId row = Some u"
  shows "marks e u st st'"
proof -
  have "List.find (\<lambda>r. e_id r = e) (events st') = map_option (\<lambda>r. if e_id r = e then f r else r) (List.find (\<lambda>r. e_id r = e) (events st))"
    unfolding assms(1) by (rule find_update_key) (rule assms(2))
  then have "map_option e_publicRevision (List.find (\<lambda>r. e_id r = e) (events st')) =
       map_option (\<lambda>r. e_publicRevision r + 1) (List.find (\<lambda>r. e_id r = e) (events st))"
  proof (cases "List.find (\<lambda>r. e_id r = e) (events st)")
    case (Some r)
    with find_SomeD [OF this] show ?thesis
      using \<open>List.find _ (events st') = _\<close> by (simp add: assms(3))
  qed simp
  then show ?thesis using assms(4-6) unfolding marks_def by blast
qed

lemma page_statements:
  "announcement_create mk s st = Inr (st1, a) \<Longrightarrow> events st1 = events st \<and> audits st1 = audits st"
  "announcement_update i f s st = Inr (st1, a) \<Longrightarrow> events st1 = events st \<and> audits st1 = audits st"
  "instruction_create mk' s st = Inr (st1, b) \<Longrightarrow> events st1 = events st \<and> audits st1 = audits st"
  "instruction_update i f' s st = Inr (st1, b) \<Longrightarrow> events st1 = events st \<and> audits st1 = audits st"
  "instruction_delete i s st = Inr (st1, u) \<Longrightarrow> events st1 = events st \<and> audits st1 = audits st"
  by (auto simp: announcement_create_def announcement_update_def instruction_create_def instruction_update_def
      instruction_delete_def tbl_create_def tbl_update_def Let_def split: if_splits option.splits)

lemma bumpRevision_rows:
  "bumpRevision e s st = Inr (st1, u) \<Longrightarrow> audits st1 = audits st
     \<and> events st1 = update_where (\<lambda>r. e_id r = e) (\<lambda>r. r\<lparr>e_publicRevision := e_publicRevision r + 1\<rparr>) (events st)"
  by (auto simp: bumpRevision_def event_update_statement)

lemma audit_row:
  "audit_write t ai s st = Inr (st', r) \<Longrightarrow> events st' = events st
     \<and> (\<exists>row. audits st' = audits st @ [row] \<and> au_eventId row = ai_eventId ai \<and> au_actorUserId row = ai_actorUserId ai)"
  using audit_write_rows by blast

lemma settings_mark:
  "updateSettings_tx env ctx input (in_event (ctx_ev ctx)) st = Inr (st', v) \<Longrightarrow> marks (ctx_ev ctx) (ctx_user ctx) st st'"
  "setToken_tx env ctx token action (in_event (ctx_ev ctx)) st = Inr (st', v) \<Longrightarrow> marks (ctx_ev ctx) (ctx_user ctx) st st'"
  by (auto simp: updateSettings_tx_def setToken_tx_def event_update_statement apply_settings_def
      split: option.splits dest!: audit_row intro!: marksI)

lemma page_marks:
  "transition_tx env ctx i status action (in_event (ctx_ev ctx)) st = Inr (st', v) \<Longrightarrow> marks (ctx_ev ctx) (ctx_user ctx) st st'"
  "instruction_create_tx env ctx input (in_event (ctx_ev ctx)) st = Inr (st', w) \<Longrightarrow> marks (ctx_ev ctx) (ctx_user ctx) st st'"
  "instruction_update_tx env ctx i patch (in_event (ctx_ev ctx)) st = Inr (st', w) \<Longrightarrow> marks (ctx_ev ctx) (ctx_user ctx) st st'"
  "instruction_remove_tx env ctx i (in_event (ctx_ev ctx)) st = Inr (st', j) \<Longrightarrow> marks (ctx_ev ctx) (ctx_user ctx) st st'"
  by (auto simp: transition_tx_def instruction_create_tx_def instruction_update_tx_def instruction_remove_tx_def
      find_instruction_def split: option.splits dest!: audit_row page_statements bumpRevision_rows intro!: marksI)

text \<open>The page reads seven tables.\<close>

lemma project_frame:
  assumes "pledges st' = pledges st" "fulfillments st' = fulfillments st" "persons st' = persons st"
    "budget_items st' = budget_items st" "allocations st' = allocations st" "instructions st' = instructions st"
    "published s st' = published s st"
  shows "project fl e s st' = project fl e s st"
proof -
  have sums: "owed_by s st' = owed_by s st" "paid_by s st' = paid_by s st"
    by (simp_all only: fun_eq_iff owed_by_def paid_by_def assms simp_thms)
  have people: "people_rollup s st' = people_rollup s st" by (simp only: people_rollup_def sums assms)
  have "payments_of s st' = payments_of s st" by (simp only: fun_eq_iff payments_of_def assms simp_thms)
  then have entry: "pledge_entry b s st' p = pledge_entry b s st p" for b p
    by (simp only: pledge_entry_def)
  have "buildPledgeBreakdown ids b s st' = buildPledgeBreakdown ids b s st" for ids b
    by (simp add: fun_eq_iff buildPledgeBreakdown_def assms(1) entry)
  then have contributors: "buildContributors ps vis b s st' = buildContributors ps vis b s st" for ps vis b
    by (simp only: buildContributors_def)
  have rest: "buildBudget vis s st' = buildBudget vis s st" "buildRecentActivity s st' = buildRecentActivity s st"
    "public_instructions s st' = public_instructions s st" for vis
    by (simp_all only: buildBudget_def buildRecentActivity_def public_instructions_def assms)
  show ?thesis by (simp only: project_def people contributors rest assms)
qed

lemma entry_event_frame: "events st' = events st \<Longrightarrow> entry_event slug st' = entry_event slug st"
  by (simp only: entry_event_def)

lemma draft_unseen:
  assumes "announcement_create_tx env ctx body source (in_event (ctx_ev ctx)) st = Inr (st', v)"
  shows "events st' = events st" "project fl e s st' = project fl e s st"
proof -
  obtain st1 a where create: "announcement_create (\<lambda>i. \<lparr>an_id = i, an_eventId = ctx_ev ctx, an_body = body,
      an_status = AN_DRAFT, an_source = source, an_createdById = Some (ctx_user ctx), an_publishedAt = None,
      an_createdAt = now env\<rparr>) (in_event (ctx_ev ctx)) st = Inr (st1, a)"
    and audit: "\<exists>ai r. audit_write (now env) ai (in_event (ctx_ev ctx)) st1 = Inr (st', r)"
    using assms by (auto simp: announcement_create_tx_def)
  have st1: "st1 = put_announcements (announcements st @ [a]) (draw st)" "an_status a = AN_DRAFT"
    using create by (auto simp: announcement_create_def tbl_create_def Let_def split: if_splits)
  have st': "\<exists>row. st' = put_audits (audits st1 @ [row]) (draw st1)"
    using audit by (auto simp: audit_write_def tbl_create_def Let_def split: if_splits)
  show "events st' = events st" using st1(1) st' by auto
  have "published s st' = published s st"
    using st' st1 by (auto simp: published_def tbl_visible_def)
  then show "project fl e s st' = project fl e s st"
    by (intro project_frame) (use st' st1(1) in auto)
qed

text \<open>Every change of the page is marked: an organiser's command that succeeds and changes what
  some link answers raises the event's public revision by exactly one and leaves one audit
  row naming the event and the organiser; only a draft, which no visitor sees, leaves the
  revision as it was.\<close>

theorem public_changes_marked:
  assumes "public_exec env ctx c st = (st', Inr ())"
  shows "marks (ctx_ev ctx) (ctx_user ctx) st st'
    \<or> snd (getPublicEventView fl slug token st') = snd (getPublicEventView fl slug token st)"
proof (cases c)
  case (Draft body source)
  then obtain v where "announcement_create_tx env ctx body (nullish source human_typed) (in_event (ctx_ev ctx)) st = Inr (st', v)"
    using assms by (auto simp: announcement_create_op_def runInEvent_def)
  note same = draft_unseen [OF this]
  have "entry_event slug st' = entry_event slug st" by (rule entry_event_frame [OF same(1)])
  then show ?thesis unfolding public_view_read snd_conv same(2) by (intro disjI2) (simp only:)
qed (use assms settings_mark page_marks in \<open>fastforce simp: updateSettings_def rotateAccessToken_def
      clearAccessToken_def announcement_publish_def announcement_archive_def announcement_transition_def
      instruction_create_op_def instruction_update_op_def instruction_remove_def runInEvent_def\<close>)+

end
