(* ===== verification/Js_Regex.thy ===== *)
theory Js_Regex
  imports Js_Strings
begin

text \<open>
  Regular expressions as ECMAScript evaluates them: a backtracking matcher that tries the
  alternatives in order, so that the list of its results is ordered by priority and its head is
  the match. A position is the text before it, reversed, the text after it, and the groups
  captured so far. A loop stops after an iteration that consumes nothing.
\<close>

section \<open>Character classes by their bits\<close>

text \<open>Equations for evaluation: the classes decided on the eight bits of a character.\<close>

lemma char_lower_bits [code]:
  "char_lower (Char b0 b1 b2 b3 b4 b5 b6 b7) =
     (if \<not> b7 \<and> b6 \<and> \<not> b5 \<and> (b0 \<or> b1 \<or> b2 \<or> b3 \<or> b4) \<and> \<not> (b4 \<and> b3 \<and> (b2 \<or> (b1 \<and> b0)))
      then Char b0 b1 b2 b3 b4 True b6 b7 else Char b0 b1 b2 b3 b4 b5 b6 b7)"
  by (cases b0; cases b1; cases b2; cases b3; cases b4; cases b5; cases b6; cases b7)
     (simp_all add: char_lower_def char_of_def bit_0)

lemma is_digit_bits [code]:
  "is_digit (Char b0 b1 b2 b3 b4 b5 b6 b7) \<longleftrightarrow> \<not> b7 \<and> \<not> b6 \<and> b5 \<and> b4 \<and> \<not> (b3 \<and> (b2 \<or> b1))"
  by (cases b0; cases b1; cases b2; cases b3; cases b4; cases b5; cases b6; cases b7) (simp_all add: is_digit_def)

lemma is_blank_bits [code]:
  "is_blank (Char b0 b1 b2 b3 b4 b5 b6 b7) \<longleftrightarrow>
     \<not> b7 \<and> \<not> b6 \<and> \<not> b4 \<and>
     (if b5 then \<not> (b0 \<or> b1 \<or> b2 \<or> b3) else b3 \<and> (b0 \<or> b1 \<or> b2) \<and> \<not> (b2 \<and> b1))"
  by (cases b0; cases b1; cases b2; cases b3; cases b4; cases b5; cases b6; cases b7) (simp_all add: is_blank_def)

definition letter :: "char \<Rightarrow> bool" where
  "letter c = (let n = (of_char (char_lower c) :: nat) in 97 \<le> n \<and> n \<le> 122)"

lemma letter_bits [code]:
  "letter (Char b0 b1 b2 b3 b4 b5 b6 b7) \<longleftrightarrow>
     \<not> b7 \<and> b6 \<and> (b0 \<or> b1 \<or> b2 \<or> b3 \<or> b4) \<and> \<not> (b4 \<and> b3 \<and> (b2 \<or> (b1 \<and> b0)))"
  by (cases b0; cases b1; cases b2; cases b3; cases b4; cases b5; cases b6; cases b7)
     (simp_all add: letter_def char_lower_bits)

section \<open>Patterns and positions\<close>

datatype regex =
    Eps
  | Chr "char \<Rightarrow> bool"
  | Then regex regex
  | Or regex regex
  | Rep bool regex  \<comment> \<open>\<open>r*\<close>, or \<open>r*?\<close> when the flag is false\<close>
  | Group nat regex
  | At_Start
  | At_End
  | Boundary
  | Not_Boundary
  | Ahead regex
  | Not_Ahead regex

type_synonym position = "string \<times> string \<times> (nat \<times> string) list"

definition start_of :: "string \<Rightarrow> position" where
  "start_of s = ([], s, [])"

definition remaining :: "position \<Rightarrow> string" where
  "remaining p = fst (snd p)"

definition captures :: "position \<Rightarrow> (nat \<times> string) list" where
  "captures p = snd (snd p)"

definition group :: "nat \<Rightarrow> position \<Rightarrow> string option" where
  "group n p = map_of (captures p) n"

definition word_char :: "char \<Rightarrow> bool" where
  "word_char c = (letter c \<or> is_digit c \<or> c = CHR ''_'')"

definition word_at :: "string \<Rightarrow> bool" where
  "word_at s = (case s of [] \<Rightarrow> False | c # _ \<Rightarrow> word_char c)"

section \<open>The matcher\<close>

fun iterate :: "bool \<Rightarrow> (position \<Rightarrow> position list) \<Rightarrow> nat \<Rightarrow> position \<Rightarrow> position list" where
  "iterate greedy f 0 p = [p]"
| "iterate greedy f (Suc n) p =
     (let more = concat (map (iterate greedy f n)
            (filter (\<lambda>q. length (remaining q) < length (remaining p)) (f p)))
      in if greedy then more @ [p] else p # more)"

fun matches :: "regex \<Rightarrow> position \<Rightarrow> position list" where
  "matches Eps p = [p]"
| "matches (Chr f) (b, s, cs) = (case s of [] \<Rightarrow> [] | c # s' \<Rightarrow> if f c then [(c # b, s', cs)] else [])"
| "matches (Then r1 r2) p = concat (map (matches r2) (matches r1 p))"
| "matches (Or r1 r2) p = matches r1 p @ matches r2 p"
| "matches (Rep greedy r) p = iterate greedy (matches r) (length (remaining p)) p"
| "matches (Group n r) (b, s, cs) =
     map (\<lambda>(b', s', cs'). (b', s', (n, take (length s - length s') s) # cs')) (matches r (b, s, cs))"
| "matches At_Start (b, s, cs) = (if b = [] then [(b, s, cs)] else [])"
| "matches At_End (b, s, cs) = (if s = [] then [(b, s, cs)] else [])"
| "matches Boundary (b, s, cs) = (if word_at b \<noteq> word_at s then [(b, s, cs)] else [])"
| "matches Not_Boundary (b, s, cs) = (if word_at b = word_at s then [(b, s, cs)] else [])"
| "matches (Ahead r) (b, s, cs) =
     (case matches r (b, s, cs) of [] \<Rightarrow> [] | (_, _, cs') # _ \<Rightarrow> [(b, s, cs')])"
| "matches (Not_Ahead r) (b, s, cs) = (if matches r (b, s, cs) = [] then [(b, s, cs)] else [])"

text \<open>\<open>String.prototype.match\<close> without the global flag: the first start position that matches.\<close>

fun search_from :: "regex \<Rightarrow> string \<Rightarrow> string \<Rightarrow> position option" where
  "search_from r b [] = (case matches r (b, [], []) of [] \<Rightarrow> None | p # _ \<Rightarrow> Some p)"
| "search_from r b (c # s) = (case matches r (b, c # s, []) of [] \<Rightarrow> search_from r (c # b) s | p # _ \<Rightarrow> Some p)"

definition search :: "regex \<Rightarrow> string \<Rightarrow> position option" where
  "search r s = search_from r [] s"

definition test :: "regex \<Rightarrow> string \<Rightarrow> bool" where
  "test r s = (search r s \<noteq> None)"

text \<open>\<open>String.prototype.replace\<close> with the global flag and a replacement without patterns; after
  an empty match the search goes on one character later.\<close>

function replace_from :: "regex \<Rightarrow> string \<Rightarrow> string \<Rightarrow> string \<Rightarrow> string" where
  "replace_from r new b s =
     (case matches r (b, s, []) of
        [] \<Rightarrow> (case s of [] \<Rightarrow> [] | c # s' \<Rightarrow> c # replace_from r new (c # b) s')
      | p # _ \<Rightarrow>
          if length (remaining p) < length s then new @ replace_from r new (fst p) (remaining p)
          else new @ (case s of [] \<Rightarrow> [] | c # s' \<Rightarrow> c # replace_from r new (c # b) s'))"
  by pat_completeness auto

termination
  by (relation "measure (\<lambda>(r, new, b, s). length s)") auto

declare replace_from.simps [simp del]

definition replace_all :: "regex \<Rightarrow> string \<Rightarrow> string \<Rightarrow> string" where
  "replace_all r new s = replace_from r new [] s"

text \<open>Without the global flag only the first match is replaced.\<close>

fun replace_first_from :: "regex \<Rightarrow> string \<Rightarrow> string \<Rightarrow> string \<Rightarrow> string" where
  "replace_first_from r new b [] = (case matches r (b, [], []) of [] \<Rightarrow> [] | p # _ \<Rightarrow> new)"
| "replace_first_from r new b (c # s) =
     (case matches r (b, c # s, []) of
        [] \<Rightarrow> c # replace_first_from r new (c # b) s
      | p # _ \<Rightarrow> new @ remaining p)"

definition replace_first :: "regex \<Rightarrow> string \<Rightarrow> string \<Rightarrow> string" where
  "replace_first r new s = replace_first_from r new [] s"

section \<open>Building patterns\<close>

definition any :: regex where
  "any = Chr (\<lambda>c. c \<noteq> CHR 0x0A \<and> c \<noteq> CHR 0x0D)"

definition space :: regex where
  "space = Chr is_blank"

definition digit :: regex where
  "digit = Chr is_digit"

definition non_space :: regex where
  "non_space = Chr (\<lambda>c. \<not> is_blank c)"

text \<open>A literal under the \<open>i\<close> flag.\<close>

fun lit :: "string \<Rightarrow> regex" where
  "lit [] = Eps"
| "lit (c # cs) = Then (Chr (\<lambda>d. char_lower d = char_lower c)) (lit cs)"

definition chars :: "string \<Rightarrow> regex" where
  "chars cs = Chr (\<lambda>d. char_lower d \<in> set (map char_lower cs))"

definition opt :: "regex \<Rightarrow> regex" where
  "opt r = Or r Eps"

definition many :: "regex \<Rightarrow> regex" where
  "many r = Then r (Rep True r)"

definition lazy_many :: "regex \<Rightarrow> regex" where
  "lazy_many r = Then r (Rep False r)"

definition star :: "regex \<Rightarrow> regex" where
  "star r = Rep True r"

fun seqs :: "regex list \<Rightarrow> regex" where
  "seqs [] = Eps"
| "seqs [r] = r"
| "seqs (r # r' # rs) = Then r (seqs (r' # rs))"

fun alts :: "regex list \<Rightarrow> regex" where
  "alts [] = Not_Ahead Eps"
| "alts [r] = r"
| "alts (r # r' # rs) = Or r (alts (r' # rs))"

definition words_of :: "string list \<Rightarrow> regex" where
  "words_of ws = alts (map lit ws)"

section \<open>Lookahead\<close>

lemma ahead_nonempty: "matches (Ahead r) p \<noteq> [] \<longleftrightarrow> matches r p \<noteq> []"
  by (cases p) (auto split: list.splits)

lemma ahead_stays: "matches (Ahead r) (b, s, cs) \<noteq> [] \<Longrightarrow> \<exists>cs'. matches (Ahead r) (b, s, cs) = [(b, s, cs')]"
  by (auto split: list.splits)

section \<open>The preferred match\<close>

text \<open>\<open>q\<close> is the match the engine prefers from \<open>p\<close>.\<close>

definition prefers :: "regex \<Rightarrow> position \<Rightarrow> position \<Rightarrow> bool" where
  "prefers r p q = (\<exists>qs. matches r p = q # qs)"

lemma prefers_search: "prefers r (start_of s) q \<Longrightarrow> search r s = Some q"
  by (cases s) (auto simp: prefers_def search_def start_of_def)

lemma prefers_Then: "prefers r1 p q \<Longrightarrow> prefers r2 q t \<Longrightarrow> prefers (Then r1 r2) p t"
  by (auto simp: prefers_def)

lemma prefers_first: "prefers r1 p q \<Longrightarrow> prefers (Or r1 r2) p q"
  by (auto simp: prefers_def)

lemma prefers_second: "matches r1 p = [] \<Longrightarrow> prefers r2 p q \<Longrightarrow> prefers (Or r1 r2) p q"
  by (auto simp: prefers_def)

lemma prefers_Eps [simp]: "prefers Eps p q \<longleftrightarrow> q = p"
  by (auto simp: prefers_def)

lemma prefers_Group:
  "prefers r (b, s, cs) (b', s', cs') \<Longrightarrow>
   prefers (Group n r) (b, s, cs) (b', s', (n, take (length s - length s') s) # cs')"
  by (auto simp: prefers_def)

lemma prefers_opt_skip: "matches r p = [] \<Longrightarrow> prefers (opt r) p p"
  by (simp add: opt_def prefers_second)

lemma fails_Then: "matches r1 p = [] \<Longrightarrow> matches (Then r1 r2) p = []"
  by simp

lemma fails_lit: "s = [] \<or> char_lower (hd s) \<noteq> char_lower c \<Longrightarrow> matches (lit (c # w)) (b, s, cs) = []"
  by (cases s) auto

text \<open>A greedy loop over a class of characters takes the longest run.\<close>

lemma iterate_run:
  "list_all f xs \<Longrightarrow> s = [] \<or> \<not> f (hd s) \<Longrightarrow> length xs \<le> n \<Longrightarrow>
   \<exists>qs. iterate True (matches (Chr f)) n (b, xs @ s, cs) = (rev xs @ b, s, cs) # qs"
proof (induction xs arbitrary: b n)
  case Nil
  then show ?case
    by (cases n; cases s) (auto simp: Let_def)
next
  case (Cons x xs)
  then obtain m where n: "n = Suc m" "length xs \<le> m" by (cases n) auto
  with Cons obtain qs where "iterate True (matches (Chr f)) m (x # b, xs @ s, cs) = (rev xs @ x # b, s, cs) # qs"
    by fastforce
  with n Cons.prems show ?case by (simp add: remaining_def Let_def)
qed

lemma prefers_run:
  assumes "list_all f xs" "s = [] \<or> \<not> f (hd s)"
  shows "prefers (Rep True (Chr f)) (b, xs @ s, cs) (rev xs @ b, s, cs)"
  using iterate_run [OF assms, of "length (xs @ s)" b cs] by (simp add: prefers_def remaining_def)

lemma prefers_many:
  assumes "list_all f xs" "xs \<noteq> []" "s = [] \<or> \<not> f (hd s)"
  shows "prefers (many (Chr f)) (b, xs @ s, cs) (rev xs @ b, s, cs)"
proof -
  obtain x ys where xs: "xs = x # ys" using assms(2) by (cases xs) auto
  have "prefers (Chr f) (b, xs @ s, cs) (x # b, ys @ s, cs)" using assms(1) xs by (simp add: prefers_def)
  moreover have "prefers (Rep True (Chr f)) (x # b, ys @ s, cs) (rev ys @ x # b, s, cs)"
    using assms xs by (intro prefers_run) auto
  ultimately show ?thesis unfolding many_def xs by (simp add: prefers_Then)
qed

text \<open>Every result continues the text it started from.\<close>

lemma iterate_splits:
  assumes "\<And>p q. q \<in> set (f p) \<Longrightarrow> \<exists>xs. remaining p = xs @ remaining q \<and> fst q = rev xs @ fst p"
  shows "q \<in> set (iterate g f n p) \<Longrightarrow> \<exists>xs. remaining p = xs @ remaining q \<and> fst q = rev xs @ fst p"
proof (induction n arbitrary: p)
  case 0
  then show ?case by simp
next
  case (Suc n)
  then consider "q = p" | m where "m \<in> set (f p)" "q \<in> set (iterate g f n m)"
    by (auto simp: Let_def split: if_splits)
  then show ?case
  proof cases
    case 2
    then obtain xs ys where "remaining p = xs @ remaining m" "fst m = rev xs @ fst p"
        "remaining m = ys @ remaining q" "fst q = rev ys @ fst m"
      using assms Suc.IH by blast
    then show ?thesis by (intro exI [of _ "xs @ ys"]) simp
  qed simp
qed

lemma matches_splits:
  "q \<in> set (matches r p) \<Longrightarrow> \<exists>xs. remaining p = xs @ remaining q \<and> fst q = rev xs @ fst p"
proof (induction r arbitrary: p q)
  case (Then r1 r2)
  then obtain m where "m \<in> set (matches r1 p)" "q \<in> set (matches r2 m)" by auto
  with Then.IH obtain xs ys where "remaining p = xs @ remaining m" "fst m = rev xs @ fst p"
      "remaining m = ys @ remaining q" "fst q = rev ys @ fst m" by blast
  then show ?case by (intro exI [of _ "xs @ ys"]) simp
next
  case (Rep g r)
  then show ?case using iterate_splits [of "matches r"] by auto
next
  case (Group n r)
  then show ?case by (cases p) (fastforce simp: remaining_def)
qed (auto simp: remaining_def split: list.splits if_splits prod.splits)

lemma matches_shorter: "q \<in> set (matches r p) \<Longrightarrow> length (remaining q) \<le> length (remaining p)"
  by (drule matches_splits) auto

end
