(* ===== verification/Js_Numbers.thy ===== *)
theory Js_Numbers
  imports Complex_Main Akabbo_Prelude
begin

text \<open>
  The Number type of the language, as far as the program computes amounts with it: IEEE 754
  binary64, rounding to nearest with ties to even, on non-negative values. A value is its exact
  rational, or \<open>None\<close> when it is infinite.
\<close>

function bits :: "int \<Rightarrow> nat" where
  "bits n = (if n \<le> 0 then 0 else Suc (bits (n div 2)))"
  by pat_completeness auto

termination
  by (relation "measure nat") auto

declare bits.simps [simp del]

text \<open>A numeral in base ten.\<close>

definition digits_value :: "string \<Rightarrow> int" where
  "digits_value s = foldl (\<lambda>a c. 10 * a + int (char_digit c)) 0 s"

definition pow2 :: "int \<Rightarrow> rat" where
  "pow2 k = (if 0 \<le> k then 2 ^ nat k else 1 / 2 ^ nat (- k))"

definition half_even :: "rat \<Rightarrow> int" where
  "half_even q =
     (let f = \<lfloor>q\<rfloor>; d = q - of_int f in if d < 1/2 \<or> (d = 1/2 \<and> even f) then f else f + 1)"

text \<open>The exponent of the last of the 53 bits of the significand.\<close>

definition ulp_exponent :: "rat \<Rightarrow> int" where
  "ulp_exponent x =
     (let (n, d) = quotient_of x;
          k = int (bits n) - int (bits d) - 53
      in max (- 1074) (if x < pow2 (k + 53) then k else k + 1))"

definition double :: "rat \<Rightarrow> rat option" where
  "double x =
     (if x = 0 then Some 0
      else let k = ulp_exponent x; significand = half_even (x / pow2 k)
           in if 971 < k then None
              else if k = 971 \<and> significand = 2 ^ 53 then None
              else Some (of_int significand * pow2 k))"

text \<open>Multiplication rounds the exact product.\<close>

fun double_mult :: "rat option \<Rightarrow> rat \<Rightarrow> rat option" where
  "double_mult None y = None"
| "double_mult (Some x) y = double (x * y)"

section \<open>Integers of at most 53 bits are exact\<close>

lemma half_even_int [simp]: "half_even (of_int i) = i"
  by (simp add: half_even_def)

lemma digits_value_nat: "digits_value s = int (dec_to_nat s)"
  by (induction s rule: rev_induct) (simp_all add: digits_value_def dec_to_nat_def)

lemma bits_bound: "n < 2 ^ k \<Longrightarrow> bits n \<le> k"
proof (induction n arbitrary: k rule: bits.induct)
  case (1 n)
  show ?case
  proof (cases "n \<le> 0")
    case False
    with "1.prems" obtain j where k: "k = Suc j" by (cases k) auto
    with "1.prems" have "n div 2 < 2 ^ j" by auto
    with "1.IH" False k show ?thesis by (subst bits.simps) simp
  qed (simp add: bits.simps)
qed

lemma pow2_neg: "k \<le> 0 \<Longrightarrow> \<exists>m. 1 / pow2 k = of_int m"
  by (intro exI [of _ "2 ^ nat (- k)"]) (auto simp: pow2_def)

lemma pow2_pos [simp]: "0 < pow2 k"
  by (simp add: pow2_def)

theorem double_exact:
  assumes "0 \<le> n" "n < 2 ^ 53"
  shows "double (of_int n) = Some (of_int n)"
proof (cases "n = 0")
  case False
  define k where "k = ulp_exponent (of_int n)"
  have "bits n \<le> 53" using assms(2) by (rule bits_bound)
  moreover have "bits 1 = 1" by (simp add: bits.simps)
  moreover have "quotient_of (of_int n) = (n, 1)"
    using quotient_of_int [of n] by (simp add: Rat.of_int_def)
  ultimately have k: "k \<le> 0" by (simp add: k_def ulp_exponent_def Let_def)
  then obtain m where m: "1 / pow2 k = of_int m" using pow2_neg by blast
  have "of_int n / pow2 k = of_int (n * m)" using m by (simp add: divide_inverse)
  then have "of_int (half_even (of_int n / pow2 k)) * pow2 k = of_int n"
    by (metis half_even_int nonzero_eq_divide_eq pow2_pos less_irrefl)
  then show ?thesis using False k by (simp add: double_def k_def [symmetric] Let_def)
qed (simp add: double_def)

lemma half_even_nonneg: "0 \<le> q \<Longrightarrow> 0 \<le> half_even q"
  by (simp add: half_even_def Let_def)

lemma double_nonneg: "0 \<le> x \<Longrightarrow> double x = Some y \<Longrightarrow> 0 \<le> y"
  by (auto simp: double_def Let_def half_even_nonneg less_imp_le split: if_splits)

end
