(* ===== verification/Ai_Amounts.thy ===== *)
theory Ai_Amounts
  imports Js_Regex Js_Numbers Money
begin

text \<open>
  \<^verbatim>\<open>libs/ai/src/amount.ts\<close>: reading the amounts people type ("200k", "1.5m", "ugx 500,000")
  and writing them with separators. The two regular expressions are the ones of the file; the
  arithmetic is that of JavaScript numbers. The lemmas show that grouping is what it should be
  and that reading undoes it for every amount below 2 to the 53rd.
\<close>

section \<open>parseAmountToMinorUnits\<close>

text \<open>\<open>^(?:ugx|usd|shs?|\$)?(\d+(?:\.\d+)?)(k|m)?$\<close>\<close>

definition currency_mark :: regex where
  "currency_mark = alts [lit ''ugx'', lit ''usd'', Then (lit ''sh'') (opt (lit ''s'')), lit ''$'']"

definition decimal_number :: regex where
  "decimal_number = Then (many digit) (opt (Then (lit ''.'') (many digit)))"

definition amount_pattern :: regex where
  "amount_pattern = seqs [At_Start, opt currency_mark, Group 1 decimal_number,
     opt (Group 2 (Or (lit ''k'') (lit ''m''))), At_End]"

text \<open>\<open>Number(numStr)\<close> of a numeral with an optional fraction.\<close>

definition decimal_value :: "string \<Rightarrow> rat" where
  "decimal_value s =
     (let whole = takeWhile (\<lambda>c. c \<noteq> CHR ''.'') s; fraction = drop (Suc (length whole)) s
      in of_int (digits_value whole) + of_int (digits_value fraction) / 10 ^ length fraction)"

definition cleaned :: "string \<Rightarrow> string" where
  "cleaned s = filter (\<lambda>c. \<not> is_blank c) (filter (\<lambda>c. c \<noteq> CHR '','') (ascii_lower (js_trim s)))"

definition parseAmountToMinorUnits :: "string \<Rightarrow> int option" where
  "parseAmountToMinorUnits s =
     (case search amount_pattern (cleaned s) of
        None \<Rightarrow> None
      | Some p \<Rightarrow>
          let numStr = the (group 1 p);
              multiplier = (if group 2 p = Some ''k'' then 1000 else if group 2 p = Some ''m'' then 1000000 else 1)
          in case double_mult (double (decimal_value numStr)) multiplier of
               None \<Rightarrow> None
             | Some scaled \<Rightarrow>
                 if scaled < 0 then None
                 else if \<not> number_isInteger scaled then None
                 else Some \<lfloor>scaled\<rfloor>)"

section \<open>formatAmount\<close>

text \<open>\<open>\B(?=(\d{3})+(?!\d))\<close>\<close>

definition three_digits :: regex where
  "three_digits = Group 1 (seqs [digit, digit, digit])"

definition separator_place :: regex where
  "separator_place = Then Not_Boundary (Ahead (Then (many three_digits) (Not_Ahead digit)))"

definition formatAmount :: "string \<Rightarrow> string" where
  "formatAmount raw =
     (let negative = (take 1 raw = ''-'');
          digits = (if negative then drop 1 raw else raw);
          withCommas = replace_all separator_place '','' digits
      in if negative then ''-'' @ withCommas else withCommas)"

section \<open>Grouping\<close>

lemma not_three_dvd [simp]: "\<not> 3 dvd Suc 0" "\<not> 3 dvd Suc (Suc 0)"
  by presburger+

text \<open>What the separators should be: counted from the right, one before every third digit.\<close>

function thousands :: "string \<Rightarrow> string" where
  "thousands s =
     (if length s \<le> 3 then s
      else thousands (take (length s - 3) s) @ '','' @ drop (length s - 3) s)"
  by pat_completeness auto

termination
  by (relation "measure length") auto

declare thousands.simps [simp del]

lemma three_digits_match:
  "list_all is_digit s \<Longrightarrow> map remaining (matches three_digits (b, s, cs)) = (if 3 \<le> length s then [drop 3 s] else [])"
proof -
  assume "list_all is_digit s"
  then show ?thesis
    by (cases s; cases "tl s"; cases "tl (tl s)")
       (auto simp: three_digits_def digit_def remaining_def list_all_iff)
qed

lemma matches_three_digits:
  assumes "list_all is_digit s" "q \<in> set (matches three_digits (b, s, cs))"
  shows "3 \<le> length s \<and> remaining q = drop 3 s"
proof -
  have "remaining q \<in> set (map remaining (matches three_digits (b, s, cs)))" using assms(2) by simp
  then show ?thesis unfolding three_digits_match [OF assms(1)] by (auto split: if_splits)
qed

lemma three_digits_step:
  assumes "list_all is_digit s" "3 \<le> length s"
  shows "\<exists>q. matches three_digits (b, s, cs) = [q] \<and> remaining q = drop 3 s"
proof -
  have "map remaining (matches three_digits (b, s, cs)) = [drop 3 s]"
    using three_digits_match [OF assms(1)] assms(2) by simp
  then show ?thesis by (cases "matches three_digits (b, s, cs)") auto
qed

lemma iterate_three_digits:
  "list_all is_digit s \<Longrightarrow> length s \<le> n \<Longrightarrow>
   remaining ` set (iterate True (matches three_digits) n (b, s, cs)) = {drop (3 * i) s |i. 3 * i \<le> length s}"
proof (induction n arbitrary: b s cs)
  case 0
  then show ?case by (auto simp: remaining_def)
next
  case (Suc n)
  show ?case
  proof (cases "3 \<le> length s")
    case True
    with three_digits_step [OF Suc.prems(1)] obtain b' cs' where
      step: "matches three_digits (b, s, cs) = [(b', drop 3 s, cs')]"
      by (metis prod.collapse remaining_def)
    have digits: "list_all is_digit (drop 3 s)" using Suc.prems(1) by (metis append_take_drop_id list_all_append)
    have "remaining ` set (iterate True (matches three_digits) n (b', drop 3 s, cs')) =
        {drop (3 * i) (drop 3 s) |i. 3 * i \<le> length (drop 3 s)}"
      using Suc.prems True by (intro Suc.IH digits) simp
    also have "\<dots> = {drop (3 * i) s |i. 3 * i \<le> length s \<and> 0 < i}"
    proof (intro equalityI subsetI; clarsimp)
      fix i assume "3 * i \<le> length s - 3"
      then show "\<exists>j. drop (3 * i + 3) s = drop (3 * j) s \<and> 3 * j \<le> length s \<and> 0 < j"
        using True by (intro exI [of _ "Suc i"]) (simp add: algebra_simps)
    next
      fix i :: nat assume "3 * i \<le> length s" "0 < i"
      then show "\<exists>j. drop (3 * i) s = drop (3 * j + 3) s \<and> 3 * j \<le> length s - 3"
        by (intro exI [of _ "i - 1"]) (auto simp: algebra_simps)
    qed
    finally have "remaining ` set (iterate True (matches three_digits) n (b', drop 3 s, cs')) = \<dots>" .
    moreover have "{drop (3 * i) s |i. 3 * i \<le> length s} =
        insert s {drop (3 * i) s |i. 3 * i \<le> length s \<and> 0 < i}"
      by (auto intro: exI [of _ 0]) (metis drop_0 mult_0_right not_gr_zero)
    moreover have "length s - 3 < length s" using True by simp
    ultimately show ?thesis
      using step by (simp add: remaining_def Let_def)
  next
    case False
    then have "matches three_digits (b, s, cs) = []"
      using three_digits_match [OF Suc.prems(1)] by simp
    moreover have "3 * i \<le> length s \<longleftrightarrow> i = 0" for i using False by auto
    ultimately show ?thesis by (simp add: remaining_def)
  qed
qed

text \<open>Inside a run of digits a separator is due exactly where a positive multiple of three
  digits follows.\<close>

lemma digit_follows:
  "list_all is_digit s \<Longrightarrow> matches (Not_Ahead digit) (b, s, cs) = (if s = [] then [(b, s, cs)] else [])"
  by (cases s) (auto simp: digit_def)

lemma grouped_lookahead:
  assumes "list_all is_digit s"
  shows "matches (Then (many three_digits) (Not_Ahead digit)) (b, s, cs) \<noteq> [] \<longleftrightarrow> s \<noteq> [] \<and> 3 dvd length s"
proof (cases "3 \<le> length s")
  case True
  with three_digits_step [OF assms] obtain b' cs' where
    step: "matches three_digits (b, s, cs) = [(b', drop 3 s, cs')]"
    by (metis prod.collapse remaining_def)
  define reached where "reached = set (iterate True (matches three_digits) (length (drop 3 s)) (b', drop 3 s, cs'))"
  have digits: "list_all is_digit (drop 3 s)" using assms by (metis append_take_drop_id list_all_append)
  then have ends: "remaining ` reached = {drop (3 * i) (drop 3 s) |i. 3 * i \<le> length (drop 3 s)}"
    unfolding reached_def by (intro iterate_three_digits) simp_all
  have stop: "matches (Not_Ahead digit) q \<noteq> [] \<longleftrightarrow> remaining q = []" if "q \<in> reached" for q
  proof -
    have "remaining q \<in> {drop (3 * i) (drop 3 s) |i. 3 * i \<le> length (drop 3 s)}" using that ends by blast
    then obtain i where "remaining q = drop (3 * i) (drop 3 s)" by blast
    then have "list_all is_digit (remaining q)" using digits by (metis append_take_drop_id list_all_append)
    then show ?thesis using digit_follows by (cases q) (auto simp: remaining_def)
  qed
  have "matches (Then (many three_digits) (Not_Ahead digit)) (b, s, cs) \<noteq> [] \<longleftrightarrow>
      (\<exists>q\<in>reached. matches (Not_Ahead digit) q \<noteq> [])"
    using step by (simp add: many_def reached_def remaining_def)
  also have "\<dots> \<longleftrightarrow> [] \<in> remaining ` reached" using stop by force
  also have "\<dots> \<longleftrightarrow> (\<exists>i. 3 * i = length (drop 3 s))"
    unfolding ends mem_Collect_eq by (intro ex_cong1) auto
  also have "\<dots> \<longleftrightarrow> 3 dvd length s" using True by (auto simp: dvd_def) presburger+
  finally show ?thesis using True by auto
next
  case False
  then have "matches three_digits (b, s, cs) = []" using three_digits_match [OF assms] by simp
  with False show ?thesis by (cases s; cases "tl s"; cases "tl (tl s)") (auto simp: many_def)
qed

lemma digit_word [simp]: "is_digit c \<Longrightarrow> word_char c"
  by (simp add: word_char_def)

lemma separator_place_match:
  assumes "list_all is_digit s" "list_all is_digit b"
  shows "b \<noteq> [] \<and> s \<noteq> [] \<and> 3 dvd length s \<Longrightarrow> \<exists>cs'. matches separator_place (b, s, cs) = [(b, s, cs')]"
    and "\<not> (b \<noteq> [] \<and> s \<noteq> [] \<and> 3 dvd length s) \<Longrightarrow> matches separator_place (b, s, cs) = []"
proof -
  define inner where "inner = Then (many three_digits) (Not_Ahead digit)"
  have place: "matches separator_place (b, s, cs) =
      (if word_at b = word_at s then matches (Ahead inner) (b, s, cs) else [])"
    by (simp add: separator_place_def inner_def [symmetric] del: matches.simps(11))
  have words: "word_at b = (b \<noteq> [])" "word_at s = (s \<noteq> [])"
    using assms by (auto simp: word_at_def split: list.splits)
  have inner: "matches (Ahead inner) (b, s, cs) \<noteq> [] \<longleftrightarrow> s \<noteq> [] \<and> 3 dvd length s"
    unfolding ahead_nonempty inner_def by (rule grouped_lookahead [OF assms(1)])
  show "b \<noteq> [] \<and> s \<noteq> [] \<and> 3 dvd length s \<Longrightarrow> \<exists>cs'. matches separator_place (b, s, cs) = [(b, s, cs')]"
    unfolding place using words inner ahead_stays by auto
  show "\<not> (b \<noteq> [] \<and> s \<noteq> [] \<and> 3 dvd length s) \<Longrightarrow> matches separator_place (b, s, cs) = []"
    unfolding place using words inner by (cases "b = []"; cases "s = []") auto
qed

text \<open>The separators, from left to right.\<close>

fun separated :: "bool \<Rightarrow> string \<Rightarrow> string" where
  "separated started [] = []"
| "separated started (c # s) =
     (if started \<and> 3 dvd length (c # s) then [CHR '','', c] else [c]) @ separated True s"

lemma replace_separated:
  "list_all is_digit s \<Longrightarrow> list_all is_digit b \<Longrightarrow>
   replace_from separator_place '','' b s = separated (b \<noteq> []) s"
proof (induction s arbitrary: b)
  case Nil
  have "matches separator_place (b, [], []) = []"
    using Nil by (intro separator_place_match) auto
  then show ?case by (subst replace_from.simps) simp
next
  case (Cons c s)
  have later: "replace_from separator_place '','' (c # b) s = separated True s"
    using Cons.IH [of "c # b"] Cons.prems by simp
  show ?case
  proof (cases "b \<noteq> [] \<and> 3 dvd length (c # s)")
    case True
    with separator_place_match(1) [OF Cons.prems, of "[]"]
    obtain cs' where "matches separator_place (b, c # s, []) = [(b, c # s, cs')]" by auto
    with True later show ?thesis by (subst replace_from.simps) (simp add: remaining_def)
  next
    case False
    with separator_place_match(2) [OF Cons.prems, of "[]"]
    have "matches separator_place (b, c # s, []) = []" by auto
    with False later show ?thesis by (subst replace_from.simps) auto
  qed
qed

lemma separated_append:
  "3 dvd length ys \<Longrightarrow> separated started (xs @ ys) = separated started xs @ separated (started \<or> xs \<noteq> []) ys"
proof (induction xs arbitrary: started)
  case (Cons x xs)
  have "3 dvd Suc (length xs + length ys) \<longleftrightarrow> 3 dvd Suc (length xs)"
    using Cons.prems by (metis add_Suc dvd_add_left_iff)
  then show ?case using Cons by simp
qed simp

lemma separated_thousands: "separated False s = thousands s"
proof (induction s rule: thousands.induct)
  case (1 s)
  show ?case
  proof (cases "length s \<le> 3")
    case True
    then show ?thesis
      by (subst thousands.simps; cases s; cases "tl s"; cases "tl (tl s)") auto
  next
    case False
    define xs ys where "xs = take (length s - 3) s" and "ys = drop (length s - 3) s"
    with False have s: "s = xs @ ys" "length ys = 3" "xs \<noteq> []" by auto
    then have "separated True ys = CHR '','' # ys"
        by (cases ys; cases "tl ys"; cases "tl (tl ys)") (auto simp: numeral_3_eq_3 [symmetric])
    then have "separated False s = separated False xs @ CHR '','' # ys"
      using s by (simp add: separated_append)
    also have "separated False xs = thousands xs" using "1" False unfolding xs_def by blast
    finally show ?thesis using False by (subst thousands.simps) (simp add: xs_def ys_def)
  qed
qed

lemma take_1_digits: "s \<noteq> [] \<Longrightarrow> list_all is_digit s \<Longrightarrow> take 1 s \<noteq> ''-''"
  using minus_not_digit by (cases s) auto

lemma formatAmount_digits: "s \<noteq> [] \<Longrightarrow> list_all is_digit s \<Longrightarrow> formatAmount s = thousands s"
  using take_1_digits [of s]
  by (simp add: formatAmount_def replace_all_def replace_separated separated_thousands Let_def)

section \<open>Reading back\<close>

lemma separated_only:
  "list_all is_digit s \<Longrightarrow> list_all (\<lambda>c. is_digit c \<or> c = CHR '','') (separated b s)"
  "list_all is_digit s \<Longrightarrow> filter (\<lambda>c. c \<noteq> CHR '','') (separated b s) = s"
proof -
  have comma: "\<not> is_digit CHR '',''" by (simp add: is_digit_def)
  show "list_all is_digit s \<Longrightarrow> list_all (\<lambda>c. is_digit c \<or> c = CHR '','') (separated b s)"
    by (induction s arbitrary: b) auto
  show "list_all is_digit s \<Longrightarrow> filter (\<lambda>c. c \<noteq> CHR '','') (separated b s) = s"
    using comma by (induction s arbitrary: b) auto
qed

lemma plain_char: "is_digit c \<or> c = CHR '','' \<Longrightarrow> \<not> is_blank c \<and> char_lower c = c"
  by (auto simp: is_digit_def is_blank_def char_lower_def Let_def)

lemma js_trim_id: "(\<And>c. c \<in> set s \<Longrightarrow> \<not> is_blank c) \<Longrightarrow> js_trim s = s"
proof -
  assume plain: "\<And>c. c \<in> set s \<Longrightarrow> \<not> is_blank c"
  then have "dropWhile is_blank t = t" if "set t \<subseteq> set s" for t
    using that by (cases t) auto
  then show ?thesis by (simp add: js_trim_def)
qed

lemma cleaned_plain:
  assumes "list_all (\<lambda>c. is_digit c \<or> c = CHR '','') s"
  shows "cleaned s = filter (\<lambda>c. c \<noteq> CHR '','') s"
proof -
  have plain: "\<not> is_blank c" "char_lower c = c" if "c \<in> set s" for c
    using plain_char [of c] assms that by (auto simp: list_all_iff)
  then have "js_trim s = s" by (intro js_trim_id)
  moreover have "ascii_lower s = s" using plain by (simp add: ascii_lower_def map_idI)
  moreover have "filter (\<lambda>x. \<not> is_blank x) t = t" if "set t \<subseteq> set s" for t
    using plain(1) that by (intro filter_True) auto
  ultimately show ?thesis by (simp only: cleaned_def) (metis filter_is_subset)
qed

lemma dot_not_digit: "\<not> is_digit CHR ''.''"
  by (simp add: is_digit_def)

lemma amount_pattern_digits:
  assumes "s \<noteq> []" "list_all is_digit s"
  shows "search amount_pattern s = Some (rev s, [], [(1, s)])"
proof -
  obtain d ds where s: "s = d # ds" "is_digit d" using assms by (cases s) auto
  have letters: "char_lower d \<noteq> c" if "\<not> is_digit c" for c
    using plain_char [of d] s(2) that by auto
  have lower: "\<not> is_digit (char_lower c)" if "c \<in> {CHR ''u'', CHR ''s'', CHR ''$'', CHR ''k'', CHR ''m''}" for c
    using that by (auto simp: is_digit_def char_lower_def Let_def)
  have mark: "matches currency_mark ([], s, []) = []"
    using letters lower unfolding currency_mark_def s by simp
  have number: "prefers decimal_number ([], s @ [], []) (rev s @ [], [], [])"
    unfolding decimal_number_def
    by (rule prefers_Then [OF prefers_many [of is_digit, folded digit_def] prefers_opt_skip]) (use assms in auto)
  have "prefers amount_pattern ([], s, []) (rev s, [], [(1, s)])"
    unfolding amount_pattern_def seqs.simps
  proof (rule prefers_Then)
    show "prefers At_Start ([], s, []) ([], s, [])" by (simp add: prefers_def)
    show "prefers (Then (opt currency_mark) (Then (Group 1 decimal_number)
        (Then (opt (Group 2 (Or (lit ''k'') (lit ''m'')))) At_End))) ([], s, []) (rev s, [], [(1, s)])"
    proof (rule prefers_Then [OF prefers_opt_skip [OF mark]], rule prefers_Then)
      show "prefers (Group 1 decimal_number) ([], s, []) (rev s, [], [(1, s)])"
        using prefers_Group [of decimal_number "[]" s "[]" "rev s" "[]" "[]" 1] number by simp
      show "prefers (Then (opt (Group 2 (Or (lit ''k'') (lit ''m'')))) At_End) (rev s, [], [(1, s)]) (rev s, [], [(1, s)])"
        by (rule prefers_Then [OF prefers_opt_skip]) (simp_all add: prefers_def)
    qed
  qed
  then show ?thesis by (metis prefers_search start_of_def)
qed

lemma decimal_value_digits:
  assumes "list_all is_digit s"
  shows "decimal_value s = of_int (int (dec_to_nat s))"
proof -
  have "takeWhile (\<lambda>c. c \<noteq> CHR ''.'') s = s"
    using assms dot_not_digit by (subst takeWhile_eq_all_conv) (auto simp: list_all_iff)
  moreover have "digits_value [] = 0" by (simp add: digits_value_def)
  ultimately show ?thesis unfolding decimal_value_def Let_def by (simp only: digits_value_nat) simp
qed

lemma parseAmount_digits:
  assumes "cleaned t = s" "s \<noteq> []" "list_all is_digit s" "dec_to_nat s < 2 ^ 53"
  shows "parseAmountToMinorUnits t = Some (int (dec_to_nat s))"
proof -
  have "group 1 (rev s, [], [(1, s)]) = Some s" "group 2 (rev s, [], [(1, s)]) = None"
    by (simp_all add: group_def captures_def)
  then show ?thesis
    using assms
    by (simp add: parseAmountToMinorUnits_def amount_pattern_digits decimal_value_digits
        double_exact [of "int (dec_to_nat s)", simplified] number_isInteger_def)
qed

text \<open>Amounts survive display: an amount of at most 53 bits, written with separators as the
  assistant shows it, is read back as the same amount; and what is shown is the decimal numeral
  with a comma before every third digit from the right, after the sign.\<close>

theorem amount_display_roundtrip:
  "formatAmount (moneyToString v) =
     (if v < 0 then ''-'' @ thousands (nat_to_dec (nat (- v))) else thousands (nat_to_dec (nat v)))
   \<and> (0 \<le> v \<and> v < 2 ^ 53 \<longrightarrow> parseAmountToMinorUnits (formatAmount (moneyToString v)) = Some v)"
proof -
  have shown: "formatAmount (moneyToString v) =
     (if v < 0 then ''-'' @ thousands (nat_to_dec (nat (- v))) else thousands (nat_to_dec (nat v)))"
  proof (cases "v < 0")
    case True
    then show ?thesis
      using nat_to_dec_digits [of "nat (- v)"]
      by (simp add: formatAmount_def moneyToString_def int_to_dec_def replace_all_def replace_separated
          separated_thousands Let_def)
  next
    case False
    then show ?thesis
      using formatAmount_digits nat_to_dec_digits by (simp add: moneyToString_def int_to_dec_def)
  qed
  moreover have "parseAmountToMinorUnits (formatAmount (moneyToString v)) = Some v" if v: "0 \<le> v" "v < 2 ^ 53"
  proof -
    let ?s = "nat_to_dec (nat v)"
    have "cleaned (thousands ?s) = ?s"
      using separated_only [OF nat_to_dec_digits, where b = False]
      by (simp add: cleaned_plain separated_thousands [symmetric])
    moreover have "nat v < 2 ^ 53" using v by (simp add: nat_less_iff)
    ultimately have "parseAmountToMinorUnits (thousands ?s) = Some (int (nat v))"
      using parseAmount_digits [of "thousands ?s" ?s] nat_to_dec_digits by simp
    with v shown show ?thesis by simp
  qed
  ultimately show ?thesis by blast
qed

text \<open>The arithmetic of JavaScript numbers shows through: "4.1m" and "1.005k", which name whole
  amounts, are rejected because the product is not an integer in binary64, and an amount of
  54 bits is read as its neighbour.\<close>

theorem decimal_amounts_lost:
  "parseAmountToMinorUnits ''1.5m'' = Some 1500000
   \<and> parseAmountToMinorUnits ''4.1m'' = None
   \<and> parseAmountToMinorUnits ''1.005k'' = None
   \<and> parseAmountToMinorUnits ''9007199254740993'' = Some 9007199254740992"
  by code_simp

end
