(* ===== verification/Tier1_Parser.thy ===== *)
theory Tier1_Parser
  imports Ai_Amounts Schema
begin

text \<open>
  The typed tool calls of the assistant (\<^verbatim>\<open>libs/ai/src/tools/tool-call.ts\<close>) and the
  deterministic parser that produces them without a language model
  (\<^verbatim>\<open>libs/ai/src/tier1-parser.ts\<close>), each regular expression as the file has it. A string is its
  UTF-8 bytes; blanks and the letters that fold are the ASCII ones.
\<close>

section \<open>tool-call.ts\<close>

record add_person_args =
  aa_displayName :: string
  aa_phone :: "string option"
  aa_confirmSharedPhone :: "bool option"

record record_pledge_args =
  ra_personName :: string
  ra_amount :: string
  ra_type :: "pledge_type option"
  ra_description :: "string option"
  ra_receivedNow :: "string option"
  ra_budgetItemName :: "string option"

record record_payment_args =
  ya_personName :: string
  ya_amount :: string
  ya_type :: "pledge_type option"
  ya_description :: "string option"
  ya_budgetItemName :: "string option"

datatype tool_call =
    Add_person add_person_args
  | Record_pledge record_pledge_args
  | Record_payment record_payment_args
  | Get_outstanding "string option"
  | Get_summary

text \<open>The constraints of the schemas: \<open>min\<close> and \<open>max\<close> on the length of a string, and the digit
  pattern of an amount.\<close>

definition sized :: "nat \<Rightarrow> nat \<Rightarrow> string \<Rightarrow> bool" where
  "sized lo hi s = (lo \<le> length s \<and> length s \<le> hi)"

definition optional :: "('a \<Rightarrow> bool) \<Rightarrow> 'a option \<Rightarrow> bool" where
  "optional ok x = (case x of None \<Rightarrow> True | Some v \<Rightarrow> ok v)"

definition amountString :: "string \<Rightarrow> bool" where
  "amountString s = (s \<noteq> [] \<and> list_all is_digit s)"

definition addPersonArgs :: "add_person_args \<Rightarrow> bool" where
  "addPersonArgs a = (sized 1 200 (aa_displayName a) \<and> optional (sized 1 20) (aa_phone a))"

definition recordPledgeArgs :: "record_pledge_args \<Rightarrow> bool" where
  "recordPledgeArgs a =
     (ra_personName a \<noteq> [] \<and> amountString (ra_amount a) \<and> optional (sized 1 500) (ra_description a)
      \<and> optional amountString (ra_receivedNow a) \<and> optional (sized 1 200) (ra_budgetItemName a))"

definition recordPaymentArgs :: "record_payment_args \<Rightarrow> bool" where
  "recordPaymentArgs a =
     (ya_personName a \<noteq> [] \<and> amountString (ya_amount a) \<and> optional (sized 1 500) (ya_description a)
      \<and> optional (sized 1 200) (ya_budgetItemName a))"

definition getOutstandingArgs :: "string option \<Rightarrow> bool" where
  "getOutstandingArgs personName = optional (\<lambda>n. n \<noteq> []) personName"

fun toolCallSchema :: "tool_call \<Rightarrow> bool" where
  "toolCallSchema (Add_person a) = addPersonArgs a"
| "toolCallSchema (Record_pledge a) = recordPledgeArgs a"
| "toolCallSchema (Record_payment a) = recordPaymentArgs a"
| "toolCallSchema (Get_outstanding n) = getOutstandingArgs n"
| "toolCallSchema Get_summary = True"

section \<open>tier1-parser.ts\<close>

definition PAYMENT_VERBS :: "string list" where
  "PAYMENT_VERBS = [''paid'', ''sent'', ''gave'', ''deposited'', ''contributed'', ''brought'', ''dropped'']"

definition PLEDGE_VERBS :: "string list" where
  "PLEDGE_VERBS = [''pledged'', ''promised'', ''committed'']"

text \<open>\<open>\d[\d,]*(?:\.\d+)?\<close>\<close>

definition money_figure :: regex where
  "money_figure = seqs [digit, star (Chr (\<lambda>c. is_digit c \<or> c = CHR '','')), opt (Then (lit ''.'') (many digit))]"

text \<open>\<open>(?:ugx|usd|shs?|\$)?\s?(\d[\d,]*(?:\.\d+)?(?:[km](?![a-z]))?)\<close>\<close>

definition MONEY_TOKEN :: regex where
  "MONEY_TOKEN = seqs [opt currency_mark, opt space,
     Group 1 (Then money_figure (opt (Then (chars ''km'')
       (Not_Ahead (Chr letter)))))]"

definition extractAmount :: "string \<Rightarrow> int option" where
  "extractAmount text =
     (case search MONEY_TOKEN text of
        None \<Rightarrow> None
      | Some m \<Rightarrow> parseAmountToMinorUnits (the (group 1 m)))"

text \<open>\<open>^\s*(?:ugx|usd|shs?|\$)?\s?\d[\d,]*(?:\.\d+)?\s?[km]?\s*$\<close>\<close>

definition amount_like :: regex where
  "amount_like = seqs [At_Start, star space, opt currency_mark, opt space, money_figure, opt space,
     opt (chars ''km''), star space, At_End]"

definition looksLikeAmount :: "string \<Rightarrow> bool" where
  "looksLikeAmount text = test amount_like text"

text \<open>\<open>\b(summary|totals?|how much (have|did) we (raise[d]?|collect(ed)?|get))\b\<close>\<close>

definition summary_question :: regex where
  "summary_question = seqs [Boundary,
     alts [lit ''summary'', Then (lit ''total'') (opt (lit ''s'')),
       seqs [lit ''how much '', words_of [''have'', ''did''], lit '' we '',
         alts [Then (lit ''raise'') (opt (chars ''d'')), Then (lit ''collect'') (opt (lit ''ed'')), lit ''get'']]],
     Boundary]"

text \<open>\<open>how much does (.+?) owe|(.+?)['q]s (?:balance|outstanding)\<close>, \<open>q\<close> being the typographic
  apostrophe.\<close>

definition owes_question :: regex where
  "owes_question = Or
     (seqs [lit ''how much does '', Group 1 (lazy_many any), lit '' owe''])
     (seqs [Group 2 (lazy_many any), Or (lit [CHR 0x27]) (lit [CHR 0xE2, CHR 0x80, CHR 0x99]), lit ''s '',
        words_of [''balance'', ''outstanding'']])"

text \<open>\<open>\b(who owes|outstanding|remaining balance|what('?s| is) outstanding)\b\<close>\<close>

definition outstanding_question :: regex where
  "outstanding_question = seqs [Boundary,
     alts [lit ''who owes'', lit ''outstanding'', lit ''remaining balance'',
       seqs [lit ''what'', Or (Then (opt (lit [CHR 0x27])) (lit ''s'')) (lit '' is''), lit '' outstanding'']],
     Boundary]"

text \<open>\<open>^(?:record\s+|note\s+|log\s+)?(.+?)\s+(paid|...|committed)\s+(.+)$\<close>\<close>

definition verb_sentence :: regex where
  "verb_sentence = seqs [At_Start,
     opt (alts [Then (lit ''record'') (many space), Then (lit ''note'') (many space), Then (lit ''log'') (many space)]),
     Group 1 (lazy_many any), many space, Group 2 (words_of (PAYMENT_VERBS @ PLEDGE_VERBS)), many space,
     Group 3 (many any), At_End]"

text \<open>\<open>^\s*\d[\d,]*(?:\.\d+)?\s*\S*\s+of\s+\S\<close>\<close>

definition in_kind_phrase :: regex where
  "in_kind_phrase = seqs [At_Start, star space, money_figure, star space, star non_space, many space,
     lit ''of'', many space, non_space]"

text \<open>\<open>^(?:add|new)\s+(?:person\s+|contributor\s+)?(.+)$\<close>\<close>

definition add_sentence :: regex where
  "add_sentence = seqs [At_Start, words_of [''add'', ''new''], many space,
     opt (Or (Then (lit ''person'') (many space)) (Then (lit ''contributor'') (many space))),
     Group 1 (many any), At_End]"

definition trailing_marks :: regex where
  "trailing_marks = Then (many (chars ''.,!?'')) At_End"

definition parse_contribution :: "string \<Rightarrow> tool_call option option" where
  "parse_contribution text =
     (case search verb_sentence text of
        None \<Rightarrow> None
      | Some m \<Rightarrow>
          let name = js_trim (the (group 1 m)); verb = ascii_lower (the (group 2 m)); rest = the (group 3 m) in
          if test in_kind_phrase rest then Some None
          else case extractAmount rest of
            None \<Rightarrow> None
          | Some amount \<Rightarrow>
              if name \<noteq> [] \<and> \<not> looksLikeAmount name \<and> amount > 0 then
                if verb \<in> set PAYMENT_VERBS then
                  Some (Some (Record_payment \<lparr>ya_personName = name, ya_amount = int_to_dec amount, ya_type = None,
                    ya_description = None, ya_budgetItemName = None\<rparr>))
                else if verb \<in> set PLEDGE_VERBS then
                  Some (Some (Record_pledge \<lparr>ra_personName = name, ra_amount = int_to_dec amount, ra_type = None,
                    ra_description = None, ra_receivedNow = None, ra_budgetItemName = None\<rparr>))
                else None
              else None)"

definition parse_addition :: "string \<Rightarrow> tool_call option" where
  "parse_addition text =
     (case search add_sentence text of
        None \<Rightarrow> None
      | Some m \<Rightarrow>
          let name = replace_first trailing_marks '''' (js_trim (the (group 1 m))) in
          if name \<noteq> [] \<and> \<not> looksLikeAmount name \<and> length name \<le> 200
          then Some (Add_person \<lparr>aa_displayName = name, aa_phone = None, aa_confirmSharedPhone = None\<rparr>)
          else None)"

text \<open>\<open>parse_contribution\<close> answers \<open>Some None\<close> where the source returns null at once.\<close>

definition owed_by_whom :: "string \<Rightarrow> string option" where
  "owed_by_whom text =
     (case search owes_question text of
        None \<Rightarrow> None
      | Some m \<Rightarrow> (let name = js_trim (nullish (nullish_opt (group 1 m) (group 2 m)) '''')
                   in if name \<noteq> [] then Some name else None))"

definition parseTier1 :: "string \<Rightarrow> tool_call option" where
  "parseTier1 utterance =
     (let text = replace_all (many space) '' '' (js_trim utterance) in
      if text = [] then None
      else if test summary_question text then Some Get_summary
      else case owed_by_whom text of
        Some name \<Rightarrow> Some (Get_outstanding (Some name))
      | None \<Rightarrow>
          if test outstanding_question text then Some (Get_outstanding None)
          else case parse_contribution text of
            Some answer \<Rightarrow> answer
          | None \<Rightarrow> parse_addition text)"

section \<open>What it produces\<close>

lemma amountString_int: "0 \<le> v \<Longrightarrow> amountString (int_to_dec v)"
  using nat_to_dec_digits by (simp add: amountString_def int_to_dec_def)

lemma parse_contribution_shape:
  assumes "parse_contribution text = Some (Some call)"
  shows "toolCallSchema call \<and> (\<exists>name v. name \<noteq> [] \<and> \<not> looksLikeAmount name \<and> 0 < v
    \<and> (call = Record_payment \<lparr>ya_personName = name, ya_amount = int_to_dec v, ya_type = None,
          ya_description = None, ya_budgetItemName = None\<rparr>
       \<or> call = Record_pledge \<lparr>ra_personName = name, ra_amount = int_to_dec v, ra_type = None,
          ra_description = None, ra_receivedNow = None, ra_budgetItemName = None\<rparr>))"
  using assms
  by (auto simp: parse_contribution_def Let_def recordPaymentArgs_def recordPledgeArgs_def optional_def
      amountString_int split: option.splits if_splits)

lemma parse_addition_shape:
  assumes "parse_addition text = Some call"
  shows "toolCallSchema call \<and> (\<exists>name. \<not> looksLikeAmount name
    \<and> call = Add_person \<lparr>aa_displayName = name, aa_phone = None, aa_confirmSharedPhone = None\<rparr>)"
  using assms
  by (auto simp: parse_addition_def Let_def addPersonArgs_def sized_def optional_def Suc_le_eq split: option.splits if_splits)

lemma owed_by_whom_Some: "owed_by_whom said = Some name \<Longrightarrow> name \<noteq> []"
  by (auto simp: owed_by_whom_def Let_def split: option.splits if_splits)

lemma parseTier1_cases:
  assumes "parseTier1 utterance = Some call"
  shows "call = Get_summary \<or> (\<exists>name. call = Get_outstanding (Some name) \<and> name \<noteq> []) \<or> call = Get_outstanding None
    \<or> (\<exists>said. parse_contribution said = Some (Some call)) \<or> (\<exists>said. parse_addition said = Some call)"
proof -
  define said where "said = replace_all (many space) '' '' (js_trim utterance)"
  note answer = assms [unfolded parseTier1_def Let_def, folded said_def]
  show ?thesis
  proof (cases "said = [] \<or> test summary_question said")
    case True
    with answer show ?thesis by (auto split: if_splits)
  next
    case False
    with answer show ?thesis
      by (cases "owed_by_whom said"; cases "parse_contribution said")
         (auto dest: owed_by_whom_Some split: if_splits)
  qed
qed

text \<open>C28. The deterministic parser stays inside the typed contract: whatever text it is given, a call
  it returns satisfies the schema of its tool; a contribution has a name that is not itself an
  amount and a positive amount, and carries nothing the user did not type (no type, description,
  received part or budget line); a person to add has a name that is not an amount.\<close>

theorem tier1_calls_valid:
  assumes "parseTier1 utterance = Some call"
  shows "toolCallSchema call \<and>
    (case call of
       Record_payment a \<Rightarrow> \<not> looksLikeAmount (ya_personName a) \<and> 0 < digits_value (ya_amount a)
         \<and> a = \<lparr>ya_personName = ya_personName a, ya_amount = ya_amount a, ya_type = None, ya_description = None,
               ya_budgetItemName = None\<rparr>
     | Record_pledge a \<Rightarrow> \<not> looksLikeAmount (ra_personName a) \<and> 0 < digits_value (ra_amount a)
         \<and> a = \<lparr>ra_personName = ra_personName a, ra_amount = ra_amount a, ra_type = None, ra_description = None,
               ra_receivedNow = None, ra_budgetItemName = None\<rparr>
     | Add_person a \<Rightarrow> \<not> looksLikeAmount (aa_displayName a) \<and> aa_phone a = None
     | Get_outstanding n \<Rightarrow> True
     | Get_summary \<Rightarrow> True)"
proof -
  have positive: "0 < digits_value (int_to_dec v)" if "0 < v" for v
    using that by (simp add: digits_value_nat int_to_dec_def)
  from parseTier1_cases [OF assms] show ?thesis
  proof (elim disjE exE)
    fix said assume "parse_contribution said = Some (Some call)"
    then show ?thesis using parse_contribution_shape positive by fastforce
  next
    fix said assume "parse_addition said = Some call"
    then show ?thesis using parse_addition_shape by fastforce
  qed (auto simp: getOutstandingArgs_def optional_def)
qed

theorem tier1_calls_valid_witness:
  "parseTier1 ''Mary pledged ugx 50'' = Some (Record_pledge \<lparr>ra_personName = ''Mary'', ra_amount = ''50'',
     ra_type = None, ra_description = None, ra_receivedNow = None, ra_budgetItemName = None\<rparr>)
   \<and> toolCallSchema (Record_pledge \<lparr>ra_personName = ''Mary'', ra_amount = ''50'',
     ra_type = None, ra_description = None, ra_receivedNow = None, ra_budgetItemName = None\<rparr>)"
proof
  show "parseTier1 ''Mary pledged ugx 50'' = Some (Record_pledge \<lparr>ra_personName = ''Mary'', ra_amount = ''50'',
     ra_type = None, ra_description = None, ra_receivedNow = None, ra_budgetItemName = None\<rparr>)"
    by code_simp
  then show "toolCallSchema (Record_pledge \<lparr>ra_personName = ''Mary'', ra_amount = ''50'',
     ra_type = None, ra_description = None, ra_receivedNow = None, ra_budgetItemName = None\<rparr>)"
    by (rule tier1_calls_valid [THEN conjunct1])
qed

end
