(* ===== verification/Tool_Executor.thy ===== *)
theory Tool_Executor
  imports Tier1_Parser Sms_Service Membership_Service Budget_Service Ledger_Query
begin

text \<open>
  Running a resolved action of the assistant: \<^verbatim>\<open>libs/ai/src/entity-resolver.service.ts\<close> (names
  to rows of one event) and \<^verbatim>\<open>libs/ai/src/tool-executor.service.ts\<close> (each action calls the
  domain services with the caller's own context). Strings are their UTF-8 bytes; case folding is
  that of ASCII.
\<close>

section \<open>BigInt of a string\<close>

text \<open>\<open>StringToBigInt\<close>: blanks around the numeral are ignored, no digits at all give zero, a sign
  is allowed before decimal digits only, and anything else is a \<open>SyntaxError\<close>.\<close>

definition radix_digit :: "char \<Rightarrow> nat option" where
  "radix_digit c =
     (if is_digit c then Some (char_digit c)
      else if letter c then Some (of_char (char_lower c) - 87) else None)"

fun radix_value :: "nat \<Rightarrow> int \<Rightarrow> string \<Rightarrow> int option" where
  "radix_value base acc [] = Some acc"
| "radix_value base acc (c # s) =
     (case radix_digit c of
        None \<Rightarrow> None
      | Some d \<Rightarrow> if d < base then radix_value base (int base * acc + int d) s else None)"

definition numeral_in :: "nat \<Rightarrow> string \<Rightarrow> int option" where
  "numeral_in base s = (if s = [] then None else radix_value base 0 s)"

definition BigInt :: "string \<Rightarrow> error + int" where
  "BigInt text =
     (let s = js_trim text;
          value = (if s = [] then Some 0
            else if take 2 (ascii_lower s) = ''0x'' then numeral_in 16 (drop 2 s)
            else if take 2 (ascii_lower s) = ''0o'' then numeral_in 8 (drop 2 s)
            else if take 2 (ascii_lower s) = ''0b'' then numeral_in 2 (drop 2 s)
            else if take 1 s = ''-'' then map_option uminus (numeral_in 10 (drop 1 s))
            else if take 1 s = ''+'' then numeral_in 10 (drop 1 s)
            else numeral_in 10 s)
      in case value of
           None \<Rightarrow> Inl (Thrown (''Cannot convert '' @ text @ '' to a BigInt''))
         | Some v \<Rightarrow> Inr v)"

lemma radix_value_digits:
  "list_all is_digit s \<Longrightarrow> radix_value 10 acc s = Some (foldl (\<lambda>a c. 10 * a + int (char_digit c)) acc s)"
proof (induction s arbitrary: acc)
  case (Cons c s)
  then have "char_digit c < 10" by (auto simp: is_digit_def char_digit_def)
  with Cons show ?case by (simp add: radix_digit_def)
qed simp

lemma digit_not_blank: "is_digit c \<Longrightarrow> \<not> is_blank c"
  using plain_char by blast

lemma BigInt_digits:
  assumes "amountString s"
  shows "BigInt s = Inr (digits_value s)"
proof -
  have digits: "list_all is_digit s" "s \<noteq> []" using assms by (auto simp: amountString_def)
  then have trim: "js_trim s = s" by (auto intro!: js_trim_id digit_not_blank simp: list_all_iff)
  have folded: "ascii_lower s = s"
    using digits plain_char by (auto simp: ascii_lower_def list_all_iff intro!: map_idI)
  have "take 2 s \<noteq> ''0x''" "take 2 s \<noteq> ''0o''" "take 2 s \<noteq> ''0b''" "take 1 s \<noteq> ''-''" "take 1 s \<noteq> ''+''"
  proof -
    have only: "\<forall>c\<in>set (take n s). is_digit c" for n
      using digits by (auto simp: list_all_iff dest: in_set_takeD)
    have "\<not> is_digit CHR ''x''" "\<not> is_digit CHR ''o''" "\<not> is_digit CHR ''b''" "\<not> is_digit CHR ''-''" "\<not> is_digit CHR ''+''"
      by (simp_all add: is_digit_def)
    then show "take 2 s \<noteq> ''0x''" "take 2 s \<noteq> ''0o''" "take 2 s \<noteq> ''0b''" "take 1 s \<noteq> ''-''" "take 1 s \<noteq> ''+''"
      using only [of 2] only [of 1] by auto
  qed
  then show ?thesis
    using digits trim folded
    by (simp add: BigInt_def numeral_in_def radix_value_digits digits_value_def)
qed

section \<open>entity-resolver.service.ts\<close>

record person_candidate =
  pca_personId :: uuid
  pca_displayName :: string

datatype person_resolution =
    Person_resolved uuid string
  | Person_ambiguous "person_candidate list"
  | Person_none

record pledge_candidate =
  plc_pledgeId :: uuid
  plc_committedValue :: string

datatype pledge_resolution =
    Pledge_resolved uuid
  | Pledge_ambiguous "pledge_candidate list"
  | Pledge_none

datatype fulfillment_resolution =
    Fulfillment_resolved uuid money
  | Fulfillment_none

fun contains :: "string \<Rightarrow> string \<Rightarrow> bool" where
  "contains needle [] = (needle = [])"
| "contains needle (c # s) = (take (length needle) (c # s) = needle \<or> contains needle s)"

definition candidate_of :: "person_row \<Rightarrow> person_candidate" where
  "candidate_of p = \<lparr>pca_personId = pe_id p, pca_displayName = pe_displayName p\<rparr>"

definition name_matches :: "string \<Rightarrow> session \<Rightarrow> store \<Rightarrow> person_row list" where
  "name_matches needle s st =
     sort_key pe_createdAt (filter (\<lambda>p. contains (ascii_lower needle) (ascii_lower (pe_displayName p))) (visible_persons s st))"

definition choose_person :: "string \<Rightarrow> person_row list \<Rightarrow> person_resolution" where
  "choose_person needle found =
     (case found of
        [] \<Rightarrow> Person_none
      | [m] \<Rightarrow> Person_resolved (pe_id m) (pe_displayName m)
      | _ \<Rightarrow>
        (case filter (\<lambda>m. ascii_lower (pe_displayName m) = ascii_lower needle) found of
           [m] \<Rightarrow> Person_resolved (pe_id m) (pe_displayName m)
         | _ \<Rightarrow> Person_ambiguous (map candidate_of found)))"

definition resolvePerson :: "uuid \<Rightarrow> string \<Rightarrow> person_resolution svc" where
  "resolvePerson eventId name =
     (let needle = js_trim name in
      runInEvent eventId (query (\<lambda>s st. choose_person needle (name_matches needle s st))))"

definition open_pledges :: "uuid \<Rightarrow> session \<Rightarrow> store \<Rightarrow> pledge_row list" where
  "open_pledges personId s st =
     sort_key pl_createdAt (filter (\<lambda>p. pl_personId p = personId \<and> pl_status p \<noteq> CANCELLED) (visible_pledges s st))"

definition choose_pledge :: "pledge_row list \<Rightarrow> pledge_resolution" where
  "choose_pledge found =
     (case found of
        [] \<Rightarrow> Pledge_none
      | [p] \<Rightarrow> Pledge_resolved (pl_id p)
      | _ \<Rightarrow> Pledge_ambiguous (map (\<lambda>p. \<lparr>plc_pledgeId = pl_id p,
               plc_committedValue = moneyToString (pl_committedValue p)\<rparr>) found))"

definition resolvePledgeForPerson :: "uuid \<Rightarrow> uuid \<Rightarrow> pledge_resolution svc" where
  "resolvePledgeForPerson eventId personId =
     runInEvent eventId (query (\<lambda>s st. choose_pledge (open_pledges personId s st)))"

definition payments_left :: "uuid \<Rightarrow> session \<Rightarrow> store \<Rightarrow> (uuid \<times> money) list" where
  "payments_left personId s st =
     map (\<lambda>f. (f_id f, f_value f - sum_where (\<lambda>a. a_fulfillmentId a = f_id f) a_value (visible_allocations s st)))
       (order_desc f_occurredAt
         [f. f \<leftarrow> visible_fulfillments s st, pl \<leftarrow> visible_pledges s st,
             f_pledgeId f = pl_id pl \<and> pl_personId pl = personId \<and> pl_status pl \<noteq> CANCELLED])"

definition resolveUnallocatedFulfillmentForPerson :: "uuid \<Rightarrow> uuid \<Rightarrow> fulfillment_resolution svc" where
  "resolveUnallocatedFulfillmentForPerson eventId personId =
     runInEvent eventId (query (\<lambda>s st.
       case List.find (\<lambda>(i, unallocated). unallocated > 0) (payments_left personId s st) of
         None \<Rightarrow> Fulfillment_none
       | Some (i, unallocated) \<Rightarrow> Fulfillment_resolved i unallocated))"

section \<open>Results\<close>

datatype execution_data =
    XD_person person_view
  | XD_pledge pledge_view
  | XD_fulfillment fulfillment_view
  | XD_item budget_item_view
  | XD_removed uuid string
  | XD_allocation allocation_view
  | XD_merge uuid int
  | XD_send send_result
  | XD_invitation string event_role string "string option" string "string option"
  | XD_outstanding pledge_outstanding
  | XD_report event_report

record execution_result =
  xr_message :: string
  xr_data :: execution_data

text \<open>What the actions read beside the store: the rounding and rendering of percentages, the order
  of names, the token of a new invitation and the address of the application.\<close>

record 'k assist_env =
  xe_fl :: "rat \<Rightarrow> rat"
  xe_number :: "rat \<Rightarrow> string"
  xe_collation :: "string \<Rightarrow> 'k"
  xe_token :: string
  xe_PUBLIC_APP_URL :: "string option"

definition answered :: "string \<Rightarrow> execution_data \<Rightarrow> execution_result svc" where
  "answered message x = svc_ret \<lparr>xr_message = message, xr_data = x\<rparr>"

definition quoted :: "string \<Rightarrow> string" where
  "quoted s = [CHR 0xE2, CHR 0x80, CHR 0x9C] @ s @ [CHR 0xE2, CHR 0x80, CHR 0x9D]"

definition fmt :: "money \<Rightarrow> string" where
  "fmt value = formatAmount (moneyToString value)"

definition what_text :: "string option \<Rightarrow> string" where
  "what_text description = (if truthy_str description then '' ('' @ the description @ '')'' else '''')"

section \<open>The typed calls\<close>

definition resolveOrCreatePerson ::
  "env \<Rightarrow> operation_context \<Rightarrow> string \<Rightarrow> provenance \<Rightarrow> string option \<Rightarrow> uuid svc" where
  "resolveOrCreatePerson env ctx displayName source phone =
     and_then (resolvePerson (ctx_ev ctx) displayName) (\<lambda>existing. case existing of
       Person_resolved i n \<Rightarrow> svc_ret i
     | _ \<Rightarrow> and_then (createPerson env ctx \<lparr>cp_displayName = displayName, cp_phone = phone,
              cp_confirmSharedPhone = None, cp_source = Some source\<rparr>) (\<lambda>person.
            svc_ret (pv_id person)))"

definition updateBudgetItem :: "env \<Rightarrow> operation_context \<Rightarrow> uuid \<Rightarrow> string \<Rightarrow> money \<Rightarrow> execution_result svc" where
  "updateBudgetItem env ctx itemId name targetValue =
     and_then (updateItem env ctx itemId \<lparr>bup_name = Some name, bup_targetValue = Some targetValue,
         bup_isPublic = None, bup_expectedVersion = None\<rparr>) (\<lambda>item.
     answered (''Updated budget item '' @ [CHR 0x22] @ biv_name item @ [CHR 0x22] @ '' to ''
       @ formatAmount (biv_targetValue item) @ ''.'') (XD_item item))"

definition removeBudgetItem :: "env \<Rightarrow> operation_context \<Rightarrow> uuid \<Rightarrow> execution_result svc" where
  "removeBudgetItem env ctx itemId =
     and_then (removeItem env ctx itemId) (\<lambda>(i, name).
     answered (''Removed budget item '' @ [CHR 0x22] @ name @ [CHR 0x22] @ ''.'') (XD_removed i name))"

definition allocateToBudget ::
  "env \<Rightarrow> operation_context \<Rightarrow> uuid \<Rightarrow> uuid \<Rightarrow> string \<Rightarrow> string \<Rightarrow> money \<Rightarrow> execution_result svc" where
  "allocateToBudget env ctx fulfillmentId budgetItemId budgetItemName displayName value =
     and_then (allocate env ctx fulfillmentId budgetItemId value) (\<lambda>allocation.
     answered (''Allocated '' @ fmt value @ '' from '' @ displayName @ [CHR 0x27] @ ''s payment to ''
       @ [CHR 0x22] @ budgetItemName @ [CHR 0x22] @ ''.'') (XD_allocation allocation))"

definition correctPledge :: "env \<Rightarrow> operation_context \<Rightarrow> uuid \<Rightarrow> string \<Rightarrow> money \<Rightarrow> execution_result svc" where
  "correctPledge env ctx pledgeId displayName newValue =
     and_then (correctCommittedValue env ctx pledgeId newValue) (\<lambda>pledge.
     answered (''Corrected '' @ displayName @ [CHR 0x27] @ ''s pledge to ''
       @ formatAmount (plv_committedValue pledge) @ ''.'') (XD_pledge pledge))"

definition correctPayment :: "env \<Rightarrow> operation_context \<Rightarrow> uuid \<Rightarrow> string \<Rightarrow> money \<Rightarrow> execution_result svc" where
  "correctPayment env ctx fulfillmentId displayName newValue =
     and_then (correctValue env ctx fulfillmentId newValue) (\<lambda>f.
     answered (''Corrected '' @ displayName @ [CHR 0x27] @ ''s payment to '' @ formatAmount (fv_value f)
       @ '' (outstanding '' @ formatAmount (fv_outstanding f) @ '').'') (XD_fulfillment f))"

definition mergePeople_tool ::
  "env \<Rightarrow> operation_context \<Rightarrow> uuid \<Rightarrow> uuid \<Rightarrow> string \<Rightarrow> string \<Rightarrow> execution_result svc" where
  "mergePeople_tool env ctx sourceId targetId sourceName targetName =
     and_then (mergePeople env ctx sourceId targetId) (\<lambda>(target, movedPledges).
     answered (''Merged '' @ sourceName @ '' into '' @ targetName @ '' (moved '' @ int_to_dec movedPledges
       @ '' pledge(s)).'') (XD_merge target movedPledges))"

definition sendReminders_tool ::
  "'k::linorder assist_env \<Rightarrow> env \<Rightarrow> operation_context \<Rightarrow> string \<Rightarrow> execution_result svc" where
  "sendReminders_tool ax env ctx body =
     and_then (sendReminders (xe_collation ax) env ctx body None) (\<lambda>result.
     let skipped = (if sr_skipped result > 0
           then '' ('' @ nat_to_dec (sr_skipped result) @ '' skipped '' @ em_dash @ '' out of credits)'' else '''')
     in answered (''Queued reminders to '' @ nat_to_dec (sr_queued result) @ '' contributor(s)'' @ skipped @ ''.'')
          (XD_send result))"

definition without_slash :: "string \<Rightarrow> string" where
  "without_slash base = replace_first (Then (lit ''/'') At_End) '''' base"

definition inviteMember ::
  "'k assist_env \<Rightarrow> env \<Rightarrow> operation_context \<Rightarrow> event_role \<Rightarrow> string option \<Rightarrow> string option \<Rightarrow> execution_result svc" where
  "inviteMember ax env ctx role displayName phone =
     and_then (createInvitation (xe_token ax) env ctx \<lparr>cin_role = role, cin_invitedPhone = phone,
         cin_maxUses = None, cin_ttlSeconds = None\<rparr>) (\<lambda>invitation.
     let invitePath = ''/join/'' @ iv_token invitation;
         inviteUrl = (if truthy_str (xe_PUBLIC_APP_URL ax)
           then Some (without_slash (the (xe_PUBLIC_APP_URL ax)) @ invitePath) else None);
         who = nullish displayName ''the member''
     in answered (''Invitation created for '' @ who @ '' as '' @ role_str (iv_role invitation)
          @ ''. Share this link '' @ em_dash @ '' they join by entering their phone and verifying an OTP:''
          @ [CHR 0x0A] @ nullish inviteUrl invitePath)
          (XD_invitation (iv_token invitation) (iv_role invitation) invitePath inviteUrl (iv_expiresAt invitation)
             displayName))"

definition addPerson_tool ::
  "env \<Rightarrow> operation_context \<Rightarrow> string \<Rightarrow> provenance \<Rightarrow> string option \<Rightarrow> bool option \<Rightarrow> execution_result svc" where
  "addPerson_tool env ctx displayName source phone confirmSharedPhone =
     and_then (createPerson env ctx \<lparr>cp_displayName = displayName, cp_phone = phone,
         cp_confirmSharedPhone = confirmSharedPhone, cp_source = Some source\<rparr>) (\<lambda>person.
     let reach = (if truthy_str (pv_phone person) then ''''
           else '' (no phone on file '' @ em_dash @ '' they won'' @ [CHR 0x27] @ ''t be reachable by SMS yet)'')
     in answered (''Added '' @ pv_displayName person @ ''.'' @ reach) (XD_person person))"

text \<open>\<open>personId ?? await resolveOrCreatePerson(...)\<close>\<close>

definition target_person ::
  "env \<Rightarrow> operation_context \<Rightarrow> uuid option \<Rightarrow> string \<Rightarrow> provenance \<Rightarrow> string option \<Rightarrow> uuid svc" where
  "target_person env ctx personId displayName source phone =
     (case personId of
        Some i \<Rightarrow> svc_ret i
      | None \<Rightarrow> resolveOrCreatePerson env ctx displayName source phone)"

definition recordPledge ::
  "env \<Rightarrow> operation_context \<Rightarrow> uuid option \<Rightarrow> string \<Rightarrow> money \<Rightarrow> provenance \<Rightarrow> pledge_type option \<Rightarrow>
   string option \<Rightarrow> string option \<Rightarrow> uuid option \<Rightarrow> execution_result svc" where
  "recordPledge env ctx personId displayName amount source type phone description budgetItemId =
     and_then (target_person env ctx personId displayName source phone) (\<lambda>targetPersonId.
     and_then (createPledge env ctx \<lparr>cpl_personId = targetPersonId, cpl_committedValue = amount, cpl_type = type,
         cpl_targetBudgetItemId = budgetItemId, cpl_description = description, cpl_quantity = None, cpl_unit = None,
         cpl_estimatedValue = None, cpl_source = Some source\<rparr>) (\<lambda>pledge.
     answered (''Recorded '' @ displayName @ [CHR 0x27] @ ''s pledge of '' @ fmt amount @ what_text description @ ''.'')
       (XD_pledge pledge)))"

definition recordPledgeWithPayment_tool ::
  "env \<Rightarrow> operation_context \<Rightarrow> uuid option \<Rightarrow> string \<Rightarrow> money \<Rightarrow> money \<Rightarrow> provenance \<Rightarrow> pledge_type option \<Rightarrow>
   string option \<Rightarrow> string option \<Rightarrow> uuid option \<Rightarrow> execution_result svc" where
  "recordPledgeWithPayment_tool env ctx personId displayName committedValue receivedNow source type phone
       description budgetItemId =
     and_then (target_person env ctx personId displayName source phone) (\<lambda>targetPersonId.
     and_then (recordPledgeWithPayment env ctx \<lparr>pp_personId = targetPersonId, pp_committedValue = committedValue,
         pp_receivedNow = Some receivedNow, pp_type = type, pp_description = description,
         pp_targetBudgetItemId = budgetItemId, pp_method = None, pp_note = None, pp_idempotencyKey = None,
         pp_source = Some source\<rparr>) (\<lambda>result.
     answered (''Recorded '' @ displayName @ [CHR 0x27] @ ''s pledge of '' @ fmt committedValue
       @ what_text description @ '', with '' @ fmt receivedNow @ '' already received. Outstanding: ''
       @ formatAmount (fv_outstanding result) @ ''.'') (XD_fulfillment result)))"

definition recordPayment ::
  "env \<Rightarrow> operation_context \<Rightarrow> uuid \<Rightarrow> string \<Rightarrow> money \<Rightarrow> provenance \<Rightarrow> execution_result svc" where
  "recordPayment env ctx pledgeId displayName amount source =
     and_then (recordFulfillment env ctx \<lparr>rf_pledgeId = pledgeId, rf_value = amount, rf_kind = None,
         rf_method = None, rf_currency = None, rf_note = None, rf_occurredAt = None, rf_idempotencyKey = None,
         rf_confirmDuplicate = None, rf_source = Some source\<rparr>) (\<lambda>f.
     answered (''Recorded '' @ displayName @ [CHR 0x27] @ ''s payment of '' @ fmt amount
       @ ''. Outstanding on that pledge: '' @ formatAmount (fv_outstanding f) @ ''.'') (XD_fulfillment f))"

definition directContribution ::
  "env \<Rightarrow> operation_context \<Rightarrow> uuid option \<Rightarrow> string \<Rightarrow> money \<Rightarrow> provenance \<Rightarrow> string option \<Rightarrow>
   pledge_type option \<Rightarrow> string option \<Rightarrow> uuid option \<Rightarrow> execution_result svc" where
  "directContribution env ctx personId displayName amount source phone type description budgetItemId =
     and_then (recordDirectContribution env ctx \<lparr>dc_personId = personId, dc_displayName = Some displayName,
         dc_phone = phone, dc_value = amount,
         dc_kind = (if type \<noteq> None \<and> type \<noteq> Some CASH then Some DELIVERY else None),
         dc_method = None, dc_note = None, dc_type = type, dc_description = description,
         dc_targetBudgetItemId = budgetItemId, dc_idempotencyKey = None, dc_source = Some source\<rparr>) (\<lambda>f.
     answered (''Recorded '' @ displayName @ [CHR 0x27] @ ''s contribution of '' @ fmt amount
       @ what_text description @ ''.'') (XD_fulfillment f))"

definition recordDirectContribution_tool ::
  "env \<Rightarrow> operation_context \<Rightarrow> uuid option \<Rightarrow> string \<Rightarrow> money \<Rightarrow> provenance \<Rightarrow> string option \<Rightarrow>
   pledge_type option \<Rightarrow> string option \<Rightarrow> uuid option \<Rightarrow> execution_result svc" where
  "recordDirectContribution_tool env ctx personId displayName amount source phone type description budgetItemId =
     (if truthy_str personId
      then directContribution env ctx personId displayName amount source phone type description budgetItemId
      else
        and_then (resolveOrCreatePerson env ctx displayName source phone) (\<lambda>resolvedPersonId.
        and_then (resolvePledgeForPerson (ctx_ev ctx) resolvedPersonId) (\<lambda>pledge. case pledge of
          Pledge_resolved pledgeId \<Rightarrow> recordPayment env ctx pledgeId displayName amount source
        | _ \<Rightarrow> directContribution env ctx (Some resolvedPersonId) displayName amount source phone type
                 description budgetItemId)))"

definition createBudgetItem ::
  "env \<Rightarrow> operation_context \<Rightarrow> string \<Rightarrow> money \<Rightarrow> provenance \<Rightarrow> uuid option \<Rightarrow> execution_result svc" where
  "createBudgetItem env ctx name targetValue source sourceDocumentId =
     and_then (addItem env ctx \<lparr>bin_name = name, bin_targetValue = targetValue, bin_source = Some source,
         bin_confidence = None, bin_sourceDocumentId = sourceDocumentId\<rparr>) (\<lambda>item.
     answered (''Added budget item '' @ quoted (biv_name item)
       @ '' ('' @ formatAmount (biv_targetValue item) @ '').'') (XD_item item))"

definition getOutstandingForPledge :: "operation_context \<Rightarrow> uuid \<Rightarrow> string \<Rightarrow> execution_result svc" where
  "getOutstandingForPledge ctx pledgeId displayName =
     and_then (getPledgeOutstanding ctx pledgeId) (\<lambda>x.
     answered (displayName @ '' still owes '' @ formatAmount (po_outstanding x) @ ''.'') (XD_outstanding x))"

definition summary_parts :: "(rat \<Rightarrow> string) \<Rightarrow> event_report \<Rightarrow> string list" where
  "summary_parts number r =
     (case (er_percentCovered r, er_target r) of
        (Some pct, Some target) \<Rightarrow>
          [''Your event is '' @ number pct @ ''% covered (target '' @ formatAmount target @ '').'']
      | _ \<Rightarrow> [])
     @ [''Received '' @ formatAmount (er_totalReceived r) @ '', outstanding pledges ''
          @ formatAmount (er_totalOutstanding r) @ '', committed '' @ formatAmount (er_totalCommitted r) @ ''.'']
     @ (if er_budgetTotal r \<noteq> ''0'' then [''Unfunded budget '' @ formatAmount (er_budgetUnfunded r) @ ''.''] else [])
     @ [int_to_dec (er_contributorCount r) @ '' contributors, ''
          @ int_to_dec (er_outstandingContributorCount r) @ '' with outstanding balances.'']
     @ (case er_biggestGap r of
          Some gap \<Rightarrow> [''Your biggest funding gap is '' @ bg_name gap @ ''.'']
        | None \<Rightarrow> [])"

definition getSummary :: "'k assist_env \<Rightarrow> operation_context \<Rightarrow> execution_result svc" where
  "getSummary ax ctx =
     and_then (getEventReport (xe_fl ax) ctx 5) (\<lambda>r.
     answered (join '' '' (summary_parts (xe_number ax) r)) (XD_report r))"

section \<open>Dispatch\<close>

text \<open>The digit strings of an action are converted first; a conversion that fails throws.\<close>

definition with_amount :: "string \<Rightarrow> (money \<Rightarrow> 'a svc) \<Rightarrow> 'a svc" where
  "with_amount s k = (case BigInt s of Inl e \<Rightarrow> svc_throw e | Inr v \<Rightarrow> k v)"

fun run :: "'k::linorder assist_env \<Rightarrow> env \<Rightarrow> operation_context \<Rightarrow> stored_action \<Rightarrow> provenance \<Rightarrow>
    execution_result svc" where
  "run ax env ctx (SA_add_person displayName phone confirmSharedPhone) source =
     addPerson_tool env ctx displayName source phone confirmSharedPhone"
| "run ax env ctx (SA_record_pledge personId displayName amount type description phone budgetItemId) source =
     with_amount amount (\<lambda>v. recordPledge env ctx personId displayName v source type phone description budgetItemId)"
| "run ax env ctx (SA_record_pledge_with_payment personId displayName amount receivedNow type description phone
       budgetItemId) source =
     with_amount amount (\<lambda>v. with_amount receivedNow (\<lambda>w.
       recordPledgeWithPayment_tool env ctx personId displayName v w source type phone description budgetItemId))"
| "run ax env ctx (SA_record_payment pledgeId displayName amount) source =
     with_amount amount (\<lambda>v. recordPayment env ctx pledgeId displayName v source)"
| "run ax env ctx (SA_record_direct_contribution personId displayName amount phone type description budgetItemId)
       source =
     with_amount amount (\<lambda>v.
       recordDirectContribution_tool env ctx personId displayName v source phone type description budgetItemId)"
| "run ax env ctx (SA_create_budget_item name targetValue sourceDocumentId) source =
     with_amount targetValue (\<lambda>v. createBudgetItem env ctx name v source sourceDocumentId)"
| "run ax env ctx (SA_update_budget_item itemId name targetValue) source =
     with_amount targetValue (\<lambda>v. updateBudgetItem env ctx itemId name v)"
| "run ax env ctx (SA_remove_budget_item itemId name) source = removeBudgetItem env ctx itemId"
| "run ax env ctx (SA_allocate_to_budget fulfillmentId budgetItemId budgetItemName displayName value) source =
     with_amount value (\<lambda>v. allocateToBudget env ctx fulfillmentId budgetItemId budgetItemName displayName v)"
| "run ax env ctx (SA_correct_pledge pledgeId displayName newValue) source =
     with_amount newValue (\<lambda>v. correctPledge env ctx pledgeId displayName v)"
| "run ax env ctx (SA_correct_payment fulfillmentId displayName newValue) source =
     with_amount newValue (\<lambda>v. correctPayment env ctx fulfillmentId displayName v)"
| "run ax env ctx (SA_merge_people sourceId targetId sourceName targetName) source =
     mergePeople_tool env ctx sourceId targetId sourceName targetName"
| "run ax env ctx (SA_send_sms_reminders body) source = sendReminders_tool ax env ctx body"
| "run ax env ctx (SA_invite_member role displayName phone) source = inviteMember ax env ctx role displayName phone"
| "run ax env ctx (SA_get_outstanding_pledge pledgeId displayName) source =
     getOutstandingForPledge ctx pledgeId displayName"
| "run ax env ctx SA_get_summary source = getSummary ax ctx"

end
