(* ===== verification/Ai_Capture.thy ===== *)
theory Ai_Capture
  imports Tool_Executor
begin

text \<open>
  The assistant's write path: proposals that wait for a human
  (\<^verbatim>\<open>libs/ai/src/confirmation.service.ts\<close>), the metering of model calls
  (\<^verbatim>\<open>libs/ai/src/usage-meter.service.ts\<close>, \<^verbatim>\<open>libs/ai/src/pricing.ts\<close>) and the capture
  orchestrator (\<^verbatim>\<open>libs/ai/src/capture.service.ts\<close>). The language model is a function from
  the messages to any answer at all; nothing is assumed of it.
\<close>

section \<open>confirmation.service.ts\<close>

record pending_view =
  pnv_id :: uuid
  pnv_intent :: string
  pnv_prompt :: string
  pnv_confidence :: "rat option"
  pnv_status :: confirmation_status

record update_pending_input =
  upi_displayName :: "string option"
  upi_amount :: "string option"
  upi_type :: "pledge_type option"
  upi_description :: "string option"

definition EDITABLE_INTENTS :: "string list" where
  "EDITABLE_INTENTS = [''record_pledge'', ''record_pledge_with_payment'', ''record_direct_contribution'', ''record_payment'']"

abbreviation visible_confirmations :: "session \<Rightarrow> store \<Rightarrow> confirmation_row list" where
  "visible_confirmations s st \<equiv> tbl_visible pc_eventId s (confirmations st)"

definition confirmation_create :: "(uuid \<Rightarrow> confirmation_row) \<Rightarrow> confirmation_row tx" where
  "confirmation_create = tbl_create confirmations put_confirmations pc_eventId"

definition confirmation_update :: "uuid \<Rightarrow> (confirmation_row \<Rightarrow> confirmation_row) \<Rightarrow> confirmation_row tx" where
  "confirmation_update = tbl_update confirmations put_confirmations pc_eventId pc_id"

definition find_confirmation :: "uuid \<Rightarrow> session \<Rightarrow> store \<Rightarrow> confirmation_row option" where
  "find_confirmation i s st = List.find (\<lambda>c. pc_id c = i) (visible_confirmations s st)"

definition pending_view_of :: "confirmation_row \<Rightarrow> pending_view" where
  "pending_view_of c = \<lparr>pnv_id = pc_id c, pnv_intent = pc_intent c, pnv_prompt = pc_prompt c,
     pnv_confidence = pc_confidence c, pnv_status = pc_status c\<rparr>"

fun confirmation_status_str :: "confirmation_status \<Rightarrow> string" where
  "confirmation_status_str PC_PENDING = ''PENDING''"
| "confirmation_status_str PC_CONFIRMED = ''CONFIRMED''"
| "confirmation_status_str PC_REJECTED = ''REJECTED''"
| "confirmation_status_str PC_EXPIRED = ''EXPIRED''"

text \<open>The discriminator of a stored action, and the fields an edit reads and writes; a field an
  action does not have would be one the executor never reads.\<close>

fun tool_of :: "stored_action \<Rightarrow> string" where
  "tool_of (SA_add_person _ _ _) = ''add_person''"
| "tool_of (SA_record_pledge _ _ _ _ _ _ _) = ''record_pledge''"
| "tool_of (SA_record_pledge_with_payment _ _ _ _ _ _ _ _) = ''record_pledge_with_payment''"
| "tool_of (SA_record_payment _ _ _) = ''record_payment''"
| "tool_of (SA_record_direct_contribution _ _ _ _ _ _ _) = ''record_direct_contribution''"
| "tool_of (SA_create_budget_item _ _ _) = ''create_budget_item''"
| "tool_of (SA_update_budget_item _ _ _) = ''update_budget_item''"
| "tool_of (SA_remove_budget_item _ _) = ''remove_budget_item''"
| "tool_of (SA_allocate_to_budget _ _ _ _ _) = ''allocate_to_budget''"
| "tool_of (SA_correct_pledge _ _ _) = ''correct_pledge''"
| "tool_of (SA_correct_payment _ _ _) = ''correct_payment''"
| "tool_of (SA_merge_people _ _ _ _) = ''merge_people''"
| "tool_of (SA_send_sms_reminders _) = ''send_sms_reminders''"
| "tool_of (SA_invite_member _ _ _) = ''invite_member''"
| "tool_of (SA_get_outstanding_pledge _ _) = ''get_outstanding_pledge''"
| "tool_of SA_get_summary = ''get_summary''"

fun set_displayName :: "string \<Rightarrow> stored_action \<Rightarrow> stored_action" where
  "set_displayName d (SA_record_pledge p _ a t x f b) = SA_record_pledge p d a t x f b"
| "set_displayName d (SA_record_pledge_with_payment p _ a r t x f b) = SA_record_pledge_with_payment p d a r t x f b"
| "set_displayName d (SA_record_payment p _ a) = SA_record_payment p d a"
| "set_displayName d (SA_record_direct_contribution p _ a f t x b) = SA_record_direct_contribution p d a f t x b"
| "set_displayName d action = action"

fun set_amount :: "string \<Rightarrow> stored_action \<Rightarrow> stored_action" where
  "set_amount a (SA_record_pledge p d _ t x f b) = SA_record_pledge p d a t x f b"
| "set_amount a (SA_record_pledge_with_payment p d _ r t x f b) = SA_record_pledge_with_payment p d a r t x f b"
| "set_amount a (SA_record_payment p d _) = SA_record_payment p d a"
| "set_amount a (SA_record_direct_contribution p d _ f t x b) = SA_record_direct_contribution p d a f t x b"
| "set_amount a action = action"

fun set_type :: "pledge_type \<Rightarrow> stored_action \<Rightarrow> stored_action" where
  "set_type t (SA_record_pledge p d a _ x f b) = SA_record_pledge p d a (Some t) x f b"
| "set_type t (SA_record_pledge_with_payment p d a r _ x f b) = SA_record_pledge_with_payment p d a r (Some t) x f b"
| "set_type t (SA_record_direct_contribution p d a f _ x b) = SA_record_direct_contribution p d a f (Some t) x b"
| "set_type t action = action"

fun set_description :: "string option \<Rightarrow> stored_action \<Rightarrow> stored_action" where
  "set_description x (SA_record_pledge p d a t _ f b) = SA_record_pledge p d a t x f b"
| "set_description x (SA_record_pledge_with_payment p d a r t _ f b) = SA_record_pledge_with_payment p d a r t x f b"
| "set_description x (SA_record_direct_contribution p d a f t _ b) = SA_record_direct_contribution p d a f t x b"
| "set_description x action = action"

fun action_displayName :: "stored_action \<Rightarrow> string option" where
  "action_displayName (SA_record_pledge _ d _ _ _ _ _) = Some d"
| "action_displayName (SA_record_pledge_with_payment _ d _ _ _ _ _ _) = Some d"
| "action_displayName (SA_record_payment _ d _) = Some d"
| "action_displayName (SA_record_direct_contribution _ d _ _ _ _ _) = Some d"
| "action_displayName _ = None"

fun action_amount :: "stored_action \<Rightarrow> string option" where
  "action_amount (SA_record_pledge _ _ a _ _ _ _) = Some a"
| "action_amount (SA_record_pledge_with_payment _ _ a _ _ _ _ _) = Some a"
| "action_amount (SA_record_payment _ _ a) = Some a"
| "action_amount (SA_record_direct_contribution _ _ a _ _ _ _) = Some a"
| "action_amount _ = None"

fun action_receivedNow :: "stored_action \<Rightarrow> string option" where
  "action_receivedNow (SA_record_pledge_with_payment _ _ _ r _ _ _ _) = Some r"
| "action_receivedNow _ = None"

fun action_description :: "stored_action \<Rightarrow> string option" where
  "action_description (SA_record_pledge _ _ _ _ x _ _) = x"
| "action_description (SA_record_pledge_with_payment _ _ _ _ _ x _ _) = x"
| "action_description (SA_record_direct_contribution _ _ _ _ _ x _) = x"
| "action_description _ = None"

definition renderPendingPrompt :: "string \<Rightarrow> stored_action \<Rightarrow> string" where
  "renderPendingPrompt intent action =
     (let name = nullish (action_displayName action) ''this contributor'';
          amount = (case action_amount action of Some a \<Rightarrow> formatAmount a | None \<Rightarrow> ''0'');
          description = what_text (action_description action);
          whose = name @ [CHR 0x27] @ ''s''
      in if intent = ''record_pledge'' then ''Record '' @ whose @ '' pledge of '' @ amount @ description @ ''?''
         else if intent = ''record_pledge_with_payment'' then
           ''Record '' @ whose @ '' pledge of '' @ amount @ description @ '', with ''
             @ (case action_receivedNow action of Some r \<Rightarrow> formatAmount r | None \<Rightarrow> ''0'') @ '' already received?''
         else if intent = ''record_direct_contribution'' then
           ''Record '' @ whose @ '' contribution of '' @ amount @ description @ ''?''
         else if intent = ''record_payment'' then ''Record '' @ whose @ '' payment of '' @ amount @ ''?''
         else ''Record '' @ whose @ '' '' @ amount @ description @ ''?'')"

definition apply_edits :: "string \<Rightarrow> update_pending_input \<Rightarrow> stored_action \<Rightarrow> stored_action" where
  "apply_edits intent edits action0 =
     (let action1 = (case upi_displayName edits of Some d \<Rightarrow> set_displayName d action0 | None \<Rightarrow> action0);
          action2 = (case upi_amount edits of Some a \<Rightarrow> set_amount a action1 | None \<Rightarrow> action1);
          action3 = (case upi_type edits of
            Some t \<Rightarrow> if intent \<noteq> ''record_payment'' then set_type t action2 else action2 | None \<Rightarrow> action2)
      in case upi_description edits of
           Some x \<Rightarrow> if intent \<noteq> ''record_payment''
             then set_description (if x = [] then None else Some x) action3 else action3
         | None \<Rightarrow> action3)"

definition create_confirmation ::
  "env \<Rightarrow> operation_context \<Rightarrow> string \<Rightarrow> stored_action \<Rightarrow> rat option \<Rightarrow> string \<Rightarrow> pending_view svc" where
  "create_confirmation env ctx intent action confidence prompt =
     runInEvent (ctx_ev ctx)
       (await (confirmation_create (\<lambda>i. \<lparr>pc_id = i, pc_eventId = ctx_ev ctx, pc_intent = intent, pc_payload = action,
          pc_confidence = confidence, pc_source = ai_from_chat, pc_status = PC_PENDING, pc_prompt = prompt,
          pc_createdById = Some (ctx_user ctx), pc_createdAt = now env, pc_resolvedById = None,
          pc_resolvedAt = None\<rparr>)) (\<lambda>row.
        ret (pending_view_of row)))"

definition listPending :: "operation_context \<Rightarrow> pending_view list svc" where
  "listPending ctx =
     runInEvent (ctx_ev ctx) (query (\<lambda>s st. map pending_view_of
       (sort_key pc_createdAt (filter (\<lambda>c. pc_status c = PC_PENDING) (visible_confirmations s st)))))"

text \<open>The three operations on one proposal begin alike.\<close>

definition pending_row :: "uuid \<Rightarrow> confirmation_row tx" where
  "pending_row i =
     await (query (find_confirmation i)) (\<lambda>found. case found of
       None \<Rightarrow> throw (NotFound ''Pending confirmation not found'')
     | Some row \<Rightarrow>
        if pc_status row \<noteq> PC_PENDING
        then throw (BadRequest (''Already '' @ ascii_lower (confirmation_status_str (pc_status row))))
        else ret row)"

definition update_tx :: "uuid \<Rightarrow> update_pending_input \<Rightarrow> pending_view tx" where
  "update_tx i edits =
     await (pending_row i) (\<lambda>row.
       if pc_intent row \<notin> set EDITABLE_INTENTS
       then throw (BadRequest (''Editing is not supported for '' @ [CHR 0x22] @ pc_intent row @ [CHR 0x22] @ '' ''
          @ em_dash @ '' cancel and re-capture instead.''))
       else
         let action = apply_edits (pc_intent row) edits (pc_payload row) in
         if (case action_amount action of Some a \<Rightarrow> \<not> amountString a | None \<Rightarrow> False)
         then throw (BadRequest ''amount must be an integer (minor units)'')
         else await (confirmation_update i (\<lambda>c. c\<lparr>pc_payload := action,
                pc_prompt := renderPendingPrompt (pc_intent row) action\<rparr>)) (\<lambda>updated.
              ret (pending_view_of updated)))"

definition update_confirmation :: "operation_context \<Rightarrow> uuid \<Rightarrow> update_pending_input \<Rightarrow> pending_view svc" where
  "update_confirmation ctx i edits = runInEvent (ctx_ev ctx) (update_tx i edits)"

definition resolved_as ::
  "env \<Rightarrow> operation_context \<Rightarrow> confirmation_status \<Rightarrow> confirmation_row \<Rightarrow> confirmation_row" where
  "resolved_as env ctx status c =
     c\<lparr>pc_status := status, pc_resolvedById := Some (ctx_user ctx), pc_resolvedAt := Some (now env)\<rparr>"

definition confirm_tx :: "env \<Rightarrow> operation_context \<Rightarrow> uuid \<Rightarrow> (stored_action \<times> provenance) tx" where
  "confirm_tx env ctx i =
     await (pending_row i) (\<lambda>row.
     await (confirmation_update i (resolved_as env ctx PC_CONFIRMED)) (\<lambda>_.
     ret (pc_payload row, pc_source row)))"

definition confirm ::
  "'k::linorder assist_env \<Rightarrow> env \<Rightarrow> operation_context \<Rightarrow> uuid \<Rightarrow> execution_result svc" where
  "confirm ax env ctx i =
     and_then (runInEvent (ctx_ev ctx) (confirm_tx env ctx i)) (\<lambda>(action, source). run ax env ctx action source)"

definition reject_confirmation :: "env \<Rightarrow> operation_context \<Rightarrow> uuid \<Rightarrow> (uuid \<times> confirmation_status) svc" where
  "reject_confirmation env ctx i =
     runInEvent (ctx_ev ctx)
       (await (pending_row i) (\<lambda>row.
        await (confirmation_update i (resolved_as env ctx PC_REJECTED)) (\<lambda>updated.
        ret (pc_id updated, pc_status updated))))"

section \<open>Metering\<close>

record llm_usage =
  lu_inputTokens :: int
  lu_outputTokens :: int
  lu_model :: string

record model_price =
  mp_in :: rat
  mp_out :: rat

definition PRICES :: "(string \<times> model_price) list" where
  "PRICES = [(''gemini-2.5-flash'', \<lparr>mp_in = 3/10, mp_out = 5/2\<rparr>),
     (''gemini-2.5-flash-lite'', \<lparr>mp_in = 1/10, mp_out = 4/10\<rparr>),
     (''claude-haiku'', \<lparr>mp_in = 1, mp_out = 5\<rparr>)]"

definition priceFor :: "string \<Rightarrow> model_price" where
  "priceFor model =
     (case List.find (\<lambda>(k, _). take (length k) model = k) PRICES of
        Some (_, p) \<Rightarrow> p
      | None \<Rightarrow> snd (hd PRICES))"

definition costMicroUsd :: "llm_usage \<Rightarrow> int option" where
  "costMicroUsd usage =
     (let p = priceFor (lu_model usage);
          times = (\<lambda>tokens price. Option.bind (double price) (\<lambda>x. double (of_int tokens * x)))
      in Option.bind (times (lu_inputTokens usage) (mp_in p)) (\<lambda>a.
         Option.bind (times (lu_outputTokens usage) (mp_out p)) (\<lambda>b.
         Option.bind (double (a + b)) (\<lambda>s.
         Option.bind (double (s / 1000000)) (\<lambda>usd.
         Option.bind (double (usd * 1000000)) (\<lambda>micro. Some \<lfloor>micro + 1/2\<rfloor>))))))"

definition recordLlmCall :: "env \<Rightarrow> uuid \<Rightarrow> llm_usage \<Rightarrow> int \<Rightarrow> json option \<Rightarrow> unit svc" where
  "recordLlmCall env eventId usage cost meta =
     runInEvent eventId
       (await (tbl_create usage_events put_usage_events ue_eventId (\<lambda>i. \<lparr>ue_id = i, ue_eventId = eventId,
          ue_kind = Llm_call, ue_quantity = 1, ue_costMicroUsd = cost, ue_tokensIn = Some (lu_inputTokens usage),
          ue_tokensOut = Some (lu_outputTokens usage), ue_model = Some (lu_model usage), ue_meta = meta,
          ue_createdAt = now env\<rparr>)) (\<lambda>_. ret ()))"

section \<open>The language model\<close>

datatype js_arg =
    Arg_str string
  | Arg_num rat string  \<comment> \<open>a number and its text\<close>
  | Arg_bool bool
  | Arg_null
  | Arg_list "js_arg list"
  | Arg_obj "(string \<times> js_arg) list"

type_synonym llm_args = "(string \<times> js_arg) list"

datatype llm_role = Role_system | Role_user

record llm_result =
  lr_toolCalls :: "(string \<times> llm_args) list"
  lr_usage :: llm_usage

type_synonym llm_provider = "(llm_role \<times> string) list \<Rightarrow> error + llm_result"

definition CONFIDENCE_THRESHOLD :: rat where
  "CONFIDENCE_THRESHOLD = 7/10"

definition DEFAULT_LLM_CONFIDENCE :: rat where
  "DEFAULT_LLM_CONFIDENCE = 85/100"

fun String_of :: "js_arg \<Rightarrow> string" where
  "String_of (Arg_str s) = s"
| "String_of (Arg_num q text) = text"
| "String_of (Arg_bool b) = (if b then ''true'' else ''false'')"
| "String_of Arg_null = ''null''"
| "String_of (Arg_list xs) = join '','' (map (\<lambda>x. if x = Arg_null then [] else String_of x) xs)"
| "String_of (Arg_obj kvs) = ''[object Object]''"

text \<open>\<open>safeParse\<close> of the discriminated union: unknown keys are dropped, a required string must be
  there, an optional field may be absent but not of another type.\<close>

definition required_string :: "string \<Rightarrow> llm_args \<Rightarrow> string option" where
  "required_string k args = (case map_of args k of Some (Arg_str s) \<Rightarrow> Some s | _ \<Rightarrow> None)"

definition optional_string :: "string \<Rightarrow> llm_args \<Rightarrow> string option option" where
  "optional_string k args = (case map_of args k of
     None \<Rightarrow> Some None | Some (Arg_str s) \<Rightarrow> Some (Some s) | _ \<Rightarrow> None)"

definition optional_bool :: "string \<Rightarrow> llm_args \<Rightarrow> bool option option" where
  "optional_bool k args = (case map_of args k of
     None \<Rightarrow> Some None | Some (Arg_bool b) \<Rightarrow> Some (Some b) | _ \<Rightarrow> None)"

definition optional_type :: "llm_args \<Rightarrow> pledge_type option option" where
  "optional_type args = (case map_of args ''type'' of
     None \<Rightarrow> Some None
   | Some (Arg_str s) \<Rightarrow> (if s = ''CASH'' then Some (Some CASH) else if s = ''ITEM'' then Some (Some ITEM)
       else if s = ''SERVICE'' then Some (Some SERVICE) else None)
   | _ \<Rightarrow> None)"

definition read_call :: "string \<Rightarrow> llm_args \<Rightarrow> tool_call option" where
  "read_call tool args =
     (if tool = ''add_person'' then
        Option.bind (required_string ''displayName'' args) (\<lambda>d.
        Option.bind (optional_string ''phone'' args) (\<lambda>p.
        Option.bind (optional_bool ''confirmSharedPhone'' args) (\<lambda>c.
        Some (Add_person \<lparr>aa_displayName = d, aa_phone = p, aa_confirmSharedPhone = c\<rparr>))))
      else if tool = ''record_pledge'' then
        Option.bind (required_string ''personName'' args) (\<lambda>n.
        Option.bind (required_string ''amount'' args) (\<lambda>a.
        Option.bind (optional_type args) (\<lambda>t.
        Option.bind (optional_string ''description'' args) (\<lambda>d.
        Option.bind (optional_string ''receivedNow'' args) (\<lambda>r.
        Option.bind (optional_string ''budgetItemName'' args) (\<lambda>b.
        Some (Record_pledge \<lparr>ra_personName = n, ra_amount = a, ra_type = t, ra_description = d,
          ra_receivedNow = r, ra_budgetItemName = b\<rparr>)))))))
      else if tool = ''record_payment'' then
        Option.bind (required_string ''personName'' args) (\<lambda>n.
        Option.bind (required_string ''amount'' args) (\<lambda>a.
        Option.bind (optional_type args) (\<lambda>t.
        Option.bind (optional_string ''description'' args) (\<lambda>d.
        Option.bind (optional_string ''budgetItemName'' args) (\<lambda>b.
        Some (Record_payment \<lparr>ya_personName = n, ya_amount = a, ya_type = t, ya_description = d,
          ya_budgetItemName = b\<rparr>))))))
      else if tool = ''get_outstanding'' then
        Option.bind (optional_string ''personName'' args) (\<lambda>n. Some (Get_outstanding n))
      else if tool = ''get_summary'' then Some Get_summary
      else None)"

definition safeParse :: "string \<Rightarrow> llm_args \<Rightarrow> tool_call option" where
  "safeParse tool args =
     Option.bind (read_call tool args) (\<lambda>call. if toolCallSchema call then Some call else None)"

text \<open>The confidence is taken out of the arguments, an amount is normalised, then the rest is
  validated.\<close>

definition confidence_of :: "llm_args \<Rightarrow> rat" where
  "confidence_of args = (case map_of args ''confidence'' of
     Some (Arg_num q _) \<Rightarrow> max 0 (min 1 q) | _ \<Rightarrow> DEFAULT_LLM_CONFIDENCE)"

definition normalise_amount :: "llm_args \<Rightarrow> llm_args option" where
  "normalise_amount args = (case map_of args ''amount'' of
     None \<Rightarrow> Some args
   | Some x \<Rightarrow> (case parseAmountToMinorUnits (String_of x) of
        None \<Rightarrow> None
      | Some minor \<Rightarrow> Some ((''amount'', Arg_str (int_to_dec minor)) # args)))"

definition read_model_call :: "string \<times> llm_args \<Rightarrow> (tool_call \<times> rat) option" where
  "read_model_call raw =
     Option.bind (normalise_amount (snd raw)) (\<lambda>args.
     Option.bind (safeParse (fst raw) args) (\<lambda>call. Some (call, confidence_of (snd raw))))"

definition callLlm ::
  "llm_provider \<Rightarrow> string \<Rightarrow> env \<Rightarrow> operation_context \<Rightarrow> string \<Rightarrow> (tool_call \<times> rat) option svc" where
  "callLlm llm prompt env ctx utterance =
     (case llm [(Role_system, prompt), (Role_user, utterance)] of
        Inl e \<Rightarrow> svc_throw e
      | Inr result \<Rightarrow>
          (case costMicroUsd (lr_usage result) of
             None \<Rightarrow> svc_throw (Thrown ''RangeError'')
           | Some cost \<Rightarrow>
               and_then (recordLlmCall env (ctx_ev ctx) (lr_usage result) cost (Some (JObj [(''tier'', JStr ''llm'')]))) (\<lambda>_.
               svc_ret (case lr_toolCalls result of [] \<Rightarrow> None | raw # _ \<Rightarrow> read_model_call raw))))"

section \<open>capture.service.ts\<close>

datatype capture_tier = Deterministic | Llm

datatype capture_result =
    Executed string execution_data capture_tier
  | Answer string execution_data capture_tier
  | Pending string uuid capture_tier
  | Clarification string "string list option" capture_tier

datatype write_resolution =
    Act stored_action string
  | Clarify capture_result

definition resolveBudgetItemId :: "uuid \<Rightarrow> string option \<Rightarrow> uuid option svc" where
  "resolveBudgetItemId eventId name =
     (if \<not> truthy_str name then svc_ret None
      else runInEvent eventId (query (\<lambda>s st.
        case filter (\<lambda>b. ascii_lower (bi_name b) = ascii_lower (js_trim (the name))) (visible_budget_items s st) of
          [b] \<Rightarrow> Some (bi_id b)
        | _ \<Rightarrow> None)))"

fun writeAction :: "tool_call \<Rightarrow> action" where
  "writeAction (Add_person _) = Person_write"
| "writeAction (Record_pledge _) = Pledge_write"
| "writeAction (Record_payment _) = Fulfillment_write"
| "writeAction _ = Ledger_read_amounts"

definition unknownPerson :: "string \<Rightarrow> capture_tier \<Rightarrow> capture_result" where
  "unknownPerson name tier =
     Clarification (''I don'' @ [CHR 0x27] @ ''t see '' @ name @ '' in this event. Add them first with ''
       @ quoted (''add '' @ name) @ ''.'') None tier"

definition ambiguousPerson :: "person_candidate list \<Rightarrow> capture_tier \<Rightarrow> capture_result" where
  "ambiguousPerson candidates tier =
     (let options = map pca_displayName candidates
      in Clarification (''Which one '' @ em_dash @ '' '' @ join '' or '' options @ ''?'') (Some options) tier)"

definition describeSuffix :: "string option \<Rightarrow> string" where
  "describeSuffix description = what_text description"

definition routeOutstanding ::
  "'k assist_env \<Rightarrow> operation_context \<Rightarrow> string option \<Rightarrow> capture_tier \<Rightarrow> capture_result svc" where
  "routeOutstanding ax ctx personName tier =
     (if \<not> truthy_str personName then
        and_then (getSummary ax ctx) (\<lambda>r. svc_ret (Answer (xr_message r) (xr_data r) tier))
      else
        and_then (resolvePerson (ctx_ev ctx) (the personName)) (\<lambda>person. case person of
          Person_none \<Rightarrow> svc_ret (unknownPerson (the personName) tier)
        | Person_ambiguous candidates \<Rightarrow> svc_ret (ambiguousPerson candidates tier)
        | Person_resolved personId displayName \<Rightarrow>
            and_then (resolvePledgeForPerson (ctx_ev ctx) personId) (\<lambda>pledge. case pledge of
              Pledge_resolved pledgeId \<Rightarrow>
                and_then (getOutstandingForPledge ctx pledgeId displayName) (\<lambda>r.
                svc_ret (Answer (xr_message r) (xr_data r) tier))
            | _ \<Rightarrow> svc_ret (Clarification (''I don'' @ [CHR 0x27] @ ''t see an active pledge for '' @ displayName @ ''.'')
                     None tier))))"

text \<open>The pledge of a person, known or new, with or without a part received now.\<close>

definition resolve_pledge_write ::
  "record_pledge_args \<Rightarrow> uuid option \<Rightarrow> string \<Rightarrow> uuid option \<Rightarrow> write_resolution svc" where
  "resolve_pledge_write a personId name budgetItemId =
     (let amount = formatAmount (ra_amount a) @ describeSuffix (ra_description a);
          plain = Act (SA_record_pledge personId name (ra_amount a) (ra_type a) (ra_description a) None budgetItemId)
            (if personId = None then ''Add '' @ name @ '' as a contributor and record their pledge of '' @ amount @ ''?''
             else ''Record '' @ name @ [CHR 0x27] @ ''s pledge of '' @ amount @ ''?'')
      in if truthy_str (ra_receivedNow a) then
           let receivedNow = the (ra_receivedNow a) in
           with_amount receivedNow (\<lambda>v. svc_ret (
             if v > 0 then
               Act (SA_record_pledge_with_payment personId name (ra_amount a) receivedNow (ra_type a)
                   (ra_description a) None budgetItemId)
                 (if personId = None then ''Add '' @ name @ '' as a contributor, record their pledge of '' @ amount
                    @ '', and '' @ formatAmount receivedNow @ '' already received?''
                  else ''Record '' @ name @ [CHR 0x27] @ ''s pledge of '' @ amount @ '', with ''
                    @ formatAmount receivedNow @ '' already received?'')
             else plain))
         else svc_ret plain)"

definition direct_write ::
  "record_payment_args \<Rightarrow> uuid option \<Rightarrow> string \<Rightarrow> uuid option \<Rightarrow> write_resolution" where
  "direct_write a personId name budgetItemId =
     Act (SA_record_direct_contribution personId name (ya_amount a) None (ya_type a) (ya_description a) budgetItemId)
       (let amount = formatAmount (ya_amount a) @ describeSuffix (ya_description a) in
        if personId = None
        then ''Add '' @ name @ '' as a contributor and record their contribution of '' @ amount @ ''?''
        else ''Record '' @ name @ [CHR 0x27] @ ''s contribution of '' @ amount @ ''?'')"

definition resolve_payment_write ::
  "operation_context \<Rightarrow> record_payment_args \<Rightarrow> uuid \<Rightarrow> string \<Rightarrow> uuid option \<Rightarrow> capture_tier \<Rightarrow>
   write_resolution svc" where
  "resolve_payment_write ctx a personId name budgetItemId tier =
     and_then (resolvePledgeForPerson (ctx_ev ctx) personId) (\<lambda>pledge. svc_ret (case pledge of
       Pledge_none \<Rightarrow> direct_write a (Some personId) name budgetItemId
     | Pledge_ambiguous candidates \<Rightarrow>
         Clarify (Clarification (name @ '' has more than one pledge '' @ em_dash
           @ '' which one is this payment for?'') None tier)
     | Pledge_resolved pledgeId \<Rightarrow>
         Act (SA_record_payment pledgeId name (ya_amount a))
           (''Record '' @ name @ [CHR 0x27] @ ''s payment of '' @ formatAmount (ya_amount a) @ ''?'')))"

fun resolveWrite :: "operation_context \<Rightarrow> tool_call \<Rightarrow> capture_tier \<Rightarrow> write_resolution svc" where
  "resolveWrite ctx (Add_person a) tier =
     (let phoneNote = (if truthy_str (aa_phone a) then '' ('' @ the (aa_phone a) @ '')'' else '''')
      in svc_ret (Act (SA_add_person (aa_displayName a) (aa_phone a) (aa_confirmSharedPhone a))
           (''Add '' @ aa_displayName a @ phoneNote @ '' as a contributor?'')))"
| "resolveWrite ctx (Record_pledge a) tier =
     and_then (resolveBudgetItemId (ctx_ev ctx) (ra_budgetItemName a)) (\<lambda>budgetItemId.
     and_then (resolvePerson (ctx_ev ctx) (ra_personName a)) (\<lambda>person. case person of
       Person_none \<Rightarrow> resolve_pledge_write a None (ra_personName a) budgetItemId
     | Person_ambiguous candidates \<Rightarrow> svc_ret (Clarify (ambiguousPerson candidates tier))
     | Person_resolved personId name \<Rightarrow> resolve_pledge_write a (Some personId) name budgetItemId))"
| "resolveWrite ctx (Record_payment a) tier =
     and_then (resolveBudgetItemId (ctx_ev ctx) (ya_budgetItemName a)) (\<lambda>budgetItemId.
     and_then (resolvePerson (ctx_ev ctx) (ya_personName a)) (\<lambda>person. case person of
       Person_none \<Rightarrow> svc_ret (direct_write a None (ya_personName a) budgetItemId)
     | Person_ambiguous candidates \<Rightarrow> svc_ret (Clarify (ambiguousPerson candidates tier))
     | Person_resolved personId name \<Rightarrow> resolve_payment_write ctx a personId name budgetItemId tier))"
| "resolveWrite ctx call tier = svc_throw (Thrown ''not a write'')"

text \<open>The write branch of \<open>route\<close>: permission first, then resolution, then execution or staging.\<close>

definition route_write ::
  "'k::linorder assist_env \<Rightarrow> env \<Rightarrow> operation_context \<Rightarrow> tool_call \<Rightarrow> rat \<Rightarrow> capture_tier \<Rightarrow> bool \<Rightarrow>
   capture_result svc" where
  "route_write ax env ctx call confidence tier forceStage =
     permitted ctx (writeAction call)
       (and_then (resolveWrite ctx call tier) (\<lambda>resolved. case resolved of
          Clarify result \<Rightarrow> svc_ret result
        | Act action prompt \<Rightarrow>
            if \<not> forceStage \<and> confidence \<ge> CONFIDENCE_THRESHOLD then
              and_then (run ax env ctx action ai_from_chat) (\<lambda>r.
              svc_ret (Executed (xr_message r) (xr_data r) tier))
            else
              and_then (create_confirmation env ctx (tool_of action) action (Some confidence) prompt) (\<lambda>pending.
              svc_ret (Pending prompt (pnv_id pending) tier))))"

fun route ::
  "'k::linorder assist_env \<Rightarrow> env \<Rightarrow> operation_context \<Rightarrow> tool_call \<Rightarrow> rat \<Rightarrow> capture_tier \<Rightarrow> bool \<Rightarrow>
   capture_result svc" where
  "route ax env ctx Get_summary confidence tier forceStage =
     and_then (getSummary ax ctx) (\<lambda>r. svc_ret (Answer (xr_message r) (xr_data r) tier))"
| "route ax env ctx (Get_outstanding personName) confidence tier forceStage = routeOutstanding ax ctx personName tier"
| "route ax env ctx call confidence tier forceStage = route_write ax env ctx call confidence tier forceStage"

definition routeToolCall ::
  "'k::linorder assist_env \<Rightarrow> env \<Rightarrow> operation_context \<Rightarrow> tool_call \<Rightarrow> rat \<Rightarrow> capture_result svc" where
  "routeToolCall ax env ctx call confidence = route ax env ctx call confidence Llm True"

text \<open>\<open>prompt\<close> is the system prompt with the note about today's date.\<close>

definition capture ::
  "llm_provider \<Rightarrow> string \<Rightarrow> 'k::linorder assist_env \<Rightarrow> env \<Rightarrow> operation_context \<Rightarrow> string \<Rightarrow> bool \<Rightarrow>
   capture_result svc" where
  "capture llm prompt ax env ctx utterance forceStage =
     (case parseTier1 utterance of
        Some call \<Rightarrow> route ax env ctx call 1 Deterministic forceStage
      | None \<Rightarrow>
          and_then (callLlm llm prompt env ctx utterance) (\<lambda>answer. case answer of
            None \<Rightarrow> svc_ret (Clarification (''Sorry, I didn'' @ [CHR 0x27] @ ''t catch that. Try e.g. ''
                     @ quoted ''John paid 200k'' @ ''.'') None Llm)
          | Some (call, confidence) \<Rightarrow> route ax env ctx call confidence Llm forceStage))"

end
