(* ===== verification/Ai_Guarantees.thy ===== *)
theory Ai_Guarantees
  imports Ai_Capture System_Guarantees
begin

text \<open>
  What the assistant cannot do. Running an action is running a sequence of the ordinary commands
  of the ledger with the caller's own context, so every gate and every invariant of the ledger
  holds for it; a proposal is resolved at most once; forced staging writes proposals only; a
  name that fits several people is never resolved. The model's answers are arbitrary throughout.
\<close>

section \<open>Actions are commands\<close>

definition run_commands :: "env \<Rightarrow> operation_context \<Rightarrow> command list \<Rightarrow> store \<Rightarrow> store" where
  "run_commands env ctx cs st = fold (\<lambda>c st. fst (exec env ctx c st)) cs st"

lemma run_commands_simps [simp]:
  "run_commands env ctx [] st = st"
  "run_commands env ctx (c # cs) st = run_commands env ctx cs (fst (exec env ctx c st))"
  "run_commands env ctx (cs @ ds) st = run_commands env ctx ds (run_commands env ctx cs st)"
  by (simp_all add: run_commands_def)

definition commanded :: "env \<Rightarrow> operation_context \<Rightarrow> (command \<Rightarrow> bool) \<Rightarrow> store \<Rightarrow> store \<Rightarrow> bool" where
  "commanded env ctx P a b = (\<exists>cs. list_all P cs \<and> b = run_commands env ctx cs a)"

interpretation commanded: store_relation "commanded env ctx P" for env ctx P
proof
  show "commanded env ctx P st st" for st
    unfolding commanded_def by (intro exI [of _ "[]"]) simp
  show "commanded env ctx P a c" if both: "commanded env ctx P a b" "commanded env ctx P b c" for a b c
  proof -
    obtain cs ds where "list_all P cs" "b = run_commands env ctx cs a" "list_all P ds" "c = run_commands env ctx ds b"
      using both unfolding commanded_def by blast
    then show ?thesis unfolding commanded_def by (intro exI [of _ "cs @ ds"]) simp
  qed
qed

lemma commanded_call:
  assumes "P cmd" "\<And>st. outcome (m st) = exec env ctx cmd st"
  shows "svc_keeps (commanded env ctx P) m"
proof (rule svc_keepsI)
  fix st st' r assume "m st = (st', r)"
  then have "fst (exec env ctx cmd st) = st'" using assms(2) [of st] by (metis fst_conv outcome_def)
  then show "commanded env ctx P st st'"
    unfolding commanded_def using assms(1) by (intro exI [of _ "[cmd]"]) simp
qed

text \<open>The commands an action stands for: who, to whom and how much are those of the action.\<close>

definition new_person :: "string \<Rightarrow> string option \<Rightarrow> bool option \<Rightarrow> provenance \<Rightarrow> command" where
  "new_person d phone c source =
     Create_person \<lparr>cp_displayName = d, cp_phone = phone, cp_confirmSharedPhone = c, cp_source = Some source\<rparr>"

definition payment_on :: "uuid \<Rightarrow> money \<Rightarrow> provenance \<Rightarrow> command" where
  "payment_on p v source =
     Record_payment \<lparr>rf_pledgeId = p, rf_value = v, rf_kind = None, rf_method = None, rf_currency = None,
       rf_note = None, rf_occurredAt = None, rf_idempotencyKey = None, rf_confirmDuplicate = None,
       rf_source = Some source\<rparr>"

fun may_issue :: "stored_action \<Rightarrow> provenance \<Rightarrow> command \<Rightarrow> bool" where
  "may_issue (SA_add_person d phone c) source cmd \<longleftrightarrow> cmd = new_person d phone c source"
| "may_issue (SA_record_pledge i d a t x phone b) source cmd \<longleftrightarrow>
     (i = None \<and> cmd = new_person d phone None source)
     \<or> (\<exists>v p. BigInt a = Inr v \<and> (i \<noteq> None \<longrightarrow> i = Some p) \<and>
          cmd = Create_pledge_for \<lparr>cpl_personId = p, cpl_committedValue = v, cpl_type = t,
            cpl_targetBudgetItemId = b, cpl_description = x, cpl_quantity = None, cpl_unit = None,
            cpl_estimatedValue = None, cpl_source = Some source\<rparr>)"
| "may_issue (SA_record_pledge_with_payment i d a r t x phone b) source cmd \<longleftrightarrow>
     (i = None \<and> cmd = new_person d phone None source)
     \<or> (\<exists>v w p. BigInt a = Inr v \<and> BigInt r = Inr w \<and> (i \<noteq> None \<longrightarrow> i = Some p) \<and>
          cmd = Record_pledge_with_payment \<lparr>pp_personId = p, pp_committedValue = v, pp_receivedNow = Some w,
            pp_type = t, pp_description = x, pp_targetBudgetItemId = b, pp_method = None, pp_note = None,
            pp_idempotencyKey = None, pp_source = Some source\<rparr>)"
| "may_issue (SA_record_payment p d a) source cmd \<longleftrightarrow> (\<exists>v. BigInt a = Inr v \<and> cmd = payment_on p v source)"
| "may_issue (SA_record_direct_contribution i d a phone t x b) source cmd \<longleftrightarrow>
     (\<not> truthy_str i \<and> cmd = new_person d phone None source)
     \<or> (\<exists>v p. BigInt a = Inr v \<and> \<not> truthy_str i \<and> cmd = payment_on p v source)
     \<or> (\<exists>v p. BigInt a = Inr v \<and> (truthy_str i \<longrightarrow> p = i) \<and>
          cmd = Record_direct \<lparr>dc_personId = p, dc_displayName = Some d, dc_phone = phone, dc_value = v,
            dc_kind = (if t \<noteq> None \<and> t \<noteq> Some CASH then Some DELIVERY else None), dc_method = None,
            dc_note = None, dc_type = t, dc_description = x, dc_targetBudgetItemId = b,
            dc_idempotencyKey = None, dc_source = Some source\<rparr>)"
| "may_issue (SA_create_budget_item n a doc) source cmd \<longleftrightarrow>
     (\<exists>v. BigInt a = Inr v \<and> cmd = Add_item \<lparr>bin_name = n, bin_targetValue = v, bin_source = Some source,
        bin_confidence = None, bin_sourceDocumentId = doc\<rparr>)"
| "may_issue (SA_update_budget_item i n a) source cmd \<longleftrightarrow>
     (\<exists>v. BigInt a = Inr v \<and> cmd = Update_item i \<lparr>bup_name = Some n, bup_targetValue = Some v,
        bup_isPublic = None, bup_expectedVersion = None\<rparr>)"
| "may_issue (SA_remove_budget_item i n) source cmd \<longleftrightarrow> cmd = Remove_item i"
| "may_issue (SA_allocate_to_budget f i n d a) source cmd \<longleftrightarrow> (\<exists>v. BigInt a = Inr v \<and> cmd = Allocate f i v)"
| "may_issue (SA_correct_pledge p d a) source cmd \<longleftrightarrow> (\<exists>v. BigInt a = Inr v \<and> cmd = Correct_committed p v)"
| "may_issue (SA_correct_payment f d a) source cmd \<longleftrightarrow> (\<exists>v. BigInt a = Inr v \<and> cmd = Correct_payment f v)"
| "may_issue (SA_merge_people i j n m) source cmd \<longleftrightarrow> cmd = Merge_people i j"
| "may_issue (SA_invite_member role d phone) source cmd \<longleftrightarrow>
     (\<exists>token. cmd = Create_invitation token \<lparr>cin_role = role, cin_invitedPhone = phone, cin_maxUses = None,
        cin_ttlSeconds = None\<rparr>)"
| "may_issue (SA_send_sms_reminders body) source cmd \<longleftrightarrow> False"
| "may_issue (SA_get_outstanding_pledge p d) source cmd \<longleftrightarrow> False"
| "may_issue SA_get_summary source cmd \<longleftrightarrow> False"

section \<open>Reads\<close>

context store_relation
begin

lemma svc_with_amount: "(\<And>v. BigInt s = Inr v \<Longrightarrow> svc_keeps R (k v)) \<Longrightarrow> svc_keeps R (with_amount s k)"
  by (auto simp: with_amount_def intro: svc_basic split: sum.splits)

lemma svc_query: "svc_keeps R (runInEvent e (query f))"
  by (intro svc_runInEvent keeps_query)

lemma ai_reads:
  "svc_keeps R (resolvePerson e n)" "svc_keeps R (resolvePledgeForPerson e i)"
  "svc_keeps R (resolveBudgetItemId e b)" "svc_keeps R (answered m x)"
  "svc_keeps R (listPending ctx)"
  by (auto simp: resolvePerson_def resolvePledgeForPerson_def resolveBudgetItemId_def answered_def
      listPending_def Let_def intro: svc_query svc_basic)

lemma ai_answers:
  "svc_keeps R (getPledgeOutstanding ctx i)" "svc_keeps R (getEventReport fl ctx n)"
  unfolding getPledgeOutstanding_def getEventReport_def
  by (auto intro!: svc_permitted svc_runInEvent svc_and_then svc_basic svc_query keeps_await keeps_query keeps_ret
      keeps_throw split: option.splits)

lemma ai_spoken:
  "svc_keeps R (getOutstandingForPledge ctx i d)" "svc_keeps R (getSummary ax ctx)"
  unfolding getOutstandingForPledge_def getSummary_def by (intro svc_and_then ai_answers ai_reads)+

end

section \<open>The executor\<close>

lemma commanded_calls:
  "P (Create_person i1) \<Longrightarrow> svc_keeps (commanded env ctx P) (createPerson env ctx i1)"
  "P (Create_pledge_for i2) \<Longrightarrow> svc_keeps (commanded env ctx P) (createPledge env ctx i2)"
  "P (Record_pledge_with_payment i3) \<Longrightarrow> svc_keeps (commanded env ctx P) (recordPledgeWithPayment env ctx i3)"
  "P (Record_payment i4) \<Longrightarrow> svc_keeps (commanded env ctx P) (recordFulfillment env ctx i4)"
  "P (Record_direct i5) \<Longrightarrow> svc_keeps (commanded env ctx P) (recordDirectContribution env ctx i5)"
  "P (Add_item i6) \<Longrightarrow> svc_keeps (commanded env ctx P) (addItem env ctx i6)"
  "P (Update_item i u) \<Longrightarrow> svc_keeps (commanded env ctx P) (updateItem env ctx i u)"
  "P (Remove_item i) \<Longrightarrow> svc_keeps (commanded env ctx P) (removeItem env ctx i)"
  "P (Allocate f i v) \<Longrightarrow> svc_keeps (commanded env ctx P) (allocate env ctx f i v)"
  "P (Correct_committed i v) \<Longrightarrow> svc_keeps (commanded env ctx P) (correctCommittedValue env ctx i v)"
  "P (Correct_payment i v) \<Longrightarrow> svc_keeps (commanded env ctx P) (correctValue env ctx i v)"
  "P (Merge_people i j) \<Longrightarrow> svc_keeps (commanded env ctx P) (mergePeople env ctx i j)"
  "P (Create_invitation token i7) \<Longrightarrow> svc_keeps (commanded env ctx P) (createInvitation token env ctx i7)"
  by (erule commanded_call; simp)+

lemmas commanded_rules = commanded.svc_and_then commanded.svc_basic commanded.ai_reads commanded.ai_spoken
  commanded.svc_with_amount commanded_calls

lemma resolveOrCreate_commanded:
  "P (new_person d phone None source) \<Longrightarrow> svc_keeps (commanded env ctx P) (resolveOrCreatePerson env ctx d source phone)"
  unfolding resolveOrCreatePerson_def new_person_def
  by (rule commanded_rules, rule commanded_rules) (auto intro!: commanded_rules split: person_resolution.splits)

text \<open>A person given by id is used as it is; a missing one is looked up or created.\<close>

lemma with_person_commanded:
  assumes "i = None \<Longrightarrow> P (new_person d phone None source)" "\<And>p. (i \<noteq> None \<Longrightarrow> i = Some p) \<Longrightarrow> svc_keeps (commanded env ctx P) (k p)"
  shows "svc_keeps (commanded env ctx P) (and_then (target_person env ctx i d source phone) k)"
proof (cases i)
  case None
  then show ?thesis
    using assms by (auto simp: target_person_def intro!: commanded.svc_and_then resolveOrCreate_commanded)
next
  case (Some p)
  then show ?thesis using assms(2) by (simp add: target_person_def)
qed

lemma recordPayment_commanded:
  "P (payment_on p v source) \<Longrightarrow> svc_keeps (commanded env ctx P) (recordPayment env ctx p d v source)"
  unfolding recordPayment_def payment_on_def by (intro commanded_rules)

lemma pledge_tools_commanded:
  "svc_keeps (commanded env ctx (may_issue (SA_record_pledge i d a t x phone b) source))
      (with_amount a (\<lambda>v. recordPledge env ctx i d v source t phone x b))"
  "svc_keeps (commanded env ctx (may_issue (SA_record_pledge_with_payment i d a r t x phone b) source))
      (with_amount a (\<lambda>v. with_amount r (\<lambda>w. recordPledgeWithPayment_tool env ctx i d v w source t phone x b)))"
  unfolding recordPledge_def recordPledgeWithPayment_tool_def
  by (auto intro!: commanded_rules with_person_commanded)

lemma direct_tool_commanded:
  "svc_keeps (commanded env ctx (may_issue (SA_record_direct_contribution i d a phone t x b) source))
     (with_amount a (\<lambda>v. recordDirectContribution_tool env ctx i d v source phone t x b))"
proof (rule commanded.svc_with_amount)
  fix v assume v: "BigInt a = Inr v"
  let ?P = "may_issue (SA_record_direct_contribution i d a phone t x b) source"
  have direct: "svc_keeps (commanded env ctx ?P) (directContribution env ctx p d v source phone t x b)"
    if "truthy_str i \<longrightarrow> p = i" for p
    unfolding directContribution_def using v that by (auto intro!: commanded_rules)
  have paid: "svc_keeps (commanded env ctx ?P) (recordPayment env ctx p d v source)" if "\<not> truthy_str i" for p
    using v that by (intro recordPayment_commanded) auto
  show "svc_keeps (commanded env ctx ?P) (recordDirectContribution_tool env ctx i d v source phone t x b)"
    unfolding recordDirectContribution_tool_def
    using direct paid
    by (auto intro!: commanded_rules resolveOrCreate_commanded split: pledge_resolution.splits)
qed

lemma run_commanded:
  assumes "\<And>body. action \<noteq> SA_send_sms_reminders body"
  shows "svc_keeps (commanded env ctx (may_issue action source)) (run ax env ctx action source)"
proof (cases action)
  case (SA_send_sms_reminders body)
  with assms [of body] show ?thesis by simp
qed (auto simp: pledge_tools_commanded direct_tool_commanded addPerson_tool_def createBudgetItem_def
      updateBudgetItem_def removeBudgetItem_def allocateToBudget_def correctPledge_def correctPayment_def
      mergePeople_tool_def inviteMember_def new_person_def Let_def
      intro!: commanded_rules recordPayment_commanded split: prod.splits)

section \<open>Proposals are left alone\<close>

text \<open>Statements, calls and commands that do not touch the proposals.\<close>

definition undisturbed :: "store \<Rightarrow> store \<Rightarrow> bool" where
  "undisturbed a b \<longleftrightarrow> supply_grows a b \<and> confirmations b = confirmations a"

interpretation undisturbed: store_relation undisturbed
  by unfold_locales (auto simp: undisturbed_def supply_grows_def)

lemmas undisturbed_basic = undisturbed.keeps_ret undisturbed.keeps_throw undisturbed.keeps_query undisturbed.keeps_await
  undisturbed.keeps_swallowed

lemma undisturbed_statements:
  "keeps s undisturbed (person_create mkpe)" "keeps s undisturbed (person_update i fpe)"
  "keeps s undisturbed (budget_create mkb)" "keeps s undisturbed (budget_item_create mkbi)"
  "keeps s undisturbed (budget_item_update i fbi)" "keeps s undisturbed (allocation_create mka)"
  "keeps s undisturbed (group_create mkg)" "keeps s undisturbed (person_group_create mkpg)"
  "keeps s undisturbed (audit_write t ai)" "keeps s undisturbed (outbox_enqueue t oi)"
  "keeps s undisturbed (member_upsert e v mkm fm)" "keeps s undisturbed (person_delete i)"
  by (auto intro!: keepsI simp: undisturbed_def supply_grows_def person_create_def person_update_def
      budget_create_def budget_item_create_def budget_item_update_def allocation_create_def
      group_create_def person_group_create_def audit_write_def outbox_enqueue_def outbox_create_def
      member_upsert_def person_delete_def tbl_create_def tbl_update_def Let_def
      split: if_splits option.splits sum.splits error.splits db_error.splits)

lemma undisturbed_moves:
  "keeps s undisturbed (pledge_create mkpl)" "keeps s undisturbed (pledge_update i fpl)"
  "keeps s undisturbed (fulfillment_create mkf)" "keeps s undisturbed (fulfillment_update i ff)"
  "keeps s undisturbed (pledges_reparent i j)" "keeps s undisturbed (files_reparent i j)"
  "keeps s undisturbed (budget_item_delete i)" "keeps s undisturbed (event_create mke)"
  "keeps s undisturbed (member_create mkm)"
  by (auto intro!: keepsI simp: undisturbed_def supply_grows_def pledge_create_def pledge_update_def
      fulfillment_create_def fulfillment_update_def pledges_reparent_def files_reparent_def budget_item_delete_def
      event_create_def statement_Inr global_create_def member_create_def
      tbl_create_def tbl_update_def tbl_update_many_def Let_def
      split: if_splits option.splits)

lemma undisturbed_globals:
  "svc_keeps undisturbed (event_update i fe)" "svc_keeps undisturbed (invitation_update i fi)"
  "svc_keeps undisturbed (invitation_create mki)"
  by (auto intro!: svc_keepsI simp: event_update_def invitation_update_def invitation_create_def
      global_update_def global_create_def undisturbed_def supply_grows_def Let_def
      split: option.splits if_splits)

lemmas undisturbed_rules = undisturbed_basic undisturbed_statements undisturbed_moves undisturbed_globals
  undisturbed.svc_rules

lemma undisturbed_bodies:
  "keeps s undisturbed (createPerson_tx env ctx cp)"
  "keeps s undisturbed (updateContact_tx env ctx i ph c)"
  "keeps s undisturbed (linkPersonToUser_tx env ctx i u)"
  "keeps s undisturbed (addItem_tx env ctx bin)"
  "keeps s undisturbed (updateItem_tx env ctx i bup)"
  "keeps s undisturbed (allocate_tx env ctx f i n)"
  "keeps s undisturbed (createGroup_tx env ctx nm k)"
  "keeps s undisturbed (assignPerson_tx env ctx i g rl)"
  "keeps s undisturbed (addMember_tx env ctx u r)"
  "keeps s undisturbed (admit_tx env ac invite)"
  "keeps s undisturbed (mergePeople_tx env ctx i j)" "keeps s undisturbed (removeItem_tx env ctx i)"
  unfolding createPerson_tx_def updateContact_tx_def assertPhoneNotAttachedElsewhere_def
    linkPersonToUser_tx_def addItem_tx_def ensureBudget_def updateItem_tx_def allocate_tx_def
    createGroup_tx_def assignPerson_tx_def addMember_tx_def admit_tx_def mergePeople_tx_def removeItem_tx_def Let_def
  by ((intro keeps_intros undisturbed_rules)?; simp add: keeps_statement undisturbed_rules)+

lemma undisturbed_payments:
  "keeps s undisturbed (createPledge_tx env ctx cpl)" "keeps s undisturbed (correctCommittedValue_tx env ctx i n)"
  "keeps s undisturbed (cancelPledge_tx env ctx i)" "keeps s undisturbed (recordFulfillment_tx env ctx rf)"
  "keeps s undisturbed (recordDirectContribution_tx env ctx dc)"
  "keeps s undisturbed (recordPledgeWithPayment_tx env ctx pp)" "keeps s undisturbed (correctValue_tx env ctx i n)"
  unfolding createPledge_tx_def correctCommittedValue_tx_def cancelPledge_tx_def recordFulfillment_tx_def
    recordDirectContribution_tx_def recordPledgeWithPayment_tx_def correctValue_tx_def payment_defs
  by (intro keeps_intros undisturbed_rules; simp?)+

lemma undisturbed_ungated:
  "svc_keeps undisturbed (createEvent lower nfkd rnd env ac i)"
  "svc_keeps undisturbed (acceptInvitation env ac token)"
  "svc_keeps undisturbed (updateEvent env ctx ui)" "svc_keeps undisturbed (setStatus env ctx s)"
  "svc_keeps undisturbed (revokeInvitation ctx j)"
proof -
  show "svc_keeps undisturbed (createEvent lower nfkd rnd env ac i)"
    unfolding createEvent_def runCreatingEvent_def createEvent_tx_def
    apply (rule undisturbed_rules)
    apply (rule undisturbed.svc_transaction)
    apply (rule undisturbed_rules)
     apply (rule undisturbed_rules)
    apply (rule keepsI)
    apply (erule keepsD [rotated])
    by (intro keeps_intros undisturbed_rules)
  show "svc_keeps undisturbed (acceptInvitation env ac token)"
    unfolding acceptInvitation_def acceptInvitation_tx_def
    by (intro svc_intros keeps_intros undisturbed_rules undisturbed_bodies)
  show "svc_keeps undisturbed (updateEvent env ctx ui)" "svc_keeps undisturbed (setStatus env ctx s)"
    "svc_keeps undisturbed (revokeInvitation ctx j)"
    unfolding updateEvent_def setStatus_def revokeInvitation_def
    by (intro svc_intros keeps_intros undisturbed_rules)+
qed

lemma undisturbed_invitation: "svc_keeps undisturbed (createInvitation token env ctx ci)"
  unfolding createInvitation_def
proof (intro undisturbed.svc_gated svc_pointwise, goal_cases)
  case (1 st)
  have "svc_keeps undisturbed (svc_throw e)" for e by (intro undisturbed_rules)
  then show ?case
    by (cases "already_member (ctx_ev ctx) (cin_invitedPhone ci) st";
        cases "allowed (ent_check env (event_scope (ctx_ev ctx)) Add_member 1 st)")
       (auto simp: Let_def simp flip: svc_simps(2) intro!: undisturbed_rules)
qed

lemma undisturbed_calls:
  "svc_keeps undisturbed (createPerson env ctx cp)" "svc_keeps undisturbed (updateContact env ctx i ph c)"
  "svc_keeps undisturbed (linkPersonToUser env ctx i u)" "svc_keeps undisturbed (addItem env ctx bin)"
  "svc_keeps undisturbed (updateItem env ctx i bup)" "svc_keeps undisturbed (allocate env ctx f i n)"
  "svc_keeps undisturbed (createGroup env ctx nm k)" "svc_keeps undisturbed (assignPerson env ctx i g rl)"
  "svc_keeps undisturbed (addMember env ctx u rol)" "svc_keeps undisturbed (mergePeople env ctx i j)"
  "svc_keeps undisturbed (removeItem env ctx i)" "svc_keeps undisturbed (createPledge env ctx cpl)"
  "svc_keeps undisturbed (correctCommittedValue env ctx i n)" "svc_keeps undisturbed (cancelPledge env ctx i)"
  "svc_keeps undisturbed (recordFulfillment env ctx rf)" "svc_keeps undisturbed (recordDirectContribution env ctx dc)"
  "svc_keeps undisturbed (recordPledgeWithPayment env ctx pp)" "svc_keeps undisturbed (correctValue env ctx i n)"
  using undisturbed_bodies undisturbed_payments
    op_createPerson.svc_related [OF undisturbed.store_relation_axioms, of ctx env cp]
    op_updateContact.svc_related [OF undisturbed.store_relation_axioms, of ctx env "(i, ph, c)"]
    op_linkPersonToUser.svc_related [OF undisturbed.store_relation_axioms, of ctx env "(i, u)"]
    op_addItem.svc_related [OF undisturbed.store_relation_axioms, of ctx env bin]
    op_updateItem.svc_related [OF undisturbed.store_relation_axioms, of ctx env "(i, bup)"]
    op_allocate.svc_related [OF undisturbed.store_relation_axioms, of ctx env "(f, i, n)"]
    op_createGroup.svc_related [OF undisturbed.store_relation_axioms, of ctx env "(nm, k)"]
    op_assignPerson.svc_related [OF undisturbed.store_relation_axioms, of ctx env "(i, g, rl)"]
    op_addMember.svc_related [OF undisturbed.store_relation_axioms, of ctx env "(u, rol)"]
    op_mergePeople.svc_related [OF undisturbed.store_relation_axioms, of ctx env "(i, j)"]
    op_removeItem.svc_related [OF undisturbed.store_relation_axioms, of ctx env i]
    op_createPledge.svc_related [OF undisturbed.store_relation_axioms, of ctx env cpl]
    op_correctCommittedValue.svc_related [OF undisturbed.store_relation_axioms, of ctx env "(i, n)"]
    op_cancelPledge.svc_related [OF undisturbed.store_relation_axioms, of ctx env i]
    op_recordFulfillment.svc_related [OF undisturbed.store_relation_axioms, of ctx env rf]
    op_recordDirectContribution.svc_related [OF undisturbed.store_relation_axioms, of ctx env dc]
    op_recordPledgeWithPayment.svc_related [OF undisturbed.store_relation_axioms, of ctx env pp]
    op_correctValue.svc_related [OF undisturbed.store_relation_axioms, of ctx env "(i, n)"]
  by simp_all

lemma exec_undisturbed: "exec env ctx cmd st = (st', r) \<Longrightarrow> undisturbed st st'"
  by (cases cmd)
     (auto elim!: outcome_keeps [rotated] intro: undisturbed_calls undisturbed_ungated undisturbed_invitation)

section \<open>Messages and metering\<close>

text \<open>Sending texts and metering calls touch neither the money tables nor the proposals.\<close>

definition bystander :: "store \<Rightarrow> store \<Rightarrow> bool" where
  "bystander a b \<longleftrightarrow> money_same a b \<and> confirmations b = confirmations a"

interpretation bystander: store_relation bystander
  by unfold_locales (auto simp: bystander_def money_same_def supply_grows_def)

lemma bystander_credits: "svc_keeps bystander (append_sms env sc k n key ref)"
  by (auto intro!: svc_keepsI simp: append_sms_def credit_append_def credit_create_def global_create_def bystander_def money_same_def
      supply_grows_def Let_def split: if_splits error.splits db_error.splits prod.splits sum.splits)

lemma bystander_statements:
  "keeps s bystander (sms_campaign_create mk)" "keeps s bystander (sms_campaign_update i f)"
  "keeps s bystander (sms_message_create row)" "keeps s bystander (outbox_enqueue t oi)"
  "keeps s bystander (tbl_create usage_events put_usage_events ue_eventId mku)"
  by (auto intro!: keepsI simp: bystander_def money_same_def supply_grows_def sms_campaign_create_def
      sms_campaign_update_def sms_message_create_def outbox_enqueue_def outbox_create_def
      tbl_create_def tbl_update_def Let_def
      split: if_splits option.splits sum.splits error.splits db_error.splits)

lemma bystander_keeping: "svc_keeps bystander m \<Longrightarrow> svc_keeps bystander (keeping_credits m)"
  by (auto simp: svc_keeps_def keeping_credits_def bystander_def money_same_def supply_grows_def
      split: prod.splits sum.splits)

lemmas bystander_rules = bystander.svc_rules bystander.svc_transaction bystander_credits bystander_statements
  bystander_keeping bystander.keeps_await bystander.keeps_ret bystander.keeps_query

lemma bystander_queue: "svc_keeps bystander (queue_messages env e c body rs)"
proof (induction rs)
  case Nil
  show ?case unfolding queue_messages.simps by (rule bystander_rules)
next
  case (Cons r rs)
  have uid: "svc_keeps bystander randomUUID"
    by (auto simp: svc_keeps_def randomUUID_def bystander_def money_same_def supply_grows_def)
  have reserved: "svc_keeps bystander (reserve env sc n key)" for sc n key
    unfolding reserve_def by (intro bystander_rules svc_keeps_if)
  show ?case
    by (auto intro!: bystander_rules Cons uid reserved)
qed

lemma bystander_dispatch:
  assumes "keeps (in_event (ctx_ev ctx)) bystander resolve"
  shows "svc_keeps bystander (sms_dispatch env ctx kind body resolve)"
  unfolding sms_dispatch_def Let_def
  using assms by (intro bystander_rules bystander_queue svc_keeps_if)

lemma bystander_calls:
  "svc_keeps bystander (sendReminders_tool ax env ctx body)"
  "svc_keeps bystander (recordLlmCall env e u c m)"
proof -
  have "keeps s bystander (unpaidWithPhone k)" for s k
    unfolding unpaidWithPhone_def by (rule bystander.keeps_query)
  then show "svc_keeps bystander (sendReminders_tool ax env ctx body)"
    unfolding sendReminders_tool_def sendReminders_def Let_def
    by (intro bystander_rules bystander_dispatch bystander.ai_reads) (simp add: selected_def)
  show "svc_keeps bystander (recordLlmCall env e u c m)"
    unfolding recordLlmCall_def by (intro bystander_rules)
qed

section \<open>The assistant as a transition system\<close>

text \<open>The calls a client makes: chat, a tool call of the conversational agent (validated by its
  schema), the review of proposals, and any command of the ledger in between. \<open>rat\<close> stands for the
  sort keys of names: every order on strings embeds in it.\<close>

datatype assistant_call =
    Ask llm_provider string string bool
  | Route_call tool_call rat
  | Edit_proposal uuid update_pending_input
  | Confirm uuid
  | Reject uuid
  | Ledger_command command

fun assistant ::
  "rat assist_env \<Rightarrow> env \<Rightarrow> operation_context \<Rightarrow> assistant_call \<Rightarrow> store \<Rightarrow> store \<times> error option" where
  "assistant ax env ctx (Ask llm prompt utterance forceStage) st = outcome (capture llm prompt ax env ctx utterance forceStage st)"
| "assistant ax env ctx (Route_call call confidence) st = outcome (routeToolCall ax env ctx call confidence st)"
| "assistant ax env ctx (Edit_proposal i edits) st = outcome (update_confirmation ctx i edits st)"
| "assistant ax env ctx (Confirm i) st = outcome (confirm ax env ctx i st)"
| "assistant ax env ctx (Reject i) st = outcome (reject_confirmation env ctx i st)"
| "assistant ax env ctx (Ledger_command cmd) st = exec env ctx cmd st"

fun call_ok :: "assistant_call \<Rightarrow> bool" where
  "call_ok (Route_call call confidence) = toolCallSchema call"
| "call_ok (Ledger_command cmd) = command_ok cmd"
| "call_ok _ = True"

inductive assisted :: "store \<Rightarrow> store \<Rightarrow> bool" for st0 where
  assisted_start: "assisted st0 st0"
| assisted_step: "assisted st0 st \<Longrightarrow> call_ok call \<Longrightarrow> assistant ax env ctx call st = (st', r) \<Longrightarrow> assisted st0 st'"

text \<open>Proposals the executor can run: their amounts are digit strings, their ids were drawn.\<close>

fun amounts_of :: "stored_action \<Rightarrow> string list" where
  "amounts_of (SA_record_pledge _ _ a _ _ _ _) = [a]"
| "amounts_of (SA_record_pledge_with_payment _ _ a r _ _ _ _) = [a, r]"
| "amounts_of (SA_record_payment _ _ a) = [a]"
| "amounts_of (SA_record_direct_contribution _ _ a _ _ _ _) = [a]"
| "amounts_of (SA_create_budget_item _ a _) = [a]"
| "amounts_of (SA_update_budget_item _ _ a) = [a]"
| "amounts_of (SA_allocate_to_budget _ _ _ _ a) = [a]"
| "amounts_of (SA_correct_pledge _ _ a) = [a]"
| "amounts_of (SA_correct_payment _ _ a) = [a]"
| "amounts_of _ = []"

definition valid_action :: "stored_action \<Rightarrow> bool" where
  "valid_action action = list_all amountString (amounts_of action)"

definition proposals_ok :: "store \<Rightarrow> bool" where
  "proposals_ok st \<longleftrightarrow> distinct (map pc_id (confirmations st))
     \<and> (\<forall>c\<in>set (confirmations st). known_id st (pc_id c) \<and> valid_action (pc_payload c))"

definition assistant_inv :: "store \<Rightarrow> bool" where
  "assistant_inv st = (ledger_inv st \<and> proposals_ok st)"

lemma BigInt_valid: "amountString a \<Longrightarrow> BigInt a = Inr v \<Longrightarrow> 0 \<le> v"
  by (auto simp: BigInt_digits digits_value_nat)

lemma issued_ok: "valid_action action \<Longrightarrow> may_issue action source cmd \<Longrightarrow> command_ok cmd"
  by (cases action) (auto simp: valid_action_def new_person_def payment_on_def intro: BigInt_valid)

lemma commands_keep_sound:
  "list_all command_ok cs \<Longrightarrow> ledger_inv st \<Longrightarrow> ledger_inv (run_commands env ctx cs st)"
proof (induction cs arbitrary: st)
  case (Cons c cs)
  have "preserves (money_inv False) st (fst (exec env ctx c st))"
    using Cons.prems(1)
    by (intro sound.exec_related [where cmd = c and env = env and ctx = ctx, OF _ _ prod.collapse [symmetric]]) auto
  with Cons show ?case by (simp add: preserves_def money_inv_def)
qed simp

lemma commands_undisturbed: "undisturbed st (run_commands env ctx cs st)"
proof (induction cs arbitrary: st)
  case Nil
  show ?case by (simp add: undisturbed.rel_refl)
next
  case (Cons c cs)
  have "undisturbed st (fst (exec env ctx c st))" by (rule exec_undisturbed [OF prod.collapse [symmetric]])
  with Cons.IH show ?case using undisturbed.rel_trans by fastforce
qed

text \<open>An action, run: an ordinary sequence of commands, or a reminder blast.\<close>

lemma run_cases:
  assumes "run ax env ctx action source st = (st', r)"
  obtains (commands) cs where "list_all (may_issue action source) cs" "st' = run_commands env ctx cs st"
  | (blast) body where "action = SA_send_sms_reminders body" "bystander st st'"
proof (cases "\<exists>body. action = SA_send_sms_reminders body")
  case True
  then obtain body where body: "action = SA_send_sms_reminders body" by blast
  then have "bystander st st'" using assms svc_keepsD [OF bystander_calls(1)] by simp
  with body show thesis by (rule blast)
next
  case False
  then have "commanded env ctx (may_issue action source) st st'"
    using assms by (intro svc_keepsD [OF run_commanded]) auto
  then show thesis unfolding commanded_def by (elim exE conjE) (rule commands)
qed

lemma run_undisturbed: "run ax env ctx action source st = (st', r) \<Longrightarrow> undisturbed st st'"
  by (erule run_cases) (auto simp: commands_undisturbed, simp add: bystander_def undisturbed_def money_same_def)

lemma run_keeps_sound:
  assumes "run ax env ctx action source st = (st', r)" "valid_action action" "ledger_inv st"
  shows "ledger_inv st'"
  using assms(1)
proof (cases rule: run_cases)
  case (commands cs)
  then have "list_all command_ok cs" using issued_ok [OF assms(2)] by (auto simp: list_all_iff)
  then show ?thesis using commands(2) commands_keep_sound assms(3) by simp
next
  case (blast body)
  then show ?thesis using assms(3) money_same_inv unfolding bystander_def by blast
qed

section \<open>Resolving a call\<close>

text \<open>Resolution writes nothing, and a resolved action of a valid call is valid.\<close>

definition unchanged :: "store \<Rightarrow> store \<Rightarrow> bool" where
  "unchanged a b = (b = a)"

interpretation unchanged: store_relation unchanged
  by unfold_locales (auto simp: unchanged_def)

lemmas unchanged_rules = unchanged.svc_basic unchanged.svc_and_then unchanged.ai_reads unchanged.svc_with_amount

lemma resolveWrite_unchanged: "svc_keeps unchanged (resolveWrite ctx call tier)"
  by (cases call)
     (auto intro!: unchanged_rules simp: Let_def resolve_pledge_write_def resolve_payment_write_def
        split: person_resolution.splits)

definition yields :: "('a \<Rightarrow> bool) \<Rightarrow> 'a svc \<Rightarrow> bool" where
  "yields Q m = (\<forall>st st' x. m st = (st', Inr x) \<longrightarrow> Q x)"

lemma yields_rules:
  "Q x \<Longrightarrow> yields Q (svc_ret x)" "yields Q (svc_throw e)"
  "(\<And>x. yields Q (k x)) \<Longrightarrow> yields Q (and_then m k)"
  "(\<And>v. BigInt s = Inr v \<Longrightarrow> yields Q (k' v)) \<Longrightarrow> yields Q (with_amount s k')"
  by (auto simp: yields_def and_then_Inr with_amount_def split: sum.splits)

definition valid_resolution :: "write_resolution \<Rightarrow> bool" where
  "valid_resolution w = (case w of Act action prompt \<Rightarrow> valid_action action | Clarify r \<Rightarrow> True)"

lemma pledge_write_valid:
  "recordPledgeArgs a \<Longrightarrow> yields valid_resolution (resolve_pledge_write a i n b)"
  by (cases "ra_receivedNow a")
     (auto intro!: yields_rules simp: resolve_pledge_write_def Let_def valid_resolution_def valid_action_def
        recordPledgeArgs_def optional_def)

lemma payment_write_valid:
  "recordPaymentArgs a \<Longrightarrow> valid_resolution (direct_write a j n b)"
  "recordPaymentArgs a \<Longrightarrow> yields valid_resolution (resolve_payment_write ctx a i n b tier)"
proof -
  show direct: "recordPaymentArgs a \<Longrightarrow> valid_resolution (direct_write a j n b)" for j
    by (simp add: direct_write_def valid_resolution_def valid_action_def recordPaymentArgs_def)
  assume a: "recordPaymentArgs a"
  show "yields valid_resolution (resolve_payment_write ctx a i n b tier)"
    unfolding resolve_payment_write_def
    using direct [OF a] a
    by (auto intro!: yields_rules simp: valid_resolution_def valid_action_def recordPaymentArgs_def
        split: pledge_resolution.splits)
qed

lemma resolveWrite_valid:
  assumes "toolCallSchema call"
  shows "yields valid_resolution (resolveWrite ctx call tier)"
  using assms pledge_write_valid payment_write_valid
  by (cases call)
     (auto intro!: yields_rules simp: Let_def valid_resolution_def valid_action_def split: person_resolution.splits)

lemma parseTier1_valid: "parseTier1 utterance = Some call \<Longrightarrow> toolCallSchema call"
  by (drule parseTier1_cases)
     (auto dest: parse_contribution_shape parse_addition_shape simp: getOutstandingArgs_def optional_def)

lemma read_model_call_valid: "read_model_call raw = Some (call, q) \<Longrightarrow> toolCallSchema call"
  by (auto simp: read_model_call_def safeParse_def bind_eq_Some_conv split: if_splits)

lemma callLlm_valid: "callLlm llm prompt env ctx u st = (st', Inr (Some (call, q))) \<Longrightarrow> toolCallSchema call"
  by (auto simp: callLlm_def and_then_Inr dest: read_model_call_valid split: sum.splits option.splits list.splits)

section \<open>One proposal\<close>

lemma pending_row_cases:
  "pending_row i (in_event e) st =
     (case find_confirmation i (in_event e) st of
        None \<Rightarrow> Inl (NotFound ''Pending confirmation not found'')
      | Some row \<Rightarrow> if pc_status row \<noteq> PC_PENDING
          then Inl (BadRequest (''Already '' @ ascii_lower (confirmation_status_str (pc_status row))))
          else Inr (st, row))"
  by (simp add: pending_row_def split: option.splits)

lemma find_confirmation_row:
  "find_confirmation i (in_event e) st = Some row \<Longrightarrow> row \<in> set (confirmations st) \<and> pc_id row = i \<and> pc_eventId row = e"
  by (auto simp: find_confirmation_def tbl_visible_def dest: find_SomeD)

lemma confirmation_update_known:
  assumes "find_confirmation i (in_event e) st = Some row" "\<And>c. pc_eventId (f c) = pc_eventId c"
  shows "confirmation_update i f (in_event e) st =
    Inr (put_confirmations (update_where (\<lambda>c. pc_eventId c = e \<and> pc_id c = i) f (confirmations st)) st, f row)"
  using assms by (simp add: confirmation_update_def tbl_update_def find_confirmation_def)

lemma edits_valid:
  assumes "valid_action action" "case action_amount (apply_edits intent edits action) of Some a \<Rightarrow> amountString a | None \<Rightarrow> True"
  shows "valid_action (apply_edits intent edits action)"
  using assms by (cases action) (auto simp: valid_action_def apply_edits_def Let_def split: option.splits if_splits)

section \<open>How proposals evolve\<close>

text \<open>A proposal that is no longer pending stays as it is; new ones take fresh ids.\<close>

definition evolves :: "confirmation_row \<Rightarrow> confirmation_row \<Rightarrow> bool" where
  "evolves c d \<longleftrightarrow> pc_id d = pc_id c \<and> pc_eventId d = pc_eventId c \<and> (pc_status c \<noteq> PC_PENDING \<longrightarrow> d = c)"

definition drawn_between :: "store \<Rightarrow> store \<Rightarrow> uuid \<Rightarrow> bool" where
  "drawn_between a b i = (\<exists>n. drawn a \<le> n \<and> n < drawn b \<and> i = uuid a n)"

definition advances :: "store \<Rightarrow> store \<Rightarrow> bool" where
  "advances a b \<longleftrightarrow> supply_grows a b \<and>
     (\<exists>old new. confirmations b = old @ new \<and> list_all2 evolves (confirmations a) old
        \<and> list_all (\<lambda>c. drawn_between a b (pc_id c)) new)"

lemma evolves_refl: "list_all2 evolves xs xs"
  by (rule list.rel_refl) (simp add: evolves_def)

lemma evolves_trans: "list_all2 evolves xs ys \<Longrightarrow> list_all2 evolves ys zs \<Longrightarrow> list_all2 evolves xs zs"
  using list_all2_trans [of evolves evolves evolves xs ys zs] by (simp add: evolves_def)

interpretation advances: store_relation advances
proof
  show "advances st st" for st
    unfolding advances_def using evolves_refl
    by (intro conjI exI [of _ "confirmations st"] exI [of _ "[]"]) (simp_all add: supply_grows_def)
  show "advances a c" if ab: "advances a b" and bc: "advances b c" for a b c
  proof -
    obtain old new where b: "supply_grows a b" "confirmations b = old @ new" "list_all2 evolves (confirmations a) old"
        "list_all (\<lambda>c. drawn_between a b (pc_id c)) new"
      using ab unfolding advances_def by blast
    obtain old' new' where c: "supply_grows b c" "confirmations c = old' @ new'" "list_all2 evolves (old @ new) old'"
        "list_all (\<lambda>r. drawn_between b c (pc_id r)) new'"
      using bc b(2) unfolding advances_def by metis
    obtain xs ys where split: "old' = xs @ ys" "list_all2 evolves old xs" "list_all2 evolves new ys"
      using c(3) by (auto simp: list_all2_append1)
    have "list_all (\<lambda>r. drawn_between a c (pc_id r)) (ys @ new')"
    proof -
      have "drawn_between a c (pc_id r)" if r: "r \<in> set ys" for r
      proof -
        obtain q where "q \<in> set new" "evolves q r"
          using split(3) r by (metis in_set_conv_nth list_all2_conv_all_nth)
        then have "drawn_between a b (pc_id r)" using b(4) by (auto simp: list_all_iff evolves_def)
        then show ?thesis using c(1) unfolding drawn_between_def supply_grows_def
          by (metis order_less_le_trans)
      qed
      moreover have "drawn_between a c (pc_id r)" if "r \<in> set new'" for r
        using c(4) b(1) that unfolding list_all_iff drawn_between_def supply_grows_def
        by (metis order_trans)
      ultimately show ?thesis by (auto simp: list_all_iff)
    qed
    moreover have "supply_grows a c" using b(1) c(1) by (auto simp: supply_grows_def)
    moreover have "confirmations c = xs @ ys @ new'" using c(2) split(1) by simp
    moreover have "list_all2 evolves (confirmations a) xs" using b(3) split(2) by (rule evolves_trans)
    ultimately show ?thesis unfolding advances_def by blast
  qed
qed

lemma undisturbed_advances: "undisturbed a b \<Longrightarrow> advances a b"
  unfolding undisturbed_def advances_def using evolves_refl by (intro conjI exI [of _ "confirmations b"] exI [of _ "[]"]) auto

lemma undisturbed_proposals: "undisturbed a b \<Longrightarrow> proposals_ok a \<Longrightarrow> proposals_ok b"
  using known_id_mono by (auto simp: undisturbed_def proposals_ok_def)

text \<open>A step on the proposals alone.\<close>

lemma put_confirmations_sound: "ledger_inv st \<Longrightarrow> ledger_inv (put_confirmations cs st)"
  by (erule money_same_inv [rotated]) (simp add: money_same_def supply_grows_def)

lemma revise_proposal:
  assumes inv: "assistant_inv st" and found: "find_confirmation i (in_event e) st = Some row"
    and pending: "pc_status row = PC_PENDING"
    and same: "\<And>c. pc_id (f c) = pc_id c \<and> pc_eventId (f c) = pc_eventId c"
    and valid: "\<And>c. valid_action (pc_payload c) \<Longrightarrow> valid_action (pc_payload (f c))"
  defines "st' \<equiv> put_confirmations (update_where (\<lambda>c. pc_eventId c = e \<and> pc_id c = i) f (confirmations st)) st"
  shows "assistant_inv st' \<and> advances st st'"
proof -
  note row = find_confirmation_row [OF found]
  have only: "c = row" if "c \<in> set (confirmations st)" "pc_id c = i" for c
    using inv that row by (auto simp: assistant_inv_def proposals_ok_def distinct_map dest: inj_onD)
  have map: "map pc_id (confirmations st') = map pc_id (confirmations st)"
    using same by (simp add: st'_def update_where_def comp_def)
  have known: "known_id st' = known_id st" by (simp add: fun_eq_iff known_id_def st'_def)
  have "\<forall>c\<in>set (confirmations st'). known_id st (pc_id c) \<and> valid_action (pc_payload c)"
    using inv same valid by (auto simp: st'_def update_where_def assistant_inv_def proposals_ok_def)
  then have "assistant_inv st'"
    using inv map put_confirmations_sound unfolding assistant_inv_def proposals_ok_def known
    by (simp add: st'_def)
  moreover have "list_all2 evolves (confirmations st) (confirmations st')"
    unfolding st'_def update_where_def using only pending same
    by (auto simp: list.rel_map evolves_def intro!: list.rel_refl_strong)
  then have "advances st st'"
    unfolding advances_def by (intro conjI exI [of _ "confirmations st'"] exI [of _ "[]"])
      (simp_all add: st'_def supply_grows_def)
  ultimately show ?thesis by blast
qed

lemma stage_proposal:
  assumes "assistant_inv st" "valid_action action" "create_confirmation env ctx intent action q prompt st = (st', r)"
  shows "assistant_inv st' \<and> advances st st'"
proof -
  obtain row where st': "st' = put_confirmations (confirmations st @ [row]) (draw st)" "pc_id row = fresh_id st"
      "pc_payload row = action"
    using assms(3) by (auto simp: create_confirmation_def runInEvent_def transaction_def confirmation_create_def
        tbl_create_def Let_def await_def)
  have inv: "id_supply st" "ledger_inv st" "proposals_ok st"
    using assms(1) ledger_invD(1) by (auto simp: assistant_inv_def)
  have grows: "supply_grows st st'" by (simp add: st' supply_grows_def)
  have "money_same st st'" by (simp add: st' money_same_def supply_grows_def)
  then have "ledger_inv st'" using inv(2) by (rule money_same_inv)
  moreover have "fresh_id st \<notin> pc_id ` set (confirmations st)"
    using inv(3) fresh_not_known [OF inv(1)] by (auto simp: proposals_ok_def)
  moreover have "known_id st' (fresh_id st)" by (rule known_id_fresh) (simp_all add: st')
  ultimately have "assistant_inv st'"
    using inv(3) known_id_mono [OF _ grows] assms(2) st'
    by (auto simp: assistant_inv_def proposals_ok_def)
  moreover have "advances st st'"
    unfolding advances_def
    by (intro conjI grows exI [of _ "confirmations st"] exI [of _ "[row]"])
      (auto simp: st' evolves_refl drawn_between_def fresh_id_def)
  ultimately show ?thesis by blast
qed

section \<open>Every call keeps the invariant\<close>

definition steady :: "store \<Rightarrow> store \<Rightarrow> bool" where
  "steady a b = (assistant_inv a \<longrightarrow> assistant_inv b \<and> advances a b)"

interpretation steady: store_relation steady
  by unfold_locales (auto simp: steady_def intro: advances.rel_refl advances.rel_trans)

lemma bystander_steady: "bystander a b \<Longrightarrow> steady a b"
  using money_same_inv undisturbed_proposals undisturbed_advances
  by (auto simp: steady_def assistant_inv_def bystander_def undisturbed_def money_same_def)

lemma unchanged_steady: "unchanged a b \<Longrightarrow> steady a b"
  by (simp add: unchanged_def steady.rel_refl)

lemma run_steady:
  assumes "valid_action action"
  shows "svc_keeps steady (run ax env ctx action source)"
proof (rule svc_keepsI)
  fix st st' r assume run: "run ax env ctx action source st = (st', r)"
  show "steady st st'"
    unfolding steady_def assistant_inv_def
    using run_keeps_sound [OF run assms] run_undisturbed [OF run] undisturbed_proposals undisturbed_advances by blast
qed

lemma svc_keeps_sub: "svc_keeps R m \<Longrightarrow> (\<And>a b. R a b \<Longrightarrow> S a b) \<Longrightarrow> svc_keeps S m"
  by (auto simp: svc_keeps_def)

lemma svc_then_yields:
  assumes "svc_keeps steady m" "yields Q m" "\<And>x. Q x \<Longrightarrow> svc_keeps steady (k x)"
  shows "svc_keeps steady (and_then m k)"
proof (rule svc_keepsI)
  fix st st' r assume run: "and_then m k st = (st', r)"
  obtain st1 y where m: "m st = (st1, y)" by fastforce
  then have first: "steady st st1" by (rule svc_keepsD [OF assms(1)])
  show "steady st st'"
  proof (cases y)
    case (Inl e)
    then show ?thesis using run m first by (simp add: and_then_def)
  next
    case (Inr x)
    then have "Q x" using assms(2) m by (auto simp: yields_def)
    then have "steady st1 st'" using run m Inr assms(3) by (auto simp: and_then_def dest: svc_keepsD)
    with first show ?thesis by (rule steady.rel_trans)
  qed
qed

lemma stage_steady: "valid_action action \<Longrightarrow> svc_keeps steady (create_confirmation env ctx intent action q prompt)"
  using stage_proposal by (auto intro!: svc_keepsI simp: steady_def)

lemma route_steady:
  assumes "toolCallSchema call"
  shows "svc_keeps steady (route ax env ctx call q tier force)"
proof -
  have writes: "svc_keeps steady (route_write ax env ctx call q tier force)"
    unfolding route_write_def
  proof (intro steady.svc_permitted svc_then_yields [where Q = valid_resolution] resolveWrite_valid [OF assms])
    show "svc_keeps steady (resolveWrite ctx call tier)"
      by (rule svc_keeps_sub [OF resolveWrite_unchanged unchanged_steady])
    fix w assume "valid_resolution w"
    then show "svc_keeps steady (case w of Clarify result \<Rightarrow> svc_ret result
        | Act action prompt \<Rightarrow>
            if \<not> force \<and> CONFIDENCE_THRESHOLD \<le> q
            then and_then (run ax env ctx action ai_from_chat) (\<lambda>r. svc_ret (Executed (xr_message r) (xr_data r) tier))
            else and_then (create_confirmation env ctx (tool_of action) action (Some q) prompt)
                  (\<lambda>pending. svc_ret (Pending prompt (pnv_id pending) tier)))"
      by (cases w) (auto simp: valid_resolution_def intro!: steady.svc_rules run_steady stage_steady)
  qed
  show ?thesis
  proof (cases call)
    case (Get_outstanding n)
    then show ?thesis
      by (auto simp: routeOutstanding_def intro!: steady.svc_rules steady.ai_spoken steady.ai_reads
          split: person_resolution.splits pledge_resolution.splits)
  next
    case Get_summary
    then show ?thesis by (auto intro!: steady.svc_rules steady.ai_spoken)
  qed (use writes in auto)
qed

lemma callLlm_steady: "svc_keeps steady (callLlm llm prompt env ctx u)"
  by (auto simp: callLlm_def intro!: steady.svc_rules svc_keeps_sub [OF bystander_calls(2) bystander_steady]
      split: sum.splits option.splits list.splits)

lemma capture_steady: "svc_keeps steady (capture llm prompt ax env ctx u force)"
proof (cases "parseTier1 u")
  case None
  have "yields (\<lambda>x. case x of None \<Rightarrow> True | Some (call, q) \<Rightarrow> toolCallSchema call) (callLlm llm prompt env ctx u)"
    using callLlm_valid by (fastforce simp: yields_def split: option.splits)
  then show ?thesis
    unfolding capture_def None option.case
    by (rule svc_then_yields [OF callLlm_steady]) (auto intro!: steady.svc_rules route_steady split: option.splits)
next
  case (Some call)
  then show ?thesis by (simp add: capture_def route_steady parseTier1_valid)
qed

lemma pending_row_Inr:
  "pending_row i (in_event e) st = Inr (st1, row) \<longleftrightarrow>
     st1 = st \<and> find_confirmation i (in_event e) st = Some row \<and> pc_status row = PC_PENDING"
  by (auto simp: pending_row_cases split: option.splits)

lemma resolved_as_fields [simp]:
  "pc_id (resolved_as env ctx s c) = pc_id c" "pc_eventId (resolved_as env ctx s c) = pc_eventId c"
  "pc_payload (resolved_as env ctx s c) = pc_payload c"
  by (simp_all add: resolved_as_def)

lemma resolve_step:
  assumes "assistant_inv st" "find_confirmation i (in_event e) st = Some row" "pc_status row = PC_PENDING"
    and "confirmation_update i (resolved_as env ctx s) (in_event e) st = Inr (st', row')"
  shows "assistant_inv st' \<and> advances st st'"
proof -
  have "st' = put_confirmations
      (update_where (\<lambda>c. pc_eventId c = e \<and> pc_id c = i) (resolved_as env ctx s) (confirmations st)) st"
    using assms(4) confirmation_update_known [OF assms(2), of "resolved_as env ctx s"] by simp
  then show ?thesis using revise_proposal [OF assms(1-3), of "resolved_as env ctx s"] by simp
qed

lemma review_steady:
  "svc_keeps steady (reject_confirmation env ctx i)" "svc_keeps steady (update_confirmation ctx i edits)"
  "svc_keeps steady (confirm ax env ctx i)"
proof -
  show "svc_keeps steady (reject_confirmation env ctx i)"
  proof (rule svc_keepsI)
    fix st st' r assume "reject_confirmation env ctx i st = (st', r)"
    then consider "st' = st" | row row' where "find_confirmation i (in_event (ctx_ev ctx)) st = Some row"
        "pc_status row = PC_PENDING"
        "confirmation_update i (resolved_as env ctx PC_REJECTED) (in_event (ctx_ev ctx)) st = Inr (st', row')"
      by (cases r) (auto simp: reject_confirmation_def runInEvent_def transaction_Inl pending_row_Inr)
    then show "steady st st'"
      using resolve_step by cases (auto simp: steady_def advances.rel_refl)
  qed
  show "svc_keeps steady (update_confirmation ctx i edits)"
  proof (rule svc_keepsI)
    fix st st' r assume "update_confirmation ctx i edits st = (st', r)"
    then consider "st' = st" | row action row' where "find_confirmation i (in_event (ctx_ev ctx)) st = Some row"
        "pc_status row = PC_PENDING" "action = apply_edits (pc_intent row) edits (pc_payload row)"
        "case action_amount action of Some a \<Rightarrow> amountString a | None \<Rightarrow> True"
        "confirmation_update i (\<lambda>c. c\<lparr>pc_payload := action,
                pc_prompt := renderPendingPrompt (pc_intent row) action\<rparr>) (in_event (ctx_ev ctx)) st = Inr (st', row')"
      by (cases r) (auto simp: update_confirmation_def update_tx_def runInEvent_def transaction_Inl pending_row_Inr Let_def
          split: if_splits option.splits)
    then show "steady st st'"
    proof cases
      case 2
      let ?f = "\<lambda>c. c\<lparr>pc_payload := action, pc_prompt := renderPendingPrompt (pc_intent row) action\<rparr>"
      have "st' = put_confirmations
          (update_where (\<lambda>c. pc_eventId c = ctx_ev ctx \<and> pc_id c = i) ?f (confirmations st)) st"
        using 2(5) confirmation_update_known [OF 2(1), of ?f] by simp
      moreover have "valid_action action" if "assistant_inv st"
        using edits_valid 2(3,4) that find_confirmation_row [OF 2(1)] by (auto simp: assistant_inv_def proposals_ok_def)
      ultimately show ?thesis using revise_proposal [OF _ 2(1,2), of ?f] by (simp add: steady_def)
    qed (simp add: steady.rel_refl)
  qed
  show "svc_keeps steady (confirm ax env ctx i)"
  proof (rule svc_keepsI)
    fix st st' r assume run: "confirm ax env ctx i st = (st', r)"
    then consider "st' = st" | row row' st1 where "find_confirmation i (in_event (ctx_ev ctx)) st = Some row"
        "pc_status row = PC_PENDING"
        "confirmation_update i (resolved_as env ctx PC_CONFIRMED) (in_event (ctx_ev ctx)) st = Inr (st1, row')"
        "run ax env ctx (pc_payload row) (pc_source row) st1 = (st', r)"
      by (auto simp: confirm_def and_then_def confirm_tx_def runInEvent_def transaction_Inl pending_row_Inr
          split: prod.splits sum.splits)
    then show "steady st st'"
    proof cases
      case 2
      have "valid_action (pc_payload row)" if "assistant_inv st"
        using that find_confirmation_row [OF 2(1)] by (auto simp: assistant_inv_def proposals_ok_def)
      then have "steady st1 st'" if "assistant_inv st" using that svc_keepsD [OF run_steady 2(4)] by blast
      moreover have "steady st st1" using resolve_step [OF _ 2(1-3)] by (simp add: steady_def)
      ultimately show ?thesis using steady.rel_trans by (auto simp: steady_def)
    qed (simp add: steady.rel_refl)
  qed
qed

lemma assistant_steady:
  assumes "call_ok call" "assistant ax env ctx call st = (st', r)"
  shows "steady st st'"
proof (cases call)
  case (Ledger_command cmd)
  then have run: "exec env ctx cmd st = (st', r)" and ok: "command_ok cmd" using assms by simp_all
  have "ledger_inv st'" if "ledger_inv st"
    using sound.exec_related [OF ok _ run] that by (simp add: preserves_def money_inv_def)
  then show ?thesis
    using exec_undisturbed [OF run] undisturbed_proposals undisturbed_advances
    unfolding steady_def assistant_inv_def by blast
next
  case (Route_call c q)
  with assms have "outcome (route ax env ctx c q Llm True st) = (st', r)" "toolCallSchema c"
    by (simp_all add: routeToolCall_def)
  then show ?thesis using outcome_keeps [OF route_steady] by blast
next
  case (Ask llm prompt utterance force)
  then show ?thesis using assms outcome_keeps [OF capture_steady] by simp
next
  case (Edit_proposal i edits)
  then show ?thesis using assms outcome_keeps [OF review_steady(2)] by simp
next
  case (Confirm i)
  then show ?thesis using assms outcome_keeps [OF review_steady(3)] by simp
next
  case (Reject i)
  then show ?thesis using assms outcome_keeps [OF review_steady(1)] by simp
qed

lemma assisted_steady: "assisted st0 st \<Longrightarrow> steady st0 st"
  by (induction rule: assisted.induct) (blast intro: steady.rel_refl steady.rel_trans assistant_steady)+

section \<open>Forced staging\<close>

text \<open>What a step may do that only stages: add proposals of the caller that wait for a human, and
  meter the model.\<close>

definition staged_by :: "operation_context \<Rightarrow> store \<Rightarrow> store \<Rightarrow> bool" where
  "staged_by ctx a b = (\<exists>n new metered.
     b = a\<lparr>drawn := n, confirmations := confirmations a @ new, usage_events := usage_events a @ metered\<rparr>
     \<and> list_all (\<lambda>c. pc_status c = PC_PENDING \<and> pc_eventId c = ctx_ev ctx \<and> pc_createdById c = Some (ctx_user ctx)
          \<and> pc_source c = ai_from_chat) new
     \<and> (ctx_role (ctx_event ctx) = VIEWER \<longrightarrow> new = []))"

interpretation staged: store_relation "staged_by ctx" for ctx
proof
  show "staged_by ctx st st" for st
    unfolding staged_by_def by (intro exI [of _ "drawn st"] exI [of _ "[]"]) simp
  show "staged_by ctx a c" if ab: "staged_by ctx a b" and bc: "staged_by ctx b c" for a b c
  proof -
    obtain n new metered where b: "b = a\<lparr>drawn := n, confirmations := confirmations a @ new, usage_events := usage_events a @ metered\<rparr>"
      "list_all (\<lambda>c. pc_status c = PC_PENDING \<and> pc_eventId c = ctx_ev ctx \<and> pc_createdById c = Some (ctx_user ctx)
          \<and> pc_source c = ai_from_chat) new" "ctx_role (ctx_event ctx) = VIEWER \<longrightarrow> new = []"
      using ab unfolding staged_by_def by blast
    obtain n' new' metered' where c: "c = b\<lparr>drawn := n', confirmations := confirmations b @ new', usage_events := usage_events b @ metered'\<rparr>"
      "list_all (\<lambda>c. pc_status c = PC_PENDING \<and> pc_eventId c = ctx_ev ctx \<and> pc_createdById c = Some (ctx_user ctx)
          \<and> pc_source c = ai_from_chat) new'" "ctx_role (ctx_event ctx) = VIEWER \<longrightarrow> new' = []"
      using bc unfolding staged_by_def by blast
    show ?thesis
      unfolding staged_by_def using b c
      by (intro exI [of _ n'] exI [of _ "new @ new'"] exI [of _ "metered @ metered'"]) simp
  qed
qed

lemma staged_statements:
  "ctx_role (ctx_event ctx) \<noteq> VIEWER \<Longrightarrow> svc_keeps (staged_by ctx) (create_confirmation env ctx intent action q prompt)"
  "svc_keeps (staged_by ctx) (recordLlmCall env e u c m)"
proof -
  show "svc_keeps (staged_by ctx) (create_confirmation env ctx intent action q prompt)"
    if role: "ctx_role (ctx_event ctx) \<noteq> VIEWER"
  proof (rule svc_keepsI)
    fix st st' r assume "create_confirmation env ctx intent action q prompt st = (st', r)"
    then obtain row where "st' = put_confirmations (confirmations st @ [row]) (draw st)" "pc_status row = PC_PENDING"
        "pc_eventId row = ctx_ev ctx" "pc_createdById row = Some (ctx_user ctx)" "pc_source row = ai_from_chat"
      by (auto simp: create_confirmation_def runInEvent_def transaction_def confirmation_create_def
          tbl_create_def Let_def await_def)
    with role show "staged_by ctx st st'"
      unfolding staged_by_def draw_def by (intro exI [of _ "Suc (drawn st)"] exI [of _ "[row]"] exI [of _ "[]"]) simp
  qed
  show "svc_keeps (staged_by ctx) (recordLlmCall env e u c m)"
  proof (rule svc_keepsI)
    fix st st' r assume "recordLlmCall env e u c m st = (st', r)"
    then obtain row where "st' = put_usage_events (usage_events st @ [row]) (draw st)"
      by (auto simp: recordLlmCall_def runInEvent_def transaction_def tbl_create_def Let_def await_def)
    then show "staged_by ctx st st'"
      unfolding staged_by_def draw_def by (intro exI [of _ "Suc (drawn st)"] exI [of _ "[]"] exI [of _ "[row]"]) simp
  qed
qed

lemma viewer_cannot_write: "\<not> can VIEWER (writeAction (Add_person a))" "\<not> can VIEWER (writeAction (Record_pledge p))"
  "\<not> can VIEWER (writeAction (tool_call.Record_payment y))"
  by code_simp+

lemma unchanged_staged: "unchanged a b \<Longrightarrow> staged_by ctx a b"
  by (simp add: unchanged_def staged.rel_refl)

lemma forced_write_staged:
  assumes "ctx_role (ctx_event ctx) = VIEWER \<Longrightarrow> \<not> can VIEWER (writeAction call)"
  shows "svc_keeps (staged_by ctx) (route_write ax env ctx call q tier True)"
proof (cases "ctx_role (ctx_event ctx) = VIEWER")
  case True
  with assms show ?thesis
    by (auto simp: route_write_def permitted_def perm_assert_def svc_keeps_def staged.rel_refl)
next
  case False
  then show ?thesis
    unfolding route_write_def
    by (auto intro!: staged.svc_permitted staged.svc_and_then staged.svc_basic staged_statements
        svc_keeps_sub [OF resolveWrite_unchanged unchanged_staged] split: write_resolution.splits)
qed

lemma forced_route_staged: "svc_keeps (staged_by ctx) (route ax env ctx call q tier True)"
proof (cases call)
  case (Get_outstanding n)
  then show ?thesis
    by (auto simp: routeOutstanding_def intro!: staged.svc_rules staged.ai_spoken staged.ai_reads
        split: person_resolution.splits pledge_resolution.splits)
next
  case Get_summary
  then show ?thesis by (auto intro!: staged.svc_rules staged.ai_spoken)
next
  case (Add_person a)
  then show ?thesis using forced_write_staged [of ctx "Add_person a"] viewer_cannot_write(1) by simp
next
  case (Record_pledge a)
  then show ?thesis using forced_write_staged [of ctx "Record_pledge a"] viewer_cannot_write(2) by simp
next
  case (Record_payment a)
  then show ?thesis using forced_write_staged [of ctx "tool_call.Record_payment a"] viewer_cannot_write(3) by simp
qed

lemma forced_capture_staged: "svc_keeps (staged_by ctx) (capture llm prompt ax env ctx u True)"
  by (auto simp: capture_def callLlm_def intro!: staged.svc_rules staged_statements forced_route_staged
      split: option.splits sum.splits list.splits)

end
