(* ===== verification/Assistant_Properties.thy ===== *)
theory Assistant_Properties
  imports Ai_Guarantees
begin

text \<open>
  The properties of the assistant, with a demonstration store: an owner whose chat messages are
  staged, confirmed and refused.
\<close>

section \<open>Demonstration data\<close>

definition demo_ax :: "rat assist_env" where
  "demo_ax = \<lparr>xe_fl = id, xe_number = (\<lambda>q. ''''), xe_collation = (\<lambda>name. 0), xe_token = ''T'',
     xe_PUBLIC_APP_URL = None\<rparr>"

definition demo_llm :: llm_provider where
  "demo_llm messages = Inl (Thrown ''no model'')"

definition demo_ask :: "string \<Rightarrow> assistant_call" where
  "demo_ask utterance = Ask demo_llm '''' utterance True"

text \<open>Carol is not known yet; the proposal takes the first id, the person the second.\<close>

definition demo_staged :: store where
  "demo_staged = fst (assistant demo_ax demo_env owner_ctx (demo_ask ''Carol pledged 50'') demo_store)"

definition demo_confirmed :: store where
  "demo_confirmed = fst (assistant demo_ax demo_env owner_ctx (Confirm ''x'') demo_staged)"

lemma assisted_call:
  "assisted st0 st \<Longrightarrow> call_ok call \<Longrightarrow> assisted st0 (fst (assistant ax env ctx call st))"
  by (rule assisted_step [where r = "snd (assistant ax env ctx call st)"]) simp_all

lemma demo_assistant_inv: "assistant_inv demo_store"
proof -
  have "confirmations demo_store = []" by (simp add: demo_store_def empty_store_def)
  then show ?thesis using demo_inv(1) by (simp add: assistant_inv_def proposals_ok_def)
qed

lemma demo_staged_run: "assisted demo_store demo_staged"
  unfolding demo_staged_def by (intro assisted_call assisted_start) (simp add: demo_ask_def)

lemma demo_confirmed_run: "assisted demo_store demo_confirmed"
  unfolding demo_confirmed_def by (intro assisted_call demo_staged_run) simp

lemma demo_staged_rows:
  "map (\<lambda>c. (pc_id c, pc_status c, pc_eventId c)) (confirmations demo_staged) = [(''x'', PC_PENDING, ''E1'')]
   \<and> pledges demo_staged = []"
  by code_simp

lemma demo_confirmed_rows:
  "map (\<lambda>c. (pc_id c, pc_status c, pc_eventId c)) (confirmations demo_confirmed) = [(''x'', PC_CONFIRMED, ''E1'')]
   \<and> map pl_committedValue (pledges demo_confirmed) = [50]
   \<and> map pe_displayName (persons demo_confirmed) = [''Alice'', ''Brian'', ''Carol'']"
  by code_simp

section \<open>The ledger under the assistant\<close>



section \<open>Proposals\<close>

lemma evolved_row:
  assumes "list_all2 evolves cs ds" "c \<in> set cs"
  shows "\<exists>d\<in>set ds. evolves c d"
  using assms by (induction rule: list_all2_induct) auto

lemma find_distinct:
  assumes "distinct (map pc_id (confirmations st))" "c \<in> set (confirmations st)" "pc_eventId c = e"
  shows "find_confirmation (pc_id c) (in_event e) st = Some c"
proof -
  have "find_confirmation (pc_id c) (in_event e) st \<noteq> None"
    using assms(2,3) by (auto simp: find_confirmation_def tbl_visible_def find_None_iff)
  then obtain d where d: "find_confirmation (pc_id c) (in_event e) st = Some d" by blast
  have "d = c" using find_confirmation_row [OF d] assms(1,2) by (auto simp: distinct_map dest: inj_onD)
  with d show ?thesis by simp
qed

lemma refused_review:
  assumes "find_confirmation i (in_event (ctx_ev ctx)) st = Some c" "pc_status c \<noteq> PC_PENDING"
  defines "refusal \<equiv> BadRequest (''Already '' @ ascii_lower (confirmation_status_str (pc_status c)))"
  shows "confirm ax env ctx i st = (st, Inl refusal)"
    and "reject_confirmation env ctx i st = (st, Inl refusal)"
    and "update_confirmation ctx i edits st = (st, Inl refusal)"
proof -
  have row: "pending_row i (in_event (ctx_ev ctx)) st = Inl refusal"
    using assms by (simp add: pending_row_cases)
  have stops: "await (pending_row i) k (in_event (ctx_ev ctx)) st = Inl refusal" for k :: "confirmation_row \<Rightarrow> 'z tx"
    using row by (rule await_Inl)
  show "confirm ax env ctx i st = (st, Inl refusal)" "reject_confirmation env ctx i st = (st, Inl refusal)"
    "update_confirmation ctx i edits st = (st, Inl refusal)"
    by (simp_all add: confirm_def confirm_tx_def reject_confirmation_def update_confirmation_def update_tx_def
        and_then_def runInEvent_def transaction_def stops)
qed

text \<open>C23. A proposal is resolved at most once: after it was confirmed or rejected, nothing that
  happens later changes it, and confirming, rejecting or editing it again is refused without
  any effect, by whomever and however often.\<close>

theorem resolved_proposals_final:
  assumes "assistant_inv st0" "assisted st0 st"
    and "c \<in> set (confirmations st0)" "pc_status c \<noteq> PC_PENDING" "ctx_ev ctx = pc_eventId c"
  shows "c \<in> set (confirmations st) \<and> (\<exists>m. confirm ax env ctx (pc_id c) st = (st, Inl (BadRequest m))
    \<and> reject_confirmation env ctx (pc_id c) st = (st, Inl (BadRequest m))
    \<and> update_confirmation ctx (pc_id c) edits st = (st, Inl (BadRequest m)))"
proof -
  have steady: "assistant_inv st" "advances st0 st"
    using assisted_steady [OF assms(2)] assms(1) by (simp_all add: steady_def)
  then obtain old new where "confirmations st = old @ new" "list_all2 evolves (confirmations st0) old"
    unfolding advances_def by blast
  then have kept: "c \<in> set (confirmations st)"
    using evolved_row assms(3,4) by (fastforce simp: evolves_def)
  have "find_confirmation (pc_id c) (in_event (ctx_ev ctx)) st = Some c"
    using steady(1) kept assms(5) by (intro find_distinct) (auto simp: assistant_inv_def proposals_ok_def)
  with kept show ?thesis using refused_review assms(4) by blast
qed

theorem resolved_proposals_final_witness:
  "\<exists>m. confirm demo_ax demo_env owner_ctx ''x'' demo_confirmed = (demo_confirmed, Inl (BadRequest m))"
proof -
  obtain c where c: "confirmations demo_confirmed = [c]" "pc_id c = ''x''" "pc_status c = PC_CONFIRMED" "pc_eventId c = ''E1''"
    using demo_confirmed_rows by (auto simp: map_eq_Cons_conv)
  have "assistant_inv demo_confirmed"
    using assisted_steady [OF demo_confirmed_run] demo_assistant_inv by (simp add: steady_def)
  from resolved_proposals_final [OF this assisted_start, of c owner_ctx demo_ax demo_env] show ?thesis
    using c by (auto simp: owner_ctx_def demo_ctx_def)
qed



section \<open>No privileged path\<close>



text \<open>C26. Forced staging never touches the ledger: text that no human typed (a scanned document, a
  step of the agent) leads at most to proposals of the caller that wait for a human, and to
  meter readings, whatever the text says and whatever the model answers; and a viewer's text
  leads to no proposal at all.\<close>

theorem forced_staging_only_proposes:
  assumes "capture llm prompt ax env ctx utterance True st = (st', r)"
  shows "\<exists>n new metered.
     st' = st\<lparr>drawn := n, confirmations := confirmations st @ new, usage_events := usage_events st @ metered\<rparr>
     \<and> list_all (\<lambda>c. pc_status c = PC_PENDING \<and> pc_eventId c = ctx_ev ctx \<and> pc_createdById c = Some (ctx_user ctx)
          \<and> pc_source c = ai_from_chat) new
     \<and> (ctx_role (ctx_event ctx) = VIEWER \<longrightarrow> new = [])"
  using svc_keepsD [OF forced_capture_staged assms] by (simp only: staged_by_def)

theorem forced_staging_only_proposes_witness:
  "\<exists>n new metered. demo_staged =
     demo_store\<lparr>drawn := n, confirmations := confirmations demo_store @ new, usage_events := usage_events demo_store @ metered\<rparr>
     \<and> new \<noteq> []"
proof -
  have "demo_staged = fst (capture demo_llm '''' demo_ax demo_env owner_ctx ''Carol pledged 50'' True demo_store)"
    by (simp add: demo_staged_def demo_ask_def outcome_def)
  then obtain n new metered where s: "demo_staged =
     demo_store\<lparr>drawn := n, confirmations := confirmations demo_store @ new, usage_events := usage_events demo_store @ metered\<rparr>"
    using forced_staging_only_proposes [OF prod.collapse [symmetric], where llm = demo_llm and prompt = "''''"
        and ax = demo_ax and env = demo_env and ctx = owner_ctx and utterance = "''Carol pledged 50''" and st = demo_store]
    by auto
  have "confirmations demo_staged \<noteq> []" using demo_staged_rows by auto
  moreover have "confirmations demo_store = []" by (simp add: demo_store_def empty_store_def)
  moreover have "confirmations demo_staged = confirmations demo_store @ new" by (subst s) simp
  ultimately have "new \<noteq> []" by auto
  with s show ?thesis by blast
qed

section \<open>Names\<close>

lemma resolvePerson_read:
  "resolvePerson e name st = (st, Inr (choose_person (js_trim name) (name_matches (js_trim name) (in_event e) st)))"
  by (simp add: resolvePerson_def runInEvent_def transaction_def Let_def)

text \<open>A name that fits two people and is not exactly the name of just one of them is never
  guessed: recording money for it writes nothing and asks which one is meant, offering both.\<close>

theorem ambiguous_names_ask:
  assumes "call = tool_call.Record_payment a \<and> ya_personName a = name \<or> call = Record_pledge b \<and> ra_personName b = name"
    and "can (ctx_role (ctx_event ctx)) (writeAction call)"
    and "p \<in> set found" "q \<in> set found" "p \<noteq> q"
    and "found = name_matches (js_trim name) (in_event (ctx_ev ctx)) st"
    and "length (filter (\<lambda>m. ascii_lower (pe_displayName m) = ascii_lower (js_trim name)) found) \<noteq> 1"
  shows "\<exists>m options. route ax env ctx call confidence tier force st = (st, Inr (Clarification m (Some options) tier))
    \<and> pe_displayName p \<in> set options \<and> pe_displayName q \<in> set options"
proof -
  let ?exact = "filter (\<lambda>m. ascii_lower (pe_displayName m) = ascii_lower (js_trim name)) found"
  have "\<exists>x y rest. found = x # y # rest" using assms(3-5) by (cases found; cases "tl found") auto
  moreover have "\<not> (\<exists>m. ?exact = [m])" using assms(7) by (auto simp: length_Suc_conv)
  ultimately have "choose_person (js_trim name) found = Person_ambiguous (map candidate_of found)"
    unfolding choose_person_def by (auto split: list.splits)
  then have person: "resolvePerson (ctx_ev ctx) name st = (st, Inr (Person_ambiguous (map candidate_of found)))"
    using assms(6) by (simp add: resolvePerson_read)
  have item: "\<exists>x. resolveBudgetItemId e n st = (st, Inr x)" for e n
    by (auto simp: resolveBudgetItemId_def runInEvent_def transaction_def)
  have "resolveWrite ctx call tier st = (st, Inr (Clarify (ambiguousPerson (map candidate_of found) tier)))"
    using assms(1) item [of "ctx_ev ctx" "ya_budgetItemName a"] item [of "ctx_ev ctx" "ra_budgetItemName b"] person
    by (auto simp: and_then_def)
  then have "route ax env ctx call confidence tier force st = (st, Inr (ambiguousPerson (map candidate_of found) tier))"
    using assms(1,2) by (auto simp: route_write_def permitted_def perm_assert_def and_then_def)
  then show ?thesis
    using assms(3,4) by (auto simp: ambiguousPerson_def candidate_of_def Let_def)
qed



end
