(* ===== verification/Budget_Knowledge.thy ===== *)
theory Budget_Knowledge
  imports Ai_Capture Sms_Service "HOL-Library.Word"
begin

text \<open>
  The shared price knowledge: \<^verbatim>\<open>libs/budget-intelligence/src/\<close>. Sources and the observations read
  from them, their ingestion from curated data, uploads and live search, and the recommendation
  computed from them. The search engine, the language model, the readers of office files, the
  file storage and the parsers of URLs and dates are arguments.
\<close>

type_synonym file_bytes = "8 word list"

section \<open>Numbers\<close>

text \<open>A number of the language as its value; a sum or a quotient is rounded.\<close>

definition dbl :: "rat \<Rightarrow> rat" where
  "dbl q = (case double q of Some x \<Rightarrow> x | None \<Rightarrow> q)"

section \<open>domain-blocklist.ts and document-text.ts\<close>

definition BLOCKED_HOSTS :: "string list" where
  "BLOCKED_HOSTS = [''scribd.com'', ''slideshare.net'', ''everand.com'']"

definition ends_with :: "string \<Rightarrow> string \<Rightarrow> bool" where
  "ends_with s suffix = (take (length suffix) (rev s) = rev suffix)"

definition isBlockedSource :: "(string \<Rightarrow> string option) \<Rightarrow> string \<Rightarrow> bool" where
  "isBlockedSource hostname url =
     (case hostname url of
        None \<Rightarrow> True
      | Some h \<Rightarrow> let host = ascii_lower h in
          list_ex (\<lambda>blocked. host = blocked \<or> ends_with host (CHR ''.'' # blocked)) BLOCKED_HOSTS)"

definition DOCX :: string where
  "DOCX = ''application/vnd.openxmlformats-officedocument.wordprocessingml.document''"

definition XLSX :: string where
  "XLSX = ''application/vnd.openxmlformats-officedocument.spreadsheetml.sheet''"

definition TEXT_EXTRACTABLE_MIME :: "string list" where
  "TEXT_EXTRACTABLE_MIME = [DOCX, XLSX, ''text/csv'', ''text/plain'']"

definition VISION_MIME :: "string list" where
  "VISION_MIME = [''image/png'', ''image/jpeg'', ''image/webp'', ''application/pdf'']"

definition isTextExtractable :: "string \<Rightarrow> bool" where
  "isTextExtractable mimeType = (mimeType \<in> set TEXT_EXTRACTABLE_MIME)"

definition isVisionReadable :: "string \<Rightarrow> bool" where
  "isVisionReadable mimeType = (mimeType \<in> set VISION_MIME)"

definition isSupportedKnowledgeUpload :: "string \<Rightarrow> bool" where
  "isSupportedKnowledgeUpload mimeType = (isTextExtractable mimeType \<or> isVisionReadable mimeType)"

text \<open>The two office readers; plain text is its own bytes.\<close>

record office_readers =
  or_docx :: "file_bytes \<Rightarrow> error + string"
  or_xlsx :: "file_bytes \<Rightarrow> error + (string \<times> string) list"  \<comment> \<open>sheet names and their CSV text\<close>

definition extractText :: "office_readers \<Rightarrow> string \<Rightarrow> file_bytes \<Rightarrow> error + string" where
  "extractText readers mimeType data =
     (if mimeType = DOCX then or_docx readers data
      else if mimeType = XLSX then
        (case or_xlsx readers data of
           Inl e \<Rightarrow> Inl e
         | Inr sheets \<Rightarrow> Inr (join [CHR 0x0A, CHR 0x0A]
             (map (\<lambda>(name, csv). ''--- '' @ name @ '' ---'' @ [CHR 0x0A] @ csv) sheets)))
      else if mimeType = ''text/csv'' \<or> mimeType = ''text/plain'' then Inr (map (\<lambda>b. char_of (unat b)) data)
      else Inl (Thrown (''Not a text-extractable mime type: '' @ mimeType)))"

section \<open>knowledge-extraction-contract.ts\<close>

text \<open>What the validation makes of the arguments of the tool call: strings are trimmed and must
  not be empty, an amount keeps its digits only, a missing flag or confidence takes its default.\<close>

definition required_trimmed :: "string \<Rightarrow> llm_args \<Rightarrow> string option" where
  "required_trimmed k args = (case map_of args k of
     Some (Arg_str s) \<Rightarrow> (if js_trim s = [] then None else Some (js_trim s)) | _ \<Rightarrow> None)"

definition optional_trimmed :: "string \<Rightarrow> llm_args \<Rightarrow> string option option" where
  "optional_trimmed k args = (case map_of args k of
     None \<Rightarrow> Some None
   | Some (Arg_str s) \<Rightarrow> (if js_trim s = [] then None else Some (Some (js_trim s)))
   | _ \<Rightarrow> None)"

definition digits_only :: "string \<Rightarrow> string" where
  "digits_only s = filter is_digit s"

definition some_digits :: "string \<Rightarrow> string option" where
  "some_digits s = (if digits_only s = [] then None else Some (digits_only s))"

definition optional_amount :: "string \<Rightarrow> llm_args \<Rightarrow> string option option" where
  "optional_amount k args = (case map_of args k of
     None \<Rightarrow> Some None
   | Some (Arg_str s) \<Rightarrow> Some (some_digits s)
   | Some (Arg_num q text) \<Rightarrow> Some (some_digits text)
   | _ \<Rightarrow> None)"

definition flag_or :: "bool \<Rightarrow> string \<Rightarrow> llm_args \<Rightarrow> bool option" where
  "flag_or d k args = (case map_of args k of None \<Rightarrow> Some d | Some (Arg_bool b) \<Rightarrow> Some b | _ \<Rightarrow> None)"

definition fraction_or :: "rat \<Rightarrow> string \<Rightarrow> llm_args \<Rightarrow> rat option" where
  "fraction_or d k args = (case map_of args k of
     None \<Rightarrow> Some d | Some (Arg_num q _) \<Rightarrow> (if 0 \<le> q \<and> q \<le> 1 then Some q else None) | _ \<Rightarrow> None)"

definition optional_tier :: "string \<Rightarrow> llm_args \<Rightarrow> budget_tier option option" where
  "optional_tier k args = (case map_of args k of
     None \<Rightarrow> Some None
   | Some (Arg_str s) \<Rightarrow> (if s = ''budget'' then Some (Some Tier_budget) else if s = ''mid'' then Some (Some Tier_mid)
       else if s = ''premium'' then Some (Some Tier_premium) else None)
   | _ \<Rightarrow> None)"

text \<open>An array of objects, missing meaning empty; one bad element spoils the whole array.\<close>

definition object_of :: "js_arg \<Rightarrow> llm_args option" where
  "object_of x = (case x of Arg_obj kvs \<Rightarrow> Some kvs | _ \<Rightarrow> None)"

definition array_of :: "(llm_args \<Rightarrow> 'a option) \<Rightarrow> string \<Rightarrow> llm_args \<Rightarrow> 'a list option" where
  "array_of read k args = (case map_of args k of
     None \<Rightarrow> Some []
   | Some (Arg_list xs) \<Rightarrow> those (map (\<lambda>x. Option.bind (object_of x) read) xs)
   | _ \<Rightarrow> None)"

record knowledge_fact =
  kf_category :: string
  kf_item :: "string option"
  kf_region :: "string option"
  kf_tier :: "budget_tier option"
  kf_amountMin :: "string option"
  kf_amountMax :: "string option"
  kf_unit :: "string option"
  kf_commonlyForgotten :: bool
  kf_confidence :: rat

definition observationRow :: "llm_args \<Rightarrow> knowledge_fact option" where
  "observationRow args =
     Option.bind (required_trimmed ''category'' args) (\<lambda>category.
     Option.bind (optional_trimmed ''item'' args) (\<lambda>item.
     Option.bind (optional_trimmed ''region'' args) (\<lambda>region.
     Option.bind (optional_tier ''tier'' args) (\<lambda>tier.
     Option.bind (optional_amount ''amountMin'' args) (\<lambda>amountMin.
     Option.bind (optional_amount ''amountMax'' args) (\<lambda>amountMax.
     Option.bind (optional_trimmed ''unit'' args) (\<lambda>unit.
     Option.bind (flag_or False ''commonlyForgotten'' args) (\<lambda>forgotten.
     Option.bind (fraction_or (dbl (5/10)) ''confidence'' args) (\<lambda>confidence.
     Some \<lparr>kf_category = category, kf_item = item, kf_region = region, kf_tier = tier,
       kf_amountMin = amountMin, kf_amountMax = amountMax, kf_unit = unit,
       kf_commonlyForgotten = forgotten, kf_confidence = confidence\<rparr>)))))))))"

definition extractKnowledgeResult :: "llm_args \<Rightarrow> (string \<times> knowledge_fact list) option" where
  "extractKnowledgeResult args =
     Option.bind (required_trimmed ''eventType'' args) (\<lambda>eventType.
     Option.bind (array_of observationRow ''observations'' args) (\<lambda>facts. Some (eventType, facts)))"

text \<open>\<open>result.toolCalls.find((c) => c.name === tool)\<close>; a missing call reads as no arguments.\<close>

definition call_named :: "string \<Rightarrow> llm_result \<Rightarrow> llm_args option" where
  "call_named tool result = map_option snd (List.find (\<lambda>(name, _). name = tool) (lr_toolCalls result))"

section \<open>Types of budget-knowledge.service.ts\<close>

record knowledge_source_input =
  ki_sourceType :: knowledge_source_type
  ki_name :: string
  ki_url :: "string option"
  ki_publishedAt :: "time option"
  ki_reliability :: knowledge_reliability
  ki_licensingNote :: string
  ki_extractionMethod :: knowledge_extraction
  ki_storageKey :: "string option"
  ki_originalFilename :: "string option"
  ki_mimeType :: "string option"

record knowledge_observation_input =
  ko_eventType :: string
  ko_region :: "string option"
  ko_tier :: "budget_tier option"
  ko_category :: string
  ko_item :: "string option"
  ko_amountMin :: "money option"
  ko_amountMax :: "money option"
  ko_unit :: "string option"
  ko_commonlyForgotten :: "bool option"
  ko_confidence :: rat
  ko_observedAt :: time

record search_result =
  sr_title :: string
  sr_url :: string
  sr_snippet :: string
  sr_content :: "string option"
  sr_publishedAt :: "string option"

text \<open>The providers: search, the two ways of calling the model (with text, with an attachment), the
  system prompt, the host of a URL, the time of a date string, storage, office readers.\<close>

record knowledge_env =
  kx_search :: "string \<Rightarrow> error + search_result list"
  kx_llm :: llm_provider
  kx_vision :: "(llm_role \<times> string) list \<Rightarrow> string \<Rightarrow> file_bytes \<Rightarrow> error + llm_result"
  kx_prompt :: string
  kx_hostname :: "string \<Rightarrow> string option"
  kx_date :: "string \<Rightarrow> time option"
  kx_put :: "string \<Rightarrow> file_bytes \<Rightarrow> string \<Rightarrow> error option"
  kx_readers :: office_readers

definition LIVE_SEARCH_COOLDOWN_MS :: int where
  "LIVE_SEARCH_COOLDOWN_MS = 7 * 24 * 60 * 60 * 1000"

definition STALE_AFTER_MS :: int where
  "STALE_AFTER_MS = 24 * 30 * 24 * 60 * 60 * 1000"

definition MIN_CATEGORIES_FOR_COVERAGE :: nat where
  "MIN_CATEGORIES_FOR_COVERAGE = 3"

section \<open>Writing knowledge\<close>

definition normalize :: "string \<Rightarrow> string" where
  "normalize s = ascii_lower (js_trim s)"

definition normalized_opt :: "string option \<Rightarrow> string option" where
  "normalized_opt s = (if truthy_str s then Some (normalize (the s)) else None)"

abbreviation put_knowledge_sources :: "knowledge_source_row list \<Rightarrow> store \<Rightarrow> store" where
  "put_knowledge_sources rs st \<equiv> st\<lparr>knowledge_sources := rs\<rparr>"

definition knowledge_source_create :: "env \<Rightarrow> knowledge_source_input \<Rightarrow> knowledge_source_row svc" where
  "knowledge_source_create env i =
     global_create knowledge_sources put_knowledge_sources (\<lambda>_ _. False) (\<lambda>new. \<lparr>ks_id = new,
       ks_sourceType = ki_sourceType i, ks_name = ki_name i, ks_url = ki_url i, ks_publishedAt = ki_publishedAt i,
       ks_collectedAt = now env, ks_reliability = ki_reliability i, ks_licensingNote = ki_licensingNote i,
       ks_extractionMethod = ki_extractionMethod i, ks_storageKey = ki_storageKey i,
       ks_originalFilename = ki_originalFilename i, ks_mimeType = ki_mimeType i, ks_createdAt = now env\<rparr>)"

definition observation_of :: "env \<Rightarrow> uuid \<Rightarrow> knowledge_observation_input \<Rightarrow> uuid \<Rightarrow> observation_row" where
  "observation_of env sourceId b new = \<lparr>kb_id = new, kb_sourceId = sourceId,
     kb_eventType = normalize (ko_eventType b), kb_region = normalized_opt (ko_region b), kb_tier = ko_tier b,
     kb_category = ko_category b, kb_item = ko_item b, kb_amountMin = ko_amountMin b, kb_amountMax = ko_amountMax b,
     kb_unit = ko_unit b, kb_commonlyForgotten = nullish (ko_commonlyForgotten b) False,
     kb_confidence = ko_confidence b, kb_observedAt = ko_observedAt b, kb_createdAt = now env\<rparr>"

text \<open>\<open>createMany\<close>: one statement, one id per row.\<close>

definition observation_create_many :: "(uuid \<Rightarrow> observation_row) list \<Rightarrow> unit svc" where
  "observation_create_many mks st =
     (st\<lparr>observations := observations st @ map (\<lambda>(k, mk). mk (uuid st (drawn st + k))) (enumerate 0 mks),
         drawn := drawn st + length mks\<rparr>, Inr ())"

definition ingestObservations ::
  "env \<Rightarrow> knowledge_source_input \<Rightarrow> knowledge_observation_input list \<Rightarrow> (uuid \<times> int) svc" where
  "ingestObservations env source obs =
     and_then (knowledge_source_create env source) (\<lambda>created.
     and_then (if obs \<noteq> [] then observation_create_many (map (observation_of env (ks_id created)) obs) else svc_ret ()) (\<lambda>_.
     svc_ret (ks_id created, int (length obs))))"

definition seed_row ::
  "string \<Rightarrow> budget_tier option \<Rightarrow> string \<Rightarrow> string option \<Rightarrow> money option \<Rightarrow> money option \<Rightarrow> string option \<Rightarrow> bool option \<Rightarrow>
   rat \<Rightarrow> time \<Rightarrow> knowledge_observation_input" where
  "seed_row eventType tier category item amountMin amountMax unit forgotten confidence observedAt =
     \<lparr>ko_eventType = eventType, ko_region = None, ko_tier = tier, ko_category = category, ko_item = item,
      ko_amountMin = amountMin, ko_amountMax = amountMax, ko_unit = unit, ko_commonlyForgotten = forgotten,
      ko_confidence = dbl confidence, ko_observedAt = observedAt\<rparr>"

text \<open>The rows of \<^verbatim>\<open>seed-data.ts\<close>: event type, tier, category, item, least and greatest amount, unit,
  whether it is often forgotten, confidence and date.\<close>

definition SEED_DATA :: "(knowledge_source_input \<times> knowledge_observation_input list) list" where
  "SEED_DATA =
     [(\<lparr>ki_sourceType = public_article, ki_name = ''Harusi Hub '' @ em_dash @ '' How Much Does a Wedding Cost in Uganda? (2026 Guide)'', ki_url = Some ''https://blog.harusihub.com/post/wedding-cost-uganda/'',
         ki_publishedAt = None, ki_reliability = K_MEDIUM,
         ki_licensingNote = ''Publicly published marketing/guidance blog content, indexed for search and intended to be read and shared '' @ em_dash @ '' not user-uploaded content of uncertain rights-holder status. Manually reviewed before entry.'',
         ki_extractionMethod = K_manual, ki_storageKey = None, ki_originalFilename = None, ki_mimeType = None\<rparr>,
       [seed_row ''wedding'' (Some Tier_budget) ''Total (kwanjula + church wedding, budget tier)'' (None) (Some 12000000) (Some 15000000) (None) (None) (6/10) 1767225600000,
        seed_row ''wedding'' (Some Tier_mid) ''Total (kwanjula + church wedding, mid-range tier)'' (None) (Some 38000000) (Some 42000000) (None) (None) (6/10) 1767225600000,
        seed_row ''wedding'' (Some Tier_premium) ''Total (kwanjula + church wedding, premium tier)'' (None) (Some 94000000) (Some 104000000) (None) (None) (6/10) 1767225600000,
        seed_row ''wedding'' (Some Tier_budget) ''Catering'' (None) (Some 15000) (Some 25000) (Some ''per plate'') (None) (65/100) 1767225600000,
        seed_row ''wedding'' (Some Tier_premium) ''Catering'' (None) (Some 50000) (Some 100000) (Some ''per plate'') (None) (65/100) 1767225600000,
        seed_row ''kwanjula'' (None) ''Delegation attire'' (None) (None) (None) (None) (Some True) (5/10) 1767225600000,
        seed_row ''wedding'' (None) ''Multiple outfit changes'' (None) (None) (None) (None) (Some True) (5/10) 1767225600000,
        seed_row ''wedding'' (None) ''Day-of tips'' (None) (None) (None) (None) (Some True) (5/10) 1767225600000,
        seed_row ''wedding'' (None) ''Parking and security'' (None) (None) (None) (None) (Some True) (5/10) 1767225600000,
        seed_row ''wedding'' (None) ''Post-wedding photography products'' (None) (None) (None) (None) (Some True) (5/10) 1767225600000,
        seed_row ''wedding'' (None) ''Regional adjustment'' (Some ''Mbarara, Jinja, Gulu and other regional towns run roughly 20-40% lower than Kampala'') (None) (None) (None) (Some False) (5/10) 1767225600000]),
      (\<lparr>ki_sourceType = public_article, ki_name = ''Palm Gardens '' @ em_dash @ '' Wedding Budget in Uganda (5M/10M/15M/25M/50M+)'', ki_url = Some ''https://palmgardensug.com/wedding-budget-in-uganda/'',
         ki_publishedAt = None, ki_reliability = K_MEDIUM,
         ki_licensingNote = ''Publicly published marketing/guidance blog content, indexed for search and intended to be read and shared '' @ em_dash @ '' not user-uploaded content of uncertain rights-holder status. Manually reviewed before entry.'',
         ki_extractionMethod = K_manual, ki_storageKey = None, ki_originalFilename = None, ki_mimeType = None\<rparr>,
       [seed_row ''wedding'' (Some Tier_budget) ''Food/catering'' (None) (Some 2000000) (Some 2000000) (None) (None) (55/100) 1776988800000,
        seed_row ''wedding'' (Some Tier_mid) ''Food/catering'' (None) (Some 3000000) (Some 4000000) (None) (None) (6/10) 1776988800000,
        seed_row ''wedding'' (None) ''Full buffet'' (None) (Some 28000) (Some 28000) (Some ''per person'') (None) (55/100) 1776988800000,
        seed_row ''wedding'' (None) ''Venue requiring expensive setup'' (None) (None) (None) (None) (Some True) (5/10) 1776988800000,
        seed_row ''wedding'' (None) ''Underestimating food costs'' (None) (None) (None) (None) (Some True) (5/10) 1776988800000,
        seed_row ''wedding'' (None) ''Decor spend vs guest experience tradeoff'' (None) (None) (None) (None) (Some True) (5/10) 1776988800000,
        seed_row ''wedding'' (None) ''Logistics and coordination'' (None) (None) (None) (None) (Some True) (5/10) 1776988800000])]"

fun ingest_all :: "env \<Rightarrow> (knowledge_source_input \<times> knowledge_observation_input list) list \<Rightarrow> unit svc" where
  "ingest_all env [] = svc_ret ()"
| "ingest_all env ((source, obs) # rest) = and_then (ingestObservations env source obs) (\<lambda>_. ingest_all env rest)"

definition seedIfEmpty :: "env \<Rightarrow> unit svc" where
  "seedIfEmpty env =
     and_then (svc_read (\<lambda>st. list_ex (\<lambda>s. ks_sourceType s = public_article \<and> ks_extractionMethod s = K_manual)
       (knowledge_sources st))) (\<lambda>already.
     if already then svc_ret () else ingest_all env SEED_DATA)"

section \<open>Live search\<close>

text \<open>Amounts of a fact are digits, so their conversion cannot fail.\<close>

definition stored_amount :: "string option \<Rightarrow> money option" where
  "stored_amount s = (if truthy_str s then (case BigInt (the s) of Inr v \<Rightarrow> Some v | Inl _ \<Rightarrow> None) else None)"

definition observed :: "string \<Rightarrow> string option \<Rightarrow> rat \<Rightarrow> time \<Rightarrow> knowledge_fact \<Rightarrow> knowledge_observation_input" where
  "observed eventType region confidence observedAt f =
     \<lparr>ko_eventType = eventType, ko_region = region, ko_tier = kf_tier f, ko_category = kf_category f,
      ko_item = kf_item f, ko_amountMin = stored_amount (kf_amountMin f), ko_amountMax = stored_amount (kf_amountMax f),
      ko_unit = kf_unit f, ko_commonlyForgotten = Some (kf_commonlyForgotten f), ko_confidence = confidence,
      ko_observedAt = observedAt\<rparr>"

text \<open>An unparsable date is refused by the database client.\<close>

definition published_at :: "knowledge_env \<Rightarrow> search_result \<Rightarrow> error + time option" where
  "published_at kx result =
     (if truthy_str (sr_publishedAt result) then
        (case kx_date kx (the (sr_publishedAt result)) of
           None \<Rightarrow> Inl (Thrown ''Invalid value for argument `publishedAt`: Provided Date object is invalid.'')
         | Some t \<Rightarrow> Inr (Some t))
      else Inr None)"

text \<open>What the model reads out of a result: nothing without a text, without a valid tool call or
  without an observation.\<close>

definition result_text :: "search_result \<Rightarrow> string" where
  "result_text result =
     (if truthy_str (sr_content result) then take 8000 (the (sr_content result)) else sr_snippet result)"

definition read_result :: "knowledge_env \<Rightarrow> search_result \<Rightarrow> error + (string \<times> knowledge_fact list) option" where
  "read_result kx result =
     (if result_text result = [] then Inr None
      else case kx_llm kx [(Role_system, kx_prompt kx),
             (Role_user, ''Source: '' @ sr_title result @ '' ('' @ sr_url result @ '')'' @ [CHR 0x0A, CHR 0x0A] @ result_text result)] of
        Inl e \<Rightarrow> Inl e
      | Inr completion \<Rightarrow>
          Inr (case extractKnowledgeResult (case call_named ''extract_knowledge'' completion of Some a \<Rightarrow> a | None \<Rightarrow> []) of
                 None \<Rightarrow> None
               | Some (found, facts) \<Rightarrow> if facts = [] then None else Some (found, facts)))"

definition live_source_input :: "knowledge_env \<Rightarrow> string \<Rightarrow> search_result \<Rightarrow> time option \<Rightarrow> knowledge_source_input" where
  "live_source_input kx attemptKey result published =
     (let host = (case kx_hostname kx (sr_url result) of Some h \<Rightarrow> h | None \<Rightarrow> sr_url result)
      in \<lparr>ki_sourceType = public_article, ki_name = attemptKey @ '':'' @ host, ki_url = Some (sr_url result),
          ki_publishedAt = published, ki_reliability = K_MEDIUM,
          ki_licensingNote = ''Found by live search; domain-blocklist enforced before extraction. Never human-reviewed ''
            @ em_dash @ '' the organizer who triggered the search sees and can challenge the result in the same conversation, ''
            @ ''which is the review, just a conversational one instead of a curator'' @ [CHR 0x27] @ ''s.'',
          ki_extractionMethod = ai_extraction_live, ki_storageKey = None, ki_originalFilename = None, ki_mimeType = None\<rparr>)"

definition ingestLiveResult :: "knowledge_env \<Rightarrow> env \<Rightarrow> string \<Rightarrow> string \<Rightarrow> search_result \<Rightarrow> int svc" where
  "ingestLiveResult kx env eventType attemptKey result =
     (case read_result kx result of
        Inl e \<Rightarrow> svc_throw e
      | Inr None \<Rightarrow> svc_ret 0
      | Inr (Some (found, facts)) \<Rightarrow>
          (case published_at kx result of
             Inl e \<Rightarrow> svc_throw e
           | Inr published \<Rightarrow>
               and_then (ingestObservations env (live_source_input kx attemptKey result published)
                 (map (\<lambda>f. observed (if found \<noteq> [] then found else eventType) (kf_region f)
                    (min (kf_confidence f) (dbl (6/10))) (nullish published (now env)) f) facts)) (\<lambda>_.
               svc_ret (int (length facts)))))"

definition recordSearchAttempt :: "env \<Rightarrow> string \<Rightarrow> int \<Rightarrow> unit svc" where
  "recordSearchAttempt env attemptKey observationCount =
     and_then (knowledge_source_create env \<lparr>ki_sourceType = public_article, ki_name = attemptKey, ki_url = None,
        ki_publishedAt = None, ki_reliability = K_LOW,
        ki_licensingNote = ''Live search attempt ('' @ int_to_dec observationCount @ '' observation(s) ingested) '' @ em_dash
          @ '' domain-blocklist enforced, Scribd/Slideshare/Everand excluded.'',
        ki_extractionMethod = ai_extraction_live, ki_storageKey = None, ki_originalFilename = None, ki_mimeType = None\<rparr>)
       (\<lambda>_. svc_ret ())"

text \<open>The loop over the allowed results; a result that fails is skipped, and counts nothing.\<close>

fun ingest_results :: "knowledge_env \<Rightarrow> env \<Rightarrow> string \<Rightarrow> string \<Rightarrow> search_result list \<Rightarrow> int \<Rightarrow> store \<Rightarrow> store \<times> int" where
  "ingest_results kx env eventType attemptKey [] ingested st = (st, ingested)"
| "ingest_results kx env eventType attemptKey (r # rs) ingested st =
     (case ingestLiveResult kx env eventType attemptKey r st of
        (st', Inl _) \<Rightarrow> ingest_results kx env eventType attemptKey rs ingested st'
      | (st', Inr n) \<Rightarrow> ingest_results kx env eventType attemptKey rs (ingested + n) st')"

definition live_key :: "string \<Rightarrow> string" where
  "live_key eventType = ''live-search:'' @ eventType"

definition searched_recently :: "env \<Rightarrow> string \<Rightarrow> store \<Rightarrow> bool" where
  "searched_recently env attemptKey st =
     list_ex (\<lambda>s. take (length attemptKey) (ks_name s) = attemptKey \<and> ks_extractionMethod s = ai_extraction_live
       \<and> now env - LIVE_SEARCH_COOLDOWN_MS \<le> ks_collectedAt s) (knowledge_sources st)"

definition maybeBackfillLive :: "knowledge_env \<Rightarrow> env \<Rightarrow> string \<Rightarrow> unit svc" where
  "maybeBackfillLive kx env eventType st =
     (let attemptKey = live_key eventType in
      if searched_recently env attemptKey st then (st, Inr ())
      else case kx_search kx (eventType @ '' budget cost Uganda'') of
        Inl e \<Rightarrow> recordSearchAttempt env attemptKey 0 st
      | Inr results \<Rightarrow>
          (case ingest_results kx env eventType attemptKey
                (filter (\<lambda>r. \<not> isBlockedSource (kx_hostname kx) (sr_url r)) results) 0 st of
             (st', ingested) \<Rightarrow> if ingested = 0 then recordSearchAttempt env attemptKey 0 st' else (st', Inr ())))"

section \<open>Uploads by an administrator\<close>

definition consent_note :: string where
  "consent_note = ''This document was submitted directly by an Akabbo admin specifically because it is one real ''
     @ ''person'' @ [CHR 0x27] @ ''s real, consented budget '' @ em_dash @ '' extract from it even though it'' @ [CHR 0x27]
     @ ''s a specific private budget rather than general published guidance; the '' @ [CHR 0x22]
     @ ''exclude private budget documents'' @ [CHR 0x22] @ '' instruction does not apply to this submission.''"

record knowledge_upload =
  ku_filename :: string
  ku_mimeType :: string
  ku_data :: file_bytes
  ku_eventTypeHint :: "string option"
  ku_regionHint :: "string option"
  ku_note :: "string option"

definition hint_suffix :: "knowledge_upload \<Rightarrow> string" where
  "hint_suffix u = (if truthy_str (ku_eventTypeHint u) then '' (admin says this is a '' @ the (ku_eventTypeHint u) @ '' budget''
     @ (if truthy_str (ku_regionHint u) then '' from '' @ the (ku_regionHint u) else '''') @ '')'' else '''')"

definition ask_model :: "knowledge_env \<Rightarrow> knowledge_upload \<Rightarrow> error + llm_result" where
  "ask_model kx u =
     (if isTextExtractable (ku_mimeType u) then
        (case extractText (kx_readers kx) (ku_mimeType u) (ku_data u) of
           Inl e \<Rightarrow> Inl e
         | Inr text \<Rightarrow> kx_llm kx [(Role_system, kx_prompt kx),
             (Role_user, ''Source: '' @ ku_filename u @ hint_suffix u @ [CHR 0x0A] @ consent_note @ [CHR 0x0A, CHR 0x0A]
               @ take 20000 text)])
      else kx_vision kx [(Role_system, kx_prompt kx),
             (Role_user, ''Extract budget knowledge from the attached document.'' @ hint_suffix u @ [CHR 0x0A] @ consent_note)]
             (ku_mimeType u) (ku_data u))"

definition ingestFromDocument :: "(error \<Rightarrow> string) \<Rightarrow> knowledge_env \<Rightarrow> env \<Rightarrow> knowledge_upload \<Rightarrow> (uuid \<times> string \<times> int) svc" where
  "ingestFromDocument message_of kx env u =
     (if \<not> isSupportedKnowledgeUpload (ku_mimeType u) then svc_throw (BadRequest (''Unsupported file type: '' @ ku_mimeType u))
      else and_then randomUUID (\<lambda>new.
        let storageKey = ''budget-knowledge/admin/'' @ new @ ''-'' @ ku_filename u in
        case kx_put kx storageKey (ku_data u) (ku_mimeType u) of
          Some e \<Rightarrow> svc_throw e
        | None \<Rightarrow>
          (case ask_model kx u of
             Inl e \<Rightarrow> svc_throw (Thrown (''Extraction failed '' @ em_dash
                @ '' the file was saved but nothing was extracted. Detail: '' @ take 300 (message_of e)))
           | Inr completion \<Rightarrow>
               let parsed = extractKnowledgeResult (case call_named ''extract_knowledge'' completion of Some a \<Rightarrow> a | None \<Rightarrow> []);
                   eventType = (if truthy_str (ku_eventTypeHint u) then ku_eventTypeHint u else map_option fst parsed);
                   facts = (case parsed of Some (_, fs) \<Rightarrow> fs | None \<Rightarrow> [])
               in if \<not> truthy_str eventType then svc_throw (BadRequest (''Could not determine an event type for this document ''
                      @ em_dash @ '' pass eventTypeHint explicitly.''))
                  else and_then (ingestObservations env
                    \<lparr>ki_sourceType = admin_upload, ki_name = ''admin-upload:'' @ ku_filename u, ki_url = None,
                     ki_publishedAt = None, ki_reliability = K_HIGH,
                     ki_licensingNote = (if truthy_str (ku_note u) then the (ku_note u) @ '' '' @ em_dash @ '' '' else '''')
                       @ ''Admin-vetted upload of a real budget, sourced directly and reviewed before entry '' @ em_dash
                       @ '' never scraped.'',
                     ki_extractionMethod = ai_extraction_reviewed, ki_storageKey = Some storageKey,
                     ki_originalFilename = Some (ku_filename u), ki_mimeType = Some (ku_mimeType u)\<rparr>
                    (map (\<lambda>f. observed (the eventType) (if truthy_str (ku_regionHint u) then ku_regionHint u else kf_region f)
                        (min (dbl (kf_confidence f + dbl (15/100))) (dbl (9/10))) (now env) f) facts)) (\<lambda>(sourceId, cnt).
                  svc_ret (sourceId, the eventType, cnt)))))"

section \<open>Browsing\<close>

record knowledge_source_view =
  kv_id :: uuid
  kv_sourceType :: knowledge_source_type
  kv_name :: string
  kv_url :: "string option"
  kv_reliability :: knowledge_reliability
  kv_extractionMethod :: knowledge_extraction
  kv_originalFilename :: "string option"
  kv_mimeType :: "string option"
  kv_collectedAt :: time
  kv_observationCount :: int

definition listSources ::
  "knowledge_source_type option \<Rightarrow> string option \<Rightarrow> int option \<Rightarrow> knowledge_source_view list svc" where
  "listSources sourceType eventType limit =
     svc_read (\<lambda>st. map (\<lambda>s. \<lparr>kv_id = ks_id s, kv_sourceType = ks_sourceType s, kv_name = ks_name s, kv_url = ks_url s,
         kv_reliability = ks_reliability s, kv_extractionMethod = ks_extractionMethod s,
         kv_originalFilename = ks_originalFilename s, kv_mimeType = ks_mimeType s, kv_collectedAt = ks_collectedAt s,
         kv_observationCount = int (count_where (\<lambda>b. kb_sourceId b = ks_id s) (observations st))\<rparr>)
       (take (nat (min (max (nullish limit 50) 1) 200)) (order_desc ks_collectedAt
         (filter (\<lambda>s. (sourceType \<noteq> None \<longrightarrow> sourceType = Some (ks_sourceType s))
             \<and> (truthy_str eventType \<longrightarrow> list_ex (\<lambda>b. kb_sourceId b = ks_id s \<and> kb_eventType b = normalize (the eventType)) (observations st)))
           (knowledge_sources st)))))"

text \<open>\<open>lt\<close> is the database's order of texts.\<close>

definition getSourceDetail ::
  "(string \<Rightarrow> 'k::linorder) \<Rightarrow> uuid \<Rightarrow> (knowledge_source_row \<times> observation_row list) svc" where
  "getSourceDetail lt sourceId =
     and_then (svc_read (\<lambda>st. List.find (\<lambda>s. ks_id s = sourceId) (knowledge_sources st))) (\<lambda>source. case source of
       None \<Rightarrow> svc_throw (NotFound (''No budget-knowledge source with id '' @ sourceId))
     | Some s \<Rightarrow> svc_read (\<lambda>st. (s, sort_key (\<lambda>b. lt (kb_category b)) (filter (\<lambda>b. kb_sourceId b = sourceId) (observations st)))))"

end
