(* ===== verification/Documents.thy ===== *)
theory Documents
  imports Budget_Knowledge
begin

text \<open>
  Files and documents: \<^verbatim>\<open>libs/documents/src/file.service.ts\<close>, \<^verbatim>\<open>document.service.ts\<close> and the
  validation halves of the two extraction contracts. Uploads are checked, stored privately and
  indexed; a stored image or PDF is submitted for extraction, which the worker does later. The
  object storage and the content hash are arguments.
\<close>

section \<open>file.service.ts\<close>

definition ALLOWED_MIME :: "string list" where
  "ALLOWED_MIME = [''image/png'', ''image/jpeg'', ''image/webp'', ''application/pdf'', DOCX, XLSX]"

definition EXTRACTABLE_MIME :: "string list" where
  "EXTRACTABLE_MIME = [''image/png'', ''image/jpeg'', ''image/webp'', ''application/pdf'']"

record upload_input =
  up_kind :: file_kind
  up_mimeType :: string
  up_body :: file_bytes
  up_filename :: "string option"
  up_personId :: "uuid option"

record file_view =
  flv_id :: uuid
  flv_kind :: file_kind
  flv_mimeType :: string
  flv_sizeBytes :: int
  flv_sha256 :: string
  flv_originalFilename :: "string option"

text \<open>What surrounds the service: writing, reading and signing an object of the storage, the hash, the
  configured size limit.\<close>

record storage_env =
  st_put :: "string \<Rightarrow> file_bytes \<Rightarrow> string \<Rightarrow> error option"
  st_get :: "string \<Rightarrow> error + file_bytes"
  st_sign :: "string \<Rightarrow> int \<Rightarrow> error + string"
  st_sha256 :: "file_bytes \<Rightarrow> string"
  st_maxUploadBytes :: int

fun file_kind_str :: "file_kind \<Rightarrow> string" where
  "file_kind_str PROFILE_PHOTO = ''PROFILE_PHOTO''"
| "file_kind_str DOCUMENT_FILE = ''DOCUMENT''"
| "file_kind_str DOCUMENT_PHOTO = ''DOCUMENT_PHOTO''"
| "file_kind_str PAYMENT_EVIDENCE = ''PAYMENT_EVIDENCE''"
| "file_kind_str CONTRIBUTION_EVIDENCE = ''CONTRIBUTION_EVIDENCE''"
| "file_kind_str EVENT_PHOTO = ''EVENT_PHOTO''"

text \<open>\<open>filename.split('.').pop()\<close>: what follows the last dot, the whole name when there is none.\<close>

definition after_last_dot :: "string \<Rightarrow> string" where
  "after_last_dot s = rev (takeWhile (\<lambda>c. c \<noteq> CHR ''.'') (rev s))"

definition extension :: "string option \<Rightarrow> string" where
  "extension filename = (case filename of
     Some name \<Rightarrow> (if CHR ''.'' \<in> set name then CHR ''.'' # after_last_dot name else [])
   | None \<Rightarrow> [])"

definition storage_key :: "uuid \<Rightarrow> uuid \<Rightarrow> string option \<Rightarrow> string" where
  "storage_key eventId new filename = ''events/'' @ eventId @ ''/'' @ new @ extension filename"

definition file_create :: "(uuid \<Rightarrow> file_row) \<Rightarrow> file_row tx" where
  "file_create = tbl_create files put_files fo_eventId"

abbreviation visible_files :: "session \<Rightarrow> store \<Rightarrow> file_row list" where
  "visible_files s st \<equiv> tbl_visible fo_eventId s (files st)"

definition find_file :: "uuid \<Rightarrow> session \<Rightarrow> store \<Rightarrow> file_row option" where
  "find_file i s st = List.find (\<lambda>f. fo_id f = i) (visible_files s st)"

definition file_view_of :: "file_row \<Rightarrow> file_view" where
  "file_view_of f = \<lparr>flv_id = fo_id f, flv_kind = fo_kind f, flv_mimeType = fo_mimeType f,
     flv_sizeBytes = fo_sizeBytes f, flv_sha256 = fo_sha256 f, flv_originalFilename = fo_originalFilename f\<rparr>"

definition upload_tx :: "storage_env \<Rightarrow> env \<Rightarrow> operation_context \<Rightarrow> upload_input \<Rightarrow> string \<Rightarrow> file_view tx" where
  "upload_tx sx env ctx i storageKey =
     await (query (\<lambda>s st. truthy_str (up_personId i) \<and> find_person (the (up_personId i)) s st = None)) (\<lambda>missing.
     if missing then throw (NotFound ''Person not found in this event'')
     else
       await (file_create (\<lambda>new. \<lparr>fo_id = new, fo_eventId = ctx_ev ctx, fo_kind = up_kind i, fo_storageKey = storageKey,
          fo_mimeType = up_mimeType i, fo_sizeBytes = int (length (up_body i)), fo_sha256 = st_sha256 sx (up_body i),
          fo_originalFilename = up_filename i, fo_personId = up_personId i, fo_uploadedById = Some (ctx_user ctx),
          fo_createdAt = now env\<rparr>)) (\<lambda>file.
       await (audit_write (now env) \<lparr>ai_eventId = ctx_ev ctx, ai_actorUserId = Some (ctx_user ctx),
          ai_action = ''file:upload'', ai_resourceType = ''file_object'', ai_resourceId = fo_id file, ai_source = None,
          ai_oldValue = None, ai_newValue = Some (JObj [(''kind'', JStr (file_kind_str (fo_kind file))),
            (''mimeType'', JStr (fo_mimeType file)), (''sha256'', JStr (fo_sha256 file))])\<rparr>) (\<lambda>_.
       ret (file_view_of file))))"

definition upload :: "storage_env \<Rightarrow> env \<Rightarrow> operation_context \<Rightarrow> upload_input \<Rightarrow> file_view svc" where
  "upload sx env ctx i =
     gated ctx Document_upload
       (if up_mimeType i \<notin> set ALLOWED_MIME then svc_throw (BadRequest (''Unsupported file type: '' @ up_mimeType i))
        else if up_body i = [] then svc_throw (BadRequest ''Empty file'')
        else if st_maxUploadBytes sx < int (length (up_body i)) then
          svc_throw (BadRequest (''File exceeds '' @ int_to_dec (st_maxUploadBytes sx) @ '' bytes''))
        else and_then randomUUID (\<lambda>new.
          let storageKey = storage_key (ctx_ev ctx) new (up_filename i) in
          case st_put sx storageKey (up_body i) (up_mimeType i) of
            Some e \<Rightarrow> svc_throw e
          | None \<Rightarrow> runInEvent (ctx_ev ctx) (upload_tx sx env ctx i storageKey)))"

definition getSignedUrl :: "storage_env \<Rightarrow> operation_context \<Rightarrow> uuid \<Rightarrow> int \<Rightarrow> string svc" where
  "getSignedUrl sx ctx fileId expiresInSeconds =
     permitted ctx Document_read
       (and_then (runInEvent (ctx_ev ctx) (query (find_file fileId))) (\<lambda>file. case file of
          None \<Rightarrow> svc_throw (NotFound ''File not found in this event'')
        | Some f \<Rightarrow> (\<lambda>st. (st, st_sign sx (fo_storageKey f) expiresInSeconds))))"

definition readBytes :: "storage_env \<Rightarrow> uuid \<Rightarrow> uuid \<Rightarrow> (string \<times> file_bytes) svc" where
  "readBytes sx eventId fileId =
     and_then (runInEvent eventId (query (find_file fileId))) (\<lambda>file. case file of
       None \<Rightarrow> svc_throw (NotFound ''File not found'')
     | Some f \<Rightarrow> (case st_get sx (fo_storageKey f) of
         Inl e \<Rightarrow> svc_throw e
       | Inr body \<Rightarrow> svc_ret (fo_mimeType f, body)))"

section \<open>document.service.ts\<close>

record document_view =
  dv_id :: uuid
  dv_fileId :: uuid
  dv_kind :: extraction_kind
  dv_status :: document_status
  dv_error :: "string option"

fun extraction_kind_str :: "extraction_kind \<Rightarrow> string" where
  "extraction_kind_str BUDGET_DOC = ''BUDGET''"
| "extraction_kind_str CONTRIBUTION_LIST = ''CONTRIBUTION_LIST''"
| "extraction_kind_str UNKNOWN_DOC = ''UNKNOWN''"

definition document_create :: "(uuid \<Rightarrow> document_row) \<Rightarrow> document_row tx" where
  "document_create = tbl_create documents put_documents d_eventId"

definition document_update :: "uuid \<Rightarrow> (document_row \<Rightarrow> document_row) \<Rightarrow> document_row tx" where
  "document_update = tbl_update documents put_documents d_eventId d_id"

abbreviation visible_documents :: "session \<Rightarrow> store \<Rightarrow> document_row list" where
  "visible_documents s st \<equiv> tbl_visible d_eventId s (documents st)"

definition find_document :: "uuid \<Rightarrow> session \<Rightarrow> store \<Rightarrow> document_row option" where
  "find_document i s st = List.find (\<lambda>d. d_id d = i) (visible_documents s st)"

definition document_view_of :: "document_row \<Rightarrow> document_view" where
  "document_view_of d = \<lparr>dv_id = d_id d, dv_fileId = d_fileId d, dv_kind = d_kind d, dv_status = d_status d, dv_error = d_error d\<rparr>"

definition submit_tx :: "env \<Rightarrow> operation_context \<Rightarrow> uuid \<Rightarrow> extraction_kind \<Rightarrow> document_view tx" where
  "submit_tx env ctx fileId kind =
     await (query (find_file fileId)) (\<lambda>file. case file of
       None \<Rightarrow> throw (NotFound ''File not found in this event'')
     | Some f \<Rightarrow>
         if fo_mimeType f \<notin> set EXTRACTABLE_MIME then
           throw (BadRequest (''Cannot extract from '' @ fo_mimeType f @ '' '' @ em_dash @ '' upload an image or PDF''))
         else
           await (document_create (\<lambda>new. \<lparr>d_id = new, d_eventId = ctx_ev ctx, d_fileId = fileId, d_kind = kind,
              d_status = DOC_UPLOADED, d_error = None, d_attempts = 0, d_uploadedById = Some (ctx_user ctx),
              d_processedAt = None, d_createdAt = now env\<rparr>)) (\<lambda>doc.
           await (audit_write (now env) \<lparr>ai_eventId = ctx_ev ctx, ai_actorUserId = Some (ctx_user ctx),
              ai_action = ''document:submit'', ai_resourceType = ''document'', ai_resourceId = d_id doc, ai_source = None,
              ai_oldValue = None, ai_newValue = Some (JObj [(''fileId'', JStr fileId),
                (''kind'', JStr (extraction_kind_str kind))])\<rparr>) (\<lambda>_.
           await (outbox_enqueue (now env) \<lparr>oi_eventId = ctx_ev ctx, oi_topic = ''document.uploaded'',
              oi_payload = JObj [(''documentId'', JStr (d_id doc))],
              oi_idempotencyKey = ''document:'' @ d_id doc\<rparr>) (\<lambda>_.
           ret (document_view_of doc)))))"

definition submitForExtraction :: "env \<Rightarrow> operation_context \<Rightarrow> uuid \<Rightarrow> extraction_kind option \<Rightarrow> document_view svc" where
  "submitForExtraction env ctx fileId kind =
     gated ctx Document_upload (runInEvent (ctx_ev ctx) (submit_tx env ctx fileId (nullish kind BUDGET_DOC)))"

definition getDocument :: "operation_context \<Rightarrow> uuid \<Rightarrow> document_view svc" where
  "getDocument ctx documentId =
     permitted ctx Document_read
       (and_then (runInEvent (ctx_ev ctx) (query (find_document documentId))) (\<lambda>doc. case doc of
          None \<Rightarrow> svc_throw (NotFound ''Document not found in this event'')
        | Some d \<Rightarrow> svc_ret (document_view_of d)))"

section \<open>extraction-contract.ts\<close>

text \<open>\<open>z.union([z.string(), z.number()])\<close> followed by \<open>String\<close>.\<close>

definition text_or_number :: "js_arg \<Rightarrow> string option" where
  "text_or_number x = (case x of Arg_str s \<Rightarrow> Some s | Arg_num q text \<Rightarrow> Some text | _ \<Rightarrow> None)"

definition required_nonempty :: "string \<Rightarrow> llm_args \<Rightarrow> string option" where
  "required_nonempty k args = (case map_of args k of Some (Arg_str s) \<Rightarrow> (if s = [] then None else Some s) | _ \<Rightarrow> None)"

definition required_amount :: "string \<Rightarrow> llm_args \<Rightarrow> string option" where
  "required_amount k args = map_option digits_only (Option.bind (map_of args k) text_or_number)"

definition optional_unit_cost :: "string \<Rightarrow> llm_args \<Rightarrow> string option option" where
  "optional_unit_cost k args = (case map_of args k of
     None \<Rightarrow> Some None
   | Some x \<Rightarrow> map_option (\<lambda>s. if s = [] then None else Some (digits_only s)) (text_or_number x))"

text \<open>A field with a fixed set of texts and a default.\<close>

definition enum_or :: "string \<Rightarrow> string list \<Rightarrow> string \<Rightarrow> llm_args \<Rightarrow> string option" where
  "enum_or d options k args = (case map_of args k of
     None \<Rightarrow> Some d | Some (Arg_str s) \<Rightarrow> (if s \<in> set options then Some s else None) | _ \<Rightarrow> None)"

definition optional_fraction :: "string \<Rightarrow> llm_args \<Rightarrow> rat option option" where
  "optional_fraction k args = (case map_of args k of
     None \<Rightarrow> Some None | Some (Arg_num q _) \<Rightarrow> (if 0 \<le> q \<and> q \<le> 1 then Some (Some q) else None) | _ \<Rightarrow> None)"

record budget_line =
  bl_name :: string
  bl_amount :: string
  bl_quantity :: "string option"
  bl_unit_cost :: "string option"
  bl_category_context :: "string option"
  bl_concept_type :: "string option"
  bl_fulfillment_status :: string
  bl_is_partially_illegible :: bool

definition budget_line_of :: "llm_args \<Rightarrow> budget_line option" where
  "budget_line_of args =
     Option.bind (required_nonempty ''name'' args) (\<lambda>name.
     Option.bind (required_amount ''amount'' args) (\<lambda>amount.
     Option.bind (optional_string ''quantity'' args) (\<lambda>quantity.
     Option.bind (optional_unit_cost ''unit_cost'' args) (\<lambda>unit_cost.
     Option.bind (optional_string ''category_context'' args) (\<lambda>category.
     Option.bind (optional_string ''concept_type'' args) (\<lambda>concept.
     Option.bind (enum_or ''unknown'' [''covered'', ''pending'', ''partial'', ''unknown''] ''fulfillment_status'' args) (\<lambda>status.
     Option.bind (flag_or False ''is_partially_illegible'' args) (\<lambda>illegible.
     Some \<lparr>bl_name = name, bl_amount = amount, bl_quantity = quantity, bl_unit_cost = unit_cost,
       bl_category_context = category, bl_concept_type = concept, bl_fulfillment_status = status,
       bl_is_partially_illegible = illegible\<rparr>))))))))"

record budget_reading =
  bg_document_title :: "string option"
  bg_currency :: string
  bg_lines :: "budget_line list"
  bg_confidence :: "rat option"
  bg_notes :: "string option"
  bg_inferred_event_type :: "string option"
  bg_inferred_region :: "string option"

definition extractBudgetResult :: "llm_args \<Rightarrow> budget_reading option" where
  "extractBudgetResult args =
     Option.bind (optional_string ''document_title'' args) (\<lambda>title.
     Option.bind (optional_string ''currency'' args) (\<lambda>currency.
     Option.bind (array_of budget_line_of ''items'' args) (\<lambda>lines.
     Option.bind (optional_fraction ''confidence'' args) (\<lambda>confidence.
     Option.bind (optional_string ''notes'' args) (\<lambda>notes.
     Option.bind (optional_string ''inferred_event_type'' args) (\<lambda>eventType.
     Option.bind (optional_string ''inferred_region'' args) (\<lambda>region.
     Some \<lparr>bg_document_title = title, bg_currency = nullish currency ''UGX'', bg_lines = lines, bg_confidence = confidence,
       bg_notes = notes, bg_inferred_event_type = eventType, bg_inferred_region = region\<rparr>)))))))"

section \<open>contribution-extraction-contract.ts\<close>

definition nullable_amount :: "string \<Rightarrow> llm_args \<Rightarrow> string option option" where
  "nullable_amount k args = (case map_of args k of
     None \<Rightarrow> Some None
   | Some Arg_null \<Rightarrow> Some None
   | Some x \<Rightarrow> map_option some_digits (text_or_number x))"

definition nullable_quantity :: "string \<Rightarrow> llm_args \<Rightarrow> string option option" where
  "nullable_quantity k args = (case map_of args k of
     None \<Rightarrow> Some None
   | Some Arg_null \<Rightarrow> Some None
   | Some x \<Rightarrow> map_option (\<lambda>s. if s = [] then None else Some (js_trim s)) (text_or_number x))"

record contribution_entry =
  ce_name :: string
  ce_type :: string
  ce_amount :: "string option"
  ce_description :: "string option"
  ce_quantity :: "string option"
  ce_unit :: "string option"
  ce_status :: string
  ce_is_partially_illegible :: bool

definition entryRow :: "llm_args \<Rightarrow> contribution_entry option" where
  "entryRow args =
     Option.bind (required_trimmed ''name'' args) (\<lambda>name.
     Option.bind (enum_or ''cash'' [''cash'', ''item'', ''service''] ''type'' args) (\<lambda>type.
     Option.bind (nullable_amount ''amount'' args) (\<lambda>amount.
     Option.bind (optional_trimmed ''description'' args) (\<lambda>description.
     Option.bind (nullable_quantity ''quantity'' args) (\<lambda>quantity.
     Option.bind (optional_trimmed ''unit'' args) (\<lambda>unit.
     Option.bind (enum_or ''unknown'' [''paid'', ''pledged'', ''unknown''] ''status'' args) (\<lambda>status.
     Option.bind (flag_or False ''is_partially_illegible'' args) (\<lambda>illegible.
     Some \<lparr>ce_name = name, ce_type = type, ce_amount = amount, ce_description = description, ce_quantity = quantity,
       ce_unit = unit, ce_status = status, ce_is_partially_illegible = illegible\<rparr>))))))))"

definition extractContributionsResult :: "llm_args \<Rightarrow> (contribution_entry list \<times> string option) option" where
  "extractContributionsResult args =
     Option.bind (array_of entryRow ''entries'' args) (\<lambda>entries.
     Option.bind (optional_trimmed ''notes'' args) (\<lambda>notes. Some (entries, notes)))"

end
