(* ===== verification/Caught_Errors.thy ===== *)
theory Caught_Errors
  imports Tables Entitlement
begin

text \<open>
  Errors that a service catches: \<open>try\<close> with a \<open>catch\<close> clause around a call, and the message of the
  exception that was caught.
\<close>

definition svc_catch :: "'a svc \<Rightarrow> (error \<Rightarrow> 'a svc) \<Rightarrow> 'a svc" where
  "svc_catch m handler st = (case m st of (st', Inl e) \<Rightarrow> handler e st' | (st', Inr x) \<Rightarrow> (st', Inr x))"

text \<open>\<open>err.message\<close>; the text of a database error is the client's.\<close>

fun error_text :: "(db_error \<Rightarrow> string) \<Rightarrow> error \<Rightarrow> string" where
  "error_text db (Forbidden s) = s"
| "error_text db (NotFound s) = s"
| "error_text db (Conflict s) = s"
| "error_text db (BadRequest s) = s"
| "error_text db (Unauthorized s) = s"
| "error_text db (Thrown s) = s"
| "error_text db (DuplicateSuspected i v t) =
     ''A payment of '' @ v @ '' was already recorded for this pledge at '' @ t
     @ ''. Record another one only if it is genuinely a separate payment.''"
| "error_text db (PhoneAlreadyAttached i name phone) =
     phone @ '' is already on file for '' @ name @ '' in this event. If this is genuinely a shared/family number, ''
     @ ''confirm to attach it anyway '' @ em_dash @ '' otherwise use the correct number.''"
| "error_text db (Db e) = db e"

end
