(* ===== verification/Document_Reading.thy ===== *)
theory Document_Reading
  imports Documents Membership_Service Caught_Errors
begin

text \<open>
  Reading documents: \<^verbatim>\<open>libs/documents/src/extraction.service.ts\<close>, run by the worker for a submitted
  document. A budget becomes proposals for budget items, a contribution list becomes sentences
  that go through the capture pipeline with staging forced. The model that reads the attachment is
  an argument; whatever it answers, only proposals, the extraction, the meter, the status of the
  document and the shared price knowledge are written.
\<close>

section \<open>The service\<close>

record extraction_result =
  er_documentId :: uuid
  er_status :: document_status
  er_proposedItems :: int

record 'k extraction_env =
  dx_storage :: storage_env
  dx_vision :: "(llm_role \<times> string) list \<Rightarrow> string \<Rightarrow> file_bytes \<Rightarrow> error + llm_result"
  dx_budget_prompt :: string
  dx_contribution_prompt :: string
  dx_capture_llm :: llm_provider
  dx_capture_prompt :: string
  dx_assist :: "'k assist_env"
  dx_db_text :: "db_error \<Rightarrow> string"

definition extraction_create :: "(uuid \<Rightarrow> extraction_row) \<Rightarrow> extraction_row tx" where
  "extraction_create = tbl_create extractions put_extractions x_eventId"

text \<open>The first transaction of \<open>process\<close>: only an uploaded document is taken.\<close>

definition claim_document :: "uuid \<Rightarrow> document_row option tx" where
  "claim_document documentId =
     await (query (find_document documentId)) (\<lambda>d. case d of
       None \<Rightarrow> ret None
     | Some doc \<Rightarrow>
         if d_status doc \<noteq> DOC_UPLOADED then ret None
         else await (document_update documentId (\<lambda>r. r\<lparr>d_status := DOC_PROCESSING, d_attempts := d_attempts r + 1\<rparr>)) (\<lambda>_.
              ret (Some doc)))"

definition fail_document :: "'k extraction_env \<Rightarrow> uuid \<Rightarrow> uuid \<Rightarrow> error \<Rightarrow> extraction_result svc" where
  "fail_document dx eventId documentId err =
     and_then (runInEvent eventId (document_update documentId (\<lambda>r. r\<lparr>d_status := DOC_FAILED,
        d_error := Some (take 500 (error_text (dx_db_text dx) err))\<rparr>))) (\<lambda>_.
     svc_ret \<lparr>er_documentId = documentId, er_status = DOC_FAILED, er_proposedItems = 0\<rparr>)"

text \<open>The call of the model with the bytes of the file, and its metering.\<close>

definition read_document ::
  "'k extraction_env \<Rightarrow> env \<Rightarrow> uuid \<Rightarrow> uuid \<Rightarrow> uuid \<Rightarrow> string \<Rightarrow> string \<Rightarrow> llm_result svc" where
  "read_document dx env eventId documentId fileId prompt request =
     and_then (readBytes (dx_storage dx) eventId fileId) (\<lambda>(mimeType, body).
     case dx_vision dx [(Role_system, prompt), (Role_user, request)] mimeType body of
       Inl e \<Rightarrow> svc_throw e
     | Inr result \<Rightarrow>
         (case costMicroUsd (lr_usage result) of
            None \<Rightarrow> svc_throw (Thrown ''RangeError'')
          | Some cost \<Rightarrow>
              and_then (recordLlmCall env eventId (lr_usage result) cost
                (Some (JObj [(''kind'', JStr ''document_extraction''), (''documentId'', JStr documentId)]))) (\<lambda>_.
              svc_ret result)))"

section \<open>Budgets\<close>

record normalized_line =
  nl_name :: string
  nl_amount :: int
  nl_quantity :: "string option"
  nl_unitCost :: "string option"
  nl_categoryContext :: "string option"
  nl_conceptType :: "string option"
  nl_fulfillmentStatus :: string
  nl_isPartiallyIllegible :: bool

definition normalize_line :: "budget_line \<Rightarrow> normalized_line option" where
  "normalize_line it = map_option (\<lambda>amt. \<lparr>nl_name = bl_name it, nl_amount = amt, nl_quantity = bl_quantity it,
       nl_unitCost = (if truthy_str (bl_unit_cost it)
          then map_option int_to_dec (parseAmountToMinorUnits (the (bl_unit_cost it))) else None),
       nl_categoryContext = bl_category_context it, nl_conceptType = bl_concept_type it,
       nl_fulfillmentStatus = bl_fulfillment_status it, nl_isPartiallyIllegible = bl_is_partially_illegible it\<rparr>)
     (parseAmountToMinorUnits (bl_amount it))"

definition line_json :: "normalized_line \<Rightarrow> json" where
  "line_json n = JObj [(''name'', JStr (nl_name n)), (''amount'', JStr (int_to_dec (nl_amount n))),
     (''quantity'', jstr_or_null (nl_quantity n)), (''unitCost'', jstr_or_null (nl_unitCost n)),
     (''categoryContext'', jstr_or_null (nl_categoryContext n)), (''conceptType'', jstr_or_null (nl_conceptType n)),
     (''fulfillmentStatus'', JStr (nl_fulfillmentStatus n)), (''isPartiallyIllegible'', JBool (nl_isPartiallyIllegible n))]"

definition structured_budget :: "budget_reading option \<Rightarrow> normalized_line list \<Rightarrow> json" where
  "structured_budget parsed normalized =
     json_obj [(''documentTitle'', map_option JStr (Option.bind parsed bg_document_title)),
       (''currency'', Some (JStr (case parsed of Some p \<Rightarrow> bg_currency p | None \<Rightarrow> ''UGX''))),
       (''notes'', map_option JStr (Option.bind parsed bg_notes)),
       (''items'', Some (JArr (map line_json normalized)))]"

definition line_details :: "normalized_line \<Rightarrow> string" where
  "line_details n = join '', ''
     ((if truthy_str (nl_quantity n) then [''Qty: '' @ the (nl_quantity n)] else [])
      @ (if truthy_str (nl_categoryContext n) then [''Category: '' @ the (nl_categoryContext n)] else [])
      @ (if nl_fulfillmentStatus n \<noteq> [] \<and> nl_fulfillmentStatus n \<noteq> ''unknown''
         then [''Status: '' @ nl_fulfillmentStatus n] else []))"

definition line_prompt :: "normalized_line \<Rightarrow> string" where
  "line_prompt n =
     ''I read a budget line '' @ quoted (nl_name n)
     @ (if line_details n \<noteq> [] then '' ('' @ line_details n @ '')'' else '''')
     @ '' of UGX '' @ int_to_dec (nl_amount n) @ '' '' @ em_dash @ '' add it?''"

fun propose_lines :: "env \<Rightarrow> uuid \<Rightarrow> uuid \<Rightarrow> uuid option \<Rightarrow> rat option \<Rightarrow> normalized_line list \<Rightarrow> unit tx" where
  "propose_lines env eventId documentId uploader confidence [] = ret ()"
| "propose_lines env eventId documentId uploader confidence (n # ns) =
     await (confirmation_create (\<lambda>new. \<lparr>pc_id = new, pc_eventId = eventId, pc_intent = ''create_budget_item'',
        pc_payload = SA_create_budget_item (nl_name n) (int_to_dec (nl_amount n)) (Some documentId),
        pc_confidence = confidence, pc_source = ai_from_document, pc_status = PC_PENDING, pc_prompt = line_prompt n,
        pc_createdById = uploader, pc_createdAt = now env, pc_resolvedById = None, pc_resolvedAt = None\<rparr>)) (\<lambda>_.
     propose_lines env eventId documentId uploader confidence ns)"

definition store_budget_tx ::
  "env \<Rightarrow> uuid \<Rightarrow> document_row \<Rightarrow> string \<Rightarrow> budget_reading option \<Rightarrow> normalized_line list \<Rightarrow> int tx" where
  "store_budget_tx env eventId doc model parsed normalized =
     (let confidence = Option.bind parsed bg_confidence in
      await (extraction_create (\<lambda>new. \<lparr>x_id = new, x_eventId = eventId, x_documentId = d_id doc, x_kind = BUDGET_DOC,
         x_structured = structured_budget parsed normalized, x_confidence = confidence, x_model = Some model,
         x_itemCount = int (length normalized), x_createdAt = now env\<rparr>)) (\<lambda>_.
      await (propose_lines env eventId (d_id doc) (d_uploadedById doc) confidence normalized) (\<lambda>_.
      await (document_update (d_id doc) (\<lambda>r. r\<lparr>d_status := DOC_REQUIRES_REVIEW, d_processedAt := Some (now env)\<rparr>)) (\<lambda>_.
      ret (int (length normalized))))))"

text \<open>The contribution of the budget to the shared price knowledge.\<close>

definition household_source :: "uuid \<Rightarrow> knowledge_source_input" where
  "household_source documentId = \<lparr>ki_sourceType = user_upload, ki_name = ''user-upload:'' @ documentId, ki_url = None,
     ki_publishedAt = None, ki_reliability = K_LOW,
     ki_licensingNote = ''One organizer'' @ [CHR 0x27] @ ''s own uploaded budget '' @ em_dash
       @ '' a single anecdote, not a market survey. Disclosed via Akabbo'' @ [CHR 0x27] @ ''s terms of service.'',
     ki_extractionMethod = ai_extraction_live, ki_storageKey = None, ki_originalFilename = None, ki_mimeType = None\<rparr>"

definition household_observation :: "env \<Rightarrow> string \<Rightarrow> string option \<Rightarrow> normalized_line \<Rightarrow> knowledge_observation_input" where
  "household_observation env eventType region n = \<lparr>ko_eventType = eventType, ko_region = region, ko_tier = None,
     ko_category = nullish (nl_categoryContext n) (nl_name n),
     ko_item = (if truthy_str (nl_categoryContext n) then Some (nl_name n) else None),
     ko_amountMin = Some (nl_amount n), ko_amountMax = Some (nl_amount n), ko_unit = None, ko_commonlyForgotten = None,
     ko_confidence = dbl (3/10), ko_observedAt = now env\<rparr>"

definition feed_knowledge :: "env \<Rightarrow> document_row \<Rightarrow> budget_reading option \<Rightarrow> normalized_line list \<Rightarrow> unit svc" where
  "feed_knowledge env doc parsed normalized =
     (case parsed of
        Some p \<Rightarrow>
          if d_kind doc = BUDGET_DOC \<and> truthy_str (bg_inferred_event_type p) \<and> normalized \<noteq> [] then
            svc_catch (and_then (ingestObservations env (household_source (d_id doc))
                (map (household_observation env (the (bg_inferred_event_type p)) (bg_inferred_region p)) normalized)) (\<lambda>_. svc_ret ()))
              (\<lambda>_. svc_ret ())
          else svc_ret ()
      | None \<Rightarrow> svc_ret ())"

definition processBudget :: "'k extraction_env \<Rightarrow> env \<Rightarrow> uuid \<Rightarrow> document_row \<Rightarrow> extraction_result svc" where
  "processBudget dx env eventId doc =
     svc_catch
       (and_then (read_document dx env eventId (d_id doc) (d_fileId doc) (dx_budget_prompt dx)
          ''Extract the budget line items from the attached document.'') (\<lambda>result.
        let parsed = extractBudgetResult (case call_named ''extract_budget'' result of Some a \<Rightarrow> a | None \<Rightarrow> []);
            normalized = List.map_filter normalize_line (case parsed of Some p \<Rightarrow> bg_lines p | None \<Rightarrow> [])
        in and_then (runInEvent eventId (store_budget_tx env eventId doc (lu_model (lr_usage result)) parsed normalized)) (\<lambda>proposedItems.
           and_then (feed_knowledge env doc parsed normalized) (\<lambda>_.
           svc_ret \<lparr>er_documentId = d_id doc, er_status = DOC_REQUIRES_REVIEW, er_proposedItems = proposedItems\<rparr>))))
       (fail_document dx eventId (d_id doc))"

section \<open>Contribution lists\<close>

definition entry_json :: "contribution_entry \<Rightarrow> json" where
  "entry_json e = json_obj [(''name'', Some (JStr (ce_name e))), (''type'', Some (JStr (ce_type e))),
     (''amount'', map_option JStr (ce_amount e)), (''description'', map_option JStr (ce_description e)),
     (''quantity'', map_option JStr (ce_quantity e)), (''unit'', map_option JStr (ce_unit e)),
     (''status'', Some (JStr (ce_status e))), (''is_partially_illegible'', Some (JBool (ce_is_partially_illegible e)))]"

definition buildUtterance :: "contribution_entry \<Rightarrow> string option" where
  "buildUtterance entry =
     (let verb = (if ce_status entry = ''paid'' then ''paid'' else if ce_status entry = ''pledged'' then ''pledged'' else ''gave'');
          money = (\<lambda>amount. ce_name entry @ '' '' @ (if verb = ''gave'' then ''paid'' else verb) @ '' '' @ amount)
      in if ce_type entry = ''cash'' then
           (if truthy_str (ce_amount entry) then Some (money (the (ce_amount entry))) else None)
         else if \<not> truthy_str (ce_description entry) then
           (if truthy_str (ce_amount entry) then Some (money (the (ce_amount entry))) else None)
         else
           let what = (if truthy_str (ce_quantity entry)
                 then the (ce_quantity entry) @ (if truthy_str (ce_unit entry) then '' '' @ the (ce_unit entry) else '''')
                      @ '' of '' @ the (ce_description entry)
                 else the (ce_description entry))
           in Some (ce_name entry @ '' '' @ verb @ '' '' @ what))"

record tally =
  ta_staged :: nat
  ta_duplicates :: nat
  ta_clarifications :: nat
  ta_unreadable :: nat
  ta_otherSkipped :: nat

definition is_duplicate :: "string \<Rightarrow> bool" where
  "is_duplicate message = contains ''already recorded'' (ascii_lower message)"

definition count_skipped :: "string \<Rightarrow> tally \<Rightarrow> tally" where
  "count_skipped message t =
     (if is_duplicate message then t\<lparr>ta_duplicates := Suc (ta_duplicates t)\<rparr>
      else t\<lparr>ta_otherSkipped := Suc (ta_otherSkipped t)\<rparr>)"

fun count_outcome :: "(db_error \<Rightarrow> string) \<Rightarrow> error + capture_result \<Rightarrow> tally \<Rightarrow> tally" where
  "count_outcome db (Inr (Pending _ _ _)) t = t\<lparr>ta_staged := Suc (ta_staged t)\<rparr>"
| "count_outcome db (Inr (Clarification _ _ _)) t = t\<lparr>ta_clarifications := Suc (ta_clarifications t)\<rparr>"
| "count_outcome db (Inr (Executed message _ _)) t = count_skipped message t"
| "count_outcome db (Inr (Answer message _ _)) t = count_skipped message t"
| "count_outcome db (Inl e) t = count_skipped (error_text db e) t"

text \<open>The loop over the entries; an entry that fails is counted and skipped.\<close>

fun stage_entries ::
  "'k::linorder extraction_env \<Rightarrow> env \<Rightarrow> operation_context \<Rightarrow> contribution_entry list \<Rightarrow> tally \<Rightarrow> store \<Rightarrow> store \<times> tally" where
  "stage_entries dx env ctx [] t st = (st, t)"
| "stage_entries dx env ctx (e # es) t st =
     (case buildUtterance e of
        None \<Rightarrow> stage_entries dx env ctx es (t\<lparr>ta_unreadable := Suc (ta_unreadable t)\<rparr>) st
      | Some utterance \<Rightarrow>
          (case capture (dx_capture_llm dx) (dx_capture_prompt dx) (dx_assist dx) env ctx utterance True st of
             (st', r) \<Rightarrow> stage_entries dx env ctx es (count_outcome (dx_db_text dx) r t) st'))"

definition plural :: "nat \<Rightarrow> string" where
  "plural n = (if n > 1 then ''s'' else '''')"

definition final_state :: "nat \<Rightarrow> tally \<Rightarrow> document_status \<times> string option" where
  "final_state n_entries t =
     (let duplicates = ta_duplicates t; clarifications = ta_clarifications t; unreadable = ta_unreadable t;
          otherSkipped = ta_otherSkipped t
      in if ta_staged t > 0 then (DOC_REQUIRES_REVIEW, None)
         else if clarifications > 0 then
           (DOC_REQUIRES_REVIEW, Some (nat_to_dec clarifications @ '' contribution'' @ plural clarifications @ '' need clarification''
              @ (if duplicates > 0 then ''; '' @ nat_to_dec duplicates @ '' already recorded'' else '''')
              @ ''. Open the chat to answer the pending questions.''))
         else if duplicates > 0 \<and> unreadable = 0 \<and> otherSkipped = 0 then
           (DOC_FAILED, Some (''All '' @ nat_to_dec duplicates @ '' contribution'' @ plural duplicates
              @ '' in this document were already recorded. Upload a different photo or check your contributions list.''))
         else if unreadable = n_entries then
           (DOC_FAILED, Some ''No contributions could be read from this document. Try a clearer photo with better lighting.'')
         else
           (DOC_FAILED, Some (''No contributions were staged: '' @ join '', ''
              ((if duplicates > 0 then [nat_to_dec duplicates @ '' already recorded''] else [])
               @ (if clarifications > 0 then [nat_to_dec clarifications @ '' need clarification''] else [])
               @ (if unreadable > 0 then [nat_to_dec unreadable @ '' unreadable''] else [])
               @ (if otherSkipped > 0 then [nat_to_dec otherSkipped @ '' could not be processed''] else [])) @ ''.'')))"

definition processContributionList ::
  "'k::linorder extraction_env \<Rightarrow> env \<Rightarrow> uuid \<Rightarrow> document_row \<Rightarrow> extraction_result svc" where
  "processContributionList dx env eventId doc =
     svc_catch
       (if \<not> truthy_str (d_uploadedById doc) then
          svc_throw (Thrown (''Document has no uploader '' @ em_dash @ '' cannot resolve who is staging these entries''))
        else
          let actor = \<lparr>userId = the (d_uploadedById doc), phoneVerified = True\<rparr> in
          and_then (requireContext actor eventId) (\<lambda>eventContext.
          let ctx = \<lparr>ctx_actor = actor, ctx_event = eventContext\<rparr> in
          and_then (read_document dx env eventId (d_id doc) (d_fileId doc) (dx_contribution_prompt dx)
            ''Extract the contributor/pledge entries from the attached document.'') (\<lambda>result.
          let parsed = extractContributionsResult (case call_named ''extract_contributions'' result of Some a \<Rightarrow> a | None \<Rightarrow> []);
              entries = (case parsed of Some (es, _) \<Rightarrow> es | None \<Rightarrow> [])
          in and_then (runInEvent eventId (extraction_create (\<lambda>new. \<lparr>x_id = new, x_eventId = eventId,
               x_documentId = d_id doc, x_kind = CONTRIBUTION_LIST,
               x_structured = json_obj [(''entries'', Some (JArr (map entry_json entries))),
                 (''notes'', map_option JStr (Option.bind parsed snd))],
               x_confidence = None, x_model = Some (lu_model (lr_usage result)), x_itemCount = int (length entries),
               x_createdAt = now env\<rparr>))) (\<lambda>_.
             and_then (\<lambda>st. case stage_entries dx env ctx entries \<lparr>ta_staged = 0, ta_duplicates = 0, ta_clarifications = 0,
                  ta_unreadable = 0, ta_otherSkipped = 0\<rparr> st of (st', t) \<Rightarrow> (st', Inr t)) (\<lambda>t.
             case final_state (length entries) t of (finalStatus, finalError) \<Rightarrow>
             and_then (runInEvent eventId (document_update (d_id doc) (\<lambda>r. r\<lparr>d_status := finalStatus,
                d_processedAt := Some (now env), d_error := finalError\<rparr>))) (\<lambda>_.
             svc_ret \<lparr>er_documentId = d_id doc, er_status = finalStatus, er_proposedItems = int (ta_staged t)\<rparr>))))))
       (fail_document dx eventId (d_id doc))"

definition process_document ::
  "'k::linorder extraction_env \<Rightarrow> env \<Rightarrow> uuid \<Rightarrow> uuid \<Rightarrow> extraction_result svc" where
  "process_document dx env eventId documentId =
     and_then (runInEvent eventId (claim_document documentId)) (\<lambda>doc. case doc of
       None \<Rightarrow> svc_ret \<lparr>er_documentId = documentId, er_status = DOC_PROCESSED, er_proposedItems = 0\<rparr>
     | Some d \<Rightarrow>
         if d_kind d = CONTRIBUTION_LIST then processContributionList dx env eventId d
         else processBudget dx env eventId d)"

end
