(* ===== verification/Budget_Advice.thy ===== *)
theory Budget_Advice
  imports Budget_Knowledge
begin

text \<open>
  Recommendations: the reading half of \<^verbatim>\<open>libs/budget-intelligence/src/budget-knowledge.service.ts\<close>.
  The figures of a recommendation are computed from stored observations only, vetted sources win
  over the others, and the search engine is asked at most once a week for a topic.
\<close>

section \<open>Rows\<close>

record advice_row =
  ar_category :: string
  ar_item :: "string option"
  ar_region :: "string option"
  ar_amountMin :: "money option"
  ar_amountMax :: "money option"
  ar_unit :: "string option"
  ar_commonlyForgotten :: bool
  ar_confidence :: rat
  ar_sourceId :: uuid
  ar_observedAt :: time
  ar_reliability :: knowledge_reliability

definition reliability_of :: "store \<Rightarrow> uuid \<Rightarrow> knowledge_reliability" where
  "reliability_of st i =
     (case List.find (\<lambda>s. ks_id s = i) (knowledge_sources st) of Some s \<Rightarrow> ks_reliability s | None \<Rightarrow> K_LOW)"

definition advice_row_of :: "store \<Rightarrow> observation_row \<Rightarrow> advice_row" where
  "advice_row_of st b = \<lparr>ar_category = kb_category b, ar_item = kb_item b, ar_region = kb_region b,
     ar_amountMin = kb_amountMin b, ar_amountMax = kb_amountMax b, ar_unit = kb_unit b,
     ar_commonlyForgotten = kb_commonlyForgotten b, ar_confidence = kb_confidence b, ar_sourceId = kb_sourceId b,
     ar_observedAt = kb_observedAt b, ar_reliability = reliability_of st (kb_sourceId b)\<rparr>"

text \<open>The tier arrives as a string; one the database does not know is an error of its client.\<close>

definition tier_of :: "string \<Rightarrow> budget_tier option" where
  "tier_of s = (if s = ''budget'' then Some Tier_budget else if s = ''mid'' then Some Tier_mid
     else if s = ''premium'' then Some Tier_premium else None)"

definition tier_fits :: "string option \<Rightarrow> observation_row \<Rightarrow> bool" where
  "tier_fits tier b \<longleftrightarrow> \<not> truthy_str tier \<or> kb_tier b = tier_of (the tier) \<or> kb_tier b = None"

definition matching_rows :: "env \<Rightarrow> string \<Rightarrow> string option \<Rightarrow> store \<Rightarrow> advice_row list" where
  "matching_rows env eventType tier st =
     map (advice_row_of st) (filter (\<lambda>b. kb_eventType b = eventType \<and> now env - STALE_AFTER_MS \<le> kb_observedAt b
       \<and> tier_fits tier b) (observations st))"

definition regional_rows :: "string option \<Rightarrow> advice_row list \<Rightarrow> advice_row list" where
  "regional_rows region all =
     (if \<not> truthy_str region then all
      else let baseline = filter (\<lambda>r. \<not> truthy_str (ar_region r)) all;
               regional = filter (\<lambda>r. truthy_str (ar_region r) \<and> ar_region r = region) all
           in if regional \<noteq> [] then regional @ baseline else baseline)"

definition queryObservations :: "env \<Rightarrow> string \<Rightarrow> string option \<Rightarrow> string option \<Rightarrow> advice_row list svc" where
  "queryObservations env eventType region tier =
     (if truthy_str tier \<and> tier_of (the tier) = None then svc_throw (Thrown ''Invalid value for argument `tier`. Expected BudgetTier.'')
      else svc_read (\<lambda>st. regional_rows region (matching_rows env eventType tier st)))"

definition hasUsableCoverage :: "advice_row list \<Rightarrow> bool" where
  "hasUsableCoverage rows = (MIN_CATEGORIES_FOR_COVERAGE \<le> length (remdups (map ar_category rows)))"

section \<open>Categories\<close>

datatype confidence_label = Low_confidence | Medium_confidence | High_confidence

record advice_category =
  ac_category :: string
  ac_amountMin :: "string option"
  ac_amountMax :: "string option"
  ac_unit :: "string option"
  ac_confidence :: confidence_label
  ac_sourceCount :: int
  ac_commonlyForgotten :: bool

definition confidenceLabel :: "rat \<Rightarrow> nat \<Rightarrow> confidence_label" where
  "confidenceLabel avg sourceCount =
     (if sourceCount \<le> 1 then (if dbl (7/10) \<le> avg then Medium_confidence else Low_confidence)
      else if dbl (7/10) \<le> avg then High_confidence
      else if dbl (4/10) \<le> avg then Medium_confidence else Low_confidence)"

text \<open>\<open>reduce\<close> without an initial value.\<close>

definition minOf :: "money list \<Rightarrow> money" where
  "minOf vals = foldl (\<lambda>a b. if b < a then b else a) (hd vals) (tl vals)"

definition maxOf :: "money list \<Rightarrow> money" where
  "maxOf vals = foldl (\<lambda>a b. if a < b then b else a) (hd vals) (tl vals)"

text \<open>A \<open>Map\<close> lists its keys in the order of their first insertion.\<close>

fun insertion_keys :: "'a list \<Rightarrow> 'a list" where
  "insertion_keys [] = []"
| "insertion_keys (x # xs) = x # filter (\<lambda>y. y \<noteq> x) (insertion_keys xs)"

definition rows_for_range :: "advice_row list \<Rightarrow> advice_row list" where
  "rows_for_range categoryRows =
     (let highTrust = filter (\<lambda>r. ar_reliability r = K_HIGH) categoryRows in if highTrust \<noteq> [] then highTrust else categoryRows)"

definition category_advice :: "advice_row list \<Rightarrow> string \<Rightarrow> advice_category" where
  "category_advice rows category =
     (let categoryRows = filter (\<lambda>r. ar_category r = category) rows;
          rowsForRange = rows_for_range categoryRows;
          mins = List.map_filter ar_amountMin rowsForRange;
          maxes = List.map_filter ar_amountMax rowsForRange;
          sources = length (remdups (map ar_sourceId rowsForRange));
          avgConfidence = dbl (foldl (\<lambda>sum r. dbl (sum + ar_confidence r)) 0 rowsForRange / of_nat (length rowsForRange))
      in \<lparr>ac_category = category,
          ac_amountMin = (if mins \<noteq> [] then Some (int_to_dec (minOf mins)) else None),
          ac_amountMax = (if maxes \<noteq> [] then Some (int_to_dec (maxOf maxes)) else None),
          ac_unit = Option.bind (List.find (\<lambda>r. truthy_str (ar_unit r)) rowsForRange) ar_unit,
          ac_confidence = (if list_ex (\<lambda>r. ar_reliability r = K_HIGH) categoryRows then High_confidence
            else confidenceLabel avgConfidence sources),
          ac_sourceCount = int sources,
          ac_commonlyForgotten = list_ex ar_commonlyForgotten categoryRows\<rparr>)"

definition figure :: "string option \<Rightarrow> money" where
  "figure s = (if truthy_str s then (case BigInt (the s) of Inr v \<Rightarrow> v | Inl _ \<Rightarrow> 0) else 0)"

definition aggregateByCategory :: "advice_row list \<Rightarrow> advice_category list" where
  "aggregateByCategory rows =
     order_desc (\<lambda>c. figure (ac_amountMax c)) (map (category_advice rows) (insertion_keys (map ar_category rows)))"

section \<open>The recommendation\<close>

record budget_recommendation =
  br_resolved :: bool
  br_eventType :: string
  br_region :: "string option"
  br_tier :: "string option"
  br_categories :: "advice_category list"
  br_totalRange :: "(string \<times> string) option"
  br_possiblyMissing :: "string list"
  br_regionalNote :: "string option"
  br_asOf :: "string option"
  br_instruction :: "string option"

record recommendation_input =
  bi_eventType :: string
  bi_region :: "string option"
  bi_guestCount :: "rat option"
  bi_tier :: "string option"
  bi_existingCategories :: "string list option"

definition no_data_instruction :: "string \<Rightarrow> string" where
  "no_data_instruction eventType =
     ''Akabbo has NO data for '' @ [CHR 0x22] @ eventType @ [CHR 0x22] @ '' yet '' @ em_dash
     @ '' not from curated sources, not from a live search. ''
     @ ''Do NOT invent categories, items, or prices from your own general knowledge, even ones you are ''
     @ ''confident are typical for this kind of event. Tell the user plainly that there is no data for ''
     @ ''this yet, and ask if they want to build the budget from their own numbers instead.''"

definition thin_instruction :: "string \<Rightarrow> nat \<Rightarrow> string" where
  "thin_instruction eventType n =
     ''Coverage for '' @ [CHR 0x22] @ eventType @ [CHR 0x22] @ '' is thin '' @ em_dash @ '' only '' @ nat_to_dec n
     @ '' categor'' @ (if n = 1 then ''y'' else ''ies'') @ '' of real data below. ''
     @ ''Present ONLY what is in categories/possiblyMissing '' @ em_dash @ '' do NOT add other categories, items, or ''
     @ ''prices from your own general knowledge, even ones you are confident are typical for this event. ''
     @ ''If you want to mention other likely categories, say plainly that Akabbo doesn'' @ [CHR 0x27] @ ''t have pricing ''
     @ ''data for them yet rather than presenting a number for them.''"

definition regional_note :: string where
  "regional_note = ''No region-specific data for this area yet '' @ em_dash
     @ '' showing the Uganda-wide/Kampala-anchored baseline. Published guides suggest costs outside Kampala tend to run ''
     @ ''roughly 20-40% lower.''"

text \<open>The loop over the categories: what has both ends and is not itself a total is added up.\<close>

definition is_total :: "advice_category \<Rightarrow> bool" where
  "is_total c = (take 7 (ac_category c) = ''Total ('')"

definition add_category :: "money \<times> money \<times> bool \<Rightarrow> advice_category \<Rightarrow> money \<times> money \<times> bool" where
  "add_category acc c = (case acc of (totalMin, totalMax, hasTotal) \<Rightarrow>
     (if ac_amountMin c \<noteq> None \<and> ac_amountMax c \<noteq> None \<and> \<not> is_total c
      then (totalMin + figure (ac_amountMin c), totalMax + figure (ac_amountMax c), True) else acc))"

definition total_range :: "advice_category list \<Rightarrow> (string \<times> string) option" where
  "total_range cs = (case foldl add_category (0, 0, False) cs of
     (totalMin, totalMax, hasTotal) \<Rightarrow> if hasTotal then Some (int_to_dec totalMin, int_to_dec totalMax) else None)"

definition latest :: "advice_row list \<Rightarrow> time option" where
  "latest rows = foldl (\<lambda>l r. case l of None \<Rightarrow> Some (ar_observedAt r)
     | Some t \<Rightarrow> Some (if t < ar_observedAt r then ar_observedAt r else t)) None rows"

definition recommend :: "recommendation_input \<Rightarrow> string \<Rightarrow> string option \<Rightarrow> advice_row list \<Rightarrow> budget_recommendation" where
  "recommend i eventType region rows =
     (if rows = [] then
        \<lparr>br_resolved = False, br_eventType = eventType, br_region = region, br_tier = bi_tier i, br_categories = [],
         br_totalRange = None, br_possiblyMissing = [], br_regionalNote = None, br_asOf = None,
         br_instruction = Some (no_data_instruction eventType)\<rparr>
      else
        let categories = aggregateByCategory (filter (\<lambda>r. ar_amountMin r \<noteq> None \<or> ar_amountMax r \<noteq> None) rows);
            existing = map normalize (nullish (bi_existingCategories i) [])
        in \<lparr>br_resolved = True, br_eventType = eventType, br_region = region, br_tier = bi_tier i,
            br_categories = categories, br_totalRange = total_range categories,
            br_possiblyMissing = insertion_keys (map ar_category
              (filter (\<lambda>r. ar_commonlyForgotten r \<and> normalize (ar_category r) \<notin> set existing) rows)),
            br_regionalNote = (if truthy_str region \<and> \<not> list_ex (\<lambda>r. ar_region r = region) rows
              then Some regional_note else None),
            br_asOf = map_option (\<lambda>t. take 7 (toISOString t)) (latest rows),
            br_instruction = (if length categories < MIN_CATEGORIES_FOR_COVERAGE
              then Some (thin_instruction eventType (length categories)) else None)\<rparr>)"

definition getRecommendation :: "knowledge_env \<Rightarrow> env \<Rightarrow> recommendation_input \<Rightarrow> budget_recommendation svc" where
  "getRecommendation kx env i =
     (let eventType = normalize (bi_eventType i); region = normalized_opt (bi_region i)
      in and_then (queryObservations env eventType region (bi_tier i)) (\<lambda>first.
         and_then (if hasUsableCoverage first then svc_ret first
            else and_then (maybeBackfillLive kx env eventType) (\<lambda>_. queryObservations env eventType region (bi_tier i))) (\<lambda>rows.
         svc_ret (recommend i eventType region rows))))"

section \<open>Reference definition\<close>

text \<open>The observations a request may use, and those it trusts for a category: the vetted ones when
  there are any.\<close>

definition usable :: "env \<Rightarrow> recommendation_input \<Rightarrow> observation_row \<Rightarrow> bool" where
  "usable env i b \<longleftrightarrow> kb_eventType b = normalize (bi_eventType i) \<and> now env - STALE_AFTER_MS \<le> kb_observedAt b
     \<and> tier_fits (bi_tier i) b
     \<and> (truthy_str (normalized_opt (bi_region i)) \<longrightarrow> truthy_str (kb_region b) \<longrightarrow> kb_region b = normalized_opt (bi_region i))"

definition vetted :: "store \<Rightarrow> observation_row \<Rightarrow> bool" where
  "vetted st b \<longleftrightarrow> reliability_of st (kb_sourceId b) = K_HIGH"

definition offers :: "env \<Rightarrow> recommendation_input \<Rightarrow> store \<Rightarrow> string \<Rightarrow> observation_row set" where
  "offers env i st category = {b \<in> set (observations st). usable env i b \<and> kb_category b = category
     \<and> (kb_amountMin b \<noteq> None \<or> kb_amountMax b \<noteq> None)}"

definition trusted :: "env \<Rightarrow> recommendation_input \<Rightarrow> store \<Rightarrow> string \<Rightarrow> observation_row set" where
  "trusted env i st category =
     (if \<exists>b\<in>offers env i st category. vetted st b then {b \<in> offers env i st category. vetted st b}
      else offers env i st category)"

definition amounts_in :: "(observation_row \<Rightarrow> money option) \<Rightarrow> observation_row set \<Rightarrow> money set" where
  "amounts_in f bs = {v. \<exists>b\<in>bs. f b = Some v}"

section \<open>Figures\<close>

lemma minOf_Min: "vals \<noteq> [] \<Longrightarrow> minOf vals = Min (set vals)"
proof -
  have "(\<lambda>x s. if x < s then x else s) = (min :: money \<Rightarrow> money \<Rightarrow> money)" by (auto simp: fun_eq_iff min_def)
  then show "vals \<noteq> [] \<Longrightarrow> minOf vals = Min (set vals)"
    by (cases vals) (simp_all add: minOf_def foldl_conv_fold Min.set_eq_fold del: list.set)
qed

lemma maxOf_Max: "vals \<noteq> [] \<Longrightarrow> maxOf vals = Max (set vals)"
proof -
  have "(\<lambda>x s. if s < x then x else s) = (max :: money \<Rightarrow> money \<Rightarrow> money)" by (auto simp: fun_eq_iff max_def)
  then show "vals \<noteq> [] \<Longrightarrow> maxOf vals = Max (set vals)"
    by (cases vals) (simp_all add: maxOf_def foldl_conv_fold Max.set_eq_fold del: list.set)
qed

lemma set_map_filter: "set (List.map_filter f xs) = {v. \<exists>x\<in>set xs. f x = Some v}"
  by (force simp: List.map_filter_def)

lemma set_insertion_keys [simp]: "set (insertion_keys xs) = set xs"
  by (induction xs) auto

lemma distinct_map_order: "distinct (map f (order_desc k xs)) = distinct (map f xs)"
  by (rule mset_eq_imp_distinct_iff) simp

lemma distinct_insertion_keys: "distinct (insertion_keys xs)"
  by (induction xs) auto

lemma matching_in:
  "r \<in> set (matching_rows env e tier st) \<longleftrightarrow> (\<exists>b\<in>set (observations st). r = advice_row_of st b \<and> kb_eventType b = e
     \<and> now env - STALE_AFTER_MS \<le> kb_observedAt b \<and> tier_fits tier b)"
  by (auto simp: matching_rows_def)

lemma regional_in:
  "r \<in> set (regional_rows region all) \<longleftrightarrow> r \<in> set all
     \<and> (truthy_str region \<longrightarrow> truthy_str (ar_region r) \<longrightarrow> ar_region r = region)"
  by (auto simp: regional_rows_def Let_def filter_empty_conv)

lemma advice_row_fields [simp]:
  "ar_category (advice_row_of st b) = kb_category b" "ar_region (advice_row_of st b) = kb_region b"
  "ar_amountMin (advice_row_of st b) = kb_amountMin b" "ar_amountMax (advice_row_of st b) = kb_amountMax b"
  "ar_reliability (advice_row_of st b) = reliability_of st (kb_sourceId b)"
  by (simp_all add: advice_row_of_def)

text \<open>The rows of a request are the usable observations.\<close>

definition request_rows :: "env \<Rightarrow> recommendation_input \<Rightarrow> store \<Rightarrow> advice_row list" where
  "request_rows env i st =
     regional_rows (normalized_opt (bi_region i)) (matching_rows env (normalize (bi_eventType i)) (bi_tier i) st)"

lemma request_rows_in:
  "set (request_rows env i st) = advice_row_of st ` {b \<in> set (observations st). usable env i b}"
  by (auto simp: request_rows_def regional_in matching_in usable_def image_iff; blast)

lemma rows_for_range_in:
  "r \<in> set (rows_for_range rs) \<longleftrightarrow> r \<in> set rs \<and> ((\<exists>q\<in>set rs. ar_reliability q = K_HIGH) \<longrightarrow> ar_reliability r = K_HIGH)"
  by (auto simp: rows_for_range_def Let_def filter_empty_conv)

definition priced :: "advice_row list \<Rightarrow> advice_row list" where
  "priced rows = filter (\<lambda>r. ar_amountMin r \<noteq> None \<or> ar_amountMax r \<noteq> None) rows"

lemma priced_rows_in:
  "set (priced (request_rows env i st)) =
     advice_row_of st ` {b \<in> set (observations st). usable env i b \<and> (kb_amountMin b \<noteq> None \<or> kb_amountMax b \<noteq> None)}"
  unfolding priced_def set_filter request_rows_in by auto

lemma range_rows_in:
  "set (rows_for_range (filter (\<lambda>r. ar_category r = category) (priced (request_rows env i st)))) =
     advice_row_of st ` trusted env i st category"
proof -
  have "r \<in> set (filter (\<lambda>r. ar_category r = category) (priced (request_rows env i st))) \<longleftrightarrow>
      r \<in> advice_row_of st ` offers env i st category" for r
    unfolding set_filter priced_rows_in by (auto simp: offers_def)
  then have set: "set (filter (\<lambda>r. ar_category r = category) (priced (request_rows env i st))) =
      advice_row_of st ` offers env i st category" by blast
  show ?thesis
    unfolding set_eq_iff rows_for_range_in set by (auto simp: trusted_def vetted_def)
qed

lemma map_filter_range:
  assumes "\<And>b. f (advice_row_of st b) = g b"
  shows "set (List.map_filter f (rows_for_range (filter (\<lambda>r. ar_category r = category) (priced (request_rows env i st)))))
    = amounts_in g (trusted env i st category)"
  unfolding set_map_filter range_rows_in by (auto simp: amounts_in_def assms)

lemma category_figures:
  fixes env i st category
  defines "c \<equiv> category_advice (priced (request_rows env i st)) category"
  shows "ac_category c = category"
    and "ac_amountMin c = (if amounts_in kb_amountMin (trusted env i st category) = {} then None
       else Some (int_to_dec (Min (amounts_in kb_amountMin (trusted env i st category)))))"
    and "ac_amountMax c = (if amounts_in kb_amountMax (trusted env i st category) = {} then None
       else Some (int_to_dec (Max (amounts_in kb_amountMax (trusted env i st category)))))"
proof -
  note sets = map_filter_range [of ar_amountMin st kb_amountMin category env i]
    map_filter_range [of ar_amountMax st kb_amountMax category env i]
  show "ac_category c = category" by (simp add: c_def category_advice_def Let_def)
  show "ac_amountMin c = (if amounts_in kb_amountMin (trusted env i st category) = {} then None
       else Some (int_to_dec (Min (amounts_in kb_amountMin (trusted env i st category)))))"
    using sets(1) by (simp add: c_def category_advice_def Let_def minOf_Min flip: set_empty)
  show "ac_amountMax c = (if amounts_in kb_amountMax (trusted env i st category) = {} then None
       else Some (int_to_dec (Max (amounts_in kb_amountMax (trusted env i st category)))))"
    using sets(2) by (simp add: c_def category_advice_def Let_def maxOf_Max flip: set_empty)
qed

text \<open>What is returned is computed from the rows as they are in the end.\<close>

lemma queryObservations_rows:
  "queryObservations env (normalize (bi_eventType i)) (normalized_opt (bi_region i)) (bi_tier i) st = (st', Inr rows) \<Longrightarrow>
     st' = st \<and> rows = request_rows env i st"
  by (auto simp: queryObservations_def request_rows_def split: if_splits)

lemma getRecommendation_rows:
  assumes "getRecommendation kx env i st = (st', Inr r)"
  shows "r = recommend i (normalize (bi_eventType i)) (normalized_opt (bi_region i)) (request_rows env i st')"
  using assms
  by (auto simp: getRecommendation_def Let_def and_then_Inr dest!: queryObservations_rows split: if_splits)

lemma recommend_categories:
  "set (br_categories (recommend i e region rows)) = category_advice (priced rows) ` (ar_category ` set (priced rows))"
  by (auto simp: recommend_def Let_def aggregateByCategory_def priced_def)

lemma fold_categories:
  "foldl add_category (a, b, t) cs =
     (a + (\<Sum>c\<leftarrow>cs. if ac_amountMin c \<noteq> None \<and> ac_amountMax c \<noteq> None \<and> \<not> is_total c then figure (ac_amountMin c) else 0),
      b + (\<Sum>c\<leftarrow>cs. if ac_amountMin c \<noteq> None \<and> ac_amountMax c \<noteq> None \<and> \<not> is_total c then figure (ac_amountMax c) else 0),
      t \<or> list_ex (\<lambda>c. ac_amountMin c \<noteq> None \<and> ac_amountMax c \<noteq> None \<and> \<not> is_total c) cs)"
  by (induction cs arbitrary: a b t) (auto simp: add_category_def algebra_simps)

section \<open>Guarantees\<close>

text \<open>C29. No figure of a recommendation is invented: each category it names has a usable observation,
  its least and greatest amount are the least and the greatest amount stored for it, taken over
  the vetted observations alone as soon as there is one, and nothing is recommended when the
  base has no usable observation.\<close>

theorem recommendation_grounded:
  assumes "getRecommendation kx env i st = (st', Inr r)"
  shows "(\<forall>c\<in>set (br_categories r).
        offers env i st' (ac_category c) \<noteq> {}
        \<and> ac_amountMin c = (let vs = amounts_in kb_amountMin (trusted env i st' (ac_category c))
             in if vs = {} then None else Some (int_to_dec (Min vs)))
        \<and> ac_amountMax c = (let vs = amounts_in kb_amountMax (trusted env i st' (ac_category c))
             in if vs = {} then None else Some (int_to_dec (Max vs))))
    \<and> ac_category ` set (br_categories r) = {k. offers env i st' k \<noteq> {}}
    \<and> distinct (map ac_category (br_categories r))
    \<and> br_resolved r = (\<exists>b\<in>set (observations st'). usable env i b)"
proof (intro conjI ballI)
  let ?rows = "request_rows env i st'"
  note r = getRecommendation_rows [OF assms]
  have offered: "ar_category ` set (priced ?rows) = {k. offers env i st' k \<noteq> {}}"
    unfolding priced_rows_in image_image by (auto simp: offers_def)
  then have cats: "set (br_categories r) = category_advice (priced ?rows) ` {k. offers env i st' k \<noteq> {}}"
    by (simp only: r recommend_categories)
  show "ac_category ` set (br_categories r) = {k. offers env i st' k \<noteq> {}}"
    unfolding cats by (auto simp: image_iff category_figures(1))
  have "?rows = [] \<longleftrightarrow> advice_row_of st' ` {b \<in> set (observations st'). usable env i b} = {}"
    unfolding request_rows_in [symmetric] by simp
  then show "br_resolved r = (\<exists>b\<in>set (observations st'). usable env i b)"
    by (auto simp: r recommend_def Let_def)
  have "distinct (map ac_category (map (category_advice rows) (insertion_keys ks)))" for rows ks
    by (simp add: category_advice_def Let_def comp_def distinct_insertion_keys)
  then show "distinct (map ac_category (br_categories r))"
    unfolding r recommend_def Let_def aggregateByCategory_def by (simp add: distinct_map_order del: map_map)
  fix c assume "c \<in> set (br_categories r)"
  then obtain k where k: "c = category_advice (priced ?rows) k" "offers env i st' k \<noteq> {}" using cats by auto
  show "offers env i st' (ac_category c) \<noteq> {}" using k by (simp add: category_figures(1))
  show "ac_amountMin c = (let vs = amounts_in kb_amountMin (trusted env i st' (ac_category c))
      in if vs = {} then None else Some (int_to_dec (Min vs)))"
    "ac_amountMax c = (let vs = amounts_in kb_amountMax (trusted env i st' (ac_category c))
      in if vs = {} then None else Some (int_to_dec (Max vs)))"
    unfolding k(1) category_figures(1) Let_def by (rule category_figures)+
qed

definition demo_source :: "uuid \<Rightarrow> knowledge_reliability \<Rightarrow> knowledge_source_row" where
  "demo_source i reliability = \<lparr>ks_id = i, ks_sourceType = public_article, ks_name = i, ks_url = None, ks_publishedAt = None,
     ks_collectedAt = 0, ks_reliability = reliability, ks_licensingNote = '''', ks_extractionMethod = K_manual,
     ks_storageKey = None, ks_originalFilename = None, ks_mimeType = None, ks_createdAt = 0\<rparr>"

definition demo_observation :: "uuid \<Rightarrow> string \<Rightarrow> money \<Rightarrow> money \<Rightarrow> observation_row" where
  "demo_observation source category low high = \<lparr>kb_id = category, kb_sourceId = source, kb_eventType = ''wedding'',
     kb_region = None, kb_tier = None, kb_category = category, kb_item = None, kb_amountMin = Some low,
     kb_amountMax = Some high, kb_unit = None, kb_commonlyForgotten = False, kb_confidence = 1, kb_observedAt = 0,
     kb_createdAt = 0\<rparr>"

definition demo_knowledge :: store where
  "demo_knowledge = empty_store\<lparr>knowledge_sources := [demo_source ''S1'' K_LOW, demo_source ''S2'' K_HIGH],
     observations := [demo_observation ''S1'' ''Food'' 10 20, demo_observation ''S2'' ''Food'' 40 50,
       demo_observation ''S1'' ''Tents'' 5 6, demo_observation ''S1'' ''Music'' 3 9]\<rparr>"

definition demo_kx :: knowledge_env where
  "demo_kx = \<lparr>kx_search = (\<lambda>q. Inl (Thrown ''offline'')), kx_llm = (\<lambda>m. Inl (Thrown ''offline'')),
     kx_vision = (\<lambda>m t b. Inl (Thrown ''offline'')), kx_prompt = '''', kx_hostname = (\<lambda>u. Some u), kx_date = (\<lambda>d. None),
     kx_put = (\<lambda>k b m. None), kx_readers = \<lparr>or_docx = (\<lambda>b. Inr ''''), or_xlsx = (\<lambda>b. Inr [])\<rparr>\<rparr>"

definition demo_request :: recommendation_input where
  "demo_request = \<lparr>bi_eventType = '' Wedding'', bi_region = None, bi_guestCount = None, bi_tier = None,
     bi_existingCategories = None\<rparr>"

definition demo_clock :: env where
  "demo_clock = \<lparr>now = 0, plan_cache = None\<rparr>"

lemma demo_advice:
  "case getRecommendation demo_kx demo_clock demo_request demo_knowledge of
     (st, Inr r) \<Rightarrow> br_totalRange r = Some (''48'', ''65'') \<and> br_resolved r
       \<and> map ac_amountMin (br_categories r) = [Some ''40'', Some ''3'', Some ''5'']
   | (st, Inl e) \<Rightarrow> False"
  by code_simp

theorem recommendation_grounded_witness:
  "\<exists>st r. getRecommendation demo_kx demo_clock demo_request demo_knowledge = (st, Inr r)
     \<and> ac_category ` set (br_categories r) = {k. offers demo_clock demo_request st k \<noteq> {}}
     \<and> br_totalRange r = Some (''48'', ''65'')"
proof -
  obtain st r where r: "getRecommendation demo_kx demo_clock demo_request demo_knowledge = (st, Inr r)"
    "br_totalRange r = Some (''48'', ''65'')"
    using demo_advice by (auto split: prod.splits sum.splits)
  from recommendation_grounded [OF r(1)] r show ?thesis by blast
qed

section \<open>Live search\<close>

text \<open>A source a live search adds, and how the knowledge base grows.\<close>

definition live_source :: "knowledge_env \<Rightarrow> env \<Rightarrow> string \<Rightarrow> knowledge_source_row \<Rightarrow> bool" where
  "live_source kx env key s \<longleftrightarrow> take (length key) (ks_name s) = key \<and> ks_extractionMethod s = ai_extraction_live
     \<and> ks_collectedAt s = now env \<and> ks_reliability s \<noteq> K_HIGH
     \<and> (case ks_url s of Some u \<Rightarrow> \<not> isBlockedSource (kx_hostname kx) u | None \<Rightarrow> True)"

definition learns :: "(knowledge_source_row \<Rightarrow> bool) \<Rightarrow> store \<Rightarrow> knowledge_source_row list \<Rightarrow> store \<Rightarrow> bool" where
  "learns P st new st' \<longleftrightarrow> list_all P new \<and> (\<exists>n obs. st' = st\<lparr>knowledge_sources := knowledge_sources st @ new,
     observations := observations st @ obs, drawn := n\<rparr>)"

lemma learns_refl: "learns P st [] st"
  unfolding learns_def by (intro conjI exI [of _ "drawn st"] exI [of _ "[]"]) simp_all

lemma learns_nothing [intro!]: "\<exists>new. learns P st new st"
  using learns_refl by blast

lemma learns_trans: "learns P a xs b \<Longrightarrow> learns P b ys c \<Longrightarrow> learns P a (xs @ ys) c"
  by (auto simp: learns_def; blast)

lemma no_clash [simp]: "\<not> list_ex (\<lambda>_. False) xs"
  by (induction xs) simp_all

lemma source_create_learns:
  "knowledge_source_create env i st = (st', Inr s) \<Longrightarrow> P s \<Longrightarrow> learns P st [s] st'"
  unfolding learns_def
  by (intro conjI exI [of _ "Suc (drawn st)"] exI [of _ "[]"])
     (auto simp: knowledge_source_create_def global_create_def Let_def draw_def)

lemma ingestObservations_learns:
  assumes "\<And>new. P \<lparr>ks_id = new, ks_sourceType = ki_sourceType i, ks_name = ki_name i, ks_url = ki_url i,
      ks_publishedAt = ki_publishedAt i, ks_collectedAt = now env, ks_reliability = ki_reliability i,
      ks_licensingNote = ki_licensingNote i, ks_extractionMethod = ki_extractionMethod i, ks_storageKey = ki_storageKey i,
      ks_originalFilename = ki_originalFilename i, ks_mimeType = ki_mimeType i, ks_createdAt = now env\<rparr>"
  obtains s st' where "ingestObservations env i obs st = (st', Inr (ks_id s, int (length obs)))" "learns P st [s] st'"
proof -
  obtain s st1 where s: "knowledge_source_create env i st = (st1, Inr s)" "P s"
    using assms by (auto simp: knowledge_source_create_def global_create_def Let_def)
  note first = source_create_learns [where P = P, OF s]
  let ?rest = "if obs \<noteq> [] then observation_create_many (map (observation_of env (ks_id s)) obs) else svc_ret ()"
  have "?rest st1 = (fst (?rest st1), Inr ())" "learns P st1 [] (fst (?rest st1))"
    by (auto simp: observation_create_many_def learns_refl) (auto simp: learns_def)
  then obtain st2 where rest: "?rest st1 = (st2, Inr ())" "learns P st1 [] st2" by blast
  have "ingestObservations env i obs st = (st2, Inr (ks_id s, int (length obs)))"
    by (simp only: ingestObservations_def and_then_def s(1) rest(1) prod.case sum.case svc_ret_def)
  with learns_trans [OF first rest(2)] show thesis by (intro that) simp_all
qed

text \<open>One result, the loop over the results, and the record of an attempt.\<close>

lemma live_result_learns:
  assumes "ingestLiveResult kx env topic key r st = (st', res)" "\<not> isBlockedSource (kx_hostname kx) (sr_url r)"
  shows "\<exists>new. learns (live_source kx env key) st new st' \<and> (case res of Inr n \<Rightarrow> n = 0 \<or> new \<noteq> [] | Inl _ \<Rightarrow> True)"
proof -
  let ?P = "live_source kx env key"
  have some: "\<exists>s st2. ingestObservations env (live_source_input kx key r published) obs st =
      (st2, Inr (ks_id s, int (length obs))) \<and> learns ?P st [s] st2" for published obs
    by (rule ingestObservations_learns [where P = ?P and env = env and obs = obs and st = st
          and i = "live_source_input kx key r published"])
       (use assms(2) in \<open>auto simp: live_source_def live_source_input_def Let_def\<close>)
  show ?thesis
  proof (cases "read_result kx r")
    case (Inl e)
    then show ?thesis using assms(1) learns_refl [of ?P st] by (auto simp: ingestLiveResult_def)
  next
    case (Inr found)
    show ?thesis
    proof (cases "found = None \<or> (\<exists>e. published_at kx r = Inl e)")
      case True
      then show ?thesis using assms(1) Inr learns_refl [of ?P st] by (auto simp: ingestLiveResult_def split: option.splits)
    next
      case False
      then obtain topic2 facts published where "found = Some (topic2, facts)" "published_at kx r = Inr published"
        by (cases "published_at kx r") auto
      moreover obtain s st2 where "ingestObservations env (live_source_input kx key r published)
          (map (\<lambda>f. observed (if topic2 \<noteq> [] then topic2 else topic) (kf_region f)
             (min (kf_confidence f) (dbl (6/10))) (nullish published (now env)) f) facts) st =
          (st2, Inr (ks_id s, int (length facts)))" "learns ?P st [s] st2"
        using some [of published "map (\<lambda>f. observed (if topic2 \<noteq> [] then topic2 else topic) (kf_region f)
             (min (kf_confidence f) (dbl (6/10))) (nullish published (now env)) f) facts"] by auto
      ultimately have "st' = st2" "res = Inr (int (length facts))" "learns ?P st [s] st2"
        using assms(1) Inr by (simp_all add: ingestLiveResult_def and_then_def)
      then show ?thesis by (intro exI [of _ "[s]"]) simp
    qed
  qed
qed

lemma ingest_results_learns:
  assumes "ingest_results kx env topic key rs n st = (st', k)"
    "list_all (\<lambda>r. \<not> isBlockedSource (kx_hostname kx) (sr_url r)) rs"
  shows "\<exists>new. learns (live_source kx env key) st new st' \<and> (k = n \<or> new \<noteq> [])"
  using assms
proof (induction rs arbitrary: n st)
  case Nil
  then show ?case using learns_refl by force
next
  case (Cons r rs)
  obtain st1 res where first: "ingestLiveResult kx env topic key r st = (st1, res)" by fastforce
  then obtain new where new: "learns (live_source kx env key) st new st1"
    "case res of Inr n \<Rightarrow> n = 0 \<or> new \<noteq> [] | Inl _ \<Rightarrow> True"
    using live_result_learns Cons.prems(2) by fastforce
  have "ingest_results kx env topic key rs (n + (case res of Inr m \<Rightarrow> m | Inl _ \<Rightarrow> 0)) st1 = (st', k)"
    using Cons.prems(1) first by (auto split: sum.splits)
  with Cons.IH [OF this] Cons.prems(2) obtain more where more: "learns (live_source kx env key) st1 more st'"
    "k = n + (case res of Inr m \<Rightarrow> m | Inl _ \<Rightarrow> 0) \<or> more \<noteq> []" by auto
  show ?case
    using learns_trans [OF new(1) more(1)] more(2) new(2)
    by (intro exI [of _ "new @ more"]) (auto split: sum.splits)
qed

lemma attempt_learns:
  "\<exists>s st'. recordSearchAttempt env key n st = (st', Inr ()) \<and> learns (live_source kx env key) st [s] st'"
proof -
  let ?i = "\<lparr>ki_sourceType = public_article, ki_name = key, ki_url = None,
        ki_publishedAt = None, ki_reliability = K_LOW,
        ki_licensingNote = ''Live search attempt ('' @ int_to_dec n @ '' observation(s) ingested) '' @ em_dash
          @ '' domain-blocklist enforced, Scribd/Slideshare/Everand excluded.'',
        ki_extractionMethod = ai_extraction_live, ki_storageKey = None, ki_originalFilename = None, ki_mimeType = None\<rparr>"
  obtain s st1 where s: "knowledge_source_create env ?i st = (st1, Inr s)" "live_source kx env key s"
    by (auto simp: knowledge_source_create_def global_create_def Let_def live_source_def)
  from source_create_learns [where P = "live_source kx env key", OF this] s(1) show ?thesis
    unfolding recordSearchAttempt_def by (auto simp: and_then_def)
qed

lemma backfill_learns:
  assumes "maybeBackfillLive kx env topic st = (st', r)" "\<not> searched_recently env (live_key topic) st"
  shows "r = Inr () \<and> (\<exists>new. new \<noteq> [] \<and> learns (live_source kx env (live_key topic)) st new st')"
proof (cases "kx_search kx (topic @ '' budget cost Uganda'')")
  case (Inl e)
  then show ?thesis
    using assms attempt_learns [of env "live_key topic" 0 st kx] by (auto simp: maybeBackfillLive_def Let_def)
next
  case (Inr results)
  obtain st1 k where loop: "ingest_results kx env topic (live_key topic)
      (filter (\<lambda>r. \<not> isBlockedSource (kx_hostname kx) (sr_url r)) results) 0 st = (st1, k)" by fastforce
  then obtain new where new: "learns (live_source kx env (live_key topic)) st new st1" "k = 0 \<or> new \<noteq> []"
    using ingest_results_learns by (fastforce simp: list_all_iff)
  show ?thesis
  proof (cases "k = 0")
    case True
    then have "recordSearchAttempt env (live_key topic) 0 st1 = (st', r)"
      using assms Inr loop by (simp add: maybeBackfillLive_def Let_def)
    then obtain s where "r = Inr ()" "learns (live_source kx env (live_key topic)) st1 [s] st'"
      using attempt_learns [of env "live_key topic" 0 st1 kx] by auto
    then show ?thesis using learns_trans [OF new(1)] by blast
  next
    case False
    then show ?thesis using assms Inr loop new by (auto simp: maybeBackfillLive_def Let_def)
  qed
qed

text \<open>C30. Live search is bounded and contained: it writes only to the shared knowledge base, no source
  of a blocked host gets in and nothing it adds counts as vetted; and after a search for a topic,
  for a week, whatever else is added meanwhile and whatever the providers would answer, no
  further search for that topic is made.\<close>

theorem live_search_contained:
  assumes "maybeBackfillLive kx env topic st = (st1, r)" "\<not> searched_recently env (live_key topic) st"
    and "now env \<le> now later" "now later \<le> now env + LIVE_SEARCH_COOLDOWN_MS"
    and "set (knowledge_sources st1) \<subseteq> set (knowledge_sources st2)"
  shows "(\<exists>new obs n. st1 = st\<lparr>knowledge_sources := knowledge_sources st @ new,
        observations := observations st @ obs, drawn := n\<rparr>
      \<and> (\<forall>s\<in>set new. ks_reliability s \<noteq> K_HIGH
           \<and> (case ks_url s of Some u \<Rightarrow> \<not> isBlockedSource (kx_hostname kx) u | None \<Rightarrow> True)))
    \<and> maybeBackfillLive other_kx later topic st2 = (st2, Inr ())"
proof
  obtain new where new: "new \<noteq> []" "learns (live_source kx env (live_key topic)) st new st1"
    using backfill_learns [OF assms(1,2)] by blast
  then show "\<exists>new obs n. st1 = st\<lparr>knowledge_sources := knowledge_sources st @ new,
        observations := observations st @ obs, drawn := n\<rparr>
      \<and> (\<forall>s\<in>set new. ks_reliability s \<noteq> K_HIGH
           \<and> (case ks_url s of Some u \<Rightarrow> \<not> isBlockedSource (kx_hostname kx) u | None \<Rightarrow> True))"
    by (auto simp: learns_def live_source_def list_all_iff)
  have "hd new \<in> set (knowledge_sources st2)" "live_source kx env (live_key topic) (hd new)"
    using new assms(5) by (auto simp: learns_def list_all_iff)
  then have "searched_recently later (live_key topic) st2"
    using assms(3,4) by (auto simp: searched_recently_def live_source_def list_ex_iff intro!: bexI [of _ "hd new"])
  then show "maybeBackfillLive other_kx later topic st2 = (st2, Inr ())"
    by (simp add: maybeBackfillLive_def Let_def)
qed

theorem live_search_contained_witness:
  "\<exists>st1. maybeBackfillLive demo_kx demo_clock ''funeral'' demo_knowledge = (st1, Inr ())
     \<and> maybeBackfillLive demo_kx demo_clock ''funeral'' st1 = (st1, Inr ())"
proof -
  have cold: "\<not> searched_recently demo_clock (live_key ''funeral'') demo_knowledge" by code_simp
  obtain st1 r where st1: "maybeBackfillLive demo_kx demo_clock ''funeral'' demo_knowledge = (st1, r)" by fastforce
  have "0 \<le> LIVE_SEARCH_COOLDOWN_MS" by (simp add: LIVE_SEARCH_COOLDOWN_MS_def)
  then show ?thesis
    using live_search_contained [OF st1 cold order_refl _ subset_refl, of demo_kx] backfill_learns [OF st1 cold] st1 by simp
qed

end
