(* ===== verification/Document_Properties.thy ===== *)
theory Document_Properties
  imports Document_Reading Budget_Advice Assistant_Properties
begin

text \<open>
  What reading a document may do: whatever the model answers, nothing but proposals that wait for
  a human, and every document that is taken ends in a final state and is never read again.
\<close>

section \<open>Reading only proposes\<close>

context store_relation
begin

lemma svc_catch: "svc_keeps R m \<Longrightarrow> (\<And>e. svc_keeps R (h e)) \<Longrightarrow> svc_keeps R (svc_catch m h)"
  unfolding svc_keeps_def svc_catch_def by (fastforce intro: rel_trans split: prod.splits sum.splits)

lemma svc_then_known:
  assumes "svc_keeps R m" "\<And>st st' x. m st = (st', Inr x) \<Longrightarrow> svc_keeps R (k x)"
  shows "svc_keeps R (and_then m k)"
proof (rule svc_keepsI)
  fix st st' r assume run: "and_then m k st = (st', r)"
  obtain st1 y where m: "m st = (st1, y)" by fastforce
  note first = svc_keepsD [OF assms(1) m]
  then show "R st st'"
    using run m svc_keepsD [OF assms(2)] rel_trans by (cases y) (auto simp: and_then_def)
qed

lemma requireContext_reads: "svc_keeps R (requireContext a e)"
  unfolding requireContext_def resolveContext_def
  by (intro svc_and_then svc_basic svc_query svc_keeps_option)

lemma readBytes_reads: "svc_keeps R (readBytes sx e i)"
  unfolding readBytes_def
  by (auto intro!: svc_and_then svc_basic svc_query svc_keeps_option split: sum.splits)

end

text \<open>The rows a step may write for document \<open>i\<close> of event \<open>e\<close> uploaded by \<open>up\<close>.\<close>

definition waiting :: "uuid \<Rightarrow> uuid option \<Rightarrow> confirmation_row \<Rightarrow> bool" where
  "waiting e up c \<longleftrightarrow> pc_status c = PC_PENDING \<and> pc_eventId c = e \<and> pc_createdById c = up"

definition same_document :: "document_row \<Rightarrow> document_row \<Rightarrow> bool" where
  "same_document d d' \<longleftrightarrow> d_id d' = d_id d \<and> d_eventId d' = d_eventId d \<and> d_fileId d' = d_fileId d
     \<and> d_kind d' = d_kind d \<and> d_uploadedById d' = d_uploadedById d \<and> d_createdAt d' = d_createdAt d"

definition reads_into :: "uuid \<Rightarrow> uuid \<Rightarrow> uuid option \<Rightarrow> store \<Rightarrow> store \<Rightarrow> bool" where
  "reads_into e i up a b \<longleftrightarrow> (\<exists>n new metered xs ks obs f. list_all (waiting e up) new
     \<and> list_all (\<lambda>s. ks_reliability s = K_LOW) ks \<and> (\<forall>d. same_document d (f d))
     \<and> b = a\<lparr>drawn := n, confirmations := confirmations a @ new, usage_events := usage_events a @ metered,
          documents := update_where (\<lambda>d. d_eventId d = e \<and> d_id d = i) f (documents a),
          extractions := extractions a @ xs, knowledge_sources := knowledge_sources a @ ks,
          observations := observations a @ obs\<rparr>)"

lemma reads_intoI:
  assumes "list_all (waiting e up) new" "list_all (\<lambda>s. ks_reliability s = K_LOW) ks"
  shows "reads_into e i up a (a\<lparr>drawn := n, confirmations := confirmations a @ new, usage_events := usage_events a @ metered,
     extractions := extractions a @ xs, knowledge_sources := knowledge_sources a @ ks, observations := observations a @ obs\<rparr>)"
  unfolding reads_into_def using assms
  by (intro exI [of _ n] exI [of _ new] exI [of _ metered] exI [of _ xs] exI [of _ ks] exI [of _ obs] exI [of _ "\<lambda>d. d"])
     (simp add: same_document_def)

lemma reads_into_update:
  assumes "\<And>d. same_document d (f d)"
  shows "reads_into e i up a (a\<lparr>documents := update_where (\<lambda>d. d_eventId d = e \<and> d_id d = i) f (documents a)\<rparr>)"
  unfolding reads_into_def using assms
  by (intro exI [of _ "drawn a"] exI [of _ "[]"] exI [of _ f]) simp

interpretation reads_into: store_relation "reads_into e i up" for e i up
proof
  show "reads_into e i up st st" for st
    using reads_intoI [where new = "[]" and ks = "[]" and n = "drawn st" and metered = "[]" and xs = "[]" and obs = "[]" and a = st] by simp
  show "reads_into e i up a c" if "reads_into e i up a b" and "reads_into e i up b c" for a b c
  proof -
    let ?P = "\<lambda>d. d_eventId d = e \<and> d_id d = i"
    obtain n new metered xs ks obs f where b: "list_all (waiting e up) new" "list_all (\<lambda>s. ks_reliability s = K_LOW) ks"
        "\<And>d. same_document d (f d)"
        "b = a\<lparr>drawn := n, confirmations := confirmations a @ new, usage_events := usage_events a @ metered,
          documents := update_where ?P f (documents a), extractions := extractions a @ xs,
          knowledge_sources := knowledge_sources a @ ks, observations := observations a @ obs\<rparr>"
      using \<open>reads_into e i up a b\<close> unfolding reads_into_def by blast
    obtain n' new' metered' xs' ks' obs' f' where c: "list_all (waiting e up) new'"
        "list_all (\<lambda>s. ks_reliability s = K_LOW) ks'" "\<And>d. same_document d (f' d)"
        "c = b\<lparr>drawn := n', confirmations := confirmations b @ new', usage_events := usage_events b @ metered',
          documents := update_where ?P f' (documents b), extractions := extractions b @ xs',
          knowledge_sources := knowledge_sources b @ ks', observations := observations b @ obs'\<rparr>"
      using \<open>reads_into e i up b c\<close> unfolding reads_into_def by blast
    have same: "same_document d (f' (f d))" for d
      using b(3) [of d] c(3) [of "f d"] by (simp add: same_document_def)
    have "(if ?P (if ?P d then f d else d) then f' (if ?P d then f d else d) else (if ?P d then f d else d))
        = (if ?P d then f' (f d) else d)" for d
      using b(3) [of d] by (auto simp: same_document_def)
    then have upd: "update_where ?P f' (update_where ?P f ds) = update_where ?P (\<lambda>d. f' (f d)) ds" for ds
      by (simp add: update_where_def comp_def)
    show ?thesis
      unfolding reads_into_def using b(1,2) c(1,2) same
      by (intro exI [of _ n'] exI [of _ "new @ new'"] exI [of _ "metered @ metered'"] exI [of _ "xs @ xs'"]
          exI [of _ "ks @ ks'"] exI [of _ "obs @ obs'"] exI [of _ "\<lambda>d. f' (f d)"])
         (simp add: b(4) c(4) upd)
  qed
qed

lemma document_update_reads:
  "(\<And>d. same_document d (f d)) \<Longrightarrow> keeps (in_event e) (reads_into e i up) (document_update i f)"
  by (rule keepsI) (auto simp: document_update_def tbl_update_def split: if_splits option.splits intro!: reads_into_update)

lemma staged_reads:
  "staged_by ctx a b \<Longrightarrow> reads_into (ctx_ev ctx) i (Some (ctx_user ctx)) a b"
  using reads_intoI [where ks = "[]" and xs = "[]" and obs = "[]" and a = a]
  by (fastforce simp: staged_by_def waiting_def list_all_iff)

lemma reading_reads:
  "svc_keeps (reads_into e i up) (recordLlmCall env e' u c m)"
  "keeps s (reads_into e i up) (extraction_create mk)"
  "svc_keeps (reads_into e i up) (feed_knowledge env doc parsed ns)"
proof -
  show "svc_keeps (reads_into e i up) (recordLlmCall env e' u c m)"
  proof (rule svc_keepsI)
    fix st st' r assume "recordLlmCall env e' u c m st = (st', r)"
    then obtain row where "st' = put_usage_events (usage_events st @ [row]) (draw st)"
      by (auto simp: recordLlmCall_def runInEvent_def transaction_def tbl_create_def Let_def await_def)
    then show "reads_into e i up st st'"
      using reads_intoI [where new = "[]" and ks = "[]" and n = "Suc (drawn st)" and metered = "[row]" and xs = "[]" and obs = "[]" and a = st] by (simp add: draw_def)
  qed
  show "keeps s (reads_into e i up) (extraction_create mk)"
    by (rule keepsI) (use reads_intoI [where new = "[]" and ks = "[]" and metered = "[]" and obs = "[]"] in
      \<open>fastforce simp: extraction_create_def tbl_create_def Let_def draw_def split: if_splits\<close>)
  have learnt: "svc_keeps (reads_into e i up) (ingestObservations env (household_source d) rows)" for d rows
  proof (rule svc_keepsI)
    fix st st' r assume run: "ingestObservations env (household_source d) rows st = (st', r)"
    obtain s where "learns (\<lambda>s. ks_reliability s = K_LOW) st [s] st'"
      by (rule ingestObservations_learns [where P = "\<lambda>s. ks_reliability s = K_LOW" and i = "household_source d" and env = env
            and obs = rows and st = st])
         (use run in \<open>auto simp: household_source_def\<close>)
    then obtain n obs where "ks_reliability s = K_LOW" "st' = st\<lparr>knowledge_sources := knowledge_sources st @ [s],
        observations := observations st @ obs, drawn := n\<rparr>"
      by (auto simp: learns_def)
    then show "reads_into e i up st st'"
      using reads_intoI [where new = "[]" and metered = "[]" and xs = "[]" and ks = "[s]" and a = st and n = n and obs = obs]
      by (cases st) simp
  qed
  show "svc_keeps (reads_into e i up) (feed_knowledge env doc parsed ns)"
    unfolding feed_knowledge_def
    by (intro svc_keeps_option svc_keeps_if reads_into.svc_catch reads_into.svc_and_then reads_into.svc_basic learnt)
qed

lemma propose_lines_reads:
  "keeps (in_event e) (reads_into e i up) (propose_lines env e j up q ns)"
proof (induction ns)
  case Nil
  show ?case unfolding propose_lines.simps by (rule reads_into.keeps_ret)
next
  case (Cons n ns)
  have "keeps (in_event e) (reads_into e i up) (confirmation_create (\<lambda>new. \<lparr>pc_id = new, pc_eventId = e, pc_intent = k,
        pc_payload = p, pc_confidence = q, pc_source = s, pc_status = PC_PENDING, pc_prompt = t,
        pc_createdById = up, pc_createdAt = now env, pc_resolvedById = None, pc_resolvedAt = None\<rparr>))" for k p s t
  proof (rule keepsI)
    fix st st' r
    assume "confirmation_create (\<lambda>new. \<lparr>pc_id = new, pc_eventId = e, pc_intent = k,
        pc_payload = p, pc_confidence = q, pc_source = s, pc_status = PC_PENDING, pc_prompt = t,
        pc_createdById = up, pc_createdAt = now env, pc_resolvedById = None, pc_resolvedAt = None\<rparr>) (in_event e) st = Inr (st', r)"
    then show "reads_into e i up st st'"
      using reads_intoI [where new = "[r]" and ks = "[]" and n = "Suc (drawn st)" and metered = "[]" and xs = "[]" and obs = "[]" and a = st]
      by (auto simp: confirmation_create_def tbl_create_def Let_def draw_def waiting_def split: if_splits)
  qed
  then show ?case unfolding propose_lines.simps by (intro reads_into.keeps_await Cons)
qed


lemma store_budget_reads:
  "keeps (in_event e) (reads_into e i (d_uploadedById doc))
     (store_budget_tx env e doc model parsed ns)" if "d_id doc = i"
  unfolding store_budget_tx_def Let_def that
  by (intro reads_into.keeps_await reading_reads propose_lines_reads document_update_reads reads_into.keeps_ret)
     (simp add: same_document_def)

lemma fail_document_reads: "svc_keeps (reads_into e i up) (fail_document dx e i err)"
  unfolding fail_document_def
  by (intro reads_into.svc_and_then reads_into.svc_basic reads_into.svc_runInEvent document_update_reads)
     (simp add: same_document_def)

lemma read_document_reads: "svc_keeps (reads_into e i up) (read_document dx env e j f p q)"
  unfolding read_document_def
  by (auto intro!: reads_into.svc_and_then reads_into.svc_basic reads_into.readBytes_reads reading_reads svc_keeps_option
      split: sum.splits)

lemma processBudget_reads:
  "svc_keeps (reads_into e (d_id doc) (d_uploadedById doc)) (processBudget dx env e doc)"
  unfolding processBudget_def Let_def
  by (intro reads_into.svc_catch reads_into.svc_and_then reads_into.svc_basic reads_into.svc_runInEvent read_document_reads
      reading_reads store_budget_reads fail_document_reads refl)

lemma stage_entries_reads:
  assumes "stage_entries dx env ctx es t st = (st', t')"
  shows "reads_into (ctx_ev ctx) i (Some (ctx_user ctx)) st st'"
  using assms
proof (induction es arbitrary: t st)
  case Nil
  then show ?case by (simp add: reads_into.rel_refl)
next
  case (Cons e es)
  show ?case
  proof (cases "buildUtterance e")
    case None
    then show ?thesis using Cons by simp
  next
    case (Some u)
    obtain st1 r where c: "capture (dx_capture_llm dx) (dx_capture_prompt dx) (dx_assist dx) env ctx u True st = (st1, r)"
      by fastforce
    have "reads_into (ctx_ev ctx) i (Some (ctx_user ctx)) st st1"
      by (rule staged_reads) (rule svc_keepsD [OF forced_capture_staged c])
    then show ?thesis using Cons Some c by (auto intro: reads_into.rel_trans)
  qed
qed

lemma requireContext_event:
  "requireContext a e st = (st', Inr c) \<Longrightarrow> ctx_eventId c = e"
  by (auto simp: requireContext_def resolveContext_def and_then_def svc_read_def svc_ret_def svc_throw_def runInEvent_def
      transaction_def query_def split: option.splits if_splits prod.splits sum.splits)


lemma processContributionList_reads:
  "svc_keeps (reads_into e (d_id doc) (d_uploadedById doc)) (processContributionList dx env e doc)"
proof -
  have staged: "svc_keeps (reads_into e i (Some (userId a)))
      (\<lambda>st. case stage_entries dx env \<lparr>ctx_actor = a, ctx_event = c\<rparr> es t st of (st', t) \<Rightarrow> (st', Inr t))"
    if "ctx_eventId c = e" for i a c es t
    using stage_entries_reads [where ctx = "\<lparr>ctx_actor = a, ctx_event = c\<rparr>"] that
    by (auto intro!: svc_keepsI split: prod.splits)
  show ?thesis
  proof (cases "d_uploadedById doc")
    case None
    then show ?thesis
      unfolding processContributionList_def
      by (auto intro!: reads_into.svc_catch reads_into.svc_basic fail_document_reads)
  next
    case (Some user)
    show ?thesis
      unfolding processContributionList_def Let_def Some
      by (rule reads_into.svc_catch svc_keeps_if reads_into.svc_basic reads_into.svc_then_known [OF reads_into.requireContext_reads]
          reads_into.svc_and_then read_document_reads reads_into.svc_runInEvent reading_reads fail_document_reads
          | (simp only: option.sel)?, rule staged [where a = "\<lparr>userId = user, phoneVerified = True\<rparr>", simplified], erule requireContext_event
          | (simp split: prod.split, intro allI impI reads_into.svc_and_then reads_into.svc_runInEvent reads_into.svc_basic
              document_update_reads, simp add: same_document_def))+
  qed
qed

lemma claim_reads: "svc_keeps (reads_into e i up) (runInEvent e (claim_document i))"
  unfolding claim_document_def
  by (auto intro!: reads_into.svc_runInEvent reads_into.keeps_await reads_into.keeps_query reads_into.keeps_ret
      document_update_reads simp: same_document_def split: option.split)


lemma runInEvent_query: "runInEvent e (query f) st = (st, Inr (f (in_event e) st))"
  by (simp add: runInEvent_def transaction_def)

lemma document_update_run:
  assumes "find_document i (in_event e) st = Some d"
  shows "runInEvent e (document_update i f) st =
    (st\<lparr>documents := update_where (\<lambda>d. d_eventId d = e \<and> d_id d = i) f (documents st)\<rparr>, Inr (f d))"
  using assms by (simp add: runInEvent_def transaction_def document_update_def tbl_update_def find_document_def)

lemma claim_run:
  "runInEvent e (claim_document i) st =
     (case find_document i (in_event e) st of
        Some d \<Rightarrow> (if d_status d = DOC_UPLOADED
          then (st\<lparr>documents := update_where (\<lambda>d. d_eventId d = e \<and> d_id d = i)
                  (\<lambda>r. r\<lparr>d_status := DOC_PROCESSING, d_attempts := d_attempts r + 1\<rparr>) (documents st)\<rparr>, Inr (Some d))
          else (st, Inr None))
      | None \<Rightarrow> (st, Inr None))"
  by (auto simp: runInEvent_def transaction_def claim_document_def await_def document_update_def tbl_update_def
      find_document_def split: option.split)

lemma find_document_set:
  "find_document i (in_event e) st = Some d \<Longrightarrow> d \<in> set (documents st) \<and> d_eventId d = e \<and> d_id d = i"
  by (auto simp: find_document_def tbl_visible_def find_Some_iff in_set_conv_nth dest!: nth_mem [of _ "filter _ _", unfolded set_filter])

lemma process_cases:
  "process_document dx env e i st =
     (case find_document i (in_event e) st of
        Some d \<Rightarrow> (if d_status d = DOC_UPLOADED
          then (if d_kind d = CONTRIBUTION_LIST then processContributionList dx env e d else processBudget dx env e d)
            (fst (runInEvent e (claim_document i) st))
          else (st, Inr \<lparr>er_documentId = i, er_status = DOC_PROCESSED, er_proposedItems = 0\<rparr>))
      | None \<Rightarrow> (st, Inr \<lparr>er_documentId = i, er_status = DOC_PROCESSED, er_proposedItems = 0\<rparr>))"
  by (auto simp: process_document_def and_then_def claim_run split: option.split)

text \<open>All that processing a document writes.\<close>

lemma process_reads:
  assumes "process_document dx env e i st = (st', r)"
  shows "\<exists>d. reads_into e i (d_uploadedById d) st st' \<and> (st' = st \<or> find_document i (in_event e) st = Some d)"
proof (cases "find_document i (in_event e) st")
  case None
  then show ?thesis using assms by (auto simp: process_cases reads_into.rel_refl)
next
  case (Some d)
  then have d: "d_id d = i" using find_document_set by blast
  obtain st1 x where claimed: "runInEvent e (claim_document i) st = (st1, x)" by fastforce
  have "reads_into e i (d_uploadedById d) st st1" by (rule svc_keepsD [OF claim_reads claimed])
  then have "reads_into e i (d_uploadedById d) st st'"
    using assms Some claimed svc_keepsD [OF processContributionList_reads [of e d dx env]]
      svc_keepsD [OF processBudget_reads [of e d dx env]] reads_into.rel_trans reads_into.rel_refl
    by (auto simp: process_cases d split: if_splits; blast)
  with Some show ?thesis by blast
qed

text \<open>C15. Whatever the model reads into a document, nothing becomes canonical: processing it adds
  proposals that wait for a human, in the name of the one who uploaded it, readings of the meter, the
  extraction, and observations of the lowest reliability; it changes the document's own state and
  nothing else of the database.\<close>

theorem documents_only_propose:
  assumes "process_document dx env e i st = (st', r)"
  shows "\<exists>n new metered xs ks obs f.
     st' = st\<lparr>drawn := n, confirmations := confirmations st @ new, usage_events := usage_events st @ metered,
        documents := update_where (\<lambda>d. d_eventId d = e \<and> d_id d = i) f (documents st),
        extractions := extractions st @ xs, knowledge_sources := knowledge_sources st @ ks,
        observations := observations st @ obs\<rparr>
     \<and> list_all (\<lambda>c. pc_status c = PC_PENDING \<and> pc_eventId c = e
          \<and> (\<exists>d\<in>set (documents st). d_eventId d = e \<and> d_id d = i \<and> pc_createdById c = d_uploadedById d)) new
     \<and> list_all (\<lambda>s. ks_reliability s = K_LOW) ks \<and> (\<forall>d. same_document d (f d))"
proof -
  obtain d where d: "reads_into e i (d_uploadedById d) st st'" "st' = st \<or> find_document i (in_event e) st = Some d"
    using process_reads [OF assms] by blast
  show ?thesis
  proof (cases "st' = st")
    case True
    then show ?thesis
      by (intro exI [of _ "drawn st"] exI [of _ "[]"] exI [of _ "\<lambda>d. d"]) (simp add: same_document_def)
  next
    case False
    with d have "d \<in> set (documents st)" "d_eventId d = e" "d_id d = i" using find_document_set by auto
    then have "list_all (waiting e (d_uploadedById d)) new \<Longrightarrow> list_all (\<lambda>c. pc_status c = PC_PENDING \<and> pc_eventId c = e
          \<and> (\<exists>d\<in>set (documents st). d_eventId d = e \<and> d_id d = i \<and> pc_createdById c = d_uploadedById d)) new" for new
      by (auto simp: list_all_iff waiting_def)
    with d(1) show ?thesis unfolding reads_into_def by blast
  qed
qed


section \<open>Every document ends\<close>

text \<open>Steps that leave the documents alone.\<close>

definition documents_kept :: "store \<Rightarrow> store \<Rightarrow> bool" where
  "documents_kept a b \<longleftrightarrow> documents b = documents a"

interpretation documents_kept: store_relation documents_kept
  by unfold_locales (auto simp: documents_kept_def)

lemma kept_statements:
  "keeps s documents_kept (extraction_create mk)" "keeps s documents_kept (confirmation_create mc)"
  "keeps s documents_kept (tbl_create usage_events put_usage_events ue_eventId mku)"
  by (auto intro!: keepsI simp: documents_kept_def extraction_create_def confirmation_create_def tbl_create_def Let_def
      split: if_splits)

lemma kept_lines: "keeps s documents_kept (propose_lines env e j up q ns)"
proof (induction ns)
  case Nil
  show ?case unfolding propose_lines.simps by (rule documents_kept.keeps_ret)
next
  case (Cons n ns)
  show ?case unfolding propose_lines.simps by (intro documents_kept.keeps_await kept_statements Cons)
qed

lemma kept_reading: "svc_keeps documents_kept (read_document dx env e j f p q)"
  unfolding read_document_def recordLlmCall_def
  by (auto intro!: documents_kept.svc_and_then documents_kept.svc_basic documents_kept.readBytes_reads
      documents_kept.svc_runInEvent documents_kept.keeps_await documents_kept.keeps_ret kept_statements svc_keeps_option
      split: sum.splits)

lemma kept_entries: "stage_entries dx env ctx es t st = (st', t') \<Longrightarrow> documents st' = documents st"
proof (induction es arbitrary: t st)
  case (Cons e es)
  obtain st1 r where c: "capture (dx_capture_llm dx) (dx_capture_prompt dx) (dx_assist dx) env ctx
      (the (buildUtterance e)) True st = (st1, r)" by fastforce
  have "documents st1 = documents st"
    using svc_keepsD [OF forced_capture_staged c] by (auto simp: staged_by_def)
  then show ?case using Cons c by (auto split: option.splits)
qed simp

lemma feed_knowledge_kept: "\<exists>st'. feed_knowledge env doc parsed ns st = (st', Inr ()) \<and> documents st' = documents st"
proof -
  have "documents (fst (ingestObservations env i obs st)) = documents st" for i obs
    by (rule ingestObservations_learns [where P = "\<lambda>s. True" and i = i and obs = obs and env = env and st = st])
       (auto simp: learns_def)
  then show ?thesis
    by (auto simp: feed_knowledge_def svc_catch_def and_then_def split: option.split prod.split sum.split) (metis fst_conv)+
qed

text \<open>A service that either fails and leaves document \<open>i\<close> as it is, or returns with the document in a
  state that \<open>Q\<close> relates to its result.\<close>

definition settles ::
  "uuid \<Rightarrow> uuid \<Rightarrow> ('a \<Rightarrow> document_status \<Rightarrow> bool) \<Rightarrow> 'a svc \<Rightarrow> bool" where
  "settles e i Q m \<longleftrightarrow> (\<forall>st st' r d. find_document i (in_event e) st = Some d \<longrightarrow> m st = (st', r) \<longrightarrow>
     (case r of
        Inl _ \<Rightarrow> find_document i (in_event e) st' = Some d
      | Inr x \<Rightarrow> \<exists>d'. find_document i (in_event e) st' = Some d' \<and> d_attempts d' = d_attempts d \<and> Q x (d_status d')))"

lemma find_document_kept: "documents b = documents a \<Longrightarrow> find_document i s b = find_document i s a"
  by (simp add: find_document_def)

lemma find_updated:
  assumes "find_document i (in_event e) st = Some d" "\<And>d. same_document d (f d)"
  shows "find_document i (in_event e)
     (st\<lparr>documents := update_where (\<lambda>d. d_eventId d = e \<and> d_id d = i) f (documents st)\<rparr>) = Some (f d)"
proof -
  have keep: "d_id (f d) = d_id d" "d_eventId (f d) = d_eventId d" for d using assms(2) by (simp_all add: same_document_def)
  have "List.find (\<lambda>d. d_id d = i) (filter (\<lambda>d. d_eventId d = e) ds) = Some d \<Longrightarrow>
     List.find (\<lambda>d. d_id d = i) (filter (\<lambda>d. d_eventId d = e)
       (update_where (\<lambda>d. d_eventId d = e \<and> d_id d = i) f ds)) = Some (f d)" for ds
    by (induction ds) (auto simp: update_where_def keep split: if_splits)
  then show ?thesis using assms(1) by (simp add: find_document_def tbl_visible_def)
qed

lemma settles_throw: "settles e i Q (svc_throw x)"
  by (simp add: settles_def)

lemma settles_after_known:
  assumes "svc_keeps documents_kept m" "\<And>st st' x. m st = (st', Inr x) \<Longrightarrow> settles e i Q (k x)"
  shows "settles e i Q (and_then m k)"
  unfolding settles_def
proof (intro allI impI)
  fix st st' r d assume found: "find_document i (in_event e) st = Some d" and run: "and_then m k st = (st', r)"
  obtain st1 y where m: "m st = (st1, y)" by fastforce
  then have "find_document i (in_event e) st1 = Some d"
    using found svc_keepsD [OF assms(1) m] find_document_kept by (metis documents_kept_def)
  then show "case r of Inl _ \<Rightarrow> find_document i (in_event e) st' = Some d
      | Inr x \<Rightarrow> \<exists>d'. find_document i (in_event e) st' = Some d' \<and> d_attempts d' = d_attempts d \<and> Q x (d_status d')"
    using assms(2) [of st st1] m run unfolding settles_def and_then_def by (cases y) auto
qed

lemmas settles_after = settles_after_known [rotated -1]

lemma settles_update:
  assumes "\<And>d. same_document d (f d) \<and> d_attempts (f d) = d_attempts d \<and> Q x (d_status (f d))"
  shows "settles e i Q (and_then (runInEvent e (document_update i f)) (\<lambda>_. svc_ret x))"
  using assms by (auto simp: settles_def and_then_def document_update_run find_updated)

lemma settles_then:
  assumes "settles e i Q m" "\<And>x st. \<exists>st'. k x st = (st', Inr (g x)) \<and> documents st' = documents st"
    "\<And>x s. Q x s \<Longrightarrow> Q' (g x) s"
  shows "settles e i Q' (and_then m k)"
  unfolding settles_def
proof (intro allI impI)
  fix st st' r d assume found: "find_document i (in_event e) st = Some d" and run: "and_then m k st = (st', r)"
  obtain st1 y where m: "m st = (st1, y)" by fastforce
  note s = assms(1) [unfolded settles_def, rule_format, OF found m]
  show "case r of Inl _ \<Rightarrow> find_document i (in_event e) st' = Some d
      | Inr x \<Rightarrow> \<exists>d'. find_document i (in_event e) st' = Some d' \<and> d_attempts d' = d_attempts d \<and> Q' x (d_status d')"
  proof (cases y)
    case (Inl a)
    then show ?thesis using run m s by (auto simp: and_then_def)
  next
    case (Inr x)
    obtain st2 where k: "k x st1 = (st2, Inr (g x))" "documents st2 = documents st1" using assms(2) by blast
    then have "st' = st2" "r = Inr (g x)" using run m Inr by (auto simp: and_then_def)
    with s Inr assms(3) find_document_kept [OF k(2)] show ?thesis by fastforce
  qed
qed


text \<open>How a document ends: as the result says, for review or failed.\<close>

definition ended :: "extraction_result \<Rightarrow> document_status \<Rightarrow> bool" where
  "ended res s \<longleftrightarrow> s = er_status res \<and> s \<in> {DOC_REQUIRES_REVIEW, DOC_FAILED}"

lemma fail_settles: "settles e i ended (fail_document dx e i err)"
  unfolding fail_document_def by (rule settles_update) (simp add: same_document_def ended_def)

lemma catch_ends:
  assumes "settles e i ended m" "find_document i (in_event e) st = Some d"
    and "svc_catch m (fail_document dx e i) st = (st', r)"
  shows "\<exists>res d'. r = Inr res \<and> find_document i (in_event e) st' = Some d' \<and> d_attempts d' = d_attempts d
     \<and> ended res (d_status d')"
proof -
  obtain st1 y where m: "m st = (st1, y)" by fastforce
  note s = assms(1) [unfolded settles_def, rule_format, OF assms(2) m]
  show ?thesis
  proof (cases y)
    case (Inl a)
    with assms(3) m have "fail_document dx e i a st1 = (st', r)" by (simp add: svc_catch_def)
    moreover from this s Inl have "r = Inr \<lparr>er_documentId = i, er_status = DOC_FAILED, er_proposedItems = 0\<rparr>"
      by (auto simp: fail_document_def and_then_def document_update_run)
    ultimately show ?thesis using s Inl fail_settles [of e i dx a] unfolding settles_def by fastforce
  next
    case (Inr x)
    with assms(3) m s show ?thesis by (auto simp: svc_catch_def)
  qed
qed

lemma store_budget_settles:
  assumes "d_id doc = i"
  shows "settles e i (\<lambda>n s. s = DOC_REQUIRES_REVIEW) (runInEvent e (store_budget_tx env e doc model parsed ns))"
  unfolding settles_def
proof (intro allI impI)
  fix st st' r d assume found: "find_document i (in_event e) st = Some d"
    and run: "runInEvent e (store_budget_tx env e doc model parsed ns) st = (st', r)"
  show "case r of Inl _ \<Rightarrow> find_document i (in_event e) st' = Some d
      | Inr x \<Rightarrow> \<exists>d'. find_document i (in_event e) st' = Some d' \<and> d_attempts d' = d_attempts d \<and> d_status d' = DOC_REQUIRES_REVIEW"
  proof (cases r)
    case (Inl a)
    with run have "st' = st" by (auto simp: runInEvent_def transaction_def split: sum.splits prod.splits)
    with found Inl show ?thesis by simp
  next
    case (Inr n)
    let ?f = "\<lambda>r. r\<lparr>d_status := DOC_REQUIRES_REVIEW, d_processedAt := Some (now env)\<rparr>"
    obtain mk st0 x st1 row where steps: "extraction_create mk (in_event e) st = Inr (st0, x)"
      "propose_lines env e i (d_uploadedById doc) (Option.bind parsed bg_confidence) ns (in_event e) st0 = Inr (st1, ())"
      "document_update i ?f (in_event e) st1 = Inr (st', row)"
      using run Inr assms
      by (auto simp: runInEvent_def transaction_def store_budget_tx_def Let_def await_Inr_iff split: sum.splits)
    have "documents_kept st st0" "documents_kept st0 st1"
      using keepsD [OF kept_statements(1) steps(1)] keepsD [OF kept_lines steps(2)] by simp_all
    then have found1: "find_document i (in_event e) st1 = Some d"
      using found by (metis documents_kept_def find_document_kept)
    have "runInEvent e (document_update i ?f) st1 = (st', Inr row)"
      using steps(3) by (simp add: runInEvent_def transaction_def)
    then show ?thesis
      using document_update_run [OF found1] find_updated [OF found1, of ?f] Inr by (auto simp: same_document_def)
  qed
qed


lemma settles_if: "settles e i Q m \<Longrightarrow> settles e i Q n \<Longrightarrow> settles e i Q (if b then m else n)"
  by simp

lemma processBudget_ends:
  assumes "find_document (d_id doc) (in_event e) st = Some d" "processBudget dx env e doc st = (st', r)"
  shows "\<exists>res d'. r = Inr res \<and> find_document (d_id doc) (in_event e) st' = Some d' \<and> d_attempts d' = d_attempts d
     \<and> ended res (d_status d')"
proof -
  have rest: "settles e (d_id doc) ended
    (and_then (runInEvent e (store_budget_tx env e doc model parsed ns)) (\<lambda>n.
     and_then (feed_knowledge env doc parsed ns) (\<lambda>_.
     svc_ret \<lparr>er_documentId = d_id doc, er_status = DOC_REQUIRES_REVIEW, er_proposedItems = n\<rparr>)))" for model parsed ns
  proof (rule settles_then [OF store_budget_settles [OF refl]])
    fix n st
    show "\<exists>st'. and_then (feed_knowledge env doc parsed ns) (\<lambda>_. svc_ret
        \<lparr>er_documentId = d_id doc, er_status = DOC_REQUIRES_REVIEW, er_proposedItems = n\<rparr>) st =
        (st', Inr \<lparr>er_documentId = d_id doc, er_status = DOC_REQUIRES_REVIEW, er_proposedItems = n\<rparr>)
        \<and> documents st' = documents st"
      using feed_knowledge_kept [of env doc parsed ns st] by (auto simp: and_then_def)
  qed (simp add: ended_def)
  show ?thesis
    by (rule catch_ends [OF _ assms(1) assms(2) [unfolded processBudget_def Let_def]])
       (rule settles_after_known [OF kept_reading rest])
qed

lemma final_state_ends: "fst (final_state n t) \<in> {DOC_REQUIRES_REVIEW, DOC_FAILED}"
  by (simp add: final_state_def Let_def)

lemma processContributionList_ends:
  assumes "find_document (d_id doc) (in_event e) st = Some d" "processContributionList dx env e doc st = (st', r)"
  shows "\<exists>res d'. r = Inr res \<and> find_document (d_id doc) (in_event e) st' = Some d' \<and> d_attempts d' = d_attempts d
     \<and> ended res (d_status d')"
proof -
  have entries: "svc_keeps documents_kept (\<lambda>st. case stage_entries dx env ctx es t st of (st', t) \<Rightarrow> (st', Inr t))" for ctx es t
    using kept_entries by (fastforce intro!: svc_keepsI simp: documents_kept_def split: prod.splits)
  have last: "settles e (d_id doc) ended (case final_state n t of (finalStatus, finalError) \<Rightarrow>
       and_then (runInEvent e (document_update (d_id doc) (\<lambda>r. r\<lparr>d_status := finalStatus,
          d_processedAt := Some (now env), d_error := finalError\<rparr>))) (\<lambda>_.
       svc_ret \<lparr>er_documentId = d_id doc, er_status = finalStatus, er_proposedItems = k\<rparr>))" for n t k
    using final_state_ends [of n t]
    by (cases "final_state n t") (auto intro!: settles_update simp: same_document_def ended_def)
  show ?thesis
    by (intro catch_ends [OF _ assms(1) assms(2) [unfolded processContributionList_def Let_def]] settles_if settles_throw settles_after_known documents_kept.requireContext_reads kept_reading
        documents_kept.svc_runInEvent kept_statements entries last)
qed

text \<open>C16. Every submitted document is read exactly once and reaches an end: whatever the storage, the
  model and the data do, processing an uploaded document returns and leaves it for review or
  failed, as the result says, with one more attempt; and processing it again, with whatever
  providers, does nothing.\<close>

theorem document_processed_once:
  assumes "find_document i (in_event e) st = Some d" "d_status d = DOC_UPLOADED"
    and "process_document dx env e i st = (st1, r)"
    and "documents st2 = documents st1"
  shows "\<exists>res d1. r = Inr res \<and> er_status res \<in> {DOC_REQUIRES_REVIEW, DOC_FAILED}
     \<and> find_document i (in_event e) st1 = Some d1 \<and> d_status d1 = er_status res \<and> d_attempts d1 = d_attempts d + 1
     \<and> process_document other_dx later e i st2 =
         (st2, Inr \<lparr>er_documentId = i, er_status = DOC_PROCESSED, er_proposedItems = 0\<rparr>)"
proof -
  let ?f = "\<lambda>r. r\<lparr>d_status := DOC_PROCESSING, d_attempts := d_attempts r + 1\<rparr>"
  let ?st = "st\<lparr>documents := update_where (\<lambda>d. d_eventId d = e \<and> d_id d = i) ?f (documents st)\<rparr>"
  have i: "d_id d = i" using find_document_set assms(1) by blast
  have taken: "find_document i (in_event e) ?st = Some (?f d)"
    by (rule find_updated [OF assms(1)]) (simp add: same_document_def)
  have "\<exists>res d1. r = Inr res \<and> find_document i (in_event e) st1 = Some d1 \<and> d_attempts d1 = d_attempts d + 1
     \<and> ended res (d_status d1)"
    using assms(1-3) taken processContributionList_ends [of d e ?st "?f d" dx env st1 r] processBudget_ends [of d e ?st "?f d" dx env st1 r]
    by (cases "d_kind d = CONTRIBUTION_LIST") (simp_all add: process_cases claim_run i)
  then obtain res d1 where res: "r = Inr res" "find_document i (in_event e) st1 = Some d1"
      "d_attempts d1 = d_attempts d + 1" "ended res (d_status d1)" by blast
  then have "find_document i (in_event e) st2 = Some d1" "d_status d1 \<noteq> DOC_UPLOADED"
    using find_document_kept [OF assms(4)] by (auto simp: ended_def)
  then have "process_document other_dx later e i st2 = (st2, Inr \<lparr>er_documentId = i, er_status = DOC_PROCESSED, er_proposedItems = 0\<rparr>)"
    by (simp add: process_cases)
  with res show ?thesis by (auto simp: ended_def)
qed


section \<open>Two photographed documents\<close>

definition demo_file :: file_row where
  "demo_file = \<lparr>fo_id = ''F1'', fo_eventId = ''E1'', fo_kind = DOCUMENT_PHOTO, fo_storageKey = ''events/E1/F1.png'',
     fo_mimeType = ''image/png'', fo_sizeBytes = 1, fo_sha256 = '''', fo_originalFilename = None, fo_personId = None,
     fo_uploadedById = Some ''U1'', fo_createdAt = 0\<rparr>"

definition demo_document :: "uuid \<Rightarrow> extraction_kind \<Rightarrow> document_row" where
  "demo_document i kind = \<lparr>d_id = i, d_eventId = ''E1'', d_fileId = ''F1'', d_kind = kind, d_status = DOC_UPLOADED,
     d_error = None, d_attempts = 0, d_uploadedById = Some ''U1'', d_processedAt = None, d_createdAt = 0\<rparr>"

definition demo_papers :: store where
  "demo_papers = demo_store\<lparr>files := [demo_file], documents := [demo_document ''D1'' BUDGET_DOC, demo_document ''D2'' CONTRIBUTION_LIST]\<rparr>"

definition demo_reply :: "string \<Rightarrow> llm_args \<Rightarrow> error + llm_result" where
  "demo_reply tool args = Inr \<lparr>lr_toolCalls = [(tool, args)], lr_usage = \<lparr>lu_inputTokens = 0, lu_outputTokens = 0, lu_model = ''m''\<rparr>\<rparr>"

definition demo_dx :: "(error + llm_result) \<Rightarrow> rat extraction_env" where
  "demo_dx reply = \<lparr>dx_storage = \<lparr>st_put = (\<lambda>k b m. None), st_get = (\<lambda>k. Inr [1]), st_sign = (\<lambda>k n. Inr k), st_sha256 = (\<lambda>b. ''''),
       st_maxUploadBytes = 100\<rparr>, dx_vision = (\<lambda>m t b. reply), dx_budget_prompt = '''', dx_contribution_prompt = '''',
     dx_capture_llm = demo_llm, dx_capture_prompt = '''', dx_assist = demo_ax, dx_db_text = (\<lambda>e. '''')\<rparr>"

definition demo_budget :: "error + llm_result" where
  "demo_budget = demo_reply ''extract_budget'' [(''items'', Arg_list
     [Arg_obj [(''name'', Arg_str ''Tents''), (''amount'', Arg_str ''UGX 50'')],
      Arg_obj [(''name'', Arg_str ''Unpriced''), (''amount'', Arg_str ''tbd'')]]),
     (''inferred_event_type'', Arg_str ''kwanjula'')]"

definition demo_list :: "error + llm_result" where
  "demo_list = demo_reply ''extract_contributions'' [(''entries'', Arg_list
     [Arg_obj [(''name'', Arg_str ''Alice''), (''amount'', Arg_str ''20''), (''status'', Arg_str ''pledged'')],
      Arg_obj [(''name'', Arg_str ''Nobody'')]])]"

lemma demo_budget_read:
  "case process_document (demo_dx demo_budget) demo_env ''E1'' ''D1'' demo_papers of
     (st, Inr res) \<Rightarrow> res = \<lparr>er_documentId = ''D1'', er_status = DOC_REQUIRES_REVIEW, er_proposedItems = 1\<rparr>
       \<and> map pc_payload (confirmations st) = [SA_create_budget_item ''Tents'' ''50'' (Some ''D1'')]
       \<and> map kb_amountMin (observations st) = [Some 50] \<and> budget_items st = []
   | (st, Inl e) \<Rightarrow> False"
  by code_simp

lemma demo_list_read:
  "case process_document (demo_dx demo_list) demo_env ''E1'' ''D2'' demo_papers of
     (st, Inr res) \<Rightarrow> res = \<lparr>er_documentId = ''D2'', er_status = DOC_REQUIRES_REVIEW, er_proposedItems = 1\<rparr>
       \<and> length (confirmations st) = 1 \<and> pledges st = []
   | (st, Inl e) \<Rightarrow> False"
  by code_simp

theorem documents_only_propose_witness:
  "\<exists>st' new. process_document (demo_dx demo_list) demo_env ''E1'' ''D2'' demo_papers =
       (st', Inr \<lparr>er_documentId = ''D2'', er_status = DOC_REQUIRES_REVIEW, er_proposedItems = 1\<rparr>)
     \<and> confirmations st' = confirmations demo_papers @ new \<and> length new = 1
     \<and> list_all (\<lambda>c. pc_status c = PC_PENDING \<and> pc_createdById c = Some ''U1'') new
     \<and> pledges st' = pledges demo_papers"
proof -
  obtain st' where run: "process_document (demo_dx demo_list) demo_env ''E1'' ''D2'' demo_papers =
       (st', Inr \<lparr>er_documentId = ''D2'', er_status = DOC_REQUIRES_REVIEW, er_proposedItems = 1\<rparr>)"
    "length (confirmations st') = 1"
    using demo_list_read by (auto split: prod.splits sum.splits)
  have docs: "d_uploadedById d = Some ''U1''" if "d \<in> set (documents demo_papers)" for d
    using that by (auto simp: demo_papers_def demo_document_def)
  have none: "confirmations demo_papers = []" by (simp add: demo_papers_def demo_store_def empty_store_def)
  obtain n new metered xs ks obs f where made:
     "st' = demo_papers\<lparr>drawn := n, confirmations := confirmations demo_papers @ new, usage_events := usage_events demo_papers @ metered,
        documents := update_where (\<lambda>d. d_eventId d = ''E1'' \<and> d_id d = ''D2'') f (documents demo_papers),
        extractions := extractions demo_papers @ xs, knowledge_sources := knowledge_sources demo_papers @ ks,
        observations := observations demo_papers @ obs\<rparr>"
     "list_all (\<lambda>c. pc_status c = PC_PENDING \<and> pc_eventId c = ''E1''
          \<and> (\<exists>d\<in>set (documents demo_papers). d_eventId d = ''E1'' \<and> d_id d = ''D2'' \<and> pc_createdById c = d_uploadedById d)) new"
    using documents_only_propose [OF run(1)] by blast
  then have "confirmations st' = confirmations demo_papers @ new" "pledges st' = pledges demo_papers" by simp_all
  with run none made(2) docs show ?thesis
    by (intro exI [of _ st'] exI [of _ new]) (auto simp: list_all_iff)
qed

theorem document_processed_once_witness:
  "\<exists>st1 d1. process_document (demo_dx demo_budget) demo_env ''E1'' ''D1'' demo_papers =
       (st1, Inr \<lparr>er_documentId = ''D1'', er_status = DOC_REQUIRES_REVIEW, er_proposedItems = 1\<rparr>)
     \<and> find_document ''D1'' (in_event ''E1'') st1 = Some d1 \<and> d_status d1 = DOC_REQUIRES_REVIEW \<and> d_attempts d1 = 1
     \<and> process_document (demo_dx demo_budget) demo_env ''E1'' ''D1'' st1 =
         (st1, Inr \<lparr>er_documentId = ''D1'', er_status = DOC_PROCESSED, er_proposedItems = 0\<rparr>)"
proof -
  obtain st1 where run: "process_document (demo_dx demo_budget) demo_env ''E1'' ''D1'' demo_papers =
       (st1, Inr \<lparr>er_documentId = ''D1'', er_status = DOC_REQUIRES_REVIEW, er_proposedItems = 1\<rparr>)"
    using demo_budget_read by (auto split: prod.splits sum.splits)
  have found: "find_document ''D1'' (in_event ''E1'') demo_papers = Some (demo_document ''D1'' BUDGET_DOC)" by code_simp
  have up: "d_status (demo_document ''D1'' BUDGET_DOC) = DOC_UPLOADED" "d_attempts (demo_document ''D1'' BUDGET_DOC) = 0"
    by (simp_all add: demo_document_def)
  show ?thesis
    using document_processed_once [OF found up(1) run refl, of "demo_dx demo_budget" demo_env] run up(2) by auto
qed


section \<open>Uploads\<close>

lemma two_dots: "contains ''..'' s \<Longrightarrow> 2 \<le> length (filter (\<lambda>c. c = CHR ''.'') s)"
proof (induction s)
  case (Cons c s)
  show ?case
  proof (cases "contains ''..'' s")
    case True
    then show ?thesis using Cons by simp
  next
    case False
    with Cons.prems have "take 2 (c # s) = ''..''" by simp
    then obtain r where "c # s = ''..'' @ r" by (metis append_take_drop_id)
    then show ?thesis by simp
  qed
qed simp

lemma extension_dots: "length (filter (\<lambda>c. c = CHR ''.'') (extension f)) \<le> 1"
proof -
  have "filter (\<lambda>c. c = CHR ''.'') (rev (takeWhile (\<lambda>c. c \<noteq> CHR ''.'') w)) = []" for w
    by (auto simp: filter_empty_conv dest: set_takeWhileD)
  then show ?thesis by (simp add: extension_def after_last_dot_def split: option.split)
qed

lemma storage_key_confined:
  assumes "CHR ''.'' \<notin> set e" "CHR ''.'' \<notin> set new"
  shows "\<not> contains ''..'' (storage_key e new f)"
proof -
  have "filter (\<lambda>c. c = CHR ''.'') e = []" "filter (\<lambda>c. c = CHR ''.'') new = []"
    using assms by (auto simp: filter_empty_conv)
  then have "length (filter (\<lambda>c. c = CHR ''.'') (storage_key e new f)) \<le> 1"
    using extension_dots [of f] by (simp add: storage_key_def)
  then show ?thesis using two_dots by force
qed

lemma upload_tx_run:
  "(\<exists>e. upload_tx sx env ctx i key (in_event (ctx_ev ctx)) st = Inl e)
   \<or> (\<exists>f a n. upload_tx sx env ctx i key (in_event (ctx_ev ctx)) st =
         Inr (st\<lparr>drawn := n, files := files st @ [f], audits := audits st @ [a]\<rparr>, file_view_of f)
       \<and> fo_eventId f = ctx_ev ctx \<and> fo_uploadedById f = Some (ctx_user ctx) \<and> fo_mimeType f = up_mimeType i
       \<and> fo_sizeBytes f = int (length (up_body i)) \<and> fo_storageKey f = key
       \<and> au_action a = ''file:upload'' \<and> au_resourceId a = fo_id f)"
proof (cases "truthy_str (up_personId i) \<and> find_person (the (up_personId i)) (in_event (ctx_ev ctx)) st = None")
  case True
  then show ?thesis by (auto simp: upload_tx_def await_def)
next
  case False
  let ?f = "\<lparr>fo_id = fresh_id st, fo_eventId = ctx_ev ctx, fo_kind = up_kind i, fo_storageKey = key,
     fo_mimeType = up_mimeType i, fo_sizeBytes = int (length (up_body i)), fo_sha256 = st_sha256 sx (up_body i),
     fo_originalFilename = up_filename i, fo_personId = up_personId i, fo_uploadedById = Some (ctx_user ctx),
     fo_createdAt = now env\<rparr>"
  let ?st = "put_files (files st @ [?f]) (draw st)"
  have audited: "\<exists>a. audit_write t inp (in_event (ctx_ev ctx)) st0 = Inr (put_audits (audits st0 @ [a]) (draw st0), a)
      \<and> au_action a = ai_action inp \<and> au_resourceId a = ai_resourceId inp" if "ai_eventId inp = ctx_ev ctx" for t inp st0
    using that by (simp add: audit_write_def tbl_create_def Let_def)
  obtain a where a: "upload_tx sx env ctx i key (in_event (ctx_ev ctx)) st
      = Inr (put_audits (audits ?st @ [a]) (draw ?st), file_view_of ?f)" "au_action a = ''file:upload''" "au_resourceId a = fo_id ?f"
    using False audited [of "\<lparr>ai_eventId = ctx_ev ctx, ai_actorUserId = Some (ctx_user ctx), ai_action = ''file:upload'',
          ai_resourceType = ''file_object'', ai_resourceId = fo_id ?f, ai_source = None, ai_oldValue = None,
          ai_newValue = Some (JObj [(''kind'', JStr (file_kind_str (fo_kind ?f))),
            (''mimeType'', JStr (fo_mimeType ?f)), (''sha256'', JStr (fo_sha256 ?f))])\<rparr>" "now env" ?st]
    by (auto simp: upload_tx_def await_def file_create_def tbl_create_def Let_def)
  have "put_audits (audits ?st @ [a]) (draw ?st) =
      st\<lparr>drawn := Suc (Suc (drawn st)), files := files st @ [?f], audits := audits st @ [a]\<rparr>"
    by (cases st) (simp add: draw_def)
  with a show ?thesis
    by (intro disjI2 exI [of _ ?f] exI [of _ a] exI [of _ "Suc (Suc (drawn st))"]) simp
qed

text \<open>An upload is checked before anything happens and confined after: a file is recorded only for
  a member allowed to upload into an event that takes writes, of an accepted type and a size
  within the limit, after its bytes were stored, under a key in the folder of its event that no file name
  can lead out of, and with an audit entry; a refused one leaves every table as it was.\<close>

theorem uploads_confined:
  assumes "upload sx env ctx i st = (st', r)" "CHR ''.'' \<notin> set (ctx_ev ctx)" "\<forall>k. CHR ''.'' \<notin> set (uuid st k)"
  shows "case r of
     Inl _ \<Rightarrow> \<exists>n. st' = st\<lparr>drawn := n\<rparr>
   | Inr v \<Rightarrow> \<exists>f a n. st' = st\<lparr>drawn := n, files := files st @ [f], audits := audits st @ [a]\<rparr>
       \<and> v = file_view_of f \<and> fo_eventId f = ctx_ev ctx \<and> fo_uploadedById f = Some (ctx_user ctx)
       \<and> can (ctx_role (ctx_event ctx)) Document_upload \<and> isWritable (ctx_status (ctx_event ctx))
       \<and> fo_mimeType f \<in> set ALLOWED_MIME \<and> 0 < fo_sizeBytes f \<and> fo_sizeBytes f \<le> st_maxUploadBytes sx
       \<and> st_put sx (fo_storageKey f) (up_body i) (fo_mimeType f) = None
       \<and> (\<exists>name. fo_storageKey f = ''events/'' @ ctx_ev ctx @ ''/'' @ name)
       \<and> \<not> contains ''..'' (fo_storageKey f)
       \<and> au_action a = ''file:upload'' \<and> au_resourceId a = fo_id f"
proof -
  let ?key = "storage_key (ctx_ev ctx) (fresh_id st) (up_filename i)"
  let ?ok = "can (ctx_role (ctx_event ctx)) Document_upload \<and> isWritable (ctx_status (ctx_event ctx))
     \<and> up_mimeType i \<in> set ALLOWED_MIME \<and> up_body i \<noteq> [] \<and> int (length (up_body i)) \<le> st_maxUploadBytes sx"
  have refused: "\<exists>e. upload sx env ctx i st = (st, Inl e)" if "\<not> ?ok"
    using that by (auto simp: upload_def gated_def permitted_def perm_assert_def assertEventWritable_def)
  have stored: "upload sx env ctx i st = (case st_put sx ?key (up_body i) (up_mimeType i) of
      Some e \<Rightarrow> (draw st, Inl e) | None \<Rightarrow> runInEvent (ctx_ev ctx) (upload_tx sx env ctx i ?key) (draw st))" if ?ok
    using that by (auto simp: upload_def gated_def permitted_def perm_assert_def assertEventWritable_def randomUUID_def
        and_then_def Let_def split: option.split)
  have same: "\<exists>n. st = st\<lparr>drawn := n\<rparr>" "\<exists>n. draw st = st\<lparr>drawn := n\<rparr>"
    by (intro exI [of _ "drawn st"] exI [of _ "Suc (drawn st)"]; simp add: draw_def)+
  have key: "\<not> contains ''..'' ?key" "\<exists>name. ?key = ''events/'' @ ctx_ev ctx @ ''/'' @ name"
    using storage_key_confined assms(2,3) by (auto simp: fresh_id_def storage_key_def)
  show ?thesis
  proof (cases ?ok)
    case False
    with refused assms(1) same(1) show ?thesis by fastforce
  next
    case True
    show ?thesis
    proof (cases "st_put sx ?key (up_body i) (up_mimeType i)")
      case (Some e)
      with stored [OF True] assms(1) same(2) show ?thesis by auto
    next
      case None
      with stored [OF True] assms(1) have run: "runInEvent (ctx_ev ctx) (upload_tx sx env ctx i ?key) (draw st) = (st', r)" by simp
      show ?thesis
        using upload_tx_run [of sx env ctx i ?key "draw st"]
      proof (elim disjE exE conjE)
        fix e assume "upload_tx sx env ctx i ?key (in_event (ctx_ev ctx)) (draw st) = Inl e"
        with run same(2) show ?thesis by (auto simp: runInEvent_def transaction_def)
      next
        fix f a n
        assume f: "upload_tx sx env ctx i ?key (in_event (ctx_ev ctx)) (draw st) =
            Inr ((draw st)\<lparr>drawn := n, files := files (draw st) @ [f], audits := audits (draw st) @ [a]\<rparr>, file_view_of f)"
          "fo_eventId f = ctx_ev ctx" "fo_uploadedById f = Some (ctx_user ctx)" "fo_mimeType f = up_mimeType i"
          "fo_sizeBytes f = int (length (up_body i))" "fo_storageKey f = ?key"
          "au_action a = ''file:upload''" "au_resourceId a = fo_id f"
        with run have "r = Inr (file_view_of f)"
          "st' = st\<lparr>drawn := n, files := files st @ [f], audits := audits st @ [a]\<rparr>"
          by (auto simp: runInEvent_def transaction_def draw_def)
        with f True None key show ?thesis by fastforce
      qed
    qed
  qed
qed

end
