(* ===== verification/Ai_Mutations.thy ===== *)
theory Ai_Mutations
  imports Ai_Capture Caught_Errors Transparency Group_Service Membership_Service
begin

text \<open>
  What the conversational agent may write besides contributions:
  \<^verbatim>\<open>libs/ai/src/agent/ai-mutation.service.ts\<close>. Most operations resolve the names they are given and
  stage a proposal; announcements, groups, phone numbers and roles are written at once.
\<close>

section \<open>Outcomes\<close>

datatype stage_status = Stage_staged | Stage_clarification | Stage_error | Stage_done

datatype stage_data =
    Sd_draft uuid string
  | Sd_role uuid event_role
  | Sd_announcement announcement_view
  | Sd_broadcast announcement_view send_result
  | Sd_group group_view

record stage_result =
  sg_status :: stage_status
  sg_pendingId :: "uuid option"
  sg_message :: string
  sg_candidates :: "string list option"
  sg_data :: "stage_data option"

definition clarify :: "string \<Rightarrow> stage_result" where
  "clarify message = \<lparr>sg_status = Stage_clarification, sg_pendingId = None, sg_message = message, sg_candidates = None,
     sg_data = None\<rparr>"

definition ambiguous :: "person_candidate list \<Rightarrow> stage_result" where
  "ambiguous candidates = \<lparr>sg_status = Stage_clarification, sg_pendingId = None, sg_message = ''Which person do you mean?'',
     sg_candidates = Some (map pca_displayName candidates), sg_data = None\<rparr>"

definition done_with :: "string \<Rightarrow> stage_data option \<Rightarrow> stage_result" where
  "done_with message data = \<lparr>sg_status = Stage_done, sg_pendingId = None, sg_message = message, sg_candidates = None,
     sg_data = data\<rparr>"

definition in_quotes :: "string \<Rightarrow> string" where
  "in_quotes s = [CHR 0x22] @ s @ [CHR 0x22]"

definition apostrophe :: string where
  "apostrophe = [CHR 0x27]"

definition unknown_person :: "string \<Rightarrow> stage_result" where
  "unknown_person name = clarify (''I don'' @ apostrophe @ ''t know anyone called '' @ name @ ''.'')"

text \<open>\<open>name?.trim()\<close>, empty counting as missing.\<close>

definition trimmed :: "string option \<Rightarrow> string option" where
  "trimmed s = (case s of Some t \<Rightarrow> (if js_trim t = [] then None else Some (js_trim t)) | None \<Rightarrow> None)"

section \<open>Roles\<close>

definition role_co_owner :: regex where
  "role_co_owner = alts [seqs [lit ''co'', opt (lit ''-''), lit ''owner''], seqs [lit ''co'', opt (lit ''-''), lit ''organi''],
     Then (lit ''full '') (words_of [''control'', ''access'']), lit ''everything'', lit ''all access'']"

definition role_finance :: regex where
  "role_finance = alts [lit ''finance'', lit ''treasurer'', lit ''cashier'',
     seqs [lit ''handle '', opt (lit ''the ''), lit ''money''], seqs [lit ''record '', opt (lit ''and ''), lit ''correct''],
     seqs [lit ''payment'', opt (lit ''s''), lit '' only'']]"

definition role_viewer :: regex where
  "role_viewer = alts [lit ''view'', seqs [lit ''read'', opt (chars ''- ''), lit ''only''], lit ''observ'',
     seqs [lit ''see '', opt (lit ''the ''), lit ''progress''], lit ''guest'', lit ''just look'', lit ''watch'']"

definition role_coordinator :: regex where
  "role_coordinator = alts [lit ''run'', lit ''coordinat'', seqs [lit ''organi'', chars ''sz'', lit ''e''], lit ''manage the event'',
     lit ''help run'', seqs [lit ''day'', opt (chars ''- ''), lit ''to'', opt (chars ''- ''), lit ''day''], lit ''add people'']"

definition mapRole :: "string option \<Rightarrow> event_role option" where
  "mapRole role =
     (let r = js_trim (ascii_lower (nullish role '''')) in
      if r = [] then None
      else if test role_co_owner r then Some CO_OWNER
      else if test role_finance r then Some FINANCE
      else if test role_viewer r then Some VIEWER
      else if test role_coordinator r then Some COORDINATOR
      else None)"

fun roleSummary :: "event_role \<Rightarrow> string" where
  "roleSummary CO_OWNER = ''co-organize the event with full control, including inviting others''"
| "roleSummary FINANCE = ''record and correct payments''"
| "roleSummary VIEWER = ''view the event progress but not make changes''"
| "roleSummary _ = ''help run the event '' @ em_dash @ '' add people, record payments, and send reminders''"

section \<open>Staging\<close>

definition stage :: "env \<Rightarrow> operation_context \<Rightarrow> stored_action \<Rightarrow> string \<Rightarrow> stage_result svc" where
  "stage env ctx action prompt =
     and_then (create_confirmation env ctx (tool_of action) action None prompt) (\<lambda>pending.
     svc_ret \<lparr>sg_status = Stage_staged, sg_pendingId = Some (pnv_id pending), sg_message = prompt, sg_candidates = None,
       sg_data = None\<rparr>)"

text \<open>The two lookups every operation starts with: a person, asking when the name does not fit exactly one,
  and a budget item or a group by its name.\<close>

definition for_person :: "operation_context \<Rightarrow> string \<Rightarrow> (uuid \<Rightarrow> string \<Rightarrow> stage_result svc) \<Rightarrow> stage_result svc" where
  "for_person ctx name k =
     and_then (resolvePerson (ctx_ev ctx) name) (\<lambda>person. case person of
       Person_ambiguous candidates \<Rightarrow> svc_ret (ambiguous candidates)
     | Person_none \<Rightarrow> svc_ret (unknown_person name)
     | Person_resolved i displayName \<Rightarrow> k i displayName)"

definition resolveBudgetItem ::
  "operation_context \<Rightarrow> string \<Rightarrow> (uuid \<Rightarrow> string \<Rightarrow> stage_result svc) \<Rightarrow> stage_result svc" where
  "resolveBudgetItem ctx name k =
     and_then (runInEvent (ctx_ev ctx) (query (\<lambda>s st.
       filter (\<lambda>b. ascii_lower (bi_name b) = ascii_lower (js_trim name)) (visible_budget_items s st)))) (\<lambda>rows. case rows of
       [b] \<Rightarrow> k (bi_id b) (bi_name b)
     | [] \<Rightarrow> svc_ret (clarify (''There'' @ apostrophe @ ''s no budget item called '' @ in_quotes name @ ''.''))
     | _ \<Rightarrow> svc_ret ((clarify (''More than one budget item matches '' @ in_quotes name @ ''.''))
           \<lparr>sg_candidates := Some (map bi_name rows)\<rparr>))"

definition resolveGroup ::
  "operation_context \<Rightarrow> string \<Rightarrow> (uuid \<Rightarrow> string \<Rightarrow> stage_result svc) \<Rightarrow> stage_result svc" where
  "resolveGroup ctx name k =
     and_then (runInEvent (ctx_ev ctx) (query (\<lambda>s st.
       filter (\<lambda>g. ascii_lower (gr_name g) = ascii_lower (js_trim name)) (visible_groups s st)))) (\<lambda>rows. case rows of
       [g] \<Rightarrow> k (gr_id g) (gr_name g)
     | [] \<Rightarrow> svc_ret (clarify (''There'' @ apostrophe @ ''s no group called '' @ in_quotes name @ '' yet.''))
     | _ \<Rightarrow> svc_ret (clarify (''More than one group matches '' @ in_quotes name @ ''.'')))"

section \<open>Written at once\<close>

definition draftAnnouncement :: "env \<Rightarrow> operation_context \<Rightarrow> string \<Rightarrow> stage_result svc" where
  "draftAnnouncement env ctx body =
     (if js_trim body = [] then svc_ret (clarify ''What should the announcement say?'')
      else and_then (announcement_create_op env ctx (js_trim body) (Some ai_from_chat)) (\<lambda>a.
        svc_ret (done_with (''Drafted the announcement '' @ em_dash @ '' review it, then say '' @ in_quotes ''publish''
          @ '' to make it public.'') (Some (Sd_draft (anv_id a) (anv_body a))))))"

text \<open>A member is found by the id or by the digits of the phone number.\<close>

definition member_matches :: "string \<Rightarrow> member_list_view \<Rightarrow> bool" where
  "member_matches target m \<longleftrightarrow> mv_userId m = js_trim target
     \<or> (let digits = filter is_digit target in
        digits \<noteq> [] \<and> truthy_str (mv_phone m) \<and> contains digits (filter is_digit (the (mv_phone m))))"

definition updateMemberRole :: "env \<Rightarrow> operation_context \<Rightarrow> string \<Rightarrow> string \<Rightarrow> stage_result svc" where
  "updateMemberRole env ctx target roleInput =
     gated ctx Member_manage
       (if js_trim target = [] then svc_ret (clarify ''Whose role should I update?'')
        else case mapRole (Some roleInput) of
          None \<Rightarrow> svc_ret (clarify
            ''Which role should I assign? Choose one of: OWNER, CO_OWNER, COORDINATOR, FINANCE, or VIEWER.'')
        | Some role \<Rightarrow>
            and_then (listMembers ctx) (\<lambda>members. case List.find (member_matches target) members of
              None \<Rightarrow> svc_ret (clarify (''Could not find an active committee member matching '' @ in_quotes target @ ''.''))
            | Some m \<Rightarrow>
                and_then (updateRole env ctx (mv_userId m) role) (\<lambda>(user, updated).
                svc_ret (done_with (''Updated committee member'' @ apostrophe @ ''s role to '' @ role_str role @ ''.'')
                  (Some (Sd_role user updated))))))"

definition broadcast_message :: "send_result \<Rightarrow> string" where
  "broadcast_message r =
     ''Published the announcement to the public event page and queued SMS broadcast to '' @ nat_to_dec (sr_queued r)
     @ '' contributor(s)'' @ (if sr_skipped r > 0 then '' ('' @ nat_to_dec (sr_skipped r) @ '' skipped due to SMS credit limit)''
       else '''') @ ''.''"

definition publishAnnouncement ::
  "(db_error \<Rightarrow> string) \<Rightarrow> 'k::linorder assist_env \<Rightarrow> env \<Rightarrow> operation_context \<Rightarrow> string \<Rightarrow> bool \<Rightarrow> stage_result svc" where
  "publishAnnouncement db ax env ctx announcementId sendSms =
     (if js_trim announcementId = [] then svc_ret (clarify ''Which announcement should I publish?'')
      else and_then (announcement_publish env ctx (js_trim announcementId)) (\<lambda>a.
        if sendSms then
          svc_catch
            (and_then (sendAnnouncement (xe_collation ax) env ctx (anv_body a) None) (\<lambda>smsResult.
             svc_ret (done_with (broadcast_message smsResult) (Some (Sd_broadcast a smsResult)))))
            (\<lambda>err. svc_ret (done_with (''Published the announcement to the public event page. (SMS broadcast could not be sent: ''
               @ error_text db err @ '')'') (Some (Sd_announcement a))))
        else svc_ret (done_with ''Published the announcement to the public event page.'' (Some (Sd_announcement a)))))"

definition GROUP_KINDS :: "group_kind list" where
  "GROUP_KINDS = [FAMILY_SIDE, FAMILY, FRIENDS, WORKMATES, CHURCH, SCHOOL, VILLAGE, COMMITTEE, DIASPORA, CLAN, OTHER_GROUP]"

definition named_kind :: "string option \<Rightarrow> group_kind" where
  "named_kind kind = (if truthy_str kind
     then nullish (List.find (\<lambda>k. ascii_lower (group_kind_str k) = ascii_lower (the kind)) GROUP_KINDS) OTHER_GROUP
     else OTHER_GROUP)"

definition createGroup_now :: "env \<Rightarrow> operation_context \<Rightarrow> string \<Rightarrow> string option \<Rightarrow> stage_result svc" where
  "createGroup_now env ctx name kind =
     (if js_trim name = [] then svc_ret (clarify ''What should the group be called?'')
      else and_then (createGroup env ctx (js_trim name) (Some (named_kind kind))) (\<lambda>group.
        svc_ret (done_with (''Created group '' @ in_quotes (gv_name group) @ ''.'') (Some (Sd_group group)))))"

definition updateContact_now ::
  "env \<Rightarrow> operation_context \<Rightarrow> string \<Rightarrow> string \<Rightarrow> bool option \<Rightarrow> stage_result svc" where
  "updateContact_now env ctx personName phone confirmSharedPhone =
     (if js_trim phone = [] then svc_ret (clarify ''What is the phone number?'')
      else for_person ctx personName (\<lambda>i displayName.
        and_then (updateContact env ctx i (js_trim phone) confirmSharedPhone) (\<lambda>_.
        svc_ret (done_with (''Saved '' @ js_trim phone @ '' for '' @ displayName @ '' '' @ em_dash
          @ '' they can now receive SMS reminders.'') None))))"

definition assignToGroup :: "env \<Rightarrow> operation_context \<Rightarrow> string \<Rightarrow> string \<Rightarrow> stage_result svc" where
  "assignToGroup env ctx personName groupName =
     for_person ctx personName (\<lambda>i displayName.
     resolveGroup ctx groupName (\<lambda>groupId name.
     and_then (assignPerson env ctx i groupId None) (\<lambda>_.
     svc_ret (done_with (''Added '' @ displayName @ '' to '' @ in_quotes name @ ''.'') None))))"

section \<open>Staged\<close>

definition prepareReminders :: "'k::linorder assist_env \<Rightarrow> env \<Rightarrow> operation_context \<Rightarrow> string \<Rightarrow> stage_result svc" where
  "prepareReminders ax env ctx body =
     (if js_trim body = [] then svc_ret (clarify ''What should the reminder say?'')
      else and_then (previewReminders (xe_collation ax) env ctx None) (\<lambda>preview.
        if rp_recipientCount preview = 0 then
          svc_ret (done_with (''Everyone with a phone has paid '' @ em_dash @ '' no one to remind.'') None)
        else if rp_affordable preview = 0 then
          svc_ret (clarify (nat_to_dec (rp_recipientCount preview)
            @ '' contributor(s) are outstanding, but you have 0 SMS credits. Top up to send reminders.''))
        else
          stage env ctx (SA_send_sms_reminders (js_trim body))
            (''Send a reminder to '' @ nat_to_dec (rp_recipientCount preview) @ '' outstanding contributor(s)''
             @ (if rp_affordable preview < int (rp_recipientCount preview)
                then '' (only '' @ int_to_dec (rp_affordable preview) @ '' affordable with your ''
                  @ int_to_dec (rp_smsBalance preview) @ '' credits)'' else '''')
             @ ''? This uses SMS credits.'')))"

definition bullet :: string where
  "bullet = [CHR 0x0A, CHR 0xE2, CHR 0x80, CHR 0xA2] @ '' ''"

definition role_question :: "string \<Rightarrow> string" where
  "role_question who = ''What should '' @ who @ '' be able to do? Reply with one:''
     @ bullet @ ''Help run the event '' @ em_dash @ '' add people, record payments, and send reminders''
     @ bullet @ ''Handle the money '' @ em_dash @ '' record and correct payments only''
     @ bullet @ ''Co-organize '' @ em_dash @ '' full control, including inviting others''
     @ bullet @ ''Just view progress '' @ em_dash @ '' see the event but not change anything''"

definition inviteMember_stage ::
  "env \<Rightarrow> operation_context \<Rightarrow> string option \<Rightarrow> string option \<Rightarrow> string option \<Rightarrow> stage_result svc" where
  "inviteMember_stage env ctx name role phone =
     permitted ctx Member_manage
       (let who = nullish (trimmed name) ''this person'' in
        case mapRole role of
          None \<Rightarrow> svc_ret (clarify (role_question who))
        | Some resolvedRole \<Rightarrow>
            and_then (svc_read (ent_check env (event_scope (ctx_ev ctx)) Add_member 1)) (\<lambda>seat.
            if \<not> allowed seat then svc_ret (clarify (nullish (dmessage seat) ''Your plan has no free team seats.''))
            else stage env ctx (SA_invite_member resolvedRole (trimmed name) (trimmed phone))
              (''Invite '' @ who @ '' so they can '' @ roleSummary resolvedRole @ ''? I'' @ apostrophe
               @ ''ll create a join link they open to enter their phone and verify a code.'')))"

definition addBudgetItem_stage :: "env \<Rightarrow> operation_context \<Rightarrow> string \<Rightarrow> string \<Rightarrow> stage_result svc" where
  "addBudgetItem_stage env ctx name amount =
     permitted ctx Budget_write
       (case parseAmountToMinorUnits amount of
          Some value \<Rightarrow>
            if js_trim name = [] then svc_ret (clarify ''Which item, and what amount?'')
            else stage env ctx (SA_create_budget_item (js_trim name) (int_to_dec value) None)
              (''Add budget item '' @ in_quotes (js_trim name) @ '' at '' @ fmt value @ ''?'')
        | None \<Rightarrow> svc_ret (clarify ''Which item, and what amount?''))"

definition updateBudgetItem_stage :: "env \<Rightarrow> operation_context \<Rightarrow> string \<Rightarrow> string \<Rightarrow> stage_result svc" where
  "updateBudgetItem_stage env ctx name amount =
     permitted ctx Budget_write
       (case parseAmountToMinorUnits amount of
          None \<Rightarrow> svc_ret (clarify ''What should the new amount be?'')
        | Some value \<Rightarrow>
            resolveBudgetItem ctx name (\<lambda>i itemName.
            stage env ctx (SA_update_budget_item i itemName (int_to_dec value))
              (''Change '' @ in_quotes itemName @ '' to '' @ fmt value @ ''?'')))"

definition removeBudgetItem_stage :: "env \<Rightarrow> operation_context \<Rightarrow> string \<Rightarrow> stage_result svc" where
  "removeBudgetItem_stage env ctx name =
     permitted ctx Budget_write
       (resolveBudgetItem ctx name (\<lambda>i itemName.
        stage env ctx (SA_remove_budget_item i itemName) (''Remove budget item '' @ in_quotes itemName @ ''?'')))"

definition allocateToBudget_stage ::
  "env \<Rightarrow> operation_context \<Rightarrow> string \<Rightarrow> string \<Rightarrow> string \<Rightarrow> stage_result svc" where
  "allocateToBudget_stage env ctx personName budgetItemName amount =
     permitted ctx Budget_write
       (case parseAmountToMinorUnits amount of
          None \<Rightarrow> svc_ret (clarify ''How much should be allocated?'')
        | Some value \<Rightarrow>
            resolveBudgetItem ctx budgetItemName (\<lambda>itemId itemName.
            for_person ctx personName (\<lambda>personId displayName.
            and_then (resolveUnallocatedFulfillmentForPerson (ctx_ev ctx) personId) (\<lambda>fulfillment. case fulfillment of
              Fulfillment_none \<Rightarrow> svc_ret (clarify (displayName @ '' has no unallocated payment to earmark.''))
            | Fulfillment_resolved fulfillmentId unallocated \<Rightarrow>
                if value > unallocated then
                  svc_ret (clarify (displayName @ '' only has '' @ fmt unallocated @ '' unallocated '' @ em_dash
                    @ '' not enough to cover '' @ fmt value @ ''.''))
                else
                  stage env ctx (SA_allocate_to_budget fulfillmentId itemId itemName displayName (int_to_dec value))
                    (''Allocate '' @ fmt value @ '' from '' @ displayName @ apostrophe @ ''s payment to ''
                     @ in_quotes itemName @ ''?'')))))"

definition correctPledge_stage :: "env \<Rightarrow> operation_context \<Rightarrow> string \<Rightarrow> string \<Rightarrow> stage_result svc" where
  "correctPledge_stage env ctx personName amount =
     permitted ctx Fulfillment_correct
       (case parseAmountToMinorUnits amount of
          None \<Rightarrow> svc_ret (clarify ''What is the corrected pledge amount?'')
        | Some value \<Rightarrow>
            for_person ctx personName (\<lambda>personId displayName.
            and_then (resolvePledgeForPerson (ctx_ev ctx) personId) (\<lambda>pledge. case pledge of
              Pledge_resolved pledgeId \<Rightarrow>
                stage env ctx (SA_correct_pledge pledgeId displayName (int_to_dec value))
                  (''Correct '' @ displayName @ apostrophe @ ''s pledge to '' @ fmt value @ ''?'')
            | _ \<Rightarrow> svc_ret (clarify (''I can'' @ apostrophe @ ''t find a single pledge for '' @ displayName @ '' to correct.'')))))"

text \<open>The payments of a person on live pledges, the latest first.\<close>

definition latest_payment :: "uuid \<Rightarrow> session \<Rightarrow> store \<Rightarrow> uuid option" where
  "latest_payment personId s st =
     map_option f_id (List.find (\<lambda>_. True) (order_desc f_occurredAt
       [f. f \<leftarrow> visible_fulfillments s st, pl \<leftarrow> visible_pledges s st,
          f_pledgeId f = pl_id pl \<and> pl_personId pl = personId \<and> pl_status pl \<noteq> CANCELLED]))"

definition correctPayment_stage :: "env \<Rightarrow> operation_context \<Rightarrow> string \<Rightarrow> string \<Rightarrow> stage_result svc" where
  "correctPayment_stage env ctx personName amount =
     permitted ctx Fulfillment_correct
       (case parseAmountToMinorUnits amount of
          None \<Rightarrow> svc_ret (clarify ''What is the corrected payment amount?'')
        | Some value \<Rightarrow>
            for_person ctx personName (\<lambda>personId displayName.
            and_then (runInEvent (ctx_ev ctx) (query (latest_payment personId))) (\<lambda>fulfillmentId. case fulfillmentId of
              None \<Rightarrow> svc_ret (clarify (''I can'' @ apostrophe @ ''t find a recorded payment from '' @ displayName @ ''.''))
            | Some i \<Rightarrow>
                stage env ctx (SA_correct_payment i displayName (int_to_dec value))
                  (''Correct '' @ displayName @ apostrophe @ ''s latest payment to '' @ fmt value @ ''?''))))"

definition mergePeople_stage :: "env \<Rightarrow> operation_context \<Rightarrow> string \<Rightarrow> string \<Rightarrow> stage_result svc" where
  "mergePeople_stage env ctx sourceName targetName =
     permitted ctx Person_merge
       (for_person ctx sourceName (\<lambda>sourceId source_displayName.
        for_person ctx targetName (\<lambda>targetId target_displayName.
        if sourceId = targetId then svc_ret (clarify ''Those are the same record already.'')
        else stage env ctx (SA_merge_people sourceId targetId source_displayName target_displayName)
          (''Merge '' @ source_displayName @ '' into '' @ target_displayName
           @ ''? All their pledges and payments move across; this cannot be undone automatically.''))))"

end
