(* ===== verification/Ai_Queries.thy ===== *)
theory Ai_Queries
  imports Tool_Executor Report_Service Transparency
begin

text \<open>
  The reading tools of the conversational agent: \<^verbatim>\<open>libs/ai/src/agent/ai-query.service.ts\<close>. Every figure is
  computed from the rows of the event, behind the same permissions as the typed API.
\<close>

section \<open>Links and delivery\<close>

record public_link =
  pk_isPublic :: bool
  pk_slug :: string
  pk_publicPath :: string
  pk_publicUrl :: "string option"
  pk_tokenRequired :: bool
  pk_note :: "string option"

definition getPublicLink :: "string option \<Rightarrow> operation_context \<Rightarrow> public_link svc" where
  "getPublicLink base ctx =
     permitted ctx Event_read
       (and_then (svc_read (find_event (ctx_ev ctx))) (\<lambda>found. case found of
          None \<Rightarrow> svc_throw (Db RecordNotFound)
        | Some event \<Rightarrow>
            let token = (if truthy_str (e_publicAccessToken event) then ''?t='' @ the (e_publicAccessToken event) else '''');
                publicPath = ''/#/p/'' @ e_slug event @ token
            in svc_ret \<lparr>pk_isPublic = e_isPublic event, pk_slug = e_slug event, pk_publicPath = publicPath,
                 pk_publicUrl = (if truthy_str base then Some (without_slash (the base) @ publicPath) else None),
                 pk_tokenRequired = (e_publicAccessToken event \<noteq> None),
                 pk_note = (if e_isPublic event then None
                   else Some (''The public page is currently turned OFF '' @ em_dash @ '' turn it on to share this link.''))\<rparr>))"

definition getSmsStatus :: "operation_context \<Rightarrow> uuid option \<Rightarrow> (sms_campaign_row list \<times> delivery_report) svc" where
  "getSmsStatus ctx campaignId =
     and_then (listCampaigns ctx) (\<lambda>campaigns.
     and_then (delivery ctx campaignId) (\<lambda>d. svc_ret (campaigns, d)))"

section \<open>A contributor's standing\<close>

datatype standing_status = No_pledge | Standing_pledged | Standing_partial | Standing_full

record standing =
  sd_displayName :: string
  sd_committed :: string
  sd_received :: string
  sd_outstanding :: string
  sd_pledgeStatus :: standing_status
  sd_paymentCount :: nat
  sd_byMethod :: "(string \<times> string) list"
  sd_inKind :: "string list"

datatype contributor_answer =
    Contributor_not_found string
  | Contributor_ambiguous "string list"
  | Contributor_found standing

text \<open>The payments of a person on pledges that are not cancelled.\<close>

definition live_payments :: "uuid \<Rightarrow> session \<Rightarrow> store \<Rightarrow> fulfillment_row list" where
  "live_payments personId s st =
     [f. f \<leftarrow> visible_fulfillments s st, pl \<leftarrow> visible_pledges s st,
        f_pledgeId f = pl_id pl \<and> pl_personId pl = personId \<and> pl_status pl \<noteq> CANCELLED]"

definition by_method :: "fulfillment_row list \<Rightarrow> (payment_method \<times> money) list" where
  "by_method rows =
     order_desc snd (map (\<lambda>m. (m, sum_list (map f_value (filter (\<lambda>f. f_method f = m) rows)))) (remdups (map f_method rows)))"

definition standing_of :: "string \<Rightarrow> uuid \<Rightarrow> session \<Rightarrow> store \<Rightarrow> standing" where
  "standing_of displayName personId s st =
     (let committed = person_committed personId s st;
          payments = live_payments personId s st;
          received = sum_list (map f_value payments)
      in \<lparr>sd_displayName = displayName, sd_committed = moneyToString committed, sd_received = moneyToString received,
          sd_outstanding = moneyToString (outstanding committed received),
          sd_pledgeStatus = (if committed = 0 then No_pledge else if committed \<le> received then Standing_full
            else if 0 < received then Standing_partial else Standing_pledged),
          sd_paymentCount = length payments,
          sd_byMethod = map (\<lambda>(m, n). (method_str m, moneyToString n)) (by_method payments),
          sd_inKind = map (\<lambda>p. the (pl_description p)) (filter (\<lambda>p. truthy_str (pl_description p))
            (filter (\<lambda>p. pl_personId p = personId \<and> pl_status p \<noteq> CANCELLED \<and> pl_type p \<noteq> CASH) (visible_pledges s st)))\<rparr>)"

definition findContributor :: "operation_context \<Rightarrow> string \<Rightarrow> contributor_answer svc" where
  "findContributor ctx name =
     permitted ctx Ledger_read_amounts
       (and_then (resolvePerson (ctx_ev ctx) name) (\<lambda>resolution. case resolution of
          Person_ambiguous candidates \<Rightarrow> svc_ret (Contributor_ambiguous (map pca_displayName candidates))
        | Person_none \<Rightarrow> svc_ret (Contributor_not_found name)
        | Person_resolved personId displayName \<Rightarrow>
            runInEvent (ctx_ev ctx) (query (\<lambda>s st. Contributor_found (standing_of displayName personId s st)))))"

section \<open>Lists\<close>

record listed_contributor =
  lc_displayName :: string
  lc_committed :: string
  lc_received :: string
  lc_outstanding :: string

record contributor_list =
  cl_interpretation :: string
  cl_count :: nat
  cl_contributors :: "listed_contributor list"

fun status_match :: "contributor_status \<Rightarrow> money \<Rightarrow> money \<Rightarrow> bool" where
  "status_match St_unpaid committed received = (0 < committed \<and> received = 0)"
| "status_match St_partial committed received = (0 < received \<and> received < committed)"
| "status_match St_complete committed received = (0 < committed \<and> committed \<le> received)"
| "status_match St_outstanding committed received = (0 < outstanding committed received)"
| "status_match St_all committed received = (0 < committed)"

fun interpretation_of :: "contributor_status \<Rightarrow> string" where
  "interpretation_of St_all = ''everyone who has pledged''"
| "interpretation_of St_unpaid = ''pledged but paid nothing yet''"
| "interpretation_of St_partial = ''paid some but not all of their pledge''"
| "interpretation_of St_complete = ''fully paid their pledge''"
| "interpretation_of St_outstanding = ''still owe something on their pledge''"

definition with_balance :: "session \<Rightarrow> store \<Rightarrow> (string \<times> money \<times> money) list" where
  "with_balance s st = map (\<lambda>p. (pe_displayName p, person_committed (pe_id p) s st,
     sum_list (map f_value (live_payments (pe_id p) s st)))) (visible_persons s st)"

definition listContributors ::
  "operation_context \<Rightarrow> contributor_status option \<Rightarrow> int option \<Rightarrow> contributor_list svc" where
  "listContributors ctx status0 limit0 =
     permitted ctx Ledger_read_amounts
       (let status = nullish status0 St_all; limit = min (max (nullish limit0 100) 1) 500
        in runInEvent (ctx_ev ctx) (query (\<lambda>s st.
          let found = order_desc (\<lambda>(n, c, r). outstanding c r)
                (filter (\<lambda>(n, c, r). status_match status c r) (with_balance s st))
          in \<lparr>cl_interpretation = interpretation_of status, cl_count = length found,
              cl_contributors = map (\<lambda>(n, c, r). \<lparr>lc_displayName = n, lc_committed = moneyToString c,
                lc_received = moneyToString r, lc_outstanding = moneyToString (outstanding c r)\<rparr>)
                (take (nat limit) found)\<rparr>)))"

section \<open>Periods and budgets\<close>

record period_total =
  pd_from :: string
  pd_to :: string
  pd_total :: string
  pd_paymentCount :: nat

text \<open>A boundary that is not a date is refused by the database client.\<close>

definition collectedInPeriod ::
  "(string \<Rightarrow> time option) \<Rightarrow> operation_context \<Rightarrow> string \<Rightarrow> string \<Rightarrow> period_total svc" where
  "collectedInPeriod date ctx fromIso toIso =
     permitted ctx Ledger_read_amounts
       (case (date fromIso, date toIso) of
          (Some a, Some b) \<Rightarrow>
            runInEvent (ctx_ev ctx) (query (\<lambda>s st.
              let rows = filter (\<lambda>f. a \<le> f_occurredAt f \<and> f_occurredAt f < b) (visible_fulfillments s st)
              in \<lparr>pd_from = toISOString a, pd_to = toISOString b, pd_total = moneyToString (sum_list (map f_value rows)),
                  pd_paymentCount = length rows\<rparr>))
        | _ \<Rightarrow> svc_throw (Thrown ''Invalid value for argument `occurredAt`: Provided Date object is invalid.''))"

datatype funding_status = FUNDED | PARTIALLY_FUNDED | UNFUNDED

record budget_line_view =
  bv_name :: string
  bv_target :: string
  bv_covered :: string
  bv_remaining :: string
  bv_status :: funding_status

record budget_breakdown =
  bb_total :: string
  bb_covered :: string
  bb_unfunded :: string
  bb_items :: "budget_line_view list"

definition item_covered :: "session \<Rightarrow> store \<Rightarrow> budget_item_row \<Rightarrow> money" where
  "item_covered s st b = sum_where (\<lambda>a. a_budgetItemId a = bi_id b) a_value (visible_allocations s st)"

definition budget_line_view_of :: "session \<Rightarrow> store \<Rightarrow> budget_item_row \<Rightarrow> budget_line_view" where
  "budget_line_view_of s st b =
     (let covered = item_covered s st b
      in \<lparr>bv_name = bi_name b, bv_target = moneyToString (bi_targetValue b), bv_covered = moneyToString covered,
          bv_remaining = moneyToString (outstanding (bi_targetValue b) covered),
          bv_status = (if bi_targetValue b \<le> covered \<and> 0 < bi_targetValue b then FUNDED
            else if 0 < covered then PARTIALLY_FUNDED else UNFUNDED)\<rparr>)"

definition budgetBreakdown :: "operation_context \<Rightarrow> budget_breakdown svc" where
  "budgetBreakdown ctx =
     permitted ctx Budget_read
       (runInEvent (ctx_ev ctx) (query (\<lambda>s st.
          let rows = order_desc bi_targetValue (visible_budget_items s st);
              total_value = foldl (\<lambda>acc b. acc + bi_targetValue b) 0 rows;
              covered = foldl (\<lambda>acc b. acc + item_covered s st b) 0 rows
          in \<lparr>bb_total = moneyToString total_value, bb_covered = moneyToString covered,
              bb_unfunded = moneyToString (outstanding total_value covered),
              bb_items = map (budget_line_view_of s st) rows\<rparr>)))"

end
