(* ===== verification/Conversations.thy ===== *)
theory Conversations
  imports Membership_Service
begin

text \<open>
  Conversation memory: \<^verbatim>\<open>libs/ai/src/agent/conversation.service.ts\<close>. Conversations belong to a user, not to
  an event; what was said and the event it is about are stored, nothing else.
\<close>

record conversation_ref =
  cvr_id :: uuid
  cvr_activeEventId :: "uuid option"

record conversation_summary =
  cvs_id :: uuid
  cvs_title :: "string option"
  cvs_activeEventId :: "uuid option"
  cvs_createdAt :: string
  cvs_updatedAt :: string

record message_view =
  msv_id :: uuid
  msv_role :: chat_role
  msv_content :: string
  msv_createdAt :: string

record admin_conversation_row =
  acr_id :: uuid
  acr_userId :: uuid
  acr_userPhone :: "string option"
  acr_title :: "string option"
  acr_activeEventId :: "uuid option"
  acr_messageCount :: nat
  acr_createdAt :: string
  acr_updatedAt :: string

definition HISTORY_LIMIT :: nat where
  "HISTORY_LIMIT = 20"

definition CONVERSATION_LIST_LIMIT :: nat where
  "CONVERSATION_LIST_LIMIT = 20"

abbreviation put_conversations :: "conversation_row list \<Rightarrow> store \<Rightarrow> store" where
  "put_conversations rs st \<equiv> st\<lparr>conversations := rs\<rparr>"
abbreviation put_chat_messages :: "chat_message_row list \<Rightarrow> store \<Rightarrow> store" where
  "put_chat_messages rs st \<equiv> st\<lparr>chat_messages := rs\<rparr>"

definition conversation_create :: "env \<Rightarrow> uuid \<Rightarrow> conversation_row svc" where
  "conversation_create env user =
     global_create conversations put_conversations (\<lambda>_ _. False) (\<lambda>i. \<lparr>cv_id = i, cv_userId = user,
       cv_activeEventId = None, cv_title = None, cv_createdAt = now env, cv_updatedAt = now env\<rparr>)"

text \<open>Every update of the row sets \<open>updatedAt\<close>.\<close>

definition conversation_update :: "env \<Rightarrow> uuid \<Rightarrow> (conversation_row \<Rightarrow> conversation_row) \<Rightarrow> conversation_row svc" where
  "conversation_update env i f =
     global_update conversations put_conversations cv_id i (\<lambda>c. (f c)\<lparr>cv_updatedAt := now env\<rparr>)"

definition ref_of :: "conversation_row \<Rightarrow> conversation_ref" where
  "ref_of c = \<lparr>cvr_id = cv_id c, cvr_activeEventId = cv_activeEventId c\<rparr>"

definition getOrCreate :: "env \<Rightarrow> actor \<Rightarrow> uuid option \<Rightarrow> conversation_ref svc" where
  "getOrCreate env actor conversationId =
     (let fresh = and_then (conversation_create env (userId actor)) (\<lambda>c. svc_ret (ref_of c)) in
      if truthy_str conversationId then
        and_then (svc_read (\<lambda>st. List.find (\<lambda>c. cv_id c = the conversationId \<and> cv_userId c = userId actor) (conversations st)))
          (\<lambda>existing. case existing of Some c \<Rightarrow> svc_ret (ref_of c) | None \<Rightarrow> fresh)
      else fresh)"

text \<open>The last turns, oldest first.\<close>

definition messages_of :: "uuid \<Rightarrow> store \<Rightarrow> chat_message_row list" where
  "messages_of i st = filter (\<lambda>m. cm_conversationId m = i) (chat_messages st)"

definition history :: "uuid \<Rightarrow> (chat_role \<times> string) list svc" where
  "history i = svc_read (\<lambda>st. map (\<lambda>m. (cm_role m, cm_content m))
     (rev (take HISTORY_LIMIT (order_desc cm_createdAt (messages_of i st)))))"

text \<open>Two statements in one transaction: nothing is kept when the conversation is gone.\<close>

definition appendMessage :: "env \<Rightarrow> uuid \<Rightarrow> chat_role \<Rightarrow> string \<Rightarrow> uuid svc" where
  "appendMessage env i role content st =
     (if \<not> list_ex (\<lambda>c. cv_id c = i) (conversations st) then (st, Inl (Db ForeignKeyViolation))
      else
        and_then (global_create chat_messages put_chat_messages (\<lambda>_ _. False) (\<lambda>new. \<lparr>cm_id = new, cm_conversationId = i,
           cm_role = role, cm_content = content, cm_createdAt = now env\<rparr>)) (\<lambda>m.
        and_then (conversation_update env i (\<lambda>c. c)) (\<lambda>_. svc_ret (cm_id m))) st)"

definition setActiveEvent :: "env \<Rightarrow> uuid \<Rightarrow> uuid option \<Rightarrow> unit svc" where
  "setActiveEvent env i eventId =
     and_then (conversation_update env i (\<lambda>c. c\<lparr>cv_activeEventId := eventId\<rparr>)) (\<lambda>_. svc_ret ())"

definition listMine :: "uuid \<Rightarrow> nat option \<Rightarrow> conversation_summary list svc" where
  "listMine user limit =
     svc_read (\<lambda>st. map (\<lambda>c. \<lparr>cvs_id = cv_id c, cvs_title = cv_title c, cvs_activeEventId = cv_activeEventId c,
         cvs_createdAt = toISOString (cv_createdAt c), cvs_updatedAt = toISOString (cv_updatedAt c)\<rparr>)
       (take (nullish limit CONVERSATION_LIST_LIMIT)
         (order_desc cv_updatedAt (filter (\<lambda>c. cv_userId c = user) (conversations st)))))"

definition message_view_of :: "chat_message_row \<Rightarrow> message_view" where
  "message_view_of m = \<lparr>msv_id = cm_id m, msv_role = cm_role m, msv_content = cm_content m,
     msv_createdAt = toISOString (cm_createdAt m)\<rparr>"

definition find_conversation :: "uuid \<Rightarrow> store \<Rightarrow> conversation_row option" where
  "find_conversation i st = List.find (\<lambda>c. cv_id c = i) (conversations st)"

definition getMessages :: "uuid \<Rightarrow> actor \<Rightarrow> message_view list svc" where
  "getMessages i actor =
     and_then (svc_read (find_conversation i)) (\<lambda>conversation. case conversation of
       None \<Rightarrow> svc_throw (NotFound ''Conversation not found'')
     | Some c \<Rightarrow>
         if cv_userId c \<noteq> userId actor then svc_throw (Forbidden ''Not your conversation'')
         else svc_read (\<lambda>st. map message_view_of (sort_key cm_createdAt (messages_of i st))))"

section \<open>The administrator's inbox\<close>

definition listAllForAdmin :: "nat option \<Rightarrow> nat option \<Rightarrow> admin_conversation_row list svc" where
  "listAllForAdmin limit offset =
     svc_read (\<lambda>st. map (\<lambda>c. \<lparr>acr_id = cv_id c, acr_userId = cv_userId c,
         acr_userPhone = Option.bind (find_user (cv_userId c) st) u_phone, acr_title = cv_title c,
         acr_activeEventId = cv_activeEventId c, acr_messageCount = length (messages_of (cv_id c) st),
         acr_createdAt = toISOString (cv_createdAt c), acr_updatedAt = toISOString (cv_updatedAt c)\<rparr>)
       (take (nullish limit 50) (drop (nullish offset 0) (order_desc cv_updatedAt (conversations st)))))"

definition getMessagesAdmin :: "uuid \<Rightarrow> message_view list svc" where
  "getMessagesAdmin i =
     and_then (svc_read (find_conversation i)) (\<lambda>conversation. case conversation of
       None \<Rightarrow> svc_throw (NotFound ''Conversation not found'')
     | Some c \<Rightarrow> svc_read (\<lambda>st. map message_view_of (sort_key cm_createdAt (messages_of i st))))"

end
