(* ===== verification/Agent_Loop.thy ===== *)
theory Agent_Loop
  imports Ai_Mutations Ai_Queries Conversations Budget_Advice Billing
begin

text \<open>
  The turn of the conversational agent: \<open>runLoop\<close>, \<open>runReservedLoop\<close> and \<open>resolveCreditScope\<close> of
  \<^verbatim>\<open>libs/ai/src/agent/assistant.service.ts\<close>. A turn reserves an AI credit, asks the model at most six times,
  runs the tools it calls in between, and commits or refunds the credit. The tools are an argument
  here; \<open>Agent_Tools\<close> defines them. A tool answers with the JSON text of a value; the value stands for it.
\<close>

section \<open>What a tool answers\<close>

record created_event =
  cev_id :: uuid
  cev_name :: string
  cev_targetAmount :: "string option"
  cev_eventDate :: "string option"
  cev_slug :: string

record my_event =
  mye_id :: uuid
  mye_name :: string
  mye_status :: event_status

record report_content =
  rc_tier :: presentation_tier
  rc_totalRecords :: int
  rc_totalAmount :: string
  rc_preview :: "preview_row list"
  rc_isComplete :: bool
  rc_instruction :: string
  rc_filterUrl :: string
  rc_ambiguousGroup :: "(string \<times> (uuid \<times> string) list) option"

datatype tool_content =
    Tc_created created_event
  | Tc_updated created_event
  | Tc_not_updated string
  | Tc_switched "string option"
  | Tc_not_switched string
  | Tc_my_events "my_event list"
  | Tc_active uuid event_role event_status
  | Tc_none_active "my_event list"
  | Tc_recommendation budget_recommendation
  | Tc_no_active_event "my_event list"
  | Tc_overview event_report
  | Tc_contributor contributor_answer
  | Tc_period period_total
  | Tc_budget budget_breakdown
  | Tc_funders budget_item_funders
  | Tc_groups "group_contribution list"
  | Tc_report report_content
  | Tc_link public_link
  | Tc_sms "sms_campaign_row list" delivery_report
  | Tc_stage stage_result
  | Tc_staged string uuid capture_tier
  | Tc_clarification string "string list option"
  | Tc_done string execution_data
  | Tc_unknown_tool string
  | Tc_permission_denied string
  | Tc_tool_error string
  | Tc_redirected string

record tool_outcome =
  to_content :: tool_content
  to_pendingId :: "uuid option"
  to_reportRef :: "report_ref option"

definition json_content :: "tool_content \<Rightarrow> tool_outcome" where
  "json_content v = \<lparr>to_content = v, to_pendingId = None, to_reportRef = None\<rparr>"

text \<open>\<open>JSON.parse(content).isComplete === true\<close>: only a report has that field.\<close>

fun is_complete :: "tool_content \<Rightarrow> bool" where
  "is_complete (Tc_report r) = rc_isComplete r"
| "is_complete _ = False"

section \<open>The model\<close>

record agent_call =
  ac_id :: "string option"
  ac_name :: string
  ac_arguments :: llm_args

record tool_result =
  tr_id :: "string option"
  tr_name :: string
  tr_content :: tool_content

datatype agent_message =
    Msg_system string
  | Msg_user string
  | Msg_assistant string "agent_call list"
  | Msg_tools "tool_result list"

record agent_answer =
  aw_text :: "string option"
  aw_toolCalls :: "agent_call list"
  aw_usage :: llm_usage

text \<open>\<open>LlmRateLimitedError\<close> is told apart from every other failure of a turn.\<close>

datatype turn_error = Rate_limited | Turn_failed error

datatype tool_set = Event_tools | Session_tools

type_synonym agent_llm = "tool_set \<Rightarrow> agent_message list \<Rightarrow> turn_error + agent_answer"

text \<open>What surrounds the agent: the model and its prompts (the learned guidance for a message, the note
  about the date), the assistant's environment, price knowledge, reports, dates, texts of database errors
  and the three arguments of event creation. \<open>ag_odd_report\<close> is what a report with a filter outside
  the tool's schema answers.\<close>

record 'k agent_env =
  ag_llm :: agent_llm
  ag_prompt :: string
  ag_learned :: "string \<Rightarrow> string"
  ag_dateNote :: string
  ag_ax :: "'k assist_env"
  ag_kx :: knowledge_env
  ag_reports :: report_lib
  ag_date :: "string \<Rightarrow> time option"
  ag_db_text :: "db_error \<Rightarrow> string"
  ag_toLowerCase :: "string \<Rightarrow> string"
  ag_normalizeNFKD :: "string \<Rightarrow> string"
  ag_suffix :: string
  ag_odd_report :: "llm_args \<Rightarrow> error + tool_outcome"

section \<open>Turns\<close>

text \<open>A computation on the active event of the session and the database.\<close>

type_synonym world = "uuid option \<times> store"
type_synonym ('e, 'a) turn = "world \<Rightarrow> world \<times> ('e + 'a)"

definition turn_ret :: "'a \<Rightarrow> ('e, 'a) turn" where
  "turn_ret x w = (w, Inr x)"

definition turn_throw :: "'e \<Rightarrow> ('e, 'a) turn" where
  "turn_throw e w = (w, Inl e)"

definition turn_then :: "('e, 'a) turn \<Rightarrow> ('a \<Rightarrow> ('e, 'b) turn) \<Rightarrow> ('e, 'b) turn" where
  "turn_then m k w = (case m w of (w', Inl e) \<Rightarrow> (w', Inl e) | (w', Inr x) \<Rightarrow> k x w')"

definition turn_catch :: "('e, 'a) turn \<Rightarrow> ('e \<Rightarrow> ('f, 'a) turn) \<Rightarrow> ('f, 'a) turn" where
  "turn_catch m handler w = (case m w of (w', Inl e) \<Rightarrow> handler e w' | (w', Inr x) \<Rightarrow> (w', Inr x))"

definition on_store :: "'a svc \<Rightarrow> (error, 'a) turn" where
  "on_store m w = (case m (snd w) of (st', r) \<Rightarrow> ((fst w, st'), r))"

definition failing :: "(error, 'a) turn \<Rightarrow> (turn_error, 'a) turn" where
  "failing m = turn_catch m (\<lambda>e. turn_throw (Turn_failed e))"

type_synonym tools = "string \<Rightarrow> llm_args \<Rightarrow> (error, tool_outcome) turn"

section \<open>The loop\<close>

definition MAX_STEPS :: nat where
  "MAX_STEPS = 6"

definition REPORT_TOOLS :: "string list" where
  "REPORT_TOOLS = [''query_event_report'', ''get_event_overview'']"

record chat_result =
  chr_reply :: string
  chr_staged :: "uuid list"
  chr_reportRefs :: "report_ref list"
  chr_steps :: nat

record loop_state =
  lo_messages :: "agent_message list"
  lo_staged :: "uuid list"
  lo_reportRefs :: "report_ref list"
  lo_reportComplete :: bool

definition redirected :: tool_content where
  "redirected = Tc_redirected (''You already have the complete contributor/pledge data from an earlier call this turn ''
     @ em_dash @ '' calling this again will not return anything new. Stop calling tools and write your final ''
     @ ''reply now, listing every row from that earlier result.'')"

definition after_call :: "agent_call \<Rightarrow> tool_outcome \<Rightarrow> loop_state \<Rightarrow> loop_state" where
  "after_call call out lo = lo\<lparr>
     lo_staged := lo_staged lo @ (if truthy_str (to_pendingId out) then [the (to_pendingId out)] else []),
     lo_reportRefs := lo_reportRefs lo @ (case to_reportRef out of Some r \<Rightarrow> [r] | None \<Rightarrow> []),
     lo_reportComplete := lo_reportComplete lo \<or> ac_name call = ''query_event_report'' \<and> is_complete (to_content out)\<rparr>"

text \<open>The calls of one answer, in order; results accumulate.\<close>

fun run_calls :: "tools \<Rightarrow> agent_call list \<Rightarrow> loop_state \<Rightarrow> tool_result list \<Rightarrow> (error, loop_state \<times> tool_result list) turn" where
  "run_calls dispatch [] lo results = turn_ret (lo, results)"
| "run_calls dispatch (call # calls) lo results =
     (if lo_reportComplete lo \<and> ac_name call \<in> set REPORT_TOOLS then
        run_calls dispatch calls lo (results @ [\<lparr>tr_id = ac_id call, tr_name = ac_name call, tr_content = redirected\<rparr>])
      else
        turn_then (dispatch (ac_name call) (ac_arguments call)) (\<lambda>out.
        run_calls dispatch calls (after_call call out lo)
          (results @ [\<lparr>tr_id = ac_id call, tr_name = ac_name call, tr_content = to_content out\<rparr>])))"

text \<open>Metering of a call, when an event is active.\<close>

definition meter_call :: "env \<Rightarrow> llm_usage \<Rightarrow> (error, unit) turn" where
  "meter_call env usage w =
     (if truthy_str (fst w) then
        (case costMicroUsd usage of
           None \<Rightarrow> turn_throw (Thrown ''RangeError'') w
         | Some cost \<Rightarrow> on_store (recordLlmCall env (the (fst w)) usage cost (Some (JObj [(''tier'', JStr ''assistant'')]))) w)
      else turn_ret () w)"

definition sorry_reply :: string where
  "sorry_reply = ''I wasn'' @ apostrophe @ ''t able to finish that '' @ em_dash @ '' could you rephrase or narrow it down?''"

text \<open>\<open>n\<close> is the number of steps left.\<close>

fun run_steps ::
  "'k agent_env \<Rightarrow> env \<Rightarrow> tool_set \<Rightarrow> tools \<Rightarrow> scope \<Rightarrow> string \<Rightarrow> nat \<Rightarrow> loop_state \<Rightarrow> (turn_error, chat_result) turn" where
  "run_steps ag env tools dispatch sc key 0 lo =
     turn_then (failing (on_store (refundAiCredit env sc key 1))) (\<lambda>_.
     turn_ret \<lparr>chr_reply = sorry_reply, chr_staged = lo_staged lo, chr_reportRefs = lo_reportRefs lo, chr_steps = MAX_STEPS\<rparr>)"
| "run_steps ag env tools dispatch sc key (Suc n) lo =
     (case ag_llm ag tools (lo_messages lo) of
        Inl e \<Rightarrow> turn_throw e
      | Inr result \<Rightarrow>
          turn_then (failing (meter_call env (aw_usage result))) (\<lambda>_.
          if aw_toolCalls result = [] then
            turn_then (failing (on_store (commitAiCredit env sc key))) (\<lambda>_.
            turn_ret \<lparr>chr_reply = nullish (aw_text result) '''', chr_staged = lo_staged lo, chr_reportRefs = lo_reportRefs lo,
              chr_steps = MAX_STEPS - n\<rparr>)
          else
            turn_then (failing (run_calls dispatch (aw_toolCalls result) lo [])) (\<lambda>(lo', results).
            run_steps ag env tools dispatch sc key n (lo'\<lparr>lo_messages := lo_messages lo'
               @ [Msg_assistant (nullish (aw_text result) '''') (aw_toolCalls result), Msg_tools results]\<rparr>))))"

definition system_content :: "'k agent_env \<Rightarrow> string \<Rightarrow> string" where
  "system_content ag message =
     (let gap = [CHR 0x0A, CHR 0x0A]; learned = ag_learned ag message
      in ag_prompt ag @ gap @ (if learned \<noteq> [] then learned @ gap else []) @ ag_dateNote ag)"

definition runReservedLoop ::
  "'k agent_env \<Rightarrow> env \<Rightarrow> tool_set \<Rightarrow> tools \<Rightarrow> string \<Rightarrow> agent_message list \<Rightarrow> scope \<Rightarrow> string \<Rightarrow> (turn_error, chat_result) turn" where
  "runReservedLoop ag env tools dispatch message past sc key =
     run_steps ag env tools dispatch sc key MAX_STEPS
       \<lparr>lo_messages = Msg_system (system_content ag message) # past @ [Msg_user message],
        lo_staged = [], lo_reportRefs = [], lo_reportComplete = False\<rparr>"

section \<open>Credits of a turn\<close>

definition richer :: "env \<Rightarrow> store \<Rightarrow> (uuid \<times> int) option \<Rightarrow> my_event \<Rightarrow> (uuid \<times> int) option" where
  "richer env st best e =
     (if mye_status e \<notin> {DRAFT, ACTIVE, PAUSED} then best
      else let bal = aiBalance env (event_scope (mye_id e)) st
           in if bal > 0 \<and> (case best of None \<Rightarrow> True | Some (_, b) \<Rightarrow> bal > b) then Some (mye_id e, bal) else best)"

definition resolveCreditScope :: "env \<Rightarrow> uuid option \<Rightarrow> uuid \<Rightarrow> my_event list svc option \<Rightarrow> scope svc" where
  "resolveCreditScope env eventId user myEvents =
     (if truthy_str eventId then svc_ret \<lparr>sc_eventId = eventId, sc_accountId = None\<rparr>
      else
        and_then (ensureBillingAccount env user) (\<lambda>account.
        let own = \<lparr>sc_eventId = None, sc_accountId = Some account\<rparr> in
        and_then (svc_read (aiBalance env own)) (\<lambda>accountBalance.
        if accountBalance > 0 then svc_ret own
        else case myEvents of
          None \<Rightarrow> svc_ret own
        | Some list_events \<Rightarrow>
            and_then list_events (\<lambda>es.
            and_then (svc_read (\<lambda>st. foldl (richer env st) None es)) (\<lambda>best.
            svc_ret (case best of Some (e, _) \<Rightarrow> \<lparr>sc_eventId = Some e, sc_accountId = None\<rparr> | None \<Rightarrow> own))))))"

definition locked_message :: string where
  "locked_message = ''Chat feature locked '' @ em_dash
     @ '' 0 AI credits remaining. Purchase an AI Top-Up or upgrade your plan to continue using conversational features.''"

definition busy_result :: chat_result where
  "busy_result = \<lparr>chr_reply = ''The AI assistant is currently receiving very high demand. ''
     @ ''Your request was not charged '' @ em_dash @ '' please try again in a moment.'',
     chr_staged = [], chr_reportRefs = [], chr_steps = 0\<rparr>"

text \<open>A failed turn gives its credit back, whatever the refund does; a busy model is answered politely.\<close>

definition give_back :: "env \<Rightarrow> scope \<Rightarrow> string \<Rightarrow> turn_error \<Rightarrow> (turn_error, chat_result) turn" where
  "give_back env sc key err =
     turn_then (failing (on_store (svc_catch (refundAiCredit env sc key 1) (\<lambda>_. svc_ret ())))) (\<lambda>_.
     case err of Rate_limited \<Rightarrow> turn_ret busy_result | Turn_failed e \<Rightarrow> turn_throw err)"

definition runLoop ::
  "'k agent_env \<Rightarrow> env \<Rightarrow> tool_set \<Rightarrow> tools \<Rightarrow> string \<Rightarrow> agent_message list \<Rightarrow> uuid \<Rightarrow> my_event list svc option \<Rightarrow>
   (turn_error, chat_result) turn" where
  "runLoop ag env tools dispatch message past user myEvents w =
     turn_then (failing (on_store (resolveCreditScope env (fst w) user myEvents))) (\<lambda>sc.
     turn_then (failing (on_store randomUUID)) (\<lambda>new.
     let key = ''ai-turn:'' @ new in
     turn_then (failing (on_store (reserveAiCredit env sc key 1))) (\<lambda>(ok, _).
     if \<not> ok then turn_throw (Turn_failed (Forbidden locked_message))
     else turn_catch (runReservedLoop ag env tools dispatch message past sc key) (give_back env sc key)))) w"

end
