(* ===== verification/Agent_Tools.thy ===== *)
theory Agent_Tools
  imports Agent_Loop
begin

text \<open>
  The tools of the conversational agent: \<open>dispatch\<close>, \<open>dispatchSession\<close> and \<open>write\<close> of
  \<^verbatim>\<open>libs/ai/src/agent/assistant.service.ts\<close>, the session of \<^verbatim>\<open>agent-session.ts\<close> and the entry point
  \<^verbatim>\<open>conversation-orchestrator.service.ts\<close>.
\<close>

section \<open>Reading arguments\<close>

definition truthy_arg :: "js_arg option \<Rightarrow> bool" where
  "truthy_arg x = (case x of None \<Rightarrow> False | Some (Arg_str s) \<Rightarrow> s \<noteq> [] | Some (Arg_num q _) \<Rightarrow> q \<noteq> 0
     | Some (Arg_bool b) \<Rightarrow> b | Some Arg_null \<Rightarrow> False | Some _ \<Rightarrow> True)"

text \<open>\<open>String(args.k ?? '')\<close>, \<open>String(args.k)\<close>, \<open>args.k === undefined ? undefined : String(args.k)\<close> and
  \<open>args.k ? String(args.k) : undefined\<close>.\<close>

definition arg_text :: "string \<Rightarrow> llm_args \<Rightarrow> string" where
  "arg_text k args = (case map_of args k of None \<Rightarrow> [] | Some Arg_null \<Rightarrow> [] | Some x \<Rightarrow> String_of x)"

definition arg_string :: "string \<Rightarrow> llm_args \<Rightarrow> string" where
  "arg_string k args = (case map_of args k of None \<Rightarrow> ''undefined'' | Some x \<Rightarrow> String_of x)"

definition arg_given :: "string \<Rightarrow> llm_args \<Rightarrow> string option" where
  "arg_given k args = map_option String_of (map_of args k)"

definition arg_truthy :: "string \<Rightarrow> llm_args \<Rightarrow> string option" where
  "arg_truthy k args = (if truthy_arg (map_of args k) then map_option String_of (map_of args k) else None)"

definition arg_number :: "string \<Rightarrow> llm_args \<Rightarrow> rat option" where
  "arg_number k args = (case map_of args k of Some (Arg_num q _) \<Rightarrow> Some q | _ \<Rightarrow> None)"

definition parseDate :: "(string \<Rightarrow> time option) \<Rightarrow> js_arg option \<Rightarrow> time option" where
  "parseDate date x = (case x of Some (Arg_str s) \<Rightarrow> (if js_trim s = [] then None else date s) | _ \<Rightarrow> None)"

text \<open>An amount that is missing, null or not readable is no amount.\<close>

definition arg_amount :: "string \<Rightarrow> llm_args \<Rightarrow> money option" where
  "arg_amount k args = (case map_of args k of None \<Rightarrow> None | Some Arg_null \<Rightarrow> None
     | Some x \<Rightarrow> parseAmountToMinorUnits (String_of x))"

section \<open>Contributions\<close>

definition set_arg :: "string \<Rightarrow> js_arg \<Rightarrow> llm_args \<Rightarrow> llm_args" where
  "set_arg k v args = (k, v) # filter (\<lambda>(k', _). k' \<noteq> k) args"

text \<open>The two amounts are normalised; \<open>Inl\<close> is the question to ask.\<close>

definition normalised :: "llm_args \<Rightarrow> string + llm_args" where
  "normalised raw =
     (let first = (case map_of raw ''amount'' of
            None \<Rightarrow> Inr raw
          | Some x \<Rightarrow> (case parseAmountToMinorUnits (String_of x) of
              None \<Rightarrow> Inl ''What amount, exactly?''
            | Some minor \<Rightarrow> Inr (set_arg ''amount'' (Arg_str (int_to_dec minor)) raw)))
      in case first of
           Inl q \<Rightarrow> Inl q
         | Inr args \<Rightarrow>
             (case map_of args ''receivedNow'' of
                None \<Rightarrow> Inr args
              | Some Arg_null \<Rightarrow> Inr args
              | Some x \<Rightarrow> (case parseAmountToMinorUnits (String_of x) of
                  None \<Rightarrow> Inl ''How much have they received so far?''
                | Some minor \<Rightarrow> Inr (set_arg ''receivedNow'' (Arg_str (int_to_dec minor)) args))))"

fun capture_outcome :: "capture_result \<Rightarrow> tool_outcome" where
  "capture_outcome (Pending message pendingId tier) =
     \<lparr>to_content = Tc_staged message pendingId tier, to_pendingId = Some pendingId, to_reportRef = None\<rparr>"
| "capture_outcome (Clarification message options tier) = json_content (Tc_clarification message options)"
| "capture_outcome (Executed message data tier) = json_content (Tc_done message data)"
| "capture_outcome (Answer message data tier) = json_content (Tc_done message data)"

definition write_tool :: "'k::linorder agent_env \<Rightarrow> env \<Rightarrow> operation_context \<Rightarrow> string \<Rightarrow> llm_args \<Rightarrow> tool_outcome svc" where
  "write_tool ag env ctx tool rawArgs =
     (case normalised rawArgs of
        Inl question \<Rightarrow> svc_ret (json_content (Tc_clarification question None))
      | Inr args \<Rightarrow>
          (case safeParse tool args of
             None \<Rightarrow> svc_ret (json_content (Tc_clarification ''I need a bit more detail to do that.'' None))
           | Some call \<Rightarrow>
               and_then (routeToolCall (ag_ax ag) env ctx call (dbl (85/100))) (\<lambda>outcome. svc_ret (capture_outcome outcome))))"

section \<open>Reports\<close>

definition report_type_of :: "string \<Rightarrow> report_type option" where
  "report_type_of s = map_of [(''CONTRIBUTORS'', R_CONTRIBUTORS), (''PLEDGES'', R_PLEDGES), (''OUTSTANDING'', R_OUTSTANDING),
     (''BUDGET'', R_BUDGET), (''PAYMENTS'', R_PAYMENTS)] s"

definition status_of :: "string \<Rightarrow> contributor_status option" where
  "status_of s = map_of [(''all'', St_all), (''unpaid'', St_unpaid), (''partial'', St_partial), (''complete'', St_complete),
     (''outstanding'', St_outstanding)] s"

definition sort_field_of :: "string \<Rightarrow> sort_field option" where
  "sort_field_of s = map_of [(''amount'', By_amount), (''name'', By_name)] s"

definition sort_direction_of :: "string \<Rightarrow> sort_direction option" where
  "sort_direction_of s = map_of [(''asc'', Asc), (''desc'', Desc)] s"

text \<open>A value of an enumeration of the schema, or none; anything else is out of the schema.\<close>

definition enum_arg :: "(string \<Rightarrow> 'a option) \<Rightarrow> string \<Rightarrow> llm_args \<Rightarrow> 'a option option" where
  "enum_arg read k args = (case map_of args k of
     None \<Rightarrow> Some None | Some (Arg_str s) \<Rightarrow> (case read s of None \<Rightarrow> None | Some x \<Rightarrow> Some (Some x)) | _ \<Rightarrow> None)"

definition report_filters_of :: "llm_args \<Rightarrow> report_filters option" where
  "report_filters_of args =
     Option.bind (if truthy_arg (map_of args ''reportType'') then enum_arg report_type_of ''reportType'' args else Some None) (\<lambda>type.
     Option.bind (enum_arg status_of ''status'' args) (\<lambda>status.
     Option.bind (enum_arg sort_field_of ''sortField'' args) (\<lambda>field.
     Option.bind (enum_arg sort_direction_of ''sortDirection'' args) (\<lambda>direction.
     Some \<lparr>rf_reportType = nullish type R_CONTRIBUTORS, rf_status = status, rf_groupName = arg_truthy ''groupName'' args,
       rf_minAmount = arg_number ''minAmount'' args, rf_maxAmount = arg_number ''maxAmount'' args,
       rf_searchTerm = arg_truthy ''searchTerm'' args, rf_sortField = field, rf_sortDirection = direction,
       rf_limit = map_option floor (arg_number ''limit'' args)\<rparr>))))"

definition report_instruction :: "nat \<Rightarrow> int \<Rightarrow> string" where
  "report_instruction shown records =
     (if records \<le> int shown then
        ''This is the COMPLETE result '' @ em_dash @ '' all '' @ nat_to_dec shown @ '' row(s) are in '' @ in_quotes ''preview''
        @ '', nothing is missing. ''
        @ ''Do NOT call query_event_report, get_event_overview, or any other report tool again for this question. ''
        @ ''Write your final reply now: list EVERY one of the '' @ nat_to_dec shown @ '' row(s) by name, one per line ''
        @ em_dash @ '' never fewer, never a subset.''
      else
        ''This is a PARTIAL result '' @ em_dash @ '' only '' @ nat_to_dec shown @ '' of '' @ int_to_dec records
        @ '' total rows are included. Say so explicitly in your reply (e.g. '' @ in_quotes ''showing N of TOTAL'' @ '').'')"

definition report_outcome :: "report_result \<Rightarrow> tool_outcome" where
  "report_outcome r =
     (let shown = length (rres_preview r); records = rr_totalRecords (rres_reportRef r)
      in \<lparr>to_content = Tc_report \<lparr>rc_tier = rres_tier r, rc_totalRecords = records,
            rc_totalAmount = rr_totalAmount (rres_reportRef r), rc_preview = rres_preview r,
            rc_isComplete = (records \<le> int shown), rc_instruction = report_instruction shown records,
            rc_filterUrl = rr_filterUrl (rres_reportRef r), rc_ambiguousGroup = rres_ambiguousGroup r\<rparr>,
          to_pendingId = None, to_reportRef = Some (rres_reportRef r)\<rparr>)"

definition report_tool :: "'k agent_env \<Rightarrow> operation_context \<Rightarrow> llm_args \<Rightarrow> tool_outcome svc" where
  "report_tool ag ctx args =
     (case report_filters_of args of
        None \<Rightarrow> (\<lambda>st. (st, ag_odd_report ag args))
      | Some filters \<Rightarrow> and_then (generateReport (ag_reports ag) ctx filters) (\<lambda>r. svc_ret (report_outcome r)))"

section \<open>Event-scoped tools\<close>

definition staged_outcome :: "stage_result svc \<Rightarrow> tool_outcome svc" where
  "staged_outcome m = and_then m (\<lambda>result.
     svc_ret \<lparr>to_content = Tc_stage result, to_pendingId = sg_pendingId result, to_reportRef = None\<rparr>)"

definition as_json :: "('a \<Rightarrow> tool_content) \<Rightarrow> 'a svc \<Rightarrow> tool_outcome svc" where
  "as_json wrap m = and_then m (\<lambda>x. svc_ret (json_content (wrap x)))"

text \<open>The tools that read.\<close>

definition read_tool ::
  "'k agent_env \<Rightarrow> operation_context \<Rightarrow> string \<Rightarrow> llm_args \<Rightarrow> tool_outcome svc option" where
  "read_tool ag ctx name args = map_of
     [(''get_event_overview'', as_json Tc_overview (getEventReport (xe_fl (ag_ax ag)) ctx 5)),
      (''find_contributor'', as_json Tc_contributor (findContributor ctx (arg_text ''name'' args))),
      (''get_collected_in_period'', as_json Tc_period
         (collectedInPeriod (ag_date ag) ctx (arg_string ''from'' args) (arg_string ''to'' args))),
      (''get_budget'', as_json Tc_budget (budgetBreakdown ctx)),
      (''get_budget_item_funders'', as_json Tc_funders (getBudgetItemFunders ascii_lower ctx (arg_text ''itemName'' args))),
      (''get_group_contributions'', as_json Tc_groups (groupContributions ctx)),
      (''query_event_report'', report_tool ag ctx args),
      (''get_public_link'', as_json Tc_link (getPublicLink (xe_PUBLIC_APP_URL (ag_ax ag)) ctx)),
      (''get_sms_status'', as_json (\<lambda>(campaigns, d). Tc_sms campaigns d) (getSmsStatus ctx (arg_truthy ''campaignId'' args)))] name"

text \<open>The tools that go through \<open>AiMutationService\<close>.\<close>

definition mutation_tool ::
  "'k::linorder agent_env \<Rightarrow> env \<Rightarrow> operation_context \<Rightarrow> string \<Rightarrow> llm_args \<Rightarrow> stage_result svc option" where
  "mutation_tool ag env ctx name args = map_of
     [(''add_budget_item'', addBudgetItem_stage env ctx (arg_text ''name'' args) (arg_text ''amount'' args)),
      (''update_budget_item'', updateBudgetItem_stage env ctx (arg_text ''name'' args) (arg_text ''amount'' args)),
      (''remove_budget_item'', removeBudgetItem_stage env ctx (arg_text ''name'' args)),
      (''allocate_to_budget'', allocateToBudget_stage env ctx (arg_text ''personName'' args) (arg_text ''budgetItemName'' args)
         (arg_text ''amount'' args)),
      (''correct_pledge'', correctPledge_stage env ctx (arg_text ''personName'' args) (arg_text ''amount'' args)),
      (''correct_payment'', correctPayment_stage env ctx (arg_text ''personName'' args) (arg_text ''amount'' args)),
      (''merge_people'', mergePeople_stage env ctx (arg_text ''sourceName'' args) (arg_text ''targetName'' args)),
      (''draft_announcement'', draftAnnouncement env ctx (arg_text ''body'' args)),
      (''publish_announcement'', publishAnnouncement (ag_db_text ag) (ag_ax ag) env ctx (arg_text ''announcementId'' args)
         (truthy_arg (map_of args ''sendSms''))),
      (''send_reminders'', prepareReminders (ag_ax ag) env ctx (arg_text ''body'' args)),
      (''invite_member'', inviteMember_stage env ctx (arg_given ''name'' args) (arg_given ''role'' args) (arg_given ''phone'' args)),
      (''update_member_role'', updateMemberRole env ctx (arg_text ''nameOrPhone'' args) (arg_text ''role'' args)),
      (''create_group'', createGroup_now env ctx (arg_text ''name'' args) (arg_given ''kind'' args)),
      (''assign_to_group'', assignToGroup env ctx (arg_text ''personName'' args) (arg_text ''groupName'' args)),
      (''update_contact'', updateContact_now env ctx (arg_text ''personName'' args) (arg_text ''phone'' args)
         (Some (truthy_arg (map_of args ''confirmSharedPhone''))))] name"

definition WRITE_TOOLS :: "string list" where
  "WRITE_TOOLS = [''add_person'', ''record_pledge'', ''record_payment'']"

definition tool_failed :: "(db_error \<Rightarrow> string) \<Rightarrow> error \<Rightarrow> tool_outcome" where
  "tool_failed db err = json_content (case err of Forbidden detail \<Rightarrow> Tc_permission_denied detail
     | _ \<Rightarrow> Tc_tool_error (error_text db err))"

text \<open>The promise of \<open>write\<close> is returned without being awaited: what it throws is not caught here.\<close>

definition dispatch_tool ::
  "'k::linorder agent_env \<Rightarrow> env \<Rightarrow> operation_context \<Rightarrow> string \<Rightarrow> llm_args \<Rightarrow> tool_outcome svc" where
  "dispatch_tool ag env ctx name args =
     (if name \<in> set WRITE_TOOLS then write_tool ag env ctx name args
      else
        svc_catch
          (case read_tool ag ctx name args of
             Some m \<Rightarrow> m
           | None \<Rightarrow>
               (case mutation_tool ag env ctx name args of
                  Some m \<Rightarrow> staged_outcome m
                | None \<Rightarrow> svc_ret (json_content (Tc_unknown_tool (''unknown tool: '' @ name)))))
          (\<lambda>err. svc_ret (tool_failed (ag_db_text ag) err)))"

definition chat ::
  "'k::linorder agent_env \<Rightarrow> env \<Rightarrow> operation_context \<Rightarrow> string \<Rightarrow> agent_message list \<Rightarrow> store \<Rightarrow> store \<times> (turn_error + chat_result)" where
  "chat ag env ctx message past st =
     (case runLoop ag env Event_tools (\<lambda>name args. on_store (dispatch_tool ag env ctx name args)) message past (ctx_user ctx)
         None (Some (ctx_ev ctx), st) of
        ((active, st'), r) \<Rightarrow> (st', r))"

section \<open>Sessions\<close>

definition created_event_of :: "event_summary \<Rightarrow> created_event" where
  "created_event_of e = \<lparr>cev_id = es_id e, cev_name = es_name e, cev_targetAmount = es_targetAmount e,
     cev_eventDate = es_eventDate e, cev_slug = es_slug e\<rparr>"

definition my_events :: "actor \<Rightarrow> my_event list svc" where
  "my_events actor = and_then (listMyEvents actor) (\<lambda>rows.
     svc_ret (map (\<lambda>e. \<lparr>mye_id = es_id e, mye_name = es_name e, mye_status = es_status e\<rparr>) rows))"

text \<open>The pointer is cleared before the row is.\<close>

definition activeEventCtx :: "env \<Rightarrow> actor \<Rightarrow> uuid \<Rightarrow> (error, operation_context option) turn" where
  "activeEventCtx env actor conversationId w =
     (if \<not> truthy_str (fst w) then (w, Inr None)
      else case requireContext actor (the (fst w)) (snd w) of
        (st', Inr event) \<Rightarrow> ((fst w, st'), Inr (Some \<lparr>ctx_actor = actor, ctx_event = event\<rparr>))
      | (st', Inl _) \<Rightarrow> on_store (and_then (setActiveEvent env conversationId None) (\<lambda>_. svc_ret None)) (None, st'))"

definition setActive :: "env \<Rightarrow> uuid \<Rightarrow> uuid \<Rightarrow> (error, unit) turn" where
  "setActive env conversationId eventId w =
     on_store (setActiveEvent env conversationId (Some eventId)) (Some eventId, snd w)"

definition session_createEvent ::
  "'k agent_env \<Rightarrow> env \<Rightarrow> actor \<Rightarrow> uuid \<Rightarrow> string \<Rightarrow> money option \<Rightarrow> time option \<Rightarrow> (error, created_event) turn" where
  "session_createEvent ag env actor conversationId name target date =
     turn_then (on_store (createEvent (ag_toLowerCase ag) (ag_normalizeNFKD ag) (ag_suffix ag) env actor
        \<lparr>ce_name = name, ce_currency = None, ce_targetAmount = target, ce_eventDate = date, ce_timezone = None,
         ce_country = None\<rparr>)) (\<lambda>summary.
     turn_then (setActive env conversationId (es_id summary)) (\<lambda>_.
     turn_ret (created_event_of summary)))"

definition session_updateEvent ::
  "env \<Rightarrow> actor \<Rightarrow> uuid \<Rightarrow> string option \<Rightarrow> money option \<Rightarrow> time option \<Rightarrow> (error, tool_content) turn" where
  "session_updateEvent env actor conversationId name target date =
     turn_then (activeEventCtx env actor conversationId) (\<lambda>active. case active of
       None \<Rightarrow> turn_ret (Tc_not_updated (''No active event '' @ em_dash @ '' switch to or create one first.''))
     | Some ctx \<Rightarrow>
         turn_then (on_store (updateEvent env ctx \<lparr>ue_name = name, ue_targetAmount = target, ue_eventDate = date\<rparr>)) (\<lambda>summary.
         turn_ret (Tc_updated (created_event_of summary))))"

definition session_switchEvent :: "env \<Rightarrow> actor \<Rightarrow> uuid \<Rightarrow> uuid \<Rightarrow> (error, tool_content) turn" where
  "session_switchEvent env actor conversationId eventId w =
     (case requireContext actor eventId (snd w) of
        (st', Inl _) \<Rightarrow> ((fst w, st'), Inr (Tc_not_switched ''You are not a member of that event (or it does not exist).''))
      | (st', Inr _) \<Rightarrow>
          turn_then (setActive env conversationId eventId) (\<lambda>_.
          turn_then (on_store (my_events actor)) (\<lambda>mine.
          turn_ret (Tc_switched (map_option mye_name (List.find (\<lambda>e. mye_id e = eventId) mine))))) (fst w, st'))"

definition recommendation_of_args :: "llm_args \<Rightarrow> string \<Rightarrow> recommendation_input" where
  "recommendation_of_args args eventType = \<lparr>bi_eventType = eventType, bi_region = arg_truthy ''region'' args,
     bi_guestCount = arg_number ''guestCount'' args, bi_tier = arg_given ''tier'' args,
     bi_existingCategories = (case map_of args ''existingCategories'' of Some (Arg_list xs) \<Rightarrow> Some (map String_of xs) | _ \<Rightarrow> None)\<rparr>"

text \<open>The tools of the user, which need no active event.\<close>

definition session_tool ::
  "'k agent_env \<Rightarrow> env \<Rightarrow> actor \<Rightarrow> uuid \<Rightarrow> string \<Rightarrow> llm_args \<Rightarrow> (error, tool_content) turn option" where
  "session_tool ag env actor conversationId name args = map_of
     [(''create_event'',
         let eventName = js_trim (arg_text ''name'' args) in
         if eventName = [] then turn_ret (Tc_clarification ''What should the event be called?'' None)
         else turn_then (session_createEvent ag env actor conversationId eventName (arg_amount ''target'' args)
                (parseDate (ag_date ag) (map_of args ''date''))) (\<lambda>e. turn_ret (Tc_created e))),
      (''update_event'',
         session_updateEvent env actor conversationId (trimmed (arg_given ''name'' args)) (arg_amount ''target'' args)
           (parseDate (ag_date ag) (map_of args ''date''))),
      (''switch_event'', session_switchEvent env actor conversationId (arg_text ''eventId'' args)),
      (''list_my_events'', turn_then (on_store (my_events actor)) (\<lambda>es. turn_ret (Tc_my_events es))),
      (''get_active_event'',
         turn_then (activeEventCtx env actor conversationId) (\<lambda>active. case active of
           Some ctx \<Rightarrow> turn_ret (Tc_active (ctx_ev ctx) (ctx_role (ctx_event ctx)) (ctx_status (ctx_event ctx)))
         | None \<Rightarrow> turn_then (on_store (my_events actor)) (\<lambda>es. turn_ret (Tc_none_active es)))),
      (''get_budget_recommendation'',
         let eventType = js_trim (arg_text ''eventType'' args) in
         if eventType = [] then turn_ret (Tc_clarification
           ''What kind of event is this for (e.g. kwanjula, church wedding, funeral)?'' None)
         else turn_then (on_store (getRecommendation (ag_kx ag) env (recommendation_of_args args eventType))) (\<lambda>r.
           turn_ret (Tc_recommendation r)))] name"

text \<open>Again the promise of \<open>dispatch\<close> is not awaited; the resolution of the active event is.\<close>

definition dispatchSession ::
  "'k::linorder agent_env \<Rightarrow> env \<Rightarrow> actor \<Rightarrow> uuid \<Rightarrow> tools" where
  "dispatchSession ag env actor conversationId name args =
     (let failed = (\<lambda>err. json_content (Tc_tool_error (error_text (ag_db_text ag) err))) in
      case session_tool ag env actor conversationId name args of
        Some m \<Rightarrow> turn_catch (turn_then m (\<lambda>v. turn_ret (json_content v))) (\<lambda>err. turn_ret (failed err))
      | None \<Rightarrow> (\<lambda>w. case activeEventCtx env actor conversationId w of
          (w', Inl err) \<Rightarrow> (w', Inr (failed err))
        | (w', Inr None) \<Rightarrow>
            turn_catch (turn_then (on_store (my_events actor)) (\<lambda>es. turn_ret (json_content (Tc_no_active_event es))))
              (\<lambda>err. turn_ret (failed err)) w'
        | (w', Inr (Some ctx)) \<Rightarrow> on_store (dispatch_tool ag env ctx name args) w'))"

definition chatSession ::
  "'k::linorder agent_env \<Rightarrow> env \<Rightarrow> actor \<Rightarrow> uuid \<Rightarrow> string \<Rightarrow> agent_message list \<Rightarrow> (turn_error, chat_result) turn" where
  "chatSession ag env actor conversationId message past =
     runLoop ag env Session_tools (dispatchSession ag env actor conversationId) message past (userId actor) (Some (my_events actor))"

section \<open>conversation-orchestrator.service.ts\<close>

record converse_result =
  cnr_conversationId :: uuid
  cnr_activeEventId :: "uuid option"
  cnr_reply :: string
  cnr_staged :: "uuid list"
  cnr_reportRefs :: "report_ref list"

fun replayed :: "chat_role \<times> string \<Rightarrow> agent_message" where
  "replayed (CR_user, content) = Msg_user content"
| "replayed (CR_assistant, content) = Msg_assistant content []"

definition converse ::
  "'k::linorder agent_env \<Rightarrow> env \<Rightarrow> actor \<Rightarrow> string \<Rightarrow> uuid option \<Rightarrow> store \<Rightarrow> store \<times> (turn_error + converse_result)" where
  "converse ag env actor message conversationId st =
     (case and_then (getOrCreate env actor conversationId) (\<lambda>conversation.
           and_then (history (cvr_id conversation)) (\<lambda>past.
           and_then (appendMessage env (cvr_id conversation) CR_user message) (\<lambda>_.
           svc_ret (conversation, past)))) st of
        (st1, Inl e) \<Rightarrow> (st1, Inl (Turn_failed e))
      | (st1, Inr (conversation, past)) \<Rightarrow>
          (case chatSession ag env actor (cvr_id conversation) message (map replayed past) (cvr_activeEventId conversation, st1) of
             ((active, st2), Inl e) \<Rightarrow> (st2, Inl e)
           | ((active, st2), Inr result) \<Rightarrow>
               (case appendMessage env (cvr_id conversation) CR_assistant (chr_reply result) st2 of
                  (st3, Inl e) \<Rightarrow> (st3, Inl (Turn_failed e))
                | (st3, Inr _) \<Rightarrow> (st3, Inr \<lparr>cnr_conversationId = cvr_id conversation, cnr_activeEventId = active,
                    cnr_reply = chr_reply result, cnr_staged = chr_staged result, cnr_reportRefs = chr_reportRefs result\<rparr>))))"

end
