(* ===== verification/Agent_Guarantees.thy ===== *)
theory Agent_Guarantees
  imports Agent_Tools Document_Properties Credit_Ledgers
begin

text \<open>
  What the tools and the loop of the conversational agent may do to the store, whatever the model answers:
  they write no money, they propose; and where a turn stands with its credit when it is left.
\<close>

section \<open>Turns and relations\<close>

definition turn_keeps :: "(store \<Rightarrow> store \<Rightarrow> bool) \<Rightarrow> ('e, 'a) turn \<Rightarrow> bool" where
  "turn_keeps R m = (\<forall>w w' r. m w = (w', r) \<longrightarrow> R (snd w) (snd w'))"

lemma turn_keepsI: "(\<And>w w' r. m w = (w', r) \<Longrightarrow> R (snd w) (snd w')) \<Longrightarrow> turn_keeps R m"
  by (simp add: turn_keeps_def)

lemma turn_keepsD: "turn_keeps R m \<Longrightarrow> m w = (w', r) \<Longrightarrow> R (snd w) (snd w')"
  unfolding turn_keeps_def by blast

context store_relation
begin

lemma turn_basic: "turn_keeps R (turn_ret x)" "turn_keeps R (turn_throw e)"
  by (auto simp: turn_keeps_def turn_ret_def turn_throw_def rel_refl)

lemma turn_then: "turn_keeps R m \<Longrightarrow> (\<And>x. turn_keeps R (k x)) \<Longrightarrow> turn_keeps R (turn_then m k)"
  unfolding turn_keeps_def turn_then_def by (fastforce intro: rel_trans split: prod.splits sum.splits)

lemma turn_catch: "turn_keeps R m \<Longrightarrow> (\<And>e. turn_keeps R (h e)) \<Longrightarrow> turn_keeps R (turn_catch m h)"
  unfolding turn_keeps_def turn_catch_def by (fastforce intro: rel_trans split: prod.splits sum.splits)

lemma turn_store: "svc_keeps R m \<Longrightarrow> turn_keeps R (on_store m)"
  unfolding turn_keeps_def on_store_def svc_keeps_def by (fastforce split: prod.splits)

lemma turn_failing: "turn_keeps R m \<Longrightarrow> turn_keeps R (failing m)"
  unfolding failing_def by (intro turn_catch turn_basic)

lemmas turn_rules = turn_basic turn_then turn_catch turn_store turn_failing

end

section \<open>What a tool may write\<close>

text \<open>No money moves, no proposal that was there changes, new ones wait for a human in the name of the user.\<close>

definition proposing :: "uuid \<Rightarrow> store \<Rightarrow> store \<Rightarrow> bool" where
  "proposing u a b \<longleftrightarrow> pledges b = pledges a \<and> fulfillments b = fulfillments a \<and> allocations b = allocations a
     \<and> budgets b = budgets a \<and> budget_items b = budget_items a
     \<and> (\<exists>new. confirmations b = confirmations a @ new
          \<and> list_all (\<lambda>c. pc_status c = PC_PENDING \<and> pc_createdById c = Some u) new)"

definition talked :: "uuid \<Rightarrow> store \<Rightarrow> store \<Rightarrow> bool" where
  "talked u a b \<longleftrightarrow> proposing u a b \<and> ai_ledger b = ai_ledger a"

interpretation proposing: store_relation "proposing u" for u
  by unfold_locales (auto simp: proposing_def)

interpretation talked: store_relation "talked u" for u
  by unfold_locales (auto simp: talked_def intro: proposing.rel_refl proposing.rel_trans)

lemma talkedI:
  assumes "pledges b = pledges a" "fulfillments b = fulfillments a" "allocations b = allocations a"
    "budgets b = budgets a" "budget_items b = budget_items a" "confirmations b = confirmations a"
    "ai_ledger b = ai_ledger a"
  shows "talked u a b"
  using assms by (simp add: talked_def proposing_def)

lemma talked_statements:
  "keeps s (talked u) (person_update i fpe)" "keeps s (talked u) (group_create mkg)"
  "keeps s (talked u) (person_group_create mkpg)" "keeps s (talked u) (audit_write t ai)"
  "keeps s (talked u) (outbox_enqueue t oi)" "keeps s (talked u) (member_upsert e v mkm fm)"
  "keeps s (talked u) (event_create mke)" "keeps s (talked u) (member_create mkm')"
  "keeps s (talked u) (announcement_create mka)" "keeps s (talked u) (announcement_update i fa)"
  "keeps s (talked u) (sms_campaign_create mkc)" "keeps s (talked u) (sms_campaign_update i fc)"
  "keeps s (talked u) (sms_message_create row)"
  by (auto intro!: keepsI talkedI simp: person_update_def group_create_def person_group_create_def audit_write_def
      outbox_enqueue_def outbox_create_def member_upsert_def event_create_def statement_Inr global_create_def
      member_create_def announcement_create_def announcement_update_def sms_campaign_create_def
      sms_campaign_update_def sms_message_create_def tbl_create_def tbl_update_def Let_def
      split: if_splits option.splits sum.splits error.splits db_error.splits)

lemma talked_globals:
  "svc_keeps (talked u) (event_update i fe)" "svc_keeps (talked u) (conversation_update env i fv)"
  "svc_keeps (talked u) (knowledge_source_create env ks)" "svc_keeps (talked u) (observation_create_many mks)"
  "svc_keeps (talked u) (append_sms env sc k n key ref)" "svc_keeps (talked u) randomUUID"
  "svc_keeps (talked u) (ensureBillingAccount env v)"
  by (auto intro!: svc_keepsI talkedI simp: event_update_def conversation_update_def knowledge_source_create_def
      observation_create_many_def append_sms_def credit_append_def credit_create_def randomUUID_def ensureBillingAccount_def
      billing_account_create_def and_then_def global_update_def global_create_def Let_def
      split: option.splits if_splits error.splits db_error.splits prod.splits sum.splits)

lemma staged_talked: "staged_by ctx a b \<Longrightarrow> talked (ctx_user ctx) a b"
  by (auto simp: staged_by_def talked_def proposing_def list_all_iff)

lemma create_confirmation_talked:
  "svc_keeps (talked (ctx_user ctx)) (create_confirmation env ctx intent action q prompt)"
proof (rule svc_keepsI)
  fix st st' r assume "create_confirmation env ctx intent action q prompt st = (st', r)"
  then obtain row where "st' = put_confirmations (confirmations st @ [row]) (draw st)" "pc_status row = PC_PENDING"
      "pc_createdById row = Some (ctx_user ctx)"
    by (auto simp: create_confirmation_def runInEvent_def transaction_def confirmation_create_def
        tbl_create_def Let_def await_def)
  then show "talked (ctx_user ctx) st st'" by (simp add: talked_def proposing_def)
qed

lemma keeping_talked: "svc_keeps (talked u) m \<Longrightarrow> svc_keeps (talked u) (keeping_credits m)"
  by (auto simp: svc_keeps_def keeping_credits_def talked_def proposing_def split: prod.splits sum.splits)

lemmas talked_rules = talked.svc_rules talked.svc_transaction talked.svc_catch talked.ai_reads talked.requireContext_reads
  talked_globals talked_statements keeping_talked talked.keeps_await talked.keeps_ret talked.keeps_query talked.keeps_throw


section \<open>Reading tools\<close>

context store_relation
begin

lemma svc_asUser: "keeps (setCurrentUser no_session u) R m \<Longrightarrow> svc_keeps R (runAsUser u m)"
  unfolding runAsUser_def by (rule svc_transaction)

lemma agent_reads:
  "svc_keeps R (getPublicLink base ctx)" "svc_keeps R (getSmsStatus ctx i)"
  "svc_keeps R (findContributor ctx name)" "svc_keeps R (collectedInPeriod date ctx s t)"
  "svc_keeps R (budgetBreakdown ctx)" "svc_keeps R (listMembers ctx)" "svc_keeps R (my_events actor)"
  "svc_keeps R (getBudgetItemFunders lower ctx name)" "svc_keeps R (groupContributions ctx)"
  unfolding getPublicLink_def getSmsStatus_def findContributor_def collectedInPeriod_def budgetBreakdown_def
    listMembers_def my_events_def listMyEvents_def listCampaigns_def delivery_def getBudgetItemFunders_def groupContributions_def
  by (auto intro!: svc_rules svc_asUser svc_query ai_reads keeps_query keeps_await keeps_ret simp: Let_def
      split: option.splits person_resolution.splits)

lemma report_tool_reads: "svc_keeps R (report_tool ag ctx args)"
proof -
  have "svc_keeps R (\<lambda>st. (st, x))" for x :: "error + tool_outcome"
    by (simp add: svc_keeps_def rel_refl)
  then show ?thesis
    unfolding report_tool_def generateReport_def
    by (auto intro!: svc_rules svc_query split: option.splits)
qed

lemma as_json_reads: "svc_keeps R m \<Longrightarrow> svc_keeps R (as_json wrap m)"
  unfolding as_json_def by (intro svc_rules)

lemma previewReminders_reads: "svc_keeps R (previewReminders collation env ctx None)"
  unfolding previewReminders_def selected_def unpaidWithPhone_def
  by (auto intro!: svc_rules keeps_query keeps_await keeps_ret simp: Let_def)

end

section \<open>Writing tools\<close>

lemma talked_bodies:
  "keeps s (talked u) (updateContact_tx env ctx i ph c)" "keeps s (talked u) (createGroup_tx env ctx nm k)"
  "keeps s (talked u) (assignPerson_tx env ctx i g rl)" "keeps s (talked u) (addMember_tx env ctx v r)"
  "keeps s (talked u) (announcement_create_tx env ctx body source)"
  unfolding updateContact_tx_def assertPhoneNotAttachedElsewhere_def createGroup_tx_def assignPerson_tx_def
    addMember_tx_def announcement_create_tx_def Let_def
  by ((intro keeps_intros talked_rules talked.keeps_swallowed)?; simp add: talked_rules)+

lemma talked_transition: "keeps s (talked u) (transition_tx env ctx i status act)"
proof -
  have "keeps s (talked u) (bumpRevision e)" for s e
    unfolding bumpRevision_def by (intro talked_rules keeps_statement)
  then show ?thesis
    unfolding transition_tx_def by (auto intro!: talked_rules split: option.splits)
qed

lemma talked_calls:
  "svc_keeps (talked u) (updateContact env ctx i ph c)" "svc_keeps (talked u) (createGroup env ctx nm k)"
  "svc_keeps (talked u) (assignPerson env ctx i g rl)" "svc_keeps (talked u) (updateRole env ctx v r)"
  "svc_keeps (talked u) (announcement_create_op env ctx body source)" "svc_keeps (talked u) (announcement_publish env ctx i)"
  using talked_bodies talked_transition
    op_updateContact.svc_related [OF talked.store_relation_axioms [of u], of ctx env "(i, ph, c)"]
    op_createGroup.svc_related [OF talked.store_relation_axioms [of u], of ctx env "(nm, k)"]
    op_assignPerson.svc_related [OF talked.store_relation_axioms [of u], of ctx env "(i, g, rl)"]
    op_addMember.svc_related [OF talked.store_relation_axioms [of u], of ctx env "(v, r)"]
  by (simp_all add: updateRole_def announcement_create_op_def announcement_publish_def announcement_transition_def
      talked.svc_rules)

lemma talked_queue: "svc_keeps (talked u) (queue_messages env e c body rs)"
proof (induction rs)
  case Nil
  show ?case unfolding queue_messages.simps by (rule talked_rules)
next
  case (Cons r rs)
  have "svc_keeps (talked u) (reserve env sc n key)" for sc n key
    unfolding reserve_def by (intro talked_rules svc_keeps_if)
  then show ?case by (auto intro!: talked_rules Cons)
qed

lemma talked_announce: "svc_keeps (talked u) (sendAnnouncement collation env ctx body None)"
proof -
  have "keeps s (talked u) (selected collation None (allWithPhone collation))" for s
    by (simp add: selected_def allWithPhone_def talked_rules)
  then show ?thesis
    unfolding sendAnnouncement_def sms_dispatch_def Let_def by (intro talked_rules talked_queue svc_keeps_if)
qed

lemma talked_stage: "svc_keeps (talked (ctx_user ctx)) (stage env ctx action prompt)"
  unfolding stage_def by (intro talked_rules create_confirmation_talked)

lemma talked_lookups:
  "(\<And>i n. svc_keeps (talked u) (k i n)) \<Longrightarrow> svc_keeps (talked u) (for_person ctx name k)"
  "(\<And>i n. svc_keeps (talked u) (k i n)) \<Longrightarrow> svc_keeps (talked u) (resolveBudgetItem ctx name k)"
  "(\<And>i n. svc_keeps (talked u) (k i n)) \<Longrightarrow> svc_keeps (talked u) (resolveGroup ctx name k)"
  unfolding for_person_def resolveBudgetItem_def resolveGroup_def
  by (auto intro!: talked_rules talked.svc_query split: person_resolution.splits list.splits)

lemma talked_unallocated: "svc_keeps (talked u) (resolveUnallocatedFulfillmentForPerson e i)"
  unfolding resolveUnallocatedFulfillmentForPerson_def by (auto intro!: talked_rules talked.svc_query simp: Let_def)

lemmas mutation_rules = talked_rules talked_stage talked_lookups talked_unallocated talked_calls talked_announce
  talked.svc_query talked.agent_reads talked.previewReminders_reads

lemma written_at_once:
  fixes ctx :: operation_context
  defines "R \<equiv> talked (ctx_user ctx)"
  shows "svc_keeps R (draftAnnouncement env ctx body)" "svc_keeps R (publishAnnouncement db ax env ctx i sms)"
    "svc_keeps R (updateMemberRole env ctx target role)" "svc_keeps R (createGroup_now env ctx name kind)"
    "svc_keeps R (assignToGroup env ctx person gname)" "svc_keeps R (updateContact_now env ctx person phone shared)"
  unfolding R_def draftAnnouncement_def publishAnnouncement_def updateMemberRole_def createGroup_now_def
    assignToGroup_def updateContact_now_def
  by (auto intro!: mutation_rules split: option.splits)

lemma staged_tools:
  fixes ctx :: operation_context
  defines "R \<equiv> talked (ctx_user ctx)"
  shows "svc_keeps R (addBudgetItem_stage env ctx name amount)" "svc_keeps R (updateBudgetItem_stage env ctx name amount)"
    "svc_keeps R (removeBudgetItem_stage env ctx name)" "svc_keeps R (allocateToBudget_stage env ctx person item amount)"
    "svc_keeps R (correctPledge_stage env ctx person amount)" "svc_keeps R (correctPayment_stage env ctx person amount)"
    "svc_keeps R (mergePeople_stage env ctx source target)" "svc_keeps R (prepareReminders ax env ctx body)"
    "svc_keeps R (inviteMember_stage env ctx name' role phone)"
  unfolding R_def addBudgetItem_stage_def updateBudgetItem_stage_def removeBudgetItem_stage_def
    allocateToBudget_stage_def correctPledge_stage_def correctPayment_stage_def mergePeople_stage_def
    prepareReminders_def inviteMember_stage_def Let_def
  by (auto intro!: mutation_rules split: option.splits pledge_resolution.splits fulfillment_resolution.splits)

section \<open>Tools\<close>

lemma map_of_Some_cases: "map_of xs k = Some v \<Longrightarrow> (\<And>p. p \<in> set xs \<Longrightarrow> Q (snd p)) \<Longrightarrow> Q v"
  by (force dest: map_of_SomeD)

lemma write_tool_talked: "svc_keeps (talked (ctx_user ctx)) (write_tool ag env ctx tool args)"
proof -
  have "svc_keeps (talked (ctx_user ctx)) (routeToolCall (ag_ax ag) env ctx call q)" for call q
    unfolding routeToolCall_def by (rule svc_keeps_sub [OF forced_route_staged staged_talked])
  then show ?thesis
    unfolding write_tool_def by (auto intro!: talked_rules split: sum.splits option.splits)
qed

lemma read_tool_talked: "read_tool ag ctx name args = Some m \<Longrightarrow> svc_keeps (talked u) m"
  unfolding read_tool_def
  by (erule map_of_Some_cases)
     (auto intro!: talked.as_json_reads talked.agent_reads talked.ai_answers talked.report_tool_reads)

lemma mutation_tool_talked:
  "mutation_tool ag env ctx name args = Some m \<Longrightarrow> svc_keeps (talked (ctx_user ctx)) m"
  unfolding mutation_tool_def by (erule map_of_Some_cases) (auto intro!: written_at_once staged_tools)

lemma dispatch_tool_talked: "svc_keeps (talked (ctx_user ctx)) (dispatch_tool ag env ctx name args)"
  unfolding dispatch_tool_def staged_outcome_def
  by (auto intro!: talked_rules write_tool_talked split: option.splits dest: read_tool_talked mutation_tool_talked)

section \<open>Tools of a session\<close>

lemma talked_event_calls:
  "svc_keeps (talked u) (createEvent lower nfkd rnd env ac i)" "svc_keeps (talked u) (updateEvent env ctx ui)"
proof -
  show "svc_keeps (talked u) (createEvent lower nfkd rnd env ac i)"
    unfolding createEvent_def runCreatingEvent_def createEvent_tx_def
    apply (rule talked_rules)
    apply (rule talked.svc_transaction)
    apply (rule talked_rules)
     apply (rule talked_rules)
    apply (rule keepsI)
    apply (erule keepsD [rotated])
    by (intro keeps_intros talked_rules)
  show "svc_keeps (talked u) (updateEvent env ctx ui)"
    unfolding updateEvent_def by (auto intro!: talked_rules split: option.splits)
qed

lemma talked_recommendation: "svc_keeps (talked u) (getRecommendation kx env i)"
proof -
  have ingest: "svc_keeps (talked u) (ingestObservations env source obs)" for source obs
    unfolding ingestObservations_def by (auto intro!: talked_rules)
  have one: "svc_keeps (talked u) (ingestLiveResult kx env topic key r)" for topic key r
    unfolding ingestLiveResult_def by (auto intro!: talked_rules ingest split: sum.splits option.splits)
  have many: "ingest_results kx env topic key rs n st = (st', k) \<Longrightarrow> talked u st st'" for topic key rs n st st' k
  proof (induction rs arbitrary: n st)
    case Nil
    then show ?case by (simp add: talked.rel_refl)
  next
    case (Cons r rs)
    obtain st1 res where first: "ingestLiveResult kx env topic key r st = (st1, res)" by fastforce
    with one have "talked u st st1" by (rule svc_keepsD)
    moreover have "talked u st1 st'" using Cons first by (auto split: sum.splits)
    ultimately show ?case by (rule talked.rel_trans)
  qed
  have attempt: "svc_keeps (talked u) (recordSearchAttempt env key n)" for key n
    unfolding recordSearchAttempt_def by (intro talked_rules)
  have "svc_keeps (talked u) (maybeBackfillLive kx env topic)" for topic
  proof (rule svc_keepsI)
    fix st st' r assume "maybeBackfillLive kx env topic st = (st', r)"
    then show "talked u st st'"
      using svc_keepsD [OF attempt] many talked.rel_trans unfolding maybeBackfillLive_def
      by (auto simp: Let_def talked.rel_refl split: if_splits sum.splits prod.splits) blast+
  qed
  then show ?thesis
    unfolding getRecommendation_def queryObservations_def Let_def by (auto intro!: talked_rules)
qed

lemma talked_setActive: "svc_keeps (talked u) (setActiveEvent env i e)"
  unfolding setActiveEvent_def by (intro talked_rules)

lemma talked_session_basics:
  "turn_keeps (talked u) (activeEventCtx env actor i)" "turn_keeps (talked u) (setActive env i e)"
proof -
  show "turn_keeps (talked u) (setActive env i e)"
    unfolding setActive_def using turn_keepsD [OF talked.turn_store [OF talked_setActive]]
    by (fastforce intro!: turn_keepsI)
  show "turn_keeps (talked u) (activeEventCtx env actor i)"
  proof (rule turn_keepsI)
    fix w w' r assume run: "activeEventCtx env actor i w = (w', r)"
    obtain st1 res where found: "requireContext actor (the (fst w)) (snd w) = (st1, res)" by fastforce
    with talked.requireContext_reads have first: "talked u (snd w) st1" by (rule svc_keepsD)
    have cleared: "svc_keeps (talked u) (and_then (setActiveEvent env i None) (\<lambda>_. svc_ret (None :: operation_context option)))"
      by (intro talked_rules talked_setActive)
    show "talked u (snd w) (snd w')"
      using run found first turn_keepsD [OF talked.turn_store [OF cleared], of "(None, st1)" w' r] talked.rel_trans
      by (auto simp: activeEventCtx_def talked.rel_refl split: if_splits sum.splits)
  qed
qed

lemmas session_rules = talked.turn_rules talked_session_basics talked_event_calls talked_recommendation talked.agent_reads

lemma talked_switch: "turn_keeps (talked u) (session_switchEvent env actor i e)"
proof (rule turn_keepsI)
  fix w w' r assume run: "session_switchEvent env actor i e w = (w', r)"
  obtain st1 res where found: "requireContext actor e (snd w) = (st1, res)" by fastforce
  with talked.requireContext_reads have first: "talked u (snd w) st1" by (rule svc_keepsD)
  let ?k = "turn_then (setActive env i e) (\<lambda>_. turn_then (on_store (my_events actor)) (\<lambda>mine.
          turn_ret (Tc_switched (map_option mye_name (List.find (\<lambda>x. mye_id x = e) mine)))))"
  have "turn_keeps (talked u) (?k :: (error, tool_content) turn)" by (intro session_rules)
  from turn_keepsD [OF this, of "(fst w, st1)" w' r] show "talked u (snd w) (snd w')"
    using run found first talked.rel_trans by (auto simp: session_switchEvent_def split: sum.splits)
qed

lemma session_tool_talked: "session_tool ag env actor i name args = Some m \<Longrightarrow> turn_keeps (talked u) m"
  unfolding session_tool_def session_createEvent_def session_updateEvent_def Let_def
  by (erule map_of_Some_cases) (auto intro!: session_rules talked_switch split: option.splits)

lemma dispatchSession_talked: "turn_keeps (talked (userId actor)) (dispatchSession ag env actor i name args)"
proof (cases "session_tool ag env actor i name args")
  case (Some m)
  then show ?thesis
    unfolding dispatchSession_def by (auto simp: Let_def intro!: session_rules session_tool_talked)
next
  case None
  show ?thesis
  proof (rule turn_keepsI)
    fix w w' r assume run: "dispatchSession ag env actor i name args w = (w', r)"
    obtain w1 res where active: "activeEventCtx env actor i w = (w1, res)" by fastforce
    with talked_session_basics(1) have first: "talked (userId actor) (snd w) (snd w1)" by (rule turn_keepsD)
    let ?failed = "\<lambda>err. json_content (Tc_tool_error (error_text (ag_db_text ag) err))"
    let ?ask = "turn_catch (turn_then (on_store (my_events actor)) (\<lambda>es. turn_ret (json_content (Tc_no_active_event es))))
              (\<lambda>err. turn_ret (?failed err)) :: (error, tool_outcome) turn"
    have ask: "turn_keeps (talked (userId actor)) ?ask" by (intro session_rules)
    have ctx: "ctx_user ctx = userId actor" if "res = Inr (Some ctx)" for ctx
      using active that by (auto simp: activeEventCtx_def on_store_def and_then_def split: if_splits sum.splits prod.splits)
    have tool: "talked (userId actor) (snd w1) (snd w')"
      if "res = Inr (Some ctx)" "on_store (dispatch_tool ag env ctx name args) w1 = (w', r)" for ctx
      using turn_keepsD [OF talked.turn_store [OF dispatch_tool_talked] that(2)] ctx [OF that(1)] by simp
    show "talked (userId actor) (snd w) (snd w')"
      using run None active first turn_keepsD [OF ask, of w1 w' r] tool talked.rel_trans
      by (auto simp: dispatchSession_def Let_def split: sum.splits option.splits)
  qed
qed

section \<open>The loop\<close>

lemma turn_then_cases:
  assumes "turn_then m k w = (w', r)" "turn_keeps R m"
  obtains (stop) e where "r = Inl e" "R (snd w) (snd w')"
  | (go) x w1 where "m w = (w1, Inr x)" "k x w1 = (w', r)" "R (snd w) (snd w1)"
  using assms by (auto simp: turn_then_def dest: turn_keepsD split: prod.splits sum.splits)

lemma run_calls_talked:
  assumes "\<And>name args. turn_keeps (talked u) (dispatch name args)"
  shows "turn_keeps (talked u) (run_calls dispatch calls lo results)"
  by (induction calls arbitrary: lo results) (auto intro!: talked.turn_rules assms)

lemma meter_talked: "turn_keeps (talked u) (meter_call env usage)"
proof -
  have metered: "svc_keeps (talked u) (recordLlmCall env e us c m)" for e us c m
    by (auto intro!: svc_keepsI talkedI simp: recordLlmCall_def runInEvent_def transaction_def tbl_create_def Let_def await_def)
  show ?thesis
  proof (rule turn_keepsI)
    fix w w' r assume "meter_call env usage w = (w', r)"
    then show "talked u (snd w) (snd w')"
      using turn_keepsD [OF talked.turn_store [OF metered]]
      by (auto simp: meter_call_def turn_throw_def turn_ret_def talked.rel_refl split: if_splits option.splits)
  qed
qed

lemma credit_calls:
  "commitAiCredit env sc key st = (fst (commitAiCredit env sc key st), Inr ())"
  "refundAiCredit env sc key n st = (fst (refundAiCredit env sc key n st), Inr ())"
  by (simp_all add: ai_operations ai.append_returns prod_eq_iff)

lemma after_store:
  "m (snd w) = (st', Inr x) \<Longrightarrow> turn_then (failing (on_store m)) k w = k x (fst w, st')"
  by (simp add: turn_then_def failing_def turn_catch_def on_store_def)

lemmas after_credit = after_store [OF credit_calls(1)] after_store [OF credit_calls(2)]

text \<open>Where a turn stands with its credit when the loop is left.\<close>

definition settled :: "env \<Rightarrow> scope \<Rightarrow> string \<Rightarrow> store \<Rightarrow> store \<Rightarrow> turn_error + chat_result \<Rightarrow> bool" where
  "settled env sc key a b r = (case r of
     Inl e \<Rightarrow> b = a
   | Inr res \<Rightarrow> b = fst (commitAiCredit env sc key a) \<and> 1 \<le> chr_steps res \<and> chr_steps res \<le> MAX_STEPS
       \<or> b = fst (refundAiCredit env sc key 1 a) \<and> chr_reply res = sorry_reply)"

lemma run_steps_settled:
  assumes tools: "\<And>name args. turn_keeps (talked u) (dispatch name args)"
  shows "n \<le> MAX_STEPS \<Longrightarrow> run_steps ag env ts dispatch sc key n lo w = (w', r) \<Longrightarrow>
    \<exists>a. talked u (snd w) a \<and> settled env sc key a (snd w') r"
proof (induction n arbitrary: lo w)
  case 0
  then show ?case
    by (intro exI [of _ "snd w"]) (auto simp: settled_def talked.rel_refl after_credit turn_ret_def)
next
  case (Suc n)
  show ?case
  proof (cases "ag_llm ag ts (lo_messages lo)")
    case (Inl e)
    then show ?thesis
      using Suc.prems by (intro exI [of _ "snd w"]) (auto simp: settled_def talked.rel_refl turn_throw_def)
  next
    case (Inr result)
    note run = Suc.prems(2) [unfolded run_steps.simps Inr sum.case]
    from run talked.turn_failing [OF meter_talked [of u]] show ?thesis
    proof (cases rule: turn_then_cases)
      case (stop e)
      then show ?thesis by (auto simp: settled_def)
    next
      case (go x w1)
      show ?thesis
      proof (cases "aw_toolCalls result = []")
        case True
        then show ?thesis
          using go Suc.prems(1)
          by (intro exI [of _ "snd w1"]) (auto simp: settled_def after_credit turn_ret_def MAX_STEPS_def)
      next
        case False
        note calls = go(2) [unfolded if_not_P [OF False]]
        from calls talked.turn_failing [OF run_calls_talked [OF tools]] show ?thesis
        proof (cases rule: turn_then_cases)
          case (stop e)
          then show ?thesis using go(3) talked.rel_trans by (auto simp: settled_def)
        next
          case (go y w2)
          obtain lo' results where y: "y = (lo', results)" by fastforce
          have "n \<le> MAX_STEPS" using Suc.prems(1) by simp
          from Suc.IH [OF this go(2) [unfolded y prod.case]] obtain a where
            "talked u (snd w2) a" "settled env sc key a (snd w') r" by blast
          then show ?thesis using go(3) \<open>talked u (snd w) (snd w1)\<close> talked.rel_trans by blast
        qed
      qed
    qed
  qed
qed

section \<open>The credit of a turn\<close>

text \<open>No id that is still to be drawn names a turn in the ledger.\<close>

definition unused_turns :: "store \<Rightarrow> bool" where
  "unused_turns st = (\<forall>n\<ge>drawn st. let key = ''ai-turn:'' @ uuid st n in
     {key, ''commit:'' @ key, ''refund:'' @ key} \<inter> used_keys ai_ledger st = {})"

lemma unused_turns_mono:
  "unused_turns a \<Longrightarrow> supply_grows a b \<Longrightarrow> ai_ledger b = ai_ledger a \<Longrightarrow> unused_turns b"
  by (auto simp: unused_turns_def supply_grows_def used_keys_def Let_def)

context store_relation
begin

lemma resolve_scope_keeps:
  fixes myEvents :: "my_event list svc option"
  assumes "\<And>m. myEvents = Some m \<Longrightarrow> svc_keeps R m" "svc_keeps R (ensureBillingAccount env user)"
  shows "svc_keeps R (resolveCreditScope env e user myEvents)"
  unfolding resolveCreditScope_def using assms
  by (auto intro!: svc_rules simp: Let_def split: option.splits)

end

lemma credit_row:
  "key \<notin> used_keys ai_ledger st \<Longrightarrow> \<exists>row. ai_ledger (fst (appendAi env sc kind n key ref st)) = ai_ledger st @ [row]
     \<and> cr_amount row = n \<and> cr_eventId row = sc_eventId sc \<and> cr_idempotencyKey row = key"
  by (simp add: appendAi_def ai.append_new)

lemma append_proposing: "proposing u st (fst (appendAi env sc kind n key ref st))"
  by (cases "key \<in> used_keys ai_ledger st")
     (simp_all add: appendAi_def ai.append_replay ai.append_new proposing.rel_refl, simp add: proposing_def draw_def)

lemma reserved:
  "reserveAiCredit env sc key 1 st =
     (if aiBalance env sc st < 1 then (st, Inr (False, aiBalance env sc st))
      else (fst (appendAi env sc RESERVE (- 1) key None st), Inr (True, aiBalance env sc st - 1)))"
  by (simp add: reserveAiCredit_def appendAi_def)

lemma given_back:
  "give_back env sc key err w = ((fst w, fst (refundAiCredit env sc key 1 (snd w))),
     case err of Rate_limited \<Rightarrow> Inr busy_result | Turn_failed e \<Rightarrow> Inl err)"
proof -
  have refund: "svc_catch (refundAiCredit env sc key 1) (\<lambda>_. svc_ret ()) (snd w) = (fst (refundAiCredit env sc key 1 (snd w)), Inr ())"
    unfolding svc_catch_def by (subst credit_calls(2)) simp
  show ?thesis
    unfolding give_back_def
      after_store [where m = "svc_catch (refundAiCredit env sc key 1) (\<lambda>_. svc_ret ())" and w = w, OF refund]
    by (auto simp: turn_ret_def turn_throw_def split: turn_error.splits)
qed

text \<open>How a reserved turn ends: charged with an answer, or refunded.\<close>

definition charged :: "turn_error + chat_result \<Rightarrow> bool" where
  "charged r = (\<exists>res. r = Inr res \<and> 1 \<le> chr_steps res \<and> chr_steps res \<le> MAX_STEPS)"

definition refunded :: "turn_error + chat_result \<Rightarrow> bool" where
  "refunded r = (\<forall>res. r = Inr res \<longrightarrow> res = busy_result \<or> chr_reply res = sorry_reply)"

lemma reserved_turn:
  assumes tools: "\<And>name args. turn_keeps (talked u) (dispatch name args)"
    and run: "turn_catch (runReservedLoop ag env ts dispatch message past sc key) (give_back env sc key) w = (w', r)"
  shows "\<exists>a. talked u (snd w) a \<and>
    (snd w' = fst (commitAiCredit env sc key a) \<and> charged r \<or> snd w' = fst (refundAiCredit env sc key 1 a) \<and> refunded r)"
proof -
  obtain w1 r1 where loop: "runReservedLoop ag env ts dispatch message past sc key w = (w1, r1)" by fastforce
  then obtain a where a: "talked u (snd w) a" "settled env sc key a (snd w1) r1"
    using run_steps_settled [where dispatch = dispatch and u = u, OF tools order_refl] unfolding runReservedLoop_def by blast
  show ?thesis
  proof (cases r1)
    case (Inl e)
    then show ?thesis
      using run loop a by (auto simp: turn_catch_def given_back settled_def refunded_def split: turn_error.splits)
  next
    case (Inr res)
    then show ?thesis
      using run loop a by (auto simp: turn_catch_def settled_def charged_def refunded_def)
  qed
qed

text \<open>What a turn adds to the ledger of credits: rows of one scope that cancel out, or cost one credit.\<close>

definition credit_exact :: "store \<Rightarrow> store \<Rightarrow> turn_error + chat_result \<Rightarrow> bool" where
  "credit_exact a b r \<longleftrightarrow> (\<exists>extra e. ai_ledger b = ai_ledger a @ extra \<and> list_all (\<lambda>c. cr_eventId c = e) extra
     \<and> (sum_list (map cr_amount extra) = - 1 \<and> charged r \<or> sum_list (map cr_amount extra) = 0 \<and> refunded r))"

lemma reserved_turn_exact:
  assumes turn: "talked u (fst (appendAi env sc RESERVE (- 1) key None st)) a"
      "b = fst (commitAiCredit env sc key a) \<and> charged r \<or> b = fst (refundAiCredit env sc key 1 a) \<and> refunded r"
    and unused: "{key, ''commit:'' @ key, ''refund:'' @ key} \<inter> used_keys ai_ledger st = {}"
  shows "credit_exact st b r"
proof -
  obtain row where row: "ai_ledger a = ai_ledger st @ [row]" "cr_amount row = - 1" "cr_eventId row = sc_eventId sc"
      "cr_idempotencyKey row = key"
    using turn(1) credit_row [of key st env sc RESERVE "- 1" None] unused by (auto simp: talked_def)
  then have fresh: "''commit:'' @ key \<notin> used_keys ai_ledger a" "''refund:'' @ key \<notin> used_keys ai_ledger a"
    using unused by (auto simp: used_keys_def)
  show ?thesis
    using turn(2)
  proof
    assume end': "b = fst (commitAiCredit env sc key a) \<and> charged r"
    from credit_row [OF fresh(1), of env sc COMMIT 0 "Some key"] obtain row' where
      "ai_ledger b = ai_ledger a @ [row']" "cr_amount row' = 0" "cr_eventId row' = sc_eventId sc"
      using end' by (auto simp: commitAiCredit_def)
    then show ?thesis
      unfolding credit_exact_def using row end' by (intro exI [of _ "[row, row']"] exI [of _ "sc_eventId sc"]) simp
  next
    assume end': "b = fst (refundAiCredit env sc key 1 a) \<and> refunded r"
    from credit_row [OF fresh(2), of env sc REFUND 1 "Some key"] obtain row' where
      "ai_ledger b = ai_ledger a @ [row']" "cr_amount row' = 1" "cr_eventId row' = sc_eventId sc"
      using end' by (auto simp: refundAiCredit_def)
    then show ?thesis
      unfolding credit_exact_def using row end' by (intro exI [of _ "[row, row']"] exI [of _ "sc_eventId sc"]) simp
  qed
qed

lemma runLoop_reserved:
  assumes "resolveCreditScope env (fst w) v myEvents (snd w) = (st1, Inr sc)"
  defines "key \<equiv> ''ai-turn:'' @ fresh_id st1"
  shows "runLoop ag env ts dispatch message past v myEvents w =
    (if aiBalance env sc (draw st1) < 1 then ((fst w, draw st1), Inl (Turn_failed (Forbidden locked_message)))
     else turn_catch (runReservedLoop ag env ts dispatch message past sc key) (give_back env sc key)
       (fst w, fst (appendAi env sc RESERVE (- 1) key None (draw st1))))"
proof -
  have new: "randomUUID st1 = (draw st1, Inr (fresh_id st1))" by (simp add: randomUUID_def)
  show ?thesis
    unfolding runLoop_def after_store [where m = "resolveCreditScope env (fst w) v myEvents" and w = w, OF assms(1)]
      after_store [where m = randomUUID and w = "(fst w, st1)", unfolded fst_conv snd_conv, OF new] Let_def key_def [symmetric]
    using reserved [of env sc key "draw st1"]
    by (simp add: turn_then_def failing_def turn_catch_def on_store_def turn_throw_def)
qed

lemma runLoop_turn:
  assumes tools: "\<And>name args. turn_keeps (talked u) (dispatch name args)"
    and mine: "\<And>m. myEvents = Some m \<Longrightarrow> svc_keeps (talked u) m \<and> svc_keeps supply_grows m"
    and run: "runLoop ag env ts dispatch message past v myEvents w = (w', r)"
  shows "proposing u (snd w) (snd w')" "unused_turns (snd w) \<Longrightarrow> credit_exact (snd w) (snd w') r"
proof -
  have billing: "svc_keeps supply_grows (ensureBillingAccount env v)"
    by (auto intro!: svc_keepsI simp: ensureBillingAccount_def billing_account_create_def and_then_def global_create_def
        supply_grows_def Let_def split: option.splits if_splits)
  obtain st1 res where scope: "resolveCreditScope env (fst w) v myEvents (snd w) = (st1, res)" by fastforce
  have "svc_keeps (talked u) (resolveCreditScope env (fst w) v myEvents)"
    using mine by (intro talked.resolve_scope_keeps talked_globals) auto
  from svc_keepsD [OF this scope] have talk: "talked u (snd w) st1" .
  have "svc_keeps supply_grows (resolveCreditScope env (fst w) v myEvents)"
    using mine by (intro supplied.resolve_scope_keeps billing) auto
  from svc_keepsD [OF this scope] have grows: "supply_grows (snd w) st1" .
  let ?key = "''ai-turn:'' @ fresh_id st1"
  have drawn: "talked u (snd w) (draw st1)"
    using talk by (rule talked.rel_trans) (simp add: talkedI)
  have "proposing u (snd w) (snd w') \<and> (unused_turns (snd w) \<longrightarrow> credit_exact (snd w) (snd w') r)"
  proof (cases res)
    case (Inl e)
    then have "snd w' = st1 \<and> r = Inl (Turn_failed e)"
      using run scope by (auto simp: runLoop_def turn_then_def failing_def turn_catch_def turn_throw_def on_store_def)
    then show ?thesis using talk by (auto simp: talked_def credit_exact_def refunded_def)
  next
    case (Inr sc)
    have unused: "{?key, ''commit:'' @ ?key, ''refund:'' @ ?key} \<inter> used_keys ai_ledger (draw st1) = {}"
      if "unused_turns (snd w)"
      using unused_turns_mono [OF that grows] talk
      by (auto simp: unused_turns_def talked_def Let_def fresh_id_def used_keys_def)
    note whole = run [unfolded runLoop_reserved [OF scope [unfolded Inr]]]
    show ?thesis
    proof (cases "aiBalance env sc (draw st1) < 1")
      case True
      then show ?thesis
        using whole drawn by (auto simp: talked_def credit_exact_def refunded_def)
    next
      case False
      let ?begun = "fst (appendAi env sc RESERVE (- 1) ?key None (draw st1))"
      have "turn_catch (runReservedLoop ag env ts dispatch message past sc ?key) (give_back env sc ?key) (fst w, ?begun) = (w', r)"
        using whole False by simp
      from reserved_turn [where dispatch = dispatch and u = u, OF tools this] obtain a where a: "talked u ?begun a"
        "snd w' = fst (commitAiCredit env sc ?key a) \<and> charged r \<or> snd w' = fst (refundAiCredit env sc ?key 1 a) \<and> refunded r"
        by auto
      have "proposing u (snd w) a"
        using drawn append_proposing a(1) unfolding talked_def by (blast intro: proposing.rel_trans)
      moreover have "proposing u a (snd w')"
        using a(2) append_proposing by (auto simp: commitAiCredit_def refundAiCredit_def)
      moreover have "credit_exact (snd w) (snd w') r" if "unused_turns (snd w)"
        using reserved_turn_exact [OF a unused [OF that]] drawn by (simp add: credit_exact_def talked_def)
      ultimately show ?thesis using proposing.rel_trans by blast
    qed
  qed
  then show "proposing u (snd w) (snd w')" "unused_turns (snd w) \<Longrightarrow> credit_exact (snd w) (snd w') r" by blast+
qed

section \<open>Conversations\<close>

lemma session_turn:
  assumes "chatSession ag env actor conversationId message past w = (w', r)"
  shows "proposing (userId actor) (snd w) (snd w')" "unused_turns (snd w) \<Longrightarrow> credit_exact (snd w) (snd w') r"
proof -
  have mine: "svc_keeps (talked u) m \<and> svc_keeps supply_grows m" if "Some (my_events actor) = Some m" for m u
    using that talked.agent_reads(7) [of u actor] supplied.agent_reads(7) [of actor] by simp
  show "proposing (userId actor) (snd w) (snd w')" "unused_turns (snd w) \<Longrightarrow> credit_exact (snd w) (snd w') r"
    using runLoop_turn [OF dispatchSession_talked mine assms [unfolded chatSession_def]] by blast+
qed

lemma talked_conversation:
  "svc_keeps (talked u) (getOrCreate env actor i)" "svc_keeps (talked u) (history j)"
  "svc_keeps (talked u) (appendMessage env j role content)"
proof -
  have create: "svc_keeps (talked u) (conversation_create env v)" for v
    by (auto intro!: svc_keepsI talkedI simp: conversation_create_def global_create_def Let_def split: if_splits)
  show "svc_keeps (talked u) (getOrCreate env actor i)" "svc_keeps (talked u) (history j)"
    unfolding getOrCreate_def history_def by (auto intro!: talked_rules create simp: Let_def split: option.splits)
  have "svc_keeps (talked u) (global_create chat_messages put_chat_messages (\<lambda>_ _. False) mk)" for mk
    by (auto intro!: svc_keepsI talkedI simp: global_create_def Let_def)
  then have inserted: "svc_keeps (talked u) (and_then (global_create chat_messages put_chat_messages (\<lambda>_ _. False) mk) (\<lambda>m.
        and_then (conversation_update env j f) (\<lambda>_. svc_ret (cm_id m))))" for mk f
    by (intro talked_rules)
  show "svc_keeps (talked u) (appendMessage env j role content)"
    using svc_keepsD [OF inserted] by (auto intro!: svc_keepsI simp: appendMessage_def talked.rel_refl split: if_splits)
qed

end
