(* ===== verification/Agent_Properties.thy ===== *)
theory Agent_Properties
  imports Agent_Guarantees
begin

text \<open>
  The properties of a turn of the conversational agent, whatever the model answers: it asks the model at most
  six times, it costs one credit exactly when it is answered, it moves no money, and its tools answer with
  values, three of them excepted.
\<close>

section \<open>Questions\<close>

abbreviation other_model :: "'k agent_env \<Rightarrow> agent_llm \<Rightarrow> 'k agent_env" where
  "other_model ag llm \<equiv> ag\<lparr>ag_llm := llm\<rparr>"

lemma same_fields:
  "ag_prompt (other_model ag llm) = ag_prompt ag" "ag_learned (other_model ag llm) = ag_learned ag"
  "ag_dateNote (other_model ag llm) = ag_dateNote ag" "ag_ax (other_model ag llm) = ag_ax ag"
  "ag_kx (other_model ag llm) = ag_kx ag" "ag_reports (other_model ag llm) = ag_reports ag"
  "ag_date (other_model ag llm) = ag_date ag" "ag_db_text (other_model ag llm) = ag_db_text ag"
  "ag_toLowerCase (other_model ag llm) = ag_toLowerCase ag" "ag_normalizeNFKD (other_model ag llm) = ag_normalizeNFKD ag"
  "ag_suffix (other_model ag llm) = ag_suffix ag" "ag_odd_report (other_model ag llm) = ag_odd_report ag"
  by simp_all

lemma same_content: "system_content (other_model ag llm) = system_content ag"
  unfolding fun_eq_iff system_content_def same_fields by (intro allI refl)

lemma same_tools:
  "dispatch_tool (other_model ag llm) = dispatch_tool ag" "dispatchSession (other_model ag llm) = dispatchSession ag"
proof -
  show same: "dispatch_tool (other_model ag llm) = dispatch_tool ag"
    unfolding fun_eq_iff dispatch_tool_def write_tool_def read_tool_def mutation_tool_def report_tool_def same_fields
    by (intro allI refl)
  show "dispatchSession (other_model ag llm) = dispatchSession ag"
    unfolding fun_eq_iff dispatchSession_def same session_tool_def session_createEvent_def same_fields
    by (intro allI refl)
qed

lemma turn_then_stop: "m w = (w', Inl e) \<Longrightarrow> turn_then m k w = (w', Inl e)"
  and turn_then_go: "m w = (w', Inr x) \<Longrightarrow> turn_then m k w = k x w'"
  by (simp_all add: turn_then_def)

text \<open>\<open>qs\<close> are the questions a loop of \<open>n\<close> steps asks.\<close>

lemma run_steps_asks:
  "\<exists>qs. length qs \<le> n \<and> (\<forall>llm. (\<forall>q\<in>set qs. llm ts q = ag_llm ag ts q) \<longrightarrow>
     run_steps (other_model ag llm) env ts dispatch sc key n lo w = run_steps ag env ts dispatch sc key n lo w)"
proof (induction n arbitrary: lo w)
  case 0
  show ?case by (intro exI [of _ "[]"]) simp
next
  case (Suc n)
  let ?q = "lo_messages lo"
  show ?case
  proof (cases "ag_llm ag ts ?q")
    case (Inl e)
    then show ?thesis by (intro exI [of _ "[?q]"]) simp
  next
    case (Inr result)
    show ?thesis
    proof (cases "aw_toolCalls result = []")
      case True
      then show ?thesis using Inr by (intro exI [of _ "[?q]"]) simp
    next
      case False
      note calls = False
      let ?meter = "failing (meter_call env (aw_usage result))"
      let ?calls = "failing (run_calls dispatch (aw_toolCalls result) lo [])"
      let ?run = "\<lambda>ag. run_steps ag env ts dispatch sc key"
      show ?thesis
      proof (cases "\<exists>w1 x w2 y. ?meter w = (w1, Inr x) \<and> ?calls w1 = (w2, Inr y)")
        case True
        then obtain w1 x w2 lo' results where ran: "?meter w = (w1, Inr x)" "?calls w1 = (w2, Inr (lo', results))" by auto
        define later where "later = lo'\<lparr>lo_messages := lo_messages lo'
          @ [Msg_assistant (nullish (aw_text result) '''') (aw_toolCalls result), Msg_tools results]\<rparr>"
        have step: "?run ag' (Suc n) lo w = ?run ag' n later w2" if "ag_llm ag' ts ?q = Inr result" for ag' :: "'a agent_env"
          using that calls ran by (simp add: turn_then_go later_def)
        from Suc.IH [of later w2] obtain qs where "length qs \<le> n" "\<forall>llm. (\<forall>q\<in>set qs. llm ts q = ag_llm ag ts q) \<longrightarrow>
            ?run (other_model ag llm) n later w2 = ?run ag n later w2" by blast
        then show ?thesis
          using step Inr by (intro exI [of _ "?q # qs"]) (simp del: run_steps.simps)
      next
        case False
        have "?run ag' (Suc n) lo w = ?run ag (Suc n) lo w" if "ag_llm ag' ts ?q = Inr result" for ag' :: "'a agent_env"
        proof (cases "\<exists>w1 e. ?meter w = (w1, Inl e)")
          case True
          then obtain w1 e where "?meter w = (w1, Inl e)" by blast
          then show ?thesis using that calls Inr by (simp add: turn_then_stop)
        next
          case ran: False
          obtain w1 x where meter: "?meter w = (w1, Inr x)"
            using ran by (metis old.sum.exhaust surj_pair)
          obtain w2 e where "?calls w1 = (w2, Inl e)"
            using False meter by (metis old.sum.exhaust surj_pair)
          then show ?thesis using that calls Inr meter by (simp add: turn_then_stop turn_then_go)
        qed
        then have "?run (other_model ag llm) (Suc n) lo w = ?run ag (Suc n) lo w" if "llm ts ?q = Inr result" for llm
          using that by (simp del: run_steps.simps)
        then show ?thesis using Inr by (intro exI [of _ "[?q]"]) (simp del: run_steps.simps)
      qed
    qed
  qed
qed

lemma runLoop_asks:
  "\<exists>qs. length qs \<le> MAX_STEPS \<and> (\<forall>llm. (\<forall>q\<in>set qs. llm ts q = ag_llm ag ts q) \<longrightarrow>
     runLoop (other_model ag llm) env ts dispatch message past v myEvents w = runLoop ag env ts dispatch message past v myEvents w)"
proof (cases "resolveCreditScope env (fst w) v myEvents (snd w)")
  case (Pair st1 res)
  show ?thesis
  proof (cases res)
    case (Inl e)
    then show ?thesis
      using Pair by (intro exI [of _ "[]"]) (simp add: runLoop_def turn_then_def failing_def turn_catch_def on_store_def turn_throw_def)
  next
    case (Inr sc)
    note reserved = runLoop_reserved [OF Pair [unfolded Inr]]
    let ?key = "''ai-turn:'' @ fresh_id st1"
    let ?w = "(fst w, fst (appendAi env sc RESERVE (- 1) ?key None (draw st1)))"
    let ?lo = "\<lparr>lo_messages = Msg_system (system_content ag message) # past @ [Msg_user message],
        lo_staged = [], lo_reportRefs = [], lo_reportComplete = False\<rparr>"
    obtain qs where "length qs \<le> MAX_STEPS" and asks: "\<And>llm. \<forall>q\<in>set qs. llm ts q = ag_llm ag ts q \<Longrightarrow>
        run_steps (other_model ag llm) env ts dispatch sc ?key MAX_STEPS ?lo ?w = run_steps ag env ts dispatch sc ?key MAX_STEPS ?lo ?w"
      using run_steps_asks [of MAX_STEPS ts ag env dispatch sc ?key ?lo ?w] by blast
    moreover have "runLoop (other_model ag llm) env ts dispatch message past v myEvents w =
        runLoop ag env ts dispatch message past v myEvents w" if "\<forall>q\<in>set qs. llm ts q = ag_llm ag ts q" for llm
      unfolding reserved turn_catch_def runReservedLoop_def same_content asks [of llm, OF that] by (rule refl)
    ultimately show ?thesis by blast
  qed
qed

section \<open>Demonstration data\<close>




section \<open>Properties\<close>

text \<open>C14. A turn always ends, after at most six questions to the model: there are at most six lists of
  messages such that a model that answers them alike, whatever it answers to anything else, gives the same
  turn, with the same reply and the same store, for the chat of an event and for the chat of a conversation.\<close>

theorem turn_bounded:
  "(\<exists>qs. length qs \<le> 6 \<and> (\<forall>llm.
      chat (ag\<lparr>ag_llm := \<lambda>ts q. if q \<in> set qs then ag_llm ag ts q else llm ts q\<rparr>) env ctx message past st =
      chat ag env ctx message past st))
   \<and> (\<exists>qs. length qs \<le> 6 \<and> (\<forall>llm.
      chatSession (ag\<lparr>ag_llm := \<lambda>ts q. if q \<in> set qs then ag_llm ag ts q else llm ts q\<rparr>) env actor i message past w =
      chatSession ag env actor i message past w))"
proof
  let ?tools = "\<lambda>name args. on_store (dispatch_tool ag env ctx name args)"
  obtain qs where "length qs \<le> MAX_STEPS" "\<And>llm. \<forall>q\<in>set qs. llm Event_tools q = ag_llm ag Event_tools q \<Longrightarrow>
      runLoop (other_model ag llm) env Event_tools ?tools message past (ctx_user ctx) None (Some (ctx_ev ctx), st) =
      runLoop ag env Event_tools ?tools message past (ctx_user ctx) None (Some (ctx_ev ctx), st)"
    using runLoop_asks [of Event_tools ag env ?tools message past "ctx_user ctx" None "(Some (ctx_ev ctx), st)"] by blast
  then show "\<exists>qs. length qs \<le> 6 \<and> (\<forall>llm.
      chat (ag\<lparr>ag_llm := \<lambda>ts q. if q \<in> set qs then ag_llm ag ts q else llm ts q\<rparr>) env ctx message past st =
      chat ag env ctx message past st)"
    by (intro exI [of _ qs]) (simp add: chat_def same_tools MAX_STEPS_def)
next
  obtain qs where "length qs \<le> MAX_STEPS" "\<And>llm. \<forall>q\<in>set qs. llm Session_tools q = ag_llm ag Session_tools q \<Longrightarrow>
      chatSession (other_model ag llm) env actor i message past w = chatSession ag env actor i message past w"
    using runLoop_asks [of Session_tools ag env "dispatchSession ag env actor i" message past "userId actor" "Some (my_events actor)" w]
    unfolding chatSession_def same_tools by blast
  then show "\<exists>qs. length qs \<le> 6 \<and> (\<forall>llm.
      chatSession (ag\<lparr>ag_llm := \<lambda>ts q. if q \<in> set qs then ag_llm ag ts q else llm ts q\<rparr>) env actor i message past w =
      chatSession ag env actor i message past w)"
    by (intro exI [of _ qs]) (simp add: MAX_STEPS_def)
qed





text \<open>C13. Talking moves no money and settles no proposal: whatever the model answers, a conversation turn
  changes no pledge, payment, allocation, budget or budget item of any event, leaves every waiting or resolved
  proposal as it is, and adds proposals only in the name of the user and waiting for confirmation.\<close>

theorem converse_only_proposes:
  "let st' = fst (converse ag env actor message conversationId st) in
     pledges st' = pledges st \<and> fulfillments st' = fulfillments st \<and> allocations st' = allocations st
     \<and> budgets st' = budgets st \<and> budget_items st' = budget_items st
     \<and> (\<exists>new. confirmations st' = confirmations st @ new
          \<and> list_all (\<lambda>c. pc_status c = PC_PENDING \<and> pc_createdById c = Some (userId actor)) new)"
proof -
  obtain st' r where run: "converse ag env actor message conversationId st = (st', r)" by fastforce
  let ?start = "and_then (getOrCreate env actor conversationId) (\<lambda>conversation.
           and_then (history (cvr_id conversation)) (\<lambda>past.
           and_then (appendMessage env (cvr_id conversation) CR_user message) (\<lambda>_. svc_ret (conversation, past))))"
  have "svc_keeps (talked (userId actor)) ?start" by (intro talked_rules talked_conversation)
  moreover obtain st1 res where start: "?start st = (st1, res)" by fastforce
  ultimately have first: "proposing (userId actor) st st1" unfolding talked_def by (blast dest: svc_keepsD)
  have "proposing (userId actor) st st'"
  proof (cases res)
    case (Inl e)
    then show ?thesis using run start first by (simp add: converse_def)
  next
    case (Inr x)
    obtain conversation past where x: "x = (conversation, past)" by fastforce
    obtain active st2 res2 where turn: "chatSession ag env actor (cvr_id conversation) message (map replayed past)
        (cvr_activeEventId conversation, st1) = ((active, st2), res2)" by (metis surj_pair)
    have second: "proposing (userId actor) st1 st2" using session_turn(1) [OF turn] by simp
    have third: "proposing (userId actor) st2 st3" if "appendMessage env j role content st2 = (st3, res3)" for j role content st3 res3
      using svc_keepsD [OF talked_conversation(3) that] by (simp add: talked_def)
    show ?thesis
      using run start Inr x turn first second third
      by (auto simp: converse_def intro: proposing.rel_trans split: sum.splits prod.splits)
  qed
  then show ?thesis by (simp add: run proposing_def)
qed

text \<open>What a tool throws comes back to the model as a value, three tools excepted: a tool other than
  the three that record contributions never throws, whatever its arguments and whatever goes wrong; but the
  refusal of a permission by those three is thrown out of the turn: a viewer who asks to record a pledge or
  a payment gets an error instead of an explanation.\<close>

theorem tool_errors_contained:
  "(name \<notin> set WRITE_TOOLS \<longrightarrow> (\<exists>st' out. dispatch_tool ag env ctx name args st = (st', Inr out)))
   \<and> (name \<in> set WRITE_TOOLS \<and> ctx_role (ctx_event ctx) = VIEWER \<and> normalised args = Inr args' \<and> safeParse name args' = Some call
      \<longrightarrow> (\<exists>m. dispatch_tool ag env ctx name args st = (st, Inl (Forbidden m))))"
proof (intro conjI impI)
  assume "name \<notin> set WRITE_TOOLS"
  then show "\<exists>st' out. dispatch_tool ag env ctx name args st = (st', Inr out)"
    by (auto simp: dispatch_tool_def svc_catch_def split: prod.splits sum.splits)
next
  assume *: "name \<in> set WRITE_TOOLS \<and> ctx_role (ctx_event ctx) = VIEWER \<and> normalised args = Inr args' \<and> safeParse name args' = Some call"
  then have written: "(\<exists>a. call = Add_person a) \<or> (\<exists>p. call = Record_pledge p) \<or> (\<exists>y. call = tool_call.Record_payment y)"
    by (auto simp: safeParse_def read_call_def WRITE_TOOLS_def bind_eq_Some_conv split: if_splits)
  then have "\<not> can VIEWER (writeAction call)" using viewer_cannot_write by blast
  then have "\<exists>m. route_write (ag_ax ag) env ctx call (dbl (85/100)) Llm True st = (st, Inl (Forbidden m))"
    using * by (simp add: route_write_def permitted_def perm_assert_def)
  moreover have "routeToolCall (ag_ax ag) env ctx call (dbl (85/100)) = route_write (ag_ax ag) env ctx call (dbl (85/100)) Llm True"
    using written by (auto simp: routeToolCall_def)
  ultimately show "\<exists>m. dispatch_tool ag env ctx name args st = (st, Inl (Forbidden m))"
    using * by (auto simp: dispatch_tool_def write_tool_def and_then_def)
qed

end
