(* ===== verification/Http.thy ===== *)
theory Http
  imports Tool_Executor Public_View
begin

text \<open>
  What the adapters of outside services share: a request and its reply, the reading of a reply
  whose shape nobody checks (property access, optional chaining, \<open>??\<close> and string conversion on
  parsed JSON), and calls that throw an \<open>Error\<close> with a message. The network itself is an argument
  of the adapters.
\<close>

section \<open>Calls that may throw\<close>

definition or_else :: "'e + 'a \<Rightarrow> ('a \<Rightarrow> 'e + 'b) \<Rightarrow> 'e + 'b" where
  "or_else r k = (case r of Inl e \<Rightarrow> Inl e | Inr x \<Rightarrow> k x)"

lemma or_else_simps [simp]: "or_else (Inl e) k = Inl e" "or_else (Inr x) k = k x"
  by (simp_all add: or_else_def)

lemma or_else_Inr: "or_else r k = Inr y \<longleftrightarrow> (\<exists>x. r = Inr x \<and> k x = Inr y)"
  by (cases r) auto

section \<open>Requests and replies\<close>

record http_request =
  hq_method :: string
  hq_url :: string
  hq_headers :: "(string \<times> string) list"
  hq_body :: json

text \<open>\<open>res.json()\<close> gives the parsed body or throws.\<close>

record http_reply =
  hp_status :: int
  hp_json :: "string + json"
  hp_text :: "string + string"

definition hp_ok :: "http_reply \<Rightarrow> bool" where
  "hp_ok r = (200 \<le> hp_status r \<and> hp_status r \<le> 299)"

text \<open>\<open>fetch\<close> throws when the network fails.\<close>

type_synonym fetch = "http_request \<Rightarrow> string + http_reply"

definition json_or_empty :: "http_reply \<Rightarrow> json" where
  "json_or_empty r = (case hp_json r of Inr j \<Rightarrow> j | Inl e \<Rightarrow> JObj [])"

section \<open>Unchecked values\<close>

text \<open>\<open>v.k\<close> throws on \<open>null\<close>; a value that is not an object has no such property.\<close>

definition js_prop :: "json \<Rightarrow> string \<Rightarrow> string + json option" where
  "js_prop v k = (if v = JNull then Inl (''Cannot read properties of null (reading '' @ [CHR 0x27] @ k @ [CHR 0x27] @ '')'')
     else Inr (json_field v k))"

text \<open>\<open>v?.k\<close>.\<close>

definition opt_prop :: "json option \<Rightarrow> string \<Rightarrow> json option" where
  "opt_prop v k = (case v of None \<Rightarrow> None | Some j \<Rightarrow> if j = JNull then None else json_field j k)"

text \<open>\<open>v ?? w\<close>.\<close>

definition coalesce :: "json option \<Rightarrow> json option \<Rightarrow> json option" where
  "coalesce v w = (case v of None \<Rightarrow> w | Some j \<Rightarrow> if j = JNull then w else v)"

lemma coalesce_simps [simp]:
  "coalesce None w = w" "coalesce (Some JNull) w = w" "coalesce (Some (JStr s)) w = Some (JStr s)"
  "coalesce (Some (JInt n)) w = Some (JInt n)"
  by (simp_all add: coalesce_def)

fun truthy_json :: "json option \<Rightarrow> bool" where
  "truthy_json None = False"
| "truthy_json (Some JNull) = False"
| "truthy_json (Some (JBool b)) = b"
| "truthy_json (Some (JInt n)) = (n \<noteq> 0)"
| "truthy_json (Some (JStr s)) = (s \<noteq> [])"
| "truthy_json (Some (JArr vs)) = True"
| "truthy_json (Some (JObj kvs)) = True"

text \<open>Conversion to a string; \<open>null\<close> in an array is empty.\<close>

fun js_text :: "json \<Rightarrow> string" where
  "js_text JNull = ''null''"
| "js_text (JBool b) = (if b then ''true'' else ''false'')"
| "js_text (JInt n) = int_to_dec n"
| "js_text (JStr s) = s"
| "js_text (JArr vs) = join '','' (map (\<lambda>v. if v = JNull then [] else js_text v) vs)"
| "js_text (JObj kvs) = ''[object Object]''"

text \<open>A number, or a numeral where the language converts one; anything else is not a number.\<close>

fun js_number :: "json \<Rightarrow> int option" where
  "js_number (JInt n) = Some n"
| "js_number (JBool b) = Some (if b then 1 else 0)"
| "js_number (JStr s) = (if s \<noteq> [] \<and> list_all is_digit s then Some (int (dec_to_nat s)) else None)"
| "js_number v = None"

definition char_upper :: "char \<Rightarrow> char" where
  "char_upper c = (let n = (of_char c :: nat) in if 97 \<le> n \<and> n \<le> 122 then char_of (n - 32) else c)"

definition ascii_upper :: "string \<Rightarrow> string" where
  "ascii_upper = map char_upper"

section \<open>A cached access token\<close>

text \<open>The token and when it expires; an expiry that is not a number never holds.\<close>

type_synonym token_cache = "(string \<times> time option) option"

definition live_token :: "token_cache \<Rightarrow> time \<Rightarrow> string option" where
  "live_token cache t = (case cache of
     Some (v, Some expiresAt) \<Rightarrow> if t < expiresAt then Some v else None
   | _ \<Rightarrow> None)"

end
