(* ===== verification/Payment_Gateway.thy ===== *)
theory Payment_Gateway
  imports Http Caught_Errors Billing
begin

text \<open>
  The mobile-money adapter, \<^verbatim>\<open>libs/providers/src/payment/muda-payment.provider.ts\<close>, and the webhook
  of \<^verbatim>\<open>apps/api/src/billing/billing.controller.ts\<close> that applies what it parses. The network, the
  HMAC and \<open>JSON.parse\<close> are arguments. A call that reads the clock twice is given both readings.
\<close>

section \<open>Configuration\<close>

record muda_config =
  mu_baseUrl :: string
  mu_oauthUrl :: string
  mu_clientId :: string
  mu_clientSecret :: string
  mu_collectionProductId :: int
  mu_webhookSecret :: string

definition formatMudaPhone :: "string \<Rightarrow> string" where
  "formatMudaPhone phone =
     (let digits = filter is_digit phone in
      if starts_with ''0'' digits \<and> length digits = 10 then ''256'' @ drop 1 digits
      else if length digits = 9 \<and> (starts_with ''7'' digits \<or> starts_with ''3'' digits) then ''256'' @ digits
      else digits)"

definition without_trailing_slash :: "string \<Rightarrow> string" where
  "without_trailing_slash url = (if url \<noteq> [] \<and> last url = CHR ''/'' then butlast url else url)"

definition normalizeMudaOauthUrl :: "string option \<Rightarrow> string \<Rightarrow> string" where
  "normalizeMudaOauthUrl url baseUrl =
     (let base = without_trailing_slash baseUrl in
      if \<not> truthy_str url \<or> (contains ''/oauth/'' (the url) \<and> \<not> contains ''/clients/oauth/'' (the url))
      then base @ ''/clients/oauth/token'' else the url)"

definition new_muda :: "muda_config \<Rightarrow> muda_config" where
  "new_muda config = config\<lparr>mu_oauthUrl := normalizeMudaOauthUrl (Some (mu_oauthUrl config)) (mu_baseUrl config)\<rparr>"

section \<open>The access token\<close>

definition token_request :: "muda_config \<Rightarrow> http_request" where
  "token_request config = \<lparr>hq_method = ''POST'', hq_url = mu_oauthUrl config,
     hq_headers = [(''content-type'', ''application/json'')],
     hq_body = JObj [(''api_key'', JStr (mu_clientId config)), (''secret_key'', JStr (mu_clientSecret config))]\<rparr>"

text \<open>The token and its life in seconds, out of an answer of the token endpoint.\<close>

definition read_token :: "json \<Rightarrow> string + (string \<times> int option)" where
  "read_token json =
     or_else (js_prop json ''data'') (\<lambda>data.
     or_else (case opt_prop data ''access_token'' of
         Some v \<Rightarrow> if v \<noteq> JNull then Inr (Some v) else js_prop json ''access_token''
       | None \<Rightarrow> js_prop json ''access_token'') (\<lambda>accessToken.
     let expiresIn = the (coalesce (coalesce (opt_prop data ''expires_in'') (json_field json ''expires_in'')) (Some (JInt 21600)))
     in if truthy_json accessToken then Inr (js_text (the accessToken), js_number expiresIn)
        else Inl ''Muda OAuth failed: missing access_token in response''))"

definition getToken :: "muda_config \<Rightarrow> fetch \<Rightarrow> time \<Rightarrow> time \<Rightarrow> token_cache \<Rightarrow> token_cache \<times> (string + string)" where
  "getToken config fetch t0 t1 cache =
     (case live_token cache t0 of
        Some v \<Rightarrow> (cache, Inr v)
      | None \<Rightarrow>
         (case or_else (fetch (token_request config)) (\<lambda>res.
                 if \<not> hp_ok res then Inl (''Muda OAuth failed ('' @ int_to_dec (hp_status res) @ '')'')
                 else or_else (hp_json res) read_token) of
            Inl e \<Rightarrow> (cache, Inl e)
          | Inr (v, expiresIn) \<Rightarrow> (Some (v, map_option (\<lambda>n. t1 + n * 1000 - 60000) expiresIn), Inr v)))"

section \<open>Collections\<close>

definition collection_request :: "muda_config \<Rightarrow> string \<Rightarrow> string \<Rightarrow> charge_request \<Rightarrow> http_request" where
  "collection_request config token cleanPhone request = \<lparr>hq_method = ''POST'',
     hq_url = mu_baseUrl config @ ''/payment/direct-collection'',
     hq_headers = [(''authorization'', ''Bearer '' @ token), (''content-type'', ''application/json'')],
     hq_body = JObj [(''product_id'', JInt (mu_collectionProductId config)), (''phone'', JStr cleanPhone),
       (''amount'', JStr (int_to_dec (crq_amount request))), (''currency'', JStr (crq_currency request)),
       (''reference_id'', JStr (crq_reference request)), (''trans_type'', JStr ''PULL'')]\<rparr>"

definition failed_charge :: "string \<Rightarrow> charge_result" where
  "failed_charge msg = \<lparr>chr_providerChargeId = [], chr_authorizationUrl = None, chr_status = Charge_failed,
     chr_message = Some msg\<rparr>"

definition pending_charge :: "string \<Rightarrow> charge_result" where
  "pending_charge trans_id = \<lparr>chr_providerChargeId = trans_id, chr_authorizationUrl = None,
     chr_status = Charge_pending, chr_message = None\<rparr>"

text \<open>A reply of status 200 may carry another status in its body.\<close>

definition collection_result :: "http_reply \<Rightarrow> string + charge_result" where
  "collection_result res =
     (let body = json_or_empty res in
      or_else (js_prop body ''status'') (\<lambda>bodyStatus.
      if \<not> hp_ok res \<or> (case bodyStatus of Some (JInt n) \<Rightarrow> n < 200 \<or> n \<ge> 300 | _ \<Rightarrow> False) then
        Inr (failed_charge (js_text (the (coalesce (json_field body ''message'')
          (Some (JStr (''HTTP '' @ int_to_dec (hp_status res))))))))
      else
        let data = json_field body ''data'' in
        Inr (pending_charge (js_text (the (coalesce (opt_prop data ''trans_id'')
          (coalesce (opt_prop data ''transaction_id'') (Some (JStr []))))))))) "

definition createCharge ::
  "muda_config \<Rightarrow> fetch \<Rightarrow> time \<Rightarrow> time \<Rightarrow> token_cache \<Rightarrow> charge_request \<Rightarrow> token_cache \<times> (error + charge_result)" where
  "createCharge config fetch t0 t1 cache request =
     (if crq_channel request \<noteq> Mobile_money \<or> crq_phone request = [] then
        (cache, Inl (Thrown ''Muda collection requires a mobile_money channel and a payer phone''))
      else
        let cleanPhone = formatMudaPhone (crq_phone request);
            (cache', token) = getToken config fetch t0 t1 cache in
        (cache', Inr (case or_else token (\<lambda>t.
              or_else (fetch (collection_request config t cleanPhone request)) collection_result) of
           Inl msg \<Rightarrow> failed_charge msg
         | Inr result \<Rightarrow> result)))"

text \<open>As the billing service calls it.\<close>

definition muda :: "muda_config \<Rightarrow> fetch \<Rightarrow> time \<Rightarrow> time \<Rightarrow> token_cache \<Rightarrow> payment_provider" where
  "muda config fetch t0 t1 cache request = snd (createCharge config fetch t0 t1 cache request)"

section \<open>The webhook\<close>

text \<open>The digest of the library and the parser of the language.\<close>

record webhook_library =
  wl_hmac :: "string \<Rightarrow> string \<Rightarrow> string"  \<comment> \<open>SHA-256 of a text under a key, in hexadecimal\<close>
  wl_parse :: "string \<Rightarrow> json option"  \<comment> \<open>\<open>JSON.parse\<close>, none when it throws\<close>
  wl_stringify :: "json \<Rightarrow> string"

text \<open>The identifiers are whatever truthy values the body holds.\<close>

record parsed_webhook =
  pw_gatewayTransactionId :: json
  pw_reference :: json
  pw_status :: webhook_status

definition verifySignature :: "webhook_library \<Rightarrow> muda_config \<Rightarrow> string \<Rightarrow> string \<Rightarrow> bool" where
  "verifySignature lib config raw header =
     (if mu_webhookSecret config = [] \<or> header = [] then False
      else let expected = wl_hmac lib (mu_webhookSecret config) raw
           in length expected = length header \<and> expected = header)"

definition webhook_status_of :: "string \<Rightarrow> webhook_status" where
  "webhook_status_of raw_status =
     (if contains ''SUCCESS'' raw_status \<or> raw_status = ''200'' \<or> contains ''COMPLETE'' raw_status
      then Webhook_succeeded else Webhook_failed)"

definition parse_webhook :: "json \<Rightarrow> string + parsed_webhook option" where
  "parse_webhook parsed =
     or_else (js_prop parsed ''data'') (\<lambda>inner.
     let data = the (coalesce inner (Some parsed));
         reference = coalesce (json_field data ''reference_id'') (json_field data ''reference'');
         gatewayTransactionId = coalesce (json_field data ''trans_id'')
           (coalesce (json_field data ''transaction_id'') (json_field data ''id''))
     in if \<not> truthy_json reference \<or> \<not> truthy_json gatewayTransactionId then Inr None
        else
          let raw_status = ascii_upper (js_text (the (coalesce (json_field data ''status'')
                (coalesce (json_field parsed ''status'') (Some (JStr []))))))
          in Inr (Some \<lparr>pw_gatewayTransactionId = the gatewayTransactionId, pw_reference = the reference,
                pw_status = webhook_status_of raw_status\<rparr>))"

text \<open>The warnings logged, and the event, nothing for an unrecognised body, or an exception.\<close>

definition verifyAndParseWebhook ::
  "webhook_library \<Rightarrow> muda_config \<Rightarrow> string \<Rightarrow> string \<Rightarrow> string list \<times> (string + parsed_webhook option)" where
  "verifyAndParseWebhook lib config raw signatureHeader =
     ((if mu_webhookSecret config \<noteq> [] \<and> signatureHeader \<noteq> [] \<and> \<not> verifySignature lib config raw signatureHeader
       then [''Muda webhook signature mismatch (proceeding with payload parsing)''] else []),
      (case wl_parse lib raw of None \<Rightarrow> Inr None | Some parsed \<Rightarrow> parse_webhook parsed))"

section \<open>The route\<close>

record webhook_call =
  wc_rawBody :: "string option"
  wc_body :: "json option"
  wc_signature :: "string option"

text \<open>An identifier that is not a string is refused by the database client when it reaches a
  query, which the route catches: nothing is written.\<close>

definition apply_parsed :: "env \<Rightarrow> parsed_webhook \<Rightarrow> store \<Rightarrow> store" where
  "apply_parsed env pw st =
     (case (pw_gatewayTransactionId pw, pw_reference pw) of
        (JStr tid, JStr reference) \<Rightarrow>
          fst (svc_catch (applyPaymentWebhook env \<lparr>we_gatewayTransactionId = tid, we_reference = reference,
                 we_status = pw_status pw, we_amount = 0, we_currency = ''UGX''\<rparr>) (\<lambda>_. svc_ret False) st)
      | _ \<Rightarrow> st)"

definition webhook ::
  "webhook_library \<Rightarrow> muda_config \<Rightarrow> env \<Rightarrow> webhook_call \<Rightarrow> store \<Rightarrow> store \<times> (string + bool)" where
  "webhook lib config env call st =
     (let raw = (case wc_rawBody call of Some r \<Rightarrow> r
                 | None \<Rightarrow> wl_stringify lib (case wc_body call of None \<Rightarrow> JObj [] | Some b \<Rightarrow> if b = JNull then JObj [] else b))
      in case snd (verifyAndParseWebhook lib config raw (nullish (wc_signature call) [])) of
           Inl e \<Rightarrow> (st, Inl e)
         | Inr None \<Rightarrow> (st, Inr True)
         | Inr (Some event) \<Rightarrow> (apply_parsed env event st, Inr True))"

end
