(* ===== verification/Webhook_Properties.thy ===== *)
theory Webhook_Properties
  imports Payment_Gateway Credit_Ledgers Demo_Data
begin

text \<open>
  What the payment webhook promises and what it does: the numbers the gateway is asked to collect
  from, and who can activate a plan.
\<close>

section \<open>The payer's number\<close>

text \<open>However a Ugandan number of nine digits is written, with the country code, with the leading
  zero or bare, and with whatever separators, the gateway is asked for the same one.\<close>

lemma muda_phone_canonical:
  assumes "list_all is_digit n" "length n = 9" "starts_with ''7'' n \<or> starts_with ''3'' n"
    and "filter is_digit phone \<in> {n, CHR ''0'' # n, ''256'' @ n}"
  shows "formatMudaPhone phone = ''256'' @ n"
proof -
  obtain c n' where n: "n = c # n'" using assms(2) by (cases n) auto
  then have "c \<noteq> CHR ''0''" using assms(3) by (auto simp: starts_with_def)
  then show ?thesis using assms(2-4) n by (auto simp: formatMudaPhone_def Let_def starts_with_def)
qed

lemma muda_phone_idempotent: "formatMudaPhone (formatMudaPhone phone) = formatMudaPhone phone"
proof -
  have digits: "filter is_digit (formatMudaPhone phone) = formatMudaPhone phone"
    by (auto simp: formatMudaPhone_def Let_def is_digit_def filter_id_conv dest: in_set_dropD)
  show ?thesis
    by (subst formatMudaPhone_def, subst digits) (auto simp: formatMudaPhone_def Let_def starts_with_def)
qed

section \<open>Applying a payment\<close>

lemma find_ex: "x \<in> set xs \<Longrightarrow> P x \<Longrightarrow> \<exists>y. List.find P xs = Some y"
  by (cases "List.find P xs") (auto simp: find_None_all)

lemma invoice_update_run:
  assumes "r \<in> set (invoices st)" "in_id r = i"
    and "\<not> list_ex (\<lambda>q. in_gatewayTransactionId q = Some tid) (invoices st)"
    and "\<And>q. in_gatewayTransactionId (f q) = Some tid"
  shows "\<exists>q. invoice_update i f st = (put_invoices (update_where (\<lambda>q. in_id q = i) f (invoices st)) st, Inr q)"
proof -
  obtain q where "List.find (\<lambda>q. in_id q = i) (invoices st) = Some q"
    using find_ex [OF assms(1), where P = "\<lambda>q. in_id q = i"] assms(2) by blast
  moreover have "\<not> list_ex (\<lambda>q. in_id q \<noteq> i \<and> in_gatewayTransactionId q = Some tid) (invoices st)"
    using assms(3) by (auto simp: list_ex_iff)
  ultimately show ?thesis using assms(4) by (simp add: invoice_update_def global_update_def)
qed

lemma grant_upsert_run:
  assumes "List.find (\<lambda>g. g_eventId g = Some e) (grants st) = None \<Longrightarrow> grant_refs_ok (mk (fresh_id st)) st"
    and "g_eventId (mk (fresh_id st)) = Some e" "Q (mk (fresh_id st))" "\<And>g. g_eventId g = Some e \<Longrightarrow> Q (f g)"
  shows "\<exists>st' g. grant_upsert_event e mk f st = (st', Inr g) \<and> (\<exists>g\<in>set (grants st'). Q g)
    \<and> invoices st' = invoices st \<and> sms_ledger st' = sms_ledger st \<and> ai_ledger st' = ai_ledger st"
proof (cases "List.find (\<lambda>g. g_eventId g = Some e) (grants st)")
  case None
  then have "\<not> list_ex (\<lambda>q. g_eventId q = Some e) (grants st)" by (auto simp: find_None_all list_ex_iff)
  then show ?thesis using None assms
    by (auto simp: grant_upsert_event_def grant_create_def global_create_def Let_def draw_def)
next
  case (Some g)
  then have g: "g \<in> set (grants st)" "g_eventId g = Some e" by (auto dest: find_SomeD)
  then have "f g \<in> set (update_where (\<lambda>g. g_eventId g = Some e) f (grants st))" by (auto simp: in_update_where)
  then show ?thesis using Some g assms(4) by (auto simp: grant_upsert_event_def)
qed

lemma included_run:
  assumes "key \<notin> used_keys sms_ledger st" "key' \<notin> used_keys ai_ledger st"
  shows "\<exists>st'. await (grant_included sms_ledger put_sms_ledger env invoice n key ref)
       (\<lambda>_. grant_included ai_ledger put_ai_ledger env invoice n' key' ref) no_session st = Inr (st', ())
     \<and> grants st' = grants st \<and> invoices st' = invoices st"
  using assms
  by (auto simp: grant_included_def await_def statement_def credit_create_def global_create_def used_keys_def
      list_ex_iff Let_def draw_def no_session_def)

text \<open>A payment reported as made marks its invoice and activates its plan on the event.\<close>

lemma paid_webhook_activates:
  assumes bill: "find_invoice (we_reference evt) st = Some bill" "in_status bill \<noteq> INV_PAID"
      "in_planId bill = Some p" "p \<noteq> []" "in_eventId bill = Some e" "e \<noteq> []"
    and plan: "pn \<in> set (plans st)" "pn_id pn = p" and event: "list_ex (\<lambda>r. e_id r = e) (events st)"
    and paid: "we_status evt = Webhook_succeeded"
    and unused: "\<not> list_ex (\<lambda>q. in_gatewayTransactionId q = Some (we_gatewayTransactionId evt)) (invoices st)"
      "''invoice-sms:'' @ in_id bill \<notin> used_keys sms_ledger st" "''invoice-ai:'' @ in_id bill \<notin> used_keys ai_ledger st"
  shows "\<exists>st'. applyPaymentWebhook env evt st = (st', Inr True)
    \<and> (\<exists>g\<in>set (grants st'). g_eventId g = Some e \<and> g_planId g = p \<and> g_status g = G_ACTIVE)
    \<and> (\<exists>r\<in>set (invoices st'). in_reference r = we_reference evt \<and> in_status r = INV_PAID)"
proof -
  let ?f = "\<lambda>i. i\<lparr>in_status := INV_PAID, in_gatewayTransactionId := Some (we_gatewayTransactionId evt)\<rparr>"
  let ?st1 = "put_invoices (update_where (\<lambda>q. in_id q = in_id bill) ?f (invoices st)) st"
  have there: "bill \<in> set (invoices st)" "in_reference bill = we_reference evt"
    using bill(1) by (auto simp: find_invoice_def dest: find_SomeD)
  from invoice_update_run [OF there(1) refl unused(1), of ?f]
  obtain q where step1: "invoice_update (in_id bill) ?f st = (?st1, Inr q)" by auto
  obtain pl where pl: "List.find (\<lambda>r. pn_id r = p) (plans st) = Some pl"
    using find_ex [OF plan(1), where P = "\<lambda>r. pn_id r = p"] plan(2) by blast
  then have pid: "pn_id pl = p" by (auto dest: find_SomeD)
  let ?until = "if pn_isSubscription pl then Some (now env + 30 * 24 * 60 * 60 * 1000) else None"
  let ?Q = "\<lambda>g. g_eventId g = Some e \<and> g_planId g = p \<and> g_status g = G_ACTIVE"
  have "\<exists>st2 g. grant_upsert_event e (new_grant env (pn_id pl) (Some e) None G_ACTIVE ?until)
       (\<lambda>g. g\<lparr>g_planId := pn_id pl, g_status := G_ACTIVE, g_periodStart := now env, g_periodEnd := ?until\<rparr>) ?st1 = (st2, Inr g)
     \<and> (\<exists>g\<in>set (grants st2). ?Q g) \<and> invoices st2 = invoices ?st1 \<and> sms_ledger st2 = sms_ledger ?st1 \<and> ai_ledger st2 = ai_ledger ?st1"
    using event pid by (intro grant_upsert_run) (auto simp: new_grant_def grant_refs_ok_def)
  then obtain st2 g where step2: "grant_upsert_event e (new_grant env (pn_id pl) (Some e) None G_ACTIVE ?until)
       (\<lambda>g. g\<lparr>g_planId := pn_id pl, g_status := G_ACTIVE, g_periodStart := now env, g_periodEnd := ?until\<rparr>) ?st1 = (st2, Inr g)"
     and after2: "\<exists>g\<in>set (grants st2). ?Q g" "invoices st2 = invoices ?st1"
       "sms_ledger st2 = sms_ledger ?st1" "ai_ledger st2 = ai_ledger ?st1" by blast
  from included_run [of "''invoice-sms:'' @ in_id bill" st2 "''invoice-ai:'' @ in_id bill"] after2(3,4) unused(2,3)
  have "\<exists>st'. await (grant_included sms_ledger put_sms_ledger env bill (pn_includedSmsCredits pl)
          (''invoice-sms:'' @ in_id bill) (we_reference evt))
       (\<lambda>_. grant_included ai_ledger put_ai_ledger env bill (pn_includedAiCredits pl)
          (''invoice-ai:'' @ in_id bill) (we_reference evt)) no_session st2 = Inr (st', ())
     \<and> grants st' = grants st2 \<and> invoices st' = invoices st2" by (simp add: used_keys_def)
  then  obtain st3 where step3: "await (grant_included sms_ledger put_sms_ledger env bill (pn_includedSmsCredits pl)
          (''invoice-sms:'' @ in_id bill) (we_reference evt))
       (\<lambda>_. grant_included ai_ledger put_ai_ledger env bill (pn_includedAiCredits pl)
          (''invoice-ai:'' @ in_id bill) (we_reference evt)) no_session st2 = Inr (st3, ())"
     and after3: "grants st3 = grants st2" "invoices st3 = invoices st2" by blast
  have "aborted no_session = False" by (simp add: no_session_def)
  then have "activate_grant env bill pl no_session ?st1 = Inr (st2, ())"
    using bill(5,6) step2 by (simp add: activate_grant_def Let_def await_def statement_def)
  then have "apply_paid_tx env evt bill (Some pl) no_session st = Inr (st3, ())"
    using step1 step3 \<open>aborted no_session = False\<close> by (simp add: apply_paid_tx_def statement_def await_def [where s = no_session])
  then have "applyPaymentWebhook env evt st = (st3, Inr True)"
    using bill paid pl by (simp add: applyPaymentWebhook_def and_then_def billing_planById_def transaction_def)
  moreover have "?f bill \<in> set (invoices ?st1)" using there(1) by (auto simp: in_update_where)
  then have "\<exists>r\<in>set (invoices st3). in_reference r = we_reference evt \<and> in_status r = INV_PAID"
    using after2(2) after3(2) there(2) by (intro bexI [of _ "?f bill"]) simp_all
  ultimately show ?thesis using after2(1) after3(1) by auto
qed

section \<open>A purchase\<close>

text \<open>What a started purchase leaves behind: a pending invoice under the reference it returns.\<close>

lemma ensured_account:
  "ensureBillingAccount env user st = (st', r) \<Longrightarrow>
     invoices st' = invoices st \<and> plans st' = plans st \<and> events st' = events st"
  by (auto simp: ensureBillingAccount_def and_then_def billing_account_create_def global_create_def Let_def draw_def
      split: option.splits if_splits)

lemma charged_purchase:
  assumes "charge provider hex env user plan phone chan eid st = (st', Inr (i, reference, result))"
  shows "reference = ''inv_'' @ hex \<and> events st' = events st \<and> plans st' = plans st
    \<and> (\<exists>bill. find_invoice reference st' = Some bill \<and> in_id bill = i \<and> in_status bill = INV_PENDING
        \<and> in_planId bill = Some (pn_id plan) \<and> in_eventId bill = eid)"
proof -
  obtain st1 r where account: "ensureBillingAccount env user st = (st1, r)" by fastforce
  note same = ensured_account [OF account]
  from assms account obtain acc where r: "r = Inr acc"
    by (cases r) (auto simp: charge_def and_then_def)
  let ?mk = "\<lambda>i. \<lparr>in_id = i, in_billingAccountId = acc, in_planId = Some (pn_id plan),
         in_eventId = eid, in_amountMinor = pn_priceMinor plan, in_currency = pn_currency plan,
         in_status = INV_PENDING, in_reference = ''inv_'' @ hex, in_gatewayTransactionId = None,
         in_stuckAlertSentAt = None, in_createdAt = now env\<rparr>"
  obtain st2 q where made: "invoice_create ?mk st1 = (st2, q)" by fastforce
  from assms account r made obtain row where q: "q = Inr row"
    by (cases q) (auto simp: charge_def and_then_def Let_def)
  from made q have st2: "st2 = put_invoices (invoices st1 @ [?mk (fresh_id st1)]) (draw st1)" "row = ?mk (fresh_id st1)"
      "\<not> list_ex (\<lambda>x. in_reference x = ''inv_'' @ hex) (invoices st1)"
    by (auto simp: invoice_create_def global_create_def Let_def split: if_splits)
  have found: "find_invoice (''inv_'' @ hex) st2 = Some row"
    using st2 by (auto simp: find_invoice_def find_append find_None_all list_ex_iff split: option.splits dest: find_SomeD)
  have "st' = st2 \<and> i = in_id row \<and> reference = ''inv_'' @ hex"
    using assms account r made q by (auto simp: charge_def and_then_def Let_def split: sum.splits if_splits)
  then show ?thesis using found st2(1,2) same by (auto simp: draw_def)
qed

lemma purchased:
  assumes "purchaseEventPack provider hex env user e code phone chan st = (st', Inr (i, reference, result))"
  shows "\<exists>plan bill. plan \<in> set (plans st') \<and> pn_code plan = code \<and> find_invoice reference st' = Some bill
    \<and> in_id bill = i \<and> in_status bill = INV_PENDING \<and> in_planId bill = Some (pn_id plan)
    \<and> in_eventId bill = Some e \<and> events st' = events st \<and> plans st' = plans st \<and> reference = ''inv_'' @ hex"
proof -
  obtain plan where plan: "List.find (\<lambda>p. pn_code p = code) (plans st) = Some plan"
      "charge provider hex env user plan phone (nullish chan Mobile_money) (Some e) st = (st', Inr (i, reference, result))"
    using assms by (auto simp: purchaseEventPack_def billing_plan_def and_then_def split: option.splits if_splits)
  then show ?thesis using charged_purchase [OF plan(2)] by (auto dest: find_SomeD)
qed

lemma successful_word: "webhook_status_of (ascii_upper ''SUCCESSFUL'') = Webhook_succeeded"
  by code_simp

text \<open>The body a payer can write without the gateway.\<close>

definition forged_body :: "string \<Rightarrow> string \<Rightarrow> json" where
  "forged_body reference tid = JObj [(''data'', JObj [(''reference_id'', JStr reference), (''trans_id'', JStr tid),
     (''status'', JStr ''SUCCESSFUL'')])]"

lemma forged_parses:
  "reference \<noteq> [] \<Longrightarrow> tid \<noteq> [] \<Longrightarrow> parse_webhook (forged_body reference tid) =
     Inr (Some \<lparr>pw_gatewayTransactionId = JStr tid, pw_reference = JStr reference, pw_status = Webhook_succeeded\<rparr>)"
  by (simp add: parse_webhook_def forged_body_def js_prop_def coalesce_def Let_def successful_word)

text \<open>C10. A payment can be forged: whoever starts the purchase of an event's plan is given its reference, and a
  callback that names this reference and the word \<open>SUCCESSFUL\<close>, with any signature or none, marks the
  invoice paid and activates the plan for the event, although the gateway never reported a payment.\<close>

theorem forged_webhook_activates:
  assumes bought: "purchaseEventPack provider hex env user e code phone chan st = (st1, Inr (i, reference, result))"
    and event: "list_ex (\<lambda>r. e_id r = e) (events st)" "e \<noteq> []" and ids: "list_all (\<lambda>p. pn_id p \<noteq> []) (plans st)"
    and body: "wl_parse lib raw = Some (forged_body reference tid)" "tid \<noteq> []"
    and unused: "\<not> list_ex (\<lambda>q. in_gatewayTransactionId q = Some tid) (invoices st1)"
      "''invoice-sms:'' @ i \<notin> used_keys sms_ledger st1" "''invoice-ai:'' @ i \<notin> used_keys ai_ledger st1"
  shows "\<exists>st2 plan. webhook lib config env' \<lparr>wc_rawBody = Some raw, wc_body = b, wc_signature = sig\<rparr> st1 = (st2, Inr True)
    \<and> plan \<in> set (plans st) \<and> pn_code plan = code
    \<and> (\<exists>g\<in>set (grants st2). g_eventId g = Some e \<and> g_planId g = pn_id plan \<and> g_status g = G_ACTIVE)
    \<and> (\<exists>r\<in>set (invoices st2). in_reference r = reference \<and> in_status r = INV_PAID)"
proof -
  from purchased [OF bought] obtain plan bill where p: "plan \<in> set (plans st1)" "pn_code plan = code"
      "find_invoice reference st1 = Some bill" "in_id bill = i" "in_status bill = INV_PENDING"
      "in_planId bill = Some (pn_id plan)" "in_eventId bill = Some e" "events st1 = events st" "plans st1 = plans st"
      "reference = ''inv_'' @ hex" by blast
  let ?evt = "\<lparr>we_gatewayTransactionId = tid, we_reference = reference, we_status = Webhook_succeeded, we_amount = 0,
     we_currency = ''UGX''\<rparr>"
  have "\<exists>st2. applyPaymentWebhook env' ?evt st1 = (st2, Inr True)
    \<and> (\<exists>g\<in>set (grants st2). g_eventId g = Some e \<and> g_planId g = pn_id plan \<and> g_status g = G_ACTIVE)
    \<and> (\<exists>r\<in>set (invoices st2). in_reference r = we_reference ?evt \<and> in_status r = INV_PAID)"
    using p event ids unused by (intro paid_webhook_activates [where bill = bill and pn = plan]) (auto simp: list_all_iff)
  then obtain st2 where st2: "applyPaymentWebhook env' ?evt st1 = (st2, Inr True)"
    "\<exists>g\<in>set (grants st2). g_eventId g = Some e \<and> g_planId g = pn_id plan \<and> g_status g = G_ACTIVE"
    "\<exists>r\<in>set (invoices st2). in_reference r = reference \<and> in_status r = INV_PAID" by auto
  have "webhook lib config env' \<lparr>wc_rawBody = Some raw, wc_body = b, wc_signature = sig\<rparr> st1 = (st2, Inr True)"
    using body forged_parses [of reference tid] p(10) st2(1)
    by (simp add: webhook_def verifyAndParseWebhook_def apply_parsed_def svc_catch_def)
  then show ?thesis using st2(2,3) p(1,2,9) by auto
qed

section \<open>A purchase and a forged callback\<close>

definition demo_muda :: muda_config where
  "demo_muda = new_muda \<lparr>mu_baseUrl = ''https://api/'', mu_oauthUrl = '''', mu_clientId = ''c'', mu_clientSecret = ''s'',
     mu_collectionProductId = 7, mu_webhookSecret = ''w''\<rparr>"

definition demo_network :: fetch where
  "demo_network rq = Inr \<lparr>hp_status = 200, hp_json = Inr (JObj [(''data'',
     JObj [(''access_token'', JStr ''t''), (''trans_id'', JStr ''T1'')])]), hp_text = Inr []\<rparr>"

definition demo_library :: webhook_library where
  "demo_library = \<lparr>wl_hmac = (\<lambda>key raw. key @ raw), wl_parse = (\<lambda>raw. Some (forged_body ''inv_ab'' ''T9'')),
     wl_stringify = (\<lambda>j. [])\<rparr>"

definition demo_shop :: store where
  "demo_shop = demo_store\<lparr>plans := [plan_row_of plan_STANDARD [CHR ''P'']]\<rparr>"

definition demo_purchase :: "store \<times> (error + uuid \<times> string \<times> charge_result)" where
  "demo_purchase = purchaseEventPack (muda demo_muda demo_network 0 0 None) ''ab'' demo_env ''U1'' ''E1'' ''STANDARD''
     ''+256 772 123456'' None demo_shop"

lemma demo_collects:
  assumes "crq_channel rq = Mobile_money" "crq_phone rq \<noteq> []"
  shows "muda demo_muda demo_network 0 0 None rq = Inr (pending_charge ''T1'')"
  using assms
  by (simp add: muda_def createCharge_def getToken_def live_token_def demo_network_def hp_ok_def read_token_def js_prop_def
      opt_prop_def coalesce_def collection_result_def json_or_empty_def Let_def)

lemma demo_bought: "\<exists>i. snd demo_purchase = Inr (i, ''inv_ab'', pending_charge ''T1'')
    \<and> ''invoice-sms:'' @ i \<notin> used_keys sms_ledger (fst demo_purchase)
    \<and> ''invoice-ai:'' @ i \<notin> used_keys ai_ledger (fst demo_purchase)
    \<and> \<not> list_ex (\<lambda>q. in_gatewayTransactionId q = Some ''T9'') (invoices (fst demo_purchase))"
  by (simp add: demo_purchase_def purchaseEventPack_def billing_plan_def and_then_def demo_shop_def plan_row_of_def
      plan_STANDARD_def charge_def ensureBillingAccount_def findAccountId_def billing_account_create_def global_create_def
      invoice_create_def demo_collects pending_charge_def used_keys_def draw_def demo_store_def empty_store_def
      demo_user_def Let_def)

theorem forged_webhook_activates_witness:
  "\<exists>st2. webhook demo_library demo_muda demo_env \<lparr>wc_rawBody = Some ''forged'', wc_body = None, wc_signature = None\<rparr>
       (fst demo_purchase) = (st2, Inr True)
    \<and> (\<exists>g\<in>set (grants st2). g_eventId g = Some ''E1'' \<and> g_status g = G_ACTIVE)"
proof -
  obtain i where i: "demo_purchase = (fst demo_purchase, Inr (i, ''inv_ab'', pending_charge ''T1''))"
    and unused: "''invoice-sms:'' @ i \<notin> used_keys sms_ledger (fst demo_purchase)"
      "''invoice-ai:'' @ i \<notin> used_keys ai_ledger (fst demo_purchase)"
      "\<not> list_ex (\<lambda>q. in_gatewayTransactionId q = Some ''T9'') (invoices (fst demo_purchase))"
    using demo_bought by (metis prod.collapse)
  have event: "list_ex (\<lambda>r. e_id r = ''E1'') (events demo_shop)"
    and ids: "list_all (\<lambda>p. pn_id p \<noteq> []) (plans demo_shop)" by code_simp+
  have body: "wl_parse demo_library ''forged'' = Some (forged_body ''inv_ab'' ''T9'')" by (simp add: demo_library_def)
  show ?thesis
    using forged_webhook_activates [OF i [unfolded demo_purchase_def] event _ ids body _ unused(3) [unfolded demo_purchase_def]
        unused(1,2) [unfolded demo_purchase_def], where env' = demo_env and config = demo_muda and b = None and sig = None]
    by (fastforce simp: demo_purchase_def)
qed

end
