(* ===== verification/Sms_Gateway.thy ===== *)
theory Sms_Gateway
  imports Http Sms_Settlement
begin

text \<open>
  The SMS adapter, \<^verbatim>\<open>libs/providers/src/sms/ugsms.provider.ts\<close>: one bulk call for a batch of
  messages, whose answers come back by index. The network is an argument.
\<close>

record ugsms_config =
  ug_baseUrl :: string
  ug_apiKey :: string
  ug_senderId :: string

text \<open>\<open>phone.replace(/^\+?256/, '0')\<close>.\<close>

definition toLocal :: "string \<Rightarrow> string" where
  "toLocal phone =
     (if starts_with ''+256'' phone then CHR ''0'' # drop 4 phone
      else if starts_with ''256'' phone then CHR ''0'' # drop 3 phone
      else phone)"

definition bulk_request :: "ugsms_config \<Rightarrow> sms_send_request list \<Rightarrow> http_request" where
  "bulk_request config requests = \<lparr>hq_method = ''POST'', hq_url = ug_baseUrl config @ ''/sms/send/bulk'',
     hq_headers = [(''x-api-key'', ug_apiKey config), (''content-type'', ''application/json'')],
     hq_body = json_obj [
       (''messages'', Some (JArr (map (\<lambda>r. JObj [(''number'', JStr (toLocal (sq_to r))), (''message_body'', JStr (sq_body r))]) requests))),
       (''sender_id'', Some (JStr (ug_senderId config))),
       (''reference'', map_option (\<lambda>r. JStr (sq_idempotencyKey r)) (case requests of [] \<Rightarrow> None | r # _ \<Rightarrow> Some r))]\<rparr>"

section \<open>Results by index\<close>

definition failed_send :: "string \<Rightarrow> sms_send_result" where
  "failed_send why = \<lparr>sv_providerMessageId = [], sv_status = Sms_failed, sv_segments = 1, sv_error = Some why\<rparr>"

text \<open>\<open>results[k] = r\<close>: past its end an array grows, with holes in between; a key that is not a
  non-negative integer names no element.\<close>

definition store_at :: "json option \<Rightarrow> 'a \<Rightarrow> 'a option list \<Rightarrow> 'a option list" where
  "store_at k r results =
     (case k of
        Some (JInt n) \<Rightarrow>
          if n < 0 then results
          else if nat n < length results then results[nat n := Some r]
          else results @ replicate (nat n - length results) None @ [Some r]
      | _ \<Rightarrow> results)"

text \<open>The segments reported for a message; the field is a number by the contract of the service.\<close>

definition sent_send :: "json \<Rightarrow> sms_send_result" where
  "sent_send ok = \<lparr>sv_providerMessageId = [], sv_status = Sms_sent,
     sv_segments = nullish (js_number (nullish (coalesce (json_field ok ''number_of_messages'') None) (JInt 1))) 1,
     sv_error = None\<rparr>"

definition rejected_send :: "json \<Rightarrow> sms_send_result" where
  "rejected_send bad = failed_send (js_text (nullish (coalesce (json_field bad ''error'') None) (JStr ''rejected by provider'')))"

definition elements :: "json option \<Rightarrow> json list" where
  "elements v = (case v of Some (JArr vs) \<Rightarrow> vs | _ \<Rightarrow> [])"

definition place :: "(json \<Rightarrow> sms_send_result) \<Rightarrow> json list \<Rightarrow> sms_send_result option list \<Rightarrow> sms_send_result option list" where
  "place result vs results = foldl (\<lambda>rs v. store_at (json_field v ''index'') (result v) rs) results vs"

definition bulk_results :: "json \<Rightarrow> nat \<Rightarrow> sms_send_result option list" where
  "bulk_results data n =
     place rejected_send (elements (json_field data ''failed_messages''))
       (place sent_send (elements (json_field data ''successful_messages''))
          (replicate n (Some (failed_send ''not returned by provider''))))"

section \<open>The calls\<close>

definition sendBulk :: "ugsms_config \<Rightarrow> fetch \<Rightarrow> sms_send_request list \<Rightarrow> string + sms_send_result option list" where
  "sendBulk config fetch requests =
     (if requests = [] then Inr []
      else or_else (fetch (bulk_request config requests)) (\<lambda>res.
        let body = json_or_empty res in
        if \<not> hp_ok res \<or> \<not> truthy_json (json_field body ''data'') then
          let reason = js_trim (''HTTP '' @ int_to_dec (hp_status res) @ '' ''
                @ js_text (nullish (coalesce (json_field body ''message'') None) (JStr [])))
          in Inr (map (\<lambda>r. Some (failed_send reason)) requests)
        else Inr (bulk_results (the (json_field body ''data'')) (length requests))))"

definition send :: "ugsms_config \<Rightarrow> fetch \<Rightarrow> sms_send_request \<Rightarrow> string + sms_send_result option" where
  "send config fetch request =
     or_else (sendBulk config fetch [request]) (\<lambda>results. Inr (case results of [] \<Rightarrow> None | r # _ \<Rightarrow> r))"

definition ugsms_balance :: "ugsms_config \<Rightarrow> fetch \<Rightarrow> string + json \<times> json" where
  "ugsms_balance config fetch =
     or_else (fetch \<lparr>hq_method = ''GET'', hq_url = ug_baseUrl config @ ''/account/balance'',
       hq_headers = [(''x-api-key'', ug_apiKey config)], hq_body = JNull\<rparr>) (\<lambda>res.
     if \<not> hp_ok res then Inl (''UGSMS balance failed ('' @ int_to_dec (hp_status res) @ '')'')
     else or_else (hp_json res) (\<lambda>body. or_else (js_prop body ''data'') (\<lambda>data.
       Inr (nullish (coalesce (opt_prop data ''balance'') None) (JInt 0),
            nullish (coalesce (opt_prop data ''currency'') None) (JStr ''UGX'')))))"

text \<open>As the campaign worker calls it: it reads the answers at the positions of its messages.\<close>

definition ugsms :: "ugsms_config \<Rightarrow> fetch \<Rightarrow> sms_provider" where
  "ugsms config fetch requests =
     (case sendBulk config fetch requests of
        Inl e \<Rightarrow> Inl (Thrown e)
      | Inr results \<Rightarrow> Inr (map the (take (length requests) results)))"

section \<open>Answers are aligned with the requests\<close>

lemma store_at_length: "length results \<le> length (store_at k r results)"
  by (simp add: store_at_def split: option.split json.split)

lemma store_at_nth:
  assumes "i < length results"
  shows "store_at k r results ! i = (if k = Some (JInt (int i)) then Some r else results ! i)"
proof (cases "\<exists>n. k = Some (JInt n) \<and> 0 \<le> n")
  case True
  then obtain n where n: "k = Some (JInt n)" "0 \<le> n" by blast
  then have "n = int i \<longleftrightarrow> nat n = i" by auto
  then show ?thesis using n assms by (cases "nat n < length results") (simp_all add: store_at_def nth_append)
next
  case False
  then show ?thesis by (auto simp: store_at_def split: option.splits json.splits)
qed

lemma place_Cons [simp]:
  "place f [] results = results"
  "place f (v # vs) results = place f vs (store_at (json_field v ''index'') (f v) results)"
  by (simp_all add: place_def)

lemma place_length: "length results \<le> length (place f vs results)"
proof (induction vs arbitrary: results)
  case (Cons v vs)
  then show ?case using store_at_length order_trans by (metis place_Cons(2))
qed simp

text \<open>The answers an index has, the last one counting.\<close>

definition answers :: "nat \<Rightarrow> json list \<Rightarrow> json list" where
  "answers i = filter (\<lambda>v. json_field v ''index'' = Some (JInt (int i)))"

lemma place_nth:
  "i < length results \<Longrightarrow> place f vs results ! i =
     (if answers i vs = [] then results ! i else Some (f (last (answers i vs))))"
proof (induction vs arbitrary: results)
  case (Cons v vs)
  let ?next = "store_at (json_field v ''index'') (f v) results"
  have "i < length ?next" using Cons.prems store_at_length [of results] by (rule less_le_trans)
  from Cons.IH [OF this] store_at_nth [OF Cons.prems]
  show ?case by (cases "json_field v ''index'' = Some (JInt (int i))") (simp_all add: answers_def)
qed (simp add: answers_def)

lemma bulk_results_length: "n \<le> length (bulk_results data n)"
  using place_length [of "replicate n (Some (failed_send ''not returned by provider''))" sent_send]
    place_length [of _ rejected_send] order_trans
  unfolding bulk_results_def length_replicate by blast

lemma bulk_results_nth:
  assumes "i < n"
  shows "bulk_results data n ! i = Some
     (if answers i (elements (json_field data ''failed_messages'')) \<noteq> [] then
        rejected_send (last (answers i (elements (json_field data ''failed_messages''))))
      else if answers i (elements (json_field data ''successful_messages'')) \<noteq> [] then
        sent_send (last (answers i (elements (json_field data ''successful_messages''))))
      else failed_send ''not returned by provider'')"
proof -
  let ?start = "replicate n (Some (failed_send ''not returned by provider''))"
  let ?ok = "elements (json_field data ''successful_messages'')"
  have "i < length (place sent_send ?ok ?start)"
    using assms place_length [of ?start sent_send ?ok] by simp
  then show ?thesis using assms by (simp add: bulk_results_def place_nth)
qed

section \<open>A campaign follows the gateway\<close>

definition answer_at :: "'a list \<Rightarrow> nat \<Rightarrow> 'a option" where
  "answer_at results i = (if i < length results then Some (results ! i) else None)"

lemma answer_at_tl [simp]: "answer_at (tl results) i = answer_at results (Suc i)"
  by (cases results) (simp_all add: answer_at_def)

lemma answer_at_0: "answer_at results 0 = (case results of [] \<Rightarrow> None | r # _ \<Rightarrow> Some r)"
  by (cases results) (simp_all add: answer_at_def)

lemma settled_each:
  assumes "sms_wf st" "e \<noteq> ''''" "distinct (map sm_id ms)"
    and "\<And>m. m \<in> set ms \<Longrightarrow> m \<in> set (sms_messages st) \<and> sm_status m = SMS_QUEUED \<and> sm_eventId m = e"
  shows "\<exists>st' n. settle_messages env e ms results st = (st', Inr n)
     \<and> (\<forall>i<length ms. settled_row env (answer_at results i) (ms ! i) \<in> set (sms_messages st'))
     \<and> (\<forall>r\<in>set (sms_messages st). sm_id r \<notin> sm_id ` set ms \<longrightarrow> r \<in> set (sms_messages st'))"
  using assms
proof (induction ms arbitrary: st results)
  case Nil
  then show ?case by simp
next
  case (Cons m ms)
  let ?res = "case results of [] \<Rightarrow> None | r # _ \<Rightarrow> Some r"
  let ?st = "settle_one env e ?res m st"
  have m: "m \<in> set (sms_messages st)" "sm_status m = SMS_QUEUED" "sm_eventId m = e"
    using Cons.prems(4) by simp_all
  note rows = settle_one_rows(1) [OF Cons.prems(1,2) m(1,2), where env = env and res = ?res]
  have wf: "sms_wf ?st" by (rule settle_one_wf [OF Cons.prems(1,2) m])
  have kept: "r \<in> set (sms_messages ?st)" if "r \<in> set (sms_messages st)" "sm_id r \<noteq> sm_id m" for r
    using that by (auto simp: rows in_update_where)
  have rest: "r \<in> set (sms_messages ?st) \<and> sm_status r = SMS_QUEUED \<and> sm_eventId r = e" if "r \<in> set ms" for r
    using Cons.prems(3) Cons.prems(4) [of r] that kept [of r] by (auto simp: image_iff)
  have mine: "settled_row env ?res m \<in> set (sms_messages ?st)"
    using m by (auto simp: rows in_update_where)
  have "\<exists>st' n. settle_messages env e ms (tl results) ?st = (st', Inr n)
     \<and> (\<forall>i<length ms. settled_row env (answer_at (tl results) i) (ms ! i) \<in> set (sms_messages st'))
     \<and> (\<forall>r\<in>set (sms_messages ?st). sm_id r \<notin> sm_id ` set ms \<longrightarrow> r \<in> set (sms_messages st'))"
    using Cons.prems(3) by (intro Cons.IH [OF wf Cons.prems(2) _ rest]) auto
  then obtain st' n where step: "settle_messages env e ms (tl results) ?st = (st', Inr n)"
    and each: "\<And>i. i < length ms \<Longrightarrow> settled_row env (answer_at (tl results) i) (ms ! i) \<in> set (sms_messages st')"
    and others: "\<And>r. r \<in> set (sms_messages ?st) \<Longrightarrow> sm_id r \<notin> sm_id ` set ms \<Longrightarrow> r \<in> set (sms_messages st')" by blast
  have head: "settled_row env ?res m \<in> set (sms_messages st')"
    using others [OF mine] Cons.prems(3) by simp
  have "settled_row env (answer_at results i) ((m # ms) ! i) \<in> set (sms_messages st')" if "i < length (m # ms)" for i
    using that head each by (cases i) (simp_all add: answer_at_0)
  moreover have "r \<in> set (sms_messages st')" if "r \<in> set (sms_messages st)" "sm_id r \<notin> sm_id ` set (m # ms)" for r
    using that kept others by auto
  ultimately show ?case
    unfolding settle_messages_Cons [OF m(1,3)] using step by (cases n) (simp add: and_then_def)
qed

lemma campaign_update_messages:
  "in_tenant e (sms_campaign_update c f) st = (st', r) \<Longrightarrow> sms_messages st' = sms_messages st"
  by (auto simp: transaction_def sms_campaign_update_def tbl_update_def split: option.splits if_splits)

lemma campaign_rows:
  assumes "sms_wf st" "e \<noteq> ''''" and pending: "ms = pending_messages c (in_event e) st"
    and reply: "provider (map send_request ms) = Inr results"
  shows "\<exists>st'. processCampaign provider env e c st = (st', Inr ())
     \<and> (\<forall>i<length ms. settled_row env (answer_at results i) (ms ! i) \<in> set (sms_messages st'))"
proof -
  obtain st' where run: "processCampaign provider env e c st = (st', Inr ())"
    using process_effect [OF assms(1,2), of provider env c] reply pending by auto
  have "distinct (map sm_id ms)"
    using sms_wfD(2) [OF assms(1)] by (simp add: pending pending_messages_def tbl_visible_def distinct_map_filter)
  moreover have "m \<in> set (sms_messages st) \<and> sm_status m = SMS_QUEUED \<and> sm_eventId m = e" if "m \<in> set ms" for m
    using that by (auto simp: pending pending_messages_def tbl_visible_def)
  ultimately obtain st1 n where loop: "settle_messages env e ms results st = (st1, Inr n)"
    and each: "\<forall>i<length ms. settled_row env (answer_at results i) (ms ! i) \<in> set (sms_messages st1)"
    using settled_each [OF assms(1,2), of ms env results] by blast
  obtain sent failed where n: "n = (sent, failed)" by fastforce
  let ?mark = "\<lambda>c. c\<lparr>smc_status := (if failed = (0::nat) then SC_SENT else if sent = (0::nat) then SC_FAILED else SC_PARTIAL)\<rparr>"
  have "ms = [] \<or> sms_messages st' = sms_messages st1"
  proof (cases "ms = []")
    case False
    obtain st2 r where upd: "in_tenant e (sms_campaign_update c ?mark) st1 = (st2, r)" by fastforce
    have "st' = st2"
      using run False loop upd n reply
      by (cases r) (simp_all add: processCampaign_def runInEvent_def pending [symmetric] keeping_credits_def and_then_def
          transaction_def [of _ "query _"])
    then show ?thesis using campaign_update_messages [OF upd] by simp
  qed simp
  then show ?thesis using run each by auto
qed

text \<open>C36. A campaign follows the gateway: when the bulk call is answered, the message at position \<open>i\<close>
  of the batch is recorded as sent exactly if the answer lists index \<open>i\<close> among the successful ones and
  not among the failed ones, in whatever order and with whatever other indices the answer lists
  them; otherwise it is recorded as failed.\<close>

theorem delivery_follows_gateway:
  assumes "sms_wf st" "e \<noteq> ''''" and pending: "ms = pending_messages c (in_event e) st" "i < length ms"
    and reply: "fetch (bulk_request config (map send_request ms)) = Inr res" "hp_ok res"
      "json_field (json_or_empty res) ''data'' = Some data" "truthy_json (Some data)"
  shows "\<exists>st' m. processCampaign (ugsms config fetch) env e c st = (st', Inr ())
     \<and> m \<in> set (sms_messages st') \<and> sm_id m = sm_id (ms ! i)
     \<and> sm_status m = (if answers i (elements (json_field data ''successful_messages'')) \<noteq> []
            \<and> answers i (elements (json_field data ''failed_messages'')) = [] then SMS_SENT else SMS_FAILED)"
proof -
  let ?all = "bulk_results data (length ms)"
  have len: "length ms \<le> length ?all"
    by (rule bulk_results_length)
  have answer: "ugsms config fetch (map send_request ms) = Inr (map the (take (length ms) ?all))"
    using pending(2) reply by (auto simp: ugsms_def sendBulk_def)
  obtain st' where run: "processCampaign (ugsms config fetch) env e c st = (st', Inr ())"
    and each: "\<forall>i<length ms. settled_row env (answer_at (map the (take (length ms) ?all)) i) (ms ! i) \<in> set (sms_messages st')"
    using campaign_rows [where provider = "ugsms config fetch", OF assms(1,2) pending(1) answer] by blast
  have "answer_at (map the (take (length ms) ?all)) i = Some (the (?all ! i))"
    using pending(2) len by (simp add: answer_at_def)
  then have "settled_row env (Some (the (?all ! i))) (ms ! i) \<in> set (sms_messages st')"
    using each pending(2) by auto
  moreover have "delivered_ok (Some (the (?all ! i))) \<longleftrightarrow> answers i (elements (json_field data ''successful_messages'')) \<noteq> []
      \<and> answers i (elements (json_field data ''failed_messages'')) = []"
    by (simp add: bulk_results_nth [OF pending(2)] delivered_ok_def rejected_send_def failed_send_def sent_send_def)
  ultimately show ?thesis using run
    by (intro exI [of _ st'] exI [of _ "settled_row env (Some (the (?all ! i))) (ms ! i)"]) simp
qed

definition demo_sms_network :: fetch where
  "demo_sms_network rq = Inr \<lparr>hp_status = 200, hp_json = Inr (JObj [(''data'', JObj
     [(''successful_messages'', JArr [JObj [(''index'', JInt 1)], JObj [(''index'', JInt 7)]]),
      (''failed_messages'', JArr [JObj [(''index'', JInt 0), (''error'', JStr ''blocked'')]])])]), hp_text = Inr []\<rparr>"

definition demo_ugsms :: ugsms_config where
  "demo_ugsms = \<lparr>ug_baseUrl = ''https://sms'', ug_apiKey = ''k'', ug_senderId = ''Akabbo''\<rparr>"

theorem delivery_follows_gateway_witness:
  "\<exists>st' m. processCampaign (ugsms demo_ugsms demo_sms_network) demo_env ''E1'' (replicate 3 CHR ''x'') demo_blast = (st', Inr ())
     \<and> m \<in> set (sms_messages st') \<and> sm_status m = SMS_SENT"
proof -
  have two: "length (pending_messages (replicate 3 CHR ''x'') (in_event ''E1'') demo_blast) = 2" by code_simp
  show ?thesis
    using delivery_follows_gateway [OF demo_blast_wf, of "''E1''" _ "replicate 3 CHR ''x''" 1 demo_sms_network demo_ugsms _ _ demo_env]
      two by (fastforce simp: demo_sms_network_def hp_ok_def json_or_empty_def answers_def elements_def)
qed

end
