(* ===== verification/Model_Gateway.thy ===== *)
theory Model_Gateway
  imports Http Documents
begin

text \<open>
  The adapters of the language models under \<^verbatim>\<open>libs/providers/src/llm\<close>: the primary
  (\<^verbatim>\<open>gemini-llm.provider.ts\<close>) with its retries, the secondary (\<^verbatim>\<open>anthropic-llm.provider.ts\<close>), the chain
  that falls back from one to the other (\<^verbatim>\<open>fallback-llm.provider.ts\<close>), and the selection of
  \<^verbatim>\<open>providers.module.ts\<close>. The network is an argument: what each attempt is answered.
\<close>

section \<open>Requests and results\<close>

datatype message_role = MR_system | MR_user | MR_assistant | MR_tool

record model_call =
  mc_id :: "string option"
  mc_name :: string
  mc_arguments :: json
  mc_signature :: "string option"

record model_tool_result =
  mt_name :: string
  mt_content :: string

record model_message =
  mm_role :: message_role
  mm_content :: string
  mm_toolCalls :: "model_call list"
  mm_toolResults :: "model_tool_result list"

record tool_spec =
  ts_name :: string
  ts_description :: string
  ts_parameters :: json

record attachment =
  at_mimeType :: string
  at_data :: file_bytes

datatype tool_choice = Choice_auto | Choice_required

record completion_request =
  cq_messages :: "model_message list"
  cq_tools :: "tool_spec list"
  cq_attachments :: "attachment list"
  cq_temperature :: "rat option"
  cq_maxOutputTokens :: "int option"
  cq_disableThinking :: bool
  cq_toolChoice :: "tool_choice option"

record completion_result =
  cs_toolCalls :: "model_call list"
  cs_text :: "string option"
  cs_inputTokens :: int
  cs_outputTokens :: int
  cs_model :: string

text \<open>\<open>LlmRateLimitedError\<close> with its status and detail, or any other \<open>Error\<close>.\<close>

datatype model_error = Rate_limit int string | Model_failed string

type_synonym model_provider = "completion_request \<Rightarrow> model_error + completion_result"

definition system_text :: "completion_request \<Rightarrow> string" where
  "system_text rq = join [CHR 0x0A] (map mm_content (filter (\<lambda>m. mm_role m = MR_system) (cq_messages rq)))"

section \<open>The primary: contents\<close>

definition base64_digits :: string where
  "base64_digits = ''ABCDEFGHIJKLMNOPQRSTUVWXYZabcdefghijklmnopqrstuvwxyz0123456789+/''"

fun base64 :: "nat list \<Rightarrow> string" where
  "base64 [] = []"
| "base64 [a] = [base64_digits ! (a div 4), base64_digits ! (a mod 4 * 16), CHR ''='', CHR ''='']"
| "base64 [a, b] = [base64_digits ! (a div 4), base64_digits ! (a mod 4 * 16 + b div 16),
     base64_digits ! (b mod 16 * 4), CHR ''='']"
| "base64 (a # b # c # r) = [base64_digits ! (a div 4), base64_digits ! (a mod 4 * 16 + b div 16),
     base64_digits ! (b mod 16 * 4 + c div 64), base64_digits ! (c mod 64)] @ base64 r"

record content =
  ct_role :: string
  ct_parts :: "json list"

text \<open>A tool answer must be an object: anything else is wrapped.\<close>

definition asStruct :: "(string \<Rightarrow> json option) \<Rightarrow> string \<Rightarrow> json" where
  "asStruct parse cnt =
     (case parse cnt of
        None \<Rightarrow> JObj [(''result'', JStr cnt)]
      | Some (JObj kvs) \<Rightarrow> JObj kvs
      | Some v \<Rightarrow> JObj [(''result'', v)])"

definition call_part :: "model_call \<Rightarrow> json" where
  "call_part tc = JObj ((''functionCall'', JObj [(''name'', JStr (mc_name tc)), (''args'', mc_arguments tc)])
     # (if truthy_str (mc_signature tc) then [(''thoughtSignature'', JStr (the (mc_signature tc)))] else []))"

definition toContent :: "(string \<Rightarrow> json option) \<Rightarrow> model_message \<Rightarrow> content" where
  "toContent parse m =
     (if mm_role m = MR_tool \<and> mm_toolResults m \<noteq> [] then
        \<lparr>ct_role = ''user'', ct_parts = map (\<lambda>r. JObj [(''functionResponse'',
           JObj [(''name'', JStr (mt_name r)), (''response'', asStruct parse (mt_content r))])]) (mm_toolResults m)\<rparr>
      else if mm_role m = MR_assistant \<and> mm_toolCalls m \<noteq> [] then
        \<lparr>ct_role = ''model'', ct_parts = (if mm_content m \<noteq> [] then [JObj [(''text'', JStr (mm_content m))]] else [])
           @ map call_part (mm_toolCalls m)\<rparr>
      else \<lparr>ct_role = (if mm_role m = MR_assistant then ''model'' else ''user''),
             ct_parts = [JObj [(''text'', JStr (mm_content m))]]\<rparr>)"

definition inline_part :: "attachment \<Rightarrow> json" where
  "inline_part a = JObj [(''inlineData'', JObj [(''mimeType'', JStr (at_mimeType a)), (''data'', JStr (base64 (map unat (at_data a))))])]"

definition add_parts :: "json list \<Rightarrow> content \<Rightarrow> content" where
  "add_parts ps c = c\<lparr>ct_parts := ct_parts c @ ps\<rparr>"

text \<open>Attachments go to the last user turn, or else to the last turn.\<close>

fun attach_last_user :: "json list \<Rightarrow> content list \<Rightarrow> content list option" where
  "attach_last_user ps [] = None"
| "attach_last_user ps (c # cs) =
     (case attach_last_user ps cs of
        Some cs' \<Rightarrow> Some (c # cs')
      | None \<Rightarrow> if ct_role c = ''user'' then Some (add_parts ps c # cs) else None)"

definition attach :: "json list \<Rightarrow> content list \<Rightarrow> content list" where
  "attach ps cs =
     (case attach_last_user ps cs of
        Some cs' \<Rightarrow> cs'
      | None \<Rightarrow> if cs = [] then [] else butlast cs @ [add_parts ps (last cs)])"

record gemini_body =
  gb_contents :: "content list"
  gb_temperature :: rat
  gb_maxOutputTokens :: "int option"
  gb_thinkingLevel :: "string option"
  gb_systemInstruction :: "string option"
  gb_functions :: "tool_spec list"
  gb_mode :: "string option"

definition gemini_body_of :: "(string \<Rightarrow> json option) \<Rightarrow> completion_request \<Rightarrow> gemini_body" where
  "gemini_body_of parse rq =
     (let contents = map (toContent parse) (filter (\<lambda>m. mm_role m \<noteq> MR_system) (cq_messages rq))
      in \<lparr>gb_contents = (if cq_attachments rq = [] then contents else attach (map inline_part (cq_attachments rq)) contents),
          gb_temperature = nullish (cq_temperature rq) 0,
          gb_maxOutputTokens = (case cq_maxOutputTokens rq of Some n \<Rightarrow> if n = 0 then None else Some n | None \<Rightarrow> None),
          gb_thinkingLevel = (if cq_disableThinking rq then Some ''low'' else None),
          gb_systemInstruction = (if system_text rq = [] then None else Some (system_text rq)),
          gb_functions = cq_tools rq,
          gb_mode = (if cq_tools rq = [] then None
                     else Some (if cq_toolChoice rq = Some Choice_required then ''ANY'' else ''AUTO''))\<rparr>)"

section \<open>The primary: retries\<close>

definition retryable :: "int \<Rightarrow> bool" where
  "retryable status = (status \<in> {429, 500, 503})"

definition rate_limiting :: "int \<Rightarrow> bool" where
  "rate_limiting status = (status \<in> {429, 503})"

definition maxAttempts :: nat where
  "maxAttempts = 4"

definition exhausted :: "int \<Rightarrow> string \<Rightarrow> model_error" where
  "exhausted lastStatus lastError =
     (if rate_limiting lastStatus then Rate_limit lastStatus lastError else Model_failed lastError)"

definition reply_error :: "string \<Rightarrow> nat \<Rightarrow> int \<Rightarrow> string \<Rightarrow> string" where
  "reply_error who n status msg = who @ '' request failed ('' @ int_to_dec status @ ''): '' @ take n msg"

text \<open>The answers the network gives the attempts, numbered from one; the result comes with the
  number of the last attempt made.\<close>

function post_from :: "(nat \<Rightarrow> string + http_reply) \<Rightarrow> nat \<Rightarrow> nat \<times> (model_error + json)" where
  "post_from net attempt =
     (case net attempt of
        Inl e \<Rightarrow> (attempt, Inl (Model_failed e))
      | Inr res \<Rightarrow>
         (if hp_ok res then
            (attempt, case hp_json res of Inl e \<Rightarrow> Inl (Model_failed e) | Inr j \<Rightarrow> Inr j)
          else case hp_text res of
             Inl e \<Rightarrow> (attempt, Inl (Model_failed e))
           | Inr msg \<Rightarrow>
              (if \<not> retryable (hp_status res) \<or> maxAttempts \<le> attempt
               then (attempt, Inl (exhausted (hp_status res) (reply_error ''Gemini'' 300 (hp_status res) msg)))
               else post_from net (attempt + 1))))"
  by pat_completeness auto

termination
  by (relation "measure (\<lambda>(net, attempt). maxAttempts - attempt)") (auto simp: maxAttempts_def)

declare post_from.simps [simp del]

definition post :: "(nat \<Rightarrow> string + http_reply) \<Rightarrow> nat \<times> (model_error + json)" where
  "post net = post_from net 1"

section \<open>The primary: answers\<close>

definition json_string :: "json option \<Rightarrow> string option" where
  "json_string v = (case v of Some (JStr s) \<Rightarrow> Some s | _ \<Rightarrow> None)"

definition json_count :: "json option \<Rightarrow> int" where
  "json_count v = (case v of Some (JInt n) \<Rightarrow> n | _ \<Rightarrow> 0)"

definition json_items :: "json option \<Rightarrow> json list" where
  "json_items v = (case v of Some (JArr vs) \<Rightarrow> vs | _ \<Rightarrow> [])"

definition read_gemini_call :: "json \<Rightarrow> model_call" where
  "read_gemini_call p = (let f = json_field p ''functionCall'' in
     \<lparr>mc_id = json_string (opt_prop f ''id''), mc_name = nullish (json_string (opt_prop f ''name'')) [],
      mc_arguments = nullish (coalesce (opt_prop f ''args'') None) (JObj []),
      mc_signature = json_string (json_field p ''thoughtSignature'')\<rparr>)"

definition read_calls :: "json list \<Rightarrow> model_call list" where
  "read_calls parts = map read_gemini_call (filter (\<lambda>p. truthy_json (json_field p ''functionCall'')) parts)"

definition read_texts :: "json list \<Rightarrow> string" where
  "read_texts parts = concat (map (\<lambda>p. nullish (json_string (json_field p ''text'')) []) parts)"

definition answer_parts :: "json \<Rightarrow> json list" where
  "answer_parts j =
     json_items (opt_prop (opt_prop (case json_items (json_field j ''candidates'') of [] \<Rightarrow> None | c # _ \<Rightarrow> Some c)
        ''content'') ''parts'')"

definition some_text :: "string \<Rightarrow> string option" where
  "some_text s = (if s = [] then None else Some s)"

definition gemini_answer :: "string \<Rightarrow> json \<Rightarrow> completion_result" where
  "gemini_answer model j =
     \<lparr>cs_toolCalls = read_calls (answer_parts j), cs_text = some_text (read_texts (answer_parts j)),
      cs_inputTokens = json_count (opt_prop (json_field j ''usageMetadata'') ''promptTokenCount''),
      cs_outputTokens = json_count (opt_prop (json_field j ''usageMetadata'') ''candidatesTokenCount''),
      cs_model = model\<rparr>"

definition gemini ::
  "(string \<Rightarrow> json option) \<Rightarrow> string \<Rightarrow> (gemini_body \<Rightarrow> nat \<Rightarrow> string + http_reply) \<Rightarrow> model_provider" where
  "gemini parse model net rq =
     (case snd (post (net (gemini_body_of parse rq))) of
        Inl e \<Rightarrow> Inl e
      | Inr j \<Rightarrow> Inr (gemini_answer model j))"

section \<open>The secondary\<close>

record anthropic_body =
  ab_model :: string
  ab_maxTokens :: int
  ab_system :: string
  ab_messages :: "(string \<times> string) list"
  ab_tools :: "tool_spec list"
  ab_toolChoice :: "string option"

definition anthropic_body_of :: "string \<Rightarrow> completion_request \<Rightarrow> anthropic_body" where
  "anthropic_body_of model rq =
     \<lparr>ab_model = model, ab_maxTokens = nullish (cq_maxOutputTokens rq) 1024, ab_system = system_text rq,
      ab_messages = map (\<lambda>m. (if mm_role m = MR_assistant then ''assistant'' else ''user'', mm_content m))
        (filter (\<lambda>m. mm_role m \<noteq> MR_system) (cq_messages rq)),
      ab_tools = cq_tools rq, ab_toolChoice = (if cq_tools rq = [] then None else Some ''any'')\<rparr>"

definition block_of :: "string \<Rightarrow> json \<Rightarrow> bool" where
  "block_of t b = (json_field b ''type'' = Some (JStr t))"

definition anthropic_answer :: "string \<Rightarrow> json \<Rightarrow> completion_result" where
  "anthropic_answer model j =
     (let blocks = json_items (json_field j ''content'') in
      \<lparr>cs_toolCalls = map (\<lambda>b. \<lparr>mc_id = None, mc_name = nullish (json_string (json_field b ''name'')) [],
           mc_arguments = nullish (coalesce (json_field b ''input'') None) (JObj []), mc_signature = None\<rparr>)
         (filter (block_of ''tool_use'') blocks),
       cs_text = some_text (read_texts (filter (block_of ''text'') blocks)),
       cs_inputTokens = json_count (opt_prop (json_field j ''usage'') ''input_tokens''),
       cs_outputTokens = json_count (opt_prop (json_field j ''usage'') ''output_tokens''), cs_model = model\<rparr>)"

definition anthropic :: "string \<Rightarrow> (anthropic_body \<Rightarrow> string + http_reply) \<Rightarrow> model_provider" where
  "anthropic model net rq =
     (case net (anthropic_body_of model rq) of
        Inl e \<Rightarrow> Inl (Model_failed e)
      | Inr res \<Rightarrow>
         (if \<not> hp_ok res then
            Inl (Model_failed (case hp_text res of Inl e \<Rightarrow> e
              | Inr msg \<Rightarrow> reply_error ''Anthropic'' 200 (hp_status res) msg))
          else case hp_json res of Inl e \<Rightarrow> Inl (Model_failed e) | Inr j \<Rightarrow> Inr (anthropic_answer model j)))"

section \<open>The chain\<close>

fun fallback_from :: "model_error \<Rightarrow> model_provider list \<Rightarrow> model_provider" where
  "fallback_from lastErr [] rq = Inl lastErr"
| "fallback_from lastErr (p # ps) rq = (case p rq of Inr r \<Rightarrow> Inr r | Inl e \<Rightarrow> fallback_from e ps rq)"

definition fallback :: "model_provider list \<Rightarrow> model_provider" where
  "fallback ps = fallback_from (Model_failed ''All LLM providers failed'') ps"

definition stub_model :: model_provider where
  "stub_model rq = Inl (Model_failed
     ''LlmProvider.complete() is a Phase 0 stub and is not implemented yet (real implementation arrives in Phase 2).'')"

text \<open>The keys configured, and the adapters they would build.\<close>

definition buildLlmProvider ::
  "string \<Rightarrow> string option \<Rightarrow> string option \<Rightarrow> model_provider \<Rightarrow> model_provider \<Rightarrow> model_provider" where
  "buildLlmProvider selector geminiKey anthropicKey primary secondary =
     (if selector \<noteq> ''gemini'' then stub_model
      else
        let ps = (if truthy_str geminiKey then [primary] else []) @ (if truthy_str anthropicKey then [secondary] else [])
        in case ps of [] \<Rightarrow> stub_model | [p] \<Rightarrow> p | _ \<Rightarrow> fallback ps)"

section \<open>What the retries promise\<close>

text \<open>A status the next attempt follows.\<close>

definition passed_over :: "(nat \<Rightarrow> string + http_reply) \<Rightarrow> nat \<Rightarrow> bool" where
  "passed_over net k = (\<exists>res msg. net k = Inr res \<and> \<not> hp_ok res \<and> hp_text res = Inr msg \<and> retryable (hp_status res))"

lemma post_from_stops:
  assumes "post_from net k = (n, r)" "k \<le> maxAttempts"
  shows "k \<le> n \<and> n \<le> maxAttempts \<and> (\<forall>i. k \<le> i \<and> i < n \<longrightarrow> passed_over net i)
    \<and> (case net n of
        Inl e \<Rightarrow> r = Inl (Model_failed e)
      | Inr res \<Rightarrow>
         if hp_ok res then (case hp_json res of Inl e \<Rightarrow> r = Inl (Model_failed e) | Inr j \<Rightarrow> r = Inr j)
         else case hp_text res of Inl e \<Rightarrow> r = Inl (Model_failed e)
           | Inr msg \<Rightarrow> (n = maxAttempts \<or> \<not> retryable (hp_status res))
               \<and> r = Inl (exhausted (hp_status res) (reply_error ''Gemini'' 300 (hp_status res) msg)))"
  using assms
proof (induction net k arbitrary: n r rule: post_from.induct)
  case (1 net k)
  show ?case
  proof (cases "passed_over net k \<and> k < maxAttempts")
    case True
    then obtain res msg where here: "net k = Inr res" "\<not> hp_ok res" "hp_text res = Inr msg" "retryable (hp_status res)"
      by (auto simp: passed_over_def)
    then have step: "post_from net (k + 1) = (n, r)"
      using True "1.prems"(1) by (subst (asm) post_from.simps) simp
    have "k + 1 \<le> maxAttempts" using True by simp
    from "1.IH" [OF here(1,2,3) _ step this] here(4) True
    have ahead: "k + 1 \<le> n \<and> n \<le> maxAttempts \<and> (\<forall>i. k + 1 \<le> i \<and> i < n \<longrightarrow> passed_over net i)" and
      last: "case net n of
        Inl e \<Rightarrow> r = Inl (Model_failed e)
      | Inr res \<Rightarrow>
         if hp_ok res then (case hp_json res of Inl e \<Rightarrow> r = Inl (Model_failed e) | Inr j \<Rightarrow> r = Inr j)
         else case hp_text res of Inl e \<Rightarrow> r = Inl (Model_failed e)
           | Inr msg \<Rightarrow> (n = maxAttempts \<or> \<not> retryable (hp_status res))
               \<and> r = Inl (exhausted (hp_status res) (reply_error ''Gemini'' 300 (hp_status res) msg))"
      by simp_all
    have "passed_over net i" if "k \<le> i" "i < n" for i
      using that ahead True by (cases "i = k") auto
    then show ?thesis using ahead last by simp
  next
    case False
    then show ?thesis using "1.prems"
      by (subst (asm) (1) post_from.simps) (auto simp: passed_over_def split: sum.splits if_splits)
  qed
qed

text \<open>The first provider that answers, or else the error of the last.\<close>

lemma fallback_first:
  "fallback_from e ps rq =
     (case List.find (\<lambda>p. \<exists>r. p rq = Inr r) ps of
        Some p \<Rightarrow> p rq
      | None \<Rightarrow> if ps = [] then Inl e else last ps rq)"
  by (induction ps arbitrary: e) (auto split: sum.splits option.splits)

text \<open>Replaying calls of the model gives the calls back, but for their ids: their arguments and the
  signatures the model insists on are kept.\<close>

lemma replayed_call:
  assumes "\<exists>kvs. mc_arguments tc = JObj kvs" "mc_signature tc \<noteq> Some []"
  shows "read_gemini_call (call_part tc) = tc\<lparr>mc_id := None\<rparr>"
proof -
  obtain kvs where "mc_arguments tc = JObj kvs" using assms(1) by blast
  then show ?thesis using assms(2)
    by (cases "mc_signature tc") (auto simp: read_gemini_call_def call_part_def opt_prop_def coalesce_def json_string_def Let_def)
qed

text \<open>What an attempt that is not passed over decides.\<close>

definition decided :: "string + http_reply \<Rightarrow> model_error + json" where
  "decided answer =
     (case answer of
        Inl e \<Rightarrow> Inl (Model_failed e)
      | Inr res \<Rightarrow>
         (if hp_ok res then (case hp_json res of Inl e \<Rightarrow> Inl (Model_failed e) | Inr j \<Rightarrow> Inr j)
          else case hp_text res of Inl e \<Rightarrow> Inl (Model_failed e)
            | Inr msg \<Rightarrow> Inl (exhausted (hp_status res) (reply_error ''Gemini'' 300 (hp_status res) msg))))"

text \<open>C37. A call of the primary model always ends after one to four requests: every request before
  the last one was answered with status 429, 500 or 503, the last one alone decides the outcome, and
  if it too may be retried it is the fourth.
\<close>

theorem model_call_bounded:
  "case post net of (n, r) \<Rightarrow>
     1 \<le> n \<and> n \<le> maxAttempts \<and> list_all (passed_over net) [1..<n] \<and> r = decided (net n)
     \<and> (n = maxAttempts \<or> \<not> passed_over net n)"
proof -
  obtain n r where p: "post net = (n, r)" by (cases "post net") auto
  have "post_from net 1 = (n, r)" "1 \<le> maxAttempts" using p by (simp_all add: post_def maxAttempts_def)
  from post_from_stops [OF this] p show ?thesis
    by (auto simp: list_all_iff decided_def passed_over_def split: sum.splits if_splits)
qed

text \<open>The secondary gets neither the results of tools nor attachments, and is always made to call a
  tool when there is one.\<close>

lemma secondary_ignores:
  "anthropic_body_of model (rq\<lparr>cq_toolChoice := c, cq_attachments := as\<rparr>) = anthropic_body_of model rq"
  by (simp add: anthropic_body_of_def system_text_def)

text \<open>A gateway that is overloaded twice and then answers.\<close>

definition overloaded_twice :: "nat \<Rightarrow> string + http_reply" where
  "overloaded_twice k = Inr (if k \<le> 2 then \<lparr>hp_status = 503, hp_json = Inl [], hp_text = Inr ''busy''\<rparr>
     else \<lparr>hp_status = 200, hp_json = Inr (JBool True), hp_text = Inr []\<rparr>)"

theorem model_call_bounded_witness: "post overloaded_twice = (3, Inr (JBool True))"
proof -
  obtain n r where p: "post overloaded_twice = (n, r)" by (cases "post overloaded_twice") auto
  have over: "passed_over overloaded_twice k \<longleftrightarrow> k \<le> 2" for k
    by (simp add: passed_over_def overloaded_twice_def hp_ok_def retryable_def)
  have bounds: "1 \<le> n" "n \<le> 4" "\<forall>k\<in>set [1..<n]. k \<le> 2" "r = decided (overloaded_twice n)" "n = 4 \<or> \<not> n \<le> 2"
    using model_call_bounded [of overloaded_twice] p by (simp_all add: over maxAttempts_def list_all_iff)
  then have "n \<noteq> 4" by (auto dest: bspec [of _ _ 3])
  then have "n = 3" using bounds by linarith
  then show ?thesis using p bounds(4) by (simp add: decided_def overloaded_twice_def hp_ok_def)
qed

end
