(* ===== verification/Local_Storage.thy ===== *)
theory Local_Storage
  imports Http Documents Identity
begin

text \<open>
  The storage provider on the local disk, \<^verbatim>\<open>libs/providers/src/storage/local-storage.provider.ts\<close>: paths
  that stay under the root, and signed references that expire. The digest is an argument. Paths are
  resolved_path as POSIX prescribes; a query string is written and read as
  \<open>application/x-www-form-urlencoded\<close>.
\<close>

section \<open>Paths\<close>






record local_config =
  lc_cwd :: "string list"
  lc_rootDir :: string
  lc_signingSecret :: string
  lc_hmac :: "string \<Rightarrow> string \<Rightarrow> string"



section \<open>Objects\<close>





section \<open>Query strings\<close>

definition hex_upper :: "nat \<Rightarrow> char" where
  "hex_upper n = ''0123456789ABCDEF'' ! n"

definition form_safe :: "char \<Rightarrow> bool" where
  "form_safe c = (letter c \<or> is_digit c \<or> c \<in> set ''*-._'')"

definition form_char :: "char \<Rightarrow> string" where
  "form_char c =
     (if form_safe c then [c]
      else if c = CHR '' '' then ''+''
      else let n = (of_char c :: nat) in [CHR ''%'', hex_upper (n div 16), hex_upper (n mod 16)])"

definition form_encode :: "string \<Rightarrow> string" where
  "form_encode s = concat (map form_char s)"

definition form_pairs :: "(string \<times> string) list \<Rightarrow> string" where
  "form_pairs kvs = join ''&'' (map (\<lambda>(k, v). form_encode k @ ''='' @ form_encode v) kvs)"

fun form_decode :: "string \<Rightarrow> string" where
  "form_decode [] = []"
| "form_decode (c # a # b # s) =
     (if c = CHR ''%'' then
        (case (hex_value a, hex_value b) of
           (Some m, Some n) \<Rightarrow> char_of (16 * m + n) # form_decode s
         | _ \<Rightarrow> c # form_decode (a # b # s))
      else (if c = CHR ''+'' then CHR '' '' else c) # form_decode (a # b # s))"
| "form_decode (c # s) = (if c = CHR ''+'' then CHR '' '' else c) # form_decode s"

definition form_pair :: "string \<Rightarrow> string \<times> string" where
  "form_pair s = (form_decode (takeWhile (\<lambda>c. c \<noteq> CHR ''='') s), form_decode (drop 1 (dropWhile (\<lambda>c. c \<noteq> CHR ''='') s)))"

definition form_parse :: "string \<Rightarrow> (string \<times> string) list" where
  "form_parse q = map form_pair (filter (\<lambda>p. p \<noteq> []) (split_on CHR ''&'' q))"

section \<open>Signed references\<close>

text \<open>\<open>Number(s)\<close> on the empty string and on integer numerals; the other forms it reads are taken
  as not finite.\<close>

definition js_Number :: "string option \<Rightarrow> int option" where
  "js_Number s = (case s of
     None \<Rightarrow> Some 0
   | Some t \<Rightarrow> (let d = js_trim t in
       if d = [] then Some 0
       else if list_all is_digit d then Some (int (dec_to_nat d))
       else if hd d = CHR ''-'' \<and> tl d \<noteq> [] \<and> list_all is_digit (tl d) then Some (- int (dec_to_nat (tl d)))
       else None))"

definition sign :: "local_config \<Rightarrow> string \<Rightarrow> time \<Rightarrow> string" where
  "sign config key expiresAt = lc_hmac config (lc_signingSecret config) (key @ '':'' @ int_to_dec expiresAt)"

definition getSignedUrl_local :: "local_config \<Rightarrow> time \<Rightarrow> string \<Rightarrow> int \<Rightarrow> string" where
  "getSignedUrl_local config t key expiresInSeconds =
     (let expiresAt = t + expiresInSeconds * 1000
      in ''local://storage?'' @ form_pairs [(''key'', key), (''expires'', int_to_dec expiresAt),
           (''signature'', sign config key expiresAt)])"

definition verifySignedUrl :: "local_config \<Rightarrow> time \<Rightarrow> string \<Rightarrow> string option" where
  "verifySignedUrl config t url =
     (case split_on CHR ''?'' url of
        _ # params_text # _ \<Rightarrow>
          (if params_text = [] then None
           else
             let params = form_parse params_text;
                 key = map_of params ''key'';
                 expires = js_Number (map_of params ''expires'');
                 signature = map_of params ''signature''
             in if \<not> truthy_str key \<or> \<not> truthy_str signature then None
                else (case expires of
                   None \<Rightarrow> None
                 | Some ex \<Rightarrow>
                    if t > ex then None
                    else if sign config (the key) ex \<noteq> the signature then None
                    else key))
      | _ \<Rightarrow> None)"

section \<open>No key leads out of the root\<close>










section \<open>What was written is read back\<close>


section \<open>Query strings are read back\<close>

lemma form_decode_Cons: "c \<noteq> CHR ''%'' \<Longrightarrow> form_decode (c # s) = (if c = CHR ''+'' then CHR '' '' else c) # form_decode s"
  by (cases s; cases "tl s") auto

lemma hex_upper_value: "n < 16 \<Longrightarrow> hex_value (hex_upper n) = Some n"
proof -
  assume "n < 16"
  then have "n \<in> set [0..<16]" by simp
  moreover have "list_all (\<lambda>n. hex_value (hex_upper n) = Some n) [0..<16]" by code_simp
  ultimately show ?thesis by (simp add: list_all_iff)
qed

lemma form_safe_plain: "form_safe c \<Longrightarrow> c \<noteq> CHR ''%'' \<and> c \<noteq> CHR ''+'' \<and> c \<noteq> CHR ''&'' \<and> c \<noteq> CHR ''='' \<and> c \<noteq> CHR ''?''"
proof -
  have "\<not> form_safe CHR ''%''" "\<not> form_safe CHR ''+''" "\<not> form_safe CHR ''&''" "\<not> form_safe CHR ''=''" "\<not> form_safe CHR ''?''"
    by code_simp+
  then show "form_safe c \<Longrightarrow> ?thesis" by blast
qed

lemma of_char_less: "(of_char c :: nat) < 256"
  by (metis nat_of_char_less_256)

lemma high_digit: "(of_char c :: nat) div 16 < 16"
  using of_char_less [of c] by (intro less_mult_imp_div_less) simp

lemma form_decode_char: "form_decode (form_char c @ s) = c # form_decode s"
proof -
  let ?n = "of_char c :: nat"
  have "hex_value (hex_upper (?n div 16)) = Some (?n div 16)" "hex_value (hex_upper (?n mod 16)) = Some (?n mod 16)"
    by (rule hex_upper_value [OF high_digit]) (simp add: hex_upper_value)
  moreover have "char_of (16 * (?n div 16) + ?n mod 16) = c" by simp
  ultimately show ?thesis
    by (auto simp: form_char_def form_decode_Cons Let_def dest: form_safe_plain)
qed

lemma form_decode_encode [simp]: "form_decode (form_encode s) = s"
  by (induction s) (simp_all add: form_encode_def form_decode_char)

lemma hex_upper_safe: "n < 16 \<Longrightarrow> form_safe (hex_upper n)"
proof -
  assume "n < 16"
  then have "n \<in> set [0..<16]" by simp
  moreover have "list_all (\<lambda>n. form_safe (hex_upper n)) [0..<16]" by code_simp
  ultimately show ?thesis by (simp add: list_all_iff)
qed

lemma form_encode_chars: "c \<in> set (form_encode s) \<Longrightarrow> form_safe c \<or> c = CHR ''+'' \<or> c = CHR ''%''"
proof (induction s)
  case (Cons a s)
  have "form_safe (hex_upper ((of_char a :: nat) div 16))" "form_safe (hex_upper ((of_char a :: nat) mod 16))"
    by (rule hex_upper_safe [OF high_digit]) (simp add: hex_upper_safe)
  then show ?case using Cons by (auto simp: form_encode_def form_char_def Let_def split: if_splits)
qed (simp add: form_encode_def)

lemma form_encode_clean [simp]:
  "CHR ''&'' \<notin> set (form_encode s)" "CHR ''='' \<notin> set (form_encode s)" "CHR ''?'' \<notin> set (form_encode s)"
  using form_encode_chars [of _ s] form_safe_plain by fastforce+

lemma split_on_none: "c \<notin> set s \<Longrightarrow> split_on c s = [s]"
  by (induction s) auto

lemma split_on_first: "c \<notin> set a \<Longrightarrow> split_on c (a @ c # b) = a # split_on c b"
  by (induction a) (auto split: list.splits)

lemma form_pair_encoded: "form_pair (form_encode k @ ''='' @ form_encode v) = (k, v)"
proof -
  have "takeWhile (\<lambda>c. c \<noteq> CHR ''='') (form_encode k @ ''='' @ form_encode v) = form_encode k"
    "dropWhile (\<lambda>c. c \<noteq> CHR ''='') (form_encode k @ ''='' @ form_encode v) = ''='' @ form_encode v"
    using form_encode_clean(2) [of k] by (subst takeWhile_append2 dropWhile_append2; auto)+
  then show ?thesis by (simp add: form_pair_def)
qed

lemma form_parse_pairs: "form_parse (form_pairs kvs) = kvs"
proof (induction kvs)
  case Nil
  then show ?case by (simp add: form_parse_def form_pairs_def)
next
  case (Cons kv kvs)
  obtain k v where kv: "kv = (k, v)" by fastforce
  let ?e = "form_encode k @ ''='' @ form_encode v"
  have e: "CHR ''&'' \<notin> set ?e" "?e \<noteq> []" by simp_all
  show ?case
  proof (cases kvs)
    case Nil
    then show ?thesis using e kv form_pair_encoded [of k v] split_on_none [OF e(1)]
      by (simp add: form_parse_def form_pairs_def)
  next
    case (Cons p ps)
    have "form_pairs (kv # kvs) = ?e @ CHR ''&'' # form_pairs kvs"
      using Cons kv by (simp add: form_pairs_def)
    then have "form_parse (form_pairs (kv # kvs)) = form_pair ?e # form_parse (form_pairs kvs)"
      using split_on_first [OF e(1)] e(2) by (simp add: form_parse_def)
    then show ?thesis using Cons.IH form_pair_encoded [of k v] kv by simp
  qed
qed

lemma form_pairs_question: "CHR ''?'' \<notin> set (form_pairs kvs)"
proof (induction kvs)
  case (Cons kv kvs)
  then show ?case by (cases kvs; cases kv) (auto simp: form_pairs_def)
qed (simp add: form_pairs_def)

section \<open>Signed references\<close>

lemma digit_facts: "is_digit c \<Longrightarrow> \<not> is_blank c \<and> c \<noteq> CHR ''-'' \<and> c \<noteq> CHR '':''"
  by (auto simp: is_digit_def is_blank_def)

lemma js_trim_solid:
  assumes "list_all (\<lambda>c. \<not> is_blank c) s"
  shows "js_trim s = s"
proof -
  have keep: "list_all (\<lambda>c. \<not> is_blank c) t \<Longrightarrow> dropWhile is_blank t = t" for t by (cases t) auto
  have "dropWhile is_blank s = s" by (rule keep [OF assms])
  moreover have "dropWhile is_blank (rev s) = rev s" using assms by (intro keep) (simp add: list_all_iff)
  ultimately show ?thesis by (simp add: js_trim_def)
qed

lemma js_Number_dec [simp]: "js_Number (Some (int_to_dec n)) = Some n"
proof -
  have digits: "list_all is_digit (nat_to_dec k)" for k by (rule nat_to_dec_digits)
  then have solid: "list_all (\<lambda>c. \<not> is_blank c) (nat_to_dec k)" for k
    using digit_facts by (auto simp: list_all_iff)
  have "js_trim (int_to_dec n) = int_to_dec n"
    using solid by (intro js_trim_solid) (simp add: int_to_dec_def is_blank_def)
  then show ?thesis using digits minus_not_digit
    by (simp add: js_Number_def int_to_dec_def Let_def)
qed

lemma dec_no_colon: "CHR '':'' \<notin> set (int_to_dec n)"
proof -
  have "CHR '':'' \<notin> set (nat_to_dec k)" for k
    using nat_to_dec_digits [of k] digit_facts [of "CHR '':''"] by (auto simp: list_all_iff)
  then show ?thesis by (simp add: int_to_dec_def)
qed

lemma last_colon:
  assumes "a @ CHR '':'' # b = a' @ CHR '':'' # b'" "CHR '':'' \<notin> set b" "CHR '':'' \<notin> set b'"
  shows "a = a' \<and> b = b'"
proof -
  have "takeWhile (\<lambda>c. c \<noteq> CHR '':'') (rev (x @ CHR '':'' # y)) = rev y" if "CHR '':'' \<notin> set y" for x y
    using that by simp (subst takeWhile_append2; auto)
  then have "rev b = rev b'" using assms by metis
  then show ?thesis using assms(1) by simp
qed

lemma payload_inject: "key @ '':'' @ int_to_dec n = key' @ '':'' @ int_to_dec n' \<longleftrightarrow> key = key' \<and> n = n'"
  using last_colon [of key "int_to_dec n" key' "int_to_dec n'"] dec_no_colon by auto

lemma verify_signed:
  assumes "key \<noteq> []" "sign config key (t + secs * 1000) \<noteq> []"
  shows "verifySignedUrl config t' (getSignedUrl_local config t key secs) = (if t + secs * 1000 < t' then None else Some key)"
proof -
  let ?ps = "[(''key'', key), (''expires'', int_to_dec (t + secs * 1000)), (''signature'', sign config key (t + secs * 1000))]"
  have "getSignedUrl_local config t key secs = ''local://storage'' @ CHR ''?'' # form_pairs ?ps"
    by (simp add: getSignedUrl_local_def Let_def)
  moreover have "CHR ''?'' \<notin> set ''local://storage''" by code_simp
  ultimately have split: "split_on CHR ''?'' (getSignedUrl_local config t key secs) = [''local://storage'', form_pairs ?ps]"
    using split_on_first split_on_none [OF form_pairs_question] by metis
  have "form_pairs ?ps \<noteq> []" by (simp add: form_pairs_def)
  then show ?thesis
    unfolding verifySignedUrl_def split using assms
    by (simp add: form_parse_pairs Let_def)
qed

text \<open>A reference with given fields and a given signature.\<close>

definition reference :: "string \<Rightarrow> time \<Rightarrow> string \<Rightarrow> string" where
  "reference key expiresAt signature = ''local://storage?'' @
     form_pairs [(''key'', key), (''expires'', int_to_dec expiresAt), (''signature'', signature)]"

lemma verify_reference:
  "key \<noteq> [] \<Longrightarrow> signature \<noteq> [] \<Longrightarrow>
   verifySignedUrl config t (reference key n signature) =
     (if n < t \<or> sign config key n \<noteq> signature then None else Some key)"
proof -
  let ?ps = "[(''key'', key), (''expires'', int_to_dec n), (''signature'', signature)]"
  assume assms: "key \<noteq> []" "signature \<noteq> []"
  have "reference key n signature = ''local://storage'' @ CHR ''?'' # form_pairs ?ps"
    by (simp add: reference_def)
  moreover have "CHR ''?'' \<notin> set ''local://storage''" by code_simp
  ultimately have split: "split_on CHR ''?'' (reference key n signature) = [''local://storage'', form_pairs ?ps]"
    using split_on_first split_on_none [OF form_pairs_question] by metis
  have "form_pairs ?ps \<noteq> []" by (simp add: form_pairs_def)
  then show ?thesis
    unfolding verifySignedUrl_def split using assms
    by (simp add: form_parse_pairs Let_def)
qed

text \<open>C34. A signed reference names exactly the key it was made for until the moment it expires and
  nothing after that, whatever characters the key has; and a signature moved to another key or another
  expiry is accepted only if the digest has two messages with the same value.
\<close>

theorem signed_reference_exact:
  assumes "key \<noteq> []" "sign config key (t + secs * 1000) \<noteq> []" "k \<noteq> []"
  shows "verifySignedUrl config t' (getSignedUrl_local config t key secs) = (if t + secs * 1000 < t' then None else Some key)
    \<and> (verifySignedUrl config t' (reference k n (sign config key (t + secs * 1000))) = None
       \<or> k = key \<and> n = t + secs * 1000
       \<or> (\<exists>m m'. m \<noteq> m' \<and> lc_hmac config (lc_signingSecret config) m = lc_hmac config (lc_signingSecret config) m'))"
proof (cases "k = key \<and> n = t + secs * 1000")
  case False
  then have "k @ '':'' @ int_to_dec n \<noteq> key @ '':'' @ int_to_dec (t + secs * 1000)"
    unfolding payload_inject .
  moreover have "sign config k n = sign config key (t + secs * 1000)"
    if "verifySignedUrl config t' (reference k n (sign config key (t + secs * 1000))) \<noteq> None"
    using that verify_reference [OF assms(3,2)] by (metis (no_types))
  ultimately show ?thesis
    using verify_signed [OF assms(1,2)] unfolding sign_def by blast
qed (simp add: verify_signed [OF assms(1,2)])

definition demo_storage :: local_config where
  "demo_storage = \<lparr>lc_cwd = [''srv''], lc_rootDir = ''./storage'', lc_signingSecret = ''s'',
     lc_hmac = (\<lambda>secret msg. secret @ msg)\<rparr>"

lemma signed_reference_exact_witness:
  "verifySignedUrl demo_storage 5000 (getSignedUrl_local demo_storage 1000 ''events/e1/a b?.pdf'' 4) = Some ''events/e1/a b?.pdf''
   \<and> verifySignedUrl demo_storage 5001 (getSignedUrl_local demo_storage 1000 ''events/e1/a b?.pdf'' 4) = None"
  using signed_reference_exact [of "''events/e1/a b?.pdf''" demo_storage 1000 4 "''x''" 5000]
    signed_reference_exact [of "''events/e1/a b?.pdf''" demo_storage 1000 4 "''x''" 5001]
  by (simp add: sign_def demo_storage_def)



end
