(* ===== verification/Mail_Gateway.thy ===== *)
theory Mail_Gateway
  imports Http Identity Budget_Knowledge
begin

text \<open>
  The remaining adapters under \<^verbatim>\<open>libs/providers/src\<close>: mail (\<^verbatim>\<open>email/sendgrid-email.provider.ts\<close>,
  \<^verbatim>\<open>email/twilio-email.provider.ts\<close>), web search (\<^verbatim>\<open>search/tavily-search.provider.ts\<close>), and the selection
  of an adapter by the configuration (\<^verbatim>\<open>providers.module.ts\<close>). The network is an argument; for mail it also
  gives the headers of an answer.
\<close>

section \<open>Mail\<close>

record email_result =
  eml_providerMessageId :: string
  eml_sent :: bool
  eml_error :: "string option"

definition replace_char :: "char \<Rightarrow> string \<Rightarrow> string \<Rightarrow> string" where
  "replace_char c new s = concat (map (\<lambda>d. if d = c then new else [d]) s)"

definition escaped :: "string \<Rightarrow> string" where
  "escaped s = replace_char CHR ''>'' ''&gt;'' (replace_char CHR ''<'' ''&lt;'' (replace_char CHR ''&'' ''&amp;'' s))"

definition toHtml :: "string \<Rightarrow> string" where
  "toHtml s = ''<p>'' @ replace_char CHR 0x0A ''<br>'' (escaped s) @ ''</p>''"

definition not_sent :: "int \<Rightarrow> email_result" where
  "not_sent status = \<lparr>eml_providerMessageId = [], eml_sent = False, eml_error = Some (''HTTP '' @ int_to_dec status)\<rparr>"

definition sent_mail :: "string \<Rightarrow> email_result" where
  "sent_mail i = \<lparr>eml_providerMessageId = i, eml_sent = True, eml_error = None\<rparr>"

type_synonym mail_fetch = "http_request \<Rightarrow> string + http_reply \<times> (string \<Rightarrow> string option)"

definition sendgrid_request :: "string \<Rightarrow> string \<Rightarrow> email_request \<Rightarrow> http_request" where
  "sendgrid_request apiKey fromAddress m = \<lparr>hq_method = ''POST'', hq_url = ''https://api.sendgrid.com/v3/mail/send'',
     hq_headers = [(''authorization'', ''Bearer '' @ apiKey), (''content-type'', ''application/json'')],
     hq_body = JObj [(''from'', JObj [(''email'', JStr fromAddress)]),
       (''personalizations'', JArr [JObj [(''to'', JArr [JObj [(''email'', JStr (em_to m))]])]]),
       (''subject'', JStr (em_subject m)),
       (''content'', JArr [JObj [(''type'', JStr ''text/plain''), (''value'', JStr (em_body m))],
          JObj [(''type'', JStr ''text/html''), (''value'', JStr (toHtml (em_body m)))]])]\<rparr>"

definition sendgrid_send :: "string \<Rightarrow> string \<Rightarrow> mail_fetch \<Rightarrow> email_request \<Rightarrow> string + email_result" where
  "sendgrid_send apiKey fromAddress fetch m =
     or_else (fetch (sendgrid_request apiKey fromAddress m)) (\<lambda>(res, header).
       Inr (if \<not> hp_ok res then not_sent (hp_status res) else sent_mail (nullish (header ''x-message-id'') [])))"

text \<open>The credentials come encoded.\<close>

definition twilio_request :: "string \<Rightarrow> string \<Rightarrow> email_request \<Rightarrow> http_request" where
  "twilio_request basicAuth fromAddress m = \<lparr>hq_method = ''POST'', hq_url = ''https://comms.twilio.com/v1/Emails'',
     hq_headers = [(''authorization'', ''Basic '' @ basicAuth), (''content-type'', ''application/json'')],
     hq_body = JObj [(''from'', JObj [(''address'', JStr fromAddress)]),
       (''to'', JArr [JObj [(''address'', JStr (em_to m))]]),
       (''content'', JObj [(''subject'', JStr (em_subject m)), (''text'', JStr (em_body m)), (''html'', JStr (toHtml (em_body m)))])]\<rparr>"

definition twilio_send :: "string \<Rightarrow> string \<Rightarrow> mail_fetch \<Rightarrow> email_request \<Rightarrow> string + email_result" where
  "twilio_send basicAuth fromAddress fetch m =
     or_else (fetch (twilio_request basicAuth fromAddress m)) (\<lambda>(res, header).
       if \<not> hp_ok res then Inr (not_sent (hp_status res))
       else or_else (js_prop (json_or_empty res) ''operationId'') (\<lambda>i.
         Inr (sent_mail (js_text (nullish (coalesce i None) (JStr []))))))"

section \<open>Search\<close>

definition tavily_request :: "string \<Rightarrow> string \<Rightarrow> int option \<Rightarrow> http_request" where
  "tavily_request apiKey q maxResults = \<lparr>hq_method = ''POST'', hq_url = ''https://api.tavily.com/search'',
     hq_headers = [(''content-type'', ''application/json'')],
     hq_body = JObj [(''api_key'', JStr apiKey), (''query'', JStr q), (''max_results'', JInt (nullish maxResults 5)),
       (''search_depth'', JStr ''basic''), (''include_raw_content'', JBool False)]\<rparr>"

definition text_of :: "json option \<Rightarrow> string option" where
  "text_of v = (case v of Some (JStr s) \<Rightarrow> Some s | _ \<Rightarrow> None)"

text \<open>An item of the answer; its fields are texts by the contract of the service.\<close>

definition tavily_result :: "json \<Rightarrow> search_result" where
  "tavily_result r = \<lparr>sr_title = nullish (text_of (json_field r ''title'')) [], sr_url = nullish (text_of (json_field r ''url'')) [],
     sr_snippet = take 300 (nullish (text_of (json_field r ''content'')) []), sr_content = text_of (json_field r ''content''),
     sr_publishedAt = text_of (json_field r ''published_date'')\<rparr>"

definition tavily_search :: "string \<Rightarrow> fetch \<Rightarrow> string \<Rightarrow> int option \<Rightarrow> string + search_result list" where
  "tavily_search apiKey fetch q maxResults =
     or_else (fetch (tavily_request apiKey q maxResults)) (\<lambda>res.
     if \<not> hp_ok res then Inl (''Tavily search failed (HTTP '' @ int_to_dec (hp_status res) @ ''): ''
          @ take 200 (case hp_text res of Inl e \<Rightarrow> [] | Inr d \<Rightarrow> d))
     else or_else (hp_json res) (\<lambda>body. or_else (js_prop body ''results'') (\<lambda>results.
       Inr (map tavily_result (case results of Some (JArr vs) \<Rightarrow> vs | _ \<Rightarrow> [])))))"

section \<open>Selection\<close>

text \<open>The configured selector and keys choose between the stub, which fails on every call, and an
  adapter.\<close>

definition buildSmsProvider :: "string \<Rightarrow> string option \<Rightarrow> 'p \<Rightarrow> 'p \<Rightarrow> 'p" where
  "buildSmsProvider selector apiKey ugsms stub =
     (if selector \<noteq> ''ugsms'' then stub else if \<not> truthy_str apiKey then stub else ugsms)"

definition buildPaymentProvider :: "string \<Rightarrow> string option \<Rightarrow> string option \<Rightarrow> 'p \<Rightarrow> 'p \<Rightarrow> 'p" where
  "buildPaymentProvider selector clientId clientSecret muda stub =
     (if selector \<noteq> ''muda'' then stub else if \<not> truthy_str clientId \<or> \<not> truthy_str clientSecret then stub else muda)"

definition buildStorageProvider :: "string \<Rightarrow> 'p \<Rightarrow> 'p \<Rightarrow> 'p \<Rightarrow> 'p" where
  "buildStorageProvider selector gcs local_disk stub =
     (if selector = ''gcs'' then gcs else if selector = ''local'' then local_disk else stub)"

definition buildSearchProvider :: "string \<Rightarrow> string option \<Rightarrow> 'p \<Rightarrow> 'p \<Rightarrow> 'p" where
  "buildSearchProvider selector apiKey tavily stub =
     (if selector \<noteq> ''tavily'' then stub else if \<not> truthy_str apiKey then stub else tavily)"

text \<open>The adapters are given the credentials they are built from.\<close>

definition buildEmailProvider ::
  "string \<Rightarrow> string option \<Rightarrow> string option \<Rightarrow> string option \<Rightarrow> string option \<Rightarrow> (string \<Rightarrow> string \<Rightarrow> 'p) \<Rightarrow>
   (string \<Rightarrow> string \<Rightarrow> string \<Rightarrow> 'p) \<Rightarrow> 'p \<Rightarrow> 'p" where
  "buildEmailProvider selector apiKey fromAddress accountSid authToken sendgrid twilio stub =
     (if selector = ''sendgrid'' then
        (if \<not> truthy_str apiKey \<or> \<not> truthy_str fromAddress then stub else sendgrid (the apiKey) (the fromAddress))
      else if selector = ''twilio'' then
        (if \<not> truthy_str accountSid \<or> \<not> truthy_str authToken then stub
         else twilio (the accountSid) (the authToken)
           (if truthy_str fromAddress then the fromAddress else the accountSid @ ''@linktrust.app''))
      else stub)"

section \<open>A mail's text is not markup\<close>

definition escape_char :: "char \<Rightarrow> string" where
  "escape_char c = (if c = CHR ''&'' then ''&amp;'' else if c = CHR ''<'' then ''&lt;''
     else if c = CHR ''>'' then ''&gt;'' else [c])"

lemma replace_char_Nil [simp]: "replace_char c new [] = []"
  and replace_char_Cons [simp]: "replace_char c new (d # s) = (if d = c then new else [d]) @ replace_char c new s"
  and replace_char_append [simp]: "replace_char c new (s @ t) = replace_char c new s @ replace_char c new t"
  by (simp_all add: replace_char_def)

lemma escaped_chars: "escaped s = concat (map escape_char s)"
  by (induction s) (simp_all add: escaped_def escape_char_def)

lemma escaped_plain: "CHR ''<'' \<notin> set (escaped s) \<and> CHR ''>'' \<notin> set (escaped s)"
  by (induction s) (simp_all add: escaped_chars escape_char_def)

end
