(* ===== verification/Ledger_Api.thy ===== *)
theory Ledger_Api
  imports Ledger_System Identity Ledger_Query
begin

text \<open>
  The typed HTTP API of the ledger: \<^verbatim>\<open>apps/api/src/ledger/ledger.controller.ts\<close>,
  \<^verbatim>\<open>events.controller.ts\<close> and \<^verbatim>\<open>apps/api/src/invitation/invitation.controller.ts\<close> with their bodies
  (\<^verbatim>\<open>ledger.dto.ts\<close>, \<^verbatim>\<open>invitation.dto.ts\<close>) and the guard of \<^verbatim>\<open>auth.guard.ts\<close>. A request passes the
  guard, then the validation of its body, then its handler, which resolves the caller's context and
  calls one service. The check of date strings and \<open>Date\<close> are arguments, as the library of tokens is.
\<close>

section \<open>Identity and context\<close>

record api_lib =
  ap_jwt :: "string jwt"
  ap_config :: auth_config
  ap_isDateString :: "string \<Rightarrow> bool"
  ap_date :: "string \<Rightarrow> time"
  ap_toLowerCase :: "string \<Rightarrow> string"
  ap_normalizeNFKD :: "string \<Rightarrow> string"
  ap_float :: "rat \<Rightarrow> rat"

text \<open>The header \<open>Authorization\<close>, when present.\<close>

definition canActivate :: "api_lib \<Rightarrow> env \<Rightarrow> string option \<Rightarrow> error + actor" where
  "canActivate lib env header =
     (case header of
        None \<Rightarrow> Inl (Unauthorized ''Missing bearer token'')
      | Some h \<Rightarrow>
         (if take 7 h \<noteq> ''Bearer '' then Inl (Unauthorized ''Missing bearer token'')
          else case verifyAccessToken (ap_jwt lib) (ap_config lib) env (drop 7 h) of
             None \<Rightarrow> Inl (Unauthorized ''Invalid or expired token'')
           | Some actor \<Rightarrow> Inr actor))"

definition api_ctx :: "actor \<Rightarrow> uuid \<Rightarrow> operation_context svc" where
  "api_ctx actor eid =
     and_then (requireContext actor eid) (\<lambda>ev. svc_ret \<lparr>ctx_actor = actor, ctx_event = ev\<rparr>)"

text \<open>\<open>parseMoney\<close> in a handler throws an error that is not an HTTP exception.\<close>

definition money_of :: "string \<Rightarrow> money svc" where
  "money_of s = (case parseMoney (JsString s) of Inl msg \<Rightarrow> svc_throw (Thrown msg) | Inr n \<Rightarrow> svc_ret n)"

section \<open>Bodies\<close>

text \<open>A field of a body that the handler compares with \<open>undefined\<close>; validation lets \<open>null\<close> pass for an
  optional one.\<close>

datatype 'a field = Absent | Null | Given 'a

fun field_ok :: "('a \<Rightarrow> bool) \<Rightarrow> 'a field \<Rightarrow> bool" where
  "field_ok P (Given x) = P x"
| "field_ok P _ = True"

definition opt_ok :: "('a \<Rightarrow> bool) \<Rightarrow> 'a option \<Rightarrow> bool" where
  "opt_ok P v = (case v of None \<Rightarrow> True | Some x \<Rightarrow> P x)"

definition money_text :: "string \<Rightarrow> bool" where
  "money_text s = (s \<noteq> [] \<and> list_all is_digit s)"

definition len_in :: "nat \<Rightarrow> nat \<Rightarrow> string \<Rightarrow> bool" where
  "len_in lo hi s = (lo \<le> length s \<and> length s \<le> hi)"

definition e164 :: "string \<Rightarrow> bool" where
  "e164 s = (case s of [] \<Rightarrow> False | c # d \<Rightarrow> c = CHR ''+'' \<and> len_in 7 15 d \<and> list_all is_digit d)"

record create_event_dto =
  ced_name :: string
  ced_currency :: "string option"
  ced_targetAmount :: "string field"
  ced_eventDate :: "string field"
  ced_timezone :: "string option"
  ced_country :: "string option"

record update_event_dto =
  ued_name :: "string option"
  ued_targetAmount :: "string field"
  ued_eventDate :: "string field"

record create_person_dto =
  cpd_displayName :: string
  cpd_phone :: "string option"
  cpd_confirmSharedPhone :: "bool option"

record create_pledge_dto =
  cld_personId :: uuid
  cld_committedValue :: string
  cld_type :: "pledge_type option"
  cld_targetBudgetItemId :: "uuid option"

record add_item_dto =
  aid_name :: string
  aid_targetValue :: string

record update_item_dto =
  uid_name :: "string option"
  uid_targetValue :: "string field"
  uid_isPublic :: "bool option"
  uid_expectedVersion :: "int option"

record allocate_dto =
  ald_fulfillmentId :: uuid
  ald_budgetItemId :: uuid
  ald_value :: string

record record_fulfillment_dto =
  rfd_pledgeId :: uuid
  rfd_value :: string
  rfd_kind :: "fulfillment_kind option"
  rfd_method :: "payment_method option"
  rfd_note :: "string option"
  rfd_idempotencyKey :: "string option"
  rfd_confirmDuplicate :: "bool option"

record direct_contribution_dto =
  dcd_personId :: uuid
  dcd_value :: string
  dcd_method :: "payment_method option"
  dcd_type :: "pledge_type option"
  dcd_note :: "string option"
  dcd_description :: "string option"
  dcd_targetBudgetItemId :: "uuid option"
  dcd_idempotencyKey :: "string option"

definition create_event_ok :: "api_lib \<Rightarrow> create_event_dto \<Rightarrow> bool" where
  "create_event_ok lib d = (len_in 1 200 (ced_name d) \<and> opt_ok (len_in 3 3) (ced_currency d)
     \<and> field_ok money_text (ced_targetAmount d) \<and> field_ok (ap_isDateString lib) (ced_eventDate d)
     \<and> opt_ok (len_in 2 2) (ced_country d))"

definition update_event_ok :: "api_lib \<Rightarrow> update_event_dto \<Rightarrow> bool" where
  "update_event_ok lib d = (opt_ok (len_in 1 200) (ued_name d) \<and> field_ok money_text (ued_targetAmount d)
     \<and> field_ok (ap_isDateString lib) (ued_eventDate d))"

definition create_person_ok :: "create_person_dto \<Rightarrow> bool" where
  "create_person_ok d = (len_in 1 200 (cpd_displayName d) \<and> opt_ok e164 (cpd_phone d))"

definition create_pledge_ok :: "create_pledge_dto \<Rightarrow> bool" where
  "create_pledge_ok d = money_text (cld_committedValue d)"

definition add_item_ok :: "add_item_dto \<Rightarrow> bool" where
  "add_item_ok d = (len_in 1 200 (aid_name d) \<and> money_text (aid_targetValue d))"

definition update_item_ok :: "update_item_dto \<Rightarrow> bool" where
  "update_item_ok d = (opt_ok (len_in 1 200) (uid_name d) \<and> field_ok money_text (uid_targetValue d)
     \<and> opt_ok (\<lambda>n. 1 \<le> n) (uid_expectedVersion d))"

definition allocate_ok :: "allocate_dto \<Rightarrow> bool" where
  "allocate_ok d = money_text (ald_value d)"

definition record_fulfillment_ok :: "record_fulfillment_dto \<Rightarrow> bool" where
  "record_fulfillment_ok d = (money_text (rfd_value d) \<and> opt_ok (len_in 1 1000) (rfd_note d)
     \<and> opt_ok (len_in 8 200) (rfd_idempotencyKey d))"

definition direct_contribution_ok :: "direct_contribution_dto \<Rightarrow> bool" where
  "direct_contribution_ok d = (money_text (dcd_value d) \<and> opt_ok (len_in 1 1000) (dcd_note d)
     \<and> opt_ok (len_in 1 500) (dcd_description d) \<and> opt_ok (len_in 8 200) (dcd_idempotencyKey d))"

definition create_invitation_ok :: "create_invitation_input \<Rightarrow> bool" where
  "create_invitation_ok d = (opt_ok e164 (cin_invitedPhone d) \<and> opt_ok (\<lambda>n. 1 \<le> n \<and> n \<le> 500) (cin_maxUses d)
     \<and> opt_ok (\<lambda>n. 60 \<le> n) (cin_ttlSeconds d))"

section \<open>Handlers of the ledger\<close>

text \<open>\<open>x === undefined ? undefined : parseMoney(x)\<close>: on \<open>null\<close> it throws.\<close>

fun money_field :: "string field \<Rightarrow> money option svc" where
  "money_field Absent = svc_ret None"
| "money_field Null =
     (case parseMoney JsOther of Inl msg \<Rightarrow> svc_throw (Thrown msg) | Inr n \<Rightarrow> svc_ret (Some n))"
| "money_field (Given s) = and_then (money_of s) (\<lambda>n. svc_ret (Some n))"

text \<open>\<open>x === undefined ? undefined : new Date(x)\<close>: \<open>null\<close> is converted to the beginning of 1970.\<close>

fun date_field :: "api_lib \<Rightarrow> string field \<Rightarrow> time option" where
  "date_field lib Absent = None"
| "date_field lib Null = Some 0"
| "date_field lib (Given s) = Some (ap_date lib s)"

definition addPerson :: "env \<Rightarrow> actor \<Rightarrow> uuid \<Rightarrow> create_person_dto \<Rightarrow> person_view svc" where
  "addPerson env actor eid d =
     and_then (api_ctx actor eid) (\<lambda>ctx. createPerson env ctx \<lparr>cp_displayName = cpd_displayName d,
       cp_phone = cpd_phone d, cp_confirmSharedPhone = cpd_confirmSharedPhone d, cp_source = None\<rparr>)"

definition linkPerson :: "env \<Rightarrow> actor \<Rightarrow> uuid \<Rightarrow> uuid \<Rightarrow> uuid \<Rightarrow> person_view svc" where
  "linkPerson env actor eid personId user =
     and_then (api_ctx actor eid) (\<lambda>ctx. linkPersonToUser env ctx personId user)"

definition api_createPledge :: "env \<Rightarrow> actor \<Rightarrow> uuid \<Rightarrow> create_pledge_dto \<Rightarrow> pledge_view svc" where
  "api_createPledge env actor eid d =
     and_then (api_ctx actor eid) (\<lambda>ctx. and_then (money_of (cld_committedValue d)) (\<lambda>n.
       createPledge env ctx \<lparr>cpl_personId = cld_personId d, cpl_committedValue = n, cpl_type = cld_type d,
         cpl_targetBudgetItemId = cld_targetBudgetItemId d, cpl_description = None, cpl_quantity = None,
         cpl_unit = None, cpl_estimatedValue = None, cpl_source = None\<rparr>))"

definition api_correctPledge :: "env \<Rightarrow> actor \<Rightarrow> uuid \<Rightarrow> uuid \<Rightarrow> string \<Rightarrow> pledge_view svc" where
  "api_correctPledge env actor eid pledgeId committedValue =
     and_then (api_ctx actor eid) (\<lambda>ctx. and_then (money_of committedValue) (correctCommittedValue env ctx pledgeId))"

definition api_cancelPledge :: "env \<Rightarrow> actor \<Rightarrow> uuid \<Rightarrow> uuid \<Rightarrow> pledge_view svc" where
  "api_cancelPledge env actor eid pledgeId =
     and_then (api_ctx actor eid) (\<lambda>ctx. cancelPledge env ctx pledgeId)"

definition api_recordFulfillment :: "env \<Rightarrow> actor \<Rightarrow> uuid \<Rightarrow> record_fulfillment_dto \<Rightarrow> fulfillment_view svc" where
  "api_recordFulfillment env actor eid d =
     and_then (api_ctx actor eid) (\<lambda>ctx. and_then (money_of (rfd_value d)) (\<lambda>n.
       recordFulfillment env ctx \<lparr>rf_pledgeId = rfd_pledgeId d, rf_value = n, rf_kind = rfd_kind d,
         rf_method = rfd_method d, rf_currency = None, rf_note = rfd_note d, rf_occurredAt = None,
         rf_idempotencyKey = rfd_idempotencyKey d, rf_confirmDuplicate = rfd_confirmDuplicate d, rf_source = None\<rparr>))"

definition correctFulfillment :: "env \<Rightarrow> actor \<Rightarrow> uuid \<Rightarrow> uuid \<Rightarrow> string \<Rightarrow> fulfillment_view svc" where
  "correctFulfillment env actor eid fulfillmentId value =
     and_then (api_ctx actor eid) (\<lambda>ctx. and_then (money_of value) (correctValue env ctx fulfillmentId))"

definition api_recordDirect :: "env \<Rightarrow> actor \<Rightarrow> uuid \<Rightarrow> direct_contribution_dto \<Rightarrow> fulfillment_view svc" where
  "api_recordDirect env actor eid d =
     and_then (api_ctx actor eid) (\<lambda>ctx. and_then (money_of (dcd_value d)) (\<lambda>n.
       recordDirectContribution env ctx \<lparr>dc_personId = Some (dcd_personId d), dc_displayName = None, dc_phone = None,
         dc_value = n, dc_kind = None, dc_method = dcd_method d, dc_note = dcd_note d, dc_type = dcd_type d,
         dc_description = dcd_description d, dc_targetBudgetItemId = dcd_targetBudgetItemId d,
         dc_idempotencyKey = dcd_idempotencyKey d, dc_source = None\<rparr>))"

definition addBudgetItem :: "env \<Rightarrow> actor \<Rightarrow> uuid \<Rightarrow> add_item_dto \<Rightarrow> budget_item_view svc" where
  "addBudgetItem env actor eid d =
     and_then (api_ctx actor eid) (\<lambda>ctx. and_then (money_of (aid_targetValue d)) (\<lambda>n.
       addItem env ctx \<lparr>bin_name = aid_name d, bin_targetValue = n, bin_source = None, bin_confidence = None,
         bin_sourceDocumentId = None\<rparr>))"

definition api_updateBudgetItem :: "env \<Rightarrow> actor \<Rightarrow> uuid \<Rightarrow> uuid \<Rightarrow> update_item_dto \<Rightarrow> budget_item_view svc" where
  "api_updateBudgetItem env actor eid itemId d =
     and_then (api_ctx actor eid) (\<lambda>ctx. and_then (money_field (uid_targetValue d)) (\<lambda>n.
       updateItem env ctx itemId \<lparr>bup_name = uid_name d, bup_targetValue = n, bup_isPublic = uid_isPublic d,
         bup_expectedVersion = uid_expectedVersion d\<rparr>))"

definition api_allocate :: "env \<Rightarrow> actor \<Rightarrow> uuid \<Rightarrow> allocate_dto \<Rightarrow> allocation_view svc" where
  "api_allocate env actor eid d =
     and_then (api_ctx actor eid) (\<lambda>ctx. and_then (money_of (ald_value d))
       (allocate env ctx (ald_fulfillmentId d) (ald_budgetItemId d)))"

section \<open>Handlers of events and invitations\<close>

definition api_createEvent :: "api_lib \<Rightarrow> string \<Rightarrow> env \<Rightarrow> actor \<Rightarrow> create_event_dto \<Rightarrow> event_summary svc" where
  "api_createEvent lib suffix env actor d =
     and_then (money_field (ced_targetAmount d)) (\<lambda>n.
       createEvent (ap_toLowerCase lib) (ap_normalizeNFKD lib) suffix env actor \<lparr>ce_name = ced_name d,
         ce_currency = ced_currency d, ce_targetAmount = n, ce_eventDate = date_field lib (ced_eventDate d),
         ce_timezone = ced_timezone d, ce_country = ced_country d\<rparr>)"

definition api_updateEvent :: "api_lib \<Rightarrow> env \<Rightarrow> actor \<Rightarrow> uuid \<Rightarrow> update_event_dto \<Rightarrow> event_summary svc" where
  "api_updateEvent lib env actor eid d =
     and_then (api_ctx actor eid) (\<lambda>ctx. and_then (money_field (ued_targetAmount d)) (\<lambda>n.
       updateEvent env ctx \<lparr>ue_name = ued_name d, ue_targetAmount = n,
         ue_eventDate = date_field lib (ued_eventDate d)\<rparr>))"

definition api_setStatus :: "env \<Rightarrow> actor \<Rightarrow> uuid \<Rightarrow> event_status \<Rightarrow> event_summary svc" where
  "api_setStatus env actor eid status = and_then (api_ctx actor eid) (\<lambda>ctx. setStatus env ctx status)"

definition api_addMember :: "env \<Rightarrow> actor \<Rightarrow> uuid \<Rightarrow> uuid \<Rightarrow> event_role \<Rightarrow> (uuid \<times> event_role) svc" where
  "api_addMember env actor eid user role = and_then (api_ctx actor eid) (\<lambda>ctx. addMember env ctx user role)"

definition api_updateMemberRole :: "env \<Rightarrow> actor \<Rightarrow> uuid \<Rightarrow> uuid \<Rightarrow> event_role \<Rightarrow> (uuid \<times> event_role) svc" where
  "api_updateMemberRole env actor eid user role = and_then (api_ctx actor eid) (\<lambda>ctx. updateRole env ctx user role)"

definition accept :: "env \<Rightarrow> actor \<Rightarrow> string \<Rightarrow> (uuid \<times> event_role \<times> bool) svc" where
  "accept env actor token = acceptInvitation env actor token"

definition api_createInvitation ::
  "string \<Rightarrow> env \<Rightarrow> actor \<Rightarrow> uuid \<Rightarrow> create_invitation_input \<Rightarrow> invitation_view svc" where
  "api_createInvitation token env actor eid d =
     and_then (api_ctx actor eid) (\<lambda>ctx. createInvitation token env ctx d)"

definition revoke :: "actor \<Rightarrow> uuid \<Rightarrow> uuid \<Rightarrow> unit svc" where
  "revoke actor eid i = and_then (api_ctx actor eid) (\<lambda>ctx. revokeInvitation ctx i)"

section \<open>Requests\<close>

datatype api_request =
    Add_person uuid create_person_dto
  | Link_to_user uuid uuid uuid
  | Post_pledge uuid create_pledge_dto
  | Correct_pledge uuid uuid string
  | Cancel uuid uuid
  | Post_fulfillment uuid record_fulfillment_dto
  | Correct_fulfillment uuid uuid string
  | Record_contribution uuid direct_contribution_dto
  | Add_budget_item uuid add_item_dto
  | Update_budget_item uuid uuid update_item_dto
  | Allocate_to uuid allocate_dto
  | New_event create_event_dto
  | Change_event uuid update_event_dto
  | Change_status uuid event_status
  | New_member uuid uuid event_role
  | Change_role uuid uuid event_role
  | New_invitation uuid create_invitation_input
  | Take_invitation string
  | Withdraw_invitation uuid uuid
  | List_people uuid
  | List_pledges uuid "uuid option"
  | Get_outstanding uuid uuid
  | List_budget uuid
  | Get_funders uuid uuid
  | Get_totals uuid
  | Get_report uuid
  | Get_funding uuid
  | Get_audit uuid string string
  | List_my_events
  | Get_event uuid
  | List_invitations uuid
  | List_members uuid

text \<open>What the validation of the body requires.\<close>

fun body_ok :: "api_lib \<Rightarrow> api_request \<Rightarrow> bool" where
  "body_ok lib (Add_person e d) = create_person_ok d"
| "body_ok lib (Post_pledge e d) = create_pledge_ok d"
| "body_ok lib (Correct_pledge e i v) = money_text v"
| "body_ok lib (Post_fulfillment e d) = record_fulfillment_ok d"
| "body_ok lib (Correct_fulfillment e i v) = money_text v"
| "body_ok lib (Record_contribution e d) = direct_contribution_ok d"
| "body_ok lib (Add_budget_item e d) = add_item_ok d"
| "body_ok lib (Update_budget_item e i d) = update_item_ok d"
| "body_ok lib (Allocate_to e d) = allocate_ok d"
| "body_ok lib (New_event d) = create_event_ok lib d"
| "body_ok lib (Change_event e d) = update_event_ok lib d"
| "body_ok lib (New_invitation e d) = create_invitation_ok d"
| "body_ok lib _ = True"

text \<open>The handler of a request; \<open>suffix\<close> and \<open>fresh\<close> are the random parts of a slug and of a token.\<close>

fun handle :: "api_lib \<Rightarrow> string \<Rightarrow> string \<Rightarrow> env \<Rightarrow> actor \<Rightarrow> api_request \<Rightarrow> store \<Rightarrow> store \<times> error option" where
  "handle lib suffix fresh env a (Add_person e d) st = outcome (addPerson env a e d st)"
| "handle lib suffix fresh env a (Link_to_user e i u) st = outcome (linkPerson env a e i u st)"
| "handle lib suffix fresh env a (Post_pledge e d) st = outcome (api_createPledge env a e d st)"
| "handle lib suffix fresh env a (Correct_pledge e i v) st = outcome (api_correctPledge env a e i v st)"
| "handle lib suffix fresh env a (Cancel e i) st = outcome (api_cancelPledge env a e i st)"
| "handle lib suffix fresh env a (Post_fulfillment e d) st = outcome (api_recordFulfillment env a e d st)"
| "handle lib suffix fresh env a (Correct_fulfillment e i v) st = outcome (correctFulfillment env a e i v st)"
| "handle lib suffix fresh env a (Record_contribution e d) st = outcome (api_recordDirect env a e d st)"
| "handle lib suffix fresh env a (Add_budget_item e d) st = outcome (addBudgetItem env a e d st)"
| "handle lib suffix fresh env a (Update_budget_item e i d) st = outcome (api_updateBudgetItem env a e i d st)"
| "handle lib suffix fresh env a (Allocate_to e d) st = outcome (api_allocate env a e d st)"
| "handle lib suffix fresh env a (New_event d) st = outcome (api_createEvent lib suffix env a d st)"
| "handle lib suffix fresh env a (Change_event e d) st = outcome (api_updateEvent lib env a e d st)"
| "handle lib suffix fresh env a (Change_status e s) st = outcome (api_setStatus env a e s st)"
| "handle lib suffix fresh env a (New_member e u r) st = outcome (api_addMember env a e u r st)"
| "handle lib suffix fresh env a (Change_role e u r) st = outcome (api_updateMemberRole env a e u r st)"
| "handle lib suffix fresh env a (New_invitation e d) st = outcome (api_createInvitation fresh env a e d st)"
| "handle lib suffix fresh env a (Take_invitation t) st = outcome (accept env a t st)"
| "handle lib suffix fresh env a (Withdraw_invitation e i) st = outcome (revoke a e i st)"
| "handle lib suffix fresh env a (List_people e) st = outcome (and_then (api_ctx a e) listPeople st)"
| "handle lib suffix fresh env a (List_pledges e p) st = outcome (and_then (api_ctx a e) (\<lambda>ctx. listPledges ctx p) st)"
| "handle lib suffix fresh env a (Get_outstanding e p) st =
     outcome (and_then (api_ctx a e) (\<lambda>ctx. getPledgeOutstanding ctx p) st)"
| "handle lib suffix fresh env a (List_budget e) st = outcome (and_then (api_ctx a e) listItems st)"
| "handle lib suffix fresh env a (Get_funders e i) st =
     outcome (and_then (api_ctx a e) (\<lambda>ctx. getBudgetItemFundersById ctx i) st)"
| "handle lib suffix fresh env a (Get_totals e) st = outcome (and_then (api_ctx a e) getEventTotals st)"
| "handle lib suffix fresh env a (Get_report e) st =
     outcome (and_then (api_ctx a e) (\<lambda>ctx. getEventReport (ap_float lib) ctx 5) st)"
| "handle lib suffix fresh env a (Get_funding e) st =
     outcome (and_then (api_ctx a e) (getFundingSummary (ap_float lib)) st)"
| "handle lib suffix fresh env a (Get_audit e t i) st =
     outcome (and_then (api_ctx a e) (\<lambda>ctx. getAuditTrail ctx t i) st)"
| "handle lib suffix fresh env a List_my_events st = outcome (listMyEvents a st)"
| "handle lib suffix fresh env a (Get_event e) st = outcome (and_then (api_ctx a e) getEvent st)"
| "handle lib suffix fresh env a (List_invitations e) st = outcome (and_then (api_ctx a e) listInvitations st)"
| "handle lib suffix fresh env a (List_members e) st = outcome (and_then (api_ctx a e) listMembers st)"

text \<open>A request and what comes with it.\<close>

record arrival =
  ar_env :: env
  ar_header :: "string option"
  ar_suffix :: string
  ar_fresh :: string
  ar_request :: api_request

definition serve :: "api_lib \<Rightarrow> arrival \<Rightarrow> store \<Rightarrow> store \<times> error option" where
  "serve lib ar st =
     (case canActivate lib (ar_env ar) (ar_header ar) of
        Inl e \<Rightarrow> (st, Some e)
      | Inr actor \<Rightarrow>
         (if \<not> body_ok lib (ar_request ar) then (st, Some (BadRequest ''Bad Request Exception''))
          else handle lib (ar_suffix ar) (ar_fresh ar) (ar_env ar) actor (ar_request ar) st))"

definition serve_all :: "api_lib \<Rightarrow> arrival list \<Rightarrow> store \<Rightarrow> store" where
  "serve_all lib ars st = foldl (\<lambda>s ar. fst (serve lib ar s)) st ars"

end
