(* ===== verification/Api_Guarantees.thy ===== *)
theory Api_Guarantees
  imports Ledger_Api System_Guarantees Sessions
begin

text \<open>
  What the typed HTTP API guarantees: a request is at most one command of \<open>Ledger_System\<close>, so that the
  invariants of the commands hold under any traffic, and a stranger changes nothing.
\<close>

section \<open>A request is at most one command\<close>

definition one_command :: "'a svc \<Rightarrow> bool" where
  "one_command m = (\<forall>st. fst (m st) = st
     \<or> (\<exists>env ctx cmd. command_ok cmd \<and> fst (exec env ctx cmd st) = fst (m st)))"

definition reading :: "'a svc \<Rightarrow> bool" where
  "reading m = (\<forall>st. fst (m st) = st)"

lemma one_commandI: "command_ok cmd \<Longrightarrow> (\<And>st. fst (exec env ctx cmd st) = fst (m st)) \<Longrightarrow> one_command m"
  unfolding one_command_def by blast

lemma reading_one: "reading m \<Longrightarrow> one_command m"
  by (simp add: reading_def one_command_def)

lemma after_reading:
  assumes "reading m" "\<And>x st. m st = (st, Inr x) \<Longrightarrow> one_command (k x)"
  shows "one_command (and_then m k)"
  unfolding one_command_def
proof
  fix st
  obtain r where r: "m st = (st, r)" using assms(1) by (metis reading_def prod.collapse)
  then show "fst (and_then m k st) = st \<or> (\<exists>env ctx cmd. command_ok cmd \<and> fst (exec env ctx cmd st) = fst (and_then m k st))"
    using assms(2) [of st] by (cases r) (auto simp: and_then_def one_command_def)
qed

lemma reading_then: "reading m \<Longrightarrow> (\<And>x. reading (k x)) \<Longrightarrow> reading (and_then m k)"
  unfolding reading_def and_then_def by (auto split: prod.splits sum.splits) (metis fst_conv)+

lemma reading_basic [simp]: "reading (svc_ret x)" "reading (svc_throw e)" "reading (svc_read f)"
  by (simp_all add: reading_def)

lemma reading_query [simp]: "reading (transaction s (query f))"
  by (auto simp: reading_def transaction_def query_def)

lemma reading_money [simp]: "reading (money_of s)" "reading (money_field f)"
proof -
  show money: "reading (money_of s)" for s by (simp add: money_of_def split: sum.split)
  show "reading (money_field f)" by (cases f) (auto intro!: reading_then money)
qed

lemma reading_permitted: "reading m \<Longrightarrow> reading (permitted ctx a m)"
  by (auto simp: reading_def permitted_def split: sum.split)

lemma reading_resolve: "reading (resolveContext actor e)"
  unfolding resolveContext_def runInEvent_def by (rule reading_then) (auto split: option.split)

lemma reading_ctx: "reading (api_ctx actor e)"
  unfolding api_ctx_def requireContext_def
  by (intro reading_then reading_resolve) (auto split: option.split)

lemmas reads = reading_then reading_permitted reading_ctx

lemma reading_await:
  assumes "\<And>x. reading (transaction s (k x))"
  shows "reading (transaction s (await (query f) k))"
  using assms by (auto simp: reading_def transaction_def await_def query_def split: sum.splits)

lemma reading_outstanding: "reading (getPledgeOutstanding ctx p)"
  unfolding getPledgeOutstanding_def runInEvent_def
  by (intro reading_permitted reading_await) (auto simp: reading_def transaction_def await_def query_def split: option.splits sum.splits)

lemma reading_getEvent: "reading (getEvent ctx)"
  unfolding getEvent_def by (intro reading_permitted) (simp add: reading_def split: option.split)

lemma reading_queries:
  "reading (listPeople ctx)" "reading (listPledges ctx pid)" "reading (listItems ctx)"
  "reading (getBudgetItemFundersById ctx i)" "reading (getEventTotals ctx)" "reading (getEventReport fl ctx n)"
  "reading (getFundingSummary fl ctx)" "reading (getAuditTrail ctx t i)" "reading (listMyEvents actor)"
  "reading (listInvitations ctx)" "reading (listMembers ctx)"
  unfolding listPeople_def listPledges_def listItems_def getBudgetItemFundersById_def getEventTotals_def
    getEventReport_def getFundingSummary_def getAuditTrail_def listMyEvents_def listInvitations_def listMembers_def
    runInEvent_def runAsUser_def
  by (intro reads reading_query reading_basic; simp)+

lemma money_nonneg: "money_of s st = (st', Inr n) \<Longrightarrow> 0 \<le> n"
  by (auto simp: money_of_def dest: parseMoney_nonneg split: sum.splits simp del: parseMoney.simps)

lemma services_one:
  "one_command (createPerson env ctx i)" "one_command (linkPersonToUser env ctx p u)"
  "0 \<le> cpl_committedValue cl \<Longrightarrow> one_command (createPledge env ctx cl)"
  "0 \<le> n \<Longrightarrow> one_command (correctCommittedValue env ctx p n)" "one_command (cancelPledge env ctx p)"
  "0 \<le> rf_value rf \<Longrightarrow> one_command (recordFulfillment env ctx rf)"
  "0 \<le> n \<Longrightarrow> one_command (correctValue env ctx p n)"
  "0 \<le> dc_value dc \<Longrightarrow> one_command (recordDirectContribution env ctx dc)"
  "one_command (addItem env ctx bi)" "one_command (updateItem env ctx p bu)"
  "0 \<le> n \<Longrightarrow> one_command (allocate env ctx p u n)"
  "one_command (createEvent lo nf sfx env actor ce)" "one_command (updateEvent env ctx ue)"
  "one_command (setStatus env ctx s)" "one_command (addMember env ctx u r)" "one_command (updateRole env ctx u r)"
  "one_command (acceptInvitation env actor t)" "one_command (createInvitation t env ctx ci)"
  "one_command (revokeInvitation ctx p)"
proof -
  show "one_command (createPerson env ctx i)"
    by (rule one_commandI [where env = env and ctx = ctx and cmd = "Create_person i"]) (simp_all add: outcome_def)
  show "one_command (linkPersonToUser env ctx p u)"
    by (rule one_commandI [where env = env and ctx = ctx and cmd = "Link_person p u"]) (simp_all add: outcome_def)
  show "0 \<le> cpl_committedValue cl \<Longrightarrow> one_command (createPledge env ctx cl)"
    by (rule one_commandI [where env = env and ctx = ctx and cmd = "Create_pledge_for cl"]) (simp_all add: outcome_def)
  show "0 \<le> n \<Longrightarrow> one_command (correctCommittedValue env ctx p n)"
    by (rule one_commandI [where env = env and ctx = ctx and cmd = "Correct_committed p n"]) (simp_all add: outcome_def)
  show "one_command (cancelPledge env ctx p)"
    by (rule one_commandI [where env = env and ctx = ctx and cmd = "Cancel_pledge p"]) (simp_all add: outcome_def)
  show "0 \<le> rf_value rf \<Longrightarrow> one_command (recordFulfillment env ctx rf)"
    by (rule one_commandI [where env = env and ctx = ctx and cmd = "Record_payment rf"]) (simp_all add: outcome_def)
  show "0 \<le> n \<Longrightarrow> one_command (correctValue env ctx p n)"
    by (rule one_commandI [where env = env and ctx = ctx and cmd = "Correct_payment p n"]) (simp_all add: outcome_def)
  show "0 \<le> dc_value dc \<Longrightarrow> one_command (recordDirectContribution env ctx dc)"
    by (rule one_commandI [where env = env and ctx = ctx and cmd = "Record_direct dc"]) (simp_all add: outcome_def)
  show "one_command (addItem env ctx bi)"
    by (rule one_commandI [where env = env and ctx = ctx and cmd = "Add_item bi"]) (simp_all add: outcome_def)
  show "one_command (updateItem env ctx p bu)"
    by (rule one_commandI [where env = env and ctx = ctx and cmd = "Update_item p bu"]) (simp_all add: outcome_def)
  show "0 \<le> n \<Longrightarrow> one_command (allocate env ctx p u n)"
    by (rule one_commandI [where env = env and ctx = ctx and cmd = "Allocate p u n"]) (simp_all add: outcome_def)
  show "one_command (createEvent lo nf sfx env actor ce)"
    by (rule one_commandI [where env = env and ctx = "\<lparr>ctx_actor = actor, ctx_event = ctx_event ctx\<rparr>" and
          cmd = "Create_event lo nf sfx ce"]) (simp_all add: outcome_def)
  show "one_command (updateEvent env ctx ue)"
    by (rule one_commandI [where env = env and ctx = ctx and cmd = "Update_event ue"]) (simp_all add: outcome_def)
  show "one_command (setStatus env ctx s)"
    by (rule one_commandI [where env = env and ctx = ctx and cmd = "Set_status s"]) (simp_all add: outcome_def)
  show member: "one_command (addMember env ctx u r)"
    by (rule one_commandI [where env = env and ctx = ctx and cmd = "Add_member_as u r"]) (simp_all add: outcome_def)
  show "one_command (updateRole env ctx u r)" unfolding updateRole_def by (rule member)
  show "one_command (acceptInvitation env actor t)"
    by (rule one_commandI [where env = env and ctx = "\<lparr>ctx_actor = actor, ctx_event = ctx_event ctx\<rparr>" and
          cmd = "Accept_invitation t"]) (simp_all add: outcome_def)
  show "one_command (createInvitation t env ctx ci)"
    by (rule one_commandI [where env = env and ctx = ctx and cmd = "Create_invitation t ci"]) (simp_all add: outcome_def)
  show "one_command (revokeInvitation ctx p)"
    by (rule one_commandI [where env = env and ctx = ctx and cmd = "Revoke_invitation p"]) (simp_all add: outcome_def)
qed

lemma after_ctx: "(\<And>ctx. one_command (k ctx)) \<Longrightarrow> one_command (and_then (api_ctx actor e) k)"
  by (rule after_reading [OF reading_ctx])

lemma after_money: "(\<And>n. 0 \<le> n \<Longrightarrow> one_command (k n)) \<Longrightarrow> one_command (and_then (money_of s) k)"
  by (rule after_reading [OF reading_money(1)]) (blast dest: money_nonneg)

lemma after_money_field: "(\<And>n. one_command (k n)) \<Longrightarrow> one_command (and_then (money_field f) k)"
  by (rule after_reading [OF reading_money(2)])

lemmas handler_defs = addPerson_def linkPerson_def api_createPledge_def api_correctPledge_def api_cancelPledge_def
  api_recordFulfillment_def correctFulfillment_def api_recordDirect_def addBudgetItem_def api_updateBudgetItem_def
  api_allocate_def api_createEvent_def api_updateEvent_def api_setStatus_def api_addMember_def api_updateMemberRole_def
  accept_def api_createInvitation_def revoke_def

lemma handlers_one:
  "one_command (addPerson env a e cpd)" "one_command (linkPerson env a e i u)" "one_command (api_createPledge env a e cld)"
  "one_command (api_correctPledge env a e i v)" "one_command (api_cancelPledge env a e i)"
  "one_command (api_recordFulfillment env a e rfd)" "one_command (correctFulfillment env a e i v)"
  "one_command (api_recordDirect env a e dcd)" "one_command (addBudgetItem env a e aid)"
  "one_command (api_updateBudgetItem env a e i uid)" "one_command (api_allocate env a e ald)"
  "one_command (api_createEvent lib sfx env a ced)" "one_command (api_updateEvent lib env a e ued)"
  "one_command (api_setStatus env a e s)" "one_command (api_addMember env a e u r)"
  "one_command (api_updateMemberRole env a e u r)" "one_command (accept env a t)"
  "one_command (api_createInvitation t env a e ci)" "one_command (revoke a e i)"
  unfolding handler_defs by (intro after_ctx after_money after_money_field services_one; simp)+

lemma fst_outcome [simp]: "fst (outcome r) = fst r"
  by (simp add: outcome_def)

lemma served_change: "one_command m \<Longrightarrow> fst (outcome (m st)) = st
    \<or> (\<exists>env ctx cmd. command_ok cmd \<and> fst (exec env ctx cmd st) = fst (outcome (m st)))"
  by (simp add: one_command_def)

lemma served_look: "reading m \<Longrightarrow> fst (outcome (m st)) = st
    \<or> (\<exists>env ctx cmd. command_ok cmd \<and> fst (exec env ctx cmd st) = fst (outcome (m st)))"
  by (simp add: reading_def)

lemma handle_one: "fst (handle lib sfx fresh env a rq st) = st
    \<or> (\<exists>env' ctx cmd. command_ok cmd \<and> fst (exec env' ctx cmd st) = fst (handle lib sfx fresh env a rq st))"
  by (cases rq; hypsubst; unfold handle.simps;
      (rule served_change, rule handlers_one | rule served_look,
        (intro reads reading_queries reading_outstanding reading_getEvent)))

lemma serve_one: "fst (serve lib ar st) = st
    \<or> (\<exists>env ctx cmd. command_ok cmd \<and> fst (exec env ctx cmd st) = fst (serve lib ar st))"
  using handle_one by (simp add: serve_def split: sum.split)

lemma serve_reachable:
  assumes "reachable (\<lambda>_. True) st0 st"
  shows "reachable (\<lambda>_. True) st0 (fst (serve lib ar st))"
  using serve_one [of lib ar st]
proof
  assume "\<exists>env ctx cmd. command_ok cmd \<and> fst (exec env ctx cmd st) = fst (serve lib ar st)"
  then obtain env ctx cmd where "command_ok cmd" "fst (exec env ctx cmd st) = fst (serve lib ar st)" by blast
  then show ?thesis using reachable.step [OF assms] by (metis prod.collapse)
qed (simp add: assms)

lemma traffic_reachable: "reachable (\<lambda>_. True) st0 (serve_all lib ars st0)"
proof (induction ars rule: rev_induct)
  case Nil
  then show ?case by (simp add: serve_all_def reachable.start)
next
  case (snoc ar ars)
  then show ?case using serve_reachable by (simp add: serve_all_def)
qed

section \<open>Strangers\<close>

text \<open>The event a request names.\<close>

fun request_event :: "api_request \<Rightarrow> uuid option" where
  "request_event (Add_person e d) = Some e"
| "request_event (Link_to_user e i u) = Some e"
| "request_event (Post_pledge e d) = Some e"
| "request_event (Correct_pledge e i v) = Some e"
| "request_event (Cancel e i) = Some e"
| "request_event (Post_fulfillment e d) = Some e"
| "request_event (Correct_fulfillment e i v) = Some e"
| "request_event (Record_contribution e d) = Some e"
| "request_event (Add_budget_item e d) = Some e"
| "request_event (Update_budget_item e i d) = Some e"
| "request_event (Allocate_to e d) = Some e"
| "request_event (New_event d) = None"
| "request_event (Change_event e d) = Some e"
| "request_event (Change_status e s) = Some e"
| "request_event (New_member e u r) = Some e"
| "request_event (Change_role e u r) = Some e"
| "request_event (New_invitation e d) = Some e"
| "request_event (Take_invitation t) = None"
| "request_event (Withdraw_invitation e i) = Some e"
| "request_event (List_people e) = Some e"
| "request_event (List_pledges e p) = Some e"
| "request_event (Get_outstanding e p) = Some e"
| "request_event (List_budget e) = Some e"
| "request_event (Get_funders e i) = Some e"
| "request_event (Get_totals e) = Some e"
| "request_event (Get_report e) = Some e"
| "request_event (Get_funding e) = Some e"
| "request_event (Get_audit e t i) = Some e"
| "request_event List_my_events = None"
| "request_event (Get_event e) = Some e"
| "request_event (List_invitations e) = Some e"
| "request_event (List_members e) = Some e"

definition active_member :: "uuid \<Rightarrow> uuid \<Rightarrow> store \<Rightarrow> bool" where
  "active_member eid user st = list_ex (\<lambda>m. m_eventId m = eid \<and> m_userId m = user \<and> m_status m = M_ACTIVE) (members st)"

lemma stranger_ctx:
  assumes "\<not> active_member eid (userId actor) st"
  shows "api_ctx actor eid st = (st, Inl (Forbidden ''Not a member of this event''))"
proof -
  have "List.find (\<lambda>m. m_eventId m = eid \<and> m_userId m = userId actor \<and> m_status m = M_ACTIVE)
      (visible_members (in_event eid) st) = None"
    using assms by (auto simp: find_None_all active_member_def list_ex_iff visible_members_def)
  then show ?thesis
    by (simp add: api_ctx_def requireContext_def resolveContext_def runInEvent_def and_then_def transaction_def
        split: option.split)
qed

lemma stranger_then: "api_ctx a e st = (st, Inl err) \<Longrightarrow> and_then (api_ctx a e) k st = (st, Inl err)"
  by (simp add: and_then_def)

lemma stranger_handle:
  assumes "request_event rq = Some e" "api_ctx a e st = (st, Inl err)"
  shows "handle lib sfx fresh env a rq st = (st, Some err)"
  using assms by (cases rq) (simp_all add: handler_defs stranger_then outcome_def)

text \<open>C31. A stranger changes nothing: a request without a valid access token, or in the name of someone
  who is not an active member of the event it names, is refused with an authentication error, a
  validation error or \<open>Not a member of this event\<close>, and every table stays as it was.\<close>

theorem strangers_change_nothing:
  assumes "case canActivate lib (ar_env ar) (ar_header ar) of Inl e \<Rightarrow> True
     | Inr actor \<Rightarrow> (case request_event (ar_request ar) of None \<Rightarrow> False | Some e \<Rightarrow> \<not> active_member e (userId actor) st)"
  shows "\<exists>err. serve lib ar st = (st, Some err)
    \<and> err \<in> {Unauthorized ''Missing bearer token'', Unauthorized ''Invalid or expired token'',
         BadRequest ''Bad Request Exception'', Forbidden ''Not a member of this event''}"
proof (cases "canActivate lib (ar_env ar) (ar_header ar)")
  case (Inl e)
  then have "e \<in> {Unauthorized ''Missing bearer token'', Unauthorized ''Invalid or expired token''}"
    by (auto simp: canActivate_def split: option.splits if_splits)
  then show ?thesis using Inl by (auto simp: serve_def)
next
  case (Inr actor)
  then obtain e where "request_event (ar_request ar) = Some e" "\<not> active_member e (userId actor) st"
    using assms by (auto split: option.splits)
  then show ?thesis using Inr stranger_handle [OF _ stranger_ctx] by (simp add: serve_def)
qed

text \<open>C9. Traffic keeps the ledger: whatever requests arrive at the typed API, valid or not, from members
  and strangers, in any order, the store they lead to is one a sequence of commands reaches, and its
  ledger is sound: the status of each pledge is derived, each payment belongs to one pledge of its event.\<close>

theorem api_traffic_sound:
  assumes "ledger_inv st0"
  shows "reachable (\<lambda>_. True) st0 (serve_all lib ars st0) \<and> ledger_inv (serve_all lib ars st0)"
  using traffic_reachable [of st0 lib ars] reachable_money [OF traffic_reachable, of False] assms
  by (simp add: money_inv_def)

definition demo_api :: api_lib where
  "demo_api = \<lparr>ap_jwt = \<lparr>jwt_sign = (\<lambda>p s n t. sub p),
       jwt_verify = (\<lambda>tok s t. Some \<lparr>sub = tok, pv = True, token_type = Some ''access''\<rparr>)\<rparr>,
     ap_config = demo_cfg, ap_isDateString = (\<lambda>s. True), ap_date = (\<lambda>s. 5), ap_toLowerCase = (\<lambda>s. s),
     ap_normalizeNFKD = (\<lambda>s. s), ap_float = (\<lambda>q. q)\<rparr>"

definition demo_arrival :: "string \<Rightarrow> api_request \<Rightarrow> arrival" where
  "demo_arrival token rq = \<lparr>ar_env = demo_env, ar_header = Some (''Bearer '' @ token), ar_suffix = ''s'', ar_fresh = ''f'',
     ar_request = rq\<rparr>"

definition demo_post :: api_request where
  "demo_post = Post_pledge ''E1'' \<lparr>cld_personId = ''P1'', cld_committedValue = ''500'', cld_type = None,
     cld_targetBudgetItemId = None\<rparr>"

theorem strangers_change_nothing_witness:
  "\<exists>err. serve demo_api (demo_arrival ''U2'' demo_post) demo_store = (demo_store, Some err)"
  using strangers_change_nothing [where lib = demo_api and ar = "demo_arrival ''U2'' demo_post" and st = demo_store]
  by (simp add: canActivate_def demo_arrival_def demo_api_def verifyAccessToken_def demo_post_def active_member_def
      demo_store_def demo_member_def empty_store_def) blast

theorem api_traffic_sound_witness:
  "ledger_inv (serve_all demo_api [demo_arrival ''U2'' demo_post, demo_arrival ''U1'' demo_post] demo_store)
   \<and> length (pledges (serve_all demo_api [demo_arrival ''U2'' demo_post, demo_arrival ''U1'' demo_post] demo_store)) = 1"
proof -
  have "length (pledges (serve_all demo_api [demo_arrival ''U2'' demo_post, demo_arrival ''U1'' demo_post] demo_store)) = 1"
    by code_simp
  then show ?thesis using api_traffic_sound [OF demo_inv(1), where lib = demo_api] by blast
qed

text \<open>What \<open>null\<close> does in the two optional fields the handlers convert.\<close>

lemma null_date_is_1970: "date_field lib Null = Some 0"
  by simp

lemma null_amount_throws: "money_field Null st = (st, Inl (Thrown ''Amount must be a non-negative integer (minor units)''))"
  by simp

end
