(* ===== verification/Service_Api.thy ===== *)
theory Service_Api
  imports Ledger_Api Sms_Service Agent_Tools Transparency Documents
begin

text \<open>
  The routes of the other services under \<^verbatim>\<open>apps/api/src\<close>: messages (\<^verbatim>\<open>sms/sms.controller.ts\<close>), files and
  documents (\<^verbatim>\<open>documents/documents.controller.ts\<close>), capture, assistant and proposals
  (\<^verbatim>\<open>capture/capture.controller.ts\<close>, \<^verbatim>\<open>assistant/assistant.controller.ts\<close>), the public page's settings
  (\<^verbatim>\<open>transparency/transparency.controller.ts\<close>), purchases (\<^verbatim>\<open>billing/billing.controller.ts\<close>) and sign-in
  (\<^verbatim>\<open>auth/auth.controller.ts\<close>), with the validation of their bodies. What the services take from
  outside is collected in one record. Optional fields are present or absent.
\<close>

section \<open>The adapters the services are given\<close>

record 'k service_env =
  sx_collation :: "string \<Rightarrow> 'k"
  sx_storage :: storage_env
  sx_llm :: llm_provider
  sx_prompt :: string
  sx_assist :: "'k assist_env"
  sx_agent :: "'k agent_env"
  sx_payment :: payment_provider
  sx_randomHex :: string
  sx_randomToken :: string
  sx_isUUID :: "string \<Rightarrow> string \<Rightarrow> bool"  \<comment> \<open>\<open>IsUUID\<close> for a version\<close>
  sx_base64 :: "string \<Rightarrow> file_bytes option"  \<comment> \<open>the bytes of a text \<open>IsBase64\<close> accepts\<close>

section \<open>Routes of an event\<close>

text \<open>The routes of \<^verbatim>\<open>sms.controller.ts\<close>, \<^verbatim>\<open>documents.controller.ts\<close>, \<^verbatim>\<open>capture.controller.ts\<close> and
  \<^verbatim>\<open>transparency.controller.ts\<close>, in their order.\<close>

datatype sms_route =
    Preview_reminders "uuid list option"
  | Post_reminders string "uuid list option"
  | Post_sms_announcement string "uuid list option"
  | Get_campaigns
  | Get_delivery "uuid option"

datatype document_route =
    Upload_file file_kind string string "string option" "uuid option"
  | Get_file_url uuid
  | Submit_document uuid "extraction_kind option"
  | Get_document uuid

datatype capture_route =
    Capture_utterance string
  | Assistant_chat string
  | List_pending
  | Update_pending uuid update_pending_input
  | Confirm_pending uuid
  | Reject_pending uuid

datatype page_route =
    Get_settings
  | Update_settings update_public_settings_input
  | Rotate_token
  | Clear_token
  | List_announcements
  | Create_announcement string
  | Publish_announcement uuid
  | Archive_announcement uuid
  | List_instructions
  | Create_instruction instruction_input
  | Update_instruction uuid instruction_patch
  | Delete_instruction uuid

datatype event_route = Sms sms_route | Document document_route | Capture capture_route | Page page_route

definition sms_body_ok :: "'k service_env \<Rightarrow> string \<Rightarrow> uuid list option \<Rightarrow> bool" where
  "sms_body_ok sx body ids = (len_in 1 1000 body \<and> opt_ok (list_all (sx_isUUID sx ''4'')) ids)"

definition pending_ok :: "update_pending_input \<Rightarrow> bool" where
  "pending_ok d = (opt_ok (len_in 1 200) (upi_displayName d) \<and> opt_ok money_text (upi_amount d)
     \<and> opt_ok (len_in 0 500) (upi_description d))"

definition instruction_ok :: "instruction_input \<Rightarrow> bool" where
  "instruction_ok d = (len_in 1 100 (pin_label d) \<and> len_in 1 500 (pin_details d) \<and> opt_ok (\<lambda>n. 0 \<le> n) (pin_displayOrder d))"

definition instruction_patch_ok :: "instruction_patch \<Rightarrow> bool" where
  "instruction_patch_ok d = (opt_ok (len_in 1 100) (pip_label d) \<and> opt_ok (len_in 1 500) (pip_details d)
     \<and> opt_ok (\<lambda>n. 0 \<le> n) (pip_displayOrder d))"

fun sms_route_ok :: "'k service_env \<Rightarrow> sms_route \<Rightarrow> bool" where
  "sms_route_ok sx (Post_reminders body ids) = sms_body_ok sx body ids"
| "sms_route_ok sx (Post_sms_announcement body ids) = sms_body_ok sx body ids"
| "sms_route_ok sx _ = True"

fun document_route_ok :: "'k service_env \<Rightarrow> document_route \<Rightarrow> bool" where
  "document_route_ok sx (Upload_file kind mime b64 name person) =
     (sx_base64 sx b64 \<noteq> None \<and> opt_ok (len_in 1 255) name)"
| "document_route_ok sx _ = True"

fun capture_route_ok :: "capture_route \<Rightarrow> bool" where
  "capture_route_ok (Capture_utterance u) = len_in 1 2000 u"
| "capture_route_ok (Assistant_chat m) = len_in 1 2000 m"
| "capture_route_ok (Update_pending i d) = pending_ok d"
| "capture_route_ok _ = True"

fun page_route_ok :: "page_route \<Rightarrow> bool" where
  "page_route_ok (Update_settings d) = opt_ok (opt_ok (len_in 0 2000)) (ups_description d)"
| "page_route_ok (Create_announcement body) = len_in 1 2000 body"
| "page_route_ok (Create_instruction d) = instruction_ok d"
| "page_route_ok (Update_instruction i d) = instruction_patch_ok d"
| "page_route_ok _ = True"

fun route_ok :: "'k service_env \<Rightarrow> event_route \<Rightarrow> bool" where
  "route_ok sx (Sms r) = sms_route_ok sx r"
| "route_ok sx (Document r) = document_route_ok sx r"
| "route_ok sx (Capture r) = capture_route_ok r"
| "route_ok sx (Page r) = page_route_ok r"

text \<open>A turn of the assistant is answered or fails; the failure of an overloaded model is an answer.\<close>

definition turn_outcome :: "store \<times> (turn_error + 'a) \<Rightarrow> store \<times> error option" where
  "turn_outcome r = (fst r, case snd r of Inl (Turn_failed e) \<Rightarrow> Some e
     | Inl Rate_limited \<Rightarrow> Some (Thrown ''LlmRateLimitedError'') | Inr _ \<Rightarrow> None)"

definition in_ctx :: "(store \<times> (error + operation_context)) \<Rightarrow> (operation_context \<Rightarrow> store \<Rightarrow> store \<times> error option) \<Rightarrow>
   store \<times> error option" where
  "in_ctx r k = (case r of (st, Inl e) \<Rightarrow> (st, Some e) | (st, Inr ctx) \<Rightarrow> k ctx st)"

text \<open>What a route does with the context of the caller.\<close>

fun run_sms ::
  "'k::linorder service_env \<Rightarrow> env \<Rightarrow> sms_route \<Rightarrow> operation_context \<Rightarrow> store \<Rightarrow> store \<times> error option" where
  "run_sms sx env (Preview_reminders ids) ctx st = outcome (previewReminders (sx_collation sx) env ctx ids st)"
| "run_sms sx env (Post_reminders body ids) ctx st = outcome (sendReminders (sx_collation sx) env ctx body ids st)"
| "run_sms sx env (Post_sms_announcement body ids) ctx st =
     outcome (sendAnnouncement (sx_collation sx) env ctx body ids st)"
| "run_sms sx env Get_campaigns ctx st = outcome (listCampaigns ctx st)"
| "run_sms sx env (Get_delivery campaign) ctx st = outcome (delivery ctx campaign st)"

fun run_document ::
  "'k::linorder service_env \<Rightarrow> env \<Rightarrow> document_route \<Rightarrow> operation_context \<Rightarrow> store \<Rightarrow> store \<times> error option" where
  "run_document sx env (Upload_file kind mime b64 name person) ctx st =
     outcome (upload (sx_storage sx) env ctx \<lparr>up_kind = kind, up_mimeType = mime, up_body = nullish (sx_base64 sx b64) [],
       up_filename = name, up_personId = person\<rparr> st)"
| "run_document sx env (Get_file_url i) ctx st = outcome (getSignedUrl (sx_storage sx) ctx i 300 st)"
| "run_document sx env (Submit_document i kind) ctx st = outcome (submitForExtraction env ctx i kind st)"
| "run_document sx env (Get_document i) ctx st = outcome (getDocument ctx i st)"

fun run_capture ::
  "'k::linorder service_env \<Rightarrow> env \<Rightarrow> capture_route \<Rightarrow> operation_context \<Rightarrow> store \<Rightarrow> store \<times> error option" where
  "run_capture sx env (Capture_utterance u) ctx st =
     outcome (capture (sx_llm sx) (sx_prompt sx) (sx_assist sx) env ctx u False st)"
| "run_capture sx env (Assistant_chat m) ctx st = turn_outcome (chat (sx_agent sx) env ctx m [] st)"
| "run_capture sx env List_pending ctx st = outcome (listPending ctx st)"
| "run_capture sx env (Update_pending i d) ctx st = outcome (update_confirmation ctx i d st)"
| "run_capture sx env (Confirm_pending i) ctx st = outcome (confirm (sx_assist sx) env ctx i st)"
| "run_capture sx env (Reject_pending i) ctx st = outcome (reject_confirmation env ctx i st)"

fun run_page ::
  "'k::linorder service_env \<Rightarrow> env \<Rightarrow> page_route \<Rightarrow> operation_context \<Rightarrow> store \<Rightarrow> store \<times> error option" where
  "run_page sx env Get_settings ctx st = outcome (getSettings ctx st)"
| "run_page sx env (Update_settings d) ctx st = outcome (updateSettings env ctx d st)"
| "run_page sx env Rotate_token ctx st = outcome (rotateAccessToken env (sx_randomToken sx) ctx st)"
| "run_page sx env Clear_token ctx st = outcome (clearAccessToken env ctx st)"
| "run_page sx env List_announcements ctx st = outcome (announcement_list ctx st)"
| "run_page sx env (Create_announcement body) ctx st = outcome (announcement_create_op env ctx body None st)"
| "run_page sx env (Publish_announcement i) ctx st = outcome (announcement_publish env ctx i st)"
| "run_page sx env (Archive_announcement i) ctx st = outcome (announcement_archive env ctx i st)"
| "run_page sx env List_instructions ctx st = outcome (instruction_list ctx st)"
| "run_page sx env (Create_instruction d) ctx st = outcome (instruction_create_op env ctx d st)"
| "run_page sx env (Update_instruction i d) ctx st = outcome (instruction_update_op env ctx i d st)"
| "run_page sx env (Delete_instruction i) ctx st = outcome (instruction_remove env ctx i st)"

fun run_route ::
  "'k::linorder service_env \<Rightarrow> env \<Rightarrow> event_route \<Rightarrow> operation_context \<Rightarrow> store \<Rightarrow> store \<times> error option" where
  "run_route sx env (Sms r) ctx st = run_sms sx env r ctx st"
| "run_route sx env (Document r) ctx st = run_document sx env r ctx st"
| "run_route sx env (Capture r) ctx st = run_capture sx env r ctx st"
| "run_route sx env (Page r) ctx st = run_page sx env r ctx st"

section \<open>Routes of a user\<close>

datatype own_route =
    Converse string "uuid option"
  | My_conversations
  | Conversation_messages uuid
  | Event_entitlement uuid
  | Buy_event_pack uuid string string "channel option"
  | Subscribe_plan string string "channel option"

text \<open>\<open>/^\+?\d{9,15}$/\<close>.\<close>

definition momo_number :: "string \<Rightarrow> bool" where
  "momo_number s = (let d = (case s of [] \<Rightarrow> [] | c # t \<Rightarrow> if c = CHR ''+'' then t else s)
     in len_in 9 15 d \<and> list_all is_digit d)"

fun own_ok :: "'k service_env \<Rightarrow> own_route \<Rightarrow> bool" where
  "own_ok sx (Converse m i) = (len_in 1 2000 m \<and> opt_ok (sx_isUUID sx ''all'') i)"
| "own_ok sx (Buy_event_pack e plan phone chan) = (plan \<in> {''STARTER'', ''STANDARD'', ''PREMIUM''} \<and> momo_number phone)"
| "own_ok sx (Subscribe_plan plan phone chan) = (plan \<in> {''ORGANIZER_PRO'', ''BUSINESS''} \<and> momo_number phone)"
| "own_ok sx _ = True"

fun run_own :: "'k::linorder service_env \<Rightarrow> env \<Rightarrow> actor \<Rightarrow> own_route \<Rightarrow> store \<Rightarrow> store \<times> error option" where
  "run_own sx env actor (Converse m i) st = turn_outcome (converse (sx_agent sx) env actor m i st)"
| "run_own sx env actor My_conversations st = outcome (listMine (userId actor) None st)"
| "run_own sx env actor (Conversation_messages i) st = outcome (getMessages i actor st)"
| "run_own sx env actor (Event_entitlement e) st = outcome (svc_read (ent_resolve env (event_scope e)) st)"
| "run_own sx env actor (Buy_event_pack e plan phone chan) st =
     outcome (purchaseEventPack (sx_payment sx) (sx_randomHex sx) env (userId actor) e plan phone
       (Some (nullish chan Mobile_money)) st)"
| "run_own sx env actor (Subscribe_plan plan phone chan) st =
     outcome (subscribe (sx_payment sx) (sx_randomHex sx) env (userId actor) plan phone (Some (nullish chan Mobile_money)) st)"

section \<open>Requests\<close>

datatype service_request = In_event uuid event_route | Own own_route

fun service_ok :: "'k service_env \<Rightarrow> service_request \<Rightarrow> bool" where
  "service_ok sx (In_event e r) = route_ok sx r"
| "service_ok sx (Own r) = own_ok sx r"

fun handle_service ::
  "'k::linorder service_env \<Rightarrow> env \<Rightarrow> actor \<Rightarrow> service_request \<Rightarrow> store \<Rightarrow> store \<times> error option" where
  "handle_service sx env actor (In_event e r) st = in_ctx (api_ctx actor e st) (run_route sx env r)"
| "handle_service sx env actor (Own r) st = run_own sx env actor r st"

definition serve_service ::
  "api_lib \<Rightarrow> 'k::linorder service_env \<Rightarrow> env \<Rightarrow> string option \<Rightarrow> service_request \<Rightarrow> store \<Rightarrow> store \<times> error option" where
  "serve_service lib sx env header rq st =
     (case canActivate lib env header of
        Inl e \<Rightarrow> (st, Some e)
      | Inr actor \<Rightarrow>
         (if \<not> service_ok sx rq then (st, Some (BadRequest ''Bad Request Exception''))
          else handle_service sx env actor rq st))"

section \<open>Sign-in\<close>

record 'tok session_response =
  sr_userId :: uuid
  sr_accessToken :: 'tok
  sr_refreshToken :: 'tok
  sr_expiresAt :: string

definition toSessionResponse :: "'tok auth_session \<Rightarrow> 'tok session_response" where
  "toSessionResponse s = \<lparr>sr_userId = as_userId s, sr_accessToken = as_accessToken s,
     sr_refreshToken = as_refreshToken s, sr_expiresAt = toISOString (as_expiresAt s)\<rparr>"

definition maybeStartTrial :: "env \<Rightarrow> 'tok auth_session \<Rightarrow> unit svc" where
  "maybeStartTrial env s =
     (if \<not> as_isNewUser s then svc_ret ()
      else and_then (ensureBillingAccount env (as_userId s)) (\<lambda>account. startAccountTrial env account))"

definition code_ok :: "verify_otp_request \<Rightarrow> bool" where
  "code_ok rq = len_in 4 8 (vo_code rq)"

definition bad_request :: "'a svc" where
  "bad_request = svc_throw (BadRequest ''Bad Request Exception'')"

definition api_startOtp ::
  "kdf \<Rightarrow> auth_config \<Rightarrow> bool \<Rightarrow> env \<Rightarrow> nat list \<Rightarrow> bytes \<Rightarrow> string \<Rightarrow> (start_otp_result \<times> sms_send_request option) svc" where
  "api_startOtp scrypt cfg has_sms env draws salt phone =
     (if \<not> e164 phone then bad_request else startOtp scrypt cfg has_sms env draws salt phone)"

definition api_startEmailOtp ::
  "(string \<Rightarrow> bool) \<Rightarrow> kdf \<Rightarrow> auth_config \<Rightarrow> bool \<Rightarrow> env \<Rightarrow> nat list \<Rightarrow> bytes \<Rightarrow> string \<Rightarrow>
   (start_otp_result \<times> email_request option) svc" where
  "api_startEmailOtp isEmail scrypt cfg has_email env draws salt email =
     (if \<not> isEmail email then bad_request else startEmailOtp scrypt cfg has_email env draws salt email)"

definition api_verifyOtp ::
  "kdf \<Rightarrow> 'tok jwt \<Rightarrow> auth_config \<Rightarrow> env \<Rightarrow> verify_otp_request \<Rightarrow> 'tok session_response svc" where
  "api_verifyOtp scrypt lib cfg env rq =
     (if \<not> code_ok rq then bad_request
      else and_then (verifyOtp scrypt lib cfg env rq) (\<lambda>s.
        and_then (maybeStartTrial env s) (\<lambda>_. svc_ret (toSessionResponse s))))"

definition api_verifyEmailOtp ::
  "kdf \<Rightarrow> 'tok jwt \<Rightarrow> auth_config \<Rightarrow> env \<Rightarrow> verify_otp_request \<Rightarrow> 'tok session_response svc" where
  "api_verifyEmailOtp scrypt lib cfg env rq =
     (if \<not> code_ok rq then bad_request
      else and_then (verifyEmailOtp scrypt lib cfg env rq) (\<lambda>s.
        and_then (maybeStartTrial env s) (\<lambda>_. svc_ret (toSessionResponse s))))"

definition api_refresh :: "'tok jwt \<Rightarrow> auth_config \<Rightarrow> env \<Rightarrow> 'tok \<Rightarrow> 'tok session_response svc" where
  "api_refresh lib cfg env token =
     and_then (refreshToken lib cfg env token) (\<lambda>s. svc_ret (toSessionResponse s))"

end
