(* ===== verification/Service_Guarantees.thy ===== *)
theory Service_Guarantees
  imports Service_Api Api_Guarantees Credit_Ledgers
begin

text \<open>
  What the routes of the other services guarantee: an event's routes are closed to strangers, and an
  account's trial is granted once.
\<close>

section \<open>Strangers\<close>

text \<open>
  The routes of messages, files, capture, proposals and page settings are closed to strangers: a request
  without a valid access token, or in the name of someone who is not an active member of the event,
  is refused and changes no table, whatever the adapters would answer.
\<close>

lemma service_routes_closed:
  assumes "case canActivate lib env header of Inl e \<Rightarrow> True | Inr actor \<Rightarrow> \<not> active_member eid (userId actor) st"
  shows "\<exists>err. serve_service lib sx env header (In_event eid r) st = (st, Some err)"
proof (cases "canActivate lib env header")
  case (Inr actor)
  then have "api_ctx actor eid st = (st, Inl (Forbidden ''Not a member of this event''))"
    using assms by (intro stranger_ctx) simp
  then show ?thesis using Inr by (simp add: serve_service_def in_ctx_def)
qed (simp add: serve_service_def)

section \<open>Trials\<close>










text \<open>When the trial cannot be started the sign-in fails although the code is spent and the account
  exists; and the next sign-in, no longer that of a new user, never starts it.\<close>

lemma failed_trial_fails_sign_in:
  assumes "code_ok rq" "verifyOtp scrypt lib cfg env rq st = (st1, Inr s)" "maybeStartTrial env s st1 = (st2, Inl e)"
  shows "api_verifyOtp scrypt lib cfg env rq st = (st2, Inl e)"
  using assms by (simp add: api_verifyOtp_def and_then_def)

lemma trial_only_for_new_users: "\<not> as_isNewUser s \<Longrightarrow> maybeStartTrial env s st = (st, Inr ())"
  by (simp add: maybeStartTrial_def svc_ret_def)

theorem service_routes_closed_witness:
  "\<forall>sx :: nat service_env. \<exists>err.
     serve_service demo_api sx demo_env (Some ''Bearer U2'') (In_event ''E1'' (Page Rotate_token)) demo_store = (demo_store, Some err)"
proof
  fix sx :: "nat service_env"
  show "\<exists>err. serve_service demo_api sx demo_env (Some ''Bearer U2'') (In_event ''E1'' (Page Rotate_token)) demo_store = (demo_store, Some err)"
    by (rule service_routes_closed)
      (simp add: canActivate_def demo_api_def verifyAccessToken_def active_member_def demo_store_def demo_member_def
        empty_store_def)
qed






end
