(* ===== verification/Public_Api.thy ===== *)
theory Public_Api
  imports "HOL-Library.AList" Public_View Admin_Users Billing Demo_Data
begin

text \<open>
  The unauthenticated surfaces: the routes of \<^verbatim>\<open>apps/api/src/public/public.controller.ts\<close> behind the rate
  limiter of \<^verbatim>\<open>public-rate-limit.guard.ts\<close>, and the shared secret that guards the administrators'
  routes. The limiter keeps its counters in the memory of one process: a map in insertion order. The hash
  and \<open>JSON.stringify\<close> are arguments.
\<close>

section \<open>The rate limiter\<close>

type_synonym hits = "(string \<times> (nat \<times> time)) list"

definition windowMs :: int where
  "windowMs = 60000"

definition max_hits :: nat where
  "max_hits = 240"

definition sweep :: "time \<Rightarrow> hits \<Rightarrow> hits" where
  "sweep t h = (if length h < 10000 then h else filter (\<lambda>(ip, n, resetAt). \<not> resetAt \<le> t) h)"

text \<open>The answer is whether the request passes; otherwise it is refused with status 429.\<close>

definition rate_limit :: "string \<Rightarrow> time \<Rightarrow> hits \<Rightarrow> hits \<times> bool" where
  "rate_limit ip t h =
     (case map_of h ip of
        Some (n, resetAt) \<Rightarrow>
          (if resetAt \<le> t then (sweep t (AList.update ip (1, t + windowMs) h), True)
           else (AList.update ip (n + 1, resetAt) h, n + 1 \<le> max_hits))
      | None \<Rightarrow> (sweep t (AList.update ip (1, t + windowMs) h), True))"

text \<open>The address a request is counted under.\<close>

definition request_ip :: "string option \<Rightarrow> string option \<Rightarrow> string" where
  "request_ip ip remoteAddress = nullish (nullish_opt ip remoteAddress) ''unknown''"

text \<open>How many requests of an address pass, in a sequence of requests with their times.\<close>

fun passed :: "string \<Rightarrow> (string \<times> time) list \<Rightarrow> hits \<Rightarrow> nat" where
  "passed ip [] h = 0"
| "passed ip ((a, t) # rqs) h =
     (let (h', ok) = rate_limit a t h in (if a = ip \<and> ok then 1 else 0) + passed ip rqs h')"

section \<open>The public routes\<close>

text \<open>The token comes from the query or else from a header.\<close>

definition public_token :: "string option \<Rightarrow> string option \<Rightarrow> string option" where
  "public_token query_t header_t = nullish_opt query_t header_t"

record http_cache =
  hc_hash :: "string \<Rightarrow> string"
  hc_ifNoneMatch :: "string option"

definition etag_of :: "http_cache \<Rightarrow> string \<Rightarrow> string" where
  "etag_of hc body = ''\"'' @ hc_hash hc body @ ''\"''"

text \<open>The tag set on the response, and the body, none with status 304.\<close>

definition withCache :: "http_cache \<Rightarrow> ('b \<Rightarrow> string) \<Rightarrow> 'b \<Rightarrow> string \<times> 'b option" where
  "withCache hc stringify body =
     (let etag = etag_of hc (stringify body)
      in (etag, if hc_ifNoneMatch hc = Some etag then None else Some body))"

definition public_route ::
  "(rat \<Rightarrow> rat) \<Rightarrow> (public_event_view \<Rightarrow> 'b) \<Rightarrow> ('b \<Rightarrow> string) \<Rightarrow> http_cache \<Rightarrow> string \<Rightarrow> string option \<Rightarrow>
   string option \<Rightarrow> (string \<times> 'b option) svc" where
  "public_route fl slice stringify hc slug query_t header_t =
     and_then (getPublicEventView fl slug (public_token query_t header_t)) (\<lambda>v.
       svc_ret (withCache hc stringify (slice v)))"

definition event_slice :: "public_event_view \<Rightarrow> public_event_view" where
  "event_slice v = v"

record public_summary =
  psu_slug :: string
  psu_name :: string
  psu_description :: "string option"
  psu_eventDate :: "string option"
  psu_status :: event_status
  psu_currency :: string
  psu_target :: "string option"
  psu_totalPledged :: string
  psu_totalReceived :: string
  psu_totalOutstanding :: "string option"
  psu_remaining :: "string option"
  psu_percentCovered :: "rat option"
  psu_contributorCount :: "nat option"
  psu_revision :: int

definition summary_slice :: "public_event_view \<Rightarrow> public_summary" where
  "summary_slice v = \<lparr>psu_slug = pev_slug v, psu_name = pev_name v, psu_description = pev_description v,
     psu_eventDate = pev_eventDate v, psu_status = pev_status v, psu_currency = pev_currency v,
     psu_target = pev_target v, psu_totalPledged = pev_totalPledged v, psu_totalReceived = pev_totalReceived v,
     psu_totalOutstanding = pev_totalOutstanding v, psu_remaining = pev_remaining v,
     psu_percentCovered = pev_percentCovered v, psu_contributorCount = pev_contributorCount v,
     psu_revision = pev_revision v\<rparr>"

definition budget_slice :: "public_event_view \<Rightarrow> public_budget option \<times> budget_visibility" where
  "budget_slice v = (pev_budget v, pvi_budget (pev_visibility v))"

definition contributors_slice ::
  "public_event_view \<Rightarrow> public_contributor list option \<times> nat option \<times> contributor_visibility" where
  "contributors_slice v = (pev_contributors v, pev_contributorCount v, pvi_contributors (pev_visibility v))"

definition announcements_slice :: "public_event_view \<Rightarrow> (string \<times> string) list" where
  "announcements_slice v = pev_announcements v"

definition contribute_slice :: "public_event_view \<Rightarrow> (payment_method \<times> string \<times> string) list" where
  "contribute_slice v = pev_paymentInstructions v"

section \<open>The administrators' secret\<close>

definition assertAdminSecret :: "string option \<Rightarrow> string option \<Rightarrow> error + unit" where
  "assertAdminSecret adminSecret header =
     (if \<not> truthy_str adminSecret then Inl (Forbidden ''Admin surface is not configured (ADMIN_SECRET unset)'')
      else if \<not> truthy_str header \<or> header \<noteq> adminSecret
      then Inl (Forbidden ''Invalid admin secret key for admin surface'')
      else Inr ())"

definition as_admin :: "string option \<Rightarrow> string option \<Rightarrow> 'a svc \<Rightarrow> 'a svc" where
  "as_admin adminSecret header m =
     (case assertAdminSecret adminSecret header of Inl e \<Rightarrow> svc_throw e | Inr _ \<Rightarrow> m)"

definition admin_listInvoices :: "string option \<Rightarrow> string option \<Rightarrow> invoice_status option \<Rightarrow> invoice_row list svc" where
  "admin_listInvoices adminSecret header status = as_admin adminSecret header (svc_read (listInvoices status))"

definition admin_reconcile :: "string option \<Rightarrow> string option \<Rightarrow> env \<Rightarrow> uuid \<Rightarrow> string \<Rightarrow> bool svc" where
  "admin_reconcile adminSecret header env i tid = as_admin adminSecret header (reconcileInvoice env i tid)"

lemma admin_closed: "assertAdminSecret secret header = Inl e \<Longrightarrow> as_admin secret header m st = (st, Inl e)"
  by (simp add: as_admin_def)

lemma admin_unset: "\<not> truthy_str secret \<Longrightarrow> \<exists>e. as_admin secret header m st = (st, Inl e)"
  by (simp add: as_admin_def assertAdminSecret_def)

section \<open>A minute of requests\<close>

lemma sweep_live: "map_of h ip = Some (n, r) \<Longrightarrow> t < r \<Longrightarrow> distinct (map fst h) \<Longrightarrow> map_of (sweep t h) ip = Some (n, r)"
  by (auto simp: sweep_def map_of_filter_in distinct_map intro!: map_of_is_SomeI dest!: map_of_SomeD)

lemma distinct_sweep: "distinct (map fst h) \<Longrightarrow> distinct (map fst (sweep t h))"
  by (simp add: sweep_def distinct_map_filter)

lemma map_of_sweep:
  "distinct (map fst h) \<Longrightarrow> map_of (sweep t h) ip = map_of h ip
     \<or> (\<exists>n r. map_of h ip = Some (n, r) \<and> r \<le> t \<and> map_of (sweep t h) ip = None)"
proof (cases "map_of h ip")
  case None
  then have "ip \<notin> fst ` set (sweep t h)" by (auto simp: sweep_def map_of_eq_None_iff image_iff)
  then have "map_of (sweep t h) ip = None" by (simp add: map_of_eq_None_iff)
  then show ?thesis using None by simp
next
  case (Some e)
  assume d: "distinct (map fst h)"
  obtain n r where e: "e = (n, r)" by fastforce
  show ?thesis
  proof (cases "t < r")
    case True
    then show ?thesis using Some e d sweep_live by metis
  next
    case False
    have "map_of (sweep t h) ip = Some x \<Longrightarrow> x = (n, r)" for x
      using Some e d by (auto simp: sweep_def dest!: map_of_SomeD split: if_splits dest: eq_key_imp_eq_value)
    then show ?thesis using Some e False by (cases "map_of (sweep t h) ip") auto
  qed
qed

text \<open>What a request does to the counter of its address and to the others.\<close>

lemma rate_limit_own:
  assumes "distinct (map fst h)" "rate_limit ip t h = (h', ok)"
  shows "distinct (map fst h')
    \<and> (case map_of h ip of
         Some (n, r) \<Rightarrow> if t < r then map_of h' ip = Some (n + 1, r) \<and> (ok \<longleftrightarrow> n < max_hits)
                        else map_of h' ip = Some (1, t + windowMs) \<and> ok
       | None \<Rightarrow> map_of h' ip = Some (1, t + windowMs) \<and> ok)"
proof -
  have d: "distinct (map fst (AList.update ip v h))" for v using assms(1) by (rule distinct_update)
  have new: "map_of (AList.update ip v h) ip = Some v" for v by (simp add: update_conv)
  have "map_of (sweep t (AList.update ip (1, t + windowMs) h)) ip = Some (1, t + windowMs)"
    by (rule sweep_live [OF new _ d]) (simp add: windowMs_def)
  then show ?thesis using assms(2) d distinct_sweep new
    by (auto simp: rate_limit_def split: option.splits if_splits)
qed

lemma rate_limit_other:
  assumes "distinct (map fst h)" "rate_limit a t h = (h', ok)" "a \<noteq> ip"
  shows "map_of h' ip = map_of h ip \<or> (\<exists>n r. map_of h ip = Some (n, r) \<and> r \<le> t \<and> map_of h' ip = None)"
proof -
  have d: "distinct (map fst (AList.update a v h))" for v using assms(1) by (rule distinct_update)
  have same: "map_of (AList.update a v h) ip = map_of h ip" for v using assms(3) by (simp add: update_conv)
  have swept: "map_of (sweep t (AList.update a v h)) ip = map_of h ip
      \<or> (\<exists>n r. map_of h ip = Some (n, r) \<and> r \<le> t \<and> map_of (sweep t (AList.update a v h)) ip = None)" for v
    using map_of_sweep [OF d, where t = t and ip = ip] same by simp
  show ?thesis using assms(2) swept [of "(1, t + windowMs)"] same
    by (auto simp: rate_limit_def split: option.splits if_splits)
qed

definition asked :: "string \<Rightarrow> (string \<times> time) list \<Rightarrow> nat" where
  "asked ip rqs = length (filter (\<lambda>(a, t). a = ip) rqs)"

lemma asked_simps [simp]: "asked ip [] = 0" "asked ip ((a, t) # rqs) = (if a = ip then 1 else 0) + asked ip rqs"
  by (simp_all add: asked_def)

lemma passed_live:
  assumes "distinct (map fst h)" "map_of h ip = Some (n, r)" "list_all (\<lambda>(a, t). t < r) rqs"
  shows "passed ip rqs h = min (asked ip rqs) (max_hits - n)"
  using assms
proof (induction rqs arbitrary: h n)
  case (Cons rq rqs)
  obtain a t where rq: "rq = (a, t)" by fastforce
  obtain h' ok where step: "rate_limit a t h = (h', ok)" by fastforce
  have t: "t < r" "list_all (\<lambda>(a, t). t < r) rqs" using Cons.prems(3) rq by simp_all
  show ?case
  proof (cases "a = ip")
    case True
    then have "distinct (map fst h')" "map_of h' ip = Some (n + 1, r)" "ok \<longleftrightarrow> n < max_hits"
      using rate_limit_own [OF Cons.prems(1) step] Cons.prems(2) t by auto
    then show ?thesis using Cons.IH [of h' "n + 1"] t rq step True by auto
  next
    case False
    then have "map_of h' ip = Some (n, r)"
      using rate_limit_other [OF Cons.prems(1) step False] Cons.prems(2) t by auto
    then show ?thesis using Cons.IH [of h' n] rate_limit_own [OF Cons.prems(1) step] t rq step False by auto
  qed
qed simp

lemma passed_minute:
  assumes "distinct (map fst h)" "list_all (\<lambda>(a, t). t0 \<le> t \<and> t < t0 + windowMs) rqs"
  shows "passed ip rqs h \<le> (case map_of h ip of None \<Rightarrow> 0 | Some (n, r) \<Rightarrow> max_hits - n) + max_hits
    \<and> (map_of h ip = None \<longrightarrow> passed ip rqs h = min (asked ip rqs) max_hits)"
  using assms
proof (induction rqs arbitrary: h)
  case (Cons rq rqs)
  obtain a t where rq: "rq = (a, t)" by fastforce
  obtain h' ok where step: "rate_limit a t h = (h', ok)" by fastforce
  have d: "distinct (map fst h')" using rate_limit_own [OF Cons.prems(1) step] by blast
  have rest: "list_all (\<lambda>(a, t). t0 \<le> t \<and> t < t0 + windowMs) rqs" and "t0 \<le> t" using Cons.prems(2) rq by simp_all
  have live: "list_all (\<lambda>(a, x). x < t + windowMs) rqs"
    using rest \<open>t0 \<le> t\<close> by (fastforce simp: list_all_iff)
  note ih = Cons.IH [OF d rest]
  have m: "0 < max_hits" by (simp add: max_hits_def)
  show ?case
  proof (cases "a = ip")
    case False
    have "map_of h' ip = map_of h ip \<or> map_of h ip \<noteq> None \<and> map_of h' ip = None"
      using rate_limit_other [OF Cons.prems(1) step False] by auto
    then show ?thesis using ih rq step False by (auto split: option.splits)
  next
    case True
    show ?thesis
    proof (cases "\<exists>n r. map_of h ip = Some (n, r) \<and> t < r")
      case True
      then obtain n r where e: "map_of h ip = Some (n, r)" "t < r" by blast
      then have "map_of h' ip = Some (n + 1, r)" "ok \<longleftrightarrow> n < max_hits"
        using rate_limit_own [OF Cons.prems(1) step [unfolded \<open>a = ip\<close>]] by auto
      then show ?thesis using ih rq step \<open>a = ip\<close> e by auto
    next
      case False
      then have "map_of h' ip = Some (1, t + windowMs)" "ok"
        using rate_limit_own [OF Cons.prems(1) step [unfolded \<open>a = ip\<close>]] by (auto split: option.splits if_splits)
      then show ?thesis using passed_live [OF d _ live] rq step \<open>a = ip\<close> m by auto
    qed
  qed
qed simp

text \<open>C33. The public surface is limited: of the requests one address makes within a minute, interleaved
  with any others and in any order, exactly the first 240 pass when the address has no counter yet,
  and never more than 480, whatever counters are left over and whatever is swept meanwhile.\<close>

theorem public_rate_bounded:
  assumes "distinct (map fst h)" "list_all (\<lambda>(a, t). t0 \<le> t \<and> t < t0 + 60000) rqs"
  shows "passed ip rqs h \<le> 480 \<and> (map_of h ip = None \<longrightarrow> passed ip rqs h = min (asked ip rqs) 240)"
proof -
  have "passed ip rqs h \<le> (case map_of h ip of None \<Rightarrow> 0 | Some (n, r) \<Rightarrow> max_hits - n) + max_hits"
    "map_of h ip = None \<longrightarrow> passed ip rqs h = min (asked ip rqs) max_hits"
    using passed_minute [OF assms(1), of t0 rqs ip] assms(2) by (simp_all add: windowMs_def)
  then show ?thesis by (auto simp: max_hits_def split: option.splits)
qed

theorem public_rate_bounded_witness:
  "passed ''1.2.3.4'' (replicate 3 (''1.2.3.4'', 10) @ [(''5.6.7.8'', 11), (''1.2.3.4'', 12)]) [] = 4
   \<and> passed ''1.2.3.4'' [(''1.2.3.4'', 10)] [(''1.2.3.4'', (240, 60000))] \<le> 480"
  using public_rate_bounded [of "[]" 0 "replicate 3 (''1.2.3.4'', 10) @ [(''5.6.7.8'', 11), (''1.2.3.4'', 12)]" "''1.2.3.4''"]
    public_rate_bounded [of "[(''1.2.3.4'', (240, 60000))]" 0 "[(''1.2.3.4'', 10)]" "''1.2.3.4''"]
  by (simp add: numeral_eq_Suc asked_def)

section \<open>Conditional requests\<close>

text \<open>A client is only told that its copy is current when it is, if the hash tells bodies apart.\<close>

lemma not_modified_current:
  assumes "withCache hc stringify new = (etag, None)" "inj (hc_hash hc)" "inj stringify"
    and "hc_ifNoneMatch hc = Some (etag_of hc (stringify old))"
  shows "new = old"
  using assms by (auto simp: withCache_def etag_of_def Let_def dest!: injD split: if_splits)

end
