(* ===== verification/Admin_Api.thy ===== *)
theory Admin_Api
  imports Public_Api Conversations Budget_Knowledge
begin

text \<open>
  The administrators' routes: \<^verbatim>\<open>apps/api/src/admin/admin.controller.ts\<close>,
  \<^verbatim>\<open>admin-billing.controller.ts\<close> and \<^verbatim>\<open>admin-budget-knowledge.controller.ts\<close>, each behind the shared secret.
  The numbers of a query are given as numbers, and the bytes of an upload are what its \<open>base64\<close> text encodes.
\<close>

section \<open>Users and conversations\<close>

definition admin_listUsers :: "string option \<Rightarrow> string option \<Rightarrow> env \<Rightarrow> admin_user_row list svc" where
  "admin_listUsers adminSecret header env = as_admin adminSecret header (svc_read (listUsers env 200))"

definition usersSummary :: "string option \<Rightarrow> string option \<Rightarrow> env \<Rightarrow> admin_users_summary svc" where
  "usersSummary adminSecret header env = as_admin adminSecret header (svc_read (users_summary env))"

text \<open>\<open>limit ? Number(limit) : undefined\<close>: the text \<open>0\<close> is kept.\<close>

definition admin_listConversations ::
  "string option \<Rightarrow> string option \<Rightarrow> nat option \<Rightarrow> nat option \<Rightarrow> admin_conversation_row list svc" where
  "admin_listConversations adminSecret header limit offset =
     as_admin adminSecret header (listAllForAdmin limit offset)"

definition getConversationMessages :: "string option \<Rightarrow> string option \<Rightarrow> uuid \<Rightarrow> message_view list svc" where
  "getConversationMessages adminSecret header i = as_admin adminSecret header (getMessagesAdmin i)"

section \<open>Budget knowledge\<close>

record upload_dto =
  ud_filename :: string
  ud_mimeType :: string
  ud_dataBase64 :: string
  ud_eventTypeHint :: "string option"
  ud_regionHint :: "string option"
  ud_note :: "string option"

text \<open>\<open>base64\<close> gives the bytes of a text that \<open>IsBase64\<close> accepts. Bodies are validated before the secret is
  asked for.\<close>

definition admin_upload_knowledge ::
  "string option \<Rightarrow> string option \<Rightarrow> (string \<Rightarrow> file_bytes option) \<Rightarrow> (error \<Rightarrow> string) \<Rightarrow> knowledge_env \<Rightarrow> env \<Rightarrow> upload_dto \<Rightarrow>
   (uuid \<times> string \<times> int) svc" where
  "admin_upload_knowledge adminSecret header base64_bytes message_of kx env d =
     (case base64_bytes (ud_dataBase64 d) of
        None \<Rightarrow> svc_throw (BadRequest ''Bad Request Exception'')
      | Some data \<Rightarrow>
         (if \<not> (1 \<le> length (ud_filename d) \<and> length (ud_filename d) \<le> 255) then svc_throw (BadRequest ''Bad Request Exception'')
          else as_admin adminSecret header (ingestFromDocument message_of kx env
            \<lparr>ku_filename = ud_filename d, ku_mimeType = ud_mimeType d, ku_data = data,
             ku_eventTypeHint = ud_eventTypeHint d, ku_regionHint = ud_regionHint d, ku_note = ud_note d\<rparr>)))"

definition admin_listSources ::
  "string option \<Rightarrow> string option \<Rightarrow> knowledge_source_type option \<Rightarrow> string option \<Rightarrow> int option \<Rightarrow> knowledge_source_view list svc" where
  "admin_listSources adminSecret header sourceType eventType limit =
     as_admin adminSecret header (listSources sourceType eventType limit)"

definition admin_getSource ::
  "string option \<Rightarrow> string option \<Rightarrow> (string \<Rightarrow> 'k::linorder) \<Rightarrow> uuid \<Rightarrow> (knowledge_source_row \<times> observation_row list) svc" where
  "admin_getSource adminSecret header lt i = as_admin adminSecret header (getSourceDetail lt i)"

section \<open>The secret closes every route\<close>

text \<open>Without the configured secret, or when none is configured, no route answers or changes anything.\<close>

lemma wrong_secret: "\<not> truthy_str secret \<or> header \<noteq> secret \<Longrightarrow> \<exists>e. assertAdminSecret secret header = Inl (Forbidden e)"
  by (auto simp: assertAdminSecret_def)

lemma admin_routes_closed:
  assumes "\<not> truthy_str secret \<or> header \<noteq> secret"
  shows "\<exists>e. admin_listUsers secret header env st = (st, Inl (Forbidden e))"
    and "\<exists>e. usersSummary secret header env st = (st, Inl (Forbidden e))"
    and "\<exists>e. admin_listConversations secret header limit offset st = (st, Inl (Forbidden e))"
    and "\<exists>e. getConversationMessages secret header i st = (st, Inl (Forbidden e))"
    and "\<exists>e. admin_listInvoices secret header status st = (st, Inl (Forbidden e))"
    and "\<exists>e. admin_reconcile secret header env i tid st = (st, Inl (Forbidden e))"
    and "\<exists>e. fst (admin_upload_knowledge secret header b64 msg kx env d st) = st
           \<and> snd (admin_upload_knowledge secret header b64 msg kx env d st) = Inl e"
    and "\<exists>e. admin_listSources secret header sourceType eventType n st = (st, Inl (Forbidden e))"
    and "\<exists>e. admin_getSource secret header lt i st = (st, Inl (Forbidden e))"
proof -
  obtain e where "assertAdminSecret secret header = Inl (Forbidden e)" using wrong_secret [OF assms] by blast
  then have refused: "as_admin secret header m = svc_throw (Forbidden e)" for m :: "'b svc" by (simp add: as_admin_def)
  note routes = admin_listUsers_def usersSummary_def admin_listConversations_def getConversationMessages_def
    admin_listInvoices_def admin_reconcile_def admin_listSources_def admin_getSource_def
  show "\<exists>e. admin_listUsers secret header env st = (st, Inl (Forbidden e))"
    "\<exists>e. usersSummary secret header env st = (st, Inl (Forbidden e))"
    "\<exists>e. admin_listConversations secret header limit offset st = (st, Inl (Forbidden e))"
    "\<exists>e. getConversationMessages secret header i st = (st, Inl (Forbidden e))"
    "\<exists>e. admin_listInvoices secret header status st = (st, Inl (Forbidden e))"
    "\<exists>e. admin_reconcile secret header env i tid st = (st, Inl (Forbidden e))"
    "\<exists>e. admin_listSources secret header sourceType eventType n st = (st, Inl (Forbidden e))"
    "\<exists>e. admin_getSource secret header lt i st = (st, Inl (Forbidden e))"
    by (simp_all add: routes refused svc_throw_def)
  show "\<exists>e. fst (admin_upload_knowledge secret header b64 msg kx env d st) = st
      \<and> snd (admin_upload_knowledge secret header b64 msg kx env d st) = Inl e"
    by (simp add: admin_upload_knowledge_def refused svc_throw_def split: option.split)
qed

end
