(* ===== verification/Learning.thy ===== *)
theory Learning
  imports Js_Regex Tool_Executor Entitlement
begin

text \<open>
  What the assistant learns from its own turns, under \<^verbatim>\<open>libs/ai/src\<close>: the redaction of
  \<^verbatim>\<open>redaction-helper.ts\<close>, the traces of \<^verbatim>\<open>telemetry.service.ts\<close>, the evaluation cycle of
  \<^verbatim>\<open>self-learning.service.ts\<close> that distils guidance from them with the model, and the guidance
  \<^verbatim>\<open>dynamic-context.service.ts\<close> puts into later prompts. The three tables are global and only these
  services use them. The model is an argument; an answer is the text of its completion.
\<close>

section \<open>Redaction\<close>

definition times :: "nat \<Rightarrow> regex \<Rightarrow> regex" where
  "times n r = seqs (replicate n r)"

fun up_to :: "nat \<Rightarrow> regex \<Rightarrow> regex" where
  "up_to 0 r = Eps"
| "up_to (Suc n) r = opt (Then r (up_to n r))"

text \<open>\<open>r{lo,hi}\<close>.\<close>

definition between :: "nat \<Rightarrow> nat \<Rightarrow> regex \<Rightarrow> regex" where
  "between lo hi r = Then (times lo r) (up_to (hi - lo) r)"

definition high_digit_char :: "char \<Rightarrow> bool" where
  "high_digit_char c = (c \<in> set ''789'')"

definition phone_pattern :: regex where
  "phone_pattern = Then (Or (Then (opt (Chr (\<lambda>c. c = CHR ''+''))) (lit ''256'')) (lit ''0''))
     (Then (Chr high_digit_char) (times 8 digit))"

definition redacted_amount :: regex where
  "redacted_amount = seqs [Boundary, opt (Then (lit ''UGX'') (star space)),
     alts [Then (between 1 3 digit) (many (Then (lit '','') (times 3 digit))),
           Then (many digit) (lit ''k''), Then (many digit) (lit ''m''), between 5 9 digit],
     Boundary]"

definition otp_pattern :: regex where
  "otp_pattern = seqs [Boundary, times 6 digit, Boundary]"

definition redactPii :: "string option \<Rightarrow> string" where
  "redactPii txt0 =
     (if \<not> truthy_str txt0 then []
      else replace_all otp_pattern ''[OTP_REDACTED]''
        (replace_all redacted_amount ''[AMOUNT_REDACTED]''
          (replace_all phone_pattern ''[PHONE_REDACTED]'' (the txt0))))"

section \<open>Tables\<close>

record trace_row =
  tr_traceId :: uuid
  tr_conversationId :: "uuid option"
  tr_eventId :: "uuid option"
  tr_userId :: "uuid option"
  tr_userPrompt :: string
  tr_modelResponse :: string
  tr_toolCallsJson :: string
  tr_stagedStatus :: string
  tr_userRole :: "string option"
  tr_latencyMs :: "int option"
  tr_evaluated :: bool
  tr_createdAt :: time

record exemplar_row =
  lx_id :: uuid
  lx_category :: string
  lx_triggerKeywords :: "string list"
  lx_userPromptPattern :: string
  lx_learnedGuidance :: string
  lx_confidenceScore :: rat
  lx_occurrenceCount :: int
  lx_status :: string
  lx_createdAt :: time

record reflection_row =
  rf_logId :: uuid
  rf_evaluatedTurnsCount :: nat
  rf_insightsSummary :: string
  rf_identifiedGaps :: json
  rf_createdAt :: time

record learning =
  ln_uuid :: "nat \<Rightarrow> uuid"
  ln_drawn :: nat
  ln_traces :: "trace_row list"
  ln_exemplars :: "exemplar_row list"
  ln_logs :: "reflection_row list"

definition ln_fresh :: "learning \<Rightarrow> uuid" where
  "ln_fresh l = ln_uuid l (ln_drawn l)"

definition ln_draw :: "learning \<Rightarrow> learning" where
  "ln_draw l = l\<lparr>ln_drawn := Suc (ln_drawn l)\<rparr>"

section \<open>Traces\<close>

record telemetry_input =
  ti_conversationId :: "string option"
  ti_eventId :: "string option"
  ti_userId :: "string option"
  ti_userPrompt :: string
  ti_modelResponse :: "string option"
  ti_toolCallsJson :: "string option"
  ti_stagedStatus :: "string option"
  ti_userRole :: "string option"
  ti_latencyMs :: "int option"

text \<open>\<open>s || null\<close>.\<close>

definition or_null :: "string option \<Rightarrow> string option" where
  "or_null s = (if truthy_str s then s else None)"

definition recordTrace :: "time \<Rightarrow> telemetry_input \<Rightarrow> learning \<Rightarrow> learning" where
  "recordTrace t i l = (ln_draw l)\<lparr>ln_traces := ln_traces l @ [
     \<lparr>tr_traceId = ln_fresh l, tr_conversationId = or_null (ti_conversationId i), tr_eventId = or_null (ti_eventId i),
      tr_userId = or_null (ti_userId i), tr_userPrompt = redactPii (Some (ti_userPrompt i)),
      tr_modelResponse = redactPii (ti_modelResponse i), tr_toolCallsJson = redactPii (ti_toolCallsJson i),
      tr_stagedStatus = (if truthy_str (ti_stagedStatus i) then the (ti_stagedStatus i) else ''NONE''),
      tr_userRole = or_null (ti_userRole i),
      tr_latencyMs = (if ti_latencyMs i = Some 0 then None else ti_latencyMs i),
      tr_evaluated = False, tr_createdAt = t\<rparr>]\<rparr>"

definition getRecentTraces :: "nat \<Rightarrow> learning \<Rightarrow> trace_row list" where
  "getRecentTraces limit l = take limit (order_desc tr_createdAt (ln_traces l))"

section \<open>The evaluation cycle\<close>

record evaluation_result =
  ev_evaluatedTurnsCount :: nat
  ev_confirmedCount :: nat
  ev_rejectedCount :: nat
  ev_clarificationCount :: nat
  ev_insightsSummary :: string
  ev_newExemplarsCount :: nat
  ev_tier1ParserSuggestions :: "string list option"

definition bullet_mark :: string where
  "bullet_mark = [CHR 0xE2, CHR 0x80, CHR 0xA2]"

definition line_break :: string where
  "line_break = [CHR 0x0A]"

definition with_status :: "string \<Rightarrow> trace_row list \<Rightarrow> trace_row list" where
  "with_status s = filter (\<lambda>t. tr_stagedStatus t = s)"

definition problem_line :: "trace_row \<Rightarrow> string" where
  "problem_line t = ''Prompt: \"'' @ redactPii (Some (tr_userPrompt t)) @ ''\" -> Tool: ''
     @ (if tr_toolCallsJson t = [] then ''none'' else redactPii (Some (tr_toolCallsJson t)))"

definition eval_prompt :: "trace_row list \<Rightarrow> string" where
  "eval_prompt problematic = join line_break [
     ''Analyze these anonymized AI interaction traces where users rejected an action or needed clarification:'',
     join line_break (take 10 (map problem_line problematic)),
     [],
     ''Provide 1 concise, generalized, PII-free exemplar for how the AI can improve its interpretation of similar requests in the future.'',
     ''IMPORTANT: Do NOT include any real names, phone numbers, or exact amounts.'']"

text \<open>The guidance of an answer: its text, trimmed and redacted, when it is long enough.\<close>

definition distilled :: "string option \<Rightarrow> string option" where
  "distilled answer =
     (let g = redactPii (map_option js_trim answer) in if g \<noteq> [] \<and> length g > 10 then Some g else None)"

definition new_insight :: "time \<Rightarrow> string \<Rightarrow> uuid \<Rightarrow> exemplar_row" where
  "new_insight t g i = \<lparr>lx_id = i, lx_category = ''REFLECTION_INSIGHT'',
     lx_triggerKeywords = [''help'', ''correct'', ''pledge'', ''payment'', ''kwanjula''],
     lx_userPromptPattern = ''Reflection from rejected/clarified turns'', lx_learnedGuidance = g,
     lx_confidenceScore = 9/10, lx_occurrenceCount = 1, lx_status = ''PENDING_REVIEW'', lx_createdAt = t\<rparr>"

definition seen_again :: "exemplar_row \<Rightarrow> exemplar_row" where
  "seen_again x = x\<lparr>lx_occurrenceCount := lx_occurrenceCount x + 1,
     lx_status := (if lx_occurrenceCount x + 1 \<ge> 2 then ''APPROVED'' else lx_status x)\<rparr>"

definition exemplar_update :: "uuid \<Rightarrow> (exemplar_row \<Rightarrow> exemplar_row) \<Rightarrow> learning \<Rightarrow> learning" where
  "exemplar_update i f l = l\<lparr>ln_exemplars := update_where (\<lambda>x. lx_id x = i) f (ln_exemplars l)\<rparr>"

text \<open>Remembering a guidance: whether it is new.\<close>

definition remember :: "time \<Rightarrow> string \<Rightarrow> learning \<Rightarrow> learning \<times> bool" where
  "remember t g l =
     (case List.find (\<lambda>x. lx_category x = ''REFLECTION_INSIGHT'' \<and> lx_learnedGuidance x = g) (ln_exemplars l) of
        Some x \<Rightarrow> (exemplar_update (lx_id x) (\<lambda>_. seen_again x) l, False)
      | None \<Rightarrow> ((ln_draw l)\<lparr>ln_exemplars := ln_exemplars l @ [new_insight t g (ln_fresh l)]\<rparr>, True))"

definition tier1_suggestion :: string where
  "tier1_suggestion = ''Suggested tier1-parser.ts regex addition: /^(record|add|paid)'' @ [CHR 0x5C] @ ''s+('' @ [CHR 0x5C]
     @ ''d+k?)'' @ [CHR 0x5C] @ ''s+from'' @ [CHR 0x5C] @ ''s+([a-z'' @ [CHR 0x5C] @ ''s]+)/i for direct contribution logging''"

definition distil ::
  "(string \<Rightarrow> error + string option) \<Rightarrow> time \<Rightarrow> trace_row list \<Rightarrow> learning \<Rightarrow> learning \<times> string list \<times> nat" where
  "distil llm t problematic l =
     (if problematic = [] then (l, [], 0)
      else case llm (eval_prompt problematic) of
        Inl e \<Rightarrow> (l, [], 0)
      | Inr answer \<Rightarrow>
         (case distilled answer of
            None \<Rightarrow> (l, [], 0)
          | Some g \<Rightarrow> (let (l', isNew) = remember t g l
              in (l', [line_break @ ''Distilled Anonymized Insight:'' @ line_break @ g], if isNew then 1 else 0))))"

definition counted :: "nat \<Rightarrow> string" where
  "counted n = nat_to_dec n"

definition runEvaluationCycle ::
  "(string \<Rightarrow> error + string option) \<Rightarrow> time \<Rightarrow> nat \<Rightarrow> learning \<Rightarrow> learning \<times> evaluation_result" where
  "runEvaluationCycle llm t limit l =
     (let traces = take limit (sort_key tr_createdAt (filter (\<lambda>t. \<not> tr_evaluated t) (ln_traces l)))
      in if traces = [] then
           (l, \<lparr>ev_evaluatedTurnsCount = 0, ev_confirmedCount = 0, ev_rejectedCount = 0, ev_clarificationCount = 0,
              ev_insightsSummary = ''No un-evaluated interaction traces found.'', ev_newExemplarsCount = 0,
              ev_tier1ParserSuggestions = None\<rparr>)
         else
           let confirmed = with_status ''CONFIRMED'' traces; rejected = with_status ''REJECTED'' traces;
               clarifications = with_status ''CLARIFICATION'' traces;
               (l1, insight, created) = distil llm t (rejected @ clarifications) l;
               suggestions = (if length confirmed > 3 then [tier1_suggestion] else []);
               l2 = l1\<lparr>ln_traces := update_where (\<lambda>x. tr_traceId x \<in> set (map tr_traceId traces))
                        (\<lambda>x. x\<lparr>tr_evaluated := True\<rparr>) (ln_traces l1)\<rparr>;
               summary = join line_break ([''Evaluated '' @ counted (length traces) @ '' un-evaluated interaction turns:'',
                   bullet_mark @ '' '' @ counted (length confirmed) @ '' actions confirmed by users.'',
                   bullet_mark @ '' '' @ counted (length rejected) @ '' actions rejected/cancelled by users.'',
                   bullet_mark @ '' '' @ counted (length clarifications) @ '' turns required user clarification.''] @ insight)
           in ((ln_draw l2)\<lparr>ln_logs := ln_logs l2 @ [\<lparr>rf_logId = ln_fresh l2, rf_evaluatedTurnsCount = length traces,
                  rf_insightsSummary = summary, rf_identifiedGaps = JObj [(''rejectedCount'', JInt (int (length rejected))),
                    (''clarificationCount'', JInt (int (length clarifications))),
                    (''tier1Suggestions'', JArr (map JStr suggestions))], rf_createdAt = t\<rparr>]\<rparr>,
               \<lparr>ev_evaluatedTurnsCount = length traces, ev_confirmedCount = length confirmed,
                ev_rejectedCount = length rejected, ev_clarificationCount = length clarifications,
                ev_insightsSummary = summary, ev_newExemplarsCount = created,
                ev_tier1ParserSuggestions = Some suggestions\<rparr>))"

definition getLatestReflectionLog :: "learning \<Rightarrow> reflection_row option" where
  "getLatestReflectionLog l = (case order_desc rf_createdAt (ln_logs l) of [] \<Rightarrow> None | r # _ \<Rightarrow> Some r)"

definition listExemplars :: "string option \<Rightarrow> learning \<Rightarrow> exemplar_row list" where
  "listExemplars status l =
     order_desc lx_occurrenceCount (order_desc lx_createdAt
       (filter (\<lambda>x. if truthy_str status then lx_status x = the status else True) (ln_exemplars l)))"

definition approveExemplar :: "uuid \<Rightarrow> learning \<Rightarrow> learning \<times> (error + unit)" where
  "approveExemplar i l =
     (if List.find (\<lambda>x. lx_id x = i) (ln_exemplars l) = None then (l, Inl (Db RecordNotFound))
      else (exemplar_update i (\<lambda>x. x\<lparr>lx_status := ''APPROVED''\<rparr>) l, Inr ()))"

section \<open>Guidance in later prompts\<close>

text \<open>The approved guidance that was read last, and until when it is used again.\<close>

type_synonym addenda = "(time \<times> (string \<times> string list \<times> string) list) option"

definition cache_ttl :: int where
  "cache_ttl = 5 * 60 * 1000"

definition approved_exemplars :: "learning \<Rightarrow> (string \<times> string list \<times> string) list" where
  "approved_exemplars l = take 20 (map (\<lambda>x. (lx_category x, lx_triggerKeywords x, lx_learnedGuidance x))
     (sort_key (\<lambda>x. - lx_confidenceScore x) (filter (\<lambda>x. lx_status x = ''APPROVED'') (ln_exemplars l))))"

text \<open>The words of a text: its runs of word characters.\<close>

fun word_runs :: "string \<Rightarrow> string list" where
  "word_runs [] = [[]]"
| "word_runs (c # cs) =
     (if word_char c then (case word_runs cs of [] \<Rightarrow> [[c]] | w # ws \<Rightarrow> (c # w) # ws) else [] # word_runs cs)"

definition tokens_of :: "string \<Rightarrow> string list" where
  "tokens_of s = filter (\<lambda>w. length w > 2) (word_runs s)"

definition triggered :: "string \<Rightarrow> string \<times> string list \<times> string \<Rightarrow> bool" where
  "triggered prompt ex =
     (case ex of (category, keywords, guidance) \<Rightarrow>
        keywords = [] \<or> list_ex (\<lambda>kw. contains (ascii_lower kw) prompt \<or> ascii_lower kw \<in> set (tokens_of prompt)) keywords)"

definition ruler :: string where
  "ruler = replicate 60 CHR ''=''"

definition context_text :: "(string \<times> string list \<times> string) list \<Rightarrow> string" where
  "context_text exs = join line_break ([ruler, ''LEARNED DOMAIN KNOWLEDGE & EXEMPLARY PATTERNS (SELF-LEARNING)'', ruler,
     ''These dynamic guidance patterns were derived from observed successful interactions:'', []]
     @ map (\<lambda>(category, keywords, guidance). bullet_mark @ '' ['' @ category @ ''] '' @ guidance) exs)"

definition getRelevantContext :: "time \<Rightarrow> string \<Rightarrow> learning \<Rightarrow> addenda \<Rightarrow> addenda \<times> string" where
  "getRelevantContext t userPrompt l cache =
     (let cache' = (case cache of
            Some (expiresAt, exs) \<Rightarrow> if expiresAt < t then Some (t + cache_ttl, approved_exemplars l) else cache
          | None \<Rightarrow> Some (t + cache_ttl, approved_exemplars l));
          active = snd (the cache');
          matched = filter (triggered (ascii_lower userPrompt)) active;
          top = take 5 (if length matched > 0 then matched else active)
      in (cache', if active = [] then [] else if top = [] then [] else context_text top))"

definition clearCache :: "addenda \<Rightarrow> addenda" where
  "clearCache cache = None"

section \<open>The curated exemplars\<close>

definition curated :: "string \<Rightarrow> string list \<Rightarrow> string \<Rightarrow> string \<Rightarrow> time \<Rightarrow> uuid \<Rightarrow> exemplar_row" where
  "curated category keywords promptPattern guidance t i = \<lparr>lx_id = i, lx_category = category,
     lx_triggerKeywords = keywords, lx_userPromptPattern = promptPattern, lx_learnedGuidance = guidance,
     lx_confidenceScore = 1, lx_occurrenceCount = 5, lx_status = ''APPROVED'', lx_createdAt = t\<rparr>"

definition backquote :: string where
  "backquote = [CHR 0x60]"

definition curated_exemplars :: "(time \<Rightarrow> uuid \<Rightarrow> exemplar_row) list" where
  "curated_exemplars = [
     curated ''KWANJULA_CULTURAL_GIFTS'' [''kwanjula'', ''amakanzu'', ''omutwalo'', ''ebibo'', ''amajani'', ''mutwalo'']
       ''Extract budget items for Kwanjula''
       ''When users upload or mention Kwanjula items (Amakanzu, Omutwalo, Ebibo, Amajani), group them under Cultural Introduction Budget items.'',
     curated ''FUNERAL_MABEGO_RAISING'' [''funeral'', ''burial'', ''mabego'', ''condolence'', ''vigil'']
       ''Funeral / Mabego contribution tracking''
       ''For funeral (Mabego) events, prioritize rapid contribution recording and generate public transparency dashboard links.'',
     curated ''MOMO_SCREENSHOT_RECEIPT'' [''momo'', ''screenshot'', ''mobile money'', ''mtn'', ''airtel'', ''receipt'']
       ''Extract Mobile Money contribution screenshot''
       ''When a Mobile Money receipt/screenshot is uploaded, extract the sender name, transaction ID, and amount, then stage for confirmation.'',
     curated ''PAYMENT_CORRECTION'' [''correct'', ''wrong'', ''mistake'', ''payment'', ''pledge'']
       ''Correct payment amount for contributor''
       (''When a user asks to correct a payment or pledge, use '' @ backquote @ ''correct_payment'' @ backquote @ '' or ''
         @ backquote @ ''correct_pledge'' @ backquote @ '' and stage for explicit confirmation.''),
     curated ''ROLE_EXPLANATION'' [''invite'', ''role'', ''permission'', ''coordinator'', ''finance'']
       ''Attempting restricted role action''
       ''Always explain what the user CAN do based on their assigned role before stating restricted capabilities.'']"

definition seedInitialExemplars :: "time \<Rightarrow> learning \<Rightarrow> learning" where
  "seedInitialExemplars t l =
     (if length (ln_exemplars l) > 0 then l
      else foldl (\<lambda>m mk. (ln_draw m)\<lparr>ln_exemplars := ln_exemplars m @ [mk t (ln_fresh m)]\<rparr>) l curated_exemplars)"

end
