(* ===== verification/Learning_Guarantees.thy ===== *)
theory Learning_Guarantees
  imports Learning "HOL-Library.Sublist"
begin

text \<open>
  What the assistant keeps of its turns: which texts the redaction leaves, and that no phone
  number reaches the traces, the prompts of the evaluation, the learned guidance or the
  reflection logs, whatever is recorded and whatever the model answers.
\<close>

section \<open>Phone numbers\<close>

definition phone_number :: "string \<Rightarrow> bool" where
  "phone_number u = (let p = take (length u - 9) u; r = drop (length u - 9) u
     in p \<in> {''+256'', ''256'', ''0''} \<and> length r = 9 \<and> high_digit_char (hd r) \<and> list_all is_digit (tl r))"

definition phone_free :: "string \<Rightarrow> bool" where
  "phone_free s = (\<forall>u. sublist u s \<longrightarrow> \<not> phone_number u)"

lemma phone_number_split:
  "phone_number u \<Longrightarrow> \<exists>p d ds. u = p @ d # ds \<and> p \<in> {''+256'', ''256'', ''0''} \<and> high_digit_char d
     \<and> length ds = 8 \<and> list_all is_digit ds"
proof -
  assume u: "phone_number u"
  let ?r = "drop (length u - 9) u"
  have r: "length ?r = 9" using u by (simp add: phone_number_def Let_def)
  then obtain d ds where r': "?r = d # ds" by (cases ?r) auto
  have "u = take (length u - 9) u @ d # ds" using r' by (metis append_take_drop_id)
  moreover have "length ds = 8" using r r' by simp
  ultimately show ?thesis using u r' by (auto simp: phone_number_def Let_def)
qed

lemma high_digit_is_digit: "high_digit_char d \<Longrightarrow> is_digit d"
  by (auto simp: high_digit_char_def is_digit_def)

text \<open>A phone number starts with one of three characters and consists of digits but for a sign.\<close>

lemma phone_number_head: "phone_number u \<Longrightarrow> u \<noteq> [] \<and> hd u \<in> set ''+20''"
  by (drule phone_number_split) auto

lemma phone_number_chars: "phone_number u \<Longrightarrow> c \<in> set u \<Longrightarrow> is_digit c \<or> c = CHR ''+''"
  by (drule phone_number_split) (auto simp: list_all_iff is_digit_bits dest: high_digit_is_digit)

lemma phone_free_Nil [simp]: "phone_free []"
  by (auto simp: phone_free_def dest: phone_number_head)

lemma phone_free_Cons [simp]: "c \<notin> set ''+20'' \<Longrightarrow> phone_free (c # s) \<longleftrightarrow> phone_free s"
proof -
  assume c: "c \<notin> set ''+20''"
  have "\<not> prefix u (c # s)" if "phone_number u" for u
    using phone_number_head [OF that] c by (cases u) auto
  then show ?thesis by (auto simp: phone_free_def sublist_Cons_right)
qed

lemma phone_free_sublist: "phone_free s \<Longrightarrow> sublist t s \<Longrightarrow> phone_free t"
  unfolding phone_free_def by (meson sublist_order.order.trans)

text \<open>Joining two texts by a character that no number contains keeps both free of numbers.\<close>

lemma phone_free_join [simp]:
  assumes c: "\<not> is_digit c" "c \<noteq> CHR ''+''"
  shows "phone_free (a @ c # b) \<longleftrightarrow> phone_free a \<and> phone_free b"
proof
  assume "phone_free (a @ c # b)"
  moreover have "sublist a (a @ c # b)" "sublist b (a @ c # b)"
    using sublist_appendI [of b "a @ [c]" "[]"] by auto
  ultimately show "phone_free a \<and> phone_free b" using phone_free_sublist by blast
next
  assume ab: "phone_free a \<and> phone_free b"
  show "phone_free (a @ c # b)"
    unfolding phone_free_def
  proof (intro allI impI notI)
    fix u assume u: "sublist u (a @ c # b)" "phone_number u"
    then have "c \<notin> set u" using c phone_number_chars by blast
    then have "sublist u a \<or> sublist u b"
      using u(1) phone_number_head [OF u(2)]
      by (auto simp: sublist_append sublist_Cons_right prefix_Cons append_eq_Cons_conv suffix_imp_sublist)
    then show False using ab u(2) by (auto simp: phone_free_def)
  qed
qed

lemma phone_free_join_last [simp]: "\<not> is_digit c \<Longrightarrow> c \<noteq> CHR ''+'' \<Longrightarrow> phone_free (a @ [c]) \<longleftrightarrow> phone_free a"
  using phone_free_join [of c a "[]"] by simp

section \<open>Replacement\<close>

text \<open>A replacement text starting with a character that \<open>u\<close> lacks adds no occurrence of \<open>u\<close> that
  starts before it.\<close>

lemma replaced_prefix:
  assumes "new \<noteq> []" "hd new \<notin> set u" "prefix u (replace_from r new b s)"
  shows "prefix u s"
  using assms
proof (induction r new b s arbitrary: u rule: replace_from.induct)
  case (1 r new b s)
  show ?case
  proof (cases "matches r (b, s, [])")
    case Nil
    show ?thesis
    proof (cases s)
      case (Cons c s')
      have "prefix u (c # replace_from r new (c # b) s')" using 1(6) Nil Cons by (simp add: replace_from.simps [of r new b])
      then show ?thesis
        using "1.IH"(1) [OF Nil Cons, of "tl u"] 1(4,5) Cons by (cases u) auto
    qed (use 1(6) Nil in \<open>simp add: replace_from.simps [of r new b]\<close>)
  next
    case (Cons p ps)
    have "\<exists>z. replace_from r new b s = new @ z" using Cons by (subst replace_from.simps) auto
    then obtain z where "replace_from r new b s = new @ z" by blast
    then have "prefix u (new @ z)" using 1(6) by simp
    then have "u = []" using 1(4,5) by (cases u; cases new) auto
    then show ?thesis by simp
  qed
qed

text \<open>Nor does it add one within the replacement text or after it.\<close>

lemma append_sublist:
  assumes "u \<noteq> []" "hd u \<notin> set new" "sublist u (new @ s)"
  shows "sublist u s"
  using assms
proof (induction new)
  case (Cons c new)
  then have "\<not> prefix u (c # new @ s)" by (cases u) auto
  then show ?case using Cons by (simp add: sublist_Cons_right)
qed simp

lemma replaced_sublist:
  assumes "new \<noteq> []" "hd new \<notin> set u" "u \<noteq> []" "hd u \<notin> set new" "sublist u (replace_from r new b s)"
  shows "sublist u s"
  using assms
proof (induction r new b s rule: replace_from.induct)
  case (1 r new b s)
  have step: "sublist u (c # s')" if "sublist u (c # replace_from r new (c # b) s')"
    and IH: "sublist u (replace_from r new (c # b) s') \<Longrightarrow> sublist u s'" for c s'
  proof -
    from that(1) consider "prefix u (c # replace_from r new (c # b) s')" | "sublist u s'"
      using IH by (auto simp: sublist_Cons_right)
    then show ?thesis
    proof cases
      case 1
      then have "prefix (tl u) (replace_from r new (c # b) s')" "hd u = c" using \<open>u \<noteq> []\<close> by (cases u; auto)+
      then have "prefix (tl u) s'" using replaced_prefix \<open>new \<noteq> []\<close> \<open>hd new \<notin> set u\<close> \<open>u \<noteq> []\<close>
        by (metis list.set_sel(2))
      then have "prefix u (c # s')" using \<open>hd u = c\<close> \<open>u \<noteq> []\<close> by (cases u) auto
      then show ?thesis by (rule prefix_imp_sublist)
    qed (simp add: sublist_Cons_right)
  qed
  show ?case
  proof (cases "matches r (b, s, [])")
    case Nil
    then show ?thesis
      using "1.IH"(1) 1(4-8) step by (cases s) (auto simp: replace_from.simps [of r new b])
  next
    case (Cons p ps)
    show ?thesis
    proof (cases "length (remaining p) < length s")
      case True
      have "sublist u (replace_from r new (fst p) (remaining p))"
        using 1(6-8) Cons True append_sublist by (simp add: replace_from.simps [of r new b])
      then have "sublist u (remaining p)" using "1.IH"(2) [OF Cons True] 1(4-7) by blast
      moreover have "suffix (remaining p) s"
        using matches_splits [of p r "(b, s, [])"] Cons by (auto simp: remaining_def suffix_def)
      ultimately show ?thesis by (meson suffix_imp_sublist sublist_order.order.trans)
    next
      case False
      then show ?thesis
        using "1.IH"(3) 1(4-8) Cons step append_sublist [OF 1(6,7)] append_sublist [OF 1(6,7), of "[]"]
        by (cases s) (auto simp: replace_from.simps [of r new b] split: if_splits)
    qed
  qed
qed

lemma phone_free_replaced:
  assumes "new \<noteq> []" "list_all (\<lambda>c. \<not> is_digit c \<and> c \<noteq> CHR ''+'') new" "phone_free s"
  shows "phone_free (replace_all r new s)"
  unfolding phone_free_def replace_all_def
proof (intro allI impI notI)
  fix u assume u: "sublist u (replace_from r new [] s)" "phone_number u"
  have chars: "c \<notin> set new" if "c \<in> set u" for c
    using phone_number_chars [OF u(2) that] assms(2) by (auto simp: list_all_iff)
  have "hd new \<notin> set u" using chars [of "hd new"] assms(1) by auto
  moreover have "hd u \<notin> set new" using phone_number_head [OF u(2)] by (intro chars) simp
  ultimately have "sublist u s" using replaced_sublist assms(1) phone_number_head [OF u(2)] u(1) by blast
  then show False using assms(3) u(2) by (auto simp: phone_free_def)
qed

section \<open>The redaction removes every phone number\<close>

lemma matches_then_nothing [simp]: "concat (map (matches Eps) ps) = ps"
  by (induction ps) simp_all

lemma matches_seqs: "matches (seqs (r # rs)) p = concat (map (matches (seqs rs)) (matches r p))"
  by (cases rs) simp_all

lemma digits_match:
  "list_all is_digit ds \<Longrightarrow> matches (times (length ds) digit) (b, ds @ s, cs) = [(rev ds @ b, s, cs)]"
  by (induction ds arbitrary: b) (simp_all add: times_def matches_seqs digit_def)

text \<open>The pattern matches at every phone number, and what it matches is not empty.\<close>

lemma phone_pattern_finds:
  assumes "phone_number u" "prefix u s"
  shows "matches phone_pattern (b, s, []) \<noteq> []"
proof -
  obtain p d ds where u': "u = p @ d # ds" and p: "p \<in> {''+256'', ''256'', ''0''}" and d: "high_digit_char d"
    and ds: "length ds = 8" "list_all is_digit ds"
    using phone_number_split [OF assms(1)] by blast
  obtain z where u: "s = p @ d # ds @ z" using assms(2) u' by (auto simp: prefix_def)
  have "matches (times 8 digit) (c, ds @ z, cs) = [(rev ds @ c, z, cs)]" for c cs
    using digits_match [OF ds(2), of c z cs] ds(1) by simp
  then show ?thesis using p d by (auto simp: u phone_pattern_def opt_def)
qed

lemma phone_match_consumes:
  "q \<in> set (matches phone_pattern p) \<Longrightarrow> length (remaining q) < length (remaining p)"
  unfolding phone_pattern_def
  by (cases p)
    (auto simp: remaining_def opt_def split: list.splits if_splits
      dest!: matches_shorter [of _ "times 8 digit", unfolded remaining_def])

lemma phone_replaced:
  assumes "new \<noteq> []" "list_all (\<lambda>c. \<not> is_digit c \<and> c \<noteq> CHR ''+'') new" "phone_number u"
  shows "\<not> sublist u (replace_from phone_pattern new b s)"
  using assms(1,2)
proof (induction phone_pattern new b s rule: replace_from.induct)
  case (1 new b s)
  have free: "c \<notin> set new" if "c \<in> set u" for c
    using phone_number_chars [OF assms(3) that] 1(5) by (auto simp: list_all_iff)
  have u: "u \<noteq> []" "hd new \<notin> set u" "hd u \<notin> set new"
    using phone_number_head [OF assms(3)] free [of "hd new"] free [of "hd u"] 1(4) by auto
  show ?case
  proof (cases "matches phone_pattern (b, s, [])")
    case Nil
    have "\<not> prefix u (replace_from phone_pattern new b s)"
      using replaced_prefix [OF 1(4) u(2)] phone_pattern_finds [OF assms(3)] Nil by blast
    then show ?thesis
      using Nil u(1) "1.hyps"(1) [OF Nil] 1(4,5)
      by (cases s) (auto simp: replace_from.simps [of _ new b] sublist_Cons_right)
  next
    case (Cons p ps)
    have short: "length (remaining p) < length s"
      using phone_match_consumes [of p "(b, s, [])"] Cons by (simp add: remaining_def)
    have "\<not> sublist u (replace_from phone_pattern new (fst p) (remaining p))"
      using "1.hyps"(2) [OF Cons short] 1(4,5) by blast
    then show ?thesis
      using append_sublist [OF u(1,3)] Cons short by (auto simp: replace_from.simps [of _ new b])
  qed
qed

lemma phone_free_redacted [simp]: "phone_free (redactPii t)"
proof (cases "truthy_str t")
  case True
  have "phone_free (replace_all phone_pattern ''[PHONE_REDACTED]'' (the t))"
    unfolding phone_free_def replace_all_def
    using phone_replaced [of "''[PHONE_REDACTED]''"] by (auto simp: is_digit_bits)
  then show ?thesis
    using True by (simp add: redactPii_def phone_free_replaced is_digit_bits)
qed (simp add: redactPii_def)

section \<open>What is kept\<close>

lemma phone_free_short: "length s < 10 \<Longrightarrow> phone_free s"
  unfolding phone_free_def
  by (auto dest!: phone_number_split sublist_length_le)

lemma phone_free_count [simp]: "n < 1000 \<Longrightarrow> phone_free (counted n)"
  unfolding counted_def
  by (rule phone_free_short)
    (subst nat_to_dec.simps, subst nat_to_dec.simps, subst nat_to_dec.simps, simp)

lemma phone_free_lines: "list_all phone_free xs \<Longrightarrow> phone_free (join line_break xs)"
  by (induction line_break xs rule: join.induct) (simp_all add: line_break_def is_digit_bits)

lemma phone_free_eval_prompt: "phone_free (eval_prompt ts)"
proof -
  have "phone_free (problem_line t)" for t
    by (simp add: problem_line_def is_digit_bits)
  then show ?thesis
    unfolding eval_prompt_def
    by (intro phone_free_lines) (auto simp: list_all_iff is_digit_bits intro!: phone_free_lines dest!: in_set_takeD)
qed

definition phone_clean :: "learning \<Rightarrow> bool" where
  "phone_clean l =
     (list_all (\<lambda>t. phone_free (tr_userPrompt t) \<and> phone_free (tr_modelResponse t) \<and> phone_free (tr_toolCallsJson t))
        (ln_traces l)
      \<and> list_all (\<lambda>x. phone_free (lx_category x) \<and> phone_free (lx_learnedGuidance x)) (ln_exemplars l)
      \<and> list_all (\<lambda>r. phone_free (rf_insightsSummary r)) (ln_logs l))"

lemma distilled_phone_free: "distilled answer = Some g \<Longrightarrow> phone_free g"
  by (auto simp: distilled_def Let_def split: if_splits)

lemma remember_clean: "phone_clean l \<Longrightarrow> phone_free g \<Longrightarrow> phone_clean (fst (remember t g l))"
  by (auto simp: remember_def phone_clean_def ln_draw_def new_insight_def exemplar_update_def seen_again_def
      list_all_iff in_update_where is_digit_bits find_Some_iff split: option.splits)

lemma distil_clean:
  assumes "phone_clean l" "distil llm t ps l = (l', insight, k)"
  shows "phone_clean l' \<and> list_all phone_free insight"
proof (cases "distilled (case llm (eval_prompt ps) of Inl e \<Rightarrow> None | Inr a \<Rightarrow> a)")
  case None
  then show ?thesis using assms
    by (auto simp: distil_def distilled_def redactPii_def truthy_str_def split: if_splits sum.splits option.splits)
next
  case (Some g)
  have "phone_clean (fst (remember t g l))" by (rule remember_clean [OF assms(1) distilled_phone_free [OF Some]])
  then show ?thesis using assms distilled_phone_free [OF Some]  Some
    by (auto simp: distil_def line_break_def is_digit_bits split: if_splits sum.splits prod.splits)
qed

lemma cycle_clean:
  assumes l: "phone_clean l" and limit: "limit < 1000"
  shows "phone_clean (fst (runEvaluationCycle llm t limit l))"
proof -
  define traces where "traces = take limit (sort_key tr_createdAt (filter (\<lambda>t. \<not> tr_evaluated t) (ln_traces l)))"
  define ps where "ps = with_status ''REJECTED'' traces @ with_status ''CLARIFICATION'' traces"
  obtain l1 insight k where d: "distil llm t ps l = (l1, insight, k)" by (cases "distil llm t ps l") auto
  have few: "length traces < 1000" "length (with_status s traces) < 1000" for s
    using limit length_filter_le [of _ traces] by (auto simp: traces_def with_status_def intro: le_less_trans)
  have clean: "phone_clean l1" "list_all phone_free insight" using distil_clean [OF l d] by auto
  have summary: "phone_free (join line_break ([''Evaluated '' @ counted (length traces) @ '' un-evaluated interaction turns:'',
       bullet_mark @ '' '' @ counted (length (with_status ''CONFIRMED'' traces)) @ '' actions confirmed by users.'',
       bullet_mark @ '' '' @ counted (length (with_status ''REJECTED'' traces)) @ '' actions rejected/cancelled by users.'',
       bullet_mark @ '' '' @ counted (length (with_status ''CLARIFICATION'' traces)) @ '' turns required user clarification.''] @ insight))"
    by (rule phone_free_lines) (simp add: few clean(2) bullet_mark_def is_digit_bits)
  have "phone_clean (l1\<lparr>ln_traces := update_where P (\<lambda>x. x\<lparr>tr_evaluated := True\<rparr>) (ln_traces l1)\<rparr>)" for P
    using clean(1) by (auto simp: phone_clean_def list_all_iff in_update_where)
  then show ?thesis
    using l d summary
    by (auto simp: runEvaluationCycle_def Let_def traces_def [symmetric] ps_def [symmetric] phone_clean_def ln_draw_def
        list_all_iff)
qed

lemma record_clean: "phone_clean l \<Longrightarrow> phone_clean (recordTrace t i l)"
  by (simp add: recordTrace_def phone_clean_def ln_draw_def)

lemma approve_clean: "phone_clean l \<Longrightarrow> phone_clean (fst (approveExemplar i l))"
  by (auto simp: approveExemplar_def exemplar_update_def phone_clean_def list_all_iff in_update_where)

lemma seed_clean: "phone_clean l \<Longrightarrow> phone_clean (seedInitialExemplars t l)"
  by (simp add: seedInitialExemplars_def curated_exemplars_def curated_def phone_clean_def ln_draw_def ln_fresh_def
      backquote_def is_digit_bits)

text \<open>Everything that writes the tables: turns, evaluation cycles over at most 999 traces (the callers
  pass 100) with any model, approvals and the seed.\<close>

inductive learning_step :: "learning \<Rightarrow> learning \<Rightarrow> bool" where
  turn: "learning_step l (recordTrace t i l)"
| cycle: "limit < 1000 \<Longrightarrow> learning_step l (fst (runEvaluationCycle llm t limit l))"
| approval: "learning_step l (fst (approveExemplar x l))"
| seeding: "learning_step l (seedInitialExemplars t l)"

lemma learns_clean: "learning_step l l' \<Longrightarrow> phone_clean l \<Longrightarrow> phone_clean l'"
  by (induction rule: learning_step.induct) (simp_all add: record_clean cycle_clean approve_clean seed_clean)

lemma learning_clean: "learning_step\<^sup>*\<^sup>* l l' \<Longrightarrow> phone_clean l \<Longrightarrow> phone_clean l'"
  by (induction rule: rtranclp_induct) (auto intro: learns_clean)

lemma context_phone_free: "phone_clean l \<Longrightarrow> phone_free (snd (getRelevantContext t prompt l None))"
proof -
  assume l: "phone_clean l"
  have ex: "phone_free category \<and> phone_free guidance" if "(category, kws, guidance) \<in> set (approved_exemplars l)"
    for category kws guidance
    using l that by (auto simp: approved_exemplars_def phone_clean_def list_all_iff dest!: in_set_takeD)
  have "phone_free (context_text exs)" if "set exs \<subseteq> set (approved_exemplars l)" for exs
    unfolding context_text_def
    by (rule phone_free_lines)
      (use that ex in \<open>auto simp: list_all_iff ruler_def bullet_mark_def is_digit_bits numeral_eq_Suc\<close>)
  moreover have "set (take 5 (filter P xs)) \<subseteq> set xs" "set (take 5 xs) \<subseteq> set xs" for P and xs :: "(string \<times> string list \<times> string) list"
    using set_take_subset [of 5 "filter P xs"] set_take_subset [of 5 xs] by auto
  ultimately show ?thesis by (simp add: getRelevantContext_def Let_def)
qed

text \<open>C32. Whatever users write, the model answers and administrators approve, in whatever order, no
  Ugandan phone number (a run \<open>+256\<close>, \<open>256\<close> or \<open>0\<close>, then 7 to 9 and eight digits) occurs in a
  stored trace, learned guidance or reflection log, in the text sent to the evaluating model, or
  in the guidance put into a later prompt.
\<close>

theorem no_phone_number_learned:
  assumes "ln_traces l0 = []" "ln_exemplars l0 = []" "ln_logs l0 = []" and "learning_step\<^sup>*\<^sup>* l0 l"
  shows "phone_clean l \<and> phone_free (eval_prompt (ln_traces l)) \<and> phone_free (snd (getRelevantContext t prompt l None))"
proof -
  have "phone_clean l" by (rule learning_clean [OF assms(4)]) (simp add: phone_clean_def assms(1-3))
  then show ?thesis by (simp add: phone_free_eval_prompt context_phone_free)
qed

text \<open>What is not redacted: an amount of four digits, and the currency before it; and a six-digit
  code is taken for an amount, so that the third rule never applies to it.\<close>

lemma small_amount_kept: "redactPii (Some ''UGX 5000'') = ''UGX 5000''"
  by code_simp

lemma code_taken_for_amount: "redactPii (Some ''pin 123456'') = ''pin [AMOUNT_REDACTED]''"
  by code_simp

definition demo_turn :: telemetry_input where
  "demo_turn = \<lparr>ti_conversationId = None, ti_eventId = Some ''e1'', ti_userId = Some ''u1'',
     ti_userPrompt = ''add Jane 0772123456'', ti_modelResponse = Some ''noted +256772123456'', ti_toolCallsJson = None,
     ti_stagedStatus = Some ''REJECTED'', ti_userRole = None, ti_latencyMs = Some 12\<rparr>"

definition no_learning :: learning where
  "no_learning = \<lparr>ln_uuid = nat_to_dec, ln_drawn = 0, ln_traces = [], ln_exemplars = [], ln_logs = []\<rparr>"

definition demo_guided :: learning where
  "demo_guided = fst (runEvaluationCycle (\<lambda>p. Inr (Some ''Ask before calling 0772123456 again.'')) 2 100
     (recordTrace 1 demo_turn no_learning))"

lemma demo_guidance: "map lx_learnedGuidance (ln_exemplars demo_guided) = [''Ask before calling [PHONE_REDACTED] again.'']"
  by code_simp

lemma no_phone_number_learned_witness:
  "phone_clean demo_guided \<and> map tr_userPrompt (ln_traces demo_guided) = [''add Jane [PHONE_REDACTED]'']
   \<and> \<not> phone_free ''add Jane 0772123456''"
proof -
  have "learning_step no_learning (recordTrace 1 demo_turn no_learning)" by (rule learning_step.turn)
  moreover have "learning_step (recordTrace 1 demo_turn no_learning) demo_guided"
    unfolding demo_guided_def by (rule learning_step.cycle) simp
  ultimately have "learning_step\<^sup>*\<^sup>* no_learning demo_guided" by (meson converse_rtranclp_into_rtranclp r_into_rtranclp)
  moreover have "map tr_userPrompt (ln_traces demo_guided) = [''add Jane [PHONE_REDACTED]'']" by code_simp
  moreover have "sublist ''0772123456'' ''add Jane 0772123456''" "phone_number ''0772123456''" by code_simp+
  ultimately show ?thesis
    using no_phone_number_learned [of no_learning demo_guided] by (auto simp: no_learning_def phone_free_def)
qed

end
