(* ===== verification/Worker.thy ===== *)
theory Worker
  imports Outbox_Drain Document_Reading Sms_Service Identity Billing Learning
begin

text \<open>
  The background process under \<^verbatim>\<open>apps/worker/src\<close>: the handlers it binds to the topics of the outbox
  (\<^verbatim>\<open>outbox-handlers.registrar.ts\<close>), and what one tick of each of its schedulers does
  (\<^verbatim>\<open>drain-scheduler.service.ts\<close>, \<^verbatim>\<open>stuck-payment-alert-scheduler.service.ts\<close>,
  \<^verbatim>\<open>learning-scheduler.service.ts\<close>). The ticks of one scheduler never overlap: its flag is set for the
  length of a tick, and a tick that finds it set does nothing. Log lines are not part of the state.
\<close>

section \<open>Topics\<close>

text \<open>The id a payload carries, when it is there and not empty; the services write texts.\<close>

definition payload_id :: "string \<Rightarrow> json \<Rightarrow> uuid option" where
  "payload_id key payload = (case json_field payload key of Some (JStr i) \<Rightarrow> or_null (Some i) | _ \<Rightarrow> None)"

definition on_document_uploaded :: "'k::linorder extraction_env \<Rightarrow> env \<Rightarrow> outbox_message \<Rightarrow> unit svc" where
  "on_document_uploaded dx env msg =
     (case payload_id ''documentId'' (om_payload msg) of
        None \<Rightarrow> svc_ret ()
      | Some i \<Rightarrow> and_then (process_document dx env (om_eventId msg) i) (\<lambda>_. svc_ret ()))"

definition on_sms_campaign :: "sms_provider \<Rightarrow> env \<Rightarrow> outbox_message \<Rightarrow> unit svc" where
  "on_sms_campaign provider env msg =
     (case payload_id ''campaignId'' (om_payload msg) of
        None \<Rightarrow> svc_ret ()
      | Some i \<Rightarrow> processCampaign provider env (om_eventId msg) i)"

definition worker_handlers :: "'k::linorder extraction_env \<Rightarrow> sms_provider \<Rightarrow> env \<Rightarrow> outbox_handlers" where
  "worker_handlers dx provider env = register Map.empty
     [''document.uploaded'' \<mapsto> on_document_uploaded dx env, ''sms.campaign'' \<mapsto> on_sms_campaign provider env]"

section \<open>Ticks\<close>

text \<open>Whether a tick runs, and the flag after it: an error is logged, and the flag is reset in every case.\<close>

definition ticked :: "('s \<Rightarrow> 's) \<Rightarrow> bool \<times> 's \<Rightarrow> bool \<times> 's" where
  "ticked body s = (case s of (running, st) \<Rightarrow> if running then (True, st) else (False, body st))"

definition drain_tick :: "outbox_handlers \<Rightarrow> env \<Rightarrow> store \<Rightarrow> store" where
  "drain_tick handlers env st = fst (drainOnce env handlers 20 st)"

section \<open>Alerts on stuck payments\<close>

text \<open>\<open>Math.round\<close> of a quotient of milliseconds by a minute.\<close>

definition age_minutes :: "time \<Rightarrow> time \<Rightarrow> int" where
  "age_minutes t created = (2 * (t - created) + 60000) div 120000"

definition stuck_line :: "time \<Rightarrow> invoice_row \<Rightarrow> string" where
  "stuck_line t i = ''- '' @ in_reference i @ '' '' @ [CHR 0xE2, CHR 0x80, CHR 0x94] @ '' '' @ int_to_dec (in_amountMinor i)
     @ '' '' @ in_currency i @ '', pending '' @ int_to_dec (age_minutes t (in_createdAt i)) @ ''m (invoice id: '' @ in_id i
     @ '', event: '' @ nullish (in_eventId i) ''account-level'' @ '')''"

definition renderStuckInvoicesEmail :: "time \<Rightarrow> invoice_row list \<Rightarrow> int \<Rightarrow> string" where
  "renderStuckInvoicesEmail t invs thresholdMinutes =
     (let nl = [CHR 0x0A] in
      nat_to_dec (length invs) @ '' payment(s) have been PENDING for over '' @ int_to_dec thresholdMinutes @ '' minutes ''
      @ ''with no webhook resolution:'' @ nl @ nl @ join nl (map (stuck_line t) invs) @ nl @ nl
      @ ''Check each reference on the Muda dashboard. If Muda shows it successful, reconcile it with:'' @ nl
      @ ''POST /admin/invoices/:id/reconcile { '' @ [CHR 0x22] @ ''gatewayTransactionId'' @ [CHR 0x22] @ '': '' @ [CHR 0x22]
      @ ''<muda transaction id>'' @ [CHR 0x22] @ '' }'' @ nl @ nl
      @ ''This alert won'' @ [CHR 0x27] @ ''t repeat for the same invoice while it stays PENDING.'')"

definition stuck_email :: "string \<Rightarrow> int \<Rightarrow> time \<Rightarrow> invoice_row list \<Rightarrow> email_request" where
  "stuck_email adminEmail thresholdMinutes t stuck = \<lparr>em_to = adminEmail,
     em_subject = ''Akabbo: '' @ nat_to_dec (length stuck) @ '' payment(s) stuck PENDING'',
     em_body = renderStuckInvoicesEmail t stuck thresholdMinutes,
     em_idempotencyKey = ''stuck-invoices:'' @ join '','' (map in_id stuck) @ '':'' @ int_to_dec t\<rparr>"

text \<open>The mail provider, when there is one, throws or answers whether the mail was sent; the answer
  is not looked at. The result is the mail that was handed over.\<close>

definition stuck_tick ::
  "(email_request \<Rightarrow> error + bool) option \<Rightarrow> string \<Rightarrow> int \<Rightarrow> env \<Rightarrow> store \<Rightarrow> store \<times> email_request option" where
  "stuck_tick email adminEmail thresholdMinutes env st =
     (let stuck = findStuckPendingInvoices env thresholdMinutes st in
      if length stuck = 0 then (st, None)
      else
        let request = stuck_email adminEmail thresholdMinutes (now env) stuck;
            marked = markStuckAlertSent env (map in_id stuck) st
        in case email of
             None \<Rightarrow> (marked, None)
           | Some send \<Rightarrow> (case send request of Inl e \<Rightarrow> (st, Some request) | Inr _ \<Rightarrow> (marked, Some request)))"

section \<open>Learning\<close>

definition learning_tick :: "(string \<Rightarrow> error + string option) \<Rightarrow> time \<Rightarrow> learning \<Rightarrow> learning" where
  "learning_tick llm t l = fst (runEvaluationCycle llm t 100 l)"

section \<open>The administrators' learning routes\<close>

text \<open>\<^verbatim>\<open>apps/api/src/learning/learning.controller.ts\<close>.\<close>

definition assertLearningSecret :: "string option \<Rightarrow> string option \<Rightarrow> error + unit" where
  "assertLearningSecret adminSecret header =
     (if \<not> truthy_str adminSecret then Inl (Forbidden ''Self-learning surface is not configured (ADMIN_SECRET unset)'')
      else if \<not> truthy_str header \<or> header \<noteq> adminSecret
      then Inl (Forbidden ''Invalid admin secret key for self-learning surface'')
      else Inr ())"

definition with_secret :: "string option \<Rightarrow> string option \<Rightarrow> (learning \<Rightarrow> learning \<times> (error + 'a)) \<Rightarrow>
    learning \<Rightarrow> learning \<times> (error + 'a)" where
  "with_secret adminSecret header m l =
     (case assertLearningSecret adminSecret header of Inl e \<Rightarrow> (l, Inl e) | Inr _ \<Rightarrow> m l)"

definition getMetrics :: "string option \<Rightarrow> string option \<Rightarrow> learning \<Rightarrow> learning \<times> (error + nat \<times> reflection_row option)" where
  "getMetrics adminSecret header =
     with_secret adminSecret header (\<lambda>l. (l, Inr (length (getRecentTraces 50 l), getLatestReflectionLog l)))"

definition api_listExemplars ::
  "string option \<Rightarrow> string option \<Rightarrow> string option \<Rightarrow> learning \<Rightarrow> learning \<times> (error + exemplar_row list)" where
  "api_listExemplars adminSecret header status =
     with_secret adminSecret header (\<lambda>l. (l, Inr (listExemplars status l)))"

definition triggerEvaluation ::
  "string option \<Rightarrow> string option \<Rightarrow> (string \<Rightarrow> error + string option) \<Rightarrow> time \<Rightarrow> learning \<Rightarrow>
   learning \<times> (error + evaluation_result)" where
  "triggerEvaluation adminSecret header llm t =
     with_secret adminSecret header (\<lambda>l. case runEvaluationCycle llm t 100 l of (l', r) \<Rightarrow> (l', Inr r))"

definition api_approveExemplar ::
  "string option \<Rightarrow> string option \<Rightarrow> uuid \<Rightarrow> learning \<Rightarrow> learning \<times> (error + unit)" where
  "api_approveExemplar adminSecret header i = with_secret adminSecret header (approveExemplar i)"

end
