(* ===== verification/Spec2Isabelle.thy ===== *)
theory Spec2Isabelle
  imports Pledge_Book Budget_Service Group_Service Event_Service Membership_Service Outbox_Drain
    Ledger_Query Report_Service Admin_Users Credit_Ledgers
    Sms_Settlement Sessions Public_Guarantees Assistant_Properties
    Document_Properties Agent_Properties Webhook_Properties Sms_Gateway Model_Gateway Local_Storage
    Mail_Gateway Api_Guarantees Service_Guarantees Public_Api Admin_Api Learning_Guarantees Worker_Guarantees
begin

text \<open>
  Verification of Akabbo, a service that keeps the pledges and payments of social events in Uganda.
  The program is an HTTP API (\<^verbatim>\<open>apps/api\<close>) and a background process (\<^verbatim>\<open>apps/worker\<close>) over a set of
  services (\<^verbatim>\<open>libs\<close>) that share one PostgreSQL database through Prisma. A request is authenticated,
  its body is validated, the caller's role in the event is resolved, and one service method runs: it asks a
  permission gate, the status of the event and the entitlements of the plan, and then writes in one
  transaction under row-level security, with an audit row and messages in an outbox that the worker
  drains. An assistant turns text and documents into proposals that a member confirms; what it executes
  are the same service methods. Text messages and turns of the assistant cost credits of a plan that is
  bought through a mobile-money gateway.

  \<^bold>\<open>State.\<close> One record, \<open>store\<close> (theory \<open>Schema\<close>), has a list of rows per table of
  \<^verbatim>\<open>prisma/schema.prisma\<close>, in insertion order, and the supply of fresh ids; records mirror the models,
  datatypes the enums. \<open>Tables\<close> has the statements with the keys and references the schema and the
  migrations impose, the writers of audit and outbox, and the sequencing of statements; \<open>Tenancy\<close> the
  sessions that see one event and what a transaction leaves alone. A service method is a function from the
  store to a new store and an error or a value; a method whose transaction fails returns the old store.
  The in-memory state of a process (token cache, rate limiter, cached guidance, learning tables) is
  explicit in the same way. Shared idioms of the language are in \<open>Akabbo_Prelude\<close>, \<open>Js_Strings\<close>,
  \<open>Js_Numbers\<close> (binary64 on exact rationals), \<open>Js_Regex\<close> (backtracking regular expressions) and \<open>Http\<close>.

  \<^bold>\<open>Ledger\<close> (\<^verbatim>\<open>libs/ledger\<close>, \<^verbatim>\<open>libs/access\<close>, \<^verbatim>\<open>libs/config\<close>): \<open>Money\<close>, \<open>Access\<close>, \<open>Plan_Catalog\<close>,
  \<open>Entitlement\<close>, \<open>Persons\<close>, \<open>Pledge_Service\<close>, \<open>Fulfillment_Service\<close>, \<open>Budget_Service\<close>, \<open>Group_Service\<close>,
  \<open>Event_Service\<close>, \<open>Membership_Service\<close>, \<open>Outbox_Drain\<close>, \<open>Ledger_Query\<close>, \<open>Report_Service\<close>,
  \<open>Admin_Users\<close>, each with the methods of the service it names. \<open>Operations\<close> states the contract the mutating
  methods share as the interfaces \<open>gated_op\<close> and \<open>tenant_op\<close> and interprets them on every method.
  \<open>Ledger_Effects\<close> and \<open>Payment_Effects\<close> give each money operation as one equation on the money tables.
  \<open>Ledger_System\<close> makes the methods the commands of a transition system; \<open>System_Guarantees\<close> proves
  what holds of every reachable store and of every single command (gates, isolation of events, append-only
  history, all or nothing, no payment beyond a commitment unless a commitment was lowered), and
  \<open>Pledge_Book\<close> that the commands refine an abstract book of pledges.

  \<^bold>\<open>Billing, messages, identity, public page\<close>: \<open>Billing\<close> with \<open>Credit_Ledgers\<close> (\<^verbatim>\<open>libs/billing\<close>; the
  interfaces \<open>credit_ledger\<close> and \<open>credit_account\<close>, interpreted on both ledgers: balances never go negative
  in any sequence, and do when two reservations race), \<open>Sms_Service\<close> with \<open>Sms_Settlement\<close>
  (\<^verbatim>\<open>libs/comms\<close>: only messages that have not failed cost a credit), \<open>Identity\<close> with \<open>Sessions\<close>
  (\<^verbatim>\<open>libs/identity\<close>: bounded guesses, separate tokens), \<open>Transparency\<close>, \<open>Public_View\<close> and
  \<open>Public_Guarantees\<close> (\<^verbatim>\<open>libs/transparency\<close>: what a public link shows depends on nothing private).

  \<^bold>\<open>Assistant\<close> (\<^verbatim>\<open>libs/ai\<close>, \<^verbatim>\<open>libs/documents\<close>, \<^verbatim>\<open>libs/budget-intelligence\<close>): \<open>Ai_Amounts\<close>,
  \<open>Tier1_Parser\<close>, \<open>Tool_Executor\<close>, \<open>Ai_Capture\<close> with \<open>Ai_Guarantees\<close> and \<open>Assistant_Properties\<close> (what is
  executed are commands; a proposal is resolved once; forced staging only proposes); \<open>Ai_Mutations\<close>,
  \<open>Ai_Queries\<close>, \<open>Conversations\<close>, \<open>Agent_Loop\<close>, \<open>Agent_Tools\<close> with \<open>Agent_Guarantees\<close> and
  \<open>Agent_Properties\<close> (a turn ends, costs one credit exactly when it is answered and moves no money);
  \<open>Documents\<close>, \<open>Document_Reading\<close> with \<open>Document_Properties\<close> (a document is read once and only leads to
  proposals); \<open>Budget_Knowledge\<close>, \<open>Budget_Advice\<close> (recommendations equal a reference definition);
  \<open>Learning\<close> with \<open>Learning_Guarantees\<close> (no phone number is ever kept or sent).

  \<^bold>\<open>Adapters\<close> (\<^verbatim>\<open>libs/providers\<close>): \<open>Payment_Gateway\<close> with \<open>Webhook_Properties\<close> (a callback is accepted
  without its signature: a purchase can be activated without a payment), \<open>Sms_Gateway\<close>, \<open>Model_Gateway\<close>,
  \<open>Mail_Gateway\<close>, \<open>Local_Storage\<close>.

  \<^bold>\<open>Applications\<close>: \<open>Ledger_Api\<close> with \<open>Api_Guarantees\<close> (any traffic is a sequence of commands of members;
  strangers change nothing), \<open>Service_Api\<close> with \<open>Service_Guarantees\<close>, \<open>Public_Api\<close>, \<open>Admin_Api\<close>, and
  \<open>Worker\<close> with \<open>Worker_Guarantees\<close>. \<open>Demo_Data\<close> is the small event the witnesses run on.

  \<^bold>\<open>Parameters.\<close> What is not in the repository is an argument and nothing is assumed of it beyond what a
  theorem states: the language model (any answer at all), web search, object storage, the network of each
  adapter, the mail and payment providers of a service, key derivation, digests, the token library, JSON and
  URL parsing in text form, \<open>IsUUID\<close>, \<open>IsBase64\<close>, \<open>IsEmail\<close>, \<open>IsDateString\<close> and \<open>Date\<close>, the database's
  collation and case-insensitive match, Unicode lower case and normalisation, random values, and the clock.
  Rounding of the arithmetic on percentages is an argument; the amounts the assistant parses use binary64.

  \<^bold>\<open>Bounds.\<close> Amounts are unbounded integers, as the source's \<open>bigint\<close>; PostgreSQL's 64-bit limit is not
  modelled. A \<open>string\<close> is its UTF-8 bytes, and case folding, blanks and lengths are those of ASCII. Every
  function is total: the loop of a turn recurs on the steps left of \<open>MAX_STEPS\<close> (6), the retries of the
  primary model on the attempts left of \<open>maxAttempts\<close> (4), the matcher of regular expressions on the text
  that is left. Numbers in a query string are the integer numerals. Of a body's optional fields \<open>null\<close> is
  kept apart from absence where the handler does (\<open>field\<close>), and is absence elsewhere.

  \<^bold>\<open>Concurrency.\<close> A service method runs without interruption, except where the source leaves its
  transaction: the race of two reservations, a drain interrupted between claiming and handling, and the credit
  entries a blast writes on another connection are modelled as separate steps.

  \<^bold>\<open>Not modelled\<close>: the system prompts and the descriptions of tools (texts only the model reads), the cloud
  storage client, the stubs that throw on every call, the reading of query strings by the report routes,
  environment parsing, logging, health checks, timers and module wiring.
\<close>

end
